(* ===== verification/Prelude.thy ===== *)
theory Prelude
  imports Main
begin

text \<open>
  What every component of the model shares.

  \<^item> identifiers, instants and the exceptions the services throw;
  \<^item> the result of an operation: an exception or a value, together with the world it leaves
    behind.  The world is kept on the error path too, because several operations of the source
    save a row and then throw (an OTP attempt is counted before \<open>Invalid verification code\<close>);
  \<^item> the table operations behind \<open>findOne\<close>, \<open>find\<close>, \<open>update\<close>, \<open>delete\<close> and \<open>save\<close>: a table is the
    list of its rows, a \<open>where\<close> clause is a predicate;
  \<^item> the generic facts on them, in the collections \<open>tbl\<close> (rewriting) and \<open>res\<close> (results).
\<close>

named_theorems tbl \<open>rewriting of table operations\<close>
named_theorems res \<open>rewriting of operation results\<close>

section \<open>Identifiers, instants, exceptions\<close>

text \<open>UUIDs are strings; an instant is a number of milliseconds since the epoch, as \<open>Date\<close> holds it.\<close>

type_synonym uuid = string
type_synonym time = int

text \<open>
  The exception classes thrown by the services, with the message template (the \<open>${...}\<close> parts of a
  template are left out).  \<open>QueryFailedError\<close> carries the PostgreSQL error code; \<open>JsError\<close> is an
  ordinary \<open>Error\<close> or \<open>TypeError\<close>.
\<close>

datatype exn =
    BadRequestException string
  | UnauthorizedException string
  | ForbiddenException string
  | NotFoundException string
  | ConflictException string
  | InternalServerErrorException string
  | RequestTimeoutException
  | ThrottlerException
  | QueryFailedError string
  | JsError string

section \<open>Results\<close>

type_synonym ('a, 'w) result = "(exn + 'a) \<times> 'w"

definition ok :: "'a \<Rightarrow> 'w \<Rightarrow> ('a, 'w) result" where
  "ok x w = (Inr x, w)"

definition throw :: "exn \<Rightarrow> 'w \<Rightarrow> ('a, 'w) result" where
  "throw e w = (Inl e, w)"

text \<open>Sequencing: \<open>await f(...)\<close> followed by the rest of the body.\<close>

definition and_then :: "('a, 'w) result \<Rightarrow> ('a \<Rightarrow> 'w \<Rightarrow> ('b, 'w) result) \<Rightarrow> ('b, 'w) result" where
  "and_then r k = (case r of (Inl e, w) \<Rightarrow> (Inl e, w) | (Inr x, w) \<Rightarrow> k x w)"

text \<open>\<open>try \<dots> catch\<close>.\<close>

definition catching :: "('a, 'w) result \<Rightarrow> (exn \<Rightarrow> 'w \<Rightarrow> ('a, 'w) result) \<Rightarrow> ('a, 'w) result" where
  "catching r h = (case r of (Inl e, w) \<Rightarrow> h e w | (Inr x, w) \<Rightarrow> (Inr x, w))"

text \<open>A value or an exception computed without changing the world.\<close>

definition lift :: "(exn + 'a) \<Rightarrow> 'w \<Rightarrow> ('a, 'w) result" where
  "lift r w = (r, w)"

lemma and_then_ok [simp, res]: "and_then (ok x w) k = k x w"
  by (simp add: and_then_def ok_def)

lemma and_then_throw [simp, res]: "and_then (throw e w) k = throw e w"
  by (simp add: and_then_def throw_def)

lemma and_then_Inr [simp, res]: "and_then (Inr x, w) k = k x w"
  by (simp add: and_then_def)

lemma and_then_Inl [simp, res]: "and_then (Inl e, w) k = (Inl e, w)"
  by (simp add: and_then_def)

lemma and_then_eq_Inr:
  "and_then r k = (Inr y, w') \<longleftrightarrow> (\<exists>x w. r = (Inr x, w) \<and> k x w = (Inr y, w'))"
  by (cases r) (auto simp: and_then_def split: sum.splits)

lemma and_then_eq_ok:
  "and_then r k = ok y w' \<longleftrightarrow> (\<exists>x w. r = ok x w \<and> k x w = ok y w')"
  by (simp add: ok_def and_then_eq_Inr)

lemma and_then_assoc: "and_then (and_then r k) l = and_then r (\<lambda>x w. and_then (k x w) l)"
  by (auto simp: and_then_def split: prod.splits sum.splits)

lemma catching_ok [simp, res]: "catching (ok x w) h = ok x w"
  by (simp add: catching_def ok_def)

lemma catching_throw [simp, res]: "catching (throw e w) h = h e w"
  by (simp add: catching_def throw_def)

lemma lift_Inl [simp, res]: "lift (Inl e) w = throw e w"
  by (simp add: lift_def throw_def)

lemma lift_Inr [simp, res]: "lift (Inr x) w = ok x w"
  by (simp add: lift_def ok_def)

lemma ok_neq_throw [simp, res]: "ok x w \<noteq> throw e w'" "throw e w' \<noteq> ok x w"
  by (simp_all add: ok_def throw_def)

lemma ok_eq [simp, res]: "ok x w = ok y v \<longleftrightarrow> x = y \<and> w = v"
  by (simp add: ok_def)

lemma throw_eq [simp, res]: "throw e w = throw f v \<longleftrightarrow> e = f \<and> w = v"
  by (simp add: throw_def)

lemma snd_ok [simp, res]: "snd (ok x w) = w"
  by (simp add: ok_def)

lemma snd_throw [simp, res]: "snd (throw e w) = w"
  by (simp add: throw_def)

lemma fst_ok [simp, res]: "fst (ok x w) = Inr x"
  by (simp add: ok_def)

lemma fst_throw [simp, res]: "fst (throw e w) = Inl e"
  by (simp add: throw_def)

lemma result_cases:
  obtains (ok) x w where "r = ok x w" | (throw) e w where "r = throw e w"
  by (cases r; cases "fst r") (auto simp: ok_def throw_def)

text \<open>Whether an operation returned, and what.\<close>

definition succeeds :: "('a, 'w) result \<Rightarrow> bool" where
  "succeeds r = (case fst r of Inl e \<Rightarrow> False | Inr x \<Rightarrow> True)"

definition result_of :: "('a, 'w) result \<Rightarrow> 'a" where
  "result_of r = projr (fst r)"

lemma succeeds_simps [simp, res]: "succeeds (ok x w)" "\<not> succeeds (throw e w)" "result_of (ok x w) = x"
  by (simp_all add: succeeds_def result_of_def ok_def throw_def)

lemma succeeds_ok: "succeeds r \<Longrightarrow> r = ok (result_of r) (snd r)"
  by (cases r rule: result_cases) auto

lemma succeeds_unit: "succeeds r \<Longrightarrow> r = ok () (snd r)"
  by (cases r rule: result_cases) auto

lemma succeeds_ok_of: "succeeds r \<Longrightarrow> result_of r = x \<Longrightarrow> r = ok x (snd r)"
  by (cases r rule: result_cases) auto

lemma succeeds_iff: "succeeds r \<longleftrightarrow> (\<exists>x w. r = ok x w)"
  by (cases r rule: result_cases) auto

text \<open>
  A predicate on worlds survives a sequence when it survives its parts, on the success path and on
  the error path alike.
\<close>

lemma and_then_snd:
  assumes "P (snd r)" and "\<And>x w. r = ok x w \<Longrightarrow> P w \<Longrightarrow> P (snd (k x w))"
  shows "P (snd (and_then r k))"
  using assms by (cases r rule: result_cases) auto

section \<open>Tables\<close>

definition find_one :: "('r \<Rightarrow> bool) \<Rightarrow> 'r list \<Rightarrow> 'r option" where
  "find_one p rs = List.find p rs"

definition find_all :: "('r \<Rightarrow> bool) \<Rightarrow> 'r list \<Rightarrow> 'r list" where
  "find_all p rs = filter p rs"

definition exists_by :: "('r \<Rightarrow> bool) \<Rightarrow> 'r list \<Rightarrow> bool" where
  "exists_by p rs = list_ex p rs"

definition update_where :: "('r \<Rightarrow> bool) \<Rightarrow> ('r \<Rightarrow> 'r) \<Rightarrow> 'r list \<Rightarrow> 'r list" where
  "update_where p f rs = map (\<lambda>r. if p r then f r else r) rs"

definition delete_where :: "('r \<Rightarrow> bool) \<Rightarrow> 'r list \<Rightarrow> 'r list" where
  "delete_where p rs = filter (\<lambda>r. \<not> p r) rs"

text \<open>\<open>order: { key: 'DESC' }\<close> with \<open>LIMIT 1\<close>: a row whose key no matching row exceeds.\<close>

fun find_latest :: "('r \<Rightarrow> int) \<Rightarrow> ('r \<Rightarrow> bool) \<Rightarrow> 'r list \<Rightarrow> 'r option" where
  "find_latest key p [] = None"
| "find_latest key p (r # rs) =
     (case find_latest key p rs of
        None \<Rightarrow> (if p r then Some r else None)
      | Some m \<Rightarrow> (if p r \<and> key m \<le> key r then Some r else Some m))"

lemma find_one_Nil [simp, tbl]: "find_one p [] = None"
  by (simp add: find_one_def)

lemma find_one_Cons [simp, tbl]: "find_one p (r # rs) = (if p r then Some r else find_one p rs)"
  by (simp add: find_one_def)

lemma find_one_Some: "find_one p rs = Some r \<Longrightarrow> r \<in> set rs \<and> p r"
  by (induction rs) (auto split: if_splits)

lemma find_one_SomeD [dest]: "find_one p rs = Some r \<Longrightarrow> p r"
  by (simp add: find_one_Some)

lemma find_one_None: "find_one p rs = None \<longleftrightarrow> (\<forall>r \<in> set rs. \<not> p r)"
  by (induction rs) auto

lemma find_one_append [tbl]:
  "find_one p (rs @ ss) = (case find_one p rs of None \<Rightarrow> find_one p ss | Some r \<Rightarrow> Some r)"
  by (induction rs) auto

lemma find_one_cong:
  "(\<And>r. r \<in> set rs \<Longrightarrow> p r = q r) \<Longrightarrow> find_one p rs = find_one q rs"
  by (induction rs) auto

text \<open>A lookup by a key that rows share with nobody finds the very row.\<close>

lemma find_one_key:
  assumes "distinct (map key rs)" and "r \<in> set rs" and "p r"
  shows "find_one (\<lambda>x. key x = key r \<and> p x) rs = Some r"
  using assms by (induction rs) (auto simp: image_iff)

lemma exists_by_iff [simp, tbl]: "exists_by p rs \<longleftrightarrow> (\<exists>r \<in> set rs. p r)"
  by (simp add: exists_by_def list_ex_iff)

lemma set_update_where [tbl]:
  "set (update_where p f rs) = f ` {r \<in> set rs. p r} \<union> {r \<in> set rs. \<not> p r}"
  by (auto simp: update_where_def)

lemma in_update_whereE:
  assumes "r \<in> set (update_where p f rs)"
  obtains (hit) r' where "r' \<in> set rs" "p r'" "r = f r'" | (miss) "r \<in> set rs" "\<not> p r"
  using assms by (auto simp: set_update_where)

lemma update_where_Nil [simp, tbl]: "update_where p f [] = []"
  by (simp add: update_where_def)

lemma update_where_Cons [simp, tbl]:
  "update_where p f (r # rs) = (if p r then f r else r) # update_where p f rs"
  by (simp add: update_where_def)

lemma length_update_where [simp, tbl]: "length (update_where p f rs) = length rs"
  by (simp add: update_where_def)

lemma map_update_where [tbl]:
  "(\<And>r. r \<in> set rs \<Longrightarrow> p r \<Longrightarrow> key (f r) = key r) \<Longrightarrow> map key (update_where p f rs) = map key rs"
  by (auto simp: update_where_def)

lemma update_where_none: "(\<And>r. r \<in> set rs \<Longrightarrow> \<not> p r) \<Longrightarrow> update_where p f rs = rs"
  by (simp add: update_where_def map_idI)

lemma in_update_whereI: "r \<in> set rs \<Longrightarrow> (if p r then f r else r) \<in> set (update_where p f rs)"
  by (auto simp: update_where_def)

text \<open>An update that a lookup cannot see commutes with the lookup.\<close>

lemma find_one_update_where:
  "(\<And>r. r \<in> set rs \<Longrightarrow> q r \<Longrightarrow> p (f r) = p r) \<Longrightarrow>
     find_one p (update_where q f rs) = map_option (\<lambda>r. if q r then f r else r) (find_one p rs)"
  by (induction rs) auto

lemma set_delete_where [simp, tbl]: "set (delete_where p rs) = {r \<in> set rs. \<not> p r}"
  by (auto simp: delete_where_def)

lemma set_find_all [simp, tbl]: "set (find_all p rs) = {r \<in> set rs. p r}"
  by (auto simp: find_all_def)

lemma find_latest_Some: "find_latest key p rs = Some r \<Longrightarrow> r \<in> set rs \<and> p r"
  by (induction rs arbitrary: r) (auto split: option.splits if_splits)

lemma find_latest_None: "find_latest key p rs = None \<longleftrightarrow> (\<forall>r \<in> set rs. \<not> p r)"
  by (induction rs) (auto split: option.splits)

lemma find_latest_max:
  "find_latest key p rs = Some r \<Longrightarrow> s \<in> set rs \<Longrightarrow> p s \<Longrightarrow> key s \<le> key r"
proof (induction rs arbitrary: r)
  case Nil
  then show ?case by simp
next
  case (Cons a rs)
  then show ?case
    by (auto split: option.splits if_splits simp: find_latest_None dest!: Cons.IH)
qed

section \<open>JavaScript truthiness of optional strings\<close>

text \<open>\<open>if (x)\<close> for \<open>x: string | null | undefined\<close>; \<open>x || d\<close>; \<open>x ?? d\<close>.\<close>

definition truthy :: "string option \<Rightarrow> bool" where
  "truthy x = (case x of None \<Rightarrow> False | Some s \<Rightarrow> s \<noteq> '''')"

definition or_default :: "string option \<Rightarrow> string \<Rightarrow> string" where
  "or_default x d = (case x of None \<Rightarrow> d | Some s \<Rightarrow> if s = '''' then d else s)"

definition nullish :: "'a option \<Rightarrow> 'a \<Rightarrow> 'a" where
  "nullish x d = (case x of None \<Rightarrow> d | Some s \<Rightarrow> s)"

definition keep_if_undefined :: "'a option \<Rightarrow> 'a option \<Rightarrow> 'a option" where
  "keep_if_undefined new old = (case new of None \<Rightarrow> old | Some v \<Rightarrow> Some v)"

lemma truthy_simps [simp]: "truthy None = False" "truthy (Some s) = (s \<noteq> '''')"
  by (simp_all add: truthy_def)

lemma truthyE: "truthy x \<Longrightarrow> (\<And>s. x = Some s \<Longrightarrow> s \<noteq> '''' \<Longrightarrow> P) \<Longrightarrow> P"
  by (cases x) auto

lemma nullish_simps [simp]: "nullish None d = d" "nullish (Some s) d = s"
  by (simp_all add: nullish_def)

lemma or_default_simps [simp]:
  "or_default None d = d" "or_default (Some []) d = d" "or_default (Some (c # s)) d = c # s"
  by (simp_all add: or_default_def)

lemma keep_if_undefined_simps [simp]:
  "keep_if_undefined None old = old" "keep_if_undefined (Some v) old = Some v"
  by (simp_all add: keep_if_undefined_def)

section \<open>Trimming\<close>

text \<open>\<open>trim()\<close>, for the white space of ASCII.\<close>

definition js_whitespace :: string where
  "js_whitespace = [CHR '' '', CHR 0x09, CHR 0x0A, CHR 0x0B, CHR 0x0C, CHR 0x0D]"

definition js_trim :: "string \<Rightarrow> string" where
  "js_trim s =
     rev (dropWhile (\<lambda>c. c \<in> set js_whitespace) (rev (dropWhile (\<lambda>c. c \<in> set js_whitespace) s)))"

lemma js_trim_Nil [simp]: "js_trim '''' = ''''"
  by (simp add: js_trim_def)

section \<open>Fields of a partial body\<close>

text \<open>
  A field of a \<open>PATCH\<close> body is absent, \<open>null\<close> or a value: \<open>PartialType\<close> makes every field optional, and an optional
  field also passes the validation as \<open>null\<close>.  \<open>preload\<close> skips what is absent and writes the rest over the row;
  a \<open>null\<close> in a \<open>NOT NULL\<close> column is refused by the database when the row is saved.
\<close>

datatype 'a field = Undef | Null | Val 'a

fun patch_required :: "'a field \<Rightarrow> 'a \<Rightarrow> exn + 'a" where
  "patch_required Undef old = Inr old"
| "patch_required Null old = Inl (QueryFailedError ''23502'')"
| "patch_required (Val v) old = Inr v"

fun patch_nullable :: "'a field \<Rightarrow> 'a option \<Rightarrow> 'a option" where
  "patch_nullable Undef old = old"
| "patch_nullable Null old = None"
| "patch_nullable (Val v) old = Some v"

text \<open>What a test like \<open>if (dto.x)\<close> or \<open>typeof dto.x === 'string'\<close> sees: absent and \<open>null\<close> alike.\<close>

fun field_value :: "'a field \<Rightarrow> 'a option" where
  "field_value (Val v) = Some v"
| "field_value Null = None"
| "field_value Undef = None"

text \<open>Several columns of one row: the save fails when one of them does.\<close>

definition also_needs :: "exn + ('a \<Rightarrow> 'b) \<Rightarrow> exn + 'a \<Rightarrow> exn + 'b" where
  "also_needs f x = (case f of Inl e \<Rightarrow> Inl e | Inr g \<Rightarrow> (case x of Inl e \<Rightarrow> Inl e | Inr y \<Rightarrow> Inr (g y)))"

lemma also_needs_simps [simp]:
  "also_needs (Inl e) x = Inl e" "also_needs (Inr g) (Inl e) = Inl e" "also_needs (Inr g) (Inr y) = Inr (g y)"
  by (simp_all add: also_needs_def)

lemma also_needs_Inr: "also_needs f x = Inr z \<longleftrightarrow> (\<exists>g y. f = Inr g \<and> x = Inr y \<and> z = g y)"
  by (auto simp: also_needs_def split: sum.splits)

lemma patch_required_Inr: "patch_required f old = Inr v \<longleftrightarrow> f = Undef \<and> v = old \<or> f = Val v"
  by (cases f) auto

section \<open>Decimal notation\<close>

text \<open>Decimal notation of a natural number.\<close>

definition show_digit :: "nat \<Rightarrow> char" where
  "show_digit d = ''0123456789'' ! (d mod 10)"

fun show_nat :: "nat \<Rightarrow> string" where
  "show_nat n = (if n < 10 then [show_digit n] else show_nat (n div 10) @ [show_digit (n mod 10)])"

declare show_nat.simps [simp del]

section \<open>Case of letters\<close>

definition to_lower :: "char \<Rightarrow> char" where
  "to_lower c =
     (let upper = ''ABCDEFGHIJKLMNOPQRSTUVWXYZ''; lower = ''abcdefghijklmnopqrstuvwxyz''
      in case map_of (zip upper lower) c of None \<Rightarrow> c | Some d \<Rightarrow> d)"

section \<open>Lists of identifiers\<close>

text \<open>\<open>xs.filter((x, i) => xs.indexOf(x) !== i)\<close>: the repeated occurrences.\<close>

fun repeated :: "'a list \<Rightarrow> 'a list \<Rightarrow> 'a list" where
  "repeated seen [] = []"
| "repeated seen (x # xs) = (if x \<in> set seen then x # repeated seen xs else repeated (x # seen) xs)"

definition duplicates :: "'a list \<Rightarrow> 'a list" where
  "duplicates xs = repeated [] xs"

lemma repeated_Nil_iff: "repeated seen xs = [] \<longleftrightarrow> distinct xs \<and> set xs \<inter> set seen = {}"
  by (induction xs arbitrary: seen) auto

lemma duplicates_Nil_iff [simp]: "duplicates xs = [] \<longleftrightarrow> distinct xs"
  by (simp add: duplicates_def repeated_Nil_iff)

text \<open>
  Validation by counting: the source compares the number of rows found by \<open>id IN (\<dots>)\<close> with the
  number of identifiers asked for.  The count is right exactly when the identifiers are distinct
  and all exist.
\<close>

lemma count_by_key_iff:
  assumes "distinct (map key rs)"
  shows "length (filter (\<lambda>r. key r \<in> set ids) rs) = length ids \<longleftrightarrow>
    distinct ids \<and> set ids \<subseteq> key ` set rs"
proof -
  let ?hits = "filter (\<lambda>r. key r \<in> set ids) rs"
  have d: "distinct (map key ?hits)"
    using assms by (rule distinct_map_filter)
  have s: "set (map key ?hits) = set ids \<inter> key ` set rs" by auto
  have len: "length ?hits = card (set ids \<inter> key ` set rs)"
    using distinct_card [OF d] s by simp
  have le: "card (set ids \<inter> key ` set rs) \<le> card (set ids)" "card (set ids) \<le> length ids"
    by (simp_all add: card_mono card_length)
  show ?thesis
  proof
    assume "length ?hits = length ids"
    then have "card (set ids \<inter> key ` set rs) = card (set ids)" "card (set ids) = length ids"
      using len le by linarith+
    then have "set ids \<inter> key ` set rs = set ids" "distinct ids"
      by (simp_all add: card_subset_eq card_distinct)
    then show "distinct ids \<and> set ids \<subseteq> key ` set rs" by blast
  next
    assume "distinct ids \<and> set ids \<subseteq> key ` set rs"
    then show "length ?hits = length ids"
      using len by (simp add: Int_absorb2 distinct_card)
  qed
qed

end
