(* ===== verification/Js_Number.thy ===== *)
theory Js_Number
  imports Prelude Complex_Main "HOL-Library.Log_Nat"
begin

text \<open>
  JavaScript numbers and the \<open>numeric(12,2)\<close> columns they are stored in.

  Prices travel through the booking and payment services as decimal strings, are read with
  \<open>parseFloat\<close>, multiplied and summed as IEEE doubles, printed with \<open>String(\<dots>)\<close> and rounded to two
  decimals by the database.  A double is modelled by the rational it denotes; \<open>fl\<close> rounds a rational
  to the nearest double (53 significant bits, ties to even).  Subnormal numbers and overflow are left
  out: every amount here is zero or lies between \<open>10\<^sup>-\<^sup>2\<close> and \<open>10\<^sup>1\<^sup>8\<close>.

  The lemmas bound the error of each operation (\<open>fl_rel_error\<close>) and show when rounding at the end
  gives back the exact number of cents (\<open>round_cents_exact\<close>).
\<close>

section \<open>Rounding to the nearest integer and to the nearest double\<close>

text \<open>\<open>Math.round\<close>: the nearest integer, ties towards plus infinity.\<close>

definition js_round :: "rat \<Rightarrow> int" where
  "js_round q = \<lfloor>q + 1 / 2\<rfloor>"

text \<open>IEEE rounding of a significand: ties to even.\<close>

definition round_half_even :: "rat \<Rightarrow> int" where
  "round_half_even q =
     (let f = \<lfloor>q\<rfloor>; d = q - of_int f
      in if d < 1 / 2 then f else if d > 1 / 2 then f + 1 else if even f then f else f + 1)"

text \<open>PostgreSQL's \<open>numeric\<close> rounding: ties away from zero.\<close>

definition round_half_away :: "rat \<Rightarrow> int" where
  "round_half_away q = (if 0 \<le> q then \<lfloor>q + 1 / 2\<rfloor> else - \<lfloor>- q + 1 / 2\<rfloor>)"

lemma js_round_error: "\<bar>of_int (js_round q) - q\<bar> \<le> 1 / 2"
proof -
  have "of_int \<lfloor>q + 1 / 2\<rfloor> \<le> q + 1 / 2" "q + 1 / 2 < of_int \<lfloor>q + 1 / 2\<rfloor> + 1" by linarith+
  then show ?thesis unfolding js_round_def abs_le_iff by linarith
qed

lemma js_round_near: "\<bar>q - of_int n\<bar> < 1 / 2 \<Longrightarrow> js_round q = n"
  unfolding js_round_def abs_less_iff by (rule floor_unique) (simp_all add: algebra_simps)

lemma round_half_even_error: "\<bar>of_int (round_half_even q) - q\<bar> \<le> 1 / 2"
proof -
  have "of_int \<lfloor>q\<rfloor> \<le> q" "q < of_int \<lfloor>q\<rfloor> + 1" by linarith+
  then show ?thesis
    by (auto simp: round_half_even_def Let_def abs_le_iff)
qed

lemma round_half_even_int [simp]: "round_half_even (of_int n) = n"
  by (simp add: round_half_even_def)

lemma round_half_away_near:
  assumes "\<bar>q - of_int n\<bar> < 1 / 2"
  shows "round_half_away q = n"
proof (cases "0 \<le> q")
  case True
  from assms have "\<lfloor>q + 1 / 2\<rfloor> = n"
    unfolding abs_less_iff by (intro floor_unique) (simp_all add: algebra_simps)
  with True show ?thesis by (simp add: round_half_away_def)
next
  case False
  from assms have "\<lfloor>- q + 1 / 2\<rfloor> = - n"
    unfolding abs_less_iff by (intro floor_unique) (simp_all add: algebra_simps)
  with False show ?thesis by (simp add: round_half_away_def)
qed

lemma round_half_away_int [simp]: "round_half_away (of_int n) = n"
  by (rule round_half_away_near) simp

text \<open>The exponent of a non-zero rational: \<open>2 powi e \<le> |x| < 2 powi (e + 1)\<close>.\<close>

definition two_powi :: "int \<Rightarrow> rat" where
  "two_powi e = (if 0 \<le> e then 2 ^ nat e else 1 / 2 ^ nat (- e))"

definition exponent :: "rat \<Rightarrow> int" where
  "exponent x =
     (let (p, q) = quotient_of \<bar>x\<bar>; e = bitlen p - bitlen q
      in if two_powi e \<le> \<bar>x\<bar> then e else e - 1)"

definition fl :: "rat \<Rightarrow> rat" where
  "fl x = (if x = 0 then 0
           else let u = two_powi (exponent x - 52) in of_int (round_half_even (x / u)) * u)"

lemma two_powi_pos [simp]: "0 < two_powi e"
  by (simp add: two_powi_def)

lemma two_powi_nonneg [simp]: "0 \<le> two_powi e" "two_powi e \<noteq> 0"
  using two_powi_pos [of e] by linarith+

lemma two_powi_nat: "two_powi (int n) = 2 ^ n"
  by (simp add: two_powi_def)

lemma two_powi_powi: "two_powi e = 2 powi e"
  unfolding two_powi_def power_int_def divide_inverse power_inverse by simp

lemma two_powi_add: "two_powi (a + b) = two_powi a * two_powi b"
  unfolding two_powi_powi by (rule power_int_add) simp

lemma two_powi_mono: "a \<le> b \<Longrightarrow> two_powi a \<le> two_powi b"
  unfolding two_powi_powi by (rule power_int_increasing) simp_all

lemma bitlen_bounds_pos: "0 < p \<Longrightarrow> 2 ^ nat (bitlen p - 1) \<le> p \<and> p < 2 ^ nat (bitlen p)"
  by (rule bitlen_bounds)

lemma exponent_le:
  assumes "x \<noteq> 0"
  shows "two_powi (exponent x) \<le> \<bar>x\<bar>"
proof -
  obtain p q where pq: "quotient_of \<bar>x\<bar> = (p, q)" by (cases "quotient_of \<bar>x\<bar>")
  have q: "0 < q" using pq by (rule quotient_of_denom_pos)
  have x: "\<bar>x\<bar> = of_int p / of_int q" using pq by (rule quotient_of_div)
  have p: "0 < p"
    using assms x q by (metis abs_eq_0 abs_not_less_zero divide_less_0_iff linorder_neqE_linordered_idom
        of_int_0_less_iff of_int_less_0_iff div_0 of_int_0)
  have bp: "2 ^ nat (bitlen p - 1) \<le> p" and bq: "q < 2 ^ nat (bitlen q)"
    using bitlen_bounds_pos [OF p] bitlen_bounds_pos [OF q] by blast+
  have lp: "0 \<le> bitlen p - 1" "0 < bitlen q" 
    using p q bitlen_nonneg [of p] bitlen_nonneg [of q] bitlen_eq_zero_iff [of p] bitlen_eq_zero_iff [of q]
    by linarith+
  have "two_powi (bitlen p - bitlen q - 1) = two_powi (bitlen p - 1) * two_powi (- bitlen q)"
    by (simp add: algebra_simps flip: two_powi_add)
  also have "\<dots> = of_int (2 ^ nat (bitlen p - 1)) / of_int (2 ^ nat (bitlen q))"
    using lp by (simp add: two_powi_def)
  also have "\<dots> \<le> of_int p / of_int q"
  proof (rule frac_le)
    show "(of_int (2 ^ nat (bitlen p - 1)) :: rat) \<le> of_int p" using bp by (simp only: of_int_le_iff)
    show "(of_int q :: rat) \<le> of_int (2 ^ nat (bitlen q))" using bq by (simp only: of_int_le_iff less_imp_le)
  qed (use p q in auto)
  finally have "two_powi (bitlen p - bitlen q - 1) \<le> \<bar>x\<bar>" by (simp add: x)
  then show ?thesis by (simp add: exponent_def pq Let_def)
qed

text \<open>The relative error of one rounding is at most \<open>2\<^sup>-\<^sup>5\<^sup>3\<close>.\<close>

definition eps :: rat where "eps = 1 / 2 ^ 53"

lemma eps_pos [simp]: "0 < eps" by (simp add: eps_def)

theorem fl_rel_error: "\<bar>fl x - x\<bar> \<le> eps * \<bar>x\<bar>"
proof (cases "x = 0")
  case True
  then show ?thesis by (simp add: fl_def)
next
  case False
  let ?u = "two_powi (exponent x - 52)"
  have "fl x - x = (of_int (round_half_even (x / ?u)) - x / ?u) * ?u"
    using False by (simp add: fl_def Let_def algebra_simps)
  then have "\<bar>fl x - x\<bar> = \<bar>of_int (round_half_even (x / ?u)) - x / ?u\<bar> * ?u"
    by (simp add: abs_mult)
  also have "\<dots> \<le> 1 / 2 * ?u"
    by (rule mult_right_mono [OF round_half_even_error]) simp
  also have "\<dots> = eps * two_powi (exponent x)"
  proof -
    have "?u = two_powi (exponent x) * two_powi (- 52)" by (simp flip: two_powi_add)
    then show ?thesis by (simp add: eps_def two_powi_def)
  qed
  also have "\<dots> \<le> eps * \<bar>x\<bar>"
    by (rule mult_left_mono [OF exponent_le [OF False]]) (simp add: eps_def)
  finally show ?thesis .
qed

lemma fl_0 [simp]: "fl 0 = 0"
  by (simp add: fl_def)

text \<open>Integers below \<open>2\<^sup>5\<^sup>3\<close> are doubles.\<close>

lemma exponent_upper:
  assumes "\<bar>x\<bar> < 2 ^ n" and "x \<noteq> 0"
  shows "exponent x < int n"
proof (rule ccontr)
  assume "\<not> exponent x < int n"
  then have "two_powi (int n) \<le> two_powi (exponent x)" by (intro two_powi_mono) simp
  with exponent_le [OF assms(2)] assms(1) show False by (simp add: two_powi_nat)
qed

theorem fl_int:
  assumes "\<bar>n\<bar> < 2 ^ 53"
  shows "fl (of_int n) = of_int n"
proof (cases "n = 0")
  case True
  then show ?thesis by simp
next
  case False
  let ?x = "of_int n :: rat" and ?u = "two_powi (exponent (of_int n) - 52)"
  have "\<bar>?x\<bar> < 2 ^ 53"
    using assms by (metis of_int_abs of_int_less_iff of_int_numeral of_int_power)
  then have "exponent ?x < 53" using exponent_upper [of ?x 53] False by simp
  then have "0 \<le> 52 - exponent ?x" by linarith
  then obtain k where "52 - exponent ?x = int k" by (rule nonneg_int_cases)
  then have k: "exponent ?x - 52 = - int k" by linarith
  have u: "?u = 1 / 2 ^ k" unfolding k by (cases "k = 0") (simp_all add: two_powi_def)
  have "?x / ?u = of_int (n * 2 ^ k)" by (simp add: u)
  then have "round_half_even (?x / ?u) = n * 2 ^ k" by (simp only: round_half_even_int)
  with False show ?thesis by (simp add: fl_def Let_def u)
qed

lemma fl_nonneg: "0 \<le> x \<Longrightarrow> 0 \<le> fl x"
proof -
  assume x: "0 \<le> x"
  have "x - fl x \<le> eps * x" using fl_rel_error [of x] x by (simp add: abs_le_iff)
  moreover have "eps * x \<le> 1 * x" using x by (intro mult_right_mono) (simp_all add: eps_def)
  ultimately show ?thesis by simp
qed

lemma fl_abs_error:
  assumes "\<bar>x\<bar> \<le> b"
  shows "\<bar>fl x - x\<bar> \<le> eps * b"
proof (rule order_trans [OF fl_rel_error])
  show "eps * \<bar>x\<bar> \<le> eps * b" by (rule mult_left_mono [OF assms]) (simp add: less_imp_le)
qed

section \<open>Decimal strings and \<open>numeric(12,2)\<close>\<close>

text \<open>
  A \<open>numeric(12,2)\<close> value is its number of cents, below \<open>10\<^sup>1\<^sup>2\<close> in absolute value.  \<open>parseFloat\<close> of
  its text is the nearest double.
\<close>

type_synonym cents = int

definition parse_float :: "cents \<Rightarrow> rat" where
  "parse_float c = fl (of_int c / 100)"

definition numeric_12_2_ok :: "cents \<Rightarrow> bool" where
  "numeric_12_2_ok c \<longleftrightarrow> \<bar>c\<bar> < 10 ^ 12"

text \<open>
  \<open>String(x)\<close> prints a decimal that parses back to \<open>x\<close>; the database rounds that decimal to cents.
  Which of the decimals is printed is the argument \<open>to_dec\<close>.
\<close>

definition to_numeric_12_2 :: "(rat \<Rightarrow> rat) \<Rightarrow> rat \<Rightarrow> exn + cents" where
  "to_numeric_12_2 to_dec x =
     (let c = round_half_away (to_dec x * 100)
      in if numeric_12_2_ok c then Inr c else Inl (QueryFailedError ''22003''))"

definition prints_doubles :: "(rat \<Rightarrow> rat) \<Rightarrow> bool" where
  "prints_doubles to_dec \<longleftrightarrow> (\<forall>x. fl (to_dec (fl x)) = fl x)"

text \<open>A number within half a cent of \<open>c\<close> cents is rounded to \<open>c\<close>.\<close>

lemma round_cents_exact: "\<bar>x - of_int c / 100\<bar> < 1 / 200 \<Longrightarrow> round_half_away (x * 100) = c"
  by (rule round_half_away_near) (simp add: abs_less_iff field_simps)

lemma parse_float_error: "\<bar>parse_float c - of_int c / 100\<bar> \<le> eps * (\<bar>of_int c\<bar> / 100)"
  unfolding parse_float_def using fl_rel_error [of "of_int c / 100"] by simp

lemma parse_float_nonneg: "0 \<le> c \<Longrightarrow> 0 \<le> parse_float c"
  unfolding parse_float_def by (rule fl_nonneg) simp

text \<open>
  The decimal printed for a double differs from it by at most one rounding, so a double close
  enough to \<open>c\<close> cents is stored as \<open>c\<close>.
\<close>

lemma to_dec_error:
  assumes "prints_doubles to_dec" and "x = fl y"
  shows "\<bar>to_dec x - x\<bar> \<le> 2 * eps * \<bar>x\<bar>"
proof -
  let ?d = "to_dec x"
  have "fl ?d = x" using assms by (auto simp: prints_doubles_def)
  then have e: "\<bar>x - ?d\<bar> \<le> eps * \<bar>?d\<bar>" using fl_rel_error [of ?d] by simp
  have "\<bar>?d\<bar> \<le> \<bar>x\<bar> + eps * \<bar>?d\<bar>" using e by linarith
  also have "eps * \<bar>?d\<bar> \<le> 1 / 2 * \<bar>?d\<bar>" by (rule mult_right_mono) (simp_all add: eps_def)
  finally have "\<bar>?d\<bar> \<le> 2 * \<bar>x\<bar>" by simp
  then have "eps * \<bar>?d\<bar> \<le> eps * (2 * \<bar>x\<bar>)" by (rule mult_left_mono) (simp add: less_imp_le)
  with e show ?thesis unfolding abs_minus_commute [of ?d] by linarith
qed

lemma to_numeric_exact:
  assumes "prints_doubles to_dec" and "x = fl y"
    and "\<bar>x - of_int c / 100\<bar> \<le> \<delta>" and "\<delta> + 2 * eps * (\<bar>of_int c\<bar> / 100 + \<delta>) < 1 / 200"
    and "numeric_12_2_ok c"
  shows "to_numeric_12_2 to_dec x = Inr c"
proof -
  have "\<bar>x\<bar> \<le> \<bar>of_int c\<bar> / 100 + \<delta>" using assms(3) by (simp add: abs_le_iff) linarith
  then have "2 * eps * \<bar>x\<bar> \<le> 2 * eps * (\<bar>of_int c\<bar> / 100 + \<delta>)"
    by (rule mult_left_mono) (simp add: eps_def)
  then have "\<bar>to_dec x - of_int c / 100\<bar> < 1 / 200"
    using to_dec_error [OF assms(1,2)] assms(3,4) by linarith
  then have "round_half_away (to_dec x * 100) = c" by (rule round_cents_exact)
  with assms(5) show ?thesis by (simp add: to_numeric_12_2_def)
qed

lemma fl_mult_error:
  assumes "\<bar>a - a'\<bar> \<le> eps * \<bar>a'\<bar>"
  shows "\<bar>fl (a * of_int n) - a' * of_int n\<bar> \<le> 3 * eps * \<bar>a' * of_int n\<bar>"
proof -
  let ?n = "of_int n :: rat"
  have "\<bar>a * ?n - a' * ?n\<bar> = \<bar>a - a'\<bar> * \<bar>?n\<bar>"
    by (simp add: abs_mult flip: left_diff_distrib)
  also have "\<dots> \<le> eps * \<bar>a'\<bar> * \<bar>?n\<bar>" by (rule mult_right_mono [OF assms]) simp
  finally have 1: "\<bar>a * ?n - a' * ?n\<bar> \<le> eps * \<bar>a' * ?n\<bar>" by (simp add: abs_mult mult.assoc)
  have "\<bar>a * ?n\<bar> \<le> \<bar>a' * ?n\<bar> + eps * \<bar>a' * ?n\<bar>" using 1 by linarith
  also have "eps * \<bar>a' * ?n\<bar> \<le> 1 * \<bar>a' * ?n\<bar>" by (rule mult_right_mono) (simp_all add: eps_def)
  finally have "\<bar>a * ?n\<bar> \<le> 2 * \<bar>a' * ?n\<bar>" by simp
  then have "\<bar>fl (a * ?n) - a * ?n\<bar> \<le> eps * (2 * \<bar>a' * ?n\<bar>)" by (rule fl_abs_error)
  with 1 show ?thesis by linarith
qed

lemma js_round_int [simp]: "js_round (of_int n) = n"
  by (rule js_round_near) simp

text \<open>A double is its own rounding.\<close>

lemma exponent_less: "x \<noteq> 0 \<Longrightarrow> \<bar>x\<bar> < two_powi (exponent x + 1)"
proof -
  assume x0: "x \<noteq> 0"
  obtain p q where pq: "quotient_of \<bar>x\<bar> = (p, q)" by (cases "quotient_of \<bar>x\<bar>")
  have q: "0 < q" using pq by (rule quotient_of_denom_pos)
  have x: "\<bar>x\<bar> = of_int p / of_int q" using pq by (rule quotient_of_div)
  have p: "0 < p"
    using x0 x q by (metis abs_eq_0 abs_not_less_zero divide_less_0_iff linorder_neqE_linordered_idom
        of_int_0_less_iff of_int_less_0_iff div_0 of_int_0)
  have bp: "p < 2 ^ nat (bitlen p)" and bq: "2 ^ nat (bitlen q - 1) \<le> q"
    using bitlen_bounds_pos [OF p] bitlen_bounds_pos [OF q] by blast+
  have lp: "0 \<le> bitlen p" "0 \<le> bitlen q - 1"
    using p q bitlen_nonneg [of p] bitlen_nonneg [of q] bitlen_eq_zero_iff [of p] bitlen_eq_zero_iff [of q]
    by linarith+
  have "(of_int p :: rat) / of_int q < of_int (2 ^ nat (bitlen p)) / of_int (2 ^ nat (bitlen q - 1))"
  proof (rule frac_less)
    show "(of_int p :: rat) < of_int (2 ^ nat (bitlen p))" using bp by (simp only: of_int_less_iff)
    show "(of_int (2 ^ nat (bitlen q - 1)) :: rat) \<le> of_int q" using bq by (simp only: of_int_le_iff)
  qed (use p in auto)
  also have "\<dots> = two_powi (bitlen p) / two_powi (bitlen q - 1)" using lp by (simp add: two_powi_def)
  also have "\<dots> = two_powi (bitlen p - bitlen q + 1)"
    using two_powi_add [of "bitlen p - bitlen q + 1" "bitlen q - 1"]
    by (simp add: divide_eq_eq)
  finally have "\<bar>x\<bar> < two_powi (bitlen p - bitlen q + 1)" by (simp add: x)
  then show ?thesis by (simp add: exponent_def pq Let_def)
qed

lemma round_half_even_bound:
  assumes "\<bar>q\<bar> < of_int n"
  shows "\<bar>round_half_even q\<bar> \<le> n"
proof -
  have "\<lfloor>q\<rfloor> < n" "- n \<le> \<lfloor>q\<rfloor>"
    using assms by (simp_all add: floor_less_iff le_floor_iff abs_less_iff)
  moreover have "round_half_even q = \<lfloor>q\<rfloor> \<or> round_half_even q = \<lfloor>q\<rfloor> + 1"
    by (simp add: round_half_even_def Let_def)
  ultimately show ?thesis by auto
qed

lemma fl_multiple:
  assumes "\<bar>k\<bar> \<le> 2 ^ 53"
  shows "fl (of_int k * two_powi (e - 52)) = of_int k * two_powi (e - 52)"
proof (cases "k = 0")
  case True
  then show ?thesis by simp
next
  case False
  let ?x = "of_int k * two_powi (e - 52) :: rat" and ?e = "exponent (of_int k * two_powi (e - 52))"
  have x0: "?x \<noteq> 0" using False by simp
  have ax: "\<bar>?x\<bar> = of_int \<bar>k\<bar> * two_powi (e - 52)" by (simp add: abs_mult)
  have "(of_int \<bar>k\<bar> :: rat) \<le> of_int (2 ^ 53)" using assms by (simp only: of_int_le_iff)
  then have "\<bar>?x\<bar> \<le> 2 ^ 53 * two_powi (e - 52)" unfolding ax by (intro mult_right_mono) simp_all
  also have "\<dots> = two_powi (e + 1)"
    using two_powi_add [of 53 "e - 52"] by (simp add: two_powi_def add.commute)
  finally have le: "\<bar>?x\<bar> \<le> two_powi (e + 1)" .
  have e1: "?e \<le> e + 1"
  proof (rule ccontr)
    assume "\<not> ?e \<le> e + 1"
    then have "two_powi (1 + (e + 1)) \<le> two_powi ?e" by (intro two_powi_mono) linarith
    with exponent_le [OF x0] le have "two_powi (1 + (e + 1)) \<le> two_powi (e + 1)" by linarith
    then show False using two_powi_pos [of "e + 1"] unfolding two_powi_add [of 1] by (simp add: two_powi_def)
  qed
  have "\<exists>m. ?x = of_int m * two_powi (?e - 52)"
  proof (cases "?e \<le> e")
    case True
    then obtain n where n: "e - ?e = int n" by (metis diff_ge_0_iff_ge nonneg_int_cases)
    then have "e - 52 = int n + (?e - 52)" by linarith
    then have "two_powi (e - 52) = 2 ^ n * two_powi (?e - 52)" by (metis two_powi_add two_powi_nat)
    then have "?x = of_int (k * 2 ^ n) * two_powi (?e - 52)" by simp
    then show ?thesis by blast
  next
    case False
    with e1 have e: "?e = e + 1" by linarith
    have "two_powi (e + 1) \<le> \<bar>?x\<bar>" using exponent_le [OF x0] unfolding e .
    with le have "\<bar>?x\<bar> = two_powi (e + 1)" by linarith
    moreover have "two_powi (e + 1) = two_powi (52 + 1 + (e - 52))"
      by (rule arg_cong [of _ _ two_powi]) simp
    ultimately have "of_int \<bar>k\<bar> * two_powi (e - 52) = (2 ^ 53 :: rat) * two_powi (e - 52)"
      unfolding ax two_powi_add [of "52 + 1"] by (simp add: two_powi_def)
    then have "(of_int \<bar>k\<bar> :: rat) = of_int (2 ^ 53)" by simp
    then have "\<bar>k\<bar> = 2 ^ 53" by (simp only: of_int_eq_iff)
    then have "even k" by (metis dvd_abs_iff even_power even_numeral zero_less_numeral)
    then obtain m where m: "k = 2 * m" by (elim evenE)
    have "two_powi (?e - 52) = 2 * two_powi (e - 52)"
      unfolding e using two_powi_add [of 1 "e - 52"] by (simp add: two_powi_def add.commute)
    then have "?x = of_int m * two_powi (?e - 52)" by (simp add: m)
    then show ?thesis by blast
  qed
  then obtain m where m: "?x = of_int m * two_powi (?e - 52)" ..
  then have "?x / two_powi (?e - 52) = of_int m" by (simp add: divide_eq_eq)
  then have "round_half_even (?x / two_powi (?e - 52)) = m" by (simp only: round_half_even_int)
  with x0 m show ?thesis by (simp only: fl_def Let_def if_False)
qed

lemma fl_idem [simp]: "fl (fl x) = fl x"
proof (cases "x = 0")
  case True
  then show ?thesis by simp
next
  case False
  let ?u = "two_powi (exponent x - 52)"
  have "two_powi (exponent x + 1) = two_powi (53 + (exponent x - 52))"
    by (rule arg_cong [of _ _ two_powi]) simp
  also have "\<dots> = 2 ^ 53 * ?u" unfolding two_powi_add [of 53] by (simp add: two_powi_def)
  finally have "\<bar>x\<bar> < 2 ^ 53 * ?u" using exponent_less [OF False] by simp
  then have "\<bar>x / ?u\<bar> < of_int (2 ^ 53)" by (simp add: abs_divide divide_less_eq)
  then have "\<bar>round_half_even (x / ?u)\<bar> \<le> 2 ^ 53" by (rule round_half_even_bound)
  then show ?thesis using False fl_multiple by (simp add: fl_def Let_def)
qed

text \<open>Printing a double by itself is one way to print it so that it reads back.\<close>

lemma prints_doubles_id: "prints_doubles (\<lambda>x. x)"
  by (simp add: prints_doubles_def)

end
