(* ===== verification/Json.thy ===== *)
theory Json
  imports Prelude Complex_Main
begin

text \<open>
  JavaScript values as the request bodies, the responses and the JSON columns of the logs hold them, and
  what the source does with them: reading and writing a field, \<open>typeof\<close>, truthiness, \<open>===\<close>.

  An object is the list of its own enumerable fields in their order.  Numbers are the rationals they denote.
\<close>

datatype json =
    JUndef
  | JNull
  | JBool bool
  | JNum rat
  | JStr string
  | JDate time
  | JArr "json list"
  | JObj "(string \<times> json) list"

text \<open>\<open>typeof x === 'object' && x !== null\<close>.\<close>

fun is_object :: "json \<Rightarrow> bool" where
  "is_object (JDate _) = True"
| "is_object (JArr _) = True"
| "is_object (JObj _) = True"
| "is_object _ = False"

fun js_truthy :: "json \<Rightarrow> bool" where
  "js_truthy JUndef = False"
| "js_truthy JNull = False"
| "js_truthy (JBool b) = b"
| "js_truthy (JNum q) = (q \<noteq> 0)"
| "js_truthy (JStr s) = (s \<noteq> '''')"
| "js_truthy _ = True"

text \<open>\<open>key in x\<close> and \<open>x[key]\<close> for an own field; \<open>delete x[key]\<close>; \<open>x[key] = v\<close>.\<close>

fun entries :: "json \<Rightarrow> (string \<times> json) list" where
  "entries (JObj kvs) = kvs"
| "entries _ = []"

definition has_field :: "string \<Rightarrow> json \<Rightarrow> bool" where
  "has_field k j \<longleftrightarrow> k \<in> fst ` set (entries j)"

definition field_of :: "string \<Rightarrow> json \<Rightarrow> json" where
  "field_of k j = (case map_of (entries j) k of None \<Rightarrow> JUndef | Some v \<Rightarrow> v)"

fun without_field :: "string \<Rightarrow> json \<Rightarrow> json" where
  "without_field k (JObj kvs) = JObj (filter (\<lambda>kv. fst kv \<noteq> k) kvs)"
| "without_field k j = j"

fun set_entry :: "string \<Rightarrow> json \<Rightarrow> (string \<times> json) list \<Rightarrow> (string \<times> json) list" where
  "set_entry k v [] = [(k, v)]"
| "set_entry k v (e # es) = (if fst e = k then (k, v) # es else e # set_entry k v es)"

fun with_field :: "string \<Rightarrow> json \<Rightarrow> json \<Rightarrow> json" where
  "with_field k v (JObj kvs) = JObj (set_entry k v kvs)"
| "with_field k v j = j"

text \<open>
  \<open>a === b\<close> for values that come from two different loads of the database: primitives are compared by value,
  two objects are never the same object.
\<close>

fun strict_eq :: "json \<Rightarrow> json \<Rightarrow> bool" where
  "strict_eq JUndef JUndef = True"
| "strict_eq JNull JNull = True"
| "strict_eq (JBool a) (JBool b) = (a = b)"
| "strict_eq (JNum a) (JNum b) = (a = b)"
| "strict_eq (JStr a) (JStr b) = (a = b)"
| "strict_eq _ _ = False"

text \<open>Optional columns: \<open>null\<close> when there is none.\<close>

definition json_opt :: "string option \<Rightarrow> json" where
  "json_opt x = (case x of None \<Rightarrow> JNull | Some s \<Rightarrow> JStr s)"

section \<open>Facts\<close>

lemma size_field [termination_simp]: "(k, v) \<in> set kvs \<Longrightarrow> size v < Suc (size_list (size_prod (\<lambda>_. 0) size) kvs)"
  by (induction kvs) auto

lemma size_element [termination_simp]: "v \<in> set xs \<Longrightarrow> size v < Suc (size_list size xs)"
  by (induction xs) auto

lemma map_of_set_entry: "map_of (set_entry k v kvs) = (map_of kvs)(k \<mapsto> v)"
  by (induction kvs) (auto simp: fun_eq_iff)

lemma keys_set_entry: "fst ` set (set_entry k v kvs) = insert k (fst ` set kvs)"
  by (induction kvs) auto

lemma field_with_field [simp]:
  "field_of k (with_field k v (JObj kvs)) = v" "k \<noteq> l \<Longrightarrow> field_of k (with_field l v j) = field_of k j"
  by (cases j; simp add: field_of_def map_of_set_entry)+

lemma no_field: "\<not> has_field k j \<Longrightarrow> field_of k j = JUndef"
  using map_of_eq_None_iff [of "entries j" k] by (simp add: has_field_def field_of_def)

lemma has_field_without [simp]: "has_field k (without_field l j) \<longleftrightarrow> has_field k j \<and> k \<noteq> l"
  by (cases j) (auto simp: has_field_def)

lemma has_field_with [simp]: "is_object j \<Longrightarrow> entries j \<noteq> [] \<Longrightarrow> has_field k (with_field l v j) \<longleftrightarrow> k = l \<or> has_field k j"
  by (cases j) (auto simp: has_field_def keys_set_entry)

lemma strict_eq_primitive: "\<not> is_object a \<Longrightarrow> strict_eq a b \<longleftrightarrow> a = b"
  by (cases a; cases b) auto

lemma strict_eq_object: "is_object a \<Longrightarrow> \<not> strict_eq a b"
  by (cases a; cases b) auto

end
