(* ===== verification/Entities.thy ===== *)
theory Entities
  imports Prelude Js_Number Json
begin

text \<open>
  The data model: the TypeORM entities with their enums, the request objects shared by several
  services, the keys and values of the cache, and the \<^emph>\<open>world\<close> the services act on.

  An entity class is a record; the abstract classes \<open>AuditEntity\<close> and \<open>BaseEntity\<close> are record types
  that the entities extend, as the classes do.  \<open>@UpdateDateColumn\<close> columns are left out: no operation
  reads them.  A nullable column is an \<open>option\<close>.  The relations of an entity are joins on its foreign
  keys and are not stored.  A table is the list of its rows, in the order in which the database
  returns them when a query names no order: the theorems hold for every list, hence for every
  order the database may choose.
\<close>

section \<open>Base entities\<close>

record audit_entity =
  entId :: uuid
  createdAt :: time

record base_entity = audit_entity +
  deletedAt :: "time option"

text \<open>A \<open>find\<close> on an entity with a \<open>@DeleteDateColumn\<close> returns only rows that are not soft deleted.\<close>

definition live :: "'a base_entity_scheme \<Rightarrow> bool" where
  "live r \<longleftrightarrow> deletedAt r = None"

section \<open>Accounts, roles, tokens\<close>

datatype login_provider = SMS | GOOGLE | APPLE

datatype registration_stage = OTP_VERIFIED | PASSWORD_SET | COMPLETED

record user = base_entity +
  u_email :: "string option"
  u_fullName :: "string option"
  u_phone :: "string option"
  u_password :: "string option"
  u_isBanned :: bool
  u_profileImageUrl :: "string option"
  u_dateOfBirth :: "string option"
  u_gender :: "string option"
  u_preferLanguage :: "string option"
  u_registrationStage :: "registration_stage option"
  u_fcmToken :: "string option"
  u_lastLoginAt :: "time option"
  u_lastLogoutAt :: "time option"
  u_googleId :: "string option"
  u_appleId :: "string option"
  u_loginProvider :: "login_provider option"
  u_roleId :: "uuid option"

record admin = base_entity +
  a_fullName :: string
  a_password :: "string option"
  a_email :: string
  a_profileImageUrl :: "string option"
  a_roleId :: uuid
  a_isBanned :: bool
  a_isTwoFactorEnabled :: bool
  a_lastLoginAt :: "time option"
  a_lastLogoutAt :: "time option"

datatype action_type = CREATE | READ | UPDATE | DELETE

datatype permission_module =
    M_ADMIN | M_ADMIN_LIST | M_ADMIN_ROLE_PERMISSIONS
  | M_SETTING | M_SETTING_SMTP
  | M_APPLICATION_USER | M_APPLICATION_USER_LIST
  | M_LOGS | M_ACTIVITY_LOGS | M_AUDIT_LOGS
  | M_HOTELS | M_HOTEL_LIST
  | M_ROOMS | M_ROOM_LIST
  | M_ROOM_TYPES | M_ROOM_TYPE_LIST
  | M_RATE_OPTIONS | M_RATE_OPTION_LIST
  | M_BOOKINGS | M_BOOKING_LIST
  | M_PAYMENTS | M_PAYMENT_LIST
  | M_PROFILE

record module_entity = base_entity +
  m_name :: string
  m_code :: permission_module
  m_parentId :: "uuid option"

record permission = base_entity +
  p_moduleId :: uuid
  p_action :: action_type

record role = base_entity +
  r_name :: string
  r_description :: "string option"
  r_rank :: int

record role_permission =
  rp_roleId :: uuid
  rp_permissionId :: uuid

record refresh_token = audit_entity +
  t_token :: string
  t_userId :: "uuid option"
  t_adminId :: "uuid option"
  t_expiresAt :: "time option"
  t_isRevoked :: bool

datatype otp_status = PENDING | VERIFIED | EXPIRED | USED

datatype otp_purpose = TWO_FACTOR | RESET_PASSWORD

record otp_record = audit_entity +
  o_userId :: "uuid option"
  o_adminId :: "uuid option"
  o_status :: otp_status
  o_purpose :: otp_purpose
  o_code :: string
  o_expiresAt :: time
  o_requestId :: "string option"
  o_attempts :: nat
  o_maxAttempts :: nat

section \<open>Hotels, rooms, rates\<close>

datatype currency = USD | EUR | GBP | SGD | THB

record hotel = base_entity +
  h_name :: string
  h_description :: "string option"
  h_latitude :: string
  h_longitude :: string
  h_address :: string
  h_city :: string
  h_country :: string
  h_postalCode :: string
  h_checkInTime :: string
  h_checkOutTime :: string
  h_isActive :: bool
  h_createdBy :: uuid

record room_type = base_entity +
  ty_hotelId :: uuid
  ty_name :: string
  ty_description :: "string option"
  ty_maxOccupancy :: int
  ty_bedType :: string
  ty_areaInSquareFeet :: cents

datatype room_status = AVAILABLE | OCCUPIED | MAINTENANCE | OUT_OF_SERVICE

record room = base_entity +
  rm_hotelId :: uuid
  rm_roomTypeId :: uuid
  rm_roomNumber :: string
  rm_floorNumber :: int
  rm_status :: room_status

record room_characteristic = base_entity +
  rc_name :: string
  rc_description :: "string option"

record room_type_characteristic = audit_entity +
  rtc_roomTypeId :: uuid
  rtc_roomCharacteristicId :: uuid

datatype cancellation_policy =
    FREE_CANCELLATION | FREE_CANCELLATION_UNTIL_DEADLINE | NON_REFUNDABLE
  | PARTIAL_REFUND_WITHIN_WINDOW | FEE_BASED_CANCELLATION

record rate_option = base_entity +
  ro_roomTypeId :: uuid
  ro_name :: string
  ro_description :: "string option"
  ro_pricePerNight :: cents
  ro_currency :: currency
  ro_isRefundable :: bool
  ro_cancellationPolicy :: cancellation_policy
  ro_deadlineHours :: "int option"

record benefit = base_entity +
  be_name :: string
  be_description :: "string option"

record rate_option_benefit = audit_entity +
  rob_rateOptionId :: uuid
  rob_benefitId :: uuid

section \<open>Bookings and payments\<close>

datatype booking_status = B_PENDING | B_CONFIRMED | B_CHECKED_IN | B_CHECKED_OUT | B_CANCELLED

record booking = base_entity +
  b_bookingReference :: string
  b_userId :: uuid
  b_status :: booking_status
  b_totalPrice :: cents
  b_currency :: currency
  b_totalGuest :: int
  b_bookedAt :: time

text \<open>A \<open>date\<close> column holds a calendar day, here its number since 1970-01-01.\<close>

record booking_room = audit_entity +
  br_bookingId :: uuid
  br_roomId :: uuid
  br_rateOptionId :: uuid
  br_checkInDate :: int
  br_checkOutDate :: int
  br_roomPricePerNight :: cents
  br_roomTotalPrice :: cents
  br_guestCount :: int

datatype payment_provider = STRIPE

datatype payment_status =
    P_PENDING | P_COMPLETED | P_FAILED | P_REFUNDED | P_REFUND_PENDING | P_REFUND_FAILED

record payment = base_entity +
  y_bookingId :: uuid
  y_userId :: uuid
  y_provider :: payment_provider
  y_paymentIntentId :: string
  y_amount :: cents
  y_currency :: currency
  y_status :: payment_status

section \<open>Settings and logs\<close>

record setting = base_entity +
  s_key :: string
  s_value :: "string option"

datatype log_action =
    LOGIN | LOGOUT | REGISTER | UPDATE_PROFILE | CHANGE_PASSWORD | FORGOT_PASSWORD_OTP
  | L_RESET_PASSWORD | ENABLE_TWO_FACTOR | DISABLE_TWO_FACTOR | VERIFY_TWO_FACTOR
  | DELETE_ACCOUNT | L_CREATE | L_UPDATE | L_DELETE

datatype log_status = SUCCESS | FAILURE

text \<open>The rows of the logs; their serial number, which nothing reads, is left out.\<close>

record activity_log =
  al_createdAt :: time
  al_userId :: uuid
  al_action :: log_action
  al_description :: string
  al_resourceType :: "string option"
  al_resourceId :: "string option"
  al_ipAddress :: "string option"
  al_userAgent :: "string option"
  al_device :: "string option"
  al_browser :: "string option"
  al_os :: "string option"
  al_location :: "string option"
  al_status :: log_status
  al_metadata :: "json option"

record audit_log =
  au_createdAt :: time
  au_adminId :: "uuid option"
  au_action :: log_action
  au_description :: string
  au_entityName :: "string option"
  au_entityId :: "string option"
  au_oldValue :: "json option"
  au_newValue :: "json option"
  au_ipAddress :: "string option"
  au_userAgent :: "string option"
  au_device :: "string option"
  au_browser :: "string option"
  au_os :: "string option"
  au_location :: "string option"
  au_status :: log_status
  au_metadata :: "json option"

section \<open>The authenticated caller\<close>

datatype subject_type = ADMIN | USER

text \<open>What the permission guard reads of \<open>role.rolePermissions\<close>: the module code and the action.\<close>

record role_view =
  rv_id :: uuid
  rv_name :: string
  rv_rank :: int
  rv_permissions :: "(permission_module \<times> action_type) list"

record authenticated_user =
  cu_id :: uuid
  cu_subjectType :: "subject_type option"
  cu_role :: "role_view option"

abbreviation is_admin :: "authenticated_user \<Rightarrow> bool" where
  "is_admin cu \<equiv> cu_subjectType cu = Some ADMIN"

section \<open>Pagination and list filters\<close>

record pagination =
  page :: nat
  limit :: nat
  getAll :: bool

datatype sort_order = ASC | DESC

record filter_hotel = pagination +
  fh_search :: "string option"
  fh_isActive :: "bool option"
  fh_roomTypeIds :: "uuid list option"
  fh_roomCharacteristicIds :: "uuid list option"
  fh_rateOptionIds :: "uuid list option"
  fh_rateOptionBenefitIds :: "uuid list option"
  fh_minPrice :: "rat option"
  fh_maxPrice :: "rat option"
  fh_sortBy :: "string option"
  fh_sortOrder :: "sort_order option"

record filter_room = pagination +
  fr_roomTypeId :: "uuid option"
  fr_status :: "room_status option"
  fr_minPrice :: "rat option"
  fr_maxPrice :: "rat option"

record filter_payment = pagination +
  fp_status :: "payment_status option"
  fp_userId :: "uuid option"
  fp_bookingId :: "uuid option"
  fp_sortBy :: "string option"
  fp_sortOrder :: "sort_order option"

record filter_booking = pagination +
  fb_status :: "booking_status option"
  fb_sortBy :: "string option"
  fb_sortOrder :: "sort_order option"

section \<open>Rows with their relations\<close>

text \<open>
  What the hotel and room services return and cache: a row together with the rows it is related to.  A link
  row stays when the row at its other end is soft deleted; that end is then missing.
\<close>

record rate_view =
  rtv_rate :: rate_option
  rtv_benefits :: "(rate_option_benefit \<times> benefit option) list"

record type_view =
  tyv_type :: room_type
  tyv_characteristics :: "(room_type_characteristic \<times> room_characteristic option) list"

record hotel_view =
  hv_hotel :: hotel
  hv_types :: "(type_view \<times> rate_view list) list"

record room_view =
  rmv_room :: room
  rmv_type :: "type_view option"

section \<open>Cache keys and values\<close>

text \<open>
  The source builds a key by concatenating a prefix, the caller's kind and the filter printed with
  its property names sorted; the constructors keep the parts apart.
\<close>

datatype cache_key =
    HotelListKey bool filter_hotel
  | HotelDetailKey bool uuid
  | HotelRegistryKey
  | RoomListKey uuid filter_room
  | RoomRegistryKey uuid
  | PaymentListKey "subject_type option" uuid filter_payment
  | PaymentRegistryKey

datatype cache_val =
    VKeys "cache_key list"
  | VHotels "hotel list" nat
  | VHotel hotel_view
  | VRooms "room_view list" nat nat nat
  | VPayments "payment list" nat

text \<open>An entry is a value with the instant at which it expires.\<close>

type_synonym cache = "cache_key \<Rightarrow> (cache_val \<times> time) option"

section \<open>The world\<close>

text \<open>Calls that leave the process: object storage, events, mail, text messages, Stripe.\<close>

datatype effect =
    S3Put string
  | S3Delete string
  | TwoFactorCodeRequested string string string
  | ForgotPasswordMail string string
  | SmsRequest string string int
  | StripeIntent string int currency

record world =
  users :: "user list"
  admins :: "admin list"
  modules :: "module_entity list"
  permissions :: "permission list"
  roles :: "role list"
  role_permissions :: "role_permission list"
  refresh_tokens :: "refresh_token list"
  otp_records :: "otp_record list"
  hotels :: "hotel list"
  room_types :: "room_type list"
  rooms :: "room list"
  room_characteristics :: "room_characteristic list"
  room_type_characteristics :: "room_type_characteristic list"
  rate_options :: "rate_option list"
  benefits :: "benefit list"
  rate_option_benefits :: "rate_option_benefit list"
  bookings :: "booking list"
  booking_rooms :: "booking_room list"
  payments :: "payment list"
  settings :: "setting list"
  activity_logs :: "activity_log list"
  audit_logs :: "audit_log list"
  the_cache :: cache
  effects :: "effect list"

text \<open>A world with empty tables, the starting point of the examples.\<close>

definition empty_world :: world where
  "empty_world =
     \<lparr>users = [], admins = [], modules = [], permissions = [], roles = [], role_permissions = [],
      refresh_tokens = [], otp_records = [], hotels = [], room_types = [], rooms = [],
      room_characteristics = [], room_type_characteristics = [], rate_options = [], benefits = [],
      rate_option_benefits = [], bookings = [], booking_rooms = [], payments = [], settings = [],
      activity_logs = [], audit_logs = [], the_cache = (\<lambda>_. None), effects = []\<rparr>"

definition emit :: "effect \<Rightarrow> world \<Rightarrow> world" where
  "emit e w = w\<lparr>effects := effects w @ [e]\<rparr>"

section \<open>Rows by identifier\<close>

text \<open>
  \<open>save(entity)\<close> on a loaded entity writes the columns of the entity over the row with its
  identifier.
\<close>

definition save_row :: "'a audit_entity_scheme \<Rightarrow> 'a audit_entity_scheme list \<Rightarrow> 'a audit_entity_scheme list" where
  "save_row x rs = update_where (\<lambda>r. entId r = entId x) (\<lambda>_. x) rs"

definition ids :: "'a audit_entity_scheme list \<Rightarrow> uuid list" where
  "ids rs = map entId rs"

text \<open>\<open>findOne({ where: { id } })\<close> on an entity with soft deletion.\<close>

definition by_id :: "uuid \<Rightarrow> 'a base_entity_scheme list \<Rightarrow> 'a base_entity_scheme option" where
  "by_id i rs = find_one (\<lambda>r. live r \<and> entId r = i) rs"

text \<open>A foreign key is checked against all rows of the table, soft deleted or not.\<close>

definition references :: "uuid \<Rightarrow> 'a audit_entity_scheme list \<Rightarrow> bool" where
  "references i rs = exists_by (\<lambda>r. entId r = i) rs"

lemma ids_append [simp, tbl]: "ids (rs @ ss) = ids rs @ ids ss"
  by (simp add: ids_def)

lemma ids_simps [simp, tbl]: "ids [] = []" "ids (r # rs) = entId r # ids rs"
  by (simp_all add: ids_def)

lemma by_id_Some: "by_id i rs = Some r \<Longrightarrow> r \<in> set rs \<and> live r \<and> entId r = i"
  by (auto simp: by_id_def dest: find_one_Some)

lemma ids_save_row [simp, tbl]: "ids (save_row x rs) = ids rs"
  by (auto simp: ids_def save_row_def update_where_def)

lemma ids_update_where [tbl]:
  "(\<And>r. entId (f r) = entId r) \<Longrightarrow> ids (update_where p f rs) = ids rs"
  by (simp add: ids_def map_update_where)

lemma set_save_row:
  "set (save_row x rs) = (if entId x \<in> set (ids rs) then {x} else {}) \<union> {r \<in> set rs. entId r \<noteq> entId x}"
  by (auto simp: save_row_def set_update_where ids_def image_iff)

lemma in_save_row: "r \<in> set (save_row x rs) \<Longrightarrow> r = x \<or> (r \<in> set rs \<and> entId r \<noteq> entId x)"
  by (auto simp: save_row_def set_update_where)

lemma references_iff [simp]: "references i rs \<longleftrightarrow> i \<in> set (ids rs)"
  by (auto simp: references_def ids_def)

lemma distinct_ids_unique:
  "distinct (ids rs) \<Longrightarrow> r \<in> set rs \<Longrightarrow> s \<in> set rs \<Longrightarrow> entId r = entId s \<Longrightarrow> r = s"
  by (auto simp: ids_def distinct_map dest: inj_onD)

lemma by_id_eq:
  assumes "distinct (ids rs)" and "r \<in> set rs" and "live r"
  shows "by_id (entId r) rs = Some r"
  using find_one_key [of entId rs r live] assms by (simp add: by_id_def ids_def conj_commute)

text \<open>Looking a row up after saving it finds what was saved.\<close>

lemma by_id_save_row:
  "by_id i rs = Some r \<Longrightarrow> entId x = i \<Longrightarrow> live x \<Longrightarrow> by_id i (save_row x rs) = Some x"
  by (induction rs) (auto simp: by_id_def save_row_def split: if_splits)

lemma by_id_save_row_other:
  "entId x \<noteq> i \<Longrightarrow> by_id i (save_row x rs) = by_id i rs"
  by (induction rs) (auto simp: by_id_def save_row_def)

text \<open>Counting the live rows found by \<open>id IN (\<dots>)\<close>.\<close>

lemma count_live_iff:
  assumes "distinct (ids rs)"
  shows "length (find_all (\<lambda>r. live r \<and> entId r \<in> set is) rs) = length is
     \<longleftrightarrow> distinct is \<and> (\<forall>i \<in> set is. by_id i rs \<noteq> None)"
proof -
  have "distinct (map entId (filter live rs))"
    using assms by (simp add: ids_def distinct_map_filter)
  note count = count_by_key_iff [OF this, of "is"]
  have "find_all (\<lambda>r. live r \<and> entId r \<in> set is) rs = filter (\<lambda>r. entId r \<in> set is) (filter live rs)"
    by (simp add: find_all_def conj_commute)
  moreover have "set is \<subseteq> entId ` set (filter live rs) \<longleftrightarrow> (\<forall>i \<in> set is. by_id i rs \<noteq> None)"
    by (auto simp: by_id_def find_one_None)
  ultimately show ?thesis using count by simp
qed

lemma by_id_soft_deleted:
  assumes "\<And>x. deletedAt (f x) \<noteq> None" and "\<And>x. entId (f x) = entId x"
  shows "by_id i (update_where (\<lambda>x. entId x = i) f rs) = None"
  using assms by (induction rs) (auto simp: by_id_def live_def)

end
