(* ===== verification/Listing.thy ===== *)
theory Listing
  imports Entities "HOL-Library.Sublist"
begin

text \<open>
  Paginated listings.  Every \<open>findAll\<close> of the services filters a table, orders it, and either returns
  it whole (\<open>getAll\<close>) or skips \<open>(page - 1) * limit\<close> rows and takes \<open>limit\<close>; \<open>getManyAndCount\<close>
  adds the number of rows before pagination.  The locale \<open>paged_listing\<close> states this contract, and
  derives that the pages partition the listing; each service interprets it on its own \<open>findAll\<close>.
\<close>

definition order_rows :: "('a \<Rightarrow> int) \<Rightarrow> sort_order \<Rightarrow> 'a list \<Rightarrow> 'a list" where
  "order_rows key ord rs = (case ord of ASC \<Rightarrow> sort_key key rs | DESC \<Rightarrow> rev (sort_key key rs))"

definition take_page :: "nat \<Rightarrow> nat \<Rightarrow> 'a list \<Rightarrow> 'a list" where
  "take_page pg sz rs = take sz (drop ((pg - 1) * sz) rs)"

definition get_many_and_count :: "'p pagination_scheme \<Rightarrow> 'a list \<Rightarrow> 'a list \<times> nat" where
  "get_many_and_count f rs =
     (if getAll f then rs else take_page (page f) (limit f) rs, length rs)"

lemma set_order_rows [simp]: "set (order_rows key ord rs) = set rs"
  by (cases ord) (simp_all add: order_rows_def)

lemma length_order_rows [simp]: "length (order_rows key ord rs) = length rs"
  by (cases ord) (simp_all add: order_rows_def)

lemma set_take_page: "set (take_page pg sz rs) \<subseteq> set rs"
  by (auto simp: take_page_def dest: in_set_takeD in_set_dropD)

lemma set_get_many: "set (fst (get_many_and_count f rs)) \<subseteq> set rs"
  using set_take_page [of "page f" "limit f" rs] by (simp add: get_many_and_count_def)

lemma pages_concat: "concat (map (\<lambda>i. take_page (Suc i) sz rs) [0..<n]) = take (n * sz) rs"
proof (induction n)
  case 0
  then show ?case by simp
next
  case (Suc n)
  have "take (n * sz) rs @ take sz (drop (n * sz) rs) = take (n * sz + sz) rs"
    by (simp add: take_add)
  then show ?case using Suc.IH by (simp add: take_page_def add.commute)
qed

locale paged_listing =
  fixes list_page :: "nat \<Rightarrow> nat \<Rightarrow> 'a list \<times> nat"
    and listing :: "'a list"
  assumes list_page_items: "fst (list_page pg sz) = take_page pg sz listing"
    and list_page_total: "snd (list_page pg sz) = length listing"
begin

text \<open>The first pages put together are the listing, once they are long enough.\<close>

lemma pages_cover:
  assumes "length listing \<le> n * sz"
  shows "concat (map (\<lambda>i. fst (list_page (Suc i) sz)) [0..<n]) = listing"
  using assms by (simp add: list_page_items pages_concat)

lemma page_length: "length (fst (list_page pg sz)) \<le> sz"
  by (simp add: list_page_items take_page_def)

lemma page_sound: "x \<in> set (fst (list_page pg sz)) \<Longrightarrow> x \<in> set listing"
  using set_take_page [of pg sz listing] by (auto simp: list_page_items)

text \<open>Past the last page there is nothing.\<close>

lemma page_beyond: "snd (list_page 1 sz) \<le> (pg - 1) * sz \<Longrightarrow> fst (list_page pg sz) = []"
  by (simp add: list_page_items list_page_total take_page_def)

end

section \<open>Search\<close>

text \<open>
  PostgreSQL's \<open>LIKE\<close>: a percent sign fits every string, an underscore every character, and a backslash takes the next
  character literally.  \<open>ILIKE\<close> compares without regard to case.
\<close>

fun like :: "string \<Rightarrow> string \<Rightarrow> bool" where
  "like [] s = (s = [])"
| "like (c # p) s =
     (if c = CHR ''%'' then list_ex (\<lambda>n. like p (drop n s)) [0..<Suc (length s)]
      else if c = CHR ''_'' then (case s of [] \<Rightarrow> False | _ # t \<Rightarrow> like p t)
      else if c = CHR 0x5C
      then (case p of [] \<Rightarrow> False | d # q \<Rightarrow> (case s of [] \<Rightarrow> False | x # t \<Rightarrow> x = d \<and> like q t))
      else (case s of [] \<Rightarrow> False | x # t \<Rightarrow> x = c \<and> like p t))"

definition ilike :: "string \<Rightarrow> string \<Rightarrow> bool" where
  "ilike p s = like (map to_lower p) (map to_lower s)"

text \<open>\<open>ILike(`%${search}%`)\<close>; a missing column fits nothing.\<close>

definition search_term :: "string \<Rightarrow> string" where
  "search_term t = CHR ''%'' # t @ [CHR ''%'']"

definition fits_search :: "string \<Rightarrow> string option \<Rightarrow> bool" where
  "fits_search t column = (case column of None \<Rightarrow> False | Some s \<Rightarrow> ilike (search_term t) s)"

definition wildcards :: "char set" where
  "wildcards = {CHR ''%'', CHR ''_'', CHR 0x5C}"

lemma like_percent_end: "like [CHR ''%''] s"
  by (auto simp: list_ex_iff)

lemma like_literal:
  "set p \<inter> wildcards = {} \<Longrightarrow> like (p @ [CHR ''%'']) s \<longleftrightarrow> prefix p s"
proof (induction p arbitrary: s)
  case Nil
  show ?case using like_percent_end [of s] by simp
next
  case (Cons c p)
  then show ?case by (cases s) (auto simp: wildcards_def)
qed

lemma to_lower_wildcard: "to_lower c \<in> wildcards \<longleftrightarrow> c \<in> wildcards"
proof -
  have "\<forall>c \<in> set ''ABCDEFGHIJKLMNOPQRSTUVWXYZ''. to_lower c \<notin> wildcards \<and> c \<notin> wildcards"
    unfolding wildcards_def by code_simp
  moreover have "to_lower c = c" if "c \<notin> set ''ABCDEFGHIJKLMNOPQRSTUVWXYZ''"
    using that by (auto simp: to_lower_def split: option.split dest!: map_of_SomeD set_zip_leftD)
  ultimately show ?thesis by metis
qed

text \<open>A term without wildcards is searched for literally: the rows found are those that contain it, whatever the case.\<close>

lemma literal_search:
  assumes "set t \<inter> wildcards = {}"
  shows "ilike (search_term t) s \<longleftrightarrow> sublist (map to_lower t) (map to_lower s)"
proof -
  let ?t = "map to_lower t" and ?s = "map to_lower s"
  have w: "set ?t \<inter> wildcards = {}" using assms to_lower_wildcard by auto
  have pc: "to_lower (CHR ''%'') = CHR ''%''" by code_simp
  have "ilike (search_term t) s \<longleftrightarrow> (\<exists>n \<le> length ?s. prefix ?t (drop n ?s))"
    by (auto simp: ilike_def search_term_def pc list_ex_iff like_literal [OF w] less_Suc_eq_le simp del: upt_Suc)
  also have "\<dots> \<longleftrightarrow> sublist ?t ?s"
  proof
    assume "\<exists>n \<le> length ?s. prefix ?t (drop n ?s)"
    then obtain n v where "drop n ?s = ?t @ v" by (auto simp: prefix_def)
    then have "?s = take n ?s @ ?t @ v" by (metis append_take_drop_id)
    then show "sublist ?t ?s" unfolding sublist_def by blast
  next
    assume "sublist ?t ?s"
    then obtain u v where s: "?s = u @ ?t @ v" unfolding sublist_def by blast
    have "length u \<le> length ?s" unfolding s by simp
    moreover have "prefix ?t (drop (length u) ?s)" unfolding s by simp
    ultimately show "\<exists>n \<le> length ?s. prefix ?t (drop n ?s)" by blast
  qed
  finally show ?thesis .
qed

end
