(* ===== verification/Cache_Lists.thy ===== *)
theory Cache_Lists
  imports Entities
begin

text \<open>
  The list caches of the hotel, room and payment services.

  A service caches the result of a listing under a key made of the filter, and keeps the keys it
  has used in a \<^emph>\<open>registry\<close>, itself a cache entry; a write to the table deletes the registered keys and
  the registry.  Registry and lists expire \<open>CACHE_TTL\<close> milliseconds after they are set.  The store is
  used through \<open>get\<close>, \<open>set\<close> with a time to live, and \<open>del\<close>.

  The locale \<open>list_cache\<close> is the contract between the pattern and the store.  It derives when an
  invalidation is complete: for lists cached within one time to live of the last invalidation
  (\<open>window_cleared\<close>).  Outside that window it need not be: a key that is already registered is not
  registered again, so its entry can outlive the registry (\<open>stale_survives\<close>).
\<close>

section \<open>The store\<close>

definition cache_get :: "time \<Rightarrow> cache_key \<Rightarrow> world \<Rightarrow> cache_val option" where
  "cache_get now k w =
     (case the_cache w k of None \<Rightarrow> None | Some (v, expiry) \<Rightarrow> if now < expiry then Some v else None)"

definition cache_set :: "cache_key \<Rightarrow> cache_val \<Rightarrow> int \<Rightarrow> time \<Rightarrow> world \<Rightarrow> world" where
  "cache_set k v ttl now w = w\<lparr>the_cache := (the_cache w)(k \<mapsto> (v, now + ttl))\<rparr>"

definition cache_del :: "cache_key \<Rightarrow> world \<Rightarrow> world" where
  "cache_del k w = w\<lparr>the_cache := (the_cache w)(k := None)\<rparr>"

section \<open>The registry\<close>

definition registry :: "cache_key \<Rightarrow> time \<Rightarrow> world \<Rightarrow> cache_key list" where
  "registry reg now w = (case cache_get now reg w of Some (VKeys ks) \<Rightarrow> ks | _ \<Rightarrow> [])"

definition register_key :: "cache_key \<Rightarrow> cache_key \<Rightarrow> int \<Rightarrow> time \<Rightarrow> world \<Rightarrow> world" where
  "register_key reg k ttl now w =
     (let existing = registry reg now w
      in if k \<in> set existing then w else cache_set reg (VKeys (existing @ [k])) ttl now w)"

definition invalidate_lists :: "cache_key \<Rightarrow> time \<Rightarrow> world \<Rightarrow> world" where
  "invalidate_lists reg now w = cache_del reg (fold cache_del (registry reg now w) w)"

text \<open>What a listing does on a miss: store the result, then register the key.\<close>

definition remember_list :: "cache_key \<Rightarrow> cache_key \<Rightarrow> cache_val \<Rightarrow> int \<Rightarrow> time \<Rightarrow> world \<Rightarrow> world" where
  "remember_list reg k v ttl now w = register_key reg k ttl now (cache_set k v ttl now w)"

section \<open>The registry of each service\<close>

text \<open>\<open>HotelService.registerListKey\<close>, \<open>invalidateHotelLists\<close>.\<close>

definition hotel_registerListKey :: "cache_key \<Rightarrow> int \<Rightarrow> time \<Rightarrow> world \<Rightarrow> world" where
  "hotel_registerListKey k ttl now w = register_key HotelRegistryKey k ttl now w"

definition invalidateHotelLists :: "time \<Rightarrow> world \<Rightarrow> world" where
  "invalidateHotelLists now w = invalidate_lists HotelRegistryKey now w"

text \<open>\<open>RoomService.registerListKey\<close>, \<open>invalidateRoomLists\<close>: one registry per hotel.\<close>

definition room_registerListKey :: "uuid \<Rightarrow> cache_key \<Rightarrow> int \<Rightarrow> time \<Rightarrow> world \<Rightarrow> world" where
  "room_registerListKey hotelId k ttl now w = register_key (RoomRegistryKey hotelId) k ttl now w"

definition invalidateRoomLists :: "uuid \<Rightarrow> time \<Rightarrow> world \<Rightarrow> world" where
  "invalidateRoomLists hotelId now w = invalidate_lists (RoomRegistryKey hotelId) now w"

text \<open>\<open>PaymentService.registerListKey\<close>, \<open>invalidatePaymentLists\<close>.\<close>

definition payment_registerListKey :: "cache_key \<Rightarrow> int \<Rightarrow> time \<Rightarrow> world \<Rightarrow> world" where
  "payment_registerListKey k ttl now w = register_key PaymentRegistryKey k ttl now w"

definition invalidatePaymentLists :: "time \<Rightarrow> world \<Rightarrow> world" where
  "invalidatePaymentLists now w = invalidate_lists PaymentRegistryKey now w"

section \<open>Facts on the store\<close>

lemma cache_get_set:
  "cache_get t k (cache_set k' v ttl now w) =
     (if k = k' then (if t < now + ttl then Some v else None) else cache_get t k w)"
  by (simp add: cache_get_def cache_set_def)

lemma cache_get_del: "cache_get t k (cache_del k' w) = (if k = k' then None else cache_get t k w)"
  by (simp add: cache_get_def cache_del_def)

lemma cache_get_fold_del:
  "cache_get t k (fold cache_del ks w) = (if k \<in> set ks then None else cache_get t k w)"
  by (induction ks arbitrary: w) (auto simp: cache_get_del)

lemma cache_get_invalidate:
  "cache_get t k (invalidate_lists reg now w) =
     (if k = reg \<or> k \<in> set (registry reg now w) then None else cache_get t k w)"
  by (simp add: invalidate_lists_def cache_get_del cache_get_fold_del)

text \<open>The cache operations touch nothing but the cache.\<close>

lemma cache_set_frame: "\<exists>c. cache_set k v ttl now w = w\<lparr>the_cache := c\<rparr>"
  by (auto simp: cache_set_def)

lemma fold_del_frame: "\<exists>c. fold cache_del ks w = w\<lparr>the_cache := c\<rparr>"
proof (induction ks arbitrary: w)
  case Nil
  show ?case by (rule exI [of _ "the_cache w"]) simp
next
  case (Cons k ks)
  obtain c where "fold cache_del ks (cache_del k w) = (cache_del k w)\<lparr>the_cache := c\<rparr>"
    using Cons.IH by blast
  moreover have "(cache_del k w)\<lparr>the_cache := c\<rparr> = w\<lparr>the_cache := c\<rparr>" by (simp add: cache_del_def)
  ultimately show ?case by (intro exI [of _ c]) simp
qed

lemma invalidate_frame: "\<exists>c. invalidate_lists reg now w = w\<lparr>the_cache := c\<rparr>"
  using fold_del_frame [of "registry reg now w" w] by (auto simp: invalidate_lists_def cache_del_def)

lemma invalidate_tables [simp, tbl]:
  "users (invalidate_lists reg now w) = users w"
  "bookings (invalidate_lists reg now w) = bookings w"
  "booking_rooms (invalidate_lists reg now w) = booking_rooms w"
  "payments (invalidate_lists reg now w) = payments w"
  "rooms (invalidate_lists reg now w) = rooms w"
  "room_types (invalidate_lists reg now w) = room_types w"
  "hotels (invalidate_lists reg now w) = hotels w"
  "rate_options (invalidate_lists reg now w) = rate_options w"
  "effects (invalidate_lists reg now w) = effects w"
  using invalidate_frame [of reg now w] by auto

lemma registry_set_other: "k \<noteq> reg \<Longrightarrow> registry reg t (cache_set k v ttl now w) = registry reg t w"
  by (simp add: registry_def cache_get_set)

lemma registry_register:
  assumes "0 < ttl"
  shows "set (registry reg now (register_key reg k ttl now w)) = insert k (set (registry reg now w))"
  using assms by (auto simp: register_key_def Let_def registry_def cache_get_set)

section \<open>The contract\<close>

text \<open>
  \<open>live_until s t\<close> says that the registry of \<open>s\<close> is still there at every instant before \<open>t\<close>, when it
  is there at all.  \<open>lists\<close> are the keys under which the service caches listings.
\<close>

locale list_cache =
  fixes get :: "time \<Rightarrow> 'k \<Rightarrow> 's \<Rightarrow> 'v option"
    and remember :: "'k \<Rightarrow> 'v \<Rightarrow> int \<Rightarrow> time \<Rightarrow> 's \<Rightarrow> 's"
    and invalidate :: "time \<Rightarrow> 's \<Rightarrow> 's"
    and registered :: "time \<Rightarrow> 's \<Rightarrow> 'k set"
    and lists :: "'k set"
  assumes get_remember:
      "k \<in> lists \<Longrightarrow> k' \<in> lists \<Longrightarrow>
       get t k (remember k' v ttl now s) = (if k = k' then (if t < now + ttl then Some v else None) else get t k s)"
    and registered_remember:
      "k \<in> lists \<Longrightarrow> 0 < ttl \<Longrightarrow> now \<le> t \<Longrightarrow> t < now + ttl \<Longrightarrow>
       k \<notin> registered now s \<Longrightarrow> registered t (remember k v ttl now s) = insert k (registered now s)"
    and registered_again:
      "k \<in> lists \<Longrightarrow> k \<in> registered now s \<Longrightarrow> registered t (remember k v ttl now s) = registered t s"
    and get_invalidate:
      "k \<in> lists \<Longrightarrow> get t k (invalidate now s) = (if k \<in> registered now s then None else get t k s)"
begin

definition remembers :: "int \<Rightarrow> ('k \<times> 'v \<times> time) list \<Rightarrow> 's \<Rightarrow> 's" where
  "remembers ttl ops s = fold (\<lambda>(k, v, now) s. remember k v ttl now s) ops s"

text \<open>
  All listings cached in a window of length \<open>ttl\<close>, in the order of their instants, are registered
  throughout the window.
\<close>

lemma window_registered:
  assumes "\<forall>(k, v, t) \<in> set ops. k \<in> lists \<and> t\<^sub>0 \<le> t \<and> t < t\<^sub>0 + ttl"
    and "sorted (map (\<lambda>(k, v, t). t) ops)" and "0 < ttl"
    and "\<forall>(k, v, t) \<in> set ops. t\<^sub>1 \<le> t" and "t\<^sub>0 \<le> t\<^sub>1"
    and "R \<subseteq> lists" and "\<forall>t. t\<^sub>1 \<le> t \<and> t < t\<^sub>0 + ttl \<longrightarrow> registered t s = R"
    and "\<forall>(k, v, t) \<in> set ops. t \<le> t\<^sub>2" and "t\<^sub>1 \<le> t\<^sub>2" and "t\<^sub>2 < t\<^sub>0 + ttl"
  shows "registered t\<^sub>2 (remembers ttl ops s) = R \<union> fst ` set ops"
  using assms
proof (induction ops arbitrary: s R t\<^sub>1)
  case Nil
  then show ?case by (simp add: remembers_def)
next
  case (Cons x ops)
  obtain k v now where x: "x = (k, v, now)" by (cases x)
  have now: "k \<in> lists" "t\<^sub>0 \<le> now" "t\<^sub>1 \<le> now" "now < t\<^sub>0 + ttl" "now \<le> t\<^sub>2"
    using Cons.prems x by auto
  have reg: "registered t (remember k v ttl now s) = insert k R" if "now \<le> t" "t < t\<^sub>0 + ttl" for t
  proof (cases "k \<in> R")
    case True
    then show ?thesis using registered_again [of k now s] Cons.prems(7) now that by auto
  next
    case False
    then show ?thesis using registered_remember [of k ttl now t s v] Cons.prems(3,7) now that by auto
  qed
  have later: "now \<le> t" if "(k', v', t) \<in> set ops" for k' v' t
    using Cons.prems(2) that x by (force simp: case_prod_beta)
  have "registered t\<^sub>2 (remembers ttl ops (remember k v ttl now s)) = insert k R \<union> fst ` set ops"
    by (rule Cons.IH [where t\<^sub>1 = now]) (use Cons.prems x now reg later in \<open>auto simp: case_prod_beta\<close>)
  then show ?case by (simp add: x remembers_def)
qed

lemma get_remembers_other:
  "k \<in> lists \<Longrightarrow> fst ` set ops \<subseteq> lists \<Longrightarrow> k \<notin> fst ` set ops \<Longrightarrow> get t k (remembers ttl ops s) = get t k s"
proof (induction ops arbitrary: s)
  case Nil
  then show ?case by (simp add: remembers_def)
next
  case (Cons x ops)
  then show ?case by (cases x) (auto simp: remembers_def get_remember)
qed

text \<open>
  Starting from a cache with no live list, an invalidation at the end of the window leaves no list
  behind.
\<close>

lemma window_cleared:
  assumes "\<forall>(k, v, t) \<in> set ops. k \<in> lists \<and> t\<^sub>0 \<le> t \<and> t \<le> t\<^sub>2" and "sorted (map (\<lambda>(k, v, t). t) ops)"
    and "t\<^sub>0 \<le> t\<^sub>2" and "t\<^sub>2 < t\<^sub>0 + ttl"
    and "\<forall>k \<in> lists. \<forall>t \<ge> t\<^sub>0. get t k s = None" and "\<forall>t \<ge> t\<^sub>0. registered t s = {}"
    and "k \<in> lists" and "t\<^sub>0 \<le> t"
  shows "get t k (invalidate t\<^sub>2 (remembers ttl ops s)) = None"
proof -
  have reg: "registered t\<^sub>2 (remembers ttl ops s) = {} \<union> fst ` set ops"
    by (rule window_registered [where t\<^sub>0 = t\<^sub>0 and t\<^sub>1 = t\<^sub>0]) (use assms in \<open>auto simp: case_prod_beta\<close>)
  have sub: "fst ` set ops \<subseteq> lists" using assms(1) by auto
  show ?thesis
    using get_remembers_other [OF assms(7) sub] assms(5,7,8) reg by (simp add: get_invalidate)
qed

text \<open>
  A list cached again while its key is still registered outlives the registry: once the registry
  has expired, an invalidation does not delete it.
\<close>

lemma stale_survives:
  assumes "k \<in> lists" and "k \<in> registered now s" and "k \<notin> registered t\<^sub>3 s"
    and "t\<^sub>3 \<le> t" and "t < now + ttl"
  shows "get t k (invalidate t\<^sub>3 (remember k v ttl now s)) = Some v"
  using assms by (simp add: get_invalidate registered_again get_remember)

end

section \<open>The three services keep the contract\<close>

lemma remember_list_contract:
  assumes "k \<noteq> reg"
  shows "k' \<noteq> reg \<Longrightarrow> cache_get t k' (remember_list reg k v ttl now w)
      = (if k' = k then (if t < now + ttl then Some v else None) else cache_get t k' w)"
    and "0 < ttl \<Longrightarrow> now \<le> t \<Longrightarrow> t < now + ttl \<Longrightarrow> k \<notin> set (registry reg now w) \<Longrightarrow>
      set (registry reg t (remember_list reg k v ttl now w)) = insert k (set (registry reg now w))"
    and "k \<in> set (registry reg now w) \<Longrightarrow>
      set (registry reg t (remember_list reg k v ttl now w)) = set (registry reg t w)"
  using assms
  by (auto simp: remember_list_def register_key_def Let_def registry_set_other cache_get_set)
     (auto simp: registry_def cache_get_set)

definition hotel_list_keys :: "cache_key set" where
  "hotel_list_keys = {HotelListKey a f | a f. True}"

definition room_list_keys :: "uuid \<Rightarrow> cache_key set" where
  "room_list_keys h = {RoomListKey h f | f. True}"

definition payment_list_keys :: "cache_key set" where
  "payment_list_keys = {PaymentListKey s u f | s u f. True}"

interpretation hotel_lists: list_cache cache_get "remember_list HotelRegistryKey" invalidateHotelLists
  "\<lambda>t w. set (registry HotelRegistryKey t w)" hotel_list_keys
  by unfold_locales
     (auto simp: hotel_list_keys_def remember_list_contract invalidateHotelLists_def cache_get_invalidate
           split: if_splits)

interpretation room_lists: list_cache cache_get "remember_list (RoomRegistryKey h)" "invalidateRoomLists h"
  "\<lambda>t w. set (registry (RoomRegistryKey h) t w)" "room_list_keys h" for h
  by unfold_locales
     (auto simp: room_list_keys_def remember_list_contract invalidateRoomLists_def cache_get_invalidate
           split: if_splits)

interpretation payment_lists: list_cache cache_get "remember_list PaymentRegistryKey" invalidatePaymentLists
  "\<lambda>t w. set (registry PaymentRegistryKey t w)" payment_list_keys
  by unfold_locales
     (auto simp: payment_list_keys_def remember_list_contract invalidatePaymentLists_def cache_get_invalidate
           split: if_splits)

end
