(* ===== verification/Payment.thy ===== *)
theory Payment
  imports Listing Cache_Lists
begin

text \<open>
  \<open>src/src/v1/payment\<close> and \<open>src/src/v1/stripe\<close>: payment intents, the Stripe webhook, cash payments and
  the cached payment listing.

  Stripe is an argument: \<open>pe_stripe amount currency\<close> is the identifier and the client secret of a new
  intent, or \<open>None\<close> when the call fails; \<open>verify\<close> is the signature check of the webhook.
\<close>

section \<open>Amounts\<close>

definition toStripeAmount :: "cents \<Rightarrow> int" where
  "toStripeAmount decimalPrice = js_round (fl (parse_float decimalPrice * 100))"

section \<open>Environment and events\<close>

record payment_env =
  pe_now :: time
  pe_ttl :: int
  pe_paymentId :: uuid
  pe_stripe :: "int \<Rightarrow> currency \<Rightarrow> (string \<times> string) option"

record stripe_event =
  ev_type :: string
  ev_objectId :: string

section \<open>Stripe\<close>

definition stripe_createPaymentIntent ::
  "payment_env \<Rightarrow> int \<Rightarrow> currency \<Rightarrow> world \<Rightarrow> (string \<times> string, world) result" where
  "stripe_createPaymentIntent env amount cur w =
     (case pe_stripe env amount cur of
        None \<Rightarrow> throw (InternalServerErrorException ''Could not create PaymentIntent'') w
      | Some (i, secret) \<Rightarrow> ok (i, secret) (emit (StripeIntent i amount cur) w))"

section \<open>Inserting a payment\<close>

text \<open>The constraints of the table: primary key, unique intent, foreign keys.\<close>

definition save_payment :: "payment \<Rightarrow> world \<Rightarrow> (unit, world) result" where
  "save_payment p w =
     (if references (entId p) (payments w)
         \<or> exists_by (\<lambda>x. y_paymentIntentId x = y_paymentIntentId p) (payments w)
      then throw (QueryFailedError ''23505'') w
      else if \<not> references (y_bookingId p) (bookings w) \<or> \<not> references (y_userId p) (users w)
      then throw (QueryFailedError ''23503'') w
      else ok () (w\<lparr>payments := payments w @ [p]\<rparr>))"

section \<open>Operations\<close>

definition createPaymentIntent ::
  "payment_env \<Rightarrow> uuid \<Rightarrow> authenticated_user \<Rightarrow> world \<Rightarrow> (string \<times> uuid, world) result" where
  "createPaymentIntent env bookingId cu w =
     (case by_id bookingId (bookings w) of
        None \<Rightarrow> throw (NotFoundException ''Booking not found'') w
      | Some b \<Rightarrow>
          if \<not> is_admin cu \<and> b_userId b \<noteq> cu_id cu
          then throw (ForbiddenException ''You are not allowed to pay for this booking'') w
          else if b_status b \<noteq> B_PENDING
          then throw (BadRequestException ''Payment can only be initiated for PENDING bookings'') w
          else if find_one (\<lambda>p. live p \<and> y_bookingId p = entId b \<and> y_status p = P_PENDING) (payments w) \<noteq> None
          then throw (BadRequestException ''A pending payment already exists for this booking'') w
          else
            and_then
              (catching (stripe_createPaymentIntent env (toStripeAmount (b_totalPrice b)) (b_currency b) w)
                 (\<lambda>_ w'. throw (InternalServerErrorException ''Failed to initialise payment'') w'))
              (\<lambda>(intentId, secret) w1.
                 and_then
                   (save_payment \<lparr>entId = pe_paymentId env, createdAt = pe_now env, deletedAt = None,
                      y_bookingId = entId b, y_userId = cu_id cu, y_provider = STRIPE,
                      y_paymentIntentId = intentId, y_amount = b_totalPrice b,
                      y_currency = b_currency b, y_status = P_PENDING\<rparr> w1)
                   (\<lambda>_ w2. ok (secret, pe_paymentId env) (invalidatePaymentLists (pe_now env) w2))))"

definition handlePaymentSuccess :: "payment_env \<Rightarrow> string \<Rightarrow> world \<Rightarrow> (unit, world) result" where
  "handlePaymentSuccess env intentId w =
     (case find_one (\<lambda>p. live p \<and> y_paymentIntentId p = intentId) (payments w) of
        None \<Rightarrow> ok () w
      | Some p \<Rightarrow>
          if y_status p = P_COMPLETED then ok () w
          else
            let w1 = w\<lparr>payments := save_row (p\<lparr>y_status := P_COMPLETED\<rparr>) (payments w)\<rparr>;
                w2 = invalidatePaymentLists (pe_now env) w1
            in ok () (w2\<lparr>bookings := update_where (\<lambda>b. entId b = y_bookingId p \<and> b_status b = B_PENDING)
                             (\<lambda>b. b\<lparr>b_status := B_CONFIRMED\<rparr>) (bookings w2)\<rparr>))"

definition handlePaymentFailure :: "payment_env \<Rightarrow> string \<Rightarrow> world \<Rightarrow> (unit, world) result" where
  "handlePaymentFailure env intentId w =
     (case find_one (\<lambda>p. live p \<and> y_paymentIntentId p = intentId) (payments w) of
        None \<Rightarrow> ok () w
      | Some p \<Rightarrow>
          let w1 = w\<lparr>payments := save_row (p\<lparr>y_status := P_FAILED\<rparr>) (payments w)\<rparr>
          in ok () (invalidatePaymentLists (pe_now env) w1))"

definition handleStripeWebhook :: "payment_env \<Rightarrow> stripe_event \<Rightarrow> world \<Rightarrow> (unit, world) result" where
  "handleStripeWebhook env ev w =
     (if ev_type ev = ''payment_intent.succeeded'' then handlePaymentSuccess env (ev_objectId ev) w
      else if ev_type ev = ''payment_intent.payment_failed'' then handlePaymentFailure env (ev_objectId ev) w
      else ok () w)"

text \<open>\<open>PaymentController.stripeWebhook\<close>: the signature first.\<close>

definition stripeWebhook ::
  "payment_env \<Rightarrow> (string \<Rightarrow> string \<Rightarrow> stripe_event option) \<Rightarrow> string \<Rightarrow> string \<Rightarrow> world \<Rightarrow> (unit, world) result" where
  "stripeWebhook env verify rawBody sig w =
     (case verify rawBody sig of
        None \<Rightarrow> throw (BadRequestException ''Webhook signature verification failed'') w
      | Some ev \<Rightarrow> handleStripeWebhook env ev w)"

definition syntheticIntentId :: "uuid \<Rightarrow> time \<Rightarrow> string" where
  "syntheticIntentId bookingId now = ''cash_'' @ bookingId @ ''_'' @ show_nat (nat now)"

definition confirmCashPayment ::
  "payment_env \<Rightarrow> uuid \<Rightarrow> authenticated_user \<Rightarrow> world \<Rightarrow> (payment, world) result" where
  "confirmCashPayment env bookingId cu w =
     (case by_id bookingId (bookings w) of
        None \<Rightarrow> throw (NotFoundException ''Booking not found'') w
      | Some b \<Rightarrow>
          if b_status b \<noteq> B_PENDING
          then throw (BadRequestException ''Cash payment can only be recorded for PENDING bookings'') w
          else
            let p = \<lparr>entId = pe_paymentId env, createdAt = pe_now env, deletedAt = None,
                     y_bookingId = entId b, y_userId = b_userId b, y_provider = STRIPE,
                     y_paymentIntentId = syntheticIntentId (entId b) (pe_now env),
                     y_amount = b_totalPrice b, y_currency = b_currency b, y_status = P_COMPLETED\<rparr>
            in and_then (save_payment p w)
                 (\<lambda>_ w1.
                    let w2 = invalidatePaymentLists (pe_now env) w1
                    in ok p (w2\<lparr>bookings := update_where (\<lambda>x. entId x = entId b)
                                 (\<lambda>x. x\<lparr>b_status := B_CONFIRMED\<rparr>) (bookings w2)\<rparr>)))"

section \<open>Listing\<close>

definition payment_sort_key :: "string \<Rightarrow> payment \<Rightarrow> int" where
  "payment_sort_key field p =
     (if field = ''amount'' then y_amount p
      else if field = ''status'' then
        (case y_status p of P_PENDING \<Rightarrow> 0 | P_COMPLETED \<Rightarrow> 1 | P_FAILED \<Rightarrow> 2 | P_REFUNDED \<Rightarrow> 3
         | P_REFUND_PENDING \<Rightarrow> 4 | P_REFUND_FAILED \<Rightarrow> 5)
      else createdAt p)"

definition payment_visible :: "filter_payment \<Rightarrow> authenticated_user \<Rightarrow> payment \<Rightarrow> bool" where
  "payment_visible f cu p \<longleftrightarrow>
     live p
     \<and> (if \<not> is_admin cu then y_userId p = cu_id cu
        else case fp_userId f of None \<Rightarrow> True | Some u \<Rightarrow> y_userId p = u)
     \<and> (case fp_status f of None \<Rightarrow> True | Some s \<Rightarrow> y_status p = s)
     \<and> (case fp_bookingId f of None \<Rightarrow> True | Some b \<Rightarrow> y_bookingId p = b)"

definition payments_listing :: "filter_payment \<Rightarrow> authenticated_user \<Rightarrow> world \<Rightarrow> payment list" where
  "payments_listing f cu w =
     (let sortField = (case fp_sortBy f of
            Some s \<Rightarrow> if s \<in> {''createdAt'', ''amount'', ''status''} then s else ''createdAt''
          | None \<Rightarrow> ''createdAt'')
      in order_rows (payment_sort_key sortField) (nullish (fp_sortOrder f) DESC)
           (find_all (payment_visible f cu) (payments w)))"

definition paymentListKey :: "filter_payment \<Rightarrow> authenticated_user \<Rightarrow> cache_key" where
  "paymentListKey f cu = PaymentListKey (cu_subjectType cu) (cu_id cu) f"

definition findAll_payments ::
  "payment_env \<Rightarrow> filter_payment \<Rightarrow> authenticated_user \<Rightarrow> world \<Rightarrow> (payment list \<times> nat, world) result" where
  "findAll_payments env f cu w =
     (let key = paymentListKey f cu
      in case cache_get (pe_now env) key w of
           Some (VPayments items tot) \<Rightarrow> ok (items, tot) w
         | _ \<Rightarrow>
             (let (items, tot) = get_many_and_count f (payments_listing f cu w);
                  w1 = cache_set key (VPayments items tot) (pe_ttl env) (pe_now env) w
              in ok (items, tot) (payment_registerListKey key (pe_ttl env) (pe_now env) w1)))"

definition findOne_payment :: "uuid \<Rightarrow> authenticated_user \<Rightarrow> world \<Rightarrow> (payment, world) result" where
  "findOne_payment i cu w =
     (case find_one (\<lambda>p. live p \<and> entId p = i \<and> (is_admin cu \<or> y_userId p = cu_id cu)) (payments w) of
        None \<Rightarrow> throw (NotFoundException ''Payment not found'') w
      | Some p \<Rightarrow> ok p w)"

end
