(* ===== verification/Booking.thy ===== *)
theory Booking
  imports Listing
begin

text \<open>
  \<open>src/src/v1/booking\<close>: the booking service.

  \<open>create\<close> validates the requested rooms against the tables, computes the price, and inserts the
  booking and its rooms in one transaction; the validation runs before the transaction and takes
  no lock, so it is a definition of its own (\<open>create_check\<close>), separate from the transaction
  (\<open>create_commit\<close>).  \<open>patchStatus\<close> moves a booking along the transition tables and sets the status
  of its rooms.
\<close>

section \<open>Requested dates\<close>

text \<open>
  \<open>@IsDateString\<close> accepts a date (\<open>2025-09-01\<close>) and a date with a time and an offset
  (\<open>2025-09-01T23:00:00+06:30\<close>).  A date is its day number; a timestamp is the day, the milliseconds
  into it and the offset in milliseconds.  \<open>new Date(s)\<close> reads a date as midnight UTC; the \<open>date\<close>
  columns and parameters keep the day that is written.
\<close>

definition msPerDay :: int where
  "msPerDay = 1000 * 60 * 60 * 24"

datatype iso_date = DateOnly int | DateTime int int int

fun js_date :: "iso_date \<Rightarrow> time" where
  "js_date (DateOnly d) = d * msPerDay"
| "js_date (DateTime d t offset) = d * msPerDay + t - offset"

fun sql_date :: "iso_date \<Rightarrow> int" where
  "sql_date (DateOnly d) = d"
| "sql_date (DateTime d t offset) = d"

text \<open>\<open>today.setHours(0, 0, 0, 0)\<close>: local midnight, for a server at a fixed offset from UTC.\<close>

definition start_of_today :: "int \<Rightarrow> time \<Rightarrow> time" where
  "start_of_today tz now = (now + tz) div msPerDay * msPerDay - tz"

definition calcNights :: "iso_date \<Rightarrow> iso_date \<Rightarrow> int" where
  "calcNights checkIn checkOut =
     js_round (fl (of_int (js_date checkOut - js_date checkIn) / of_int msPerDay))"

section \<open>Requests\<close>

record booking_room_item =
  i_roomId :: uuid
  i_rateOptionId :: uuid
  i_checkInDate :: iso_date
  i_checkOutDate :: iso_date
  i_guestCount :: int

text \<open>What the process and the database supply to one call of \<open>create\<close>.\<close>

record create_env =
  ce_now :: time
  ce_tz :: int
  ce_to_dec :: "rat \<Rightarrow> rat"
  ce_rand :: "nat list"
  ce_bookingId :: uuid
  ce_rowId :: "nat \<Rightarrow> uuid"

text \<open>A validated item, with the price of its rate option.\<close>

record prepared_room =
  pr_roomId :: uuid
  pr_rateOptionId :: uuid
  pr_checkInDate :: iso_date
  pr_checkOutDate :: iso_date
  pr_guestCount :: int
  pr_pricePerNight :: cents

section \<open>The transition tables\<close>

definition CUSTOMER_ALLOWED_TRANSITIONS :: "booking_status \<Rightarrow> booking_status list option" where
  "CUSTOMER_ALLOWED_TRANSITIONS = Map.empty(B_PENDING \<mapsto> [B_CANCELLED], B_CONFIRMED \<mapsto> [B_CANCELLED])"

definition ADMIN_ONLY_TRANSITIONS :: "booking_status \<Rightarrow> booking_status list option" where
  "ADMIN_ONLY_TRANSITIONS = Map.empty(
     B_PENDING \<mapsto> [B_CANCELLED],
     B_CONFIRMED \<mapsto> [B_CHECKED_IN, B_CANCELLED],
     B_CHECKED_IN \<mapsto> [B_CHECKED_OUT])"

definition assertValidTransition :: "booking_status \<Rightarrow> booking_status \<Rightarrow> bool \<Rightarrow> exn option" where
  "assertValidTransition current new isAdmin =
     (if current = new then Some (BadRequestException ''Booking is already in status'')
      else
        let adminAllowed = nullish (ADMIN_ONLY_TRANSITIONS current) [];
            customerAllowed = nullish (CUSTOMER_ALLOWED_TRANSITIONS current) [];
            allAllowed = (if isAdmin then adminAllowed else customerAllowed)
        in if new \<notin> set allAllowed then
             if new = B_CONFIRMED
             then Some (ForbiddenException ''Bookings are confirmed automatically upon payment'')
             else Some (ForbiddenException ''Cannot transition booking'')
           else None)"

section \<open>Availability\<close>

definition terminalStatuses :: "booking_status list" where
  "terminalStatuses = [B_CANCELLED, B_CHECKED_OUT]"

text \<open>
  The query both checks run: a booked room of a live booking that is not over, in the same room,
  whose dates meet the requested ones.
\<close>

definition holds_room :: "world \<Rightarrow> booking_room \<Rightarrow> bool" where
  "holds_room w br \<longleftrightarrow>
     exists_by (\<lambda>b. live b \<and> entId b = br_bookingId br \<and> b_status b \<notin> set terminalStatuses) (bookings w)"

definition conflicting :: "uuid \<Rightarrow> iso_date \<Rightarrow> iso_date \<Rightarrow> world \<Rightarrow> booking_room option" where
  "conflicting roomId checkIn checkOut w =
     find_one (\<lambda>br. br_roomId br = roomId \<and> holds_room w br
                 \<and> br_checkInDate br < sql_date checkOut \<and> br_checkOutDate br > sql_date checkIn)
       (booking_rooms w)"

section \<open>Validation\<close>

text \<open>The checks of one item that precede its first \<open>await\<close>.\<close>

definition check_dates :: "time \<Rightarrow> booking_room_item \<Rightarrow> exn option" where
  "check_dates today item =
     (let checkIn = js_date (i_checkInDate item); checkOut = js_date (i_checkOutDate item)
      in if checkIn < today
         then Some (BadRequestException ''Check-in date cannot be in the past'')
         else if checkOut \<le> checkIn
         then Some (BadRequestException ''Check-out date must be after check-in date'')
         else None)"

text \<open>The rest of the item's checks.\<close>

definition prepare_room :: "world \<Rightarrow> booking_room_item \<Rightarrow> exn + prepared_room" where
  "prepare_room w item =
     (case by_id (i_roomId item) (rooms w) of
        None \<Rightarrow> Inl (NotFoundException ''Room not found'')
      | Some rm \<Rightarrow>
          if conflicting (i_roomId item) (i_checkInDate item) (i_checkOutDate item) w \<noteq> None
          then Inl (ConflictException ''Room is already booked for the requested dates'')
          else
            (case find_one (\<lambda>r. live r \<and> entId r = i_rateOptionId item
                              \<and> ro_roomTypeId r = rm_roomTypeId rm) (rate_options w) of
               None \<Rightarrow> Inl (NotFoundException ''Rate option not found for room'')
             | Some rateOption \<Rightarrow>
                 (case by_id (rm_roomTypeId rm) (room_types w) of
                    None \<Rightarrow> Inl (JsError ''TypeError'')
                  | Some roomType \<Rightarrow>
                      if i_guestCount item > ty_maxOccupancy roomType
                      then Inl (BadRequestException ''Guest count exceeds max occupancy'')
                      else Inr \<lparr>pr_roomId = i_roomId item, pr_rateOptionId = i_rateOptionId item,
                             pr_checkInDate = i_checkInDate item,
                             pr_checkOutDate = i_checkOutDate item,
                             pr_guestCount = i_guestCount item,
                             pr_pricePerNight = ro_pricePerNight rateOption\<rparr>)))"

text \<open>
  \<open>Promise.all\<close> over the items.  Every item passes its date checks before any reaches the database;
  when several items fail, the first in the order of the list is reported.
\<close>

fun first_date_error :: "time \<Rightarrow> booking_room_item list \<Rightarrow> exn option" where
  "first_date_error today [] = None"
| "first_date_error today (x # xs) =
     (case check_dates today x of Some e \<Rightarrow> Some e | None \<Rightarrow> first_date_error today xs)"

fun prepare_all :: "world \<Rightarrow> booking_room_item list \<Rightarrow> exn + prepared_room list" where
  "prepare_all w [] = Inr []"
| "prepare_all w (x # xs) =
     (case prepare_room w x of Inl e \<Rightarrow> Inl e
      | Inr p \<Rightarrow> (case prepare_all w xs of Inl e \<Rightarrow> Inl e | Inr ps \<Rightarrow> Inr (p # ps)))"

definition validateAndPrepareRooms ::
  "create_env \<Rightarrow> booking_room_item list \<Rightarrow> world \<Rightarrow> exn + prepared_room list" where
  "validateAndPrepareRooms env items w =
     (if duplicates (map i_roomId items) \<noteq> []
      then Inl (BadRequestException ''Duplicate room(s) in request'')
      else case first_date_error (start_of_today (ce_tz env) (ce_now env)) items of
             Some e \<Rightarrow> Inl e
           | None \<Rightarrow> prepare_all w items)"

fun assertNoDoubleBooking :: "booking_room_item list \<Rightarrow> world \<Rightarrow> exn option" where
  "assertNoDoubleBooking [] w = None"
| "assertNoDoubleBooking (x # xs) w =
     (if conflicting (i_roomId x) (i_checkInDate x) (i_checkOutDate x) w \<noteq> None
      then Some (ConflictException ''Room is already booked'')
      else assertNoDoubleBooking xs w)"

definition create_check :: "create_env \<Rightarrow> booking_room_item list \<Rightarrow> world \<Rightarrow> exn + prepared_room list" where
  "create_check env items w =
     (case validateAndPrepareRooms env items w of
        Inl e \<Rightarrow> Inl e
      | Inr ps \<Rightarrow> (case assertNoDoubleBooking items w of Some e \<Rightarrow> Inl e | None \<Rightarrow> Inr ps))"

section \<open>Prices\<close>

definition room_total :: "prepared_room \<Rightarrow> rat" where
  "room_total p =
     fl (parse_float (pr_pricePerNight p) * of_int (calcNights (pr_checkInDate p) (pr_checkOutDate p)))"

definition total_price :: "prepared_room list \<Rightarrow> rat" where
  "total_price ps = foldl (\<lambda>acc p. fl (acc + room_total p)) 0 ps"

definition total_guest :: "prepared_room list \<Rightarrow> int" where
  "total_guest ps = foldl (\<lambda>acc p. acc + pr_guestCount p) 0 ps"

section \<open>The transaction\<close>

definition generateReference :: "nat list \<Rightarrow> string" where
  "generateReference rand =
     (let chars = ''ABCDEFGHIJKLMNOPQRSTUVWXYZ0123456789''
      in ''BK-'' @ map (\<lambda>i. chars ! (i mod length chars)) (take 8 rand))"

definition booking_row :: "create_env \<Rightarrow> prepared_room list \<Rightarrow> authenticated_user \<Rightarrow> exn + booking" where
  "booking_row env ps cu =
     (case to_numeric_12_2 (ce_to_dec env) (total_price ps) of
        Inl e \<Rightarrow> Inl e
      | Inr price \<Rightarrow>
          Inr \<lparr>entId = ce_bookingId env, createdAt = ce_now env, deletedAt = None,
               b_bookingReference = generateReference (ce_rand env),
               b_userId = cu_id cu, b_status = B_PENDING, b_totalPrice = price,
               b_currency = USD, b_totalGuest = total_guest ps, b_bookedAt = ce_now env\<rparr>)"

definition booking_room_row :: "create_env \<Rightarrow> nat \<Rightarrow> prepared_room \<Rightarrow> exn + booking_room" where
  "booking_room_row env n p =
     (case to_numeric_12_2 (ce_to_dec env) (parse_float (pr_pricePerNight p)) of
        Inl e \<Rightarrow> Inl e
      | Inr pricePerNight \<Rightarrow>
          (case to_numeric_12_2 (ce_to_dec env) (room_total p) of
             Inl e \<Rightarrow> Inl e
           | Inr totalPrice \<Rightarrow>
               Inr \<lparr>entId = ce_rowId env n, createdAt = ce_now env,
                    br_bookingId = ce_bookingId env, br_roomId = pr_roomId p,
                    br_rateOptionId = pr_rateOptionId p,
                    br_checkInDate = sql_date (pr_checkInDate p),
                    br_checkOutDate = sql_date (pr_checkOutDate p),
                    br_roomPricePerNight = pricePerNight, br_roomTotalPrice = totalPrice,
                    br_guestCount = pr_guestCount p\<rparr>))"

fun booking_room_rows :: "create_env \<Rightarrow> nat \<Rightarrow> prepared_room list \<Rightarrow> exn + booking_room list" where
  "booking_room_rows env n [] = Inr []"
| "booking_room_rows env n (p # ps) =
     (case booking_room_row env n p of Inl e \<Rightarrow> Inl e
      | Inr r \<Rightarrow> (case booking_room_rows env (Suc n) ps of Inl e \<Rightarrow> Inl e | Inr rs \<Rightarrow> Inr (r # rs)))"

text \<open>The constraints of the two tables: primary keys, the unique reference, the foreign keys.\<close>

definition insert_booking :: "booking \<Rightarrow> world \<Rightarrow> exn option" where
  "insert_booking b w =
     (if references (entId b) (bookings w)
         \<or> exists_by (\<lambda>x. b_bookingReference x = b_bookingReference b) (bookings w)
      then Some (QueryFailedError ''23505'')
      else if \<not> references (b_userId b) (users w) then Some (QueryFailedError ''23503'')
      else None)"

definition insert_booking_rooms :: "booking_room list \<Rightarrow> world \<Rightarrow> exn option" where
  "insert_booking_rooms rs w =
     (if \<not> distinct (ids rs) \<or> (\<exists>r \<in> set rs. references (entId r) (booking_rooms w))
      then Some (QueryFailedError ''23505'')
      else if \<exists>r \<in> set rs. \<not> references (br_roomId r) (rooms w)
                        \<or> \<not> references (br_rateOptionId r) (rate_options w)
      then Some (QueryFailedError ''23503'')
      else None)"

text \<open>An exception inside the callback rolls the transaction back.\<close>

definition create_commit ::
  "create_env \<Rightarrow> prepared_room list \<Rightarrow> authenticated_user \<Rightarrow> world \<Rightarrow> (booking, world) result" where
  "create_commit env ps cu w =
     (case booking_row env ps cu of
        Inl e \<Rightarrow> throw e w
      | Inr b \<Rightarrow>
          (case insert_booking b w of
             Some e \<Rightarrow> throw e w
           | None \<Rightarrow>
               (case booking_room_rows env 0 ps of
                  Inl e \<Rightarrow> throw e w
                | Inr rs \<Rightarrow>
                    (case insert_booking_rooms rs w of
                       Some e \<Rightarrow> throw e w
                     | None \<Rightarrow> ok b (w\<lparr>bookings := bookings w @ [b],
                                       booking_rooms := booking_rooms w @ rs\<rparr>)))))"

section \<open>The operations\<close>

definition visible_booking :: "authenticated_user \<Rightarrow> uuid \<Rightarrow> booking \<Rightarrow> bool" where
  "visible_booking cu i b \<longleftrightarrow> live b \<and> entId b = i \<and> (is_admin cu \<or> b_userId b = cu_id cu)"

definition findOneOrFail :: "uuid \<Rightarrow> authenticated_user \<Rightarrow> world \<Rightarrow> (booking, world) result" where
  "findOneOrFail i cu w =
     (case find_one (visible_booking cu i) (bookings w) of
        None \<Rightarrow> throw (NotFoundException ''Booking not found'') w
      | Some b \<Rightarrow> ok b w)"

definition create ::
  "create_env \<Rightarrow> booking_room_item list \<Rightarrow> authenticated_user \<Rightarrow> world \<Rightarrow> (booking, world) result" where
  "create env items cu w =
     (case create_check env items w of
        Inl e \<Rightarrow> throw e w
      | Inr ps \<Rightarrow> and_then (create_commit env ps cu w) (\<lambda>b w'. findOneOrFail (entId b) cu w'))"

definition booking_sort_key :: "string \<Rightarrow> booking \<Rightarrow> int" where
  "booking_sort_key field b =
     (if field = ''createdAt'' then createdAt b
      else if field = ''status'' then
        (case b_status b of B_PENDING \<Rightarrow> 0 | B_CONFIRMED \<Rightarrow> 1 | B_CHECKED_IN \<Rightarrow> 2
         | B_CHECKED_OUT \<Rightarrow> 3 | B_CANCELLED \<Rightarrow> 4)
      else if field = ''totalPrice'' then b_totalPrice b
      else b_bookedAt b)"

definition bookings_listing :: "'a filter_booking_scheme \<Rightarrow> authenticated_user \<Rightarrow> world \<Rightarrow> booking list" where
  "bookings_listing f cu w =
     (let sortField = (case fb_sortBy f of
            Some s \<Rightarrow> if s \<in> {''bookedAt'', ''createdAt'', ''status'', ''totalPrice''} then s else ''bookedAt''
          | None \<Rightarrow> ''bookedAt'')
      in order_rows (booking_sort_key sortField) (nullish (fb_sortOrder f) DESC)
           (find_all (\<lambda>b. live b \<and> (is_admin cu \<or> b_userId b = cu_id cu)
              \<and> (case fb_status f of None \<Rightarrow> True | Some s \<Rightarrow> b_status b = s)) (bookings w)))"

definition findAll :: "'a filter_booking_scheme \<Rightarrow> authenticated_user \<Rightarrow> world \<Rightarrow> booking list \<times> nat" where
  "findAll f cu w = get_many_and_count f (bookings_listing f cu w)"

definition findOne :: "uuid \<Rightarrow> authenticated_user \<Rightarrow> world \<Rightarrow> (booking, world) result" where
  "findOne i cu w = findOneOrFail i cu w"

text \<open>
  \<open>UPDATE rooms SET status WHERE id IN (\<dots>)\<close>.  With no identifier the list is empty and PostgreSQL
  rejects the statement.
\<close>

definition set_room_status :: "room_status \<Rightarrow> uuid list \<Rightarrow> world \<Rightarrow> (unit, world) result" where
  "set_room_status st is w =
     (if is = [] then throw (QueryFailedError ''42601'') w
      else ok () (w\<lparr>rooms := update_where (\<lambda>r. entId r \<in> set is) (\<lambda>r. r\<lparr>rm_status := st\<rparr>) (rooms w)\<rparr>))"

definition room_ids_of :: "uuid \<Rightarrow> world \<Rightarrow> uuid list" where
  "room_ids_of bookingId w = map br_roomId (find_all (\<lambda>br. br_bookingId br = bookingId) (booking_rooms w))"

definition patchStatus ::
  "uuid \<Rightarrow> booking_status \<Rightarrow> authenticated_user \<Rightarrow> world \<Rightarrow> (booking, world) result" where
  "patchStatus i new cu w =
     (case find_one (visible_booking cu i) (bookings w) of
        None \<Rightarrow> throw (NotFoundException ''Booking not found'') w
      | Some b \<Rightarrow>
          (case assertValidTransition (b_status b) new (is_admin cu) of
             Some e \<Rightarrow> throw e w
           | None \<Rightarrow>
               (let saved = b\<lparr>b_status := new\<rparr>;
                    w1 = w\<lparr>bookings := save_row saved (bookings w)\<rparr>
                in and_then
                     (if new = B_CHECKED_IN then set_room_status OCCUPIED (room_ids_of i w1) w1
                      else ok () w1)
                     (\<lambda>_ w2. and_then
                        (if new = B_CHECKED_OUT \<or> new = B_CANCELLED
                         then set_room_status AVAILABLE (room_ids_of i w2) w2 else ok () w2)
                        (\<lambda>_ w3. findOneOrFail (entId saved) cu w3)))))"

end
