(* ===== verification/Sample.thy ===== *)
theory Sample
  imports Entities
begin

text \<open>
  A small hotel on which the theorems of the other theories are evaluated: one hotel with one room
  type, two rooms and one rate, two customers and one administrator.
\<close>

definition sample_hotel :: hotel where
  "sample_hotel =
     \<lparr>entId = ''h1'', createdAt = 0, deletedAt = None, h_name = ''Lake'', h_description = None,
      h_latitude = ''16.8'', h_longitude = ''96.1'', h_address = ''1 Shore Road'', h_city = ''Yangon'',
      h_country = ''MM'', h_postalCode = ''11181'', h_checkInTime = ''14:00'', h_checkOutTime = ''12:00'',
      h_isActive = True, h_createdBy = ''a1''\<rparr>"

definition sample_room_type :: room_type where
  "sample_room_type =
     \<lparr>entId = ''ty1'', createdAt = 0, deletedAt = None, ty_hotelId = ''h1'', ty_name = ''Double'',
      ty_description = None, ty_maxOccupancy = 2, ty_bedType = ''QUEEN'', ty_areaInSquareFeet = 30000\<rparr>"

definition sample_room :: "uuid \<Rightarrow> string \<Rightarrow> room_status \<Rightarrow> room" where
  "sample_room i n st =
     \<lparr>entId = i, createdAt = 0, deletedAt = None, rm_hotelId = ''h1'', rm_roomTypeId = ''ty1'',
      rm_roomNumber = n, rm_floorNumber = 1, rm_status = st\<rparr>"

definition sample_rate :: rate_option where
  "sample_rate =
     \<lparr>entId = ''ro1'', createdAt = 0, deletedAt = None, ro_roomTypeId = ''ty1'', ro_name = ''Standard'',
      ro_description = None, ro_pricePerNight = 9990, ro_currency = USD, ro_isRefundable = True,
      ro_cancellationPolicy = FREE_CANCELLATION, ro_deadlineHours = None\<rparr>"

definition sample_user :: "uuid \<Rightarrow> string \<Rightarrow> user" where
  "sample_user i phone =
     \<lparr>entId = i, createdAt = 0, deletedAt = None, u_email = None, u_fullName = Some ''Guest'',
      u_phone = Some phone, u_password = Some ''hash'', u_isBanned = False, u_profileImageUrl = None,
      u_dateOfBirth = None, u_gender = None, u_preferLanguage = None,
      u_registrationStage = Some COMPLETED, u_fcmToken = None, u_lastLoginAt = None,
      u_lastLogoutAt = None, u_googleId = None, u_appleId = None, u_loginProvider = Some SMS,
      u_roleId = Some ''customer''\<rparr>"

definition sample_admin :: admin where
  "sample_admin =
     \<lparr>entId = ''a1'', createdAt = 0, deletedAt = None, a_fullName = ''Root'', a_password = Some ''hash'',
      a_email = ''root@hotel'', a_profileImageUrl = None, a_roleId = ''superadmin'', a_isBanned = False,
      a_isTwoFactorEnabled = False, a_lastLoginAt = None, a_lastLogoutAt = None\<rparr>"

definition as_user :: "uuid \<Rightarrow> authenticated_user" where
  "as_user i = \<lparr>cu_id = i, cu_subjectType = Some USER, cu_role = None\<rparr>"

definition as_admin :: "uuid \<Rightarrow> authenticated_user" where
  "as_admin i = \<lparr>cu_id = i, cu_subjectType = Some ADMIN, cu_role = None\<rparr>"

definition sample_world :: world where
  "sample_world = empty_world
     \<lparr>users := [sample_user ''u1'' ''+959111'', sample_user ''u2'' ''+959222''],
      admins := [sample_admin], hotels := [sample_hotel], room_types := [sample_room_type],
      rooms := [sample_room ''rm1'' ''101'' AVAILABLE, sample_room ''rm2'' ''102'' AVAILABLE],
      rate_options := [sample_rate]\<rparr>"

definition sample_booking :: "uuid \<Rightarrow> uuid \<Rightarrow> booking_status \<Rightarrow> cents \<Rightarrow> booking" where
  "sample_booking i u st price =
     \<lparr>entId = i, createdAt = 0, deletedAt = None, b_bookingReference = ''BK-'' @ i, b_userId = u,
      b_status = st, b_totalPrice = price, b_currency = USD, b_totalGuest = 2, b_bookedAt = 0\<rparr>"

definition sample_stay :: "uuid \<Rightarrow> uuid \<Rightarrow> uuid \<Rightarrow> int \<Rightarrow> int \<Rightarrow> booking_room" where
  "sample_stay i bk rm from until =
     \<lparr>entId = i, createdAt = 0, br_bookingId = bk, br_roomId = rm, br_rateOptionId = ''ro1'',
      br_checkInDate = from, br_checkOutDate = until, br_roomPricePerNight = 9990,
      br_roomTotalPrice = 9990 * (until - from), br_guestCount = 2\<rparr>"

lemmas sample_defs =
  sample_hotel_def sample_room_type_def sample_room_def sample_rate_def sample_user_def
  sample_admin_def as_user_def as_admin_def sample_world_def sample_booking_def sample_stay_def
  empty_world_def

end
