(* ===== verification/Booking_Facts.thy ===== *)
theory Booking_Facts
  imports Booking Sample
begin

text \<open>
  What the booking service guarantees: the exact effect of \<open>create\<close> and \<open>patchStatus\<close>, the price that
  is stored, and the absence of double bookings as long as creations do not interleave.
\<close>

section \<open>Validation\<close>

fun_cases prepare_all_InrE: "prepare_all w (x # xs) = Inr ps"

lemma prepare_room_Inr:
  assumes "prepare_room w x = Inr p"
  obtains rm ro ty where "by_id (i_roomId x) (rooms w) = Some rm"
    "conflicting (i_roomId x) (i_checkInDate x) (i_checkOutDate x) w = None"
    "find_one (\<lambda>r. live r \<and> entId r = i_rateOptionId x \<and> ro_roomTypeId r = rm_roomTypeId rm)
       (rate_options w) = Some ro"
    "by_id (rm_roomTypeId rm) (room_types w) = Some ty" "i_guestCount x \<le> ty_maxOccupancy ty"
    "p = \<lparr>pr_roomId = i_roomId x, pr_rateOptionId = i_rateOptionId x,
          pr_checkInDate = i_checkInDate x, pr_checkOutDate = i_checkOutDate x,
          pr_guestCount = i_guestCount x, pr_pricePerNight = ro_pricePerNight ro\<rparr>"
  using assms by (auto simp: prepare_room_def split: option.splits if_splits)

lemma prepare_all_Inr: "prepare_all w xs = Inr ps \<Longrightarrow> list_all2 (\<lambda>x p. prepare_room w x = Inr p) xs ps"
  by (induction xs arbitrary: ps) (auto split: sum.splits)

lemma prepare_all_fields:
  "prepare_all w xs = Inr ps \<Longrightarrow>
     map pr_roomId ps = map i_roomId xs \<and> map pr_checkInDate ps = map i_checkInDate xs
     \<and> map pr_checkOutDate ps = map i_checkOutDate xs"
  by (induction xs arbitrary: ps) (auto split: sum.splits elim!: prepare_room_Inr)

lemma prepare_all_free:
  "prepare_all w xs = Inr ps \<Longrightarrow> p \<in> set ps \<Longrightarrow>
     conflicting (pr_roomId p) (pr_checkInDate p) (pr_checkOutDate p) w = None"
  by (induction xs arbitrary: ps) (auto split: sum.splits elim!: prepare_room_Inr)

lemma create_check_Inr:
  assumes "create_check env items w = Inr ps"
  shows "prepare_all w items = Inr ps" and "distinct (map i_roomId items)"
    and "first_date_error (start_of_today (ce_tz env) (ce_now env)) items = None"
  using assms
  by (auto simp: create_check_def validateAndPrepareRooms_def split: sum.splits option.splits if_splits)

lemma first_date_error_None:
  "first_date_error today items = None \<Longrightarrow> x \<in> set items \<Longrightarrow>
     today \<le> js_date (i_checkInDate x) \<and> js_date (i_checkInDate x) < js_date (i_checkOutDate x)"
  by (induction items) (auto simp: check_dates_def Let_def split: option.splits if_splits)

section \<open>The rows written\<close>

lemma booking_row_Inr:
  assumes "booking_row env ps cu = Inr b"
  shows "entId b = ce_bookingId env" "live b" "b_userId b = cu_id cu" "b_status b = B_PENDING"
    "to_numeric_12_2 (ce_to_dec env) (total_price ps) = Inr (b_totalPrice b)"
  using assms by (auto simp: booking_row_def live_def split: sum.splits)

lemma booking_room_row_Inr:
  assumes "booking_room_row env n p = Inr r"
  shows "entId r = ce_rowId env n" "br_bookingId r = ce_bookingId env" "br_roomId r = pr_roomId p"
    "br_checkInDate r = sql_date (pr_checkInDate p)" "br_checkOutDate r = sql_date (pr_checkOutDate p)"
  using assms by (auto simp: booking_room_row_def split: sum.splits)

lemma booking_room_rows_rooms:
  "booking_room_rows env n ps = Inr rs \<Longrightarrow> map br_roomId rs = map pr_roomId ps"
  by (induction ps arbitrary: n rs) (auto split: sum.splits simp: booking_room_row_Inr)

lemma booking_room_rows_from:
  assumes "booking_room_rows env n ps = Inr rs" and "r \<in> set rs"
  obtains p k where "p \<in> set ps" "booking_room_row env k p = Inr r"
  using assms
proof (induction ps arbitrary: n rs thesis)
  case Nil
  then show ?case by simp
next
  case (Cons q ps)
  obtain x xs where xs: "booking_room_row env n q = Inr x" "booking_room_rows env (Suc n) ps = Inr xs" "rs = x # xs"
    using Cons.prems(2) by (auto split: sum.splits)
  show ?case
  proof (cases "r = x")
    case True
    then show ?thesis using Cons.prems(1) [of q n] xs(1) by simp
  next
    case False
    then have "r \<in> set xs" using Cons.prems(3) xs(3) by simp
    with xs(2) obtain p k where "p \<in> set ps" "booking_room_row env k p = Inr r" using Cons.IH by blast
    then show ?thesis using Cons.prems(1) [of p k] by simp
  qed
qed

section \<open>The effect of \<open>create\<close>\<close>

text \<open>The booking just inserted is the one its owner reads back.\<close>

lemma findOneOrFail_new:
  assumes "insert_booking b w = None" and "live b" and "b_userId b = cu_id cu"
    and "bookings w' = bookings w @ [b]"
  shows "findOneOrFail (entId b) cu w' = ok b w'"
proof -
  have "find_one (visible_booking cu (entId b)) (bookings w) = None"
    using assms(1) by (auto simp: find_one_None insert_booking_def visible_booking_def ids_def image_iff split: if_splits)
  then show ?thesis
    using assms(2-4) by (simp add: findOneOrFail_def find_one_append visible_booking_def)
qed

lemma create_commit_cases:
  obtains (fail) e where "create_commit env ps cu w = throw e w"
  | (saved) b rs where "booking_row env ps cu = Inr b" "insert_booking b w = None"
      "booking_room_rows env 0 ps = Inr rs" "insert_booking_rooms rs w = None"
      "create_commit env ps cu w
         = ok b (w\<lparr>bookings := bookings w @ [b], booking_rooms := booking_rooms w @ rs\<rparr>)"
proof -
  have "(\<exists>e. create_commit env ps cu w = throw e w)
    \<or> (\<exists>b rs. booking_row env ps cu = Inr b \<and> insert_booking b w = None
          \<and> booking_room_rows env 0 ps = Inr rs \<and> insert_booking_rooms rs w = None
          \<and> create_commit env ps cu w
              = ok b (w\<lparr>bookings := bookings w @ [b], booking_rooms := booking_rooms w @ rs\<rparr>))"
    by (auto simp: create_commit_def split: sum.split option.split)
  then show ?thesis using that by blast
qed

lemma create_cases:
  obtains (fail) e where "create env items cu w = throw e w"
  | (saved) ps b rs where "create_check env items w = Inr ps" "booking_row env ps cu = Inr b"
      "insert_booking b w = None" "booking_room_rows env 0 ps = Inr rs" "insert_booking_rooms rs w = None"
      "create env items cu w
         = ok b (w\<lparr>bookings := bookings w @ [b], booking_rooms := booking_rooms w @ rs\<rparr>)"
proof (cases "create_check env items w")
  case (Inl e)
  then show ?thesis using fail by (simp add: create_def)
next
  case (Inr ps)
  show ?thesis
  proof (cases rule: create_commit_cases [of env ps cu w])
    case (fail e)
    then show ?thesis using that(1) Inr by (simp add: create_def)
  next
    case (saved b rs)
    let ?w = "w\<lparr>bookings := bookings w @ [b], booking_rooms := booking_rooms w @ rs\<rparr>"
    have "findOneOrFail (entId b) cu ?w = ok b ?w"
      using findOneOrFail_new [OF saved(2), of cu ?w] booking_row_Inr [OF saved(1)] by simp
    then show ?thesis using that(2) [OF Inr saved(1-4)] Inr saved(5) by (simp add: create_def)
  qed
qed

text \<open>C4: \<open>create\<close> is atomic.  When it throws, the world is as before.  When it returns, exactly one booking
  was added, pending and owned by the caller, with one stay for each requested room, the rooms of a
  request are pairwise different, and no other table has changed.\<close>

theorem create_atomic:
  "case create env items cu w of
     (Inl e, w') \<Rightarrow> w' = w
   | (Inr b, w') \<Rightarrow>
       b_status b = B_PENDING \<and> b_userId b = cu_id cu \<and> distinct (map i_roomId items)
       \<and> (\<exists>rs. w' = w\<lparr>bookings := bookings w @ [b], booking_rooms := booking_rooms w @ rs\<rparr>
              \<and> map br_roomId rs = map i_roomId items
              \<and> list_all (\<lambda>r. br_bookingId r = entId b) rs)"
proof (cases rule: create_cases [of env items cu w])
  case (fail e)
  then show ?thesis by (simp add: throw_def)
next
  case (saved ps b rs)
  have p: "prepare_all w items = Inr ps" "distinct (map i_roomId items)"
    using create_check_Inr [OF saved(1)] by blast+
  have "map br_roomId rs = map i_roomId items"
    using booking_room_rows_rooms [OF saved(4)] prepare_all_fields [OF p(1)] by simp
  moreover have "br_bookingId r = entId b" if "r \<in> set rs" for r
    using booking_room_rows_from [OF saved(4) that] booking_row_Inr(1) [OF saved(2)]
    by (metis booking_room_row_Inr(2))
  then have "list_all (\<lambda>r. br_bookingId r = entId b) rs" by (simp add: list_all_iff)
  ultimately show ?thesis
    using saved(6) p(2) booking_row_Inr [OF saved(2)] by (auto simp: ok_def)
qed

section \<open>No double booking\<close>

definition overlaps :: "booking_room \<Rightarrow> booking_room \<Rightarrow> bool" where
  "overlaps a b \<longleftrightarrow> br_roomId a = br_roomId b
     \<and> br_checkInDate a < br_checkOutDate b \<and> br_checkInDate b < br_checkOutDate a"

definition no_double_booking :: "world \<Rightarrow> bool" where
  "no_double_booking w \<longleftrightarrow>
     (\<forall>a \<in> set (booking_rooms w). \<forall>b \<in> set (booking_rooms w).
        entId a \<noteq> entId b \<longrightarrow> holds_room w a \<longrightarrow> holds_room w b \<longrightarrow> \<not> overlaps a b)"

text \<open>The primary keys and the foreign key of the two tables.\<close>

definition booking_tables :: "world \<Rightarrow> bool" where
  "booking_tables w \<longleftrightarrow> distinct (ids (bookings w)) \<and> distinct (ids (booking_rooms w))
     \<and> (\<forall>r \<in> set (booking_rooms w). br_bookingId r \<in> set (ids (bookings w)))"

definition availability :: "world \<Rightarrow> bool" where
  "availability w \<longleftrightarrow> booking_tables w \<and> no_double_booking w"

lemma overlaps_sym: "overlaps a b \<longleftrightarrow> overlaps b a"
  by (auto simp: overlaps_def)

lemma conflicting_None:
  "conflicting r ci co w = None \<longleftrightarrow>
     (\<forall>br \<in> set (booking_rooms w). br_roomId br = r \<longrightarrow> holds_room w br \<longrightarrow>
        \<not> (br_checkInDate br < sql_date co \<and> sql_date ci < br_checkOutDate br))"
  by (auto simp: conflicting_def find_one_None)

text \<open>A booking with a new identifier does not change which of the old stays hold their room.\<close>

lemma holds_room_new:
  "br_bookingId r \<in> set (ids (bookings w)) \<Longrightarrow> entId b \<notin> set (ids (bookings w)) \<Longrightarrow>
     bookings w' = bookings w @ [b] \<Longrightarrow> holds_room w' r = holds_room w r"
  by (auto simp: holds_room_def)

lemma inserted_stays_free:
  assumes "prepare_all w items = Inr ps" and "booking_room_rows env 0 ps = Inr rs"
    and "r \<in> set rs" and "a \<in> set (booking_rooms w)" and "holds_room w a"
  shows "\<not> overlaps r a"
proof -
  obtain p k where p: "p \<in> set ps" "booking_room_row env k p = Inr r"
    using booking_room_rows_from [OF assms(2,3)] .
  show ?thesis
    using prepare_all_free [OF assms(1) p(1)] assms(4,5) booking_room_row_Inr [OF p(2)]
    by (auto simp: conflicting_None overlaps_def)
qed

text \<open>
  The insertion of the stays of a validated request.  The premise on \<open>w0\<close> is the validation; \<open>create\<close>
  validates in the world in which it inserts.
\<close>

lemma insertion_keeps_availability:
  assumes "availability w" and "prepare_all w items = Inr ps" and "distinct (map i_roomId items)"
    and "booking_row env ps cu = Inr b" and "insert_booking b w = None"
    and "booking_room_rows env 0 ps = Inr rs" and "insert_booking_rooms rs w = None"
  shows "availability (w\<lparr>bookings := bookings w @ [b], booking_rooms := booking_rooms w @ rs\<rparr>)"
    (is "availability ?w")
proof -
  have tables: "distinct (ids (bookings w))" "distinct (ids (booking_rooms w))"
      "\<And>r. r \<in> set (booking_rooms w) \<Longrightarrow> br_bookingId r \<in> set (ids (bookings w))"
    and free: "no_double_booking w"
    using assms(1) by (auto simp: availability_def booking_tables_def)
  have fresh: "entId b \<notin> set (ids (bookings w))"
    using assms(5) by (auto simp: insert_booking_def split: if_splits)
  have new: "distinct (ids rs)" "\<forall>r \<in> set rs. entId r \<notin> set (ids (booking_rooms w))"
    using assms(7) by (auto simp: insert_booking_rooms_def split: if_splits)
  then have disj: "set (ids (booking_rooms w)) \<inter> set (ids rs) = {}" by (auto simp: ids_def image_iff) (metis)
  have of_b: "br_bookingId r = entId b" if "r \<in> set rs" for r
    using booking_room_rows_from [OF assms(6) that] booking_row_Inr(1) [OF assms(4)]
    by (metis booking_room_row_Inr(2))
  have rooms: "distinct (map br_roomId rs)"
    using booking_room_rows_rooms [OF assms(6)] prepare_all_fields [OF assms(2)] assms(3) by simp
  have holds: "holds_room ?w r = holds_room w r" if "r \<in> set (booking_rooms w)" for r
    using tables(3) [OF that] fresh by (rule holds_room_new) simp
  have among: "\<not> overlaps r s" if "r \<in> set rs" "s \<in> set rs" "entId r \<noteq> entId s" for r s
    using rooms that by (auto simp: overlaps_def distinct_map dest: inj_onD)
  have "no_double_booking ?w"
    using free holds among inserted_stays_free [OF assms(2,6)] overlaps_sym
    by (simp add: no_double_booking_def) blast
  moreover have "booking_tables ?w"
    using tables fresh new(1) disj of_b by (auto simp: booking_tables_def)
  ultimately show ?thesis by (simp add: availability_def)
qed

text \<open>Creating bookings one after the other never books a room twice: stays of live, unfinished
  bookings in the same room do not overlap after \<open>create\<close> when they did not before.\<close>

theorem create_keeps_availability:
  assumes "availability w"
  shows "availability (snd (create env items cu w))"
proof (cases rule: create_cases [of env items cu w])
  case (fail e)
  then show ?thesis using assms by simp
next
  case (saved ps b rs)
  then show ?thesis
    using insertion_keeps_availability [OF assms _ _ saved(2-5)] create_check_Inr(1,2) [OF saved(1)] by simp
qed

definition sample_env :: "uuid \<Rightarrow> nat \<Rightarrow> create_env" where
  "sample_env i n =
     \<lparr>ce_now = 0, ce_tz = 0, ce_to_dec = (\<lambda>x. x), ce_rand = [n, n, n, n, n, n, n, n],
      ce_bookingId = i, ce_rowId = (\<lambda>k. i @ replicate k (CHR ''x''))\<rparr>"

definition sample_item :: "uuid \<Rightarrow> iso_date \<Rightarrow> iso_date \<Rightarrow> booking_room_item" where
  "sample_item rm from until =
     \<lparr>i_roomId = rm, i_rateOptionId = ''ro1'', i_checkInDate = from, i_checkOutDate = until,
      i_guestCount = 2\<rparr>"

theorem create_keeps_availability_witness:
  "availability (snd (create (sample_env ''b1'' 0) [sample_item ''rm1'' (DateOnly 10) (DateOnly 13)]
      (as_user ''u1'') sample_world))"
  by (rule create_keeps_availability)
     (simp add: availability_def booking_tables_def no_double_booking_def sample_defs ids_def)

section \<open>Interleaved creations\<close>

text \<open>
  Two requests whose checks both run before either transaction commits.  The checks take no lock and
  the transactions check nothing, so this is an order in which two processes of the server, or two
  awaits of one process, can run.
\<close>

definition interleaved_creates ::
  "create_env \<Rightarrow> booking_room_item list \<Rightarrow> authenticated_user \<Rightarrow>
   create_env \<Rightarrow> booking_room_item list \<Rightarrow> authenticated_user \<Rightarrow> world \<Rightarrow> world" where
  "interleaved_creates env\<^sub>1 items\<^sub>1 cu\<^sub>1 env\<^sub>2 items\<^sub>2 cu\<^sub>2 w =
     (case (create_check env\<^sub>1 items\<^sub>1 w, create_check env\<^sub>2 items\<^sub>2 w) of
        (Inr ps\<^sub>1, Inr ps\<^sub>2) \<Rightarrow>
          snd (create_commit env\<^sub>2 ps\<^sub>2 cu\<^sub>2 (snd (create_commit env\<^sub>1 ps\<^sub>1 cu\<^sub>1 w)))
      | _ \<Rightarrow> w)"

text \<open>Two creations for the same room and overlapping dates that interleave check, check, commit,
  commit both succeed, and leave a double booking behind.\<close>

theorem interleaved_creates_double_book:
  "availability sample_world
   \<and> \<not> availability
        (interleaved_creates
           (sample_env ''b1'' 0) [sample_item ''rm1'' (DateOnly 10) (DateOnly 13)] (as_user ''u1'')
           (sample_env ''b2'' 1) [sample_item ''rm1'' (DateOnly 12) (DateOnly 14)] (as_user ''u2'')
           sample_world)"
proof
  show "availability sample_world"
    by (simp add: availability_def booking_tables_def no_double_booking_def sample_defs)
  show "\<not> availability
        (interleaved_creates
           (sample_env ''b1'' 0) [sample_item ''rm1'' (DateOnly 10) (DateOnly 13)] (as_user ''u1'')
           (sample_env ''b2'' 1) [sample_item ''rm1'' (DateOnly 12) (DateOnly 14)] (as_user ''u2'')
           sample_world)"
    by code_simp
qed

section \<open>Prices\<close>

lemma calcNights_dates [simp]:
  assumes "\<bar>b - a\<bar> < 2 ^ 53"
  shows "calcNights (DateOnly a) (DateOnly b) = b - a"
proof -
  have "of_int (js_date (DateOnly b) - js_date (DateOnly a)) / of_int msPerDay = (of_int (b - a) :: rat)"
    by (simp add: msPerDay_def field_simps)
  then show ?thesis using fl_int [OF assms] by (simp only: calcNights_def js_round_int)
qed

definition exact_total :: "prepared_room \<Rightarrow> int" where
  "exact_total p = pr_pricePerNight p * calcNights (pr_checkInDate p) (pr_checkOutDate p)"

lemma room_total_error:
  "\<bar>room_total p - of_int (exact_total p) / 100\<bar> \<le> 3 * eps * \<bar>of_int (exact_total p) / 100\<bar>"
  using fl_mult_error [of "parse_float (pr_pricePerNight p)" "of_int (pr_pricePerNight p) / 100"
      "calcNights (pr_checkInDate p) (pr_checkOutDate p)"] parse_float_error [of "pr_pricePerNight p"]
  by (simp add: room_total_def exact_total_def abs_mult)

lemma foldl_total_error:
  assumes "\<And>p. p \<in> set ps \<Longrightarrow> 0 \<le> exact_total p"
    and "0 \<le> s" and "s + of_int (sum_list (map exact_total ps)) / 100 \<le> T"
    and "\<bar>acc - s\<bar> \<le> 3 * eps * s + 2 * of_nat k * eps * T"
    and "k + length ps \<le> 1000"
  shows "\<bar>foldl (\<lambda>acc p. fl (acc + room_total p)) acc ps - (s + of_int (sum_list (map exact_total ps)) / 100)\<bar>
    \<le> 3 * eps * (s + of_int (sum_list (map exact_total ps)) / 100) + 2 * of_nat (k + length ps) * eps * T"
  using assms
proof (induction ps arbitrary: acc s k)
  case Nil
  then show ?case by simp
next
  case (Cons p ps)
  let ?e = "of_int (exact_total p) / 100 :: rat" and ?R = "of_int (sum_list (map exact_total ps)) / 100 :: rat"
  have e: "0 \<le> ?e" using Cons.prems(1) by simp
  have R: "0 \<le> ?R" by (simp, rule sum_list_nonneg) (use Cons.prems(1) in auto)
  have T: "s + ?e + ?R \<le> T" using Cons.prems(3) by (simp add: add_divide_distrib)
  have T0: "0 \<le> T" using T e R Cons.prems(2) by linarith
  have rt: "\<bar>room_total p - ?e\<bar> \<le> 3 * eps * ?e" using room_total_error [of p] e by simp
  have a: "\<bar>acc + room_total p - (s + ?e)\<bar> \<le> 3 * eps * (s + ?e) + 2 * of_nat k * eps * T"
    using rt Cons.prems(4) unfolding distrib_left [of "3 * eps" s ?e] by linarith
  have small: "3 * eps * (s + ?e) + 2 * of_nat k * eps * T \<le> 1 * T"
  proof -
    have "3 * eps * (s + ?e) \<le> 3 * eps * T" using T R by (intro mult_left_mono) (simp_all add: eps_def)
    moreover have "(3 + 2 * of_nat k) * eps * T \<le> 1 * T"
    proof (rule mult_right_mono [OF _ T0])
      have "of_nat k \<le> (1000 :: rat)" using Cons.prems(5) by simp
      then show "(3 + 2 * of_nat k) * eps \<le> 1" by (simp add: eps_def)
    qed
    ultimately show ?thesis by (simp add: algebra_simps)
  qed
  have "\<bar>acc + room_total p\<bar> \<le> 2 * T" using a small T R e Cons.prems(2) by linarith
  then have f: "\<bar>fl (acc + room_total p) - (acc + room_total p)\<bar> \<le> eps * (2 * T)" by (rule fl_abs_error)
  have k: "2 * of_nat (Suc k) * eps * T = 2 * of_nat k * eps * T + eps * (2 * T)"
    by (simp add: algebra_simps)
  have step: "\<bar>fl (acc + room_total p) - (s + ?e)\<bar> \<le> 3 * eps * (s + ?e) + 2 * of_nat (Suc k) * eps * T"
    using a f unfolding k by linarith
  have "\<bar>foldl (\<lambda>acc p. fl (acc + room_total p)) (fl (acc + room_total p)) ps - (s + ?e + ?R)\<bar>
    \<le> 3 * eps * (s + ?e + ?R) + 2 * of_nat (Suc k + length ps) * eps * T"
    by (rule Cons.IH) (use Cons.prems e T step in auto)
  then show ?case by (simp add: add_divide_distrib add.assoc)
qed

lemma total_price_fl: "\<exists>y. total_price ps = fl y"
  unfolding total_price_def by (cases ps rule: rev_cases) (auto intro: exI [of _ 0])

lemma total_price_exact:
  assumes "prints_doubles to_dec" and "\<And>p. p \<in> set ps \<Longrightarrow> 0 \<le> exact_total p"
    and "length ps \<le> 1000" and "numeric_12_2_ok (sum_list (map exact_total ps))"
  shows "to_numeric_12_2 to_dec (total_price ps) = Inr (sum_list (map exact_total ps))"
proof -
  let ?S = "of_int (sum_list (map exact_total ps)) / 100 :: rat"
  have S0: "0 \<le> sum_list (map exact_total ps)" by (rule sum_list_nonneg) (use assms(2) in auto)
  have S: "0 \<le> ?S" "?S \<le> 10 ^ 10"
    using S0 assms(4) by (simp_all add: numeric_12_2_ok_def abs_less_iff field_simps)
  have "\<bar>total_price ps - ?S\<bar> \<le> 3 * eps * ?S + 2 * of_nat (length ps) * eps * ?S"
    using foldl_total_error [of ps 0 ?S 0 0] assms(2,3) by (simp add: total_price_def)
  also have "\<dots> \<le> 1 / 400"
  proof -
    have "(3 + 2 * of_nat (length ps)) * (eps * ?S) \<le> 2003 * (eps * 10 ^ 10)"
      using assms(3) S by (intro mult_mono mult_left_mono) (simp_all add: eps_def)
    then show ?thesis by (simp add: eps_def algebra_simps)
  qed
  finally have err: "\<bar>total_price ps - ?S\<bar> \<le> 1 / 400" .
  obtain y where y: "total_price ps = fl y" using total_price_fl by blast
  have "2 * eps * (\<bar>?S\<bar> + 1 / 400) \<le> 2 * eps * (10 ^ 10 + 1 / 400)"
    using S by (intro mult_left_mono) (simp_all add: eps_def)
  also have "\<dots> < 1 / 400" by (simp add: eps_def)
  finally have "1 / 400 + 2 * eps * (\<bar>of_int (sum_list (map exact_total ps))\<bar> / 100 + 1 / 400) < 1 / (200::rat)"
    by simp
  then show ?thesis by (rule to_numeric_exact [OF assms(1) y err _ assms(4)])
qed

text \<open>What a request costs: for each item the price of its rate option times the nights between its days.\<close>

definition rate_price :: "world \<Rightarrow> uuid \<Rightarrow> cents" where
  "rate_price w i = (case by_id i (rate_options w) of None \<Rightarrow> 0 | Some r \<Rightarrow> ro_pricePerNight r)"

definition quote :: "world \<Rightarrow> booking_room_item list \<Rightarrow> cents" where
  "quote w items =
     sum_list (map (\<lambda>x. rate_price w (i_rateOptionId x)
                       * (sql_date (i_checkOutDate x) - sql_date (i_checkInDate x))) items)"

definition day_item :: "booking_room_item \<Rightarrow> bool" where
  "day_item x \<longleftrightarrow>
     i_checkInDate x = DateOnly (sql_date (i_checkInDate x))
     \<and> i_checkOutDate x = DateOnly (sql_date (i_checkOutDate x))
     \<and> sql_date (i_checkOutDate x) - sql_date (i_checkInDate x) < 2 ^ 53"

definition rates_ok :: "world \<Rightarrow> bool" where
  "rates_ok w \<longleftrightarrow> distinct (ids (rate_options w)) \<and> (\<forall>r \<in> set (rate_options w). 0 \<le> ro_pricePerNight r)"

lemma prepared_exact_total:
  assumes "prepare_room w x = Inr p" and "rates_ok w" and "day_item x"
    and "js_date (i_checkInDate x) < js_date (i_checkOutDate x)"
  shows "exact_total p = rate_price w (i_rateOptionId x)
           * (sql_date (i_checkOutDate x) - sql_date (i_checkInDate x)) \<and> 0 \<le> exact_total p"
  using assms(1)
proof (cases rule: prepare_room_Inr)
  case (1 rm ro ty)
  have ro: "ro \<in> set (rate_options w)" "live ro" "entId ro = i_rateOptionId x"
    using find_one_Some [OF 1(3)] by auto
  have price: "rate_price w (i_rateOptionId x) = ro_pricePerNight ro"
    using by_id_eq [of "rate_options w" ro] assms(2) ro by (simp add: rate_price_def rates_ok_def)
  obtain a b where ab: "i_checkInDate x = DateOnly a" "i_checkOutDate x = DateOnly b" "b - a < 2 ^ 53"
    using assms(3) unfolding day_item_def by metis
  have "a < b" using assms(4) by (simp add: ab msPerDay_def)
  moreover have "calcNights (DateOnly a) (DateOnly b) = b - a"
    using \<open>a < b\<close> ab(3) by (intro calcNights_dates) simp
  ultimately show ?thesis
    using assms(2) ro(1) by (simp add: exact_total_def 1(6) ab price rates_ok_def)
qed

lemma prepare_all_exact_totals:
  assumes "prepare_all w items = Inr ps" and "rates_ok w"
    and "\<And>x. x \<in> set items \<Longrightarrow> day_item x \<and> js_date (i_checkInDate x) < js_date (i_checkOutDate x)"
  shows "sum_list (map exact_total ps) = quote w items \<and> (\<forall>p \<in> set ps. 0 \<le> exact_total p)
    \<and> length ps = length items"
  using assms
proof (induction items arbitrary: ps)
  case Nil
  then show ?case by (simp add: quote_def)
next
  case (Cons x xs)
  obtain p qs where p: "prepare_room w x = Inr p" "prepare_all w xs = Inr qs" "ps = p # qs"
    using Cons.prems(1) by (auto split: sum.splits)
  have "exact_total p = rate_price w (i_rateOptionId x)
      * (sql_date (i_checkOutDate x) - sql_date (i_checkInDate x)) \<and> 0 \<le> exact_total p"
    using prepared_exact_total [OF p(1) Cons.prems(2)] Cons.prems(3) by simp
  moreover have "sum_list (map exact_total qs) = quote w xs \<and> (\<forall>p \<in> set qs. 0 \<le> exact_total p)
      \<and> length qs = length xs"
    by (rule Cons.IH) (use p Cons.prems in auto)
  ultimately show ?case by (simp add: p(3) quote_def)
qed

text \<open>C5: although the price is computed in floating point, the price stored for a request whose dates
  are plain days is exact to the cent, for up to 1000 rooms and any amount the column can hold.\<close>

theorem create_price_exact:
  assumes "create env items cu w = ok b w'" and "prints_doubles (ce_to_dec env)"
    and "rates_ok w" and "\<And>x. x \<in> set items \<Longrightarrow> day_item x"
    and "length items \<le> 1000" and "numeric_12_2_ok (quote w items)"
  shows "b_totalPrice b = quote w items"
proof (cases rule: create_cases [of env items cu w])
  case (fail e)
  then show ?thesis using assms(1) by simp
next
  case (saved ps b' rs)
  have b: "b' = b" using saved(6) assms(1) by simp
  have dates: "day_item x \<and> js_date (i_checkInDate x) < js_date (i_checkOutDate x)" if "x \<in> set items" for x
    using first_date_error_None [OF create_check_Inr(3) [OF saved(1)] that] assms(4) that by blast
  note tot = prepare_all_exact_totals [OF create_check_Inr(1) [OF saved(1)] assms(3) dates]
  have "to_numeric_12_2 (ce_to_dec env) (total_price ps) = Inr (sum_list (map exact_total ps))"
    by (rule total_price_exact) (use tot assms in auto)
  then show ?thesis using booking_row_Inr(5) [OF saved(2)] tot b by simp
qed

definition sample_items :: "booking_room_item list" where
  "sample_items = [sample_item ''rm1'' (DateOnly 10) (DateOnly 13), sample_item ''rm2'' (DateOnly 10) (DateOnly 11)]"

theorem create_price_exact_witness:
  "b_totalPrice (result_of (create (sample_env ''b1'' 0) sample_items (as_user ''u1'') sample_world)) = 39960"
proof -
  let ?r = "create (sample_env ''b1'' 0) sample_items (as_user ''u1'') sample_world"
  have "succeeds ?r" by code_simp
  then have ok: "?r = ok (result_of ?r) (snd ?r)" by (rule succeeds_ok)
  have q: "quote sample_world sample_items = 39960" by code_simp
  have "b_totalPrice (result_of ?r) = quote sample_world sample_items"
  proof (rule create_price_exact [OF ok])
    show "prints_doubles (ce_to_dec (sample_env ''b1'' 0))" by (simp add: sample_env_def prints_doubles_id)
    show "rates_ok sample_world" by (simp add: rates_ok_def sample_defs)
    show "day_item x" if "x \<in> set sample_items" for x
      using that by (auto simp: sample_items_def day_item_def sample_item_def)
    show "length sample_items \<le> 1000" by (simp add: sample_items_def)
    show "numeric_12_2_ok (quote sample_world sample_items)" unfolding q by (simp add: numeric_12_2_ok_def)
  qed
  then show ?thesis by (simp only: q)
qed

text \<open>A timestamp passes the date validation too.  A stay written as 23:00 to 01:00 on the next day
  lasts no night by the service's count, so the booking is accepted and costs nothing.\<close>

theorem timestamps_book_for_free:
  "let r = create (sample_env ''b1'' 0)
             [sample_item ''rm1'' (DateTime 10 82800000 0) (DateTime 11 3600000 0)] (as_user ''u1'') sample_world
   in succeeds r \<and> b_totalPrice (result_of r) = 0 \<and> b_status (result_of r) = B_PENDING
      \<and> map (\<lambda>br. (br_checkInDate br, br_checkOutDate br)) (booking_rooms (snd r)) = [(10, 11)]"
  by code_simp

end
