(* ===== verification/Booking_Status.thy ===== *)
theory Booking_Status
  imports Booking_Facts
begin

text \<open>
  The life of a booking as the status route drives it: which moves it allows, what a move does to
  the rooms, and who can see what.
\<close>

section \<open>The moves\<close>

text \<open>\<open>moves admin s t\<close>: the status route takes a booking from \<open>s\<close> to \<open>t\<close> for a caller of that kind.\<close>

inductive moves :: "bool \<Rightarrow> booking_status \<Rightarrow> booking_status \<Rightarrow> bool" where
  cancel_pending: "moves a B_PENDING B_CANCELLED"
| cancel_confirmed: "moves a B_CONFIRMED B_CANCELLED"
| check_in: "moves True B_CONFIRMED B_CHECKED_IN"
| check_out: "moves True B_CHECKED_IN B_CHECKED_OUT"

code_pred moves .

inductive_simps moves_simps [simp]:
  "moves a B_PENDING t" "moves a B_CONFIRMED t" "moves a B_CHECKED_IN t" "moves a B_CHECKED_OUT t"
  "moves a B_CANCELLED t" "moves a s B_CONFIRMED" "moves a s B_PENDING"

inductive_cases movesE: "moves a s t"

lemma moves_target: "moves a s t \<Longrightarrow> t = B_CANCELLED \<or> t = B_CHECKED_IN \<or> t = B_CHECKED_OUT"
  by (auto elim: movesE)

text \<open>The two transition tables and the order of the tests amount to this relation.\<close>

lemma assertValidTransition_iff: "assertValidTransition s t a = None \<longleftrightarrow> moves a s t"
  by (cases s; cases t; cases a)
     (simp_all add: assertValidTransition_def ADMIN_ONLY_TRANSITIONS_def CUSTOMER_ALLOWED_TRANSITIONS_def)

section \<open>The effect of a move\<close>

lemma visible_after_save:
  assumes "find_one (visible_booking cu i) bs = Some b"
  shows "find_one (visible_booking cu i) (save_row (b\<lparr>b_status := s\<rparr>) bs) = Some (b\<lparr>b_status := s\<rparr>)"
  using assms
proof (induction bs)
  case Nil
  then show ?case by simp
next
  case (Cons x bs)
  have "visible_booking cu i b" using find_one_Some [OF Cons.prems] by blast
  then have v: "visible_booking cu i (b\<lparr>b_status := s\<rparr>)" and i: "entId b = i"
    by (simp_all add: visible_booking_def live_def)
  show ?case
  proof (cases "entId x = i")
    case True
    then show ?thesis using v i by (simp add: save_row_def)
  next
    case False
    then have "\<not> visible_booking cu i x" by (simp add: visible_booking_def)
    then show ?thesis using False Cons i by (simp add: save_row_def)
  qed
qed

definition room_status_of_move :: "booking_status \<Rightarrow> room_status" where
  "room_status_of_move t = (if t = B_CHECKED_IN then OCCUPIED else AVAILABLE)"

definition moved :: "booking \<Rightarrow> booking_status \<Rightarrow> uuid list \<Rightarrow> world \<Rightarrow> world" where
  "moved b t rms w =
     w\<lparr>bookings := save_row (b\<lparr>b_status := t\<rparr>) (bookings w),
       rooms := update_where (\<lambda>r. entId r \<in> set rms) (\<lambda>r. r\<lparr>rm_status := room_status_of_move t\<rparr>) (rooms w)\<rparr>"

lemma findOneOrFail_saved:
  assumes "find_one (visible_booking cu i) (bookings w) = Some b"
    and "bookings w' = save_row (b\<lparr>b_status := t\<rparr>) (bookings w)"
  shows "findOneOrFail (entId b) cu w' = ok (b\<lparr>b_status := t\<rparr>) w'"
  using visible_after_save [OF assms(1)] assms find_one_Some [OF assms(1)]
  by (simp add: findOneOrFail_def visible_booking_def)

text \<open>Every way \<open>patchStatus\<close> can end.\<close>

lemma patchStatus_eq:
  "patchStatus i t cu w =
     (case find_one (visible_booking cu i) (bookings w) of
        None \<Rightarrow> throw (NotFoundException ''Booking not found'') w
      | Some b \<Rightarrow>
          if \<not> moves (is_admin cu) (b_status b) t
          then throw (the (assertValidTransition (b_status b) t (is_admin cu))) w
          else if room_ids_of i w = []
          then throw (QueryFailedError ''42601'') (w\<lparr>bookings := save_row (b\<lparr>b_status := t\<rparr>) (bookings w)\<rparr>)
          else ok (b\<lparr>b_status := t\<rparr>) (moved b t (room_ids_of i w) w))"
proof (cases "find_one (visible_booking cu i) (bookings w)")
  case None
  then show ?thesis by (simp add: patchStatus_def)
next
  case (Some b)
  let ?w1 = "w\<lparr>bookings := save_row (b\<lparr>b_status := t\<rparr>) (bookings w)\<rparr>"
  have r: "room_ids_of i ?w1 = room_ids_of i w" by (simp add: room_ids_of_def)
  have f: "findOneOrFail (entId b) cu (moved b t rms w) = ok (b\<lparr>b_status := t\<rparr>) (moved b t rms w)" for rms
    by (rule findOneOrFail_saved [OF Some]) (simp add: moved_def)
  show ?thesis
  proof (cases "assertValidTransition (b_status b) t (is_admin cu)")
    case None
    then have m: "moves (is_admin cu) (b_status b) t" by (simp add: assertValidTransition_iff)
    show ?thesis
      using moves_target [OF m] f Some None m r
      by (auto simp: patchStatus_def Let_def set_room_status_def moved_def room_status_of_move_def)
  next
    case (Some e)
    moreover from this have "\<not> moves (is_admin cu) (b_status b) t"
      using assertValidTransition_iff [of "b_status b" t "is_admin cu"] by simp
    ultimately show ?thesis
      using \<open>find_one (visible_booking cu i) (bookings w) = Some b\<close> by (simp add: patchStatus_def)
  qed
qed

text \<open>C6: the status route succeeds exactly for a booking the caller can see, a move of the transition
  tables and a booking with rooms.  In particular it never confirms a booking, for nobody.\<close>

theorem patchStatus_succeeds_iff:
  "succeeds (patchStatus i t cu w) \<longleftrightarrow>
     (\<exists>b. find_one (visible_booking cu i) (bookings w) = Some b \<and> moves (is_admin cu) (b_status b) t)
     \<and> room_ids_of i w \<noteq> []"
  by (auto simp: patchStatus_eq split: option.splits)

text \<open>What a successful move does: it sets the status of that booking and of the booking's rooms, and
  touches nothing else.\<close>

theorem patchStatus_effect:
  assumes "patchStatus i t cu w = ok b' w'"
  shows "\<exists>b. find_one (visible_booking cu i) (bookings w) = Some b \<and> moves (is_admin cu) (b_status b) t
    \<and> b' = b\<lparr>b_status := t\<rparr>
    \<and> w' = w\<lparr>bookings := update_where (\<lambda>x. entId x = i) (\<lambda>_. b') (bookings w),
             rooms := update_where (\<lambda>r. entId r \<in> set (room_ids_of i w))
               (\<lambda>r. r\<lparr>rm_status := if t = B_CHECKED_IN then OCCUPIED else AVAILABLE\<rparr>) (rooms w)\<rparr>"
  using assms
  by (auto simp: patchStatus_eq moved_def room_status_of_move_def save_row_def visible_booking_def
      split: option.splits if_splits)

definition stay_world :: world where
  "stay_world = sample_world
     \<lparr>bookings := [sample_booking ''b1'' ''u1'' B_CHECKED_IN 9990, sample_booking ''b2'' ''u2'' B_CONFIRMED 9990],
      booking_rooms := [sample_stay ''s1'' ''b1'' ''rm1'' 10 11, sample_stay ''s2'' ''b2'' ''rm1'' 20 21],
      rooms := [sample_room ''rm1'' ''101'' OCCUPIED, sample_room ''rm2'' ''102'' MAINTENANCE]\<rparr>"

theorem patchStatus_effect_witness:
  "rooms (snd (patchStatus ''b1'' B_CHECKED_OUT (as_admin ''a1'') stay_world))
     = [sample_room ''rm1'' ''101'' AVAILABLE, sample_room ''rm2'' ''102'' MAINTENANCE]"
proof -
  let ?r = "patchStatus ''b1'' B_CHECKED_OUT (as_admin ''a1'') stay_world"
  have "succeeds ?r" by code_simp
  from patchStatus_effect [OF succeeds_ok [OF this]]
  have "rooms (snd ?r) = update_where (\<lambda>r. entId r \<in> set (room_ids_of ''b1'' stay_world))
      (\<lambda>r. r\<lparr>rm_status := AVAILABLE\<rparr>) (rooms stay_world)"
    by (auto dest: arg_cong [of _ _ rooms])
  then show ?thesis
    by (simp add: stay_world_def sample_defs room_ids_of_def find_all_def)
qed

text \<open>Cancelling a booking releases its rooms whoever is in them.  A customer who cancels a stay
  planned for later marks the room available while another guest is checked in there.\<close>

theorem cancel_releases_occupied_room:
  "let r = patchStatus ''b2'' B_CANCELLED (as_user ''u2'') stay_world
   in succeeds r
      \<and> map rm_status (rooms stay_world) = [OCCUPIED, MAINTENANCE]
      \<and> map rm_status (rooms (snd r)) = [AVAILABLE, MAINTENANCE]
      \<and> map b_status (bookings (snd r)) = [B_CHECKED_IN, B_CANCELLED]"
  by code_simp

section \<open>Who sees what\<close>

lemma bookings_listing_page [simp]:
  "bookings_listing (f\<lparr>page := pg, limit := sz, getAll := g\<rparr>) cu w
     = bookings_listing (f :: filter_booking) cu w"
  by (simp add: bookings_listing_def)

interpretation bookings_pages: paged_listing
  "\<lambda>pg sz. findAll (f\<lparr>page := pg, limit := sz, getAll := False\<rparr>) cu w" "bookings_listing f cu w"
  for f :: filter_booking and cu w
  by unfold_locales (simp_all add: findAll_def get_many_and_count_def)

lemma bookings_listing_visible:
  "b \<in> set (bookings_listing f cu w) \<longleftrightarrow>
     b \<in> set (bookings w) \<and> visible_booking cu (entId b) b
     \<and> (case fb_status f of None \<Rightarrow> True | Some s \<Rightarrow> b_status b = s)"
  by (auto simp: bookings_listing_def Let_def visible_booking_def)

text \<open>The listing of bookings shows a caller who is not an administrator his own bookings only, and
  all of them: the pages of any size, read one after the other, put together exactly the live bookings
  the caller may see that match the status asked for, and the count that comes with every page is
  their number.\<close>

theorem booking_pages_cover:
  assumes "snd (findAll (f\<lparr>page := 1, limit := sz, getAll := False\<rparr>) cu w) \<le> n * sz"
  shows "set (concat (map (\<lambda>i. fst (findAll (f\<lparr>page := Suc i, limit := sz, getAll := False\<rparr>) cu w)) [0..<n]))
    = {b \<in> set (bookings w). live b \<and> (is_admin cu \<or> b_userId b = cu_id cu)
         \<and> (case fb_status (f :: filter_booking) of None \<Rightarrow> True | Some s \<Rightarrow> b_status b = s)}"
proof -
  have "concat (map (\<lambda>i. fst (findAll (f\<lparr>page := Suc i, limit := sz, getAll := False\<rparr>) cu w)) [0..<n])
      = bookings_listing f cu w"
    by (rule bookings_pages.pages_cover) (use assms in \<open>simp add: bookings_pages.list_page_total\<close>)
  then show ?thesis by (auto simp: bookings_listing_visible visible_booking_def)
qed

definition no_filter :: filter_booking where
  "no_filter = \<lparr>page = 1, limit = 10, getAll = False, fb_status = None, fb_sortBy = None, fb_sortOrder = None\<rparr>"

theorem booking_pages_cover_witness:
  "set (concat (map (\<lambda>i. fst (findAll (no_filter\<lparr>page := Suc i, limit := 1, getAll := False\<rparr>)
      (as_user ''u2'') stay_world)) [0..<1])) = {b \<in> set (bookings stay_world). live b \<and> b_userId b = ''u2''}"
proof -
  have "snd (findAll (no_filter\<lparr>page := 1, limit := 1, getAll := False\<rparr>) (as_user ''u2'') stay_world) \<le> 1 * 1"
    by code_simp
  moreover have "\<not> is_admin (as_user ''u2'')" "cu_id (as_user ''u2'') = ''u2''" "fb_status no_filter = None"
    by (simp_all add: as_user_def no_filter_def)
  ultimately show ?thesis by (simp only: booking_pages_cover option.case simp_thms)
qed

end
