(* ===== verification/Payment_Facts.thy ===== *)
theory Payment_Facts
  imports Payment Booking_Status
begin

text \<open>
  What the payment service guarantees: exact amounts, webhooks that may be delivered again, lists
  that show the last write; and how a payment and its booking can disagree.
\<close>

section \<open>Amounts\<close>

text \<open>The amount sent to Stripe is the stored price in cents, exactly, although it is computed in
  floating point, for every price the column can hold.\<close>

theorem toStripeAmount_exact:
  assumes "numeric_12_2_ok c"
  shows "toStripeAmount c = c"
proof -
  have "\<bar>fl (parse_float c * of_int 100) - of_int c / 100 * of_int 100\<bar> \<le> 3 * eps * \<bar>of_int c / 100 * of_int 100\<bar>"
    using fl_mult_error [of "parse_float c" "of_int c / 100" 100] parse_float_error [of c] by (simp add: abs_mult)
  then have "\<bar>fl (parse_float c * 100) - of_int c\<bar> \<le> 3 * eps * \<bar>of_int c\<bar>" by simp
  also have "\<dots> \<le> 3 * eps * 10 ^ 12"
  proof (rule mult_left_mono)
    have "of_int \<bar>c\<bar> < (of_int (10 ^ 12) :: rat)" using assms by (simp only: numeric_12_2_ok_def of_int_less_iff)
    then show "\<bar>of_int c\<bar> \<le> (10 ^ 12 :: rat)" by simp
  qed (simp add: eps_def)
  also have "\<dots> < 1 / 2" by (simp add: eps_def)
  finally have "\<bar>fl (parse_float c * 100) - of_int c\<bar> < 1 / 2" .
  then show ?thesis
    unfolding toStripeAmount_def js_round_def
    by (intro floor_unique) (simp_all only: abs_less_iff, linarith+)
qed

theorem toStripeAmount_exact_witness: "toStripeAmount 999999999999 = 999999999999 \<and> toStripeAmount 115 = 115"
proof
  show "toStripeAmount 999999999999 = 999999999999"
    by (rule toStripeAmount_exact) (simp add: numeric_12_2_ok_def)
  show "toStripeAmount 115 = 115"
    by (rule toStripeAmount_exact) (simp add: numeric_12_2_ok_def)
qed

section \<open>The webhook\<close>

definition of_intent :: "string \<Rightarrow> payment \<Rightarrow> bool" where
  "of_intent intent p \<longleftrightarrow> live p \<and> y_paymentIntentId p = intent"

text \<open>Setting the status of the payment of an intent, then looking it up again.\<close>

lemma of_intent_saved:
  assumes "find_one (of_intent x) ps = Some p"
  shows "find_one (of_intent x) (save_row (p\<lparr>y_status := s\<rparr>) ps) = Some (p\<lparr>y_status := s\<rparr>)"
  using assms
proof (induction ps)
  case Nil
  then show ?case by simp
next
  case (Cons q ps)
  have p: "of_intent x (p\<lparr>y_status := s\<rparr>)"
    using find_one_Some [OF Cons.prems] by (simp add: of_intent_def live_def)
  show ?case
    using Cons p by (cases "entId q = entId p") (auto simp: save_row_def split: if_splits)
qed

lemma handlePaymentSuccess_eq:
  "handlePaymentSuccess env x w =
     (case find_one (of_intent x) (payments w) of
        None \<Rightarrow> ok () w
      | Some p \<Rightarrow>
          if y_status p = P_COMPLETED then ok () w
          else ok () ((invalidatePaymentLists (pe_now env)
                   (w\<lparr>payments := save_row (p\<lparr>y_status := P_COMPLETED\<rparr>) (payments w)\<rparr>))
                 \<lparr>bookings := update_where (\<lambda>b. entId b = y_bookingId p \<and> b_status b = B_PENDING)
                             (\<lambda>b. b\<lparr>b_status := B_CONFIRMED\<rparr>) (bookings w)\<rparr>))"
  by (simp add: handlePaymentSuccess_def of_intent_def [abs_def] Let_def invalidatePaymentLists_def split: option.split)


definition sample_payment :: "uuid \<Rightarrow> uuid \<Rightarrow> uuid \<Rightarrow> string \<Rightarrow> payment_status \<Rightarrow> payment" where
  "sample_payment i bk u intent st =
     \<lparr>entId = i, createdAt = 0, deletedAt = None, y_bookingId = bk, y_userId = u, y_provider = STRIPE,
      y_paymentIntentId = intent, y_amount = 9990, y_currency = USD, y_status = st\<rparr>"

definition pay_env :: "time \<Rightarrow> uuid \<Rightarrow> payment_env" where
  "pay_env now i =
     \<lparr>pe_now = now, pe_ttl = 300000, pe_paymentId = i, pe_stripe = (\<lambda>_ _. Some (''pi_'' @ i, ''secret''))\<rparr>"

definition paid_world :: world where
  "paid_world = sample_world
     \<lparr>bookings := [sample_booking ''b1'' ''u1'' B_CONFIRMED 9990, sample_booking ''b2'' ''u2'' B_CANCELLED 9990],
      payments := [sample_payment ''p1'' ''b1'' ''u1'' ''pi_1'' P_COMPLETED,
                   sample_payment ''p2'' ''b2'' ''u2'' ''pi_2'' P_PENDING]\<rparr>"

text \<open>Events that arrive out of order are not reconciled.  A failure event that arrives after the
  success leaves a confirmed booking whose payment has failed; a success event for a booking that was
  cancelled meanwhile leaves a cancelled booking whose payment is completed.\<close>

theorem webhook_out_of_order:
  "let w1 = snd (handleStripeWebhook (pay_env 0 ''x'') \<lparr>ev_type = ''payment_intent.payment_failed'', ev_objectId = ''pi_1''\<rparr> paid_world);
       w2 = snd (handleStripeWebhook (pay_env 0 ''x'') \<lparr>ev_type = ''payment_intent.succeeded'', ev_objectId = ''pi_2''\<rparr> w1)
   in map y_status (payments w2) = [P_FAILED, P_COMPLETED]
      \<and> map b_status (bookings w2) = [B_CONFIRMED, B_CANCELLED]"
  by code_simp

section \<open>Payment intents\<close>

text \<open>A caller who is no row of the users table, as every administrator is, cannot open a payment
  for a pending booking: the insertion breaks the foreign key.  Stripe has created the intent by then,
  and nothing cancels it.\<close>

theorem admin_intent_leaks:
  assumes "by_id i (bookings w) = Some b" and "b_status b = B_PENDING" and "is_admin cu"
    and "cu_id cu \<notin> set (ids (users w))"
    and "\<forall>p \<in> set (payments w). \<not> (live p \<and> y_bookingId p = i \<and> y_status p = P_PENDING)"
    and "pe_stripe env (toStripeAmount (b_totalPrice b)) (b_currency b) = Some (intent, secret)"
    and "pe_paymentId env \<notin> set (ids (payments w))" and "\<forall>p \<in> set (payments w). y_paymentIntentId p \<noteq> intent"
  shows "createPaymentIntent env i cu w
    = throw (QueryFailedError ''23503'')
        (emit (StripeIntent intent (toStripeAmount (b_totalPrice b)) (b_currency b)) w)"
proof -
  have i: "entId b = i" using by_id_Some [OF assms(1)] by simp
  have none: "find_one (\<lambda>p. live p \<and> y_bookingId p = entId b \<and> y_status p = P_PENDING) (payments w) = None"
    using assms(5) by (simp add: find_one_None i)
  show ?thesis
    using assms(1-4,6-8) none
    by (simp add: createPaymentIntent_def stripe_createPaymentIntent_def save_payment_def emit_def)
qed

theorem admin_intent_leaks_witness:
  "createPaymentIntent (pay_env 0 ''p1'') ''b1'' (as_admin ''a1'')
     (sample_world\<lparr>bookings := [sample_booking ''b1'' ''u1'' B_PENDING 9990]\<rparr>)
   = throw (QueryFailedError ''23503'')
       (emit (StripeIntent ''pi_p1'' (toStripeAmount 9990) USD)
         (sample_world\<lparr>bookings := [sample_booking ''b1'' ''u1'' B_PENDING 9990]\<rparr>))"
  using admin_intent_leaks [of "''b1''" "sample_world\<lparr>bookings := [sample_booking ''b1'' ''u1'' B_PENDING 9990]\<rparr>"
      "sample_booking ''b1'' ''u1'' B_PENDING 9990" "as_admin ''a1''" "pay_env 0 ''p1''" "''pi_p1''" "''secret''"]
  by (simp add: by_id_def sample_defs pay_env_def live_def)

section \<open>Listings\<close>

lemma payments_listing_page [simp]:
  "payments_listing (f\<lparr>page := pg, limit := sz, getAll := g\<rparr>) cu w = payments_listing f cu w"
  by (simp add: payments_listing_def payment_visible_def [abs_def])

lemma payments_listing_cache [simp]: "payments_listing f cu (w\<lparr>the_cache := c\<rparr>) = payments_listing f cu w"
  by (simp add: payments_listing_def)

interpretation payment_pages: paged_listing
  "\<lambda>pg sz. get_many_and_count (f\<lparr>page := pg, limit := sz, getAll := False\<rparr>)
     (payments_listing (f\<lparr>page := pg, limit := sz, getAll := False\<rparr>) cu w)"
  "payments_listing f cu w"
  for f :: filter_payment and cu w
  by unfold_locales (simp_all add: get_many_and_count_def)

text \<open>
  \<open>fresh_lists now w\<close>: every payment list that is in the cache from \<open>now\<close> on has its key in the
  registry.  It is so after an invalidation, and stays so for one time to live.
\<close>

definition fresh_lists :: "time \<Rightarrow> world \<Rightarrow> bool" where
  "fresh_lists now w \<longleftrightarrow>
     (\<forall>k \<in> payment_list_keys. \<forall>t \<ge> now. cache_get t k w \<noteq> None \<longrightarrow> k \<in> set (registry PaymentRegistryKey now w))"

lemma paymentListKey_in [simp]: "paymentListKey f cu \<in> payment_list_keys"
  by (auto simp: paymentListKey_def payment_list_keys_def)

lemma cache_get_tables [simp]: "cache_get t k (w\<lparr>bookings := b\<rparr>) = cache_get t k w"
  "cache_get t k (w\<lparr>payments := p\<rparr>) = cache_get t k w"
  by (simp_all add: cache_get_def)

lemma registry_tables [simp]: "registry reg t (w\<lparr>bookings := b\<rparr>) = registry reg t w"
  "registry reg t (w\<lparr>payments := p\<rparr>) = registry reg t w"
  by (simp_all add: registry_def)

lemma fresh_lists_invalidated:
  "fresh_lists now w \<Longrightarrow> now \<le> t \<Longrightarrow>
     cache_get t (paymentListKey f cu) (invalidatePaymentLists now w) = None"
  using payment_lists.get_invalidate [of "paymentListKey f cu" t now w] paymentListKey_in
  unfolding fresh_lists_def by metis

lemma findAll_payments_miss:
  "cache_get (pe_now env) (paymentListKey f cu) w = None \<Longrightarrow>
     result_of (findAll_payments env f cu w) = get_many_and_count f (payments_listing f cu w)
     \<and> succeeds (findAll_payments env f cu w)"
  by (simp add: findAll_payments_def Let_def case_prod_beta)

definition cash_row :: "payment_env \<Rightarrow> booking \<Rightarrow> payment" where
  "cash_row env b =
     \<lparr>entId = pe_paymentId env, createdAt = pe_now env, deletedAt = None,
      y_bookingId = entId b, y_userId = b_userId b, y_provider = STRIPE,
      y_paymentIntentId = syntheticIntentId (entId b) (pe_now env),
      y_amount = b_totalPrice b, y_currency = b_currency b, y_status = P_COMPLETED\<rparr>"

definition cash_paid :: "payment_env \<Rightarrow> booking \<Rightarrow> world \<Rightarrow> world" where
  "cash_paid env b w =
     (invalidatePaymentLists (pe_now env) (w\<lparr>payments := payments w @ [cash_row env b]\<rparr>))
       \<lparr>bookings := update_where (\<lambda>x. entId x = entId b) (\<lambda>x. x\<lparr>b_status := B_CONFIRMED\<rparr>) (bookings w)\<rparr>"

lemma confirmCashPayment_cases:
  obtains (fail) e where "confirmCashPayment env i cu w = throw e w"
  | (paid) b where "by_id i (bookings w) = Some b" "b_status b = B_PENDING"
      "save_payment (cash_row env b) w = ok () (w\<lparr>payments := payments w @ [cash_row env b]\<rparr>)"
      "confirmCashPayment env i cu w = ok (cash_row env b) (cash_paid env b w)"
proof (cases "by_id i (bookings w)")
  case None
  then show ?thesis using fail by (simp add: confirmCashPayment_def)
next
  case (Some b)
  note confirm = confirmCashPayment_def [folded cash_row_def]
  have "(\<exists>e. save_payment (cash_row env b) w = throw e w)
      \<or> save_payment (cash_row env b) w = ok () (w\<lparr>payments := payments w @ [cash_row env b]\<rparr>)"
    by (simp add: save_payment_def)
  then show ?thesis
  proof
    assume "\<exists>e. save_payment (cash_row env b) w = throw e w"
    then obtain e where "save_payment (cash_row env b) w = throw e w" ..
    then show ?thesis using fail Some by (cases "b_status b = B_PENDING") (auto simp: confirm)
  next
    assume s: "save_payment (cash_row env b) w = ok () (w\<lparr>payments := payments w @ [cash_row env b]\<rparr>)"
    show ?thesis
    proof (cases "b_status b = B_PENDING")
      case True
      show ?thesis
        by (rule paid [OF Some True s])
           (simp add: confirm Some True s Let_def cash_paid_def invalidatePaymentLists_def)
    next
      case False
      then show ?thesis using fail Some by (simp add: confirm)
    qed
  qed
qed

text \<open>After a cash payment is recorded, every listing of payments shows the table as it then is, with
  the payment in it, and not a list cached before, provided the cached lists were registered.\<close>

theorem cash_payment_listed:
  assumes "confirmCashPayment env i cu w = ok p w'" and "fresh_lists (pe_now env) w"
    and "pe_now env \<le> pe_now env'"
  shows "succeeds (findAll_payments env' f cu' w')
    \<and> result_of (findAll_payments env' f cu' w') = get_many_and_count f (payments_listing f cu' w')
    \<and> (p \<in> set (payments_listing f cu' w') \<longleftrightarrow> payment_visible f cu' p)"
proof (cases rule: confirmCashPayment_cases [of env i cu w])
  case (fail e)
  then show ?thesis using assms(1) by simp
next
  case (paid b)
  then have w': "w' = cash_paid env b w" and p: "p = cash_row env b" using assms(1) by simp_all
  have "fresh_lists (pe_now env) (w\<lparr>payments := payments w @ [p]\<rparr>)"
    using assms(2) by (simp add: fresh_lists_def)
  then have "cache_get (pe_now env') (paymentListKey f cu') w' = None"
    using fresh_lists_invalidated [OF _ assms(3)] by (simp add: w' p cash_paid_def)
  moreover have "p \<in> set (payments w')" by (simp add: w' p cash_paid_def invalidatePaymentLists_def)
  ultimately show ?thesis
    using findAll_payments_miss by (simp add: payments_listing_def Let_def)
qed

definition no_payment_filter :: filter_payment where
  "no_payment_filter = \<lparr>page = 1, limit = 10, getAll = True, fp_status = None, fp_userId = None,
     fp_bookingId = None, fp_sortBy = None, fp_sortOrder = None\<rparr>"

definition pending_world :: world where
  "pending_world = sample_world\<lparr>bookings := [sample_booking ''b1'' ''u1'' B_PENDING 9990]\<rparr>"

theorem cash_payment_listed_witness:
  "let w1 = snd (findAll_payments (pay_env 0 ''x'') no_payment_filter (as_admin ''a1'') pending_world);
       w2 = snd (confirmCashPayment (pay_env 1 ''p1'') ''b1'' (as_admin ''a1'') w1)
   in result_of (findAll_payments (pay_env 2 ''x'') no_payment_filter (as_admin ''a1'') w2)
        = get_many_and_count no_payment_filter (payments_listing no_payment_filter (as_admin ''a1'') w2)"
proof -
  let ?w1 = "snd (findAll_payments (pay_env 0 ''x'') no_payment_filter (as_admin ''a1'') pending_world)"
  let ?r = "confirmCashPayment (pay_env 1 ''p1'') ''b1'' (as_admin ''a1'') ?w1"
  have "succeeds ?r" by code_simp
  then have ok: "?r = ok (result_of ?r) (snd ?r)" by (rule succeeds_ok)
  have "cache_get 0 k pending_world = None" for k
    by (simp add: cache_get_def pending_world_def sample_world_def empty_world_def)
  then have "fresh_lists (pe_now (pay_env 1 ''p1'')) ?w1"
    by (auto simp: fresh_lists_def findAll_payments_def pay_env_def payment_registerListKey_def register_key_def
        Let_def case_prod_beta registry_def cache_get_set payment_list_keys_def)
       (auto simp: cache_get_def pending_world_def sample_world_def empty_world_def)
  from cash_payment_listed [OF ok this, of "pay_env 2 ''x''" no_payment_filter "as_admin ''a1''"]
  show ?thesis by (simp add: Let_def pay_env_def)
qed

lemma findAll_payments_miss_world:
  "cache_get (pe_now env) (paymentListKey f cu) w = None \<Longrightarrow>
     snd (findAll_payments env f cu w)
       = remember_list PaymentRegistryKey (paymentListKey f cu)
           (case get_many_and_count f (payments_listing f cu w) of (items, tot) \<Rightarrow> VPayments items tot)
           (pe_ttl env) (pe_now env) w"
  by (simp add: findAll_payments_def Let_def case_prod_beta remember_list_def payment_registerListKey_def)

lemma register_frame: "\<exists>c. register_key reg k ttl now (cache_set k' v ttl' now' w) = w\<lparr>the_cache := c\<rparr>"
  by (auto simp: register_key_def cache_set_def Let_def)

lemma findAll_payments_frame: "\<exists>c. snd (findAll_payments env f cu w) = w\<lparr>the_cache := c\<rparr>"
  using register_frame [of PaymentRegistryKey "paymentListKey f cu"] exI [of _ "the_cache w"]
  by (auto simp: findAll_payments_def payment_registerListKey_def Let_def case_prod_beta
      split: option.split cache_val.split)

lemma findAll_payments_tables [simp]:
  "bookings (snd (findAll_payments env f cu w)) = bookings w"
  "payments (snd (findAll_payments env f cu w)) = payments w"
  "users (snd (findAll_payments env f cu w)) = users w"
  using findAll_payments_frame [of env f cu w] by auto

lemma confirmCashPayment_succeeds:
  assumes "by_id i (bookings w) = Some b" and "b_status b = B_PENDING" and "b_userId b \<in> set (ids (users w))"
    and "pe_paymentId env \<notin> set (ids (payments w))"
    and "\<forall>p \<in> set (payments w). y_paymentIntentId p \<noteq> syntheticIntentId i (pe_now env)"
  shows "succeeds (confirmCashPayment env i cu w)"
  using assms by_id_Some [OF assms(1)]
  by (auto simp: confirmCashPayment_def save_payment_def Let_def ids_def)

text \<open>The proviso of the previous statement can fail.  When a list is read while its key is still in the
  registry but its entry has expired, the entry is renewed and the registry is not; a payment recorded
  after the registry has expired does not delete the list, and the reader goes on seeing the table as it
  was.\<close>

theorem stale_payment_list:
  assumes "cache_get (pe_now env) (paymentListKey f cu) w = None"
    and "paymentListKey f cu \<in> set (registry PaymentRegistryKey (pe_now env) w)"
    and "paymentListKey f cu \<notin> set (registry PaymentRegistryKey (pe_now env3) w)"
    and "pe_now env3 \<le> pe_now env'" and "pe_now env' < pe_now env + pe_ttl env"
    and "confirmCashPayment env3 i cu' (snd (findAll_payments env f cu w)) = ok p w'"
  shows "p \<in> set (payments w')
    \<and> result_of (findAll_payments env' f cu w') = get_many_and_count f (payments_listing f cu w)"
proof (cases rule: confirmCashPayment_cases [of env3 i cu' "snd (findAll_payments env f cu w)"])
  case (fail e)
  then show ?thesis using assms(6) by simp
next
  case (paid b)
  obtain items tot where l: "get_many_and_count f (payments_listing f cu w) = (items, tot)" by fastforce
  let ?w1 = "snd (findAll_payments env f cu w)" and ?k = "paymentListKey f cu"
  have w': "w' = cash_paid env3 b ?w1" and p: "p = cash_row env3 b" using assms(6) paid(4) by simp_all
  have w1: "?w1 = remember_list PaymentRegistryKey ?k (VPayments items tot) (pe_ttl env) (pe_now env) w"
    using findAll_payments_miss_world [OF assms(1)] l by simp
  have "cache_get (pe_now env') ?k (invalidatePaymentLists (pe_now env3) ?w1) = Some (VPayments items tot)"
    unfolding w1 by (rule payment_lists.stale_survives) (use assms in auto)
  moreover have "?k \<noteq> PaymentRegistryKey" by (simp add: paymentListKey_def)
  ultimately have "cache_get (pe_now env') ?k w' = Some (VPayments items tot)"
    by (simp add: w' cash_paid_def invalidatePaymentLists_def cache_get_invalidate split: if_splits)
  then show ?thesis by (simp add: findAll_payments_def l) (simp add: w' p cash_paid_def invalidatePaymentLists_def)
qed

theorem stale_payment_list_witness:
  "let w = pending_world\<lparr>the_cache := [PaymentRegistryKey \<mapsto>
             (VKeys [paymentListKey no_payment_filter (as_admin ''a1'')], 500000)]\<rparr>;
       w1 = snd (findAll_payments (pay_env 300000 ''x'') no_payment_filter (as_admin ''a1'') w);
       w2 = snd (confirmCashPayment (pay_env 500001 ''p1'') ''b1'' (as_admin ''a1'') w1)
   in result_of (findAll_payments (pay_env 500002 ''x'') no_payment_filter (as_admin ''a1'') w2) = ([], 0)
      \<and> payments w2 \<noteq> []"
proof -
  let ?k = "paymentListKey no_payment_filter (as_admin ''a1'')"
  let ?w = "pending_world\<lparr>the_cache := [PaymentRegistryKey \<mapsto> (VKeys [?k], 500000)]\<rparr>"
  let ?w1 = "snd (findAll_payments (pay_env 300000 ''x'') no_payment_filter (as_admin ''a1'') ?w)"
  let ?r = "confirmCashPayment (pay_env 500001 ''p1'') ''b1'' (as_admin ''a1'') ?w1"
  have k: "?k \<noteq> PaymentRegistryKey" by (simp add: paymentListKey_def)
  have "succeeds ?r"
    by (rule confirmCashPayment_succeeds [of _ _ "sample_booking ''b1'' ''u1'' B_PENDING 9990"])
       (simp_all add: pending_world_def sample_defs by_id_def live_def)
  then have ok: "?r = ok (result_of ?r) (snd ?r)" by (rule succeeds_ok)
  have "get_many_and_count no_payment_filter (payments_listing no_payment_filter (as_admin ''a1'') ?w) = ([], 0)"
    by code_simp
  then have "result_of (findAll_payments (pay_env 500002 ''x'') no_payment_filter (as_admin ''a1'') (snd ?r)) = ([], 0)
      \<and> payments (snd ?r) \<noteq> []"
    using stale_payment_list [OF _ _ _ _ _ ok, of "pay_env 500002 ''x''"] k
    by (auto simp: pay_env_def cache_get_def registry_def)
  then show ?thesis by (simp add: Let_def)
qed

end
