(* ===== verification/Booking_System.thy ===== *)
theory Booking_System
  imports Payment_Facts
begin

text \<open>
  The booking system as a whole: any number of calls of the booking and payment services, in any
  order, by any callers, with Stripe's events between them, and with anything else happening to the
  other tables.  A call runs to its end before the next begins (what interleaving adds is shown in
  \<open>Booking_Facts.interleaved_creates_double_book\<close>).
\<close>

section \<open>Transition systems\<close>

text \<open>A property of the initial states that every step keeps holds in every reachable state.\<close>

locale invariant_system =
  fixes init :: "'s \<Rightarrow> bool" and step :: "'s \<Rightarrow> 's \<Rightarrow> bool" and inv :: "'s \<Rightarrow> bool"
  assumes init_inv: "init s \<Longrightarrow> inv s"
    and step_inv: "inv s \<Longrightarrow> step s s' \<Longrightarrow> inv s'"
begin

lemma steps_inv: "step\<^sup>*\<^sup>* s s' \<Longrightarrow> inv s \<Longrightarrow> inv s'"
  by (induction rule: rtranclp_induct) (auto intro: step_inv)

lemma reachable_inv: "init s \<Longrightarrow> step\<^sup>*\<^sup>* s s' \<Longrightarrow> inv s'"
  by (rule steps_inv [OF _ init_inv])

end

section \<open>The steps\<close>

datatype action =
    Create create_env "booking_room_item list" authenticated_user
  | Patch uuid booking_status authenticated_user
  | Intent payment_env uuid authenticated_user
  | Webhook payment_env stripe_event
  | Cash payment_env uuid authenticated_user
  | List_Payments payment_env filter_payment authenticated_user

fun perform :: "action \<Rightarrow> world \<Rightarrow> world" where
  "perform (Create env items cu) w = snd (create env items cu w)"
| "perform (Patch i t cu) w = snd (patchStatus i t cu w)"
| "perform (Intent env i cu) w = snd (createPaymentIntent env i cu w)"
| "perform (Webhook env ev) w = snd (handleStripeWebhook env ev w)"
| "perform (Cash env i cu) w = snd (confirmCashPayment env i cu w)"
| "perform (List_Payments env f cu) w = snd (findAll_payments env f cu w)"

inductive booking_step :: "world \<Rightarrow> world \<Rightarrow> bool" where
  act: "booking_step w (perform a w)"
| other: "bookings w' = bookings w \<Longrightarrow> booking_rooms w' = booking_rooms w \<Longrightarrow> payments w' = payments w
          \<Longrightarrow> booking_step w w'"

definition no_bookings :: "world \<Rightarrow> bool" where
  "no_bookings w \<longleftrightarrow> bookings w = [] \<and> booking_rooms w = [] \<and> payments w = []"

text \<open>
  Seen from the three tables, a step does one of six things.
\<close>

inductive tables_step :: "world \<Rightarrow> world \<Rightarrow> bool" where
  same: "bookings w' = bookings w \<Longrightarrow> booking_rooms w' = booking_rooms w \<Longrightarrow> payments w' = payments w
         \<Longrightarrow> tables_step w w'"
| created: "prepare_all w items = Inr ps \<Longrightarrow> distinct (map i_roomId items) \<Longrightarrow> booking_row env ps cu = Inr b
         \<Longrightarrow> insert_booking b w = None \<Longrightarrow> booking_room_rows env 0 ps = Inr rs \<Longrightarrow> insert_booking_rooms rs w = None
         \<Longrightarrow> tables_step w (w\<lparr>bookings := bookings w @ [b], booking_rooms := booking_rooms w @ rs\<rparr>)"
| moved: "find_one (visible_booking cu i) (bookings w) = Some b \<Longrightarrow> moves (is_admin cu) (b_status b) t
         \<Longrightarrow> bookings w' = save_row (b\<lparr>b_status := t\<rparr>) (bookings w) \<Longrightarrow> booking_rooms w' = booking_rooms w
         \<Longrightarrow> payments w' = payments w \<Longrightarrow> tables_step w w'"
| intent: "by_id i (bookings w) = Some b \<Longrightarrow> entId p \<notin> set (ids (payments w)) \<Longrightarrow> y_bookingId p = i
         \<Longrightarrow> y_status p = P_PENDING \<Longrightarrow> y_amount p = b_totalPrice b \<Longrightarrow> y_currency p = b_currency b
         \<Longrightarrow> \<forall>q \<in> set (payments w). \<not> (live q \<and> y_bookingId q = i \<and> y_status q = P_PENDING)
         \<Longrightarrow> bookings w' = bookings w \<Longrightarrow> booking_rooms w' = booking_rooms w
         \<Longrightarrow> payments w' = payments w @ [p] \<Longrightarrow> tables_step w w'"
| settled: "find_one (of_intent x) (payments w) = Some p \<Longrightarrow> s = P_COMPLETED \<or> s = P_FAILED
         \<Longrightarrow> payments w' = save_row (p\<lparr>y_status := s\<rparr>) (payments w) \<Longrightarrow> booking_rooms w' = booking_rooms w
         \<Longrightarrow> bookings w' = (if s = P_COMPLETED
              then update_where (\<lambda>b. entId b = y_bookingId p \<and> b_status b = B_PENDING)
                     (\<lambda>b. b\<lparr>b_status := B_CONFIRMED\<rparr>) (bookings w)
              else bookings w)
         \<Longrightarrow> tables_step w w'"
| cash: "by_id i (bookings w) = Some b \<Longrightarrow> b_status b = B_PENDING \<Longrightarrow> entId p \<notin> set (ids (payments w))
         \<Longrightarrow> y_bookingId p = i \<Longrightarrow> y_status p = P_COMPLETED \<Longrightarrow> y_amount p = b_totalPrice b
         \<Longrightarrow> y_currency p = b_currency b
         \<Longrightarrow> bookings w' = update_where (\<lambda>x. entId x = i) (\<lambda>x. x\<lparr>b_status := B_CONFIRMED\<rparr>) (bookings w)
         \<Longrightarrow> booking_rooms w' = booking_rooms w \<Longrightarrow> payments w' = payments w @ [p] \<Longrightarrow> tables_step w w'"

lemma create_tables: "tables_step w (snd (create env items cu w))"
proof (cases rule: create_cases [of env items cu w])
  case (fail e)
  then show ?thesis by (simp add: tables_step.same)
next
  case (saved ps b rs)
  then show ?thesis
    using tables_step.created [of w items ps env cu b rs] create_check_Inr(1,2) [OF saved(1)] by simp
qed

lemma patch_tables: "tables_step w (snd (patchStatus i t cu w))"
proof (cases "find_one (visible_booking cu i) (bookings w)")
  case None
  then show ?thesis by (simp add: patchStatus_eq tables_step.same)
next
  case (Some b)
  show ?thesis
  proof (cases "moves (is_admin cu) (b_status b) t")
    case True
    then show ?thesis
      by (intro tables_step.moved [OF Some True]) (simp_all add: patchStatus_eq Some moved_def)
  next
    case False
    then show ?thesis by (simp add: patchStatus_eq Some tables_step.same)
  qed
qed

lemma intent_tables: "tables_step w (snd (createPaymentIntent env i cu w))"
proof (cases "by_id i (bookings w)")
  case None
  then show ?thesis by (simp add: createPaymentIntent_def tables_step.same)
next
  case (Some b)
  let ?busy = "find_one (\<lambda>p. live p \<and> y_bookingId p = entId b \<and> y_status p = P_PENDING) (payments w)"
  have i: "entId b = i" using by_id_Some [OF Some] by simp
  show ?thesis
  proof (cases "(\<not> is_admin cu \<and> b_userId b \<noteq> cu_id cu) \<or> b_status b \<noteq> B_PENDING \<or> ?busy \<noteq> None
      \<or> pe_stripe env (toStripeAmount (b_totalPrice b)) (b_currency b) = None")
    case True
    then show ?thesis
      by (auto simp: createPaymentIntent_def stripe_createPaymentIntent_def Some intro!: tables_step.same)
  next
    case False
    then obtain x secret where st: "pe_stripe env (toStripeAmount (b_totalPrice b)) (b_currency b) = Some (x, secret)"
      by auto
    let ?p = "\<lparr>entId = pe_paymentId env, createdAt = pe_now env, deletedAt = None,
                      y_bookingId = entId b, y_userId = cu_id cu, y_provider = STRIPE,
                      y_paymentIntentId = x, y_amount = b_totalPrice b,
                      y_currency = b_currency b, y_status = P_PENDING\<rparr>"
    let ?w = "emit (StripeIntent x (toStripeAmount (b_totalPrice b)) (b_currency b)) w"
    have free: "\<forall>q \<in> set (payments w). \<not> (live q \<and> y_bookingId q = i \<and> y_status q = P_PENDING)"
      using False by (simp add: find_one_None i)
    have "createPaymentIntent env i cu w
        = and_then (save_payment ?p ?w)
            (\<lambda>_ w2. ok (secret, pe_paymentId env) (invalidatePaymentLists (pe_now env) w2))"
      using False st by (auto simp: createPaymentIntent_def stripe_createPaymentIntent_def Some)
    then show ?thesis
      using tables_step.intent [OF Some _ _ _ _ _ free, of ?p] i
      by (auto simp: save_payment_def emit_def invalidatePaymentLists_def intro: tables_step.same)
  qed
qed

lemma webhook_tables: "tables_step w (snd (handleStripeWebhook env ev w))"
proof (cases "find_one (of_intent (ev_objectId ev)) (payments w)")
  case None
  then show ?thesis
    by (auto simp: handleStripeWebhook_def handlePaymentSuccess_eq handlePaymentFailure_def
        of_intent_def [abs_def] intro: tables_step.same)
next
  case (Some p)
  then show ?thesis
    using tables_step.settled [OF Some, of P_COMPLETED] tables_step.settled [OF Some, of P_FAILED]
    by (auto simp: handleStripeWebhook_def handlePaymentSuccess_eq handlePaymentFailure_def
        of_intent_def [abs_def] invalidatePaymentLists_def Let_def intro: tables_step.same)
qed

lemma cash_tables: "tables_step w (snd (confirmCashPayment env i cu w))"
proof (cases rule: confirmCashPayment_cases [of env i cu w])
  case (fail e)
  have "snd (confirmCashPayment env i cu w) = w"
    using fail by (auto simp: confirmCashPayment_def save_payment_def Let_def split: option.splits if_splits)
  then show ?thesis by (simp add: tables_step.same)
next
  case (paid b)
  have "entId b = i" using by_id_Some [OF paid(1)] by simp
  moreover have "pe_paymentId env \<notin> set (ids (payments w))"
    using paid(3) by (auto simp: save_payment_def cash_row_def split: if_splits)
  ultimately show ?thesis
    using paid by (intro tables_step.cash [OF paid(1,2), of "cash_row env b"])
      (simp_all add: cash_row_def cash_paid_def invalidatePaymentLists_def)
qed

lemma findAll_payments_rooms [simp]:
  "booking_rooms (snd (findAll_payments env f cu w)) = booking_rooms w"
  using findAll_payments_frame [of env f cu w] by auto

lemma step_tables: "booking_step w w' \<Longrightarrow> tables_step w w'"
proof (induction rule: booking_step.induct)
  case (act w a)
  show ?case
    by (cases a) (simp_all add: create_tables patch_tables intent_tables webhook_tables cash_tables tables_step.same)
next
  case (other w' w)
  then show ?case by (rule tables_step.same)
qed

section \<open>The invariants\<close>

text \<open>The booking has left \<open>PENDING\<close> by being paid.\<close>

definition settled_status :: "booking_status \<Rightarrow> bool" where
  "settled_status s \<longleftrightarrow> s = B_CONFIRMED \<or> s = B_CHECKED_IN \<or> s = B_CHECKED_OUT"

definition payments_match :: "world \<Rightarrow> bool" where
  "payments_match w \<longleftrightarrow>
     (\<forall>p \<in> set (payments w). \<exists>b \<in> set (bookings w).
        entId b = y_bookingId p \<and> y_amount p = b_totalPrice b \<and> y_currency p = b_currency b)"

definition settled_paid :: "world \<Rightarrow> bool" where
  "settled_paid w \<longleftrightarrow>
     (\<forall>b \<in> set (bookings w). settled_status (b_status b) \<longrightarrow>
        (\<exists>p \<in> set (payments w). y_bookingId p = entId b \<and> (y_status p = P_COMPLETED \<or> y_status p = P_FAILED)))"

definition open_payment :: "payment \<Rightarrow> bool" where
  "open_payment p \<longleftrightarrow> live p \<and> y_status p = P_PENDING"

definition one_open :: "payment list \<Rightarrow> bool" where
  "one_open ps \<longleftrightarrow> distinct (ids ps)
     \<and> (\<forall>p \<in> set ps. \<forall>q \<in> set ps.
          open_payment p \<longrightarrow> open_payment q \<longrightarrow> y_bookingId p = y_bookingId q \<longrightarrow> entId p = entId q)"

lemma one_open_distinct: "one_open ps \<Longrightarrow> distinct (ids ps)"
  unfolding one_open_def by blast

lemma one_open_append:
  assumes "one_open ps" and "entId p \<notin> set (ids ps)"
    and "\<forall>q \<in> set ps. open_payment q \<longrightarrow> open_payment p \<longrightarrow> y_bookingId q \<noteq> y_bookingId p"
  shows "one_open (ps @ [p])"
  unfolding one_open_def
proof (intro conjI ballI impI)
  have "distinct (ids ps)" using assms(1) unfolding one_open_def by blast
  then show "distinct (ids (ps @ [p]))" using assms(2) by simp
next
  fix q r
  assume "q \<in> set (ps @ [p])" and "r \<in> set (ps @ [p])"
    and open_qr: "open_payment q" "open_payment r" "y_bookingId q = y_bookingId r"
  then have "q = p \<or> q \<in> set ps" "r = p \<or> r \<in> set ps" by auto
  then show "entId q = entId r" using open_qr assms(1,3) unfolding one_open_def by metis
qed

lemma one_open_save:
  assumes "one_open ps" and "\<not> open_payment p"
  shows "one_open (save_row p ps)"
  using assms in_save_row [of _ p ps] unfolding one_open_def ids_save_row by metis

text \<open>What a booking keeps for ever: its identifier, its price, its currency.\<close>

definition same_quote :: "booking \<Rightarrow> booking \<Rightarrow> bool" where
  "same_quote b b' \<longleftrightarrow> entId b' = entId b \<and> b_totalPrice b' = b_totalPrice b \<and> b_currency b' = b_currency b"

definition status_step :: "booking_status \<Rightarrow> booking_status \<Rightarrow> bool" where
  "status_step s t \<longleftrightarrow> s = t \<or> moves True s t \<or> (s = B_PENDING \<and> t = B_CONFIRMED)"

lemma moves_status_step: "moves a s t \<Longrightarrow> status_step s t"
  by (auto simp: status_step_def elim: movesE)

lemma moves_settled: "moves a s t \<Longrightarrow> settled_status t \<Longrightarrow> settled_status s"
  by (auto simp: settled_status_def elim: movesE)

text \<open>Every booking after a step is a new pending one or continues an old one.\<close>

lemma bookings_continue:
  assumes "tables_step w w'" and "booking_tables w" and "b' \<in> set (bookings w')"
  shows "(entId b' \<notin> set (ids (bookings w)) \<and> b_status b' = B_PENDING)
    \<or> (\<exists>b \<in> set (bookings w). same_quote b b' \<and> status_step (b_status b) (b_status b') \<and> deletedAt b' = deletedAt b)"
  using assms
proof (induction rule: tables_step.induct)
  case (same w' w)
  then show ?case by (auto simp: same_quote_def status_step_def)
next
  case (created w items ps env cu b rs)
  have "b' = b \<or> b' \<in> set (bookings w)" using created.prems(2) by auto
  then show ?case
    using created(3,4) booking_row_Inr [OF created(3)]
    by (auto simp: insert_booking_def same_quote_def status_step_def split: if_splits)
next
  case (moved cu i w b t w')
  have b: "b \<in> set (bookings w)" using find_one_Some [OF moved(1)] by simp
  have "b' = b\<lparr>b_status := t\<rparr> \<or> b' \<in> set (bookings w)"
    using moved.prems(2) moved(3) in_save_row by auto
  then show ?case using b moves_status_step [OF moved(2)] by (auto simp: same_quote_def status_step_def)
next
  case (intent i w b p w')
  then show ?case by (auto simp: same_quote_def status_step_def)
next
  case (settled x w p s w')
  have continue: "\<exists>b \<in> set (bookings w). same_quote b c \<and> status_step (b_status b) (b_status c)
      \<and> deletedAt c = deletedAt b" if "c \<in> set (bookings w)" for c
    using that by (auto simp: same_quote_def status_step_def)
  show ?case
  proof (cases "s = P_COMPLETED")
    case True
    then have "b' \<in> set (update_where (\<lambda>b. entId b = y_bookingId p \<and> b_status b = B_PENDING)
        (\<lambda>b. b\<lparr>b_status := B_CONFIRMED\<rparr>) (bookings w))"
      using settled by simp
    then show ?thesis
    proof (cases rule: in_update_whereE)
      case (hit r)
      then have "same_quote r b' \<and> status_step (b_status r) (b_status b') \<and> deletedAt b' = deletedAt r"
        by (simp add: same_quote_def status_step_def)
      then show ?thesis using hit(1) by blast
    next
      case miss
      then show ?thesis using continue by blast
    qed
  next
    case False
    then show ?thesis using settled continue by simp
  qed
next
  case (cash i w b p w')
  have "b' \<in> set (update_where (\<lambda>x. entId x = i) (\<lambda>x. x\<lparr>b_status := B_CONFIRMED\<rparr>) (bookings w))"
    using cash by simp
  then show ?case
  proof (cases rule: in_update_whereE)
    case (hit r)
    have "r = b"
      using cash.prems(1) by_id_Some [OF cash(1)] hit distinct_ids_unique
      by (metis booking_tables_def)
    then show ?thesis using hit cash(2) by (auto simp: same_quote_def status_step_def)
  next
    case miss
    then show ?thesis by (auto simp: same_quote_def status_step_def)
  qed
qed

lemma confirm_persists:
  assumes "b \<in> set bs"
  shows "\<exists>b' \<in> set (update_where p (\<lambda>b. b\<lparr>b_status := B_CONFIRMED\<rparr>) bs). same_quote b b'"
  using in_update_whereI [OF assms, of p "\<lambda>b. b\<lparr>b_status := B_CONFIRMED\<rparr>"]
  by (rule bexI [rotated]) (simp add: same_quote_def)

lemma bookings_persist:
  assumes "tables_step w w'" and "booking_tables w" and "b \<in> set (bookings w)"
  shows "\<exists>b' \<in> set (bookings w'). same_quote b b'"
  using assms
proof (induction rule: tables_step.induct)
  case (moved cu i w c t w')
  show ?case
  proof (cases "entId b = entId c")
    case True
    then have "b = c"
      using moved.prems find_one_Some [OF moved(1)] distinct_ids_unique by (metis booking_tables_def)
    moreover have "c\<lparr>b_status := t\<rparr> \<in> set (bookings w')"
      using moved(3) moved.prems(2) \<open>b = c\<close> by (auto simp: set_save_row ids_def)
    ultimately show ?thesis by (intro bexI [of _ "c\<lparr>b_status := t\<rparr>"]) (simp_all add: same_quote_def)
  next
    case False
    then show ?thesis using moved(3) moved.prems(2) by (auto simp: set_save_row same_quote_def)
  qed
next
  case (settled x w p s w')
  then show ?case using confirm_persists [OF settled.prems(2)] by (auto simp: same_quote_def)
next
  case (cash i w c p w')
  then show ?case using confirm_persists [OF cash.prems(2)] by simp
qed (auto simp: same_quote_def)

section \<open>Every step keeps the invariants\<close>

lemma ids_bookings_step:
  assumes "tables_step w w'"
  shows "booking_rooms w' = booking_rooms w \<Longrightarrow> ids (bookings w') = ids (bookings w) \<or>
    (\<exists>b. bookings w' = bookings w @ [b] \<and> insert_booking b w = None)"
  using assms by (induction rule: tables_step.induct) (auto simp: ids_update_where)

lemma holds_room_step:
  assumes "tables_step w w'" and "booking_tables w" and "r \<in> set (booking_rooms w)" and "holds_room w' r"
  shows "holds_room w r"
proof -
  obtain b' where b': "b' \<in> set (bookings w')" "live b'" "entId b' = br_bookingId r"
      "b_status b' \<notin> set terminalStatuses"
    using assms(4) by (auto simp: holds_room_def)
  have "br_bookingId r \<in> set (ids (bookings w))" using assms(2,3) by (simp add: booking_tables_def)
  then obtain b where b: "b \<in> set (bookings w)" "same_quote b b'" "status_step (b_status b) (b_status b')"
      "deletedAt b' = deletedAt b"
    using bookings_continue [OF assms(1,2) b'(1)] b'(3) by auto
  have "b_status b \<notin> set terminalStatuses"
    using b(3) b'(4) by (auto simp: status_step_def terminalStatuses_def)
  then show ?thesis using b b' by (auto simp: holds_room_def live_def same_quote_def)
qed

lemma availability_step:
  assumes "tables_step w w'" and "availability w"
  shows "availability w'"
proof -
  have tables: "booking_tables w" using assms(2) by (simp add: availability_def)
  have same_rooms: "availability w'"
    if "booking_rooms w' = booking_rooms w" "ids (bookings w') = ids (bookings w)"
    using that assms(2) holds_room_step [OF assms(1) tables]
    unfolding availability_def booking_tables_def no_double_booking_def by metis
  show ?thesis
    using assms(1)
  proof cases
    case same
    then show ?thesis by (intro same_rooms) simp_all
  next
    case (created items ps env cu b rs)
    then show ?thesis using insertion_keeps_availability [OF assms(2)] by simp
  next
    case (moved cu i b t)
    then show ?thesis by (intro same_rooms) simp_all
  next
    case (intent i b p)
    then show ?thesis by (intro same_rooms) simp_all
  next
    case (settled x p s)
    then show ?thesis by (intro same_rooms) (simp_all add: ids_update_where)
  next
    case (cash i b p)
    then show ?thesis by (intro same_rooms) (simp_all add: ids_update_where)
  qed
qed

text \<open>Every payment after a step is new, or continues an old one and may have been settled.\<close>

definition same_payment :: "payment \<Rightarrow> payment \<Rightarrow> bool" where
  "same_payment p p' \<longleftrightarrow> entId p' = entId p \<and> y_bookingId p' = y_bookingId p \<and> y_amount p' = y_amount p
     \<and> y_currency p' = y_currency p \<and> live p' = live p
     \<and> (y_status p' = y_status p \<or> y_status p' = P_COMPLETED \<or> y_status p' = P_FAILED)"

lemma same_payment_refl [simp]: "same_payment p p"
  by (simp add: same_payment_def)

lemma payments_match_step:
  assumes "tables_step w w'" and "booking_tables w" and "payments_match w"
  shows "payments_match w'"
proof -
  have old: "\<exists>b \<in> set (bookings w'). entId b = y_bookingId p' \<and> y_amount p' = b_totalPrice b \<and> y_currency p' = b_currency b"
    if "p \<in> set (payments w)" "same_payment p p'" for p p'
  proof -
    obtain b where "b \<in> set (bookings w)" "entId b = y_bookingId p" "y_amount p = b_totalPrice b" "y_currency p = b_currency b"
      using assms(3) \<open>p \<in> set (payments w)\<close> by (auto simp: payments_match_def)
    with bookings_persist [OF assms(1,2) this(1)] show ?thesis
      using that(2) by (auto simp: same_quote_def same_payment_def)
  qed
  have new: "\<exists>b' \<in> set (bookings w'). entId b' = i \<and> b_totalPrice b' = b_totalPrice b \<and> b_currency b' = b_currency b"
    if "by_id i (bookings w) = Some b" for i b
    using bookings_persist [OF assms(1,2), of b] by_id_Some [OF that] by (auto simp: same_quote_def)
  show ?thesis
    using assms(1)
  proof cases
    case (intent i b p)
    then show ?thesis using old [OF _ same_payment_refl] new [OF intent(1)] by (fastforce simp: payments_match_def)
  next
    case (settled x p s)
    have "same_payment p (p\<lparr>y_status := s\<rparr>)" using settled(2) by (auto simp: same_payment_def live_def)
    then show ?thesis
      using old settled(3) find_one_Some [OF settled(1)] by (auto simp: payments_match_def dest!: in_save_row)
  next
    case (cash i b p)
    then show ?thesis using old [OF _ same_payment_refl] new [OF cash(1)] by (fastforce simp: payments_match_def)
  qed (use old [OF _ same_payment_refl] in \<open>simp_all add: payments_match_def\<close>)
qed

lemma one_open_step:
  assumes "tables_step w w'" and "one_open (payments w)"
  shows "one_open (payments w')"
  using assms
proof (induction rule: tables_step.induct)
  case (intent i w b p w')
  then have "\<forall>q \<in> set (payments w). open_payment q \<longrightarrow> open_payment p \<longrightarrow> y_bookingId q \<noteq> y_bookingId p"
    by (auto simp: open_payment_def)
  then show ?case using one_open_append [OF intent.prems intent(2)] intent(10) by simp
next
  case (settled x w p s w')
  have "\<not> open_payment (p\<lparr>y_status := s\<rparr>)" using settled(2) by (auto simp: open_payment_def)
  then show ?case using one_open_save [OF settled.prems] settled(3) by simp
next
  case (cash i w b p w')
  have "\<forall>q \<in> set (payments w). open_payment q \<longrightarrow> open_payment p \<longrightarrow> y_bookingId q \<noteq> y_bookingId p"
    using cash(5) by (simp add: open_payment_def)
  then show ?case using one_open_append [OF cash.prems cash(3)] cash(10) by simp
qed simp_all

lemma payments_continue:
  assumes "tables_step w w'" and "distinct (ids (payments w))" and "p \<in> set (payments w)"
  shows "\<exists>p' \<in> set (payments w'). same_payment p p'"
  using assms
proof (induction rule: tables_step.induct)
  case (settled x w q s w')
  have q: "q \<in> set (payments w)" using find_one_Some [OF settled(1)] by simp
  show ?case
  proof (cases "entId p = entId q")
    case True
    then have "p = q" using q settled.prems distinct_ids_unique by blast
    moreover have "q\<lparr>y_status := s\<rparr> \<in> set (payments w')" using q by (simp add: settled(3) set_save_row ids_def)
    ultimately show ?thesis using settled(2) by (intro bexI) (auto simp: same_payment_def live_def)
  next
    case False
    then show ?thesis using settled.prems(2) settled(3) by (intro bexI [of _ p]) (simp_all add: set_save_row)
  qed
qed (auto intro: same_payment_refl)

text \<open>A booking becomes settled only with a payment at its side.\<close>

definition paid_for :: "uuid \<Rightarrow> world \<Rightarrow> bool" where
  "paid_for i w \<longleftrightarrow> (\<exists>p \<in> set (payments w). y_bookingId p = i \<and> (y_status p = P_COMPLETED \<or> y_status p = P_FAILED))"

lemma paid_for_step:
  assumes "tables_step w w'" and "distinct (ids (payments w))" and "paid_for i w"
  shows "paid_for i w'"
proof -
  obtain p where p: "p \<in> set (payments w)" "y_bookingId p = i" "y_status p = P_COMPLETED \<or> y_status p = P_FAILED"
    using assms(3) by (auto simp: paid_for_def)
  with payments_continue [OF assms(1,2) p(1)] show ?thesis by (auto simp: paid_for_def same_payment_def)
qed

lemma becomes_settled:
  assumes "tables_step w w'" and "booking_tables w"
    and "b' \<in> set (bookings w')" and "settled_status (b_status b')"
  shows "paid_for (entId b') w' \<or> (\<exists>b \<in> set (bookings w). entId b = entId b' \<and> settled_status (b_status b))"
  using assms
proof (induction rule: tables_step.induct)
  case (created w items ps env cu b rs)
  then show ?case using booking_row_Inr [OF created(3)] by (auto simp: settled_status_def)
next
  case (moved cu i w b t w')
  have "b \<in> set (bookings w)" using find_one_Some [OF moved(1)] by simp
  then show ?case
    using moved.prems(2,3) moved(3) moves_settled [OF moved(2)] by (auto dest!: in_save_row)
next
  case (settled x w p s w')
  show ?case
  proof (cases "s = P_COMPLETED")
    case True
    have "p\<lparr>y_status := s\<rparr> \<in> set (payments w')"
      using find_one_Some [OF settled(1)] by (simp add: settled(3) set_save_row ids_def)
    then have paid: "paid_for (y_bookingId p) w'" unfolding paid_for_def by (rule bexI [rotated]) (simp add: True)
    have "b' \<in> set (update_where (\<lambda>b. entId b = y_bookingId p \<and> b_status b = B_PENDING)
        (\<lambda>b. b\<lparr>b_status := B_CONFIRMED\<rparr>) (bookings w))"
      using True settled by simp
    then show ?thesis using paid settled.prems(3) by (cases rule: in_update_whereE) auto
  next
    case False
    then show ?thesis using settled by auto
  qed
next
  case (cash i w b p w')
  have paid: "paid_for i w'" using cash by (auto simp: paid_for_def)
  have "b' \<in> set (update_where (\<lambda>x. entId x = i) (\<lambda>x. x\<lparr>b_status := B_CONFIRMED\<rparr>) (bookings w))"
    using cash by simp
  then show ?case using paid cash.prems(3) by (cases rule: in_update_whereE) auto
qed auto

lemma settled_paid_eq: "settled_paid w \<longleftrightarrow> (\<forall>b \<in> set (bookings w). settled_status (b_status b) \<longrightarrow> paid_for (entId b) w)"
  by (simp add: settled_paid_def paid_for_def)

lemma settled_paid_step:
  assumes "tables_step w w'" and "booking_tables w" and "distinct (ids (payments w))" and "settled_paid w"
  shows "settled_paid w'"
  unfolding settled_paid_eq
proof (intro ballI impI)
  fix b' assume b': "b' \<in> set (bookings w')" "settled_status (b_status b')"
  from becomes_settled [OF assms(1,2) b'] show "paid_for (entId b') w'"
  proof
    assume "\<exists>b \<in> set (bookings w). entId b = entId b' \<and> settled_status (b_status b)"
    then have "paid_for (entId b') w" using assms(4) unfolding settled_paid_eq by metis
    then show ?thesis by (rule paid_for_step [OF assms(1,3)])
  qed
qed

section \<open>What holds in every reachable world\<close>

definition books :: "world \<Rightarrow> bool" where
  "books w \<longleftrightarrow> availability w \<and> payments_match w \<and> settled_paid w \<and> one_open (payments w)"

lemma books_step:
  assumes "booking_step w w'" and "books w"
  shows "books w'"
proof -
  note step = step_tables [OF assms(1)]
  have "booking_tables w" "distinct (ids (payments w))"
    using assms(2) by (simp_all add: books_def availability_def one_open_distinct)
  then show ?thesis
    using assms(2) availability_step [OF step] payments_match_step [OF step] settled_paid_step [OF step]
      one_open_step [OF step]
    by (simp add: books_def)
qed

interpretation booking_system: invariant_system no_bookings booking_step books
proof
  show "books w" if "no_bookings w" for w
    using that
    by (simp add: no_bookings_def books_def availability_def booking_tables_def no_double_booking_def
        payments_match_def settled_paid_def one_open_def)
  show "books w'" if "books w" "booking_step w w'" for w w'
    using books_step that by blast
qed

text \<open>One booking through any number of steps.\<close>

lemma booking_continues:
  assumes "tables_step w w'" and "booking_tables w" and "b \<in> set (bookings w)"
  shows "\<exists>b' \<in> set (bookings w'). same_quote b b' \<and> status_step (b_status b) (b_status b')"
proof -
  obtain b' where b': "b' \<in> set (bookings w')" "same_quote b b'"
    using bookings_persist [OF assms] by blast
  then have "entId b' \<in> set (ids (bookings w))" using assms(3) by (auto simp: same_quote_def ids_def)
  then obtain c where c: "c \<in> set (bookings w)" "same_quote c b'" "status_step (b_status c) (b_status b')"
    using bookings_continue [OF assms(1,2) b'(1)] by blast
  have "c = b"
    using c(1,2) b'(2) assms(2,3) distinct_ids_unique [of "bookings w" c b]
    by (auto simp: same_quote_def booking_tables_def)
  then show ?thesis using b' c by blast
qed

lemma booking_life:
  assumes "booking_step\<^sup>*\<^sup>* w w'" and "books w" and "b \<in> set (bookings w)"
  shows "\<exists>b' \<in> set (bookings w'). same_quote b b' \<and> status_step\<^sup>*\<^sup>* (b_status b) (b_status b')"
  using assms
proof (induction rule: rtranclp_induct)
  case base
  then show ?case by (auto simp: same_quote_def)
next
  case (step v v')
  have "booking_tables v"
    using booking_system.steps_inv [OF step(1) step.prems(1)] by (simp add: books_def availability_def)
  moreover obtain c where c: "c \<in> set (bookings v)" "same_quote b c" "status_step\<^sup>*\<^sup>* (b_status b) (b_status c)"
    using step by blast
  ultimately obtain c' where "c' \<in> set (bookings v')" "same_quote c c'" "status_step (b_status c) (b_status c')"
    using booking_continues [OF step_tables [OF step(2)]] by blast
  then show ?case using c by (auto simp: same_quote_def intro!: bexI [of _ c'] intro: rtranclp.rtrancl_into_rtrancl)
qed

lemma terminal_status_step:
  "status_step\<^sup>*\<^sup>* s t \<Longrightarrow> s \<in> set terminalStatuses \<Longrightarrow> t = s"
  by (induction rule: rtranclp_induct) (auto simp: terminalStatuses_def status_step_def)

text \<open>C1: in every world that calls of the booking and payment services can reach, run one after the other
  in any order by anybody, no two live unfinished bookings hold the same room for overlapping dates.\<close>

theorem never_double_booked:
  assumes "no_bookings w0" and "booking_step\<^sup>*\<^sup>* w0 w"
    and "a \<in> set (booking_rooms w)" and "b \<in> set (booking_rooms w)" and "entId a \<noteq> entId b"
    and "holds_room w a" and "holds_room w b"
  shows "\<not> overlaps a b"
  using booking_system.reachable_inv [OF assms(1,2)] assms(3-)
  unfolding books_def availability_def no_double_booking_def by blast


text \<open>C3: a booking that is cancelled or checked out stays so for ever, and no booking ever disappears or
  changes its price, whatever calls follow.\<close>

theorem finished_bookings_stay:
  assumes "no_bookings w0" and "booking_step\<^sup>*\<^sup>* w0 w" and "booking_step\<^sup>*\<^sup>* w w'" and "b \<in> set (bookings w)"
  shows "\<exists>b' \<in> set (bookings w'). entId b' = entId b \<and> b_totalPrice b' = b_totalPrice b
    \<and> (b_status b \<in> set terminalStatuses \<longrightarrow> b_status b' = b_status b)"
proof -
  obtain b' where "b' \<in> set (bookings w')" "same_quote b b'" "status_step\<^sup>*\<^sup>* (b_status b) (b_status b')"
    using booking_life [OF assms(3) booking_system.reachable_inv [OF assms(1,2)] assms(4)] by blast
  then show ?thesis using terminal_status_step by (auto simp: same_quote_def)
qed

section \<open>A run\<close>

definition run :: "action list \<Rightarrow> world \<Rightarrow> world" where
  "run acts w = fold perform acts w"

lemma run_steps: "booking_step\<^sup>*\<^sup>* w (run acts w)"
  by (induction acts arbitrary: w) (auto simp: run_def intro: booking_step.act converse_rtranclp_into_rtranclp)

lemma sample_world_no_bookings: "no_bookings sample_world"
  by (simp add: no_bookings_def sample_world_def empty_world_def)

definition sample_run :: "action list" where
  "sample_run =
     [Create (sample_env ''b1'' 0) sample_items (as_user ''u1''),
      Cash (pay_env 1 ''p1'') ''b1'' (as_admin ''a1'')]"

definition cancel_run :: "action list" where
  "cancel_run =
     [Create (sample_env ''b1'' 0) sample_items (as_user ''u1''), Patch ''b1'' B_CANCELLED (as_user ''u1'')]"

lemma cancel_run_bookings:
  "map (\<lambda>b. (entId b, b_status b, b_totalPrice b)) (bookings (run cancel_run sample_world))
     = [(''b1'', B_CANCELLED, 39960)]"
  by code_simp

lemma sample_run_bookings:
  "map (\<lambda>b. (entId b, b_status b, b_totalPrice b)) (bookings (run sample_run sample_world))
     = [(''b1'', B_CONFIRMED, 39960)]"
  by code_simp

lemma sample_run_stays:
  "map (\<lambda>r. (entId r, br_bookingId r)) (booking_rooms (run sample_run sample_world)) = [(''b1'', ''b1''), (''b1x'', ''b1'')]"
  by code_simp

lemma sample_run_live: "map deletedAt (bookings (run sample_run sample_world)) = [None]"
  by code_simp

theorem never_double_booked_witness:
  "\<exists>a b. a \<in> set (booking_rooms (run sample_run sample_world)) \<and> b \<in> set (booking_rooms (run sample_run sample_world))
     \<and> entId a = ''b1'' \<and> entId b = ''b1x'' \<and> \<not> overlaps a b"
proof -
  let ?w = "run sample_run sample_world"
  obtain a b where ab: "booking_rooms ?w = [a, b]" "entId a = ''b1''" "entId b = ''b1x''"
      "br_bookingId a = ''b1''" "br_bookingId b = ''b1''"
    using sample_run_stays by (auto simp: map_eq_Cons_conv)
  obtain bk where bk: "bookings ?w = [bk]" "entId bk = ''b1''" "b_status bk = B_CONFIRMED" "live bk"
    using sample_run_bookings sample_run_live by (auto simp: map_eq_Cons_conv live_def)
  have "\<not> overlaps a b"
    by (rule never_double_booked [OF sample_world_no_bookings run_steps, of a sample_run b])
       (simp_all add: ab bk holds_room_def terminalStatuses_def)
  then show ?thesis using ab by auto
qed


theorem finished_bookings_stay_witness:
  "\<exists>b' \<in> set (bookings (run [Cash (pay_env 1 ''p1'') ''b1'' (as_admin ''a1'')] (run cancel_run sample_world))).
     entId b' = ''b1'' \<and> b_totalPrice b' = 39960 \<and> b_status b' = B_CANCELLED"
proof -
  obtain bk where bk: "bookings (run cancel_run sample_world) = [bk]" "entId bk = ''b1''"
      "b_status bk = B_CANCELLED" "b_totalPrice bk = 39960"
    using cancel_run_bookings by (auto simp: map_eq_Cons_conv)
  from finished_bookings_stay [OF sample_world_no_bookings run_steps run_steps, of bk cancel_run
      "[Cash (pay_env 1 ''p1'') ''b1'' (as_admin ''a1'')]"] bk
  show ?thesis by (auto simp: terminalStatuses_def)
qed

end
