(* ===== verification/Date_Time.thy ===== *)
theory Date_Time
  imports Prelude
begin

text \<open>
  \<open>src/src/common/utils/date-time.util.ts\<close>: instants, expiry, and days in Myanmar.

  An instant is a number of milliseconds since the epoch; \<open>now\<close> is an argument where the source reads
  the clock.  Asia/Yangon is at 6 hours 30 minutes from UTC with no daylight saving, as the source
  notes, so the time zone arithmetic of \<open>dayjs\<close> is an offset.  A date string of a filter is either a
  bare day, given by its number, or carries a zone and so names an instant.
\<close>

definition second :: int where "second = 1000"
definition minute :: int where "minute = 60 * second"
definition hour :: int where "hour = 60 * minute"
definition day :: int where "day = 24 * hour"

lemmas units = second_def minute_def hour_def day_def

definition MYANMAR_OFFSET :: int where "MYANMAR_OFFSET = 6 * hour + 30 * minute"

definition OTP_TTL_MINUTES :: int where "OTP_TTL_MINUTES = 10"
definition REFRESH_TOKEN_TTL_DAYS :: int where "REFRESH_TOKEN_TTL_DAYS = 30"
definition LOG_RETENTION_DAYS :: int where "LOG_RETENTION_DAYS = 90"
definition SMTP_CACHE_TTL_MS :: int where "SMTP_CACHE_TTL_MS = 5 * 60 * 1000"

definition addMinutes :: "int \<Rightarrow> time \<Rightarrow> time" where
  "addMinutes minutes since = since + minutes * minute"

definition addHours :: "int \<Rightarrow> time \<Rightarrow> time" where
  "addHours hours since = since + hours * hour"

definition addDays :: "int \<Rightarrow> time \<Rightarrow> time" where
  "addDays days since = since + days * day"

definition subtractDays :: "int \<Rightarrow> time \<Rightarrow> time" where
  "subtractDays days since = since - days * day"

text \<open>\<open>null\<close> counts as expired; the expiry instant itself does not.\<close>

definition isExpired :: "time \<Rightarrow> time option \<Rightarrow> bool" where
  "isExpired now expiresAt = (case expiresAt of None \<Rightarrow> True | Some e \<Rightarrow> now > e)"

text \<open>\<open>diff\<close> counts whole units, towards zero.\<close>

definition whole_units :: "int \<Rightarrow> int \<Rightarrow> int" where
  "whole_units d u = (if 0 \<le> d then d div u else - (- d div u))"

definition secondsUntilExpiry :: "time \<Rightarrow> time \<Rightarrow> int" where
  "secondsUntilExpiry now expiresAt = whole_units (expiresAt - now) second"

definition minutesUntilExpiry :: "time \<Rightarrow> time \<Rightarrow> int" where
  "minutesUntilExpiry now expiresAt = whole_units (expiresAt - now) minute"

section \<open>Date strings\<close>

definition is_digit :: "char \<Rightarrow> bool" where
  "is_digit c \<longleftrightarrow> c \<in> set ''0123456789''"

text \<open>\<open>/[+-]\d{2}:\d{2}$/\<close>, on the reversed string.\<close>

definition ends_with_offset :: "string \<Rightarrow> bool" where
  "ends_with_offset s =
     (case rev s of
        m2 # m1 # c # h2 # h1 # sign # _ \<Rightarrow>
          is_digit m2 \<and> is_digit m1 \<and> c = CHR '':'' \<and> is_digit h2 \<and> is_digit h1 \<and> (sign = CHR ''+'' \<or> sign = CHR ''-'')
      | _ \<Rightarrow> False)"

definition hasTimezoneInfo :: "string \<Rightarrow> bool" where
  "hasTimezoneInfo s \<longleftrightarrow> CHR ''T'' \<in> set s \<or> (s \<noteq> [] \<and> last s = CHR ''Z'') \<or> ends_with_offset s"

datatype range_date = BareDay int | Instant time

fun parseRangeStart :: "range_date \<Rightarrow> time" where
  "parseRangeStart (Instant t) = t"
| "parseRangeStart (BareDay d) = d * day - MYANMAR_OFFSET"

fun parseRangeEnd :: "range_date \<Rightarrow> time" where
  "parseRangeEnd (Instant t) = t"
| "parseRangeEnd (BareDay d) = d * day + (23 * hour + 59 * minute + 59 * second + 999) - MYANMAR_OFFSET"

section \<open>Days in Myanmar\<close>

text \<open>\<open>toMyanmarTime\<close>: the wall clock, as a number of milliseconds; its day.\<close>

definition toMyanmarTime :: "time \<Rightarrow> int" where
  "toMyanmarTime t = t + MYANMAR_OFFSET"

definition myanmar_day :: "time \<Rightarrow> int" where
  "myanmar_day t = toMyanmarTime t div day"

definition startOfDayMyanmar :: "time \<Rightarrow> time" where
  "startOfDayMyanmar t = myanmar_day t * day - MYANMAR_OFFSET"

definition endOfDayMyanmar :: "time \<Rightarrow> time" where
  "endOfDayMyanmar t = myanmar_day t * day + (day - 1) - MYANMAR_OFFSET"

definition dayRangeMyanmar :: "time \<Rightarrow> time \<times> time" where
  "dayRangeMyanmar t = (startOfDayMyanmar t, endOfDayMyanmar t)"

definition isTodayMyanmar :: "time \<Rightarrow> time \<Rightarrow> bool" where
  "isTodayMyanmar now t \<longleftrightarrow> myanmar_day t = myanmar_day now"

section \<open>Facts\<close>

lemma day_pos [simp]: "0 < day"
  by (simp add: units)

lemma isExpired_simps [simp]: "isExpired now None" "isExpired now (Some e) \<longleftrightarrow> e < now"
  by (simp_all add: isExpired_def)

lemma div_day_iff: "x div day = d \<longleftrightarrow> d * day \<le> x \<and> x \<le> d * day + (day - 1)"
proof
  assume "x div day = d"
  then have "x = d * day + x mod day" using div_mult_mod_eq [of x day] by simp
  then show "d * day \<le> x \<and> x \<le> d * day + (day - 1)"
    using pos_mod_sign [OF day_pos, of x] pos_mod_bound [OF day_pos, of x] by linarith
next
  assume "d * day \<le> x \<and> x \<le> d * day + (day - 1)"
  then have "x = d * day + (x - d * day)" "0 \<le> x - d * day" "x - d * day < day" by simp_all
  then show "x div day = d"
    by (metis day_pos div_mult_self3 add.commute div_pos_pos_trivial add.right_neutral less_irrefl)
qed

text \<open>Days in Myanmar are a partition of time into intervals.  A range filter given by a bare day
  \<open>d\<close> selects exactly the instants whose wall clock in Myanmar shows that day; \<open>dayRangeMyanmar\<close> of any
  of them is that interval, and \<open>isTodayMyanmar\<close> is membership in the interval of now.\<close>

theorem myanmar_days:
  "(parseRangeStart (BareDay d) \<le> t \<and> t \<le> parseRangeEnd (BareDay d) \<longleftrightarrow> myanmar_day t = d)
   \<and> dayRangeMyanmar t = (parseRangeStart (BareDay (myanmar_day t)), parseRangeEnd (BareDay (myanmar_day t)))
   \<and> (isTodayMyanmar now t \<longleftrightarrow> startOfDayMyanmar now \<le> t \<and> t \<le> endOfDayMyanmar now)
   \<and> startOfDayMyanmar (endOfDayMyanmar t + 1) = endOfDayMyanmar t + 1"
proof (intro conjI)
  have last: "23 * hour + 59 * minute + 59 * second + 999 = day - 1" by (simp add: units)
  have m: "myanmar_day s = e \<longleftrightarrow> e * day - MYANMAR_OFFSET \<le> s \<and> s \<le> e * day + (day - 1) - MYANMAR_OFFSET" for s e
    unfolding myanmar_day_def toMyanmarTime_def div_day_iff by linarith
  show "parseRangeStart (BareDay d) \<le> t \<and> t \<le> parseRangeEnd (BareDay d) \<longleftrightarrow> myanmar_day t = d"
    unfolding parseRangeStart.simps parseRangeEnd.simps last m ..
  show "dayRangeMyanmar t = (parseRangeStart (BareDay (myanmar_day t)), parseRangeEnd (BareDay (myanmar_day t)))"
    unfolding dayRangeMyanmar_def startOfDayMyanmar_def endOfDayMyanmar_def parseRangeStart.simps
      parseRangeEnd.simps last ..
  show "isTodayMyanmar now t \<longleftrightarrow> startOfDayMyanmar now \<le> t \<and> t \<le> endOfDayMyanmar now"
    unfolding isTodayMyanmar_def m startOfDayMyanmar_def endOfDayMyanmar_def ..
  have "myanmar_day (endOfDayMyanmar t + 1) = myanmar_day t + 1"
    by (subst m) (simp add: endOfDayMyanmar_def algebra_simps, simp add: units)
  then show "startOfDayMyanmar (endOfDayMyanmar t + 1) = endOfDayMyanmar t + 1"
    unfolding startOfDayMyanmar_def by (simp add: endOfDayMyanmar_def algebra_simps)
qed

end
