(* ===== verification/Request.thy ===== *)
theory Request
  imports Json
begin

text \<open>
  A request as the services and interceptors read it: \<open>src/src/common/utils/request-context.util.ts\<close> and
  \<open>src/src/common/utils/user-agent.util.ts\<close>.  The parser of user agents is a library: what it returns for a
  string is an argument.
\<close>

text \<open>The names of headers are in lower case, as Node keeps them.\<close>

record http_request =
  rq_method :: string
  rq_url :: string
  rq_headers :: "(string \<times> string) list"
  rq_remoteAddress :: "string option"
  rq_ip :: "string option"
  rq_paramId :: "string option"
  rq_query :: "(string \<times> string) list"
  rq_body :: json

definition header :: "string \<Rightarrow> http_request \<Rightarrow> string option" where
  "header n r = map_of (rq_headers r) n"

record ua_result =
  ua_deviceModel :: "string option"
  ua_deviceType :: "string option"
  ua_browserName :: "string option"
  ua_browserVersion :: "string option"
  ua_osName :: "string option"
  ua_osVersion :: "string option"

record parsed_user_agent =
  pu_device :: string
  pu_browser :: string
  pu_os :: string

definition parseUserAgent :: "(string \<Rightarrow> ua_result) \<Rightarrow> http_request \<Rightarrow> parsed_user_agent" where
  "parseUserAgent parser r =
     (let result = parser (or_default (header ''user-agent'' r) '''')
      in \<lparr>pu_device = or_default (ua_deviceModel result) (or_default (ua_deviceType result) ''Desktop''),
          pu_browser = js_trim (or_default (ua_browserName result) ''Unknown'' @ '' ''
            @ or_default (ua_browserVersion result) ''''),
          pu_os = js_trim (or_default (ua_osName result) ''Unknown'' @ '' '' @ or_default (ua_osVersion result) '''')\<rparr>)"

text \<open>\<open>forwarded?.split(',')[0]?.trim() || \<dots>\<close>: the first address that is not empty.\<close>

definition first_part :: "char \<Rightarrow> string \<Rightarrow> string" where
  "first_part c s = takeWhile (\<lambda>x. x \<noteq> c) s"

definition getClientIp :: "http_request \<Rightarrow> string" where
  "getClientIp r =
     or_default (map_option (\<lambda>f. js_trim (first_part (CHR '','') f)) (header ''x-forwarded-for'' r))
       (or_default (header ''x-real-ip'' r) (or_default (rq_remoteAddress r) (or_default (rq_ip r) ''unknown'')))"

record request_context =
  rc_ipAddress :: string
  rc_userAgent :: string
  rc_device :: string
  rc_browser :: string
  rc_os :: string
  rc_location :: "string option"

definition none_if_empty :: "string option \<Rightarrow> string option" where
  "none_if_empty x = (if truthy x then x else None)"

definition buildRequestContext :: "(string \<Rightarrow> ua_result) \<Rightarrow> http_request \<Rightarrow> request_context" where
  "buildRequestContext parser r =
     (let ua = parseUserAgent parser r
      in \<lparr>rc_ipAddress = getClientIp r, rc_userAgent = or_default (header ''user-agent'' r) '''',
          rc_device = pu_device ua, rc_browser = pu_browser ua, rc_os = pu_os ua,
          rc_location = none_if_empty (header ''cf-ipcountry'' r)\<rparr>)"

section \<open>A request for the examples\<close>

definition sample_ua :: "string \<Rightarrow> ua_result" where
  "sample_ua s =
     \<lparr>ua_deviceModel = None, ua_deviceType = None, ua_browserName = Some ''Firefox'', ua_browserVersion = None,
      ua_osName = Some ''Linux'', ua_osVersion = None\<rparr>"

definition sample_request :: http_request where
  "sample_request =
     \<lparr>rq_method = ''POST'', rq_url = ''/api/v1/auth'', rq_headers = [(''user-agent'', ''Mozilla'')],
      rq_remoteAddress = Some ''10.0.0.1'', rq_ip = None, rq_paramId = None, rq_query = [], rq_body = JObj []\<rparr>"

end
