(* ===== verification/Auth_Base.thy ===== *)
theory Auth_Base
  imports Entities Date_Time Request
begin

text \<open>
  What the authentication services share: the environment of a call, the tokens, the password hooks
  of the two account entities, the log writes, and the random codes.

  The libraries are functions of the environment: \<open>x_hash\<close> and \<open>x_compare\<close> are bcrypt's \<open>hash\<close> and
  \<open>compare\<close>, \<open>x_sha256\<close> the digest, \<open>x_sign\<close>, \<open>x_sign_refresh\<close> and \<open>x_verify\<close> the JWT service
  (with the two secrets).  Of bcrypt the theorems use the law \<open>bcrypt_laws\<close>; of JWT, that a token which
  was just signed verifies to its claims.
\<close>

section \<open>Tokens\<close>

text \<open>The claims the code signs: \<open>AdminJwtPayload\<close>, \<open>UserJwtPayload\<close> and the reset token.\<close>

datatype jwt_payload =
    AdminJwt uuid uuid "uuid option"
  | UserJwt uuid uuid
  | ResetJwt uuid uuid

record ext =
  x_now :: time
  x_hash :: "string \<Rightarrow> string"
  x_compare :: "string \<Rightarrow> string \<Rightarrow> bool"
  x_sha256 :: "string \<Rightarrow> string"
  x_sign :: "jwt_payload \<Rightarrow> time \<Rightarrow> string"
  x_sign_refresh :: "uuid \<Rightarrow> time \<Rightarrow> string"
  x_verify :: "string \<Rightarrow> time \<Rightarrow> jwt_payload option"
  x_new_id :: uuid
  x_random :: nat
  x_otp_mock_enabled :: "string option"
  x_sms_mock_enabled :: "string option"
  x_node_env :: "string option"
  x_mock_code :: "string option"
  x_jwt_expiration :: int
  x_jwt_refresh_expiration :: int
  x_sms_configured :: bool
  x_sms_send :: "string \<Rightarrow> int \<Rightarrow> string option"
  x_sms_verify :: "string \<Rightarrow> string \<Rightarrow> bool"
  x_s3_upload :: "string \<Rightarrow> bool"
  x_uuid :: string
  x_request :: http_request
  x_ua_parser :: "string \<Rightarrow> ua_result"

text \<open>bcrypt: a hash has the form of a hash and compares with the password it was made of.\<close>

definition is_upper_lower_digit :: "char \<Rightarrow> bool" where
  "is_upper_lower_digit c \<longleftrightarrow>
     c \<in> set ''ABCDEFGHIJKLMNOPQRSTUVWXYZabcdefghijklmnopqrstuvwxyz0123456789./''"

text \<open>\<open>/^\$2[aby]\$\d{2}\$[./A-Za-z0-9]{53}$/\<close>.\<close>

definition BCRYPT_HASH_PATTERN :: "string \<Rightarrow> bool" where
  "BCRYPT_HASH_PATTERN s =
     (case s of
        c0 # c1 # c2 # c3 # d1 # d2 # c4 # rest \<Rightarrow>
          c0 = CHR ''$'' \<and> c1 = CHR ''2'' \<and> c2 \<in> set ''aby'' \<and> c3 = CHR ''$''
          \<and> is_digit d1 \<and> is_digit d2 \<and> c4 = CHR ''$''
          \<and> length rest = 53 \<and> list_all is_upper_lower_digit rest
      | _ \<Rightarrow> False)"

definition bcrypt_laws :: "ext \<Rightarrow> bool" where
  "bcrypt_laws e \<longleftrightarrow> (\<forall>p. BCRYPT_HASH_PATTERN (x_hash e p) \<and> x_compare e p (x_hash e p))"

text \<open>\<open>hashPasswordIfNeeded\<close>.\<close>

definition hashPasswordIfNeeded :: "ext \<Rightarrow> string option \<Rightarrow> string option" where
  "hashPasswordIfNeeded e p =
     (case p of None \<Rightarrow> None
      | Some s \<Rightarrow> if s = '''' \<or> BCRYPT_HASH_PATTERN s then Some s else Some (x_hash e s))"

section \<open>Saving accounts\<close>

text \<open>
  \<open>save\<close> of an entity with its \<open>@BeforeInsert\<close> and \<open>@BeforeUpdate\<close> hooks.  A new user needs a phone and
  a role (the columns are \<open>NOT NULL\<close>), and the role has to exist; an administrator's mail is unique.
\<close>

definition with_hashed_password :: "ext \<Rightarrow> user \<Rightarrow> user" where
  "with_hashed_password e u = u\<lparr>u_password := hashPasswordIfNeeded e (u_password u)\<rparr>"

definition update_user :: "ext \<Rightarrow> user \<Rightarrow> world \<Rightarrow> world" where
  "update_user e u w = w\<lparr>users := save_row (with_hashed_password e u) (users w)\<rparr>"

definition insert_user :: "ext \<Rightarrow> user \<Rightarrow> world \<Rightarrow> (user, world) result" where
  "insert_user e u w =
     (if u_phone u = None \<or> u_roleId u = None then throw (QueryFailedError ''23502'') w
      else if references (entId u) (users w) then throw (QueryFailedError ''23505'') w
      else if \<not> references (the (u_roleId u)) (roles w) then throw (QueryFailedError ''23503'') w
      else ok (with_hashed_password e u) (w\<lparr>users := users w @ [with_hashed_password e u]\<rparr>))"

definition admin_with_hashed_password :: "ext \<Rightarrow> admin \<Rightarrow> admin" where
  "admin_with_hashed_password e a = a\<lparr>a_password := hashPasswordIfNeeded e (a_password a)\<rparr>"

definition email_taken :: "uuid \<Rightarrow> string \<Rightarrow> world \<Rightarrow> bool" where
  "email_taken i m w \<longleftrightarrow> exists_by (\<lambda>a. a_email a = m \<and> entId a \<noteq> i) (admins w)"

definition update_admin :: "ext \<Rightarrow> admin \<Rightarrow> world \<Rightarrow> (admin, world) result" where
  "update_admin e a w =
     (if email_taken (entId a) (a_email a) w then throw (QueryFailedError ''23505'') w
      else if \<not> references (a_roleId a) (roles w) then throw (QueryFailedError ''23503'') w
      else ok (admin_with_hashed_password e a) (w\<lparr>admins := save_row (admin_with_hashed_password e a) (admins w)\<rparr>))"

section \<open>Logs\<close>

text \<open>Both services write their own log, with what they read of the request, and swallow a failure of it.\<close>

definition log_activity :: "ext \<Rightarrow> uuid \<Rightarrow> log_action \<Rightarrow> string \<Rightarrow> world \<Rightarrow> world" where
  "log_activity e i act descr w =
     (let c = buildRequestContext (x_ua_parser e) (x_request e)
      in w\<lparr>activity_logs := activity_logs w
           @ [\<lparr>al_createdAt = x_now e, al_userId = i, al_action = act, al_description = descr,
              al_resourceType = None, al_resourceId = None, al_ipAddress = Some (rc_ipAddress c),
              al_userAgent = Some (rc_userAgent c), al_device = Some (rc_device c), al_browser = Some (rc_browser c),
              al_os = Some (rc_os c), al_location = rc_location c, al_status = SUCCESS, al_metadata = None\<rparr>]\<rparr>)"

definition log_audit :: "ext \<Rightarrow> uuid \<Rightarrow> log_action \<Rightarrow> string \<Rightarrow> string option \<Rightarrow> string option \<Rightarrow> world \<Rightarrow> world" where
  "log_audit e i act descr ename eid w =
     (let c = buildRequestContext (x_ua_parser e) (x_request e)
      in w\<lparr>audit_logs := audit_logs w
           @ [\<lparr>au_createdAt = x_now e, au_adminId = Some i, au_action = act, au_description = descr,
              au_entityName = ename, au_entityId = eid, au_oldValue = None, au_newValue = None,
              au_ipAddress = Some (rc_ipAddress c), au_userAgent = Some (rc_userAgent c),
              au_device = Some (rc_device c), au_browser = Some (rc_browser c), au_os = Some (rc_os c),
              au_location = rc_location c, au_status = SUCCESS, au_metadata = None\<rparr>]\<rparr>)"

text \<open>The service of the second factor writes no data of the request.\<close>

definition log_audit_bare :: "ext \<Rightarrow> uuid \<Rightarrow> log_action \<Rightarrow> string \<Rightarrow> world \<Rightarrow> world" where
  "log_audit_bare e i act descr w =
     w\<lparr>audit_logs := audit_logs w
        @ [\<lparr>au_createdAt = x_now e, au_adminId = Some i, au_action = act, au_description = descr,
           au_entityName = None, au_entityId = None, au_oldValue = None, au_newValue = None, au_ipAddress = None,
           au_userAgent = None, au_device = None, au_browser = None, au_os = None, au_location = None,
           au_status = SUCCESS, au_metadata = None\<rparr>]\<rparr>"

section \<open>Mock switches and random codes\<close>

text \<open>\<open>otp-mock.util.ts\<close>; the variables are strings here, compared without regard to case.\<close>

definition parseBoolean :: "string option \<Rightarrow> bool option" where
  "parseBoolean v =
     (case v of None \<Rightarrow> None
      | Some s \<Rightarrow> if map to_lower s = ''true'' then Some True
                 else if map to_lower s = ''false'' then Some False else None)"

definition isOtpMockEnabled :: "ext \<Rightarrow> bool" where
  "isOtpMockEnabled e =
     (case parseBoolean (x_otp_mock_enabled e) of
        Some b \<Rightarrow> b
      | None \<Rightarrow>
          if nullish (x_node_env e) ''development'' = ''development'' then True
          else (case parseBoolean (x_sms_mock_enabled e) of Some b \<Rightarrow> b | None \<Rightarrow> False))"

definition DEFAULT_MOCK_OTP_CODE :: string where
  "DEFAULT_MOCK_OTP_CODE = ''123456''"

definition getMockOtpCode :: "ext \<Rightarrow> string" where
  "getMockOtpCode e = or_default (x_mock_code e) DEFAULT_MOCK_OTP_CODE"

text \<open>\<open>crypto.randomInt(100000, 999999)\<close>: from 100000 to 999998.\<close>

definition randomInt :: "nat \<Rightarrow> nat \<Rightarrow> nat \<Rightarrow> nat" where
  "randomInt lo hi r = lo + r mod (hi - lo)"

definition generateVerificationCode :: "ext \<Rightarrow> string" where
  "generateVerificationCode e =
     (if isOtpMockEnabled e then getMockOtpCode e else show_nat (randomInt 100000 999999 (x_random e)))"

section \<open>Facts\<close>

text \<open>The hook never hashes a hash, so saving an account again leaves its password alone.\<close>

lemma hashPasswordIfNeeded_idem:
  "bcrypt_laws e \<Longrightarrow> hashPasswordIfNeeded e (hashPasswordIfNeeded e p) = hashPasswordIfNeeded e p"
  by (auto simp: hashPasswordIfNeeded_def bcrypt_laws_def split: option.split)

lemma hashPasswordIfNeeded_None [simp]: "hashPasswordIfNeeded e None = None"
  by (simp add: hashPasswordIfNeeded_def)

lemma with_hashed_password_simps [simp]:
  "entId (with_hashed_password e u) = entId u" "live (with_hashed_password e u) = live u"
  "u_password (with_hashed_password e u) = hashPasswordIfNeeded e (u_password u)"
  by (simp_all add: with_hashed_password_def live_def)

lemma admin_with_hashed_password_simps [simp]:
  "entId (admin_with_hashed_password e a) = entId a" "live (admin_with_hashed_password e a) = live a"
  "a_password (admin_with_hashed_password e a) = hashPasswordIfNeeded e (a_password a)"
  by (simp_all add: admin_with_hashed_password_def live_def)

section \<open>An environment for the examples\<close>

definition sample_hash :: string where
  "sample_hash = ''$2b$10$'' @ replicate 53 (CHR ''a'')"

text \<open>Tokens that spell their claims, a hash that fits every password, a text message service that expects 777777.\<close>

definition plain_ext :: "time \<Rightarrow> ext" where
  "plain_ext now =
     \<lparr>x_now = now, x_hash = (\<lambda>_. sample_hash), x_compare = (\<lambda>p h. h = sample_hash \<or> p = h), x_sha256 = (\<lambda>s. s),
      x_sign = (\<lambda>p t. case p of AdminJwt _ i _ \<Rightarrow> CHR ''A'' # i | UserJwt _ i \<Rightarrow> CHR ''U'' # i | ResetJwt _ i \<Rightarrow> CHR ''R'' # i),
      x_sign_refresh = (\<lambda>i t. CHR ''F'' # i),
      x_verify = (\<lambda>s _. case s of [] \<Rightarrow> None
         | c # i \<Rightarrow> if c = CHR ''A'' then Some (AdminJwt i i None) else if c = CHR ''U'' then Some (UserJwt i i)
                   else if c = CHR ''R'' then Some (ResetJwt i i) else None),
      x_new_id = ''new'', x_random = 0, x_otp_mock_enabled = None, x_sms_mock_enabled = None,
      x_node_env = Some ''production'', x_mock_code = None, x_jwt_expiration = 900000,
      x_jwt_refresh_expiration = 2592000000, x_sms_configured = True, x_sms_send = (\<lambda>to ttl. Some ''req''),
      x_sms_verify = (\<lambda>r c. c = ''777777''), x_s3_upload = (\<lambda>_. True), x_uuid = ''uuid'',
      x_request = sample_request, x_ua_parser = sample_ua\<rparr>"

lemma sample_hash_pattern: "BCRYPT_HASH_PATTERN sample_hash"
  by code_simp

lemma bcrypt_laws_plain: "bcrypt_laws (plain_ext now)"
  using sample_hash_pattern by (simp add: bcrypt_laws_def plain_ext_def)

end
