(* ===== verification/Otp.thy ===== *)
theory Otp
  imports Auth_Base
begin

text \<open>
  \<open>src/src/v1/otp\<close>: one-time codes.

  A record is created pending, and each verification counts an attempt before it compares the code.
  \<open>OtpService.verify\<close> is written on a loaded record; the services of two-factor authentication and
  password reset repeat its body on the record they find.  The locale \<open>lockout\<close> is the contract these
  verifications share: wrong codes use a budget up, and without budget no code is right.
\<close>

section \<open>The service\<close>

record otp_opts =
  oo_purpose :: otp_purpose
  oo_code :: string
  oo_userId :: "uuid option"
  oo_adminId :: "uuid option"
  oo_requestId :: "string option"
  oo_ttlMinutes :: "int option"
  oo_maxAttempts :: "nat option"

definition otp_create :: "ext \<Rightarrow> otp_opts \<Rightarrow> world \<Rightarrow> (otp_record, world) result" where
  "otp_create e opts w =
     (let r = \<lparr>entId = x_new_id e, createdAt = x_now e, o_userId = oo_userId opts,
               o_adminId = oo_adminId opts, o_status = PENDING, o_purpose = oo_purpose opts,
               o_code = oo_code opts,
               o_expiresAt = addMinutes (nullish (oo_ttlMinutes opts) OTP_TTL_MINUTES) (x_now e),
               o_requestId = oo_requestId opts, o_attempts = 0,
               o_maxAttempts = nullish (oo_maxAttempts opts) 3\<rparr>
      in if references (entId r) (otp_records w) then throw (QueryFailedError ''23505'') w
         else ok r (w\<lparr>otp_records := otp_records w @ [r]\<rparr>))"

text \<open>The \<open>where\<close> clause with the optional owners; an absent (or empty) owner is not a condition.\<close>

definition otp_owned :: "string option \<Rightarrow> string option \<Rightarrow> otp_record \<Rightarrow> bool" where
  "otp_owned userId adminId r \<longleftrightarrow>
     (truthy userId \<longrightarrow> o_userId r = userId) \<and> (truthy adminId \<longrightarrow> o_adminId r = adminId)"

definition otp_findPending :: "otp_purpose \<Rightarrow> string option \<Rightarrow> string option \<Rightarrow> world \<Rightarrow> otp_record option" where
  "otp_findPending purpose userId adminId w =
     find_latest createdAt
       (\<lambda>r. o_purpose r = purpose \<and> o_status r = PENDING \<and> otp_owned userId adminId r) (otp_records w)"

definition otp_save :: "otp_record \<Rightarrow> world \<Rightarrow> world" where
  "otp_save r w = w\<lparr>otp_records := save_row r (otp_records w)\<rparr>"

definition otp_verify :: "ext \<Rightarrow> otp_record \<Rightarrow> string \<Rightarrow> world \<Rightarrow> (unit, world) result" where
  "otp_verify e r code w =
     (if isExpired (x_now e) (Some (o_expiresAt r))
      then throw (BadRequestException ''Verification code has expired'')
             (otp_save (r\<lparr>o_status := EXPIRED\<rparr>) w)
      else if o_maxAttempts r \<le> o_attempts r
      then throw (BadRequestException ''Maximum verification attempts exceeded'')
             (otp_save (r\<lparr>o_status := EXPIRED\<rparr>) w)
      else
        let r1 = r\<lparr>o_attempts := o_attempts r + 1\<rparr>
        in if o_code r \<noteq> code
           then throw (BadRequestException ''Invalid verification code'') (otp_save r1 w)
           else ok () (otp_save (r1\<lparr>o_status := VERIFIED\<rparr>) w))"

definition markUsed :: "otp_record \<Rightarrow> world \<Rightarrow> (unit, world) result" where
  "markUsed r w = ok () (otp_save (r\<lparr>o_status := USED\<rparr>) w)"

definition cleanupExpiredOtpRecords :: "ext \<Rightarrow> world \<Rightarrow> world" where
  "cleanupExpiredOtpRecords e w =
     w\<lparr>otp_records := delete_where
        (\<lambda>r. o_status r \<in> {EXPIRED, USED} \<and> createdAt r < x_now e - 7 * 24 * 60 * 60 * 1000) (otp_records w)\<rparr>"

definition expireAll :: "otp_purpose \<Rightarrow> otp_status \<Rightarrow> string option \<Rightarrow> string option \<Rightarrow> world \<Rightarrow> world" where
  "expireAll purpose st userId adminId w =
     w\<lparr>otp_records := update_where
        (\<lambda>r. o_purpose r = purpose \<and> o_status r = st \<and> otp_owned userId adminId r)
        (\<lambda>r. r\<lparr>o_status := EXPIRED\<rparr>) (otp_records w)\<rparr>"

section \<open>Guesses and lockout\<close>

text \<open>
  \<open>attempt g s\<close> is one verification: whether it was accepted, and the state after it.  A guess \<open>g\<close> is
  a code together with the environment it is tried in.  \<open>right s\<close> are the guesses that would be
  accepted, \<open>budget s\<close> bounds the wrong ones.
\<close>

locale lockout =
  fixes attempt :: "'g \<Rightarrow> 's \<Rightarrow> bool \<times> 's"
    and right :: "'s \<Rightarrow> 'g set" and budget :: "'s \<Rightarrow> nat" and good :: "'s \<Rightarrow> bool"
  assumes wrong_rejected: "good s \<Longrightarrow> c \<notin> right s \<Longrightarrow> \<not> fst (attempt c s)"
    and wrong_good: "good s \<Longrightarrow> c \<notin> right s \<Longrightarrow> good (snd (attempt c s))"
    and wrong_right: "good s \<Longrightarrow> c \<notin> right s \<Longrightarrow> right (snd (attempt c s)) \<subseteq> right s"
    and wrong_spends: "good s \<Longrightarrow> c \<notin> right s \<Longrightarrow> 0 < budget s \<Longrightarrow> budget (snd (attempt c s)) < budget s"
    and no_budget: "good s \<Longrightarrow> budget s = 0 \<Longrightarrow> right s = {}"
    and no_budget_stays: "good s \<Longrightarrow> budget s = 0 \<Longrightarrow> budget (snd (attempt c s)) = 0"
begin

definition guesses :: "'g list \<Rightarrow> 's \<Rightarrow> 's" where
  "guesses cs s = fold (\<lambda>c s. snd (attempt c s)) cs s"

lemma guesses_simps [simp]: "guesses [] s = s" "guesses (c # cs) s = guesses cs (snd (attempt c s))"
  by (simp_all add: guesses_def)

lemma wrong_guesses:
  "good s \<Longrightarrow> set cs \<inter> right s = {} \<Longrightarrow>
     good (guesses cs s) \<and> right (guesses cs s) \<subseteq> right s \<and> budget (guesses cs s) \<le> budget s - length cs"
proof (induction cs arbitrary: s)
  case Nil
  then show ?case by simp
next
  case (Cons c cs)
  let ?s = "snd (attempt c s)"
  have c: "c \<notin> right s" using Cons.prems(2) by auto
  have s: "good ?s" "right ?s \<subseteq> right s" using wrong_good wrong_right Cons.prems(1) c by blast+
  have b: "budget ?s \<le> budget s - 1"
    using wrong_spends [OF Cons.prems(1) c] no_budget_stays [OF Cons.prems(1), of c] by fastforce
  have "set cs \<inter> right ?s = {}" using Cons.prems(2) s(2) by auto
  from Cons.IH [OF s(1) this] show ?case using s(2) b by auto
qed

text \<open>After as many wrong codes as the budget allows, no code is accepted any more.\<close>

lemma locked_out:
  assumes "good s" and "set cs \<inter> right s = {}" and "budget s \<le> length cs"
  shows "\<not> fst (attempt c (guesses cs s))"
proof -
  have g: "good (guesses cs s)" "budget (guesses cs s) = 0"
    using wrong_guesses [OF assms(1,2)] assms(3) by auto
  then show ?thesis using no_budget wrong_rejected by blast
qed

end

section \<open>The budget of a table\<close>

text \<open>A pending record allows its remaining attempts, and one more call that closes it.\<close>

definition record_budget :: "(otp_record \<Rightarrow> bool) \<Rightarrow> otp_record \<Rightarrow> nat" where
  "record_budget p r = (if p r \<and> o_status r = PENDING then Suc (o_maxAttempts r - o_attempts r) else 0)"

definition table_budget :: "(otp_record \<Rightarrow> bool) \<Rightarrow> otp_record list \<Rightarrow> nat" where
  "table_budget p rs = sum_list (map (record_budget p) rs)"

lemma table_budget_save:
  "distinct (ids rs) \<Longrightarrow> r \<in> set rs \<Longrightarrow> entId r' = entId r \<Longrightarrow>
     table_budget p (save_row r' rs) + record_budget p r = table_budget p rs + record_budget p r'"
proof (induction rs)
  case Nil
  then show ?case by simp
next
  case (Cons x rs)
  show ?case
  proof (cases "x = r")
    case True
    then have "entId r' \<notin> set (ids rs)" using Cons.prems(1,3) by auto
    then have "save_row r' rs = rs" unfolding save_row_def by (intro update_where_none) (metis ids_def image_eqI list.set_map)
    then show ?thesis using True Cons.prems(3) by (simp add: table_budget_def save_row_def)
  next
    case False
    then have r: "r \<in> set rs" using Cons.prems(2) by simp
    then have "entId x \<noteq> entId r'" using Cons.prems(1,3) by (auto simp: ids_def)
    then show ?thesis
      using Cons.IH [OF _ r Cons.prems(3)] Cons.prems(1) by (simp add: table_budget_def save_row_def)
  qed
qed

lemma table_budget_zero: "table_budget p rs = 0 \<longleftrightarrow> (\<forall>r \<in> set rs. \<not> (p r \<and> o_status r = PENDING))"
  by (auto simp: table_budget_def record_budget_def)

text \<open>
  One verification of the record \<open>r\<close>, as all the services do it: the record after the call, when the
  code does not fit.
\<close>

definition wrong_try :: "time \<Rightarrow> otp_record \<Rightarrow> otp_record" where
  "wrong_try now r =
     (if now > o_expiresAt r \<or> o_maxAttempts r \<le> o_attempts r then r\<lparr>o_status := EXPIRED\<rparr>
      else r\<lparr>o_attempts := o_attempts r + 1\<rparr>)"

definition accepts :: "time \<Rightarrow> otp_record \<Rightarrow> string \<Rightarrow> bool" where
  "accepts now r code \<longleftrightarrow> \<not> now > o_expiresAt r \<and> o_attempts r < o_maxAttempts r \<and> o_code r = code"

lemma wrong_try_simps [simp]: "entId (wrong_try now r) = entId r" "o_code (wrong_try now r) = o_code r"
  by (simp_all add: wrong_try_def)

lemma wrong_try_budget:
  "p r \<Longrightarrow> o_status r = PENDING \<Longrightarrow> record_budget p (wrong_try now r) < record_budget p r"
  by (auto simp: record_budget_def wrong_try_def)

lemma wrong_try_accepts: "accepts t (wrong_try now r) c \<Longrightarrow> accepts t r c"
  by (auto simp: accepts_def wrong_try_def split: if_splits)

definition otp_ok :: "world \<Rightarrow> bool" where
  "otp_ok w \<longleftrightarrow> distinct (ids (otp_records w))"

lemma otp_save_simps [simp]: "otp_records (otp_save r w) = save_row r (otp_records w)" "admins (otp_save r w) = admins w"
  by (simp_all add: otp_save_def)

lemma otp_ok_save [simp]: "otp_ok (otp_save r w) = otp_ok w"
  by (simp add: otp_ok_def)

lemma wrong_try_save:
  assumes "otp_ok w" and "r \<in> set (otp_records w)" and "p r" and "o_status r = PENDING"
  shows "table_budget p (otp_records (otp_save (wrong_try now r) w)) < table_budget p (otp_records w)"
  using table_budget_save [of "otp_records w" r "wrong_try now r" p] wrong_try_budget [where p = p and r = r and now = now] assms
  by (simp add: otp_ok_def)

lemma accepts_after_wrong_try:
  assumes "s \<in> set (save_row (wrong_try now r) rs)" and "accepts t s c" and "o_status s = PENDING"
    and "r \<in> set rs" and "p r" and "o_status r = PENDING" and "p s"
  shows "\<exists>r \<in> set rs. p r \<and> o_status r = PENDING \<and> accepts t r c"
  using in_save_row [OF assms(1)]
proof
  assume "s = wrong_try now r"
  then show ?thesis using assms wrong_try_accepts by blast
next
  assume "s \<in> set rs \<and> entId s \<noteq> entId (wrong_try now r)"
  then show ?thesis using assms by blast
qed

lemma otp_verify_eq:
  "snd (otp_verify e r c w) = otp_save (if accepts (x_now e) r c
      then r\<lparr>o_attempts := o_attempts r + 1, o_status := VERIFIED\<rparr> else wrong_try (x_now e) r) w
   \<and> succeeds (otp_verify e r c w) = accepts (x_now e) r c"
  by (auto simp: otp_verify_def accepts_def wrong_try_def Let_def)

end
