(* ===== verification/Two_Factor.thy ===== *)
theory Two_Factor
  imports Otp
begin

text \<open>
  \<open>src/src/v1/auth/services/two-factor.service.ts\<close>: enabling and disabling the second factor of an
  administrator, and the codes of a login.
\<close>

section \<open>Operations\<close>

definition tf_record :: "ext \<Rightarrow> uuid \<Rightarrow> otp_record" where
  "tf_record e i =
     \<lparr>entId = x_new_id e, createdAt = x_now e, o_userId = None, o_adminId = Some i, o_status = PENDING,
      o_purpose = TWO_FACTOR, o_code = generateVerificationCode e,
      o_expiresAt = addMinutes OTP_TTL_MINUTES (x_now e), o_requestId = None, o_attempts = 0,
      o_maxAttempts = 3\<rparr>"

text \<open>Saving the record and announcing the code to whoever sends the mail.\<close>

definition send_code :: "ext \<Rightarrow> uuid \<Rightarrow> string \<Rightarrow> string \<Rightarrow> world \<Rightarrow> (unit, world) result" where
  "send_code e i email userName w =
     (if references (x_new_id e) (otp_records w) then throw (QueryFailedError ''23505'') w
      else ok () (emit (TwoFactorCodeRequested email (generateVerificationCode e) userName)
             (w\<lparr>otp_records := otp_records w @ [tf_record e i]\<rparr>)))"

definition display_name :: "admin \<Rightarrow> string" where
  "display_name a = (if a_fullName a = '''' then a_email a else a_fullName a)"

definition enableTwoFactor :: "ext \<Rightarrow> uuid \<Rightarrow> string \<Rightarrow> world \<Rightarrow> (unit, world) result" where
  "enableTwoFactor e i email w =
     (case by_id i (admins w) of
        None \<Rightarrow> throw (BadRequestException ''User not found'') w
      | Some a \<Rightarrow>
          if a_email a \<noteq> email then throw (BadRequestException ''Email does not match user account'') w
          else and_then (send_code e i email (display_name a) w)
                 (\<lambda>_ w1. ok () (log_audit_bare e i ENABLE_TWO_FACTOR ''2FA setup initiated, verification code sent'' w1)))"

definition tf_of :: "uuid \<Rightarrow> otp_record \<Rightarrow> bool" where
  "tf_of i r \<longleftrightarrow> o_adminId r = Some i \<and> o_purpose r = TWO_FACTOR"

definition verifyTwoFactor :: "ext \<Rightarrow> uuid \<Rightarrow> string \<Rightarrow> world \<Rightarrow> (bool, world) result" where
  "verifyTwoFactor e i code w =
     (case find_latest createdAt (\<lambda>r. tf_of i r \<and> o_status r = PENDING) (otp_records w) of
        None \<Rightarrow> throw (BadRequestException ''No pending two-factor authentication code found'') w
      | Some r \<Rightarrow>
          if isExpired (x_now e) (Some (o_expiresAt r))
          then throw (BadRequestException ''Verification code has expired'') (otp_save (r\<lparr>o_status := EXPIRED\<rparr>) w)
          else if o_maxAttempts r \<le> o_attempts r
          then throw (BadRequestException ''Maximum verification attempts exceeded'')
                 (otp_save (r\<lparr>o_status := EXPIRED\<rparr>) w)
          else
            let r1 = r\<lparr>o_attempts := o_attempts r + 1\<rparr>
            in if o_code r \<noteq> code
               then throw (BadRequestException ''Invalid verification code'') (otp_save r1 w)
               else
                 let w1 = otp_save (r1\<lparr>o_status := VERIFIED\<rparr>) w;
                     w2 = w1\<lparr>admins := update_where (\<lambda>a. entId a = i) (\<lambda>a. a\<lparr>a_isTwoFactorEnabled := True\<rparr>) (admins w1)\<rparr>
                 in ok True (log_audit_bare e i VERIFY_TWO_FACTOR ''2FA enabled successfully'' w2))"

definition disableTwoFactor :: "ext \<Rightarrow> uuid \<Rightarrow> string \<Rightarrow> world \<Rightarrow> (unit, world) result" where
  "disableTwoFactor e i password w =
     (case by_id i (admins w) of
        None \<Rightarrow> throw (BadRequestException ''User not found'') w
      | Some a \<Rightarrow>
          if password = '''' then throw (BadRequestException ''Password is required to disable 2FA'') w
          else
            (case a_password a of
               None \<Rightarrow> throw (JsError ''Illegal arguments'') w
             | Some h \<Rightarrow>
                 if \<not> x_compare e password h then throw (UnauthorizedException ''Password does not match'') w
                 else
                   let w1 = w\<lparr>otp_records := update_where (\<lambda>r. tf_of i r \<and> o_status r = VERIFIED)
                                 (\<lambda>r. r\<lparr>o_status := EXPIRED\<rparr>) (otp_records w)\<rparr>;
                       w2 = w1\<lparr>admins := update_where (\<lambda>a. entId a = i) (\<lambda>a. a\<lparr>a_isTwoFactorEnabled := False\<rparr>) (admins w1)\<rparr>
                   in ok () (log_audit_bare e i DISABLE_TWO_FACTOR ''2FA disabled successfully'' w2)))"

definition sendVerificationCode :: "ext \<Rightarrow> uuid \<Rightarrow> world \<Rightarrow> (unit, world) result" where
  "sendVerificationCode e i w =
     (case by_id i (admins w) of
        None \<Rightarrow> throw (BadRequestException ''User not found'') w
      | Some a \<Rightarrow>
          if find_one (\<lambda>r. tf_of i r \<and> o_status r = VERIFIED) (otp_records w) \<noteq> None
          then throw (BadRequestException ''Two-factor verification code is already sent'') w
          else send_code e i (a_email a) (display_name a) w)"

definition validateLoginCode :: "ext \<Rightarrow> uuid \<Rightarrow> string \<Rightarrow> world \<Rightarrow> (bool, world) result" where
  "validateLoginCode e i code w =
     (case find_one (\<lambda>r. tf_of i r \<and> o_status r = PENDING \<and> o_code r = code) (otp_records w) of
        None \<Rightarrow> ok False w
      | Some r \<Rightarrow>
          if isExpired (x_now e) (Some (o_expiresAt r)) then ok False (otp_save (r\<lparr>o_status := EXPIRED\<rparr>) w)
          else if o_maxAttempts r \<le> o_attempts r then ok False (otp_save (r\<lparr>o_status := EXPIRED\<rparr>) w)
          else
            let r1 = r\<lparr>o_attempts := o_attempts r + 1\<rparr>
            in if o_code r \<noteq> code then ok False (otp_save r1 w)
               else ok True (otp_save (r1\<lparr>o_status := USED\<rparr>) w))"

definition isTwoFactorEnabled :: "uuid \<Rightarrow> world \<Rightarrow> bool" where
  "isTwoFactorEnabled i w = (case by_id i (admins w) of None \<Rightarrow> False | Some a \<Rightarrow> a_isTwoFactorEnabled a)"

section \<open>Wrong codes when enabling\<close>

abbreviation tf_pending :: "uuid \<Rightarrow> otp_record \<Rightarrow> bool" where
  "tf_pending i r \<equiv> tf_of i r \<and> o_status r = PENDING"

definition tf_right :: "uuid \<Rightarrow> world \<Rightarrow> (ext \<times> string) set" where
  "tf_right i w = {(e, c). \<exists>r \<in> set (otp_records w). tf_pending i r \<and> accepts (x_now e) r c}"

lemma verifyTwoFactor_wrong:
  assumes "(e, c) \<notin> tf_right i w"
  shows "\<not> succeeds (verifyTwoFactor e i c w)
    \<and> snd (verifyTwoFactor e i c w) =
        (case find_latest createdAt (tf_pending i) (otp_records w) of
           None \<Rightarrow> w | Some r \<Rightarrow> otp_save (wrong_try (x_now e) r) w)"
proof (cases "find_latest createdAt (tf_pending i) (otp_records w)")
  case None
  then show ?thesis by (simp add: verifyTwoFactor_def)
next
  case (Some r)
  have "\<not> accepts (x_now e) r c"
    using assms find_latest_Some [OF Some] by (auto simp: tf_right_def)
  then show ?thesis
    using Some by (auto simp: verifyTwoFactor_def accepts_def wrong_try_def Let_def)
qed

lemma tf_of_wrong_try [simp]: "tf_of i (wrong_try now r) = tf_of i r"
  by (simp add: tf_of_def wrong_try_def)

definition tf_attempt :: "uuid \<Rightarrow> ext \<times> string \<Rightarrow> world \<Rightarrow> bool \<times> world" where
  "tf_attempt i g w =
     (succeeds (verifyTwoFactor (fst g) i (snd g) w), snd (verifyTwoFactor (fst g) i (snd g) w))"

definition tf_budget :: "uuid \<Rightarrow> world \<Rightarrow> nat" where
  "tf_budget i w = table_budget (tf_of i) (otp_records w)"

lemma tf_attempt_wrong:
  "g \<notin> tf_right i w \<Longrightarrow> tf_attempt i g w =
     (False, case find_latest createdAt (tf_pending i) (otp_records w) of
        None \<Rightarrow> w | Some r \<Rightarrow> otp_save (wrong_try (x_now (fst g)) r) w)"
  using verifyTwoFactor_wrong [of "fst g" "snd g" i w] by (simp add: tf_attempt_def)

interpretation tf_lockout: lockout "tf_attempt i" "tf_right i" "tf_budget i" otp_ok for i
proof (unfold_locales, goal_cases)
  case (1 w g)
  then show ?case by (simp add: tf_attempt_wrong)
next
  case (2 w g)
  then show ?case by (simp add: tf_attempt_wrong split: option.split)
next
  case (3 w g)
  show ?case
  proof (cases "find_latest createdAt (tf_pending i) (otp_records w)")
    case None
    then show ?thesis using 3(2) by (simp add: tf_attempt_wrong)
  next
    case (Some r)
    have r: "r \<in> set (otp_records w)" "tf_pending i r" using find_latest_Some [OF Some] by auto
    have "snd (tf_attempt i g w) = otp_save (wrong_try (x_now (fst g)) r) w"
      using 3(2) Some by (simp add: tf_attempt_wrong)
    moreover have "tf_right i (otp_save (wrong_try (x_now (fst g)) r) w) \<subseteq> tf_right i w"
      using accepts_after_wrong_try [of _ _ r "otp_records w" _ _ "tf_of i"] r
      by (fastforce simp: tf_right_def)
    ultimately show ?thesis by simp
  qed
next
  case (4 w g)
  have "find_latest createdAt (tf_pending i) (otp_records w) \<noteq> None"
  proof
    assume "find_latest createdAt (tf_pending i) (otp_records w) = None"
    then have "table_budget (tf_of i) (otp_records w) = 0"
      unfolding table_budget_zero by (simp add: find_latest_None)
    then show False using 4(3) by (simp add: tf_budget_def)
  qed
  then obtain r where r: "find_latest createdAt (tf_pending i) (otp_records w) = Some r" by blast
  then have "r \<in> set (otp_records w)" "tf_of i r" "o_status r = PENDING" using find_latest_Some [OF r] by auto
  then show ?case using 4 wrong_try_save r by (simp add: tf_attempt_wrong tf_budget_def)
next
  case (5 w)
  then show ?case by (auto simp: tf_budget_def table_budget_zero tf_right_def)
next
  case (6 w g)
  then have "find_latest createdAt (tf_pending i) (otp_records w) = None"
    by (simp add: tf_budget_def table_budget_zero find_latest_None)
  then show ?case using 6 by (simp add: tf_attempt_def verifyTwoFactor_def)
qed

text \<open>C23: wrong codes lock the confirmation of two-factor authentication.  When none of the codes tried is
  the code of a pending record of the administrator, and as many were tried as his pending records allow
  (an attempt counts whether it was made before or after the record expired), no code is accepted any
  more, the right one included.\<close>

theorem two_factor_locks:
  assumes "otp_ok w"
    and "\<forall>(e, c) \<in> set gs. \<forall>r \<in> set (otp_records w). tf_of i r \<and> o_status r = PENDING \<longrightarrow> o_code r \<noteq> c"
    and "tf_budget i w \<le> length gs"
  shows "\<not> succeeds (verifyTwoFactor e i c (fold (\<lambda>(e, c) w. snd (verifyTwoFactor e i c w)) gs w))"
proof -
  have "set gs \<inter> tf_right i w = {}" using assms(2) by (fastforce simp: tf_right_def accepts_def)
  from tf_lockout.locked_out [OF assms(1) this assms(3), of "(e, c)"]
  show ?thesis by (simp add: tf_attempt_def tf_lockout.guesses_def split_def)
qed

definition tf_sample :: otp_record where
  "tf_sample =
     \<lparr>entId = ''o1'', createdAt = 0, o_userId = None, o_adminId = Some ''a1'', o_status = PENDING,
      o_purpose = TWO_FACTOR, o_code = ''123456'', o_expiresAt = 600000, o_requestId = None, o_attempts = 0,
      o_maxAttempts = 3\<rparr>"

definition tf_world :: world where
  "tf_world = empty_world\<lparr>otp_records := [tf_sample]\<rparr>"

lemma tf_world_simps [simp]: "otp_records tf_world = [tf_sample]" "tf_of ''a1'' tf_sample"
  "o_status tf_sample = PENDING" "o_code tf_sample = ''123456''" "o_attempts tf_sample = 0"
  "o_maxAttempts tf_sample = 3" "o_expiresAt tf_sample = 600000"
  by (simp_all add: tf_world_def tf_sample_def tf_of_def)

theorem two_factor_locks_witness:
  "\<not> succeeds (verifyTwoFactor (plain_ext 5) ''a1'' ''123456''
       (fold (\<lambda>(e, c) w. snd (verifyTwoFactor e ''a1'' c w)) (replicate 4 (plain_ext 4, ''000000'')) tf_world))"
  by (rule two_factor_locks)
     (simp_all add: otp_ok_def tf_budget_def table_budget_def record_budget_def)

text \<open>The codes of a login are not protected like this.  The query looks for a record with the code
  tried, so a wrong code finds none: it counts as no attempt and changes nothing, and after any number of
  wrong codes the right one is still accepted.\<close>

theorem login_codes_do_not_lock:
  assumes "\<forall>(e, c) \<in> set gs. \<forall>r \<in> set (otp_records w). tf_of i r \<and> o_status r = PENDING \<longrightarrow> o_code r \<noteq> c"
    and "find_one (\<lambda>r. tf_of i r \<and> o_status r = PENDING \<and> o_code r = c) (otp_records w) = Some r"
    and "x_now e \<le> o_expiresAt r" and "o_attempts r < o_maxAttempts r"
  shows "\<exists>w'. validateLoginCode e i c (fold (\<lambda>(e, c) w. snd (validateLoginCode e i c w)) gs w) = ok True w'"
proof -
  have "fold (\<lambda>(e, c) w. snd (validateLoginCode e i c w)) gs w = w"
    using assms(1)
  proof (induction gs)
    case Nil
    then show ?case by simp
  next
    case (Cons g gs)
    obtain d k where g: "g = (d, k)" by (cases g)
    have "find_one (\<lambda>r. tf_of i r \<and> o_status r = PENDING \<and> o_code r = k) (otp_records w) = None"
      using Cons.prems by (auto simp: g find_one_None)
    then show ?case using Cons by (simp add: g validateLoginCode_def)
  qed
  then show ?thesis using assms(2-4) by (auto simp: validateLoginCode_def Let_def)
qed

theorem login_codes_do_not_lock_witness:
  "\<exists>w'. validateLoginCode (plain_ext 5) ''a1'' ''123456''
      (fold (\<lambda>(e, c) w. snd (validateLoginCode e ''a1'' c w)) (replicate 10 (plain_ext 4, ''000000'')) tf_world) = ok True w'"
  by (rule login_codes_do_not_lock [where r = tf_sample]) (simp_all add: plain_ext_def)

lemma enabled_two_factor_sends_no_code_lemma:
  assumes "verifyTwoFactor e i c w = ok b w'" and "by_id i (admins w') = Some a"
  shows "isTwoFactorEnabled i w'
    \<and> sendVerificationCode e' i w' = throw (BadRequestException ''Two-factor verification code is already sent'') w'"
proof -
  obtain r where r: "find_latest createdAt (tf_pending i) (otp_records w) = Some r"
      and w': "w' = log_audit_bare e i VERIFY_TWO_FACTOR ''2FA enabled successfully''
        ((otp_save (r\<lparr>o_attempts := o_attempts r + 1, o_status := VERIFIED\<rparr>) w)
           \<lparr>admins := update_where (\<lambda>a. entId a = i) (\<lambda>a. a\<lparr>a_isTwoFactorEnabled := True\<rparr>) (admins w)\<rparr>)"
    using assms(1) by (auto simp: verifyTwoFactor_def Let_def split: option.splits if_splits)
  let ?r = "r\<lparr>o_attempts := o_attempts r + 1, o_status := VERIFIED\<rparr>"
  have "r \<in> set (otp_records w)" "tf_of i r" using find_latest_Some [OF r] by auto
  then have "?r \<in> set (otp_records w')" "tf_of i ?r"
    by (simp_all add: w' log_audit_bare_def set_save_row ids_def tf_of_def)
  then have found: "find_one (\<lambda>r. tf_of i r \<and> o_status r = VERIFIED) (otp_records w') \<noteq> None"
    unfolding find_one_None by (intro notI) (drule bspec, assumption, simp)
  have "a_isTwoFactorEnabled a"
  proof -
    have "a \<in> set (update_where (\<lambda>a. entId a = i) (\<lambda>a. a\<lparr>a_isTwoFactorEnabled := True\<rparr>) (admins w))"
      "entId a = i"
      using by_id_Some [OF assms(2)] by (simp_all add: w' log_audit_bare_def)
    then show ?thesis by (cases rule: in_update_whereE) simp_all
  qed
  then have "isTwoFactorEnabled i w'" by (simp add: isTwoFactorEnabled_def assms(2))
  moreover have "sendVerificationCode e' i w'
      = throw (BadRequestException ''Two-factor verification code is already sent'') w'"
    unfolding sendVerificationCode_def assms(2) option.case if_P [OF found] ..
  ultimately show ?thesis ..
qed

definition tf_admin_world :: world where
  "tf_admin_world = tf_world\<lparr>admins :=
     [\<lparr>entId = ''a1'', createdAt = 0, deletedAt = None, a_fullName = ''Root'', a_password = Some ''secret'',
       a_email = ''root@hotel'', a_profileImageUrl = None, a_roleId = ''superadmin'', a_isBanned = False,
       a_isTwoFactorEnabled = False, a_lastLoginAt = None, a_lastLogoutAt = None\<rparr>]\<rparr>"

end
