(* ===== verification/Token.thy ===== *)
theory Token
  imports Auth_Base
begin

text \<open>
  \<open>src/src/v1/auth/services/token.service.ts\<close>: refresh tokens.  The table keeps the digest of a token,
  never the token.  The JWT library reads a numeric \<open>expiresIn\<close> as seconds, so the life of a token is
  that number times 1000 in milliseconds.
\<close>

section \<open>Operations\<close>

datatype owner_type = Owner_User | Owner_Admin

definition access_expiry :: "ext \<Rightarrow> time" where
  "access_expiry e = x_now e + x_jwt_expiration e * 1000"

definition generateRefreshToken :: "ext \<Rightarrow> uuid \<Rightarrow> owner_type \<Rightarrow> world \<Rightarrow> (string, world) result" where
  "generateRefreshToken e ownerId ownerType w =
     (let token = x_sign_refresh e ownerId (x_now e + x_jwt_refresh_expiration e * 1000);
          r = \<lparr>entId = x_new_id e, createdAt = x_now e, t_token = x_sha256 e token,
               t_userId = (if ownerType = Owner_User then Some ownerId else None),
               t_adminId = (if ownerType = Owner_User then None else Some ownerId),
               t_expiresAt = Some (addDays REFRESH_TOKEN_TTL_DAYS (x_now e)), t_isRevoked = False\<rparr>
      in if references (entId r) (refresh_tokens w) then throw (QueryFailedError ''23505'') w
         else if ownerType = Owner_User \<and> \<not> references ownerId (users w)
                 \<or> ownerType = Owner_Admin \<and> \<not> references ownerId (admins w)
         then throw (QueryFailedError ''23503'') w
         else ok token (w\<lparr>refresh_tokens := refresh_tokens w @ [r]\<rparr>))"

definition token_admin :: "refresh_token \<Rightarrow> world \<Rightarrow> admin option" where
  "token_admin t w = (case t_adminId t of None \<Rightarrow> None | Some i \<Rightarrow> by_id i (admins w))"

definition token_user :: "refresh_token \<Rightarrow> world \<Rightarrow> user option" where
  "token_user t w = (case t_userId t of None \<Rightarrow> None | Some i \<Rightarrow> by_id i (users w))"

definition role_id_of :: "admin \<Rightarrow> world \<Rightarrow> uuid option" where
  "role_id_of a w = (case by_id (a_roleId a) (roles w) of None \<Rightarrow> None | Some r \<Rightarrow> Some (entId r))"

definition refreshAccessToken :: "ext \<Rightarrow> string \<Rightarrow> world \<Rightarrow> (string \<times> uuid, world) result" where
  "refreshAccessToken e s w =
     (case find_one (\<lambda>t. t_token t = x_sha256 e s \<and> \<not> t_isRevoked t) (refresh_tokens w) of
        None \<Rightarrow> throw (UnauthorizedException ''Invalid or expired refresh token'') w
      | Some t \<Rightarrow>
          if isExpired (x_now e) (t_expiresAt t)
          then throw (UnauthorizedException ''Expired refresh token'')
                 (w\<lparr>refresh_tokens := save_row (t\<lparr>t_isRevoked := True\<rparr>) (refresh_tokens w)\<rparr>)
          else
            (case token_admin t w of
               Some a \<Rightarrow>
                 ok (x_sign e (AdminJwt (entId a) (entId a) (role_id_of a w)) (access_expiry e), entId a) w
             | None \<Rightarrow>
                 (case token_user t w of
                    None \<Rightarrow> throw (UnauthorizedException ''Invalid refresh token owner'') w
                  | Some u \<Rightarrow> ok (x_sign e (UserJwt (entId u) (entId u)) (access_expiry e), entId u) w)))"

definition revokeAllUserTokens :: "ext \<Rightarrow> uuid \<Rightarrow> bool \<Rightarrow> world \<Rightarrow> world" where
  "revokeAllUserTokens e i clearFcmToken w =
     w\<lparr>refresh_tokens := update_where (\<lambda>t. t_userId t = Some i \<and> \<not> t_isRevoked t)
          (\<lambda>t. t\<lparr>t_isRevoked := True\<rparr>) (refresh_tokens w),
       users := update_where (\<lambda>u. entId u = i)
          (\<lambda>u. u\<lparr>u_lastLogoutAt := Some (x_now e),
                u_fcmToken := (if clearFcmToken then Some '''' else u_fcmToken u)\<rparr>) (users w)\<rparr>"

definition revokeAllAdminTokens :: "ext \<Rightarrow> uuid \<Rightarrow> world \<Rightarrow> world" where
  "revokeAllAdminTokens e i w =
     w\<lparr>refresh_tokens := update_where (\<lambda>t. t_adminId t = Some i \<and> \<not> t_isRevoked t)
          (\<lambda>t. t\<lparr>t_isRevoked := True\<rparr>) (refresh_tokens w),
       admins := update_where (\<lambda>a. entId a = i) (\<lambda>a. a\<lparr>a_lastLogoutAt := Some (x_now e)\<rparr>) (admins w)\<rparr>"

definition revokeToken :: "ext \<Rightarrow> string \<Rightarrow> world \<Rightarrow> world" where
  "revokeToken e s w =
     (case find_one (\<lambda>t. t_token t = x_sha256 e s) (refresh_tokens w) of
        None \<Rightarrow> w
      | Some t \<Rightarrow> w\<lparr>refresh_tokens := save_row (t\<lparr>t_isRevoked := True\<rparr>) (refresh_tokens w)\<rparr>)"

text \<open>
  The nightly cleanup deletes with a raw \<open>where\<close> on \<open>created_at\<close>, \<open>is_revoked\<close> and \<open>expires_at\<close>.  The
  columns carry the names of the entity's properties, and PostgreSQL rejects an unknown column.
\<close>

definition refresh_token_columns :: "string list" where
  "refresh_token_columns =
     [''id'', ''createdAt'', ''updatedAt'', ''token'', ''userId'', ''adminId'', ''expiresAt'', ''isRevoked'']"

definition cleanupExpiredRefreshTokens :: "ext \<Rightarrow> world \<Rightarrow> (unit, world) result" where
  "cleanupExpiredRefreshTokens e w =
     (if \<not> set [''created_at'', ''is_revoked'', ''expires_at''] \<subseteq> set refresh_token_columns
      then throw (QueryFailedError ''42703'') w
      else ok () (w\<lparr>refresh_tokens := delete_where
             (\<lambda>t. createdAt t < x_now e - 7 * 24 * 60 * 60 * 1000
                \<and> (t_isRevoked t \<or> (case t_expiresAt t of None \<Rightarrow> False | Some x \<Rightarrow> x < x_now e)))
             (refresh_tokens w)\<rparr>))"

section \<open>Facts\<close>

text \<open>A refresh token is exchanged for an access token exactly when its digest is that of an unrevoked row
  that has not expired and whose owner, administrator or user, still exists; the access token is signed
  for that owner.\<close>

theorem refresh_iff:
  "refreshAccessToken e s w = ok (tok, i) w' \<longleftrightarrow>
     w' = w \<and>
     (\<exists>t. find_one (\<lambda>t. t_token t = x_sha256 e s \<and> \<not> t_isRevoked t) (refresh_tokens w) = Some t
        \<and> \<not> isExpired (x_now e) (t_expiresAt t)
        \<and> (case token_admin t w of
             Some a \<Rightarrow> i = entId a \<and> tok = x_sign e (AdminJwt i i (role_id_of a w)) (access_expiry e)
           | None \<Rightarrow> (\<exists>u. token_user t w = Some u \<and> i = entId u
                          \<and> tok = x_sign e (UserJwt i i) (access_expiry e))))"
  by (auto simp: refreshAccessToken_def split: option.splits)

text \<open>The owner of an access token obtained by refreshing is a live account.\<close>

lemma token_admin_by_id: "token_admin t w = Some a \<Longrightarrow> by_id (entId a) (admins w) = Some a"
  by (auto simp: token_admin_def split: option.splits dest: by_id_Some)

lemma token_user_by_id: "token_user t w = Some u \<Longrightarrow> by_id (entId u) (users w) = Some u"
  by (auto simp: token_user_def split: option.splits dest: by_id_Some)

lemma refreshed_owner:
  assumes "refreshAccessToken e s w = ok (tok, i) w'"
  shows "(\<exists>a. by_id i (admins w) = Some a) \<or> (\<exists>u. by_id i (users w) = Some u)"
  using assms token_admin_by_id token_user_by_id
  by (fastforce simp: refreshAccessToken_def split: option.splits if_splits)

definition no_open_tokens :: "uuid \<Rightarrow> world \<Rightarrow> bool" where
  "no_open_tokens i w \<longleftrightarrow> (\<forall>t \<in> set (refresh_tokens w). t_userId t = Some i \<longrightarrow> t_isRevoked t)"

definition no_open_admin_tokens :: "uuid \<Rightarrow> world \<Rightarrow> bool" where
  "no_open_admin_tokens i w \<longleftrightarrow> (\<forall>t \<in> set (refresh_tokens w). t_adminId t = Some i \<longrightarrow> t_isRevoked t)"

lemma revokeAllUserTokens_closes [simp]: "no_open_tokens i (revokeAllUserTokens e i c w)"
  by (auto simp: no_open_tokens_def revokeAllUserTokens_def set_update_where)

lemma revokeAllAdminTokens_closes [simp]: "no_open_admin_tokens i (revokeAllAdminTokens e i w)"
  by (auto simp: no_open_admin_tokens_def revokeAllAdminTokens_def set_update_where)

text \<open>A token row belongs to a user or to an administrator, never to both.\<close>

definition tokens_owned :: "world \<Rightarrow> bool" where
  "tokens_owned w \<longleftrightarrow> (\<forall>t \<in> set (refresh_tokens w). t_userId t = None \<or> t_adminId t = None)"

text \<open>Once all tokens of a user are revoked, none of them can be refreshed: whoever an access token is
  issued to afterwards, it is not that user.\<close>

lemma no_open_tokens_refresh:
  assumes "no_open_tokens i w" and "no_open_admin_tokens i w" and "refreshAccessToken e s w = ok (tok, j) w'"
  shows "j \<noteq> i"
proof -
  obtain t where t: "t \<in> set (refresh_tokens w)" "\<not> t_isRevoked t"
      and owner: "(\<exists>a. token_admin t w = Some a \<and> j = entId a) \<or> (\<exists>u. token_user t w = Some u \<and> j = entId u)"
    using assms(3) by (auto simp: refresh_iff dest!: find_one_Some split: option.splits)
  then have "t_adminId t = Some j \<or> t_userId t = Some j"
    by (auto simp: token_admin_def token_user_def dest!: by_id_Some split: option.splits)
  then show ?thesis using assms(1,2) t by (auto simp: no_open_tokens_def no_open_admin_tokens_def)
qed

text \<open>The cleanup of old refresh tokens deletes nothing: its query names columns the table does not have.\<close>

theorem cleanup_fails:
  "cleanupExpiredRefreshTokens e w = throw (QueryFailedError ''42703'') w"
  by (simp add: cleanupExpiredRefreshTokens_def refresh_token_columns_def)

text \<open>The tables a token operation leaves alone.\<close>

lemma token_frames [simp]:
  "otp_records (revokeAllUserTokens e i c w) = otp_records w"
  "otp_records (revokeAllAdminTokens e i w) = otp_records w"
  "users (revokeAllAdminTokens e i w) = users w"
  "admins (revokeAllUserTokens e i c w) = admins w"
  "ids (users (revokeAllUserTokens e i c w)) = ids (users w)"
  "ids (admins (revokeAllAdminTokens e i w)) = ids (admins w)"
  "ids (refresh_tokens (revokeAllUserTokens e i c w)) = ids (refresh_tokens w)"
  "ids (refresh_tokens (revokeAllAdminTokens e i w)) = ids (refresh_tokens w)"
  "roles (revokeAllUserTokens e i c w) = roles w"
  "roles (revokeAllAdminTokens e i w) = roles w"
  by (simp_all add: revokeAllUserTokens_def revokeAllAdminTokens_def ids_update_where)

end
