(* ===== verification/Files.thy ===== *)
theory Files
  imports Auth_Base
begin

text \<open>
  \<open>src/src/common/services/file-upload.service.ts\<close> with the upload and the deletion of
  \<open>src/src/common/utils/s3-client.utils.ts\<close>: profile images in the object store.  The store is outside;
  what is sent to it is recorded among the effects, and \<open>x_s3_upload key\<close> says whether it accepts an
  upload.
\<close>

section \<open>The store\<close>

definition s3_uploadFile :: "ext \<Rightarrow> string \<Rightarrow> string \<Rightarrow> world \<Rightarrow> (bool \<times> string) \<times> world" where
  "s3_uploadFile e path key w =
     (let k = path @ ''/'' @ key
      in if x_s3_upload e k then ((True, k), emit (S3Put k) w) else ((False, k), w))"

definition s3_deleteObject :: "string \<Rightarrow> world \<Rightarrow> world" where
  "s3_deleteObject key w = (if js_trim key = '''' then w else emit (S3Delete key) w)"

section \<open>The service\<close>

definition name_chars :: string where
  "name_chars = ''abcdefghijklmnopqrstuvwxyzABCDEFGHIJKLMNOPQRSTUVWXYZ0123456789_.-''"

definition sanitize_name :: "string \<Rightarrow> string" where
  "sanitize_name s = map (\<lambda>c. if c \<in> set name_chars then c else CHR ''_'') s"

definition uploadProfileImage :: "ext \<Rightarrow> string \<Rightarrow> string \<Rightarrow> world \<Rightarrow> string option \<times> world" where
  "uploadProfileImage e originalname path w =
     (let original = or_default (Some (js_trim originalname)) ''profile'';
          key = x_uuid e @ ''-'' @ sanitize_name original;
          ((success, k), w1) = s3_uploadFile e path key w
      in ((if success \<and> k \<noteq> '''' then Some k else None), w1))"

definition resolveProfileImageUrl ::
  "ext \<Rightarrow> string option \<Rightarrow> string option \<Rightarrow> string \<Rightarrow> string \<Rightarrow> world \<Rightarrow> string \<times> world" where
  "resolveProfileImageUrl e file bodyUrl existingUrl path w =
     (case file of
        Some f \<Rightarrow> (let (uploaded, w1) = uploadProfileImage e f path w in (nullish uploaded existingUrl, w1))
      | None \<Rightarrow> (case bodyUrl of Some u \<Rightarrow> (u, w) | None \<Rightarrow> (existingUrl, w)))"

definition replaceProfileImage :: "string \<Rightarrow> string \<Rightarrow> world \<Rightarrow> world" where
  "replaceProfileImage newUrl oldUrl w =
     (if newUrl \<noteq> oldUrl \<and> oldUrl \<noteq> '''' then s3_deleteObject oldUrl w else w)"

definition deleteProfileImage :: "string \<Rightarrow> world \<Rightarrow> world" where
  "deleteProfileImage url w = (if url \<noteq> '''' then s3_deleteObject url w else w)"

section \<open>Facts\<close>

text \<open>The file operations touch nothing but the effects.\<close>

definition same_tables :: "world \<Rightarrow> world \<Rightarrow> bool" where
  "same_tables w w' \<longleftrightarrow> (\<exists>es. w' = w\<lparr>effects := es\<rparr>)"

lemma same_tables_refl [simp]: "same_tables w w"
  unfolding same_tables_def by (rule exI [of _ "effects w"]) simp

lemma same_tables_emit [simp]: "same_tables w (emit x w)"
  by (auto simp: same_tables_def emit_def)

lemma same_tables_trans [trans]: "same_tables u v \<Longrightarrow> same_tables v w \<Longrightarrow> same_tables u w"
  by (auto simp: same_tables_def)

lemma same_tablesD:
  assumes "same_tables w w'"
  shows "users w' = users w" "admins w' = admins w" "roles w' = roles w" "refresh_tokens w' = refresh_tokens w"
    "otp_records w' = otp_records w"
  using assms by (auto simp: same_tables_def)

lemma resolve_same_tables: "resolveProfileImageUrl e f b x p w = (u, w') \<Longrightarrow> same_tables w w'"
  by (auto simp: resolveProfileImageUrl_def uploadProfileImage_def s3_uploadFile_def Let_def
      split: option.splits if_splits prod.splits)

lemma replace_same_tables [simp]: "same_tables w (replaceProfileImage n old w)"
  by (simp add: replaceProfileImage_def s3_deleteObject_def)

lemma delete_same_tables [simp]: "same_tables w (deleteProfileImage u w)"
  by (simp add: deleteProfileImage_def s3_deleteObject_def)

lemma sanitize_name_chars: "set (sanitize_name s) \<subseteq> set name_chars"
  by (auto simp: sanitize_name_def name_chars_def)

lemma slash_not_name_char: "CHR ''/'' \<notin> set name_chars"
  by (simp add: name_chars_def)

text \<open>An uploaded file cannot choose where it is stored: whatever its name, the key is the path, the
  random identifier and a name without any slash, so it stays in the folder of the upload.\<close>

theorem upload_stays_in_folder:
  assumes "uploadProfileImage e name path w = (Some k, w')"
  shows "\<exists>n. k = path @ ''/'' @ x_uuid e @ ''-'' @ n \<and> CHR ''/'' \<notin> set n \<and> effects w' = effects w @ [S3Put k]"
proof -
  let ?n = "sanitize_name (or_default (Some (js_trim name)) ''profile'')"
  have "k = path @ ''/'' @ x_uuid e @ ''-'' @ ?n \<and> effects w' = effects w @ [S3Put k]"
    using assms
    by (auto simp: uploadProfileImage_def s3_uploadFile_def Let_def emit_def split: if_splits)
  moreover have "CHR ''/'' \<notin> set ?n" using sanitize_name_chars slash_not_name_char by blast
  ultimately show ?thesis by blast
qed

theorem upload_stays_in_folder_witness:
  "\<exists>n. ''users/profile/uuid-.._evil'' = ''users/profile'' @ ''/'' @ ''uuid'' @ ''-'' @ n \<and> CHR ''/'' \<notin> set n"
proof -
  let ?r = "uploadProfileImage (plain_ext 5) ''../evil'' ''users/profile'' empty_world"
  have "fst ?r = Some ''users/profile/uuid-.._evil''" by code_simp
  then have "?r = (Some ''users/profile/uuid-.._evil'', snd ?r)" by (cases ?r) simp
  from upload_stays_in_folder [OF this] show ?thesis by (simp add: plain_ext_def)
qed

end
