(* ===== verification/Admin_Auth.thy ===== *)
theory Admin_Auth
  imports Two_Factor Token Files Sample
begin

text \<open>
  \<open>src/src/v1/auth/services/admin-auth.service.ts\<close>: the login of an administrator in one or two steps,
  his profile and his password.
\<close>

section \<open>Login\<close>

datatype login_reply =
    Needs_Two_Factor uuid
  | Logged_In string string uuid

definition admin_by_email :: "string \<Rightarrow> world \<Rightarrow> admin option" where
  "admin_by_email m w = find_one (\<lambda>a. live a \<and> a_email a = m) (admins w)"

text \<open>\<open>bcrypt.compare\<close> with a \<open>null\<close> hash raises an \<open>Error\<close>.\<close>

definition compare_password :: "ext \<Rightarrow> string \<Rightarrow> string option \<Rightarrow> exn + bool" where
  "compare_password e p h =
     (case h of None \<Rightarrow> Inl (JsError ''Illegal arguments'') | Some x \<Rightarrow> Inr (x_compare e p x))"

definition validateAdmin :: "ext \<Rightarrow> string \<Rightarrow> string \<Rightarrow> world \<Rightarrow> (admin, world) result" where
  "validateAdmin e email plainPassword w =
     (case admin_by_email email w of
        None \<Rightarrow> throw (UnauthorizedException ''Invalid credentials'') w
      | Some a \<Rightarrow>
          (case compare_password e plainPassword (a_password a) of
             Inl err \<Rightarrow> throw err w
           | Inr fits \<Rightarrow> if fits then ok a w else throw (UnauthorizedException ''Invalid password'') w))"

definition completeAdminLogin :: "ext \<Rightarrow> admin \<Rightarrow> world \<Rightarrow> (login_reply, world) result" where
  "completeAdminLogin e a w =
     (case role_id_of a w of
        None \<Rightarrow> throw (JsError ''TypeError'') w
      | Some r \<Rightarrow>
          let access = x_sign e (AdminJwt (entId a) (entId a) (Some r)) (access_expiry e)
          in and_then (generateRefreshToken e (entId a) Owner_Admin (revokeAllAdminTokens e (entId a) w))
               (\<lambda>refresh w1.
                  let w2 = w1\<lparr>admins := update_where (\<lambda>x. entId x = entId a)
                               (\<lambda>x. x\<lparr>a_lastLoginAt := Some (x_now e)\<rparr>) (admins w1)\<rparr>
                  in ok (Logged_In access refresh (entId a))
                       (log_audit e (entId a) LOGIN ''Admin logged in successfully'' (Some ''admin'') (Some (entId a)) w2)))"

definition adminLogin :: "ext \<Rightarrow> string \<Rightarrow> string \<Rightarrow> world \<Rightarrow> (login_reply, world) result" where
  "adminLogin e email password w =
     and_then (validateAdmin e email password w)
       (\<lambda>a w1.
          if isTwoFactorEnabled (entId a) w1
          then and_then (sendVerificationCode e (entId a) w1) (\<lambda>_ w2. ok (Needs_Two_Factor (entId a)) w2)
          else
            (case by_id (entId a) (admins w1) of
               None \<Rightarrow> throw (UnauthorizedException ''Admin not found'') w1
             | Some full \<Rightarrow> completeAdminLogin e full w1))"

definition verifyTwoFactorAndLogin :: "ext \<Rightarrow> uuid \<Rightarrow> string \<Rightarrow> world \<Rightarrow> (login_reply, world) result" where
  "verifyTwoFactorAndLogin e i code w =
     and_then (validateLoginCode e i code w)
       (\<lambda>valid w1.
          if \<not> valid then throw (UnauthorizedException ''Invalid or expired verification code'') w1
          else
            (case by_id i (admins w1) of
               None \<Rightarrow> throw (UnauthorizedException ''Admin not found'') w1
             | Some a \<Rightarrow> completeAdminLogin e a w1))"

section \<open>Profile and password\<close>

record admin_profile_dto =
  pa_fullName :: "string option"
  pa_email :: "string option"
  pa_password :: "string option"
  pa_profileImageUrl :: "string option"

definition updateProfile_admin ::
  "ext \<Rightarrow> uuid \<Rightarrow> admin_profile_dto \<Rightarrow> string option \<Rightarrow> world \<Rightarrow> (admin, world) result" where
  "updateProfile_admin e i dto file w =
     (case by_id i (admins w) of
        None \<Rightarrow> throw (NotFoundException ''Admin not found'') w
      | Some a \<Rightarrow>
          let existing = nullish (a_profileImageUrl a) '''';
              (url, w1) = resolveProfileImageUrl e file (pa_profileImageUrl dto) existing ''admins/profile'' w;
              updated = a\<lparr>a_fullName := nullish (pa_fullName dto) (a_fullName a),
                          a_email := nullish (pa_email dto) (a_email a),
                          a_profileImageUrl := Some url,
                          a_password := (if truthy (pa_password dto) then pa_password dto else a_password a)\<rparr>
          in and_then (update_admin e updated w1)
               (\<lambda>saved w2.
                  ok saved (log_audit e i UPDATE_PROFILE ''Admin profile updated successfully'' (Some ''admin'') (Some i)
                    (replaceProfileImage url existing w2))))"

definition changePassword_admin :: "ext \<Rightarrow> uuid \<Rightarrow> string \<Rightarrow> string \<Rightarrow> world \<Rightarrow> (unit, world) result" where
  "changePassword_admin e i current new w =
     (case by_id i (admins w) of
        None \<Rightarrow> throw (NotFoundException ''Admin not found'') w
      | Some a \<Rightarrow>
          (case compare_password e current (a_password a) of
             Inl err \<Rightarrow> throw err w
           | Inr fits \<Rightarrow>
               if \<not> fits then throw (BadRequestException ''Incorrect current password'') w
               else and_then (update_admin e (a\<lparr>a_password := Some new\<rparr>) w)
                      (\<lambda>_ w1. ok () (log_audit e i CHANGE_PASSWORD ''Admin password changed successfully''
                         (Some ''admin'') (Some i) (revokeAllAdminTokens e i w1)))))"

section \<open>Facts\<close>

text \<open>A login answers with tokens only to an administrator without a second factor, whose password fits;
  with a second factor the answer is that a code is needed, and no token is made or revoked.\<close>

theorem admin_login_reply:
  assumes "adminLogin e m p w = ok reply w'"
  shows "\<exists>a. admin_by_email m w = Some a \<and> (\<exists>h. a_password a = Some h \<and> x_compare e p h)
    \<and> (if isTwoFactorEnabled (entId a) w
       then reply = Needs_Two_Factor (entId a) \<and> refresh_tokens w' = refresh_tokens w
       else \<exists>access refresh. reply = Logged_In access refresh (entId a))"
proof -
  obtain a w1 where v: "validateAdmin e m p w = ok a w1"
    using assms by (cases "validateAdmin e m p w" rule: result_cases) (auto simp: adminLogin_def)
  then have a: "admin_by_email m w = Some a" "\<exists>h. a_password a = Some h \<and> x_compare e p h" and w1: "w1 = w"
    by (auto simp: validateAdmin_def compare_password_def split: option.splits if_splits)
  show ?thesis
  proof (cases "isTwoFactorEnabled (entId a) w")
    case True
    have "and_then (sendVerificationCode e (entId a) w) (\<lambda>_ w2. ok (Needs_Two_Factor (entId a)) w2) = ok reply w'"
      using assms v w1 True by (simp add: adminLogin_def)
    then have "reply = Needs_Two_Factor (entId a)" "sendVerificationCode e (entId a) w = ok () w'"
      by (cases "sendVerificationCode e (entId a) w" rule: result_cases; simp)+
    moreover from this(2) have "refresh_tokens w' = refresh_tokens w"
      by (auto simp: sendVerificationCode_def send_code_def emit_def split: option.splits if_splits)
    ultimately show ?thesis using a True by auto
  next
    case False
    obtain full where "completeAdminLogin e full w = ok reply w'" "entId full = entId a"
      using assms v w1 False by (auto simp: adminLogin_def dest: by_id_Some split: option.splits)
    then have "\<exists>access refresh. reply = Logged_In access refresh (entId a)"
      by (auto simp: completeAdminLogin_def Let_def and_then_eq_ok split: option.splits)
    then show ?thesis using a False by auto
  qed
qed

text \<open>A login ends the other sessions: the only refresh token of the administrator that is left open is the
  one just issued, and it is the digest of the token returned.\<close>

theorem admin_login_single_session:
  assumes "completeAdminLogin e a w = ok (Logged_In access refresh i) w'"
  shows "i = entId a \<and>
    (\<exists>t. refresh_tokens w' = refresh_tokens (revokeAllAdminTokens e i w) @ [t] \<and> t_token t = x_sha256 e refresh
       \<and> (\<forall>s \<in> set (refresh_tokens w'). t_adminId s = Some i \<and> \<not> t_isRevoked s \<longrightarrow> s = t))"
proof -
  have i: "i = entId a" using assms by (auto simp: completeAdminLogin_def Let_def and_then_eq_ok split: option.splits)
  obtain w1 where g: "generateRefreshToken e (entId a) Owner_Admin (revokeAllAdminTokens e (entId a) w) = ok refresh w1"
      and w': "refresh_tokens w' = refresh_tokens w1"
    using assms by (auto simp: completeAdminLogin_def Let_def and_then_eq_ok log_audit_def split: option.splits)
  then obtain t where t: "refresh_tokens w' = refresh_tokens (revokeAllAdminTokens e i w) @ [t]" "t_token t = x_sha256 e refresh"
    by (auto simp: generateRefreshToken_def Let_def i split: if_splits)
  moreover have "no_open_admin_tokens i (revokeAllAdminTokens e i w)" by simp
  ultimately show ?thesis using i unfolding no_open_admin_tokens_def by auto
qed

text \<open>An administrator who has confirmed his second factor cannot log in any more with the right password: the
  request fails where the code should have been sent.\<close>

theorem two_factor_login_impossible:
  assumes "verifyTwoFactor e i c w = ok b w'" and "admin_by_email m w' = Some a" and "entId a = i"
    and "a_password a = Some h" and "x_compare e' p h"
  shows "adminLogin e' m p w' = throw (BadRequestException ''Two-factor verification code is already sent'') w'"
proof -
  have "a \<in> set (admins w')" "live a" using assms(2) by (auto simp: admin_by_email_def dest: find_one_Some)
  then have "by_id i (admins w') \<noteq> None" using assms(3) by (auto simp: by_id_def find_one_None)
  then obtain a' where "by_id i (admins w') = Some a'" by blast
  from enabled_two_factor_sends_no_code_lemma [OF assms(1) this, of e']
  show ?thesis
    using assms(2-5) by (simp add: adminLogin_def validateAdmin_def compare_password_def)
qed

lemma admin_found_again:
  assumes "admin_by_email m w = Some a" and "live b" and "a_email b = m" and "entId a = i"
    and "\<And>x. x \<in> set (admins w) \<Longrightarrow> entId x = i \<Longrightarrow> x = a"
  shows "find_one (\<lambda>a. live a \<and> a_email a = m) (update_where (\<lambda>x. entId x = i) (\<lambda>_. b) (admins w)) = Some b"
proof -
  have a: "live a" "a_email a = m" using assms(1) by (auto simp: admin_by_email_def dest: find_one_Some)
  have "find_one (\<lambda>a. live a \<and> a_email a = m) (update_where (\<lambda>x. entId x = i) (\<lambda>_. b) (admins w))
      = map_option (\<lambda>x. if entId x = i then b else x) (find_one (\<lambda>a. live a \<and> a_email a = m) (admins w))"
  proof (rule find_one_update_where)
    fix x assume "x \<in> set (admins w)" "entId x = i"
    then have "x = a" by (rule assms(5))
    then show "(live b \<and> a_email b = m) = (live x \<and> a_email x = m)" using assms(2,3) a by simp
  qed
  then show ?thesis using assms(1,4) by (simp add: admin_by_email_def)
qed


section \<open>Examples\<close>

definition superadmin_role :: role where
  "superadmin_role =
     \<lparr>entId = ''superadmin'', createdAt = 0, deletedAt = None, r_name = ''Superadmin'', r_description = None, r_rank = 1\<rparr>"

definition auth_world :: world where
  "auth_world = sample_world
     \<lparr>roles := [superadmin_role], otp_records := [tf_sample],
      refresh_tokens := [\<lparr>entId = ''t0'', createdAt = 0, t_token = ''old'', t_userId = None, t_adminId = Some ''a1'',
        t_expiresAt = Some 1000000, t_isRevoked = False\<rparr>]\<rparr>"

theorem admin_login_reply_witness:
  "\<exists>access refresh. result_of (adminLogin (plain_ext 5) ''root@hotel'' ''hash'' auth_world) = Logged_In access refresh ''a1''"
proof -
  let ?r = "adminLogin (plain_ext 5) ''root@hotel'' ''hash'' auth_world"
  have s: "succeeds ?r" by code_simp
  have tf: "\<not> isTwoFactorEnabled ''a1'' auth_world" by code_simp
  obtain a where a: "admin_by_email ''root@hotel'' auth_world = Some a"
      "if isTwoFactorEnabled (entId a) auth_world
       then result_of ?r = Needs_Two_Factor (entId a) \<and> refresh_tokens (snd ?r) = refresh_tokens auth_world
       else \<exists>access refresh. result_of ?r = Logged_In access refresh (entId a)"
    using admin_login_reply [OF succeeds_ok [OF s]] by blast
  have "map_option entId (admin_by_email ''root@hotel'' auth_world) = Some ''a1''" by code_simp
  then have "entId a = ''a1''" unfolding a(1) by simp
  then show ?thesis using a(2) tf by simp
qed

theorem admin_login_single_session_witness:
  "let w' = snd (completeAdminLogin (plain_ext 5) sample_admin auth_world)
   in \<exists>t. \<forall>s \<in> set (refresh_tokens w'). t_adminId s = Some ''a1'' \<and> \<not> t_isRevoked s \<longrightarrow> s = t"
proof -
  let ?r = "completeAdminLogin (plain_ext 5) sample_admin auth_world"
  have "succeeds ?r" by code_simp
  moreover have "result_of ?r = Logged_In ''Aa1'' ''Fa1'' ''a1''" by code_simp
  ultimately have "?r = ok (Logged_In ''Aa1'' ''Fa1'' ''a1'') (snd ?r)" by (rule succeeds_ok_of)
  from admin_login_single_session [OF this] show ?thesis unfolding Let_def by blast
qed

theorem two_factor_login_impossible_witness:
  "fst (adminLogin (plain_ext 6) ''root@hotel'' ''hash''
      (snd (verifyTwoFactor (plain_ext 5) ''a1'' ''123456'' auth_world)))
   = Inl (BadRequestException ''Two-factor verification code is already sent'')"
proof -
  let ?r = "verifyTwoFactor (plain_ext 5) ''a1'' ''123456'' auth_world"
  have s: "succeeds ?r" by code_simp
  have m: "map_option (\<lambda>a. (entId a, a_password a)) (admin_by_email ''root@hotel'' (snd ?r)) = Some (''a1'', Some ''hash'')"
    by code_simp
  then obtain a where a: "admin_by_email ''root@hotel'' (snd ?r) = Some a" by (cases "admin_by_email ''root@hotel'' (snd ?r)") simp_all
  then have f: "entId a = ''a1''" "a_password a = Some ''hash''" using m unfolding a by simp_all
  have "x_compare (plain_ext 6) ''hash'' ''hash''" by (simp add: plain_ext_def)
  from two_factor_login_impossible [OF succeeds_ok [OF s] a f this] show ?thesis by (simp only: fst_throw)
qed


end
