(* ===== verification/Sms.thy ===== *)
theory Sms
  imports Auth_Base
begin

text \<open>
  \<open>src/src/common/utils/sms-pho-service.utils.ts\<close>: the text message service that sends and checks
  one-time codes.  \<open>x_sms_send to ttl\<close> is the request identifier the provider answers with, and
  \<open>x_sms_verify request code\<close> whether it confirms the code.  With mocks enabled the provider is not
  asked.  \<open>x_sms_configured\<close> says whether the running service has its configuration; the constructor that
  checks it is \<open>sms_constructor\<close> in the theory \<open>Config\<close>.
\<close>

definition MOCK_REQUEST_ID :: string where
  "MOCK_REQUEST_ID = DEFAULT_MOCK_OTP_CODE"

definition sendOTP :: "ext \<Rightarrow> string \<Rightarrow> string \<Rightarrow> int option \<Rightarrow> world \<Rightarrow> (string, world) result" where
  "sendOTP e dest message ttl w =
     (if isOtpMockEnabled e then ok MOCK_REQUEST_ID w
      else if \<not> x_sms_configured e then throw (InternalServerErrorException ''SMS provider is not configured'') w
      else
        let t = nullish ttl 300; w1 = emit (SmsRequest dest message t) w
        in case x_sms_send e dest t of
             None \<Rightarrow> throw (InternalServerErrorException ''Error when sending SMS'') w1
           | Some r \<Rightarrow> if r = '''' then throw (InternalServerErrorException ''Error when sending SMS'') w1
                      else ok r w1)"

definition verifyOTP :: "ext \<Rightarrow> string \<Rightarrow> string \<Rightarrow> exn + unit" where
  "verifyOTP e requestId code =
     (if isOtpMockEnabled e then
        if requestId = MOCK_REQUEST_ID \<and> code = getMockOtpCode e then Inr ()
        else Inl (BadRequestException ''Invalid OTP or request ID'')
      else if \<not> x_sms_configured e then Inl (InternalServerErrorException ''SMS provider is not configured'')
      else if x_sms_verify e requestId code then Inr ()
      else Inl (BadRequestException ''Invalid OTP or request ID''))"

lemma sendOTP_frame: "\<exists>es. snd (sendOTP e t m ttl w) = w\<lparr>effects := es\<rparr>"
  by (rule exI [of _ "effects (snd (sendOTP e t m ttl w))"])
     (simp add: sendOTP_def emit_def Let_def split: option.split)

lemma sendOTP_tables:
  assumes "sendOTP e t m ttl w = ok r w'"
  shows "users w' = users w" "admins w' = admins w" "roles w' = roles w" "otp_records w' = otp_records w"
    "refresh_tokens w' = refresh_tokens w" "r \<noteq> ''''"
  using assms sendOTP_frame [of e t m ttl w]
  by (auto simp: sendOTP_def MOCK_REQUEST_ID_def DEFAULT_MOCK_OTP_CODE_def Let_def split: option.splits if_splits)

end
