(* ===== verification/User_Auth.thy ===== *)
theory User_Auth
  imports Admin_Auth Sms
begin

text \<open>
  \<open>src/src/v1/auth/services/user-auth.service.ts\<close>: login, registration in stages, login through Google
  and Apple, profile, password and account deletion of a user.

  The verification of a Google or Apple token is an argument: a function from the token to its subject,
  mail and name, or \<open>None\<close>.
\<close>

section \<open>Login\<close>

definition completeUserLogin :: "ext \<Rightarrow> user \<Rightarrow> world \<Rightarrow> (string \<times> string \<times> uuid, world) result" where
  "completeUserLogin e u w =
     (let access = x_sign e (UserJwt (entId u) (entId u)) (access_expiry e)
      in and_then (generateRefreshToken e (entId u) Owner_User (revokeAllUserTokens e (entId u) False w))
           (\<lambda>refresh w1. ok (access, refresh, entId u)
              (log_activity e (entId u) LOGIN ''User logged in successfully'' w1)))"

definition user_by_email :: "string \<Rightarrow> world \<Rightarrow> user option" where
  "user_by_email m w = find_one (\<lambda>u. live u \<and> u_email u = Some m) (users w)"

definition userLogin :: "ext \<Rightarrow> string \<Rightarrow> string \<Rightarrow> world \<Rightarrow> (string \<times> string \<times> uuid, world) result" where
  "userLogin e email password w =
     (case user_by_email email w of
        None \<Rightarrow> throw (UnauthorizedException ''Invalid email or password'') w
      | Some u \<Rightarrow>
          if \<not> truthy (u_password u) then throw (UnauthorizedException ''Invalid email or password'') w
          else if \<not> x_compare e password (the (u_password u))
          then throw (UnauthorizedException ''Invalid email or password'') w
          else if u_isBanned u then throw (UnauthorizedException ''Your account has been banned'') w
          else
            let u1 = u\<lparr>u_lastLoginAt := Some (x_now e)\<rparr>
            in completeUserLogin e u1 (update_user e u1 w))"

section \<open>Google and Apple\<close>

datatype oauth_provider = Google | Apple

datatype oauth_reply =
    Setup_Required uuid
  | OAuth_Login "string \<times> string \<times> uuid"

definition provider_id :: "oauth_provider \<Rightarrow> user \<Rightarrow> string option" where
  "provider_id p u = (case p of Google \<Rightarrow> u_googleId u | Apple \<Rightarrow> u_appleId u)"

definition set_provider_id :: "oauth_provider \<Rightarrow> string option \<Rightarrow> user \<Rightarrow> user" where
  "set_provider_id p i u = (case p of Google \<Rightarrow> u\<lparr>u_googleId := i\<rparr> | Apple \<Rightarrow> u\<lparr>u_appleId := i\<rparr>)"

definition new_user :: "ext \<Rightarrow> user" where
  "new_user e =
     \<lparr>entId = x_new_id e, createdAt = x_now e, deletedAt = None, u_email = None, u_fullName = None,
      u_phone = None, u_password = None, u_isBanned = False, u_profileImageUrl = None, u_dateOfBirth = None,
      u_gender = None, u_preferLanguage = None, u_registrationStage = Some OTP_VERIFIED, u_fcmToken = None,
      u_lastLoginAt = None, u_lastLogoutAt = None, u_googleId = None, u_appleId = None,
      u_loginProvider = None, u_roleId = None\<rparr>"

definition oauth_user :: "oauth_provider \<Rightarrow> string \<Rightarrow> string option \<Rightarrow> world \<Rightarrow> user option" where
  "oauth_user p pid email w =
     find_one (\<lambda>u. live u \<and> (provider_id p u = Some pid \<or> truthy email \<and> u_email u = email)) (users w)"

definition handleOAuthLogin ::
  "ext \<Rightarrow> oauth_provider \<Rightarrow> string \<Rightarrow> string option \<Rightarrow> string option \<Rightarrow> string option \<Rightarrow> world \<Rightarrow> (oauth_reply, world) result" where
  "handleOAuthLogin e p pid email fullName fcmToken w =
     (case oauth_user p pid email w of
        None \<Rightarrow>
          and_then (insert_user e (set_provider_id p (Some pid) ((new_user e)
                \<lparr>u_email := email, u_fullName := fullName, u_registrationStage := Some PASSWORD_SET,
                 u_fcmToken := fcmToken, u_loginProvider := Some (case p of Google \<Rightarrow> GOOGLE | Apple \<Rightarrow> APPLE),
                 u_lastLoginAt := Some (x_now e)\<rparr>)) w)
            (\<lambda>u w1. ok (Setup_Required (entId u)) w1)
      | Some u \<Rightarrow>
          if u_isBanned u then throw (UnauthorizedException ''Your account has been banned'') w
          else
            let w1 = (if truthy (provider_id p u) then w
                      else w\<lparr>users := update_where (\<lambda>x. entId x = entId u) (set_provider_id p (Some pid)) (users w)\<rparr>);
                u1 = (if truthy fcmToken then u\<lparr>u_fcmToken := fcmToken\<rparr> else u)
            in if u_registrationStage u1 = Some PASSWORD_SET
               then ok (Setup_Required (entId u1)) (update_user e u1 w1)
               else
                 let u2 = u1\<lparr>u_lastLoginAt := Some (x_now e)\<rparr>;
                     w2 = log_activity e (entId u2) LOGIN ''User logged in via provider successfully'' (update_user e u2 w1)
                 in and_then (completeUserLogin e u2 w2) (\<lambda>r w3. ok (OAuth_Login r) w3))"

definition userGoogleLogin ::
  "ext \<Rightarrow> (string \<Rightarrow> (string \<times> string option \<times> string option) option) \<Rightarrow> string \<Rightarrow> string option \<Rightarrow> world \<Rightarrow> (oauth_reply, world) result" where
  "userGoogleLogin e verify token fcmToken w =
     (case verify token of
        None \<Rightarrow> throw (UnauthorizedException ''Invalid Google token'') w
      | Some (sub, email, name) \<Rightarrow>
          if sub = '''' then throw (UnauthorizedException ''Invalid Google token'') w
          else handleOAuthLogin e Google sub email name fcmToken w)"

definition userAppleLogin ::
  "ext \<Rightarrow> (string \<Rightarrow> (string \<times> string option) option) \<Rightarrow> string \<Rightarrow> string option \<Rightarrow> world \<Rightarrow> (oauth_reply, world) result" where
  "userAppleLogin e verify token fcmToken w =
     (case verify token of
        None \<Rightarrow> throw (UnauthorizedException ''Invalid Apple token'') w
      | Some (sub, email) \<Rightarrow>
          if sub = '''' then throw (UnauthorizedException ''Invalid Apple token'') w
          else handleOAuthLogin e Apple sub email None fcmToken w)"

section \<open>Registration\<close>

definition completed_with_phone :: "string \<Rightarrow> user \<Rightarrow> bool" where
  "completed_with_phone phone u \<longleftrightarrow> live u \<and> u_phone u = Some phone \<and> u_registrationStage u = Some COMPLETED"

definition register_message :: string where
  "register_message = ''[{brand}] Dear customer, your OTP code is {code} for register. It will expire in 30 minutes.''"

definition userRegisterOTPRequest :: "ext \<Rightarrow> string \<Rightarrow> world \<Rightarrow> (string, world) result" where
  "userRegisterOTPRequest e phone w =
     (if find_one (completed_with_phone phone) (users w) \<noteq> None
      then throw (UnauthorizedException ''User already exists'') w
      else sendOTP e phone register_message (Some 1800) w)"

definition customer_role :: "world \<Rightarrow> role option" where
  "customer_role w = find_one (\<lambda>r. live r \<and> r_name r = ''Customer'') (roles w)"

text \<open>The reply: the user, the stage reached, the stage to come.\<close>

definition userRegisterOTPVerify ::
  "ext \<Rightarrow> string \<Rightarrow> string \<Rightarrow> string \<Rightarrow> string \<Rightarrow> world \<Rightarrow> (uuid \<times> registration_stage \<times> registration_stage, world) result" where
  "userRegisterOTPVerify e phone otp fcmToken requestId w =
     (let existing = find_one (\<lambda>u. live u \<and> u_phone u = Some phone) (users w);
          fresh =
            (case verifyOTP e requestId otp of
               Inl err \<Rightarrow> throw err w
             | Inr _ \<Rightarrow>
                 (case customer_role w of
                    None \<Rightarrow> throw (InternalServerErrorException ''Registration is unavailable'') w
                  | Some r \<Rightarrow>
                      and_then (insert_user e ((new_user e)\<lparr>u_fcmToken := Some fcmToken, u_phone := Some phone,
                                  u_registrationStage := Some OTP_VERIFIED, u_roleId := Some (entId r)\<rparr>) w)
                        (\<lambda>u w1. ok (entId u, OTP_VERIFIED, PASSWORD_SET) w1)))
      in case existing of
           None \<Rightarrow> fresh
         | Some u \<Rightarrow>
             (case u_registrationStage u of
                Some OTP_VERIFIED \<Rightarrow> ok (entId u, OTP_VERIFIED, PASSWORD_SET) w
              | Some PASSWORD_SET \<Rightarrow> ok (entId u, PASSWORD_SET, COMPLETED) w
              | Some COMPLETED \<Rightarrow> throw (UnauthorizedException ''User is already ACCOUNT_SETUP and cannot be registered again'') w
              | None \<Rightarrow> fresh))"

definition at_stage :: "uuid \<Rightarrow> registration_stage \<Rightarrow> world \<Rightarrow> user option" where
  "at_stage i st w = find_one (\<lambda>u. live u \<and> entId u = i \<and> u_registrationStage u = Some st) (users w)"

definition userRegisterPasswordSetup ::
  "ext \<Rightarrow> uuid \<Rightarrow> string \<Rightarrow> string \<Rightarrow> world \<Rightarrow> (uuid \<times> registration_stage \<times> registration_stage, world) result" where
  "userRegisterPasswordSetup e i password confirmPassword w =
     (case at_stage i OTP_VERIFIED w of
        None \<Rightarrow> throw (UnauthorizedException ''User not found'') w
      | Some u \<Rightarrow>
          if password \<noteq> confirmPassword then throw (BadRequestException ''Passwords do not match'') w
          else ok (entId u, PASSWORD_SET, COMPLETED)
                 (update_user e (u\<lparr>u_password := Some password, u_registrationStage := Some PASSWORD_SET\<rparr>) w))"

record account_setup_dto =
  as_userId :: uuid
  as_email :: "string option"
  as_fullName :: string
  as_dateOfBirth :: string
  as_gender :: "string option"
  as_preferLanguage :: "string option"
  as_profileImageUrl :: "string option"
  as_fcmToken :: "string option"

definition userRegisterAccountSetup ::
  "ext \<Rightarrow> account_setup_dto \<Rightarrow> string option \<Rightarrow> world \<Rightarrow> (uuid \<times> string \<times> string \<times> uuid, world) result" where
  "userRegisterAccountSetup e dto file w =
     (case at_stage (as_userId dto) PASSWORD_SET w of
        None \<Rightarrow> throw (UnauthorizedException ''User not found'') w
      | Some u \<Rightarrow>
          let existing = or_default (u_profileImageUrl u) '''';
              (url, w1) = resolveProfileImageUrl e file (as_profileImageUrl dto) existing ''users/profile'' w;
              u1 = u\<lparr>u_email := keep_if_undefined (as_email dto) (u_email u), u_fullName := Some (as_fullName dto),
                     u_dateOfBirth := Some (as_dateOfBirth dto),
                     u_gender := keep_if_undefined (as_gender dto) (u_gender u),
                     u_preferLanguage := keep_if_undefined (as_preferLanguage dto) (u_preferLanguage u),
                     u_profileImageUrl := Some url, u_registrationStage := Some COMPLETED,
                     u_fcmToken := keep_if_undefined (as_fcmToken dto) (u_fcmToken u)\<rparr>;
              w2 = replaceProfileImage url existing (update_user e u1 w1);
              w3 = log_activity e (entId u1) REGISTER ''User registration completed'' w2
          in and_then (completeUserLogin e u1 w3) (\<lambda>login w4. ok (entId u1, login) w4))"

record register_dto =
  rg_phone :: string
  rg_password :: string
  rg_fullName :: string
  rg_email :: "string option"
  rg_dateOfBirth :: "string option"
  rg_gender :: "string option"
  rg_preferLanguage :: "string option"

definition userRegister ::
  "ext \<Rightarrow> register_dto \<Rightarrow> string option \<Rightarrow> world \<Rightarrow> (string \<times> string \<times> uuid, world) result" where
  "userRegister e dto file w =
     (if find_one (completed_with_phone (rg_phone dto)) (users w) \<noteq> None
      then throw (ConflictException ''User with this phone number already exists'') w
      else
        (case customer_role w of
           None \<Rightarrow> throw (InternalServerErrorException ''Registration is unavailable'') w
         | Some r \<Rightarrow>
             let (url, w1) = (case file of
                   None \<Rightarrow> ('''', w)
                 | Some f \<Rightarrow> (let (up, w') = uploadProfileImage e f ''users/profile'' w in (or_default up '''', w')))
             in and_then (insert_user e ((new_user e)
                    \<lparr>u_phone := Some (rg_phone dto), u_password := Some (rg_password dto), u_fullName := Some (rg_fullName dto),
                     u_email := rg_email dto, u_dateOfBirth := rg_dateOfBirth dto, u_gender := rg_gender dto,
                     u_preferLanguage := rg_preferLanguage dto, u_profileImageUrl := Some url,
                     u_roleId := Some (entId r), u_loginProvider := Some SMS,
                     u_registrationStage := Some COMPLETED, u_lastLoginAt := Some (x_now e)\<rparr>) w1)
                  (\<lambda>u w2. completeUserLogin e u (log_activity e (entId u) REGISTER ''User registered successfully'' w2))))"

section \<open>Profile, password, account\<close>

text \<open>
  \<open>UpdateProfileDto\<close> and \<open>UpdateUserDto\<close> are every field of \<open>CreateUserDto\<close>, each optional, and an optional
  field passes the validation as \<open>null\<close> too, except \<open>isBanned\<close>, which its transformation makes undefined.
\<close>

record profile_dto =
  pd_email :: "string field"
  pd_fullName :: "string field"
  pd_password :: "string field"
  pd_phone :: "string field"
  pd_dateOfBirth :: "string field"
  pd_gender :: "string field"
  pd_isBanned :: "bool option"
  pd_profileImageUrl :: "string field"
  pd_loginProvider :: "login_provider field"

text \<open>\<open>preload\<close>: the row with the defined fields of the request written over it.\<close>

definition preload_user :: "profile_dto \<Rightarrow> string \<Rightarrow> user \<Rightarrow> user" where
  "preload_user dto url u =
     u\<lparr>u_email := patch_nullable (pd_email dto) (u_email u),
       u_fullName := patch_nullable (pd_fullName dto) (u_fullName u),
       u_password := patch_nullable (pd_password dto) (u_password u),
       u_phone := patch_nullable (pd_phone dto) (u_phone u),
       u_dateOfBirth := patch_nullable (pd_dateOfBirth dto) (u_dateOfBirth u),
       u_gender := patch_nullable (pd_gender dto) (u_gender u),
       u_isBanned := nullish (pd_isBanned dto) (u_isBanned u),
       u_loginProvider := patch_nullable (pd_loginProvider dto) (u_loginProvider u),
       u_profileImageUrl := Some url\<rparr>"

text \<open>\<open>if (dto.password) updatedUser.password = dto.password\<close> and \<open>save\<close>: the phone is \<open>NOT NULL\<close>.\<close>

definition set_password :: "profile_dto \<Rightarrow> user \<Rightarrow> user" where
  "set_password dto u =
     (if truthy (field_value (pd_password dto)) then u\<lparr>u_password := field_value (pd_password dto)\<rparr> else u)"

definition save_preloaded :: "ext \<Rightarrow> profile_dto \<Rightarrow> user \<Rightarrow> world \<Rightarrow> (user, world) result" where
  "save_preloaded e dto u w =
     (if pd_phone dto = Null then throw (QueryFailedError ''23502'') w
      else ok (with_hashed_password e (set_password dto u)) (update_user e (set_password dto u) w))"

definition updateProfile_user ::
  "ext \<Rightarrow> uuid \<Rightarrow> profile_dto \<Rightarrow> string option \<Rightarrow> world \<Rightarrow> (user, world) result" where
  "updateProfile_user e i dto file w =
     (case by_id i (users w) of
        None \<Rightarrow> throw (NotFoundException ''User not found'') w
      | Some u \<Rightarrow>
          let existing = or_default (u_profileImageUrl u) '''';
              (url, w1) = resolveProfileImageUrl e file (field_value (pd_profileImageUrl dto)) existing ''users/profile'' w
          in and_then (save_preloaded e dto (preload_user dto url u) w1)
               (\<lambda>saved w2.
                  ok saved (log_activity e i UPDATE_PROFILE ''User profile updated successfully''
                    (replaceProfileImage url existing w2))))"

definition changePassword_user :: "ext \<Rightarrow> uuid \<Rightarrow> string \<Rightarrow> string \<Rightarrow> world \<Rightarrow> (unit, world) result" where
  "changePassword_user e i current new w =
     (case by_id i (users w) of
        None \<Rightarrow> throw (NotFoundException ''User not found'') w
      | Some u \<Rightarrow>
          (case compare_password e current (u_password u) of
             Inl err \<Rightarrow> throw err w
           | Inr fits \<Rightarrow>
               if \<not> fits then throw (BadRequestException ''Incorrect current password'') w
               else ok () (log_activity e i CHANGE_PASSWORD ''User password changed successfully''
                      (revokeAllUserTokens e i True (update_user e (u\<lparr>u_password := Some new\<rparr>) w)))))"

definition deleteProfile :: "ext \<Rightarrow> uuid \<Rightarrow> world \<Rightarrow> (unit, world) result" where
  "deleteProfile e i w =
     (case by_id i (users w) of
        None \<Rightarrow> throw (NotFoundException ''User not found'') w
      | Some u \<Rightarrow>
          let w1 = log_activity e i DELETE_ACCOUNT ''User account deleted successfully'' w;
              w2 = deleteProfileImage (or_default (u_profileImageUrl u) '''') (revokeAllUserTokens e i True w1)
          in ok () (w2\<lparr>users := update_where (\<lambda>x. entId x = i) (\<lambda>x. x\<lparr>deletedAt := Some (x_now e)\<rparr>) (users w2)\<rparr>))"

text \<open>The caller is whoever the token names, an administrator too.\<close>

definition logout :: "ext \<Rightarrow> string \<Rightarrow> uuid \<Rightarrow> world \<Rightarrow> world" where
  "logout e refreshToken i w = revokeAllUserTokens e i True (revokeToken e refreshToken w)"

section \<open>Facts\<close>

lemma completeUserLogin_ok:
  assumes "completeUserLogin e u w = ok (access, refresh, i) w'"
  shows "i = entId u \<and> access = x_sign e (UserJwt i i) (access_expiry e)
    \<and> (\<exists>t. refresh_tokens w' = refresh_tokens (revokeAllUserTokens e i False w) @ [t] \<and> t_token t = x_sha256 e refresh
         \<and> t_userId t = Some i)"
  using assms
  by (auto simp: completeUserLogin_def generateRefreshToken_def Let_def log_activity_def split: if_splits)


text \<open>C14: a deleted account is gone: the user is not found any more, and no refresh token, whoever holds it,
  yields an access token for him.\<close>

theorem deleted_account_is_closed:
  assumes "deleteProfile e i w = ok () w'" and "i \<notin> set (ids (admins w))"
  shows "by_id i (users w') = None \<and> refreshAccessToken e' s w' \<noteq> ok (tok, i) w''"
proof -
  obtain u where u: "by_id i (users w) = Some u"
    using assms(1) by (cases "by_id i (users w)") (simp_all add: deleteProfile_def)
  have w': "w' = (let w2 = deleteProfileImage (or_default (u_profileImageUrl u) '''')
            (revokeAllUserTokens e i True (log_activity e i DELETE_ACCOUNT ''User account deleted successfully'' w))
        in w2\<lparr>users := update_where (\<lambda>x. entId x = i) (\<lambda>x. x\<lparr>deletedAt := Some (x_now e)\<rparr>) (users w2)\<rparr>)"
    using assms(1) by (simp add: deleteProfile_def Let_def u)
  let ?w1 = "revokeAllUserTokens e i True (log_activity e i DELETE_ACCOUNT ''User account deleted successfully'' w)"
  let ?w2 = "deleteProfileImage (or_default (u_profileImageUrl u) '''') ?w1"
  note d = same_tablesD [OF delete_same_tables [of ?w1 "or_default (u_profileImageUrl u) ''''"]]
  have users: "users w' = update_where (\<lambda>x. entId x = i) (\<lambda>x. x\<lparr>deletedAt := Some (x_now e)\<rparr>) (users ?w2)"
    by (simp add: w' Let_def)
  have gone: "by_id i (users w') = None"
    unfolding users by (rule by_id_soft_deleted) simp_all
  have "admins w' = admins ?w1" by (simp add: w' Let_def d)
  also have "\<dots> = admins w" by (simp add: revokeAllUserTokens_def log_activity_def Let_def)
  finally have "admins w' = admins w" .
  then have "by_id i (admins w') = None" using assms(2) by (auto simp: by_id_def find_one_None ids_def)
  moreover have "(\<exists>a. by_id i (admins w') = Some a) \<or> (\<exists>u. by_id i (users w') = Some u)"
    if "refreshAccessToken e' s w' = ok (tok, i) w''"
    using refreshed_owner [OF that] .
  ultimately have "refreshAccessToken e' s w' \<noteq> ok (tok, i) w''" using gone by force
  then show ?thesis using gone by blast
qed

text \<open>Nobody can sign up through Google or Apple: a user found neither by the provider's identifier nor by
  mail is inserted without a phone and without a role, which the table does not allow.\<close>

theorem oauth_signup_fails:
  assumes "oauth_user p pid email w = None"
  shows "handleOAuthLogin e p pid email fullName fcmToken w = throw (QueryFailedError ''23502'') w"
  using assms
  by (cases p) (simp_all add: handleOAuthLogin_def insert_user_def set_provider_id_def new_user_def)

lemma set_password_simps [simp]:
  "entId (set_password dto u) = entId u" "live (set_password dto u) = live u" "u_isBanned (set_password dto u) = u_isBanned u"
  "u_profileImageUrl (set_password dto u) = u_profileImageUrl u" "u_phone (set_password dto u) = u_phone u"
  by (simp_all add: set_password_def live_def)

lemma preload_user_simps [simp]:
  "entId (preload_user dto url u) = entId u" "live (preload_user dto url u) = live u"
  "u_isBanned (preload_user dto url u) = nullish (pd_isBanned dto) (u_isBanned u)"
  "u_profileImageUrl (preload_user dto url u) = Some url"
  by (simp_all add: preload_user_def live_def)

lemma updateProfile_no_image:
  assumes "by_id i (users w) = Some u" and "pd_profileImageUrl dto = Undef" and "pd_phone dto \<noteq> Null"
  shows "updateProfile_user e i dto None w
    = (let u2 = set_password dto (preload_user dto (or_default (u_profileImageUrl u) '''') u)
       in ok (with_hashed_password e u2)
            (log_activity e i UPDATE_PROFILE ''User profile updated successfully'' (update_user e u2 w)))"
  using assms by (simp add: updateProfile_user_def resolveProfileImageUrl_def replaceProfileImage_def save_preloaded_def Let_def)

text \<open>A user can clear his own ban: the profile accepts every field of the administrators' form, the ban
  among them.\<close>

theorem profile_clears_ban:
  assumes "by_id i (users w) = Some u" and "pd_isBanned dto = Some False" and "pd_profileImageUrl dto = Undef"
    and "pd_phone dto \<noteq> Null"
  shows "\<exists>u'. by_id i (users (snd (updateProfile_user e i dto None w))) = Some u' \<and> \<not> u_isBanned u'"
proof -
  let ?u = "set_password dto (preload_user dto (or_default (u_profileImageUrl u) '''') u)"
  have i: "live u" "entId u = i" using by_id_Some [OF assms(1)] by auto
  have "by_id i (save_row (with_hashed_password e ?u) (users w)) = Some (with_hashed_password e ?u)"
    by (rule by_id_save_row [OF assms(1)]) (use i in simp_all)
  moreover have "\<not> u_isBanned (with_hashed_password e ?u)"
    using assms(2) by (simp add: with_hashed_password_def)
  ultimately show ?thesis
    by (simp add: updateProfile_no_image [OF assms(1,3,4)] Let_def log_activity_def update_user_def)
qed

text \<open>Any object of the bucket can be deleted through the profile: the key of the own picture is a
  field of the form, and the old picture is deleted when a new key replaces it.\<close>

theorem profile_deletes_any_object:
  assumes "by_id i (users w) = Some u" and "u_profileImageUrl u = Some k" and "js_trim k \<noteq> ''''"
    and "pd_profileImageUrl dto = Val k'" and "k' \<noteq> ''''" and "k \<noteq> k'" and "pd_phone dto \<noteq> Null"
  shows "S3Delete k \<in> set (effects (snd (updateProfile_user e i dto None w)))
    \<and> u_profileImageUrl (result_of (updateProfile_user e i dto None w)) = Some k'"
proof -
  have "k \<noteq> ''''" using assms(3) by auto
  then show ?thesis
    using assms
    by (simp add: updateProfile_user_def resolveProfileImageUrl_def replaceProfileImage_def s3_deleteObject_def
        Let_def log_activity_def emit_def or_default_def update_user_def save_preloaded_def with_hashed_password_def)
qed

section \<open>Examples\<close>

definition member :: user where
  "member = (sample_user ''u1'' ''+959111'')\<lparr>u_email := Some ''guest@hotel'', u_profileImageUrl := Some ''users/profile/x''\<rparr>"

definition member_world :: world where
  "member_world = sample_world\<lparr>users := [member]\<rparr>"

definition no_changes :: profile_dto where
  "no_changes =
     \<lparr>pd_email = Undef, pd_fullName = Undef, pd_password = Undef, pd_phone = Undef, pd_dateOfBirth = Undef,
      pd_gender = Undef, pd_isBanned = None, pd_profileImageUrl = Undef, pd_loginProvider = Undef\<rparr>"

lemma member_found: "by_id ''u1'' (users member_world) = Some member"
  by (simp add: member_world_def member_def sample_user_def by_id_def live_def)


theorem deleted_account_is_closed_witness:
  "by_id ''u1'' (users (snd (deleteProfile (plain_ext 5) ''u1'' member_world))) = None"
proof -
  let ?r = "deleteProfile (plain_ext 5) ''u1'' member_world"
  have "succeeds ?r" by code_simp
  then have ok: "?r = ok () (snd ?r)" by (rule succeeds_unit)
  have "''u1'' \<notin> set (ids (admins member_world))"
    by (simp add: member_world_def sample_world_def empty_world_def sample_admin_def)
  from deleted_account_is_closed [OF ok this] show ?thesis by blast
qed

theorem oauth_signup_fails_witness:
  "handleOAuthLogin (plain_ext 5) Google ''sub-1'' (Some ''new@hotel'') (Some ''New'') None member_world
    = throw (QueryFailedError ''23502'') member_world"
proof -
  have "map_option entId (oauth_user Google ''sub-1'' (Some ''new@hotel'') member_world) = None" by code_simp
  then have "oauth_user Google ''sub-1'' (Some ''new@hotel'') member_world = None" by simp
  then show ?thesis by (rule oauth_signup_fails)
qed

theorem profile_clears_ban_witness:
  "\<exists>u'. by_id ''u1'' (users (snd (updateProfile_user (plain_ext 5) ''u1'' (no_changes\<lparr>pd_isBanned := Some False\<rparr>) None
       (member_world\<lparr>users := [member\<lparr>u_isBanned := True\<rparr>]\<rparr>)))) = Some u' \<and> \<not> u_isBanned u'"
  by (rule profile_clears_ban)
     (simp_all add: no_changes_def member_def sample_user_def by_id_def live_def)

theorem profile_deletes_any_object_witness:
  "S3Delete ''users/profile/x'' \<in> set (effects (snd (updateProfile_user (plain_ext 5) ''u1''
       (no_changes\<lparr>pd_profileImageUrl := Val ''hotels/logo''\<rparr>) None member_world)))"
proof -
  have "u_profileImageUrl member = Some ''users/profile/x''" by (simp add: member_def)
  moreover have "js_trim ''users/profile/x'' \<noteq> ''''" by code_simp
  ultimately show ?thesis
    using profile_deletes_any_object [OF member_found, of _ "no_changes\<lparr>pd_profileImageUrl := Val ''hotels/logo''\<rparr>"]
    by (simp add: no_changes_def)
qed

end
