(* ===== verification/Access.thy ===== *)
theory Access
  imports Auth_Base
begin

text \<open>
  Who may call what: \<open>src/src/v1/auth/strategies/jwt.strategy.ts\<close> and the guards of
  \<open>src/src/v1/auth/guards\<close>.

  \<open>validate\<close> turns the claims of a token into the caller, whose permissions are read from the tables at
  every request.  Rows that are soft deleted are left out of a relation.
\<close>

section \<open>The role of an account\<close>

text \<open>\<open>role.rolePermissions.permission.module\<close>: module code and action of each row of the role.\<close>

definition permission_pair :: "uuid \<Rightarrow> world \<Rightarrow> (permission_module \<times> action_type) option" where
  "permission_pair i w =
     (case by_id i (permissions w) of None \<Rightarrow> None
      | Some p \<Rightarrow> (case by_id (p_moduleId p) (modules w) of None \<Rightarrow> None
                 | Some m \<Rightarrow> Some (m_code m, p_action p)))"

definition role_pairs :: "uuid \<Rightarrow> world \<Rightarrow> (permission_module \<times> action_type) list" where
  "role_pairs i w =
     List.map_filter (\<lambda>rp. if rp_roleId rp = i then permission_pair (rp_permissionId rp) w else None) (role_permissions w)"

definition role_view_of :: "uuid \<Rightarrow> world \<Rightarrow> role_view option" where
  "role_view_of i w =
     (case by_id i (roles w) of None \<Rightarrow> None
      | Some r \<Rightarrow> Some \<lparr>rv_id = i, rv_name = r_name r, rv_rank = r_rank r, rv_permissions = role_pairs i w\<rparr>)"

definition user_role :: "user \<Rightarrow> world \<Rightarrow> role_view option" where
  "user_role u w = (case u_roleId u of None \<Rightarrow> None | Some i \<Rightarrow> role_view_of i w)"

section \<open>The strategy\<close>

text \<open>The claims \<open>subjectType\<close> and \<open>adminId\<close>, \<open>userId\<close>; a reset token has no \<open>subjectType\<close>.\<close>

definition validate :: "jwt_payload \<Rightarrow> world \<Rightarrow> exn + authenticated_user" where
  "validate payload w =
     (case payload of
        AdminJwt sub adminId _ \<Rightarrow>
          if adminId = '''' then Inl (UnauthorizedException ''Invalid token'')
          else (case by_id adminId (admins w) of
             None \<Rightarrow> Inl (UnauthorizedException ''Invalid token'')
           | Some a \<Rightarrow> Inr \<lparr>cu_id = entId a, cu_subjectType = Some ADMIN, cu_role = role_view_of (a_roleId a) w\<rparr>)
      | UserJwt sub userId \<Rightarrow>
          if userId = '''' then Inl (UnauthorizedException ''Invalid token'')
          else (case by_id userId (users w) of
             None \<Rightarrow> Inl (UnauthorizedException ''Invalid token'')
           | Some u \<Rightarrow> Inr \<lparr>cu_id = entId u, cu_subjectType = Some USER, cu_role = user_role u w\<rparr>)
      | ResetJwt _ _ \<Rightarrow> Inl (UnauthorizedException ''Invalid token''))"

section \<open>The guards\<close>

text \<open>
  \<open>JwtAuthGuard\<close>: a public route passes without a caller; otherwise the bearer token is verified and
  validated.
\<close>

definition jwt_auth_guard :: "ext \<Rightarrow> bool \<Rightarrow> string option \<Rightarrow> world \<Rightarrow> exn + authenticated_user option" where
  "jwt_auth_guard e is_public token w =
     (if is_public then Inr None
      else
        (case token of None \<Rightarrow> Inl (UnauthorizedException ''Unauthorized'')
         | Some s \<Rightarrow>
             (case x_verify e s (x_now e) of None \<Rightarrow> Inl (UnauthorizedException ''Unauthorized'')
              | Some payload \<Rightarrow>
                  (case validate payload w of Inl err \<Rightarrow> Inl err | Inr cu \<Rightarrow> Inr (Some cu)))))"

definition checkObjectPermission :: "permission_module \<times> action_type \<Rightarrow> role_view \<Rightarrow> bool" where
  "checkObjectPermission req rv \<longleftrightarrow> list_ex (\<lambda>p. fst p = fst req \<and> snd p = snd req) (rv_permissions rv)"

definition permissions_guard ::
  "(permission_module \<times> action_type) list option \<Rightarrow> authenticated_user option \<Rightarrow> exn + unit" where
  "permissions_guard required caller =
     (case required of None \<Rightarrow> Inr ()
      | Some reqs \<Rightarrow>
          (case caller of
             None \<Rightarrow> Inl (ForbiddenException ''Access denied: No permissions'')
           | Some cu \<Rightarrow>
               (case cu_role cu of
                  None \<Rightarrow> Inl (ForbiddenException ''Access denied: No permissions'')
                | Some rv \<Rightarrow>
                    if list_ex (\<lambda>req. checkObjectPermission req rv) reqs then Inr ()
                    else Inl (ForbiddenException ''Access denied: Insufficient permissions''))))"

definition roles_guard :: "string list option \<Rightarrow> authenticated_user option \<Rightarrow> exn + unit" where
  "roles_guard required caller =
     (case required of None \<Rightarrow> Inr ()
      | Some names \<Rightarrow>
          (case caller of
             None \<Rightarrow> Inl (ForbiddenException ''Access denied: No role assigned'')
           | Some cu \<Rightarrow>
               (case cu_role cu of
                  None \<Rightarrow> Inl (ForbiddenException ''Access denied: No role assigned'')
                | Some rv \<Rightarrow>
                    if List.member names (rv_name rv) then Inr ()
                    else Inl (ForbiddenException ''Access denied: Insufficient role''))))"

definition role_rank :: "role_view option \<Rightarrow> int" where
  "role_rank r = (case r of None \<Rightarrow> 99 | Some rv \<Rightarrow> rv_rank rv)"

definition resource_ownership_guard ::
  "bool \<Rightarrow> string option \<Rightarrow> authenticated_user \<Rightarrow> world \<Rightarrow> exn + unit" where
  "resource_ownership_guard check targetId cu w =
     (if \<not> check \<or> \<not> truthy targetId then Inr ()
      else
        let i = the targetId
        in case cu_subjectType cu of
             Some USER \<Rightarrow>
               if cu_id cu \<noteq> i then Inl (ForbiddenException ''You do not have permission to access this resource'')
               else Inr ()
           | Some ADMIN \<Rightarrow>
               (case by_id i (admins w) of
                  None \<Rightarrow> Inr ()
                | Some a \<Rightarrow>
                    if role_rank (role_view_of (a_roleId a) w) < role_rank (cu_role cu)
                    then Inl (ForbiddenException ''You do not have sufficient privileges to modify this admin'')
                    else Inr ())
           | None \<Rightarrow> Inr ())"

section \<open>Facts\<close>

text \<open>A pair of the view is a row of the role, its live permission and the live module of it.\<close>

lemma permission_pair_Some:
  "permission_pair i w = Some (m, a) \<longleftrightarrow>
     (\<exists>p md. by_id i (permissions w) = Some p \<and> by_id (p_moduleId p) (modules w) = Some md \<and> m = m_code md \<and> a = p_action p)"
  by (auto simp: permission_pair_def split: option.splits)

lemma in_map_filter: "y \<in> set (List.map_filter f xs) \<longleftrightarrow> (\<exists>x \<in> set xs. f x = Some y)"
  by (force simp: List.map_filter_def)

lemma in_role_pairs:
  "x \<in> set (role_pairs i w) \<longleftrightarrow>
     (\<exists>rp \<in> set (role_permissions w). rp_roleId rp = i \<and> permission_pair (rp_permissionId rp) w = Some x)"
  unfolding role_pairs_def in_map_filter by (auto split: if_splits)

lemma role_view_of_Some:
  "role_view_of i w = Some rv \<longleftrightarrow> (\<exists>r. by_id i (roles w) = Some r
     \<and> rv = \<lparr>rv_id = i, rv_name = r_name r, rv_rank = r_rank r, rv_permissions = role_pairs i w\<rparr>)"
  by (auto simp: role_view_of_def split: option.splits)

lemma permissions_guard_iff:
  "permissions_guard (Some reqs) caller = Inr () \<longleftrightarrow>
     (\<exists>cu rv. caller = Some cu \<and> cu_role cu = Some rv \<and> set reqs \<inter> set (rv_permissions rv) \<noteq> {})"
proof -
  have "list_ex (\<lambda>req. checkObjectPermission req rv) reqs \<longleftrightarrow> set reqs \<inter> set (rv_permissions rv) \<noteq> {}" for rv
    by (auto simp: checkObjectPermission_def list_ex_iff prod_eq_iff)
  then show ?thesis by (auto simp: permissions_guard_def split: option.splits)
qed

lemma validate_admin:
  "validate (AdminJwt s i r) w = Inr cu \<longleftrightarrow>
     i \<noteq> '''' \<and> (\<exists>a. by_id i (admins w) = Some a
       \<and> cu = \<lparr>cu_id = i, cu_subjectType = Some ADMIN, cu_role = role_view_of (a_roleId a) w\<rparr>)"
  by (auto simp: validate_def split: option.splits dest: by_id_Some)

lemma validate_user:
  "validate (UserJwt s i) w = Inr cu \<longleftrightarrow>
     i \<noteq> '''' \<and> (\<exists>u. by_id i (users w) = Some u
       \<and> cu = \<lparr>cu_id = i, cu_subjectType = Some USER, cu_role = user_role u w\<rparr>)"
  by (auto simp: validate_def split: option.splits dest: by_id_Some)

lemma jwt_auth_guard_iff:
  "jwt_auth_guard e False (Some s) w = Inr (Some cu) \<longleftrightarrow>
     (\<exists>sub i r a. x_verify e s (x_now e) = Some (AdminJwt sub i r) \<and> i \<noteq> '''' \<and> by_id i (admins w) = Some a
        \<and> cu = \<lparr>cu_id = i, cu_subjectType = Some ADMIN, cu_role = role_view_of (a_roleId a) w\<rparr>)
     \<or> (\<exists>sub i u. x_verify e s (x_now e) = Some (UserJwt sub i) \<and> i \<noteq> '''' \<and> by_id i (users w) = Some u
        \<and> cu = \<lparr>cu_id = i, cu_subjectType = Some USER, cu_role = user_role u w\<rparr>)"
proof (cases "x_verify e s (x_now e)")
  case None
  then show ?thesis by (simp add: jwt_auth_guard_def)
next
  case (Some payload)
  then show ?thesis
    by (cases payload) (auto simp: jwt_auth_guard_def validate_def split: option.splits dest: by_id_Some)
qed

text \<open>C12: a password-reset token never passes for an access token, and neither does the access token of an account
  that was deleted; whether the account is banned is not looked at.\<close>

theorem token_gives_live_account:
  "jwt_auth_guard e False (Some s) w = Inr (Some cu) \<longleftrightarrow>
     (\<exists>sub i r a. x_verify e s (x_now e) = Some (AdminJwt sub i r) \<and> i \<noteq> '''' \<and> by_id i (admins w) = Some a
        \<and> cu = \<lparr>cu_id = i, cu_subjectType = Some ADMIN, cu_role = role_view_of (a_roleId a) w\<rparr>)
     \<or> (\<exists>sub i u. x_verify e s (x_now e) = Some (UserJwt sub i) \<and> i \<noteq> '''' \<and> by_id i (users w) = Some u
        \<and> cu = \<lparr>cu_id = i, cu_subjectType = Some USER, cu_role = user_role u w\<rparr>)"
  by (rule jwt_auth_guard_iff)

end
