(* ===== verification/Audit_Values.thy ===== *)
theory Audit_Values
  imports Entities
begin

text \<open>
  \<open>src/src/v1/log/utils/audit-log-metadata.util.ts\<close>: what changed in an update.  A service attaches the old and
  the new values to the entity it returns; the interceptor of the logs takes them off again.
\<close>

record audit_metadata =
  am_oldValue :: "json option"
  am_newValue :: "json option"

definition AUDIT_LOG_METADATA :: string where
  "AUDIT_LOG_METADATA = ''__auditLogMetadata''"

text \<open>The attached property as a value.\<close>

definition metadata_json :: "audit_metadata \<Rightarrow> json" where
  "metadata_json m =
     JObj ((case am_oldValue m of None \<Rightarrow> [] | Some v \<Rightarrow> [(''oldValue'', v)])
         @ (case am_newValue m of None \<Rightarrow> [] | Some v \<Rightarrow> [(''newValue'', v)]))"

definition defined :: "json \<Rightarrow> json option" where
  "defined j = (if j = JUndef then None else Some j)"

definition metadata_of_json :: "json \<Rightarrow> audit_metadata" where
  "metadata_of_json j =
     \<lparr>am_oldValue = defined (field_of ''oldValue'' j), am_newValue = defined (field_of ''newValue'' j)\<rparr>"

definition attachAuditLogMetadata :: "json \<Rightarrow> audit_metadata \<Rightarrow> json" where
  "attachAuditLogMetadata result m = with_field AUDIT_LOG_METADATA (metadata_json m) result"

text \<open>The values taken off and the result without them.\<close>

definition consumeAuditLogMetadata :: "json \<Rightarrow> audit_metadata \<times> json" where
  "consumeAuditLogMetadata result =
     (if \<not> is_object result then (\<lparr>am_oldValue = None, am_newValue = None\<rparr>, result)
      else (metadata_of_json (field_of AUDIT_LOG_METADATA result), without_field AUDIT_LOG_METADATA result))"

text \<open>\<open>[...new Set(fields)]\<close>: the first occurrences.\<close>

definition first_occurrences :: "'a list \<Rightarrow> 'a list" where
  "first_occurrences xs = rev (remdups (rev xs))"

definition auditable_fields :: "string list \<Rightarrow> string list" where
  "auditable_fields fs = filter (\<lambda>f. f \<noteq> ''password'') (first_occurrences fs)"

definition changed_fields :: "json \<Rightarrow> json \<Rightarrow> string list \<Rightarrow> string list" where
  "changed_fields old new fs = filter (\<lambda>f. \<not> strict_eq (field_of f old) (field_of f new)) (auditable_fields fs)"

definition diffAuditValues :: "json \<Rightarrow> json \<Rightarrow> string list \<Rightarrow> audit_metadata" where
  "diffAuditValues old new fs =
     (let changed = changed_fields old new fs
      in \<lparr>am_oldValue = Some (JObj (map (\<lambda>f. (f, field_of f old)) changed)),
          am_newValue = Some (JObj (map (\<lambda>f. (f, field_of f new)) changed))\<rparr>)"

section \<open>Facts\<close>

lemma set_first_occurrences [simp]: "set (first_occurrences xs) = set xs"
  by (simp add: first_occurrences_def)

lemma distinct_first_occurrences [simp]: "distinct (first_occurrences xs)"
  by (simp add: first_occurrences_def)

lemma set_changed_fields:
  "f \<in> set (changed_fields old new fs)
     \<longleftrightarrow> f \<in> set fs \<and> f \<noteq> ''password'' \<and> \<not> strict_eq (field_of f old) (field_of f new)"
  by (auto simp: changed_fields_def auditable_fields_def)

lemma field_of_map: "field_of k (JObj (map (\<lambda>f. (f, g f)) fs)) = (if k \<in> set fs then g k else JUndef)"
proof -
  have "map_of (map (\<lambda>f. (f, g f)) fs) k = (if k \<in> set fs then Some (g k) else None)" by (induction fs) auto
  then show ?thesis by (simp add: field_of_def)
qed

text \<open>What is attached to an object comes off again, and nothing else does.\<close>

lemma consume_attached:
  assumes "AUDIT_LOG_METADATA \<notin> fst ` set kvs"
  shows "consumeAuditLogMetadata (attachAuditLogMetadata (JObj kvs) (diffAuditValues old new fs))
    = (diffAuditValues old new fs, JObj kvs)"
proof -
  let ?k = AUDIT_LOG_METADATA
  have set: "filter (\<lambda>kv. fst kv \<noteq> ?k) (set_entry ?k v kvs) = kvs" for v
    using assms by (induction kvs) (auto simp: image_iff)
  have get: "field_of ?k (JObj (set_entry ?k v kvs)) = v" for v
    by (simp add: field_of_def map_of_set_entry)
  have "metadata_of_json (metadata_json (diffAuditValues old new fs)) = diffAuditValues old new fs"
    by (simp add: metadata_of_json_def metadata_json_def diffAuditValues_def field_of_def defined_def Let_def)
  then show ?thesis
    by (simp add: consumeAuditLogMetadata_def attachAuditLogMetadata_def set get)
qed

text \<open>The audited values are exactly the requested fields that changed, each with its old and its new value;
  the password is never among them.\<close>

theorem diff_exact:
  "field_of f (the (am_oldValue (diffAuditValues old new fs)))
     = (if f \<in> set fs \<and> f \<noteq> ''password'' \<and> \<not> strict_eq (field_of f old) (field_of f new) then field_of f old else JUndef)
   \<and> field_of f (the (am_newValue (diffAuditValues old new fs)))
     = (if f \<in> set fs \<and> f \<noteq> ''password'' \<and> \<not> strict_eq (field_of f old) (field_of f new) then field_of f new else JUndef)
   \<and> distinct (map fst (entries (the (am_oldValue (diffAuditValues old new fs)))))"
proof -
  have "distinct (changed_fields old new fs)" by (simp add: changed_fields_def auditable_fields_def)
  then show ?thesis
    by (auto simp: diffAuditValues_def Let_def field_of_map set_changed_fields comp_def)
qed

end
