(* ===== verification/Accounts.thy ===== *)
theory Accounts
  imports User_Auth Admin_Auth Access Audit_Values Listing
begin

text \<open>
  \<open>src/src/v1/admin/services/admin.service.ts\<close> and \<open>src/src/v1/user/services/user.service.ts\<close>: the administrators'
  view of the accounts.  Lists, details, creation, change and soft removal; a change also yields the audited values.
\<close>

section \<open>Accounts as the audit sees them\<close>

definition admin_json :: "admin \<Rightarrow> json" where
  "admin_json a =
     JObj [(''id'', JStr (entId a)), (''createdAt'', JDate (createdAt a)), (''fullName'', JStr (a_fullName a)),
           (''password'', json_opt (a_password a)), (''email'', JStr (a_email a)),
           (''profileImageUrl'', json_opt (a_profileImageUrl a)), (''roleId'', JStr (a_roleId a)),
           (''isBanned'', JBool (a_isBanned a)), (''isTwoFactorEnabled'', JBool (a_isTwoFactorEnabled a))]"

definition provider_text :: "login_provider \<Rightarrow> string" where
  "provider_text p = (case p of SMS \<Rightarrow> ''SMS'' | GOOGLE \<Rightarrow> ''GOOGLE'' | APPLE \<Rightarrow> ''APPLE'')"

definition user_json :: "user \<Rightarrow> json" where
  "user_json u =
     JObj [(''id'', JStr (entId u)), (''createdAt'', JDate (createdAt u)), (''email'', json_opt (u_email u)),
           (''fullName'', json_opt (u_fullName u)), (''phone'', json_opt (u_phone u)),
           (''password'', json_opt (u_password u)), (''isBanned'', JBool (u_isBanned u)),
           (''profileImageUrl'', json_opt (u_profileImageUrl u)), (''dateOfBirth'', json_opt (u_dateOfBirth u)),
           (''gender'', json_opt (u_gender u)), (''loginProvider'', json_opt (map_option provider_text (u_loginProvider u)))]"

text \<open>\<open>Object.keys(dto)\<close>: the fields the body has.\<close>

definition key_if :: "string \<Rightarrow> bool \<Rightarrow> string list" where
  "key_if k present = (if present then [k] else [])"

section \<open>Administrators\<close>

record create_admin_dto =
  ca_fullName :: string
  ca_email :: string
  ca_password :: "string option"
  ca_roleId :: uuid
  ca_isBanned :: "bool option"
  ca_profileImageUrl :: "string option"

record update_admin_dto =
  ua_fullName :: "string field"
  ua_email :: "string field"
  ua_password :: "string field"
  ua_roleId :: "uuid field"
  ua_isBanned :: "bool option"
  ua_profileImageUrl :: "string field"

record account_filter = pagination +
  af_search :: "string option"
  af_isBanned :: "bool option"
  af_roleId :: "uuid option"
  af_startDate :: "range_date option"
  af_endDate :: "range_date option"

text \<open>The condition on the creation date.\<close>

definition in_range :: "range_date option \<Rightarrow> range_date option \<Rightarrow> time \<Rightarrow> bool" where
  "in_range from until t \<longleftrightarrow>
     (case from of None \<Rightarrow> True | Some d \<Rightarrow> parseRangeStart d \<le> t)
     \<and> (case until of None \<Rightarrow> True | Some d \<Rightarrow> t \<le> parseRangeEnd d)"

definition create_admin :: "ext \<Rightarrow> create_admin_dto \<Rightarrow> string option \<Rightarrow> world \<Rightarrow> (admin, world) result" where
  "create_admin e dto file w =
     (if admin_by_email (ca_email dto) w \<noteq> None then throw (ConflictException ''Admin already exists'') w
      else if by_id (ca_roleId dto) (roles w) = None then throw (NotFoundException ''Role not found'') w
      else
        let (url, w1) = resolveProfileImageUrl e file (ca_profileImageUrl dto) '''' ''admins/profile'' w;
            a = admin_with_hashed_password e
                  \<lparr>entId = x_new_id e, createdAt = x_now e, deletedAt = None, a_fullName = ca_fullName dto,
                   a_password = ca_password dto, a_email = ca_email dto, a_profileImageUrl = Some url,
                   a_roleId = ca_roleId dto, a_isBanned = nullish (ca_isBanned dto) False,
                   a_isTwoFactorEnabled = False, a_lastLoginAt = None, a_lastLogoutAt = None\<rparr>
        in if references (entId a) (admins w1) \<or> exists_by (\<lambda>x. a_email x = a_email a) (admins w1)
           then throw (QueryFailedError ''23505'') w1
           else ok a (w1\<lparr>admins := admins w1 @ [a]\<rparr>))"

definition fits_admin :: "'a account_filter_scheme \<Rightarrow> admin \<Rightarrow> bool" where
  "fits_admin f a \<longleftrightarrow>
     live a
     \<and> (truthy (af_search f) \<longrightarrow> fits_search (the (af_search f)) (Some (a_fullName a))
                                 \<or> fits_search (the (af_search f)) (Some (a_email a)))
     \<and> (truthy (af_roleId f) \<longrightarrow> a_roleId a = the (af_roleId f))
     \<and> (af_isBanned f \<noteq> None \<longrightarrow> a_isBanned a = the (af_isBanned f))
     \<and> in_range (af_startDate f) (af_endDate f) (createdAt a)"

definition admins_listing :: "'a account_filter_scheme \<Rightarrow> world \<Rightarrow> (admin \<times> role option) list" where
  "admins_listing f w =
     map (\<lambda>a. (a, by_id (a_roleId a) (roles w))) (order_rows createdAt DESC (find_all (fits_admin f) (admins w)))"

definition findAll_admins :: "'a account_filter_scheme \<Rightarrow> world \<Rightarrow> (admin \<times> role option) list \<times> nat" where
  "findAll_admins f w = get_many_and_count f (admins_listing f w)"

definition findOne_admin :: "uuid \<Rightarrow> world \<Rightarrow> (admin \<times> role_view option, world) result" where
  "findOne_admin i w =
     (case by_id i (admins w) of
        None \<Rightarrow> throw (NotFoundException ''Admin not found'') w
      | Some a \<Rightarrow> ok (a, role_view_of (a_roleId a) w) w)"

text \<open>\<open>preload\<close> and \<open>save\<close>: a \<open>null\<close> in a column that does not allow it is refused when the row is saved.\<close>

definition preload_admin :: "update_admin_dto \<Rightarrow> string \<Rightarrow> admin \<Rightarrow> exn + admin" where
  "preload_admin dto url a =
     also_needs (also_needs (also_needs
       (Inr (\<lambda>name mail role. a\<lparr>a_fullName := name, a_email := mail, a_roleId := role,
                a_password := patch_nullable (ua_password dto) (a_password a),
                a_isBanned := nullish (ua_isBanned dto) (a_isBanned a), a_profileImageUrl := Some url\<rparr>))
       (patch_required (ua_fullName dto) (a_fullName a)))
       (patch_required (ua_email dto) (a_email a)))
       (patch_required (ua_roleId dto) (a_roleId a))"

definition admin_dto_keys :: "update_admin_dto \<Rightarrow> string list" where
  "admin_dto_keys dto =
     key_if ''fullName'' (ua_fullName dto \<noteq> Undef) @ key_if ''email'' (ua_email dto \<noteq> Undef)
     @ key_if ''password'' (ua_password dto \<noteq> Undef) @ key_if ''roleId'' (ua_roleId dto \<noteq> Undef)
     @ key_if ''isBanned'' (ua_isBanned dto \<noteq> None) @ key_if ''profileImageUrl'' (ua_profileImageUrl dto \<noteq> Undef)"

definition update_admin_account ::
  "ext \<Rightarrow> uuid \<Rightarrow> update_admin_dto \<Rightarrow> string option \<Rightarrow> world \<Rightarrow> (admin \<times> audit_metadata, world) result" where
  "update_admin_account e i dto file w =
     (case by_id i (admins w) of
        None \<Rightarrow> throw (NotFoundException ''Admin not found'') w
      | Some a \<Rightarrow>
          let mail = field_value (ua_email dto); role = field_value (ua_roleId dto)
          in if truthy mail \<and> the mail \<noteq> a_email a \<and> admin_by_email (the mail) w \<noteq> None
             then throw (ConflictException ''Admin already exists'') w
             else if truthy role \<and> the role \<noteq> a_roleId a \<and> by_id (the role) (roles w) = None
             then throw (NotFoundException ''Role not found'') w
             else
               let existing = or_default (a_profileImageUrl a) '''';
                   (url, w1) = resolveProfileImageUrl e file (field_value (ua_profileImageUrl dto)) existing ''admins/profile'' w
               in (case preload_admin dto url a of
                     Inl err \<Rightarrow> throw err w1
                   | Inr updated \<Rightarrow>
                       and_then (update_admin e updated w1)
                         (\<lambda>saved w2.
                            ok (saved, diffAuditValues (admin_json a) (admin_json saved)
                                  (admin_dto_keys dto @ key_if ''profileImageUrl'' (file \<noteq> None)))
                               (replaceProfileImage url existing w2))))"

text \<open>\<open>remove\<close> deletes the picture first and then marks the row.\<close>

definition remove_admin :: "ext \<Rightarrow> uuid \<Rightarrow> world \<Rightarrow> (unit, world) result" where
  "remove_admin e i w =
     (case by_id i (admins w) of
        None \<Rightarrow> throw (NotFoundException ''Admin not found'') w
      | Some a \<Rightarrow>
          let w1 = deleteProfileImage (or_default (a_profileImageUrl a) '''') w
          in ok () (w1\<lparr>admins := update_where (\<lambda>x. entId x = i) (\<lambda>x. x\<lparr>deletedAt := Some (x_now e)\<rparr>) (admins w1)\<rparr>))"

section \<open>Users\<close>

record create_user_dto =
  cu_email :: "string option"
  cu_fullName :: string
  cu_password :: string
  cu_phone :: string
  cu_dateOfBirth :: "string option"
  cu_gender :: "string option"
  cu_isBanned :: "bool option"
  cu_profileImageUrl :: "string option"
  cu_loginProvider :: "login_provider option"

definition user_by_phone :: "string \<Rightarrow> world \<Rightarrow> user option" where
  "user_by_phone p w = find_one (\<lambda>u. live u \<and> u_phone u = Some p) (users w)"

text \<open>The entity of the body: nothing in it names a role.\<close>

definition user_of_dto :: "ext \<Rightarrow> create_user_dto \<Rightarrow> string \<Rightarrow> user" where
  "user_of_dto e dto url =
     \<lparr>entId = x_new_id e, createdAt = x_now e, deletedAt = None, u_email = cu_email dto,
      u_fullName = Some (cu_fullName dto), u_phone = Some (cu_phone dto), u_password = Some (cu_password dto),
      u_isBanned = nullish (cu_isBanned dto) False, u_profileImageUrl = Some url, u_dateOfBirth = cu_dateOfBirth dto,
      u_gender = cu_gender dto, u_preferLanguage = None, u_registrationStage = Some OTP_VERIFIED, u_fcmToken = None,
      u_lastLoginAt = None, u_lastLogoutAt = None, u_googleId = None, u_appleId = None,
      u_loginProvider = cu_loginProvider dto, u_roleId = None\<rparr>"

definition create_user :: "ext \<Rightarrow> create_user_dto \<Rightarrow> string option \<Rightarrow> world \<Rightarrow> (user, world) result" where
  "create_user e dto file w =
     (if user_by_phone (cu_phone dto) w \<noteq> None then throw (ConflictException ''User already exists'') w
      else
        let body = or_default (cu_profileImageUrl dto) '''';
            (url, w1) =
              (case file of
                 None \<Rightarrow> (body, w)
               | Some f \<Rightarrow>
                   (let (uploaded, w1) = uploadProfileImage e f ''users/profile'' w
                    in ((if truthy uploaded then the uploaded else body), w1)))
        in insert_user e (user_of_dto e dto url) w1)"

definition fits_user :: "'a account_filter_scheme \<Rightarrow> user \<Rightarrow> bool" where
  "fits_user f u \<longleftrightarrow>
     live u
     \<and> (truthy (af_search f) \<longrightarrow> fits_search (the (af_search f)) (u_fullName u)
                                 \<or> fits_search (the (af_search f)) (u_email u))
     \<and> (af_isBanned f \<noteq> None \<longrightarrow> u_isBanned u = the (af_isBanned f))
     \<and> in_range (af_startDate f) (af_endDate f) (createdAt u)"

definition users_listing :: "'a account_filter_scheme \<Rightarrow> world \<Rightarrow> user list" where
  "users_listing f w = order_rows createdAt DESC (find_all (fits_user f) (users w))"

definition findAll_users :: "'a account_filter_scheme \<Rightarrow> world \<Rightarrow> user list \<times> nat" where
  "findAll_users f w = get_many_and_count f (users_listing f w)"

definition findOne_user :: "uuid \<Rightarrow> world \<Rightarrow> (user, world) result" where
  "findOne_user i w =
     (case by_id i (users w) of None \<Rightarrow> throw (NotFoundException ''User not found'') w | Some u \<Rightarrow> ok u w)"

definition user_dto_keys :: "profile_dto \<Rightarrow> string list" where
  "user_dto_keys dto =
     key_if ''email'' (pd_email dto \<noteq> Undef) @ key_if ''fullName'' (pd_fullName dto \<noteq> Undef)
     @ key_if ''password'' (pd_password dto \<noteq> Undef) @ key_if ''phone'' (pd_phone dto \<noteq> Undef)
     @ key_if ''dateOfBirth'' (pd_dateOfBirth dto \<noteq> Undef) @ key_if ''gender'' (pd_gender dto \<noteq> Undef)
     @ key_if ''isBanned'' (pd_isBanned dto \<noteq> None) @ key_if ''profileImageUrl'' (pd_profileImageUrl dto \<noteq> Undef)
     @ key_if ''loginProvider'' (pd_loginProvider dto \<noteq> Undef)"

definition update_user_account ::
  "ext \<Rightarrow> uuid \<Rightarrow> profile_dto \<Rightarrow> string option \<Rightarrow> world \<Rightarrow> (user \<times> audit_metadata, world) result" where
  "update_user_account e i dto file w =
     (case by_id i (users w) of
        None \<Rightarrow> throw (NotFoundException ''User not found'') w
      | Some u \<Rightarrow>
          let phone = field_value (pd_phone dto)
          in if truthy phone \<and> phone \<noteq> u_phone u \<and> user_by_phone (the phone) w \<noteq> None
             then throw (ConflictException ''User already exists'') w
             else
               let existing = or_default (u_profileImageUrl u) '''';
                   (url, w1) = resolveProfileImageUrl e file (field_value (pd_profileImageUrl dto)) existing ''users/profile'' w
               in and_then (save_preloaded e dto (preload_user dto url u) w1)
                    (\<lambda>saved w2.
                       ok (saved, diffAuditValues (user_json u) (user_json saved)
                             (user_dto_keys dto @ key_if ''profileImageUrl'' (file \<noteq> None)))
                          (replaceProfileImage url existing w2)))"

definition remove_user :: "ext \<Rightarrow> uuid \<Rightarrow> world \<Rightarrow> (unit, world) result" where
  "remove_user e i w =
     (case by_id i (users w) of
        None \<Rightarrow> throw (NotFoundException ''User not found'') w
      | Some u \<Rightarrow>
          let w1 = deleteProfileImage (or_default (u_profileImageUrl u) '''') w
          in ok () (w1\<lparr>users := update_where (\<lambda>x. entId x = i) (\<lambda>x. x\<lparr>deletedAt := Some (x_now e)\<rparr>) (users w1)\<rparr>))"

end
