(* ===== verification/Account_Facts.thy ===== *)
theory Account_Facts
  imports Accounts
begin

text \<open>
  What holds of the administration of accounts: mails stay unique, a removal ends an account at once, a ban does not
  end its sessions, and the creation of users cannot work.
\<close>

section \<open>Lists\<close>

interpretation admin_pages: paged_listing
  "\<lambda>pg sz. findAll_admins (f\<lparr>page := pg, limit := sz, getAll := False\<rparr>) w" "admins_listing f w"
proof unfold_locales
  have same: "admins_listing (f\<lparr>page := pg, limit := sz, getAll := False\<rparr>) w = admins_listing f w" for pg sz
  proof -
    have "fits_admin (f\<lparr>page := pg, limit := sz, getAll := False\<rparr>) = fits_admin f" by (simp add: fits_admin_def fun_eq_iff)
    then show ?thesis by (simp add: admins_listing_def)
  qed
  show "fst (findAll_admins (f\<lparr>page := pg, limit := sz, getAll := False\<rparr>) w) = take_page pg sz (admins_listing f w)" for pg sz
    by (simp add: findAll_admins_def get_many_and_count_def same)
  show "snd (findAll_admins (f\<lparr>page := pg, limit := sz, getAll := False\<rparr>) w) = length (admins_listing f w)" for pg sz
    by (simp add: findAll_admins_def get_many_and_count_def same)
qed

interpretation user_pages: paged_listing
  "\<lambda>pg sz. findAll_users (f\<lparr>page := pg, limit := sz, getAll := False\<rparr>) w" "users_listing f w"
proof unfold_locales
  have same: "users_listing (f\<lparr>page := pg, limit := sz, getAll := False\<rparr>) w = users_listing f w" for pg sz
  proof -
    have "fits_user (f\<lparr>page := pg, limit := sz, getAll := False\<rparr>) = fits_user f" by (simp add: fits_user_def fun_eq_iff)
    then show ?thesis by (simp add: users_listing_def)
  qed
  show "fst (findAll_users (f\<lparr>page := pg, limit := sz, getAll := False\<rparr>) w) = take_page pg sz (users_listing f w)" for pg sz
    by (simp add: findAll_users_def get_many_and_count_def same)
  show "snd (findAll_users (f\<lparr>page := pg, limit := sz, getAll := False\<rparr>) w) = length (users_listing f w)" for pg sz
    by (simp add: findAll_users_def get_many_and_count_def same)
qed

section \<open>Frames\<close>

lemma same_tables_update:
  assumes "same_tables w w1"
  shows "same_tables (w\<lparr>admins := as\<rparr>) (w1\<lparr>admins := as\<rparr>)" "same_tables (w\<lparr>users := us\<rparr>) (w1\<lparr>users := us\<rparr>)"
proof -
  obtain es where w1: "w1 = w\<lparr>effects := es\<rparr>" using assms by (auto simp: same_tables_def)
  show "same_tables (w\<lparr>admins := as\<rparr>) (w1\<lparr>admins := as\<rparr>)" "same_tables (w\<lparr>users := us\<rparr>) (w1\<lparr>users := us\<rparr>)"
    unfolding same_tables_def w1 by (rule exI [of _ es], simp)+
qed

lemma update_admin_account_ok:
  assumes "update_admin_account e i dto file w = ok (saved, m) w'"
  obtains a url w1 u where "by_id i (admins w) = Some a" "same_tables w w1" "preload_admin dto url a = Inr u"
    "saved = admin_with_hashed_password e u" "\<not> email_taken i (a_email u) w"
    "same_tables (w\<lparr>admins := save_row saved (admins w)\<rparr>) w'" "entId u = i"
proof -
  obtain a where a: "by_id i (admins w) = Some a"
    using assms by (cases "by_id i (admins w)") (simp_all add: update_admin_account_def)
  let ?ex = "or_default (a_profileImageUrl a) ''''"
  obtain url w1 where r: "resolveProfileImageUrl e file (field_value (ua_profileImageUrl dto)) ?ex ''admins/profile'' w = (url, w1)"
    by fastforce
  have s: "same_tables w w1" by (rule resolve_same_tables [OF r])
  obtain u where u: "preload_admin dto url a = Inr u" and up: "and_then (update_admin e u w1)
      (\<lambda>saved w2. ok (saved, diffAuditValues (admin_json a) (admin_json saved)
           (admin_dto_keys dto @ key_if ''profileImageUrl'' (file \<noteq> None))) (replaceProfileImage url ?ex w2)) = ok (saved, m) w'"
    using assms a r by (auto simp: update_admin_account_def Let_def split: if_splits sum.splits)
  have i: "entId u = i" using u by_id_Some [OF a] by (auto simp: preload_admin_def also_needs_Inr)
  have t: "\<not> email_taken i (a_email u) w1" "saved = admin_with_hashed_password e u"
      "w' = replaceProfileImage url ?ex (w1\<lparr>admins := save_row (admin_with_hashed_password e u) (admins w1)\<rparr>)"
    using up i by (auto simp: update_admin_def split: if_splits)
  have e: "\<not> email_taken i (a_email u) w" using t(1) same_tablesD(2) [OF s] by (simp add: email_taken_def)
  have "same_tables (w\<lparr>admins := save_row saved (admins w)\<rparr>) (w1\<lparr>admins := save_row saved (admins w1)\<rparr>)"
    using same_tables_update(1) [OF s] same_tablesD(2) [OF s] by simp
  then have "same_tables (w\<lparr>admins := save_row saved (admins w)\<rparr>) w'"
    unfolding t(3) t(2) [symmetric] using replace_same_tables same_tables_trans by blast
  then show ?thesis using that [OF a s u t(2) e] i by blast
qed

lemma update_user_account_ok:
  assumes "update_user_account e i dto file w = ok (saved, m) w'"
  obtains u url where "by_id i (users w) = Some u"
    "saved = with_hashed_password e (set_password dto (preload_user dto url u))"
    "same_tables (w\<lparr>users := save_row saved (users w)\<rparr>) w'"
proof -
  obtain u where u: "by_id i (users w) = Some u"
    using assms by (cases "by_id i (users w)") (simp_all add: update_user_account_def)
  let ?ex = "or_default (u_profileImageUrl u) ''''"
  obtain url w1 where r: "resolveProfileImageUrl e file (field_value (pd_profileImageUrl dto)) ?ex ''users/profile'' w = (url, w1)"
    by fastforce
  have s: "same_tables w w1" by (rule resolve_same_tables [OF r])
  have t: "saved = with_hashed_password e (set_password dto (preload_user dto url u))"
      "w' = replaceProfileImage url ?ex (w1\<lparr>users := save_row saved (users w1)\<rparr>)"
    using assms u r
    by (auto simp: update_user_account_def Let_def save_preloaded_def update_user_def split: if_splits)
  have "same_tables (w\<lparr>users := save_row saved (users w)\<rparr>) (w1\<lparr>users := save_row saved (users w1)\<rparr>)"
    using same_tables_update(2) [OF s] same_tablesD(1) [OF s] by simp
  then have "same_tables (w\<lparr>users := save_row saved (users w)\<rparr>) w'"
    unfolding t(2) using replace_same_tables same_tables_trans by blast
  then show ?thesis using that [OF u t(1)] by blast
qed

section \<open>Mails\<close>

definition unique_mails :: "world \<Rightarrow> bool" where
  "unique_mails w \<longleftrightarrow> distinct (map a_email (admins w))"

lemma unique_mails_same: "same_tables w w' \<Longrightarrow> unique_mails w' = unique_mails w"
  by (simp add: unique_mails_def same_tablesD)

text \<open>Writing one row with a mail that no other row has keeps the mails distinct.\<close>

lemma distinct_save_row:
  fixes rs :: "admin list"
  assumes "distinct (map a_email rs)" and "distinct (ids rs)" and "\<forall>r \<in> set rs. a_email r = a_email x \<longrightarrow> entId r = entId x"
  shows "distinct (map a_email (save_row x rs))"
  using assms
proof (induction rs)
  case Nil
  then show ?case by (simp add: save_row_def)
next
  case (Cons r rs)
  have IH: "distinct (map a_email (save_row x rs))" using Cons by simp
  show ?case
  proof (cases "entId r = entId x")
    case True
    then have other: "entId q \<noteq> entId x" if "q \<in> set rs" for q
    proof -
      have "entId r \<notin> entId ` set rs" using Cons.prems(2) by (simp add: ids_def)
      then show ?thesis using imageI [OF that, of entId] True by auto
    qed
    then have "save_row x rs = rs" unfolding save_row_def by (rule update_where_none)
    moreover have "a_email x \<noteq> a_email q" if "q \<in> set rs" for q
      using Cons.prems(3) other [OF that] that by (metis list.set_intros(2))
    then have "a_email x \<notin> a_email ` set rs" by blast
    ultimately show ?thesis using Cons.prems(1) True by (simp add: save_row_def)
  next
    case False
    then have "a_email r \<noteq> a_email x" using Cons.prems(3) by auto
    then have "a_email r \<notin> a_email ` set (save_row x rs)"
      using Cons.prems(1) by (auto dest!: in_save_row)
    then show ?thesis using IH False by (simp add: save_row_def)
  qed
qed

lemma update_admin_unique:
  assumes "unique_mails w" and "distinct (ids (admins w))" and "\<not> email_taken (entId a) (a_email a) w"
  shows "unique_mails (w\<lparr>admins := save_row (admin_with_hashed_password e a) (admins w)\<rparr>)"
  using assms distinct_save_row [of "admins w" "admin_with_hashed_password e a"]
  by (auto simp: unique_mails_def email_taken_def admin_with_hashed_password_def)

lemma create_admin_mails:
  assumes "unique_mails w"
  shows "unique_mails (snd (create_admin e c f w))"
proof (cases "admin_by_email (ca_email c) w \<noteq> None \<or> by_id (ca_roleId c) (roles w) = None")
  case True
  then show ?thesis using assms by (auto simp: create_admin_def)
next
  case False
  obtain url w1 where r: "resolveProfileImageUrl e f (ca_profileImageUrl c) '''' ''admins/profile'' w = (url, w1)" by fastforce
  have s: "same_tables w w1" by (rule resolve_same_tables [OF r])
  then have "unique_mails w1" using assms unique_mails_same by simp
  then show ?thesis using False r by (auto simp: create_admin_def Let_def unique_mails_def)
qed

lemma update_admin_mails:
  assumes "unique_mails w" and "distinct (ids (admins w))"
  shows "unique_mails (snd (update_admin_account e i u f w))"
proof (cases "update_admin_account e i u f w" rule: result_cases)
  case (ok x w')
  obtain saved m where x: "x = (saved, m)" by (cases x)
  from ok [unfolded x] obtain v where v: "saved = admin_with_hashed_password e v" "\<not> email_taken i (a_email v) w"
      "same_tables (w\<lparr>admins := save_row saved (admins w)\<rparr>) w'" "entId v = i"
    by (rule update_admin_account_ok)
  have "unique_mails (w\<lparr>admins := save_row saved (admins w)\<rparr>)"
    unfolding v(1) by (rule update_admin_unique [OF assms]) (simp add: v)
  then show ?thesis using unique_mails_same [OF v(3)] by (simp add: ok)
next
  case (throw err w')
  have "same_tables w w'"
    using throw by (auto simp: update_admin_account_def Let_def update_admin_def split: option.splits if_splits sum.splits prod.splits
        dest: resolve_same_tables)
  then show ?thesis using assms(1) by (simp add: throw unique_mails_same)
qed

lemma remove_admin_mails:
  assumes "unique_mails w"
  shows "unique_mails (snd (remove_admin e i w))"
  using assms same_tablesD(2) [OF delete_same_tables [of w]]
  by (auto simp: remove_admin_def Let_def unique_mails_def map_update_where split: option.split)

lemma profile_mails:
  assumes "unique_mails w" and "distinct (ids (admins w))"
  shows "unique_mails (snd (updateProfile_admin e i p f w))"
proof (cases "by_id i (admins w)")
  case None
  then show ?thesis using assms(1) by (simp add: updateProfile_admin_def)
next
  case (Some a)
  let ?ex = "nullish (a_profileImageUrl a) ''''"
  obtain url w1 where r: "resolveProfileImageUrl e f (pa_profileImageUrl p) ?ex ''admins/profile'' w = (url, w1)" by fastforce
  have s: "same_tables w w1" by (rule resolve_same_tables [OF r])
  let ?u = "a\<lparr>a_fullName := nullish (pa_fullName p) (a_fullName a), a_email := nullish (pa_email p) (a_email a),
      a_profileImageUrl := Some url, a_password := (if truthy (pa_password p) then pa_password p else a_password a)\<rparr>"
  have w1: "unique_mails w1" "distinct (ids (admins w1))"
    using assms unique_mails_same [OF s] same_tablesD(2) [OF s] by simp_all
  have "unique_mails (snd (update_admin e ?u w1))"
    using w1 update_admin_unique [OF w1, of ?u e] by (auto simp: update_admin_def)
  moreover have "unique_mails (log_audit e i UPDATE_PROFILE d x y (replaceProfileImage url ?ex w2)) = unique_mails w2" for d x y w2
    using same_tablesD(2) [OF replace_same_tables [of w2 url ?ex]] by (simp add: unique_mails_def log_audit_def Let_def)
  ultimately show ?thesis
    using Some r by (cases "update_admin e ?u w1" rule: result_cases) (simp_all add: updateProfile_admin_def Let_def)
qed


section \<open>Sessions\<close>

text \<open>What a session needs: the accounts with their roles, and the refresh tokens.\<close>

definition same_sessions :: "world \<Rightarrow> world \<Rightarrow> bool" where
  "same_sessions w w' \<longleftrightarrow>
     (\<forall>j. map_option (\<lambda>a. (entId a, a_roleId a)) (by_id j (admins w')) = map_option (\<lambda>a. (entId a, a_roleId a)) (by_id j (admins w)))
     \<and> (\<forall>j. map_option (\<lambda>u. (entId u, u_roleId u)) (by_id j (users w')) = map_option (\<lambda>u. (entId u, u_roleId u)) (by_id j (users w)))
     \<and> roles w' = roles w \<and> role_permissions w' = role_permissions w \<and> permissions w' = permissions w
     \<and> modules w' = modules w \<and> refresh_tokens w' = refresh_tokens w"

lemma same_sessions_role:
  assumes "same_sessions w w'"
  shows "role_view_of j w' = role_view_of j w"
proof -
  have t: "roles w' = roles w" "role_permissions w' = role_permissions w" "permissions w' = permissions w" "modules w' = modules w"
    using assms by (simp_all add: same_sessions_def)
  have p: "permission_pair i w' = permission_pair i w" for i unfolding permission_pair_def t ..
  have r: "role_pairs j w' = role_pairs j w" unfolding role_pairs_def p t ..
  show ?thesis unfolding role_view_of_def r t ..
qed

lemma same_sessions_lookup:
  assumes "same_sessions w w'"
  shows "case_option none (\<lambda>a. some (entId a) (a_roleId a)) (by_id j (admins w'))
      = case_option none (\<lambda>a. some (entId a) (a_roleId a)) (by_id j (admins w))"
    and "case_option none (\<lambda>u. some' (entId u) (u_roleId u)) (by_id j (users w'))
      = case_option none (\<lambda>u. some' (entId u) (u_roleId u)) (by_id j (users w))"
proof -
  have "map_option (\<lambda>a. (entId a, a_roleId a)) (by_id j (admins w')) = map_option (\<lambda>a. (entId a, a_roleId a)) (by_id j (admins w))"
    using assms by (simp add: same_sessions_def)
  then show "case_option none (\<lambda>a. some (entId a) (a_roleId a)) (by_id j (admins w'))
      = case_option none (\<lambda>a. some (entId a) (a_roleId a)) (by_id j (admins w))"
    by (cases "by_id j (admins w')"; cases "by_id j (admins w)") auto
  have "map_option (\<lambda>u. (entId u, u_roleId u)) (by_id j (users w')) = map_option (\<lambda>u. (entId u, u_roleId u)) (by_id j (users w))"
    using assms by (simp add: same_sessions_def)
  then show "case_option none (\<lambda>u. some' (entId u) (u_roleId u)) (by_id j (users w'))
      = case_option none (\<lambda>u. some' (entId u) (u_roleId u)) (by_id j (users w))"
    by (cases "by_id j (users w')"; cases "by_id j (users w)") auto
qed

lemma same_sessions_guard:
  assumes "same_sessions w w'"
  shows "jwt_auth_guard e p s w' = jwt_auth_guard e p s w"
proof -
  note r = same_sessions_role [OF assms]
  have v: "validate payload w' = validate payload w" for payload
  proof (cases payload)
    case (AdminJwt sub i r)
    show ?thesis
      using same_sessions_lookup(1) [OF assms, of "Inl (UnauthorizedException ''Invalid token'')"
          "\<lambda>x y. Inr \<lparr>cu_id = x, cu_subjectType = Some ADMIN, cu_role = role_view_of y w\<rparr>" i]
      unfolding AdminJwt validate_def jwt_payload.case r by simp
  next
    case (UserJwt sub i)
    show ?thesis
      using same_sessions_lookup(2) [OF assms, of "Inl (UnauthorizedException ''Invalid token'')"
          "\<lambda>x y. Inr \<lparr>cu_id = x, cu_subjectType = Some USER, cu_role = case_option None (\<lambda>k. role_view_of k w) y\<rparr>" i]
      unfolding UserJwt validate_def jwt_payload.case user_role_def r by simp
  qed (simp add: validate_def)
  show ?thesis unfolding jwt_auth_guard_def v ..
qed

lemma same_sessions_refresh:
  assumes "same_sessions w w'"
  shows "fst (refreshAccessToken e s w') = fst (refreshAccessToken e s w)"
proof -
  have r: "roles w' = roles w" "refresh_tokens w' = refresh_tokens w" using assms by (simp_all add: same_sessions_def)
  let ?A = "\<lambda>i y. Inr (x_sign e (AdminJwt i i (case by_id y (roles w) of None \<Rightarrow> None | Some r \<Rightarrow> Some (entId r))) (access_expiry e), i)"
  let ?U = "\<lambda>i. Inr (x_sign e (UserJwt i i) (access_expiry e), i)"
  have u: "(case token_user t w' of None \<Rightarrow> c | Some u \<Rightarrow> ?U (entId u)) = (case token_user t w of None \<Rightarrow> c | Some u \<Rightarrow> ?U (entId u))"
    for t c
    using same_sessions_lookup(2) [OF assms, of c "\<lambda>x _. ?U x"] by (cases "t_userId t") (simp_all add: token_user_def)
  have a: "(case token_admin t w' of None \<Rightarrow> c | Some a \<Rightarrow> ?A (entId a) (a_roleId a))
      = (case token_admin t w of None \<Rightarrow> c | Some a \<Rightarrow> ?A (entId a) (a_roleId a))"
    for t c
    using same_sessions_lookup(1) [OF assms, of c ?A] by (cases "t_adminId t") (simp_all add: token_admin_def)
  have ref: "fst (refreshAccessToken e s v) =
      (case find_one (\<lambda>t. t_token t = x_sha256 e s \<and> \<not> t_isRevoked t) (refresh_tokens w) of
         None \<Rightarrow> Inl (UnauthorizedException ''Invalid or expired refresh token'')
       | Some t \<Rightarrow>
           if isExpired (x_now e) (t_expiresAt t) then Inl (UnauthorizedException ''Expired refresh token'')
           else (case token_admin t v of
                   Some a \<Rightarrow> ?A (entId a) (a_roleId a)
                 | None \<Rightarrow> (case token_user t v of
                     None \<Rightarrow> Inl (UnauthorizedException ''Invalid refresh token owner'')
                   | Some u \<Rightarrow> Inr (x_sign e (UserJwt (entId u) (entId u)) (access_expiry e), entId u))))"
    if "refresh_tokens v = refresh_tokens w" "roles v = roles w" for v
    using that by (simp add: refreshAccessToken_def role_id_of_def split: option.split)
  show ?thesis unfolding ref [OF r(2,1)] ref [OF refl refl] u a ..
qed

lemma same_sessions_save_user:
  assumes "by_id i (users w) = Some u" and "entId u' = i" and "live u'" and "u_roleId u' = u_roleId u"
    and "same_tables (w\<lparr>users := save_row u' (users w)\<rparr>) w'"
  shows "same_sessions w w'"
proof -
  obtain es where w': "w' = w\<lparr>users := save_row u' (users w), effects := es\<rparr>" using assms(5) by (auto simp: same_tables_def)
  have "map_option (\<lambda>u. (entId u, u_roleId u)) (by_id j (save_row u' (users w))) = map_option (\<lambda>u. (entId u, u_roleId u)) (by_id j (users w))" for j
  proof (cases "j = i")
    case True
    then show ?thesis using assms by_id_save_row [OF assms(1-3)] by_id_Some [OF assms(1)] by simp
  next
    case False
    then show ?thesis using assms(2) by (simp add: by_id_save_row_other)
  qed
  then show ?thesis by (simp add: same_sessions_def w')
qed

lemma same_sessions_save_admin:
  assumes "by_id i (admins w) = Some a" and "entId a' = i" and "live a'" and "a_roleId a' = a_roleId a"
    and "same_tables (w\<lparr>admins := save_row a' (admins w)\<rparr>) w'"
  shows "same_sessions w w'"
proof -
  obtain es where w': "w' = w\<lparr>admins := save_row a' (admins w), effects := es\<rparr>" using assms(5) by (auto simp: same_tables_def)
  have "map_option (\<lambda>a. (entId a, a_roleId a)) (by_id j (save_row a' (admins w))) = map_option (\<lambda>a. (entId a, a_roleId a)) (by_id j (admins w))" for j
  proof (cases "j = i")
    case True
    then show ?thesis using assms by_id_save_row [OF assms(1-3)] by_id_Some [OF assms(1)] by simp
  next
    case False
    then show ?thesis using assms(2) by (simp add: by_id_save_row_other)
  qed
  then show ?thesis by (simp add: same_sessions_def w')
qed

section \<open>A ban and a removal\<close>

lemma userLogin_user:
  assumes "userLogin e m p w = ok (access, refresh, i) w'"
  shows "\<exists>u. user_by_email m w = Some u \<and> entId u = i \<and> \<not> u_isBanned u"
  using assms by (auto simp: userLogin_def Let_def dest!: completeUserLogin_ok split: option.splits if_splits)

lemma update_user_sessions:
  assumes "update_user_account e i dto file w = ok (saved, m) w'"
  shows "same_sessions w w'" and "by_id i (users w') = Some saved" and "\<And>x. x \<in> set (users w') \<Longrightarrow> entId x = i \<Longrightarrow> x = saved"
proof -
  obtain u url where u: "by_id i (users w) = Some u"
      "saved = with_hashed_password e (set_password dto (preload_user dto url u))"
      "same_tables (w\<lparr>users := save_row saved (users w)\<rparr>) w'"
    using assms by (rule update_user_account_ok)
  have s: "entId saved = i" "live saved" "u_roleId saved = u_roleId u"
    using by_id_Some [OF u(1)] by (simp_all add: u(2)) (simp add: with_hashed_password_def set_password_def preload_user_def)
  have rows: "users w' = save_row saved (users w)" using same_tablesD(1) [OF u(3)] by simp
  show "same_sessions w w'" by (rule same_sessions_save_user [OF u(1) s u(3)])
  show "by_id i (users w') = Some saved" unfolding rows by (rule by_id_save_row [OF u(1) s(1,2)])
  show "x = saved" if "x \<in> set (users w')" "entId x = i" for x using that s(1) unfolding rows by (auto dest: in_save_row)
qed

text \<open>A ban of a user stops his next login but ends nothing: whatever the administration changed, his tokens pass the
  guard as before and his refresh token keeps yielding new ones.\<close>

theorem banned_user_keeps_session:
  assumes "update_user_account e i dto file w = ok (saved, m) w'"
  shows "jwt_auth_guard e' public token w' = jwt_auth_guard e' public token w
    \<and> fst (refreshAccessToken e' s w') = fst (refreshAccessToken e' s w)
    \<and> (if u_isBanned saved then \<forall>mail p access refresh w''. userLogin e' mail p w' \<noteq> ok (access, refresh, i) w'' else True)"
proof -
  note kept = update_user_sessions [OF assms]
  from kept(1) have guard: "jwt_auth_guard e' public token w' = jwt_auth_guard e' public token w"
      "fst (refreshAccessToken e' s w') = fst (refreshAccessToken e' s w)"
    by (rule same_sessions_guard, rule same_sessions_refresh)
  have "userLogin e' mail p w' \<noteq> ok (access, refresh, i) w''" if "u_isBanned saved" for mail p access refresh w''
  proof
    assume "userLogin e' mail p w' = ok (access, refresh, i) w''"
    then obtain x where x: "user_by_email mail w' = Some x" "entId x = i" "\<not> u_isBanned x"
      using userLogin_user by blast
    have "x \<in> set (users w')" using find_one_Some [OF x(1) [unfolded user_by_email_def]] by simp
    then have "x = saved" using kept(3) x(2) by blast
    then show False using x(3) that by simp
  qed
  then show ?thesis using guard by simp
qed

text \<open>A ban of an administrator has no effect at all: his sessions go on, and his mail and password are accepted as
  before.\<close>

theorem banned_admin_logs_in:
  assumes "update_admin_account e i dto file w = ok (saved, m) w'" and "field_value (ua_roleId dto) = None"
    and "unique_mails w" and "distinct (ids (admins w))"
    and "a_password saved = Some h" and "x_compare e' p h"
  shows "validateAdmin e' (a_email saved) p w' = ok saved w'
    \<and> jwt_auth_guard e' public token w' = jwt_auth_guard e' public token w
    \<and> fst (refreshAccessToken e' s w') = fst (refreshAccessToken e' s w)"
proof -
  obtain a url w1 v where v: "by_id i (admins w) = Some a" "preload_admin dto url a = Inr v"
      "saved = admin_with_hashed_password e v" "\<not> email_taken i (a_email v) w"
      "same_tables (w\<lparr>admins := save_row saved (admins w)\<rparr>) w'" "entId v = i"
    using assms(1) by (rule update_admin_account_ok)
  have "a_roleId v = a_roleId a" "deletedAt v = deletedAt a"
    using v(2) assms(2) by (cases "ua_roleId dto"; auto simp: preload_admin_def also_needs_Inr)+
  then have s: "entId saved = i" "live saved" "a_roleId saved = a_roleId a"
    using by_id_Some [OF v(1)] v(6) by (auto simp: v(3) live_def admin_with_hashed_password_def)
  have sessions: "same_sessions w w'" by (rule same_sessions_save_admin [OF v(1) s v(5)])
  have rows: "admins w' = save_row saved (admins w)" using same_tablesD(2) [OF v(5)] by simp
  have "unique_mails (w\<lparr>admins := save_row (admin_with_hashed_password e v) (admins w)\<rparr>)"
    by (rule update_admin_unique [OF assms(3,4)]) (simp add: v)
  then have "distinct (map a_email (admins w'))" by (simp add: unique_mails_def rows v(3))
  moreover have "saved \<in> set (admins w')"
    using by_id_Some [OF v(1)] s(1) by (auto simp: rows set_save_row ids_def intro: rev_image_eqI)
  ultimately have "find_one (\<lambda>x. a_email x = a_email saved \<and> live x) (admins w') = Some saved"
    using s(2) find_one_key [where key = a_email and rs = "admins w'" and r = saved and p = live] by blast
  then have "admin_by_email (a_email saved) w' = Some saved"
    by (simp add: admin_by_email_def conj_commute)
  then have "validateAdmin e' (a_email saved) p w' = ok saved w'"
    using assms(5,6) by (simp add: validateAdmin_def compare_password_def)
  then show ?thesis using same_sessions_guard [OF sessions] same_sessions_refresh [OF sessions] by simp
qed

lemma guard_admin:
  assumes "jwt_auth_guard e False (Some s) w = Inr (Some cu)" and "cu_subjectType cu = Some ADMIN"
  shows "by_id (cu_id cu) (admins w) \<noteq> None"
  using assms(1) unfolding jwt_auth_guard_iff
proof (elim disjE exE conjE)
  fix sub i r a
  assume "by_id i (admins w) = Some a"
    and "cu = \<lparr>cu_id = i, cu_subjectType = Some ADMIN, cu_role = role_view_of (a_roleId a) w\<rparr>"
  then show ?thesis by simp
next
  fix sub i u
  assume "cu = \<lparr>cu_id = i, cu_subjectType = Some USER, cu_role = user_role u w\<rparr>"
  then have "cu_subjectType cu = Some USER" by simp
  then show ?thesis using assms(2) by auto
qed

text \<open>A removed administrator is locked out at once: no token of his passes the guard, no login finds him; but his mail
  stays taken for ever, so that an account with it cannot be created again.\<close>

theorem removed_admin_gone:
  assumes "by_id i (admins w) = Some a" and "unique_mails w"
  shows "let w' = snd (remove_admin e i w) in
      by_id i (admins w') = None
      \<and> (\<forall>e' token cu. jwt_auth_guard e' False (Some token) w' = Inr (Some cu) \<longrightarrow> cu_subjectType cu = Some ADMIN \<longrightarrow> cu_id cu \<noteq> i)
      \<and> (\<forall>e' p w''. validateAdmin e' (a_email a) p w' = throw (UnauthorizedException ''Invalid credentials'') w')
      \<and> (\<forall>e' dto. ca_email dto = a_email a \<longrightarrow> by_id (ca_roleId dto) (roles w') \<noteq> None
            \<longrightarrow> fst (create_admin e' dto None w') = Inl (QueryFailedError ''23505''))"
proof -
  let ?w' = "snd (remove_admin e i w)"
  let ?f = "\<lambda>x. x\<lparr>deletedAt := Some (x_now e)\<rparr> :: admin"
  have as: "admins ?w' = update_where (\<lambda>x. entId x = i) ?f (admins w)"
    using assms(1) same_tablesD(2) [OF delete_same_tables [of w]] by (simp add: remove_admin_def Let_def)
  have gone: "by_id i (admins ?w') = None" unfolding as by (rule by_id_soft_deleted) simp_all
  have a: "a \<in> set (admins w)" "entId a = i" using by_id_Some [OF assms(1)] by auto
  have none: "admin_by_email (a_email a) ?w' = None"
    unfolding admin_by_email_def find_one_None
  proof
    fix x assume "x \<in> set (admins ?w')"
    then show "\<not> (live x \<and> a_email x = a_email a)"
      unfolding as
    proof (cases rule: in_update_whereE)
      case (hit y)
      then show ?thesis by (simp add: live_def)
    next
      case miss
      have "x = a" if "a_email x = a_email a"
        using assms(2) a(1) miss(1) that by (auto simp: unique_mails_def distinct_map dest: inj_onD)
      then show ?thesis using miss(2) a(2) by auto
    qed
  qed
  have taken: "\<exists>x \<in> set (admins ?w'). a_email x = a_email a"
    using in_update_whereI [OF a(1), of "\<lambda>x. entId x = i" ?f] a(2) unfolding as
    by (intro bexI [of _ "?f a"]) simp_all
  have "fst (create_admin e' dto None ?w') = Inl (QueryFailedError ''23505'')"
    if mail: "ca_email dto = a_email a" and role: "by_id (ca_roleId dto) (roles ?w') \<noteq> None" for e' dto
  proof -
    obtain r where r: "by_id (ca_roleId dto) (roles ?w') = Some r" using role by auto
    show ?thesis
      using none taken
      by (cases "ca_profileImageUrl dto")
         (simp_all add: create_admin_def mail r resolveProfileImageUrl_def throw_def admin_with_hashed_password_def)
  qed
  moreover have "cu_id cu \<noteq> i" if "jwt_auth_guard e' False (Some token) ?w' = Inr (Some cu)" "cu_subjectType cu = Some ADMIN"
    for e' token cu
    using guard_admin [OF that] gone by auto
  moreover have "validateAdmin e' (a_email a) p ?w' = throw (UnauthorizedException ''Invalid credentials'') ?w'" for e' p
    by (simp add: validateAdmin_def none)
  ultimately show ?thesis using gone by (simp add: Let_def)
qed

text \<open>The administration cannot create a user: the form has no role, which the table asks for, so every creation
  fails in the database, and a picture sent along stays in the store.\<close>

theorem user_creation_fails:
  "create_user e dto file w =
     (if user_by_phone (cu_phone dto) w \<noteq> None then throw (ConflictException ''User already exists'') w
      else throw (QueryFailedError ''23502'')
             (case file of None \<Rightarrow> w | Some f \<Rightarrow> snd (uploadProfileImage e f ''users/profile'' w)))"
  by (simp add: create_user_def insert_user_def user_of_dto_def Let_def split: prod.split option.split)

section \<open>Examples\<close>

definition hotel_office :: world where
  "hotel_office = sample_world
     \<lparr>users := [member],
      roles := [\<lparr>entId = ''superadmin'', createdAt = 0, deletedAt = None, r_name = ''Super'', r_description = None, r_rank = 1\<rparr>]\<rparr>"

definition no_admin_changes :: update_admin_dto where
  "no_admin_changes =
     \<lparr>ua_fullName = Undef, ua_email = Undef, ua_password = Undef, ua_roleId = Undef, ua_isBanned = None,
      ua_profileImageUrl = Undef\<rparr>"

definition new_admin :: create_admin_dto where
  "new_admin =
     \<lparr>ca_fullName = ''New'', ca_email = ''root@hotel'', ca_password = None, ca_roleId = ''superadmin'', ca_isBanned = None,
      ca_profileImageUrl = None\<rparr>"

lemma office_mails: "unique_mails hotel_office" "distinct (ids (admins hotel_office))"
  by (simp_all add: unique_mails_def hotel_office_def sample_world_def)

lemma office_root: "by_id ''a1'' (admins hotel_office) = Some sample_admin"
  by (simp add: hotel_office_def sample_world_def by_id_def live_def sample_admin_def)


theorem banned_user_keeps_session_witness:
  "let w' = snd (update_user_account (plain_ext 5) ''u1'' (no_changes\<lparr>pd_isBanned := Some True\<rparr>) None hotel_office)
   in fst (refreshAccessToken (plain_ext 5) ''s'' w') = fst (refreshAccessToken (plain_ext 5) ''s'' hotel_office)
     \<and> (\<forall>mail p access refresh w''. userLogin (plain_ext 5) mail p w' \<noteq> ok (access, refresh, ''u1'') w'')"
proof -
  let ?r = "update_user_account (plain_ext 5) ''u1'' (no_changes\<lparr>pd_isBanned := Some True\<rparr>) None hotel_office"
  have s: "succeeds ?r" "u_isBanned (fst (result_of ?r))" by code_simp+
  then have r: "?r = ok (fst (result_of ?r), snd (result_of ?r)) (snd ?r)" using succeeds_ok [of ?r] by simp
  show ?thesis
    using banned_user_keeps_session [OF r, where e' = "plain_ext 5" and s = "''s''"] s(2) by (simp add: Let_def)
qed

theorem banned_admin_logs_in_witness:
  "\<exists>saved w'. a_isBanned saved \<and> validateAdmin (plain_ext 5) ''root@hotel'' ''hash'' w' = ok saved w'"
proof -
  let ?r = "update_admin_account (plain_ext 5) ''a1'' (no_admin_changes\<lparr>ua_isBanned := Some True\<rparr>) None hotel_office"
  have s: "succeeds ?r" "a_isBanned (fst (result_of ?r))" "a_email (fst (result_of ?r)) = ''root@hotel''"
      "a_password (fst (result_of ?r)) = Some sample_hash"
    by code_simp+
  then have r: "?r = ok (fst (result_of ?r), snd (result_of ?r)) (snd ?r)" using succeeds_ok [of ?r] by simp
  have "validateAdmin (plain_ext 5) (a_email (fst (result_of ?r))) ''hash'' (snd ?r) = ok (fst (result_of ?r)) (snd ?r)"
    using banned_admin_logs_in [OF r _ office_mails s(4), of "plain_ext 5" "''hash''"]
    by (simp add: no_admin_changes_def plain_ext_def)
  then show ?thesis using s(2,3) by auto
qed

theorem removed_admin_gone_witness:
  "fst (create_admin (plain_ext 5) new_admin None (snd (remove_admin (plain_ext 5) ''a1'' hotel_office)))
     = Inl (QueryFailedError ''23505'')"
proof -
  have "map_option entId (by_id ''superadmin'' (roles (snd (remove_admin (plain_ext 5) ''a1'' hotel_office)))) = Some ''superadmin''"
    by code_simp
  then have "by_id (ca_roleId new_admin) (roles (snd (remove_admin (plain_ext 5) ''a1'' hotel_office))) \<noteq> None"
    by (auto simp: new_admin_def)
  moreover have "ca_email new_admin = a_email sample_admin" by (simp add: new_admin_def sample_admin_def)
  ultimately show ?thesis
    using removed_admin_gone [OF office_root office_mails(1), of "plain_ext 5"] by (simp add: Let_def)
qed

end
