(* ===== verification/Js_Text.thy ===== *)
theory Js_Text
  imports Prelude
begin

text \<open>
  Integers as text: \<open>toString()\<close> and \<open>parseInt\<close>.  \<open>toString\<close> is in decimal notation for the integers below
  \<open>10\<^sup>2\<^sup>1\<close> in absolute value; \<open>parseInt\<close> reads a sign, a hexadecimal prefix and the digits up to the first
  character that is none.  Above \<open>2\<^sup>5\<^sup>3\<close> JavaScript would round the result to a double.
\<close>

definition show_int :: "int \<Rightarrow> string" where
  "show_int i = (if i < 0 then CHR ''-'' # show_nat (nat (- i)) else show_nat (nat i))"

definition show_bool :: "bool \<Rightarrow> string" where
  "show_bool b = (if b then ''true'' else ''false'')"

definition digit_value :: "char \<Rightarrow> nat option" where
  "digit_value c = map_of (zip ''0123456789abcdef'' [0..<16]) (to_lower c)"

definition is_digit_of :: "nat \<Rightarrow> char \<Rightarrow> bool" where
  "is_digit_of base c = (case digit_value c of None \<Rightarrow> False | Some d \<Rightarrow> d < base)"

definition digits_value :: "nat \<Rightarrow> string \<Rightarrow> nat" where
  "digits_value base s = foldl (\<lambda>n c. n * base + the (digit_value c)) 0 s"

definition split_sign :: "string \<Rightarrow> bool \<times> string" where
  "split_sign s =
     (case s of [] \<Rightarrow> (False, [])
      | c # r \<Rightarrow> if c = CHR ''-'' then (True, r) else if c = CHR ''+'' then (False, r) else (False, s))"

definition split_base :: "string \<Rightarrow> nat \<times> string" where
  "split_base s =
     (case s of c # x # r \<Rightarrow> if c = CHR ''0'' \<and> to_lower x = CHR ''x'' then (16, r) else (10, s) | _ \<Rightarrow> (10, s))"

definition parseInt :: "string \<Rightarrow> int option" where
  "parseInt s =
     (let (negative, u) = split_sign (dropWhile (\<lambda>c. c \<in> set js_whitespace) s);
          (base, v) = split_base u;
          ds = takeWhile (is_digit_of base) v
      in if ds = [] then None else Some (if negative then - int (digits_value base ds) else int (digits_value base ds)))"

text \<open>\<open>split\<close> at one character.\<close>

definition js_split :: "char \<Rightarrow> string \<Rightarrow> string list" where
  "js_split d s = foldr (\<lambda>c acc. if c = d then [] # acc else (c # hd acc) # tl acc) s [[]]"

section \<open>Reading back what was written\<close>

lemma digit_facts:
  assumes "d < 10"
  shows "digit_value (show_digit d) = Some d" "show_digit d \<notin> set js_whitespace" "show_digit d \<noteq> CHR ''-''"
    "show_digit d \<noteq> CHR ''+''" "to_lower (show_digit d) \<noteq> CHR ''x''"
proof -
  have "\<forall>d \<in> set [0..<10]. digit_value (show_digit d) = Some d \<and> show_digit d \<notin> set js_whitespace
      \<and> show_digit d \<noteq> CHR ''-'' \<and> show_digit d \<noteq> CHR ''+'' \<and> to_lower (show_digit d) \<noteq> CHR ''x''"
    by code_simp
  then show "digit_value (show_digit d) = Some d" "show_digit d \<notin> set js_whitespace" "show_digit d \<noteq> CHR ''-''"
    "show_digit d \<noteq> CHR ''+''" "to_lower (show_digit d) \<noteq> CHR ''x''"
    using assms by auto
qed

definition decimal_digits :: "string \<Rightarrow> bool" where
  "decimal_digits s \<longleftrightarrow> (\<forall>c \<in> set s. \<exists>d < 10. c = show_digit d)"

lemma decimal_show_nat: "decimal_digits (show_nat n) \<and> show_nat n \<noteq> [] \<and> digits_value 10 (show_nat n) = n"
proof (induction n rule: show_nat.induct)
  case (1 n)
  show ?case
  proof (cases "n < 10")
    case True
    then show ?thesis
      by (auto simp: show_nat.simps [of n] decimal_digits_def digits_value_def digit_facts)
  next
    case False
    have "decimal_digits (show_nat (n div 10))" "digits_value 10 (show_nat (n div 10)) = n div 10"
      using 1 False by simp_all
    moreover have "digit_value (show_digit (n mod 10)) = Some (n mod 10)" by (rule digit_facts) simp
    moreover have "\<exists>d < 10. show_digit (n mod 10) = show_digit d" by (rule exI [of _ "n mod 10"]) simp
    ultimately show ?thesis
      using False by (auto simp: show_nat.simps [of n] decimal_digits_def digits_value_def)
  qed
qed

lemma takeWhile_decimal: "decimal_digits s \<Longrightarrow> takeWhile (is_digit_of 10) s = s"
  by (auto simp: takeWhile_eq_all_conv decimal_digits_def is_digit_of_def digit_facts)

lemma decimal_plain:
  assumes "decimal_digits s"
  shows "dropWhile (\<lambda>c. c \<in> set js_whitespace) s = s" "split_sign s = (False, s)" "split_base s = (10, s)"
proof -
  have d: "c \<notin> set js_whitespace" "c \<noteq> CHR ''-''" "c \<noteq> CHR ''+''" "to_lower c \<noteq> CHR ''x''" if "c \<in> set s" for c
  proof -
    obtain d where "d < 10" "c = show_digit d" using assms \<open>c \<in> set s\<close> by (auto simp: decimal_digits_def)
    then show "c \<notin> set js_whitespace" "c \<noteq> CHR ''-''" "c \<noteq> CHR ''+''" "to_lower c \<noteq> CHR ''x''"
      using digit_facts [of d] by simp_all
  qed
  show "dropWhile (\<lambda>c. c \<in> set js_whitespace) s = s" using d(1) by (cases s) auto
  show "split_sign s = (False, s)" using d(2,3) by (cases s) (auto simp: split_sign_def)
  show "split_base s = (10, s)" using d(4) by (auto simp: split_base_def split: list.split)
qed

lemma parseInt_show_int [simp]: "parseInt (show_int i) = Some i"
proof (cases "i < 0")
  case True
  let ?s = "show_nat (nat (- i))"
  have s: "decimal_digits ?s" "?s \<noteq> []" "digits_value 10 ?s = nat (- i)" using decimal_show_nat by auto
  have "dropWhile (\<lambda>c. c \<in> set js_whitespace) (CHR ''-'' # ?s) = CHR ''-'' # ?s" by (simp add: js_whitespace_def)
  then show ?thesis
    using True s by (simp add: parseInt_def show_int_def split_sign_def decimal_plain(3) takeWhile_decimal)
next
  case False
  let ?s = "show_nat (nat i)"
  have s: "decimal_digits ?s" "?s \<noteq> []" "digits_value 10 ?s = nat i" using decimal_show_nat by auto
  show ?thesis
    using False s by (simp add: parseInt_def show_int_def decimal_plain takeWhile_decimal)
qed

lemma show_int_not_empty [simp]: "show_int i \<noteq> []"
  using decimal_show_nat [of "nat i"] by (simp add: show_int_def)

lemma show_bool_true [simp]: "show_bool b = ''true'' \<longleftrightarrow> b"
  by (simp add: show_bool_def)

section \<open>Splitting what was joined\<close>

definition js_join :: "char \<Rightarrow> string list \<Rightarrow> string" where
  "js_join d ss = (case ss of [] \<Rightarrow> [] | s # r \<Rightarrow> s @ concat (map (\<lambda>t. d # t) r))"

lemma js_split_not_empty [simp]: "js_split d s \<noteq> []"
  by (cases s) (simp_all add: js_split_def)

lemma js_split_Cons: "js_split d (c # s) = (if c = d then [] # js_split d s else (c # hd (js_split d s)) # tl (js_split d s))"
  by (simp add: js_split_def)

lemma js_split_piece: "d \<notin> set s \<Longrightarrow> js_split d (s @ r) = (s @ hd (js_split d r)) # tl (js_split d r)"
proof (induction s)
  case Nil
  then show ?case by (simp add: js_split_not_empty)
next
  case (Cons c s)
  then show ?case by (auto simp: js_split_Cons)
qed

lemma js_split_join:
  assumes "ss \<noteq> []" and "\<forall>s \<in> set ss. d \<notin> set s"
  shows "js_split d (js_join d ss) = ss"
  using assms
proof (induction ss)
  case Nil
  then show ?case by simp
next
  case (Cons s ss)
  show ?case
  proof (cases ss)
    case Nil
    then show ?thesis using Cons.prems js_split_piece [of d s "[]"] by (simp add: js_join_def js_split_def)
  next
    case (Cons t r)
    have "js_split d (d # js_join d ss) = [] # ss"
      using Cons.IH Cons.prems Cons by (simp add: js_split_Cons)
    moreover have "js_join d (s # ss) = s @ d # js_join d ss" using Cons by (simp add: js_join_def)
    ultimately show ?thesis using js_split_piece [of d s "d # js_join d ss"] Cons.prems by simp
  qed
qed

end
