(* ===== verification/Settings.thy ===== *)
theory Settings
  imports Entities Js_Text
begin

text \<open>
  \<open>src/src/v1/setting/services/setting.service.ts\<close>: the settings of the mail server, kept as rows of keys and texts.

  The table is used as a store of values by key.  The locale \<open>keyed_store\<close> states that contract; the table of
  settings is an interpretation of it, and what a sequence of writes leaves behind is proved from the contract.
\<close>

section \<open>A store of values by key\<close>

locale keyed_store =
  fixes put :: "'i \<Rightarrow> 'k \<Rightarrow> 'v \<Rightarrow> 's \<Rightarrow> 's"
    and get :: "'s \<Rightarrow> 'k \<Rightarrow> 'v option"
    and inv :: "'s \<Rightarrow> bool"
    and fresh :: "'i \<Rightarrow> 's \<Rightarrow> bool"
  assumes get_put: "inv s \<Longrightarrow> get (put i k v s) = (get s)(k \<mapsto> v)"
    and inv_put: "inv s \<Longrightarrow> fresh i s \<Longrightarrow> inv (put i k v s)"
    and fresh_put: "fresh j s \<Longrightarrow> i \<noteq> j \<Longrightarrow> fresh j (put i k v s)"
begin

fun put_all :: "('i \<times> 'k \<times> 'v) list \<Rightarrow> 's \<Rightarrow> 's" where
  "put_all [] s = s"
| "put_all ((i, k, v) # rest) s = put_all rest (put i k v s)"

text \<open>The last write of a key counts, and the other keys keep their values.\<close>

lemma put_all:
  assumes "inv s" and "distinct (map fst ws)" and "\<forall>i \<in> fst ` set ws. fresh i s"
  shows "inv (put_all ws s) \<and> get (put_all ws s) = get s ++ map_of (rev (map snd ws))"
  using assms
proof (induction ws arbitrary: s)
  case Nil
  then show ?case by simp
next
  case (Cons w ws)
  obtain i k v where w: "w = (i, k, v)" by (cases w)
  have "fresh j (put i k v s)" if "j \<in> fst ` set ws" for j
  proof (rule fresh_put)
    show "fresh j s" using Cons.prems(3) that by auto
    show "i \<noteq> j" using Cons.prems(2) that by (auto simp: w)
  qed
  moreover have "inv (put i k v s)" using Cons.prems w by (intro inv_put) auto
  ultimately have "inv (put_all ws (put i k v s))
      \<and> get (put_all ws (put i k v s)) = get (put i k v s) ++ map_of (rev (map snd ws))"
    using Cons.IH Cons.prems(2) w by simp
  then show ?case
    using get_put [OF Cons.prems(1), of i k v] by (auto simp: w fun_eq_iff map_add_def map_of_append split: option.split)
qed

end

section \<open>The service\<close>

record create_smtp_dto =
  sd_smtpHost :: string
  sd_smtpPort :: int
  sd_smtpSecure :: bool
  sd_smtpUsername :: "string option"
  sd_smtpPassword :: "string option"
  sd_smtpFromEmail :: string
  sd_smtpFromName :: string
  sd_smtpEnabled :: bool

text \<open>A port that cannot be read is \<open>NaN\<close>: no number.\<close>

record smtp_response =
  sr_smtpHost :: string
  sr_smtpPort :: "int option"
  sr_smtpSecure :: bool
  sr_smtpUsername :: string
  sr_smtpPassword :: string
  sr_smtpFromEmail :: string
  sr_smtpFromName :: string
  sr_smtpEnabled :: bool

record smtp_reply = smtp_response +
  sr_createdAt :: time

definition smtp_settings :: "create_smtp_dto \<Rightarrow> (string \<times> string) list" where
  "smtp_settings d =
     [(''smtp_host'', sd_smtpHost d), (''smtp_port'', show_int (sd_smtpPort d)),
      (''smtp_secure'', show_bool (sd_smtpSecure d)), (''smtp_username'', or_default (sd_smtpUsername d) ''''),
      (''smtp_password'', or_default (sd_smtpPassword d) ''''), (''smtp_from_email'', sd_smtpFromEmail d),
      (''smtp_from_name'', sd_smtpFromName d), (''smtp_enabled'', show_bool (sd_smtpEnabled d))]"

definition smtpKeys :: "string list" where
  "smtpKeys =
     [''smtp_host'', ''smtp_port'', ''smtp_secure'', ''smtp_username'', ''smtp_password'', ''smtp_from_email'',
      ''smtp_from_name'', ''smtp_enabled'']"

text \<open>One turn of the loop: the row of the key gets the value, or a new row is inserted.\<close>

definition put_setting :: "time \<Rightarrow> uuid \<Rightarrow> string \<Rightarrow> string \<Rightarrow> setting list \<Rightarrow> setting list" where
  "put_setting now i k v ss =
     (case find_one (\<lambda>s. live s \<and> s_key s = k) ss of
        Some s \<Rightarrow> save_row (s\<lparr>s_value := Some v\<rparr>) ss
      | None \<Rightarrow> ss @ [\<lparr>entId = i, createdAt = now, deletedAt = None, s_key = k, s_value = Some v\<rparr>])"

text \<open>A new row is refused when its key or its identifier is taken, by a deleted row too.\<close>

definition put_refused :: "uuid \<Rightarrow> string \<Rightarrow> setting list \<Rightarrow> bool" where
  "put_refused i k ss \<longleftrightarrow>
     find_one (\<lambda>s. live s \<and> s_key s = k) ss = None \<and> (references i ss \<or> exists_by (\<lambda>s. s_key s = k) ss)"

fun save_settings :: "time \<Rightarrow> (uuid \<times> string \<times> string) list \<Rightarrow> world \<Rightarrow> (unit, world) result" where
  "save_settings now [] w = ok () w"
| "save_settings now ((i, k, v) # rest) w =
     (if put_refused i k (settings w) then throw (QueryFailedError ''23505'') w
      else save_settings now rest (w\<lparr>settings := put_setting now i k v (settings w)\<rparr>))"

definition getSettingValue :: "setting list \<Rightarrow> string \<Rightarrow> string" where
  "getSettingValue ss k =
     (case find_one (\<lambda>s. s_key s = k) ss of None \<Rightarrow> '''' | Some s \<Rightarrow> or_default (s_value s) '''')"

definition smtp_rows :: "world \<Rightarrow> setting list" where
  "smtp_rows w = find_all (\<lambda>s. live s \<and> s_key s \<in> set smtpKeys) (settings w)"

definition smtp_data :: "setting list \<Rightarrow> smtp_response" where
  "smtp_data ss =
     \<lparr>sr_smtpHost = getSettingValue ss ''smtp_host'',
      sr_smtpPort = parseInt (or_default (Some (getSettingValue ss ''smtp_port'')) ''587''),
      sr_smtpSecure = (getSettingValue ss ''smtp_secure'' = ''true''),
      sr_smtpUsername = getSettingValue ss ''smtp_username'', sr_smtpPassword = getSettingValue ss ''smtp_password'',
      sr_smtpFromEmail = getSettingValue ss ''smtp_from_email'', sr_smtpFromName = getSettingValue ss ''smtp_from_name'',
      sr_smtpEnabled = (getSettingValue ss ''smtp_enabled'' = ''true'')\<rparr>"

definition getSMTPSettings :: "world \<Rightarrow> (smtp_reply, world) result" where
  "getSMTPSettings w =
     (case smtp_rows w of
        [] \<Rightarrow> throw (NotFoundException ''SMTP settings not found'') w
      | s # ss \<Rightarrow> ok (smtp_response.extend (smtp_data (s # ss)) \<lparr>sr_createdAt = createdAt s\<rparr>) w)"

text \<open>The identifiers the database gives to new rows are an argument.\<close>

definition createSMTPSettings :: "time \<Rightarrow> uuid list \<Rightarrow> create_smtp_dto \<Rightarrow> world \<Rightarrow> (smtp_reply, world) result" where
  "createSMTPSettings now is d w = and_then (save_settings now (zip is (smtp_settings d)) w) (\<lambda>_ w1. getSMTPSettings w1)"

section \<open>The table as a store\<close>

definition settings_ok :: "setting list \<Rightarrow> bool" where
  "settings_ok ss \<longleftrightarrow> distinct (map s_key ss) \<and> distinct (ids ss) \<and> (\<forall>s \<in> set ss. live s)"

definition setting_of :: "setting list \<Rightarrow> string \<Rightarrow> string option" where
  "setting_of ss k = map_option (\<lambda>s. nullish (s_value s) '''') (find_one (\<lambda>s. live s \<and> s_key s = k) ss)"

lemma setting_of_put:
  assumes "settings_ok ss"
  shows "setting_of (put_setting now i k v ss) = (setting_of ss)(k \<mapsto> v)"
proof
  fix k'
  show "setting_of (put_setting now i k v ss) k' = ((setting_of ss)(k \<mapsto> v)) k'"
  proof (cases "find_one (\<lambda>s. live s \<and> s_key s = k) ss")
    case None
    then show ?thesis by (auto simp: put_setting_def setting_of_def find_one_append live_def split: option.split)
  next
    case (Some s)
    note s = find_one_Some [OF Some]
    have only: "r = s" if "r \<in> set ss" "entId r = entId s" for r
      using assms distinct_ids_unique [of ss r s] that s by (simp add: settings_ok_def)
    have "find_one (\<lambda>x. live x \<and> s_key x = k') (put_setting now i k v ss)
        = map_option (\<lambda>r. if entId r = entId s then s\<lparr>s_value := Some v\<rparr> else r) (find_one (\<lambda>x. live x \<and> s_key x = k') ss)"
      using only s by (simp add: put_setting_def Some save_row_def)
         (rule find_one_update_where, auto simp: live_def)
    moreover have "entId r = entId s \<longleftrightarrow> k' = k" if r: "find_one (\<lambda>x. live x \<and> s_key x = k') ss = Some r" for r
    proof
      note fr = find_one_Some [OF r]
      assume "entId r = entId s"
      then have "r = s" using only fr by blast
      then show "k' = k" using fr s by blast
    next
      assume "k' = k"
      then show "entId r = entId s" using r Some by simp
    qed
    moreover have "k' \<noteq> k" if "find_one (\<lambda>x. live x \<and> s_key x = k') ss = None"
      using that Some by auto
    ultimately show ?thesis
      unfolding setting_of_def by (cases "find_one (\<lambda>x. live x \<and> s_key x = k') ss") simp_all
  qed
qed

lemma settings_ok_put:
  assumes "settings_ok ss" and "\<not> references i ss"
  shows "settings_ok (put_setting now i k v ss)"
proof (cases "find_one (\<lambda>s. live s \<and> s_key s = k) ss")
  case None
  let ?new = "\<lparr>entId = i, createdAt = now, deletedAt = None, s_key = k, s_value = Some v\<rparr>"
  have put: "put_setting now i k v ss = ss @ [?new]" by (simp add: put_setting_def None)
  have "k \<notin> s_key ` set ss" using None assms(1) by (auto simp: find_one_None settings_ok_def)
  then show ?thesis using assms unfolding put settings_ok_def by (simp add: live_def)
next
  case (Some s)
  note s = find_one_Some [OF Some]
  have only: "r = s" if "r \<in> set ss" "entId r = entId s" for r
    using assms distinct_ids_unique [of ss r s] that s by (simp add: settings_ok_def)
  have keys: "map s_key (update_where (\<lambda>r. entId r = entId s) (\<lambda>_. s\<lparr>s_value := Some v\<rparr>) ss) = map s_key ss"
    by (rule map_update_where) (auto dest: only)
  have put: "put_setting now i k v ss = save_row (s\<lparr>s_value := Some v\<rparr>) ss" by (simp add: put_setting_def Some)
  have "live r" if "r \<in> set (save_row (s\<lparr>s_value := Some v\<rparr>) ss)" for r
    using in_save_row [OF that] assms(1) s by (auto simp: settings_ok_def live_def)
  moreover have "map s_key (save_row (s\<lparr>s_value := Some v\<rparr>) ss) = map s_key ss"
    using keys by (simp add: save_row_def)
  ultimately show ?thesis using assms(1) unfolding put settings_ok_def by simp
qed

interpretation settings_table: keyed_store "put_setting now" setting_of settings_ok "\<lambda>i ss. \<not> references i ss"
proof unfold_locales
  show "\<not> references j (put_setting now i k v ss)" if "\<not> references j ss" "i \<noteq> j" for i j k v ss
    using that by (simp add: put_setting_def split: option.split)
qed (simp_all add: setting_of_put settings_ok_put)

text \<open>Over a well-formed table with fresh identifiers nothing is refused.\<close>

lemma save_settings_puts:
  assumes "settings_ok (settings w)" and "distinct (map fst ws)" and "\<forall>i \<in> fst ` set ws. \<not> references i (settings w)"
  shows "save_settings now ws w = ok () (w\<lparr>settings := settings_table.put_all now ws (settings w)\<rparr>)"
  using assms
proof (induction ws arbitrary: w)
  case Nil
  then show ?case by simp
next
  case (Cons x ws)
  obtain i k v where x: "x = (i, k, v)" by (cases x)
  let ?ss = "put_setting now i k v (settings w)"
  have fresh: "\<not> references j ?ss" if "j \<in> fst ` set ws" for j
  proof (rule settings_table.fresh_put)
    show "\<not> references j (settings w)" using Cons.prems(3) that by auto
    show "i \<noteq> j" using Cons.prems(2) that by (auto simp: x)
  qed
  have "\<not> put_refused i k (settings w)"
    using Cons.prems(1,3) by (auto simp: put_refused_def x settings_ok_def find_one_None)
  moreover have "settings_ok ?ss" using Cons.prems(1,3) by (intro settings_ok_put) (auto simp: x)
  ultimately show ?case using Cons.IH [of "w\<lparr>settings := ?ss\<rparr>"] Cons.prems(2) fresh by (simp add: x)
qed

lemma getSettingValue_rows:
  assumes "settings_ok (settings w)" and "k \<in> set smtpKeys"
  shows "getSettingValue (smtp_rows w) k = nullish (setting_of (settings w) k) ''''"
proof -
  have rows: "find_one (\<lambda>s. s_key s = k) (filter (\<lambda>s. live s \<and> s_key s \<in> set smtpKeys) ss)
      = find_one (\<lambda>s. live s \<and> s_key s = k) ss" for ss
    using assms(2) by (induction ss) auto
  have plain: "or_default v '''' = nullish v ''''" for v by (cases v) (simp_all add: or_default_def)
  show ?thesis
    unfolding getSettingValue_def smtp_rows_def find_all_def setting_of_def rows plain
    by (cases "find_one (\<lambda>s. live s \<and> s_key s = k) (settings w)") simp_all
qed

definition smtp_of_dto :: "create_smtp_dto \<Rightarrow> smtp_response" where
  "smtp_of_dto d =
     \<lparr>sr_smtpHost = sd_smtpHost d, sr_smtpPort = Some (sd_smtpPort d), sr_smtpSecure = sd_smtpSecure d,
      sr_smtpUsername = or_default (sd_smtpUsername d) '''', sr_smtpPassword = or_default (sd_smtpPassword d) '''',
      sr_smtpFromEmail = sd_smtpFromEmail d, sr_smtpFromName = sd_smtpFromName d, sr_smtpEnabled = sd_smtpEnabled d\<rparr>"

lemma smtp_data_saved:
  assumes "settings_ok (settings w)" and "setting_of (settings w) = m ++ map_of (rev (smtp_settings d))"
  shows "smtp_data (smtp_rows w) = smtp_of_dto d"
proof -
  have "getSettingValue (smtp_rows w) k = nullish ((m ++ map_of (rev (smtp_settings d))) k) ''''" if "k \<in> set smtpKeys" for k
    using getSettingValue_rows [OF assms(1) that] assms(2) by simp
  then show ?thesis by (simp add: smtpKeys_def smtp_settings_def smtp_data_def smtp_of_dto_def or_default_def split: option.split list.split)
qed

lemma save_smtp:
  assumes "settings_ok (settings w)" and "distinct is" and "length is = length smtpKeys"
    and "\<forall>i \<in> set is. \<not> references i (settings w)"
  obtains ss where "save_settings now (zip is (smtp_settings d)) w = ok () (w\<lparr>settings := ss\<rparr>)" "settings_ok ss"
    "setting_of ss = setting_of (settings w) ++ map_of (rev (smtp_settings d))"
proof -
  let ?ws = "zip is (smtp_settings d)"
  let ?ss = "settings_table.put_all now ?ws (settings w)"
  have "length is = length (smtp_settings d)" using assms(3) by (simp add: smtpKeys_def smtp_settings_def)
  then have z: "map fst ?ws = is" "map snd ?ws = smtp_settings d" by simp_all
  then have f: "distinct (map fst ?ws)" "\<forall>i \<in> fst ` set ?ws. \<not> references i (settings w)"
    using assms(2,4) by (auto dest: set_zip_leftD)
  have "settings_ok ?ss \<and> setting_of ?ss = setting_of (settings w) ++ map_of (rev (smtp_settings d))"
    using settings_table.put_all [OF assms(1) f] unfolding z .
  then show ?thesis using that save_settings_puts [OF assms(1) f] by blast
qed

text \<open>The settings of the mail server are read back as they were saved: over a well-formed table saving succeeds,
  answers with the values of the form (a missing user name or password as the empty text), leaves every other setting
  alone and keeps the table well formed.\<close>

theorem smtp_settings_roundtrip:
  assumes "settings_ok (settings w)" and "distinct is" and "length is = length smtpKeys"
    and "\<forall>i \<in> set is. \<not> references i (settings w)"
  shows "\<exists>r ss. createSMTPSettings now is d w = ok r (w\<lparr>settings := ss\<rparr>)
    \<and> getSMTPSettings (w\<lparr>settings := ss\<rparr>) = ok r (w\<lparr>settings := ss\<rparr>)
    \<and> smtp_response.truncate r = smtp_of_dto d
    \<and> settings_ok ss \<and> (\<forall>k. k \<notin> set smtpKeys \<longrightarrow> setting_of ss k = setting_of (settings w) k)"
proof -
  obtain ss where ss: "save_settings now (zip is (smtp_settings d)) w = ok () (w\<lparr>settings := ss\<rparr>)" "settings_ok ss"
      "setting_of ss = setting_of (settings w) ++ map_of (rev (smtp_settings d))"
    using save_smtp [OF assms] .
  let ?w = "w\<lparr>settings := ss\<rparr>"
  have data: "smtp_data (smtp_rows ?w) = smtp_of_dto d"
    using smtp_data_saved [of ?w "setting_of (settings w)"] ss(2,3) by simp
  have "setting_of ss ''smtp_host'' \<noteq> None"
    unfolding ss(3) by (simp add: smtp_settings_def map_add_def split: option.split)
  then obtain s where "find_one (\<lambda>s. live s \<and> s_key s = ''smtp_host'') ss = Some s" by (auto simp: setting_of_def)
  then have "s \<in> set ss" "live s" "s_key s = ''smtp_host''" by (auto dest: find_one_Some)
  then have "s \<in> set (smtp_rows ?w)" by (simp add: smtp_rows_def smtpKeys_def)
  then obtain x xs where rows: "smtp_rows ?w = x # xs" by (cases "smtp_rows ?w") auto
  let ?r = "smtp_response.extend (smtp_data (x # xs)) \<lparr>sr_createdAt = createdAt x\<rparr>"
  have get: "getSMTPSettings ?w = ok ?r ?w" by (simp add: getSMTPSettings_def rows)
  have "smtp_response.truncate ?r = smtp_data (x # xs)"
    by (cases "smtp_data (x # xs)") (simp add: smtp_response.defs)
  then have "smtp_response.truncate ?r = smtp_of_dto d" using data rows by simp
  moreover have "setting_of ss k = setting_of (settings w) k" if "k \<notin> set smtpKeys" for k
  proof -
    have "map_of (rev (smtp_settings d)) k = None"
      using that by (auto simp: map_of_eq_None_iff smtp_settings_def smtpKeys_def)
    then show ?thesis unfolding ss(3) by (simp add: map_add_def)
  qed
  moreover have "createSMTPSettings now is d w = ok ?r ?w" using ss(1) get by (simp add: createSMTPSettings_def)
  ultimately show ?thesis using get ss(2) by blast
qed

definition sample_smtp :: create_smtp_dto where
  "sample_smtp =
     \<lparr>sd_smtpHost = ''mail.hotel'', sd_smtpPort = 587, sd_smtpSecure = False, sd_smtpUsername = Some ''desk'',
      sd_smtpPassword = None, sd_smtpFromEmail = ''desk@hotel'', sd_smtpFromName = ''Desk'', sd_smtpEnabled = True\<rparr>"

definition sample_ids :: "uuid list" where
  "sample_ids = map (\<lambda>n. ''s'' @ show_nat n) [0..<8]"

theorem smtp_settings_roundtrip_witness:
  "\<exists>r w'. createSMTPSettings 5 sample_ids sample_smtp empty_world = ok r w' \<and> smtp_response.truncate r = smtp_of_dto sample_smtp"
proof -
  have "settings_ok (settings empty_world)" "\<forall>i \<in> set sample_ids. \<not> references i (settings empty_world)"
    by (simp_all add: settings_ok_def empty_world_def)
  moreover have "distinct sample_ids" "length sample_ids = length smtpKeys" by code_simp+
  ultimately show ?thesis using smtp_settings_roundtrip [of empty_world sample_ids 5 sample_smtp] by blast
qed

end
