(* ===== verification/Mailer.thy ===== *)
theory Mailer
  imports Settings Auth_Base
begin

text \<open>
  \<open>src/src/common/utils/email-service.utils.ts\<close> with the queue in front of it (\<open>src/src/notification\<close>): the mails with
  the codes.  The service keeps the settings of the mail server in memory for five minutes.  Nodemailer is an
  argument: \<open>deliver transport mail\<close> says whether the server takes the mail.
\<close>

section \<open>Mails\<close>

record mail =
  ml_from :: string
  ml_to :: string
  ml_subject :: string
  ml_html :: string

record transport =
  tp_host :: string
  tp_port :: "int option"
  tp_secure :: bool
  tp_auth :: "(string \<times> string) option"

record mail_payload =
  mp_code :: string
  mp_email :: string
  mp_userName :: string
  mp_fromUsername :: string
  mp_expiresIn :: int

text \<open>The fields of the service: the settings it keeps, with the time of their reading, and the mails it handed over.\<close>

record mailer =
  smtpConfigCache :: "(smtp_response \<times> time) option"
  outbox :: "(transport \<times> mail) list"

fun join_lines :: "string list \<Rightarrow> string" where
  "join_lines [] = ''''"
| "join_lines [l] = l"
| "join_lines (l # ls) = l @ CHR 0x0A # join_lines ls"

section \<open>The two texts\<close>

definition twoFactorEmailTemplate :: "string \<Rightarrow> string \<Rightarrow> string \<Rightarrow> int \<Rightarrow> string" where
  "twoFactorEmailTemplate code userName fromUsername expiresIn = join_lines
     ['''',
      ''      <!DOCTYPE html>'',
      ''      <html>'',
      ''      <head>'',
      ''        <meta charset=\"utf-8\">'',
      ''        <meta name=\"viewport\" content=\"width=device-width, initial-scale=1.0\">'',
      ''        <title>Two-Factor Authentication Code</title>'',
      ''        <style>'',
      ''          body { font-family: Arial, sans-serif; line-height: 1.6; color: #333; }'',
      ''          .container { max-width: 600px; margin: 0 auto; padding: 20px; }'',
      ''          .header { background: #2c5aa0; color: white; padding: 20px; text-align: center; border-radius: 8px 8px 0 0; }'',
      ''          .content { background: #f9f9f9; padding: 30px; border-radius: 0 0 8px 8px; }'',
      ''          .code-box { background: #fff; border: 2px solid #2c5aa0; border-radius: 8px; padding: 20px; text-align: center; margin: 20px 0; }'',
      ''          .code { font-size: 32px; font-weight: bold; color: #2c5aa0; letter-spacing: 5px; }'',
      ''          .warning { background: #fff3cd; border: 1px solid #ffeaa7; border-radius: 4px; padding: 15px; margin: 20px 0; }'',
      ''          .footer { text-align: center; margin-top: 30px; color: #666; font-size: 14px; }'',
      ''        </style>'',
      ''      </head>'',
      ''      <body>'',
      ''        <div class=\"container\">'',
      ''          <div class=\"header\">'',
      ''            <h1>'' @ [CHR 0xF0, CHR 0x9F, CHR 0x94, CHR 0x90] @ '' Two-Factor Authentication</h1>'',
      ''          </div>'',
      ''          <div class=\"content\">'',
      ''            <h2>Hello '' @ userName @ '',</h2>'',
      ''            <p>You have requested to enable Two-Factor Authentication for your account. Please use the verification code below to complete the setup:</p>'',
      ''            '',
      ''            <div class=\"code-box\">'',
      ''              <div class=\"code\">'' @ code @ ''</div>'',
      ''            </div>'',
      ''            '',
      ''            <div class=\"warning\">'',
      ''              <strong>'' @ [CHR 0xE2, CHR 0x9A, CHR 0xA0, CHR 0xEF, CHR 0xB8, CHR 0x8F] @ '' Important:</strong>'',
      ''              <ul>'',
      ''                <li>This code will expire in '' @ show_int expiresIn @ '' minutes</li>'',
      ''                <li>Do not share this code with anyone</li>'',
      ''                <li>If you didn't request this, please contact your administrator immediately</li>'',
      ''              </ul>'',
      ''            </div>'',
      ''            '',
      ''            <p>If you have any questions or need assistance, please contact our support team.</p>'',
      ''            '',
      ''            <p>Best regards,<br>'',
      ''            <strong>'' @ fromUsername @ '' Team</strong></p>'',
      ''          </div>'',
      ''          <div class=\"footer\">'',
      ''            <p>This is an automated message. Please do not reply to this email.</p>'',
      ''          </div>'',
      ''        </div>'',
      ''      </body>'',
      ''      </html>'',
      ''    '']"

definition resetPasswordEmailTemplate :: "string \<Rightarrow> string \<Rightarrow> string \<Rightarrow> int \<Rightarrow> string" where
  "resetPasswordEmailTemplate code userName fromUsername expiresIn = join_lines
     ['''',
      ''    <!DOCTYPE html>'',
      ''    <html>'',
      ''    <head>'',
      ''      <meta charset=\"utf-8\">'',
      ''      <meta name=\"viewport\" content=\"width=device-width, initial-scale=1.0\">'',
      ''      <title>Password Reset Code</title>'',
      ''      <style>'',
      ''        body { font-family: Arial, sans-serif; line-height: 1.6; color: #333; }'',
      ''        .container { max-width: 600px; margin: 0 auto; padding: 20px; }'',
      ''        .header { background: #d9534f; color: white; padding: 20px; text-align: center; border-radius: 8px 8px 0 0; }'',
      ''        .content { background: #f9f9f9; padding: 30px; border-radius: 0 0 8px 8px; }'',
      ''        .code-box { background: #fff; border: 2px solid #d9534f; border-radius: 8px; padding: 20px; text-align: center; margin: 20px 0; }'',
      ''        .code { font-size: 32px; font-weight: bold; color: #d9534f; letter-spacing: 5px; }'',
      ''        .warning { background: #fff3cd; border: 1px solid #ffeaa7; border-radius: 4px; padding: 15px; margin: 20px 0; }'',
      ''        .footer { text-align: center; margin-top: 30px; color: #666; font-size: 14px; }'',
      ''        .button { display: inline-block; padding: 12px 24px; background: #d9534f; color: white; text-decoration: none; border-radius: 4px; margin: 15px 0; }'',
      ''      </style>'',
      ''    </head>'',
      ''    <body>'',
      ''      <div class=\"container\">'',
      ''        <div class=\"header\">'',
      ''          <h1>'' @ [CHR 0xF0, CHR 0x9F, CHR 0x94, CHR 0x92] @ '' Password Reset Request</h1>'',
      ''        </div>'',
      ''        <div class=\"content\">'',
      ''          <h2>Hello '' @ userName @ '',</h2>'',
      ''          <p>We received a request to reset your password for your account. Please use the verification code below to reset your password:</p>'',
      ''          '',
      ''          <div class=\"code-box\">'',
      ''            <div class=\"code\">'' @ code @ ''</div>'',
      ''          </div>'',
      ''          '',
      ''          <div class=\"warning\">'',
      ''            <strong>'' @ [CHR 0xE2, CHR 0x9A, CHR 0xA0, CHR 0xEF, CHR 0xB8, CHR 0x8F] @ '' Important Security Notice:</strong>'',
      ''            <ul>'',
      ''              <li>This code will expire in '' @ show_int expiresIn @ '' minutes</li>'',
      ''              <li>Do not share this code with anyone</li>'',
      ''              <li>If you didn't request a password reset, please ignore this email and contact your administrator immediately</li>'',
      ''              <li>Your account security is important to us</li>'',
      ''            </ul>'',
      ''          </div>'',
      ''          '',
      ''          <p>Enter this code in the password reset page to create a new password for your account.</p>'',
      ''          '',
      ''          <p>If you have any questions or need assistance, please contact our support team.</p>'',
      ''          '',
      ''          <p>Best regards,<br>'',
      ''          <strong>'' @ fromUsername @ ''</strong></p>'',
      ''        </div>'',
      ''        <div class=\"footer\">'',
      ''          <p>This is an automated message. Please do not reply to this email.</p>'',
      ''          <p>For security reasons, this code can only be used once and will expire shortly.</p>'',
      ''        </div>'',
      ''      </div>'',
      ''    </body>'',
      ''    </html>'',
      ''  '']"


section \<open>The service\<close>

definition mailer_settings :: "time \<Rightarrow> world \<Rightarrow> mailer \<Rightarrow> smtp_response \<times> mailer" where
  "mailer_settings now w m =
     (let fresh = smtp_data (smtp_rows w); refreshed = (fresh, m\<lparr>smtpConfigCache := Some (fresh, now)\<rparr>)
      in case smtpConfigCache m of
           None \<Rightarrow> refreshed
         | Some (c, read) \<Rightarrow> if now - read < SMTP_CACHE_TTL_MS then (c, m) else refreshed)"

definition invalidateSmtpCache :: "mailer \<Rightarrow> mailer" where
  "invalidateSmtpCache m = m\<lparr>smtpConfigCache := None\<rparr>"

definition transport_of :: "smtp_response \<Rightarrow> transport" where
  "transport_of c =
     \<lparr>tp_host = sr_smtpHost c, tp_port = sr_smtpPort c, tp_secure = sr_smtpSecure c,
      tp_auth = (if sr_smtpUsername c \<noteq> '''' \<and> sr_smtpPassword c \<noteq> '''' then Some (sr_smtpUsername c, sr_smtpPassword c)
                 else None)\<rparr>"

definition getTransporter :: "time \<Rightarrow> world \<Rightarrow> mailer \<Rightarrow> (transport, mailer) result" where
  "getTransporter now w m =
     (let (c, m1) = mailer_settings now w m
      in if \<not> sr_smtpEnabled c then throw (JsError ''SMTP is not enabled'') m1 else ok (transport_of c) m1)"

definition sender :: "smtp_response \<Rightarrow> string" where
  "sender c = CHR 0x22 # sr_smtpFromName c @ CHR 0x22 # '' <'' @ sr_smtpFromEmail c @ ''>''"

text \<open>What both mails share: the server is asked, and any error becomes the one error of the caller.\<close>

definition send_mail ::
  "(transport \<Rightarrow> mail \<Rightarrow> bool) \<Rightarrow> string \<Rightarrow> string \<Rightarrow> string \<Rightarrow> string \<Rightarrow> time \<Rightarrow> world \<Rightarrow> mailer \<Rightarrow> (unit, mailer) result" where
  "send_mail deliver failure to subject html now w m =
     catching
       (and_then (getTransporter now w m)
          (\<lambda>t m1.
             let (c, m2) = mailer_settings now w m1;
                 letter = \<lparr>ml_from = sender c, ml_to = to, ml_subject = subject, ml_html = html\<rparr>
             in if deliver t letter then ok () (m2\<lparr>outbox := outbox m2 @ [(t, letter)]\<rparr>)
                else throw (JsError ''sendMail'') m2))
       (\<lambda>_ m1. throw (JsError failure) m1)"

definition mail_sendTwoFactorCode ::
  "(transport \<Rightarrow> mail \<Rightarrow> bool) \<Rightarrow> ext \<Rightarrow> mail_payload \<Rightarrow> world \<Rightarrow> mailer \<Rightarrow> (unit, mailer) result" where
  "mail_sendTwoFactorCode deliver e p w m =
     (if isOtpMockEnabled e then ok () m
      else send_mail deliver ''Failed to send verification email'' (mp_email p)
             (''Two-Factor Authentication Code - '' @ mp_fromUsername p)
             (twoFactorEmailTemplate (mp_code p) (mp_userName p) (mp_fromUsername p) (mp_expiresIn p)) (x_now e) w m)"

definition mail_sendForgotPasswordResetCode ::
  "(transport \<Rightarrow> mail \<Rightarrow> bool) \<Rightarrow> ext \<Rightarrow> mail_payload \<Rightarrow> world \<Rightarrow> mailer \<Rightarrow> (unit, mailer) result" where
  "mail_sendForgotPasswordResetCode deliver e p w m =
     (if isOtpMockEnabled e then ok () m
      else send_mail deliver ''Failed to send password reset email'' (mp_email p)
             (''Password Reset Code - '' @ mp_fromUsername p)
             (resetPasswordEmailTemplate (mp_code p) (mp_userName p) (mp_fromUsername p) (mp_expiresIn p)) (x_now e) w m)"

section \<open>The queue\<close>

text \<open>A job as it is added: its name, its data and how often it may be attempted.\<close>

record email_job =
  ej_name :: string
  ej_data :: mail_payload
  ej_attempts :: nat

definition SEND_TWO_FACTOR_CODE :: string where
  "SEND_TWO_FACTOR_CODE = ''send_two_factor_code''"

definition SEND_FORGOT_PASSWORD_RESET_CODE :: string where
  "SEND_FORGOT_PASSWORD_RESET_CODE = ''send_forgot_password_reset_code''"

definition queue_TwoFactorCode :: "mail_payload \<Rightarrow> email_job list \<Rightarrow> email_job list" where
  "queue_TwoFactorCode p q = q @ [\<lparr>ej_name = SEND_TWO_FACTOR_CODE, ej_data = p, ej_attempts = 3\<rparr>]"

definition queue_ForgotPasswordResetCode :: "mail_payload \<Rightarrow> email_job list \<Rightarrow> email_job list" where
  "queue_ForgotPasswordResetCode p q = q @ [\<lparr>ej_name = SEND_FORGOT_PASSWORD_RESET_CODE, ej_data = p, ej_attempts = 3\<rparr>]"

text \<open>The listener of the event \<open>two-factor.code.requested\<close>.\<close>

definition handleTwoFactorCodeRequested ::
  "string \<Rightarrow> string \<Rightarrow> string \<Rightarrow> string \<Rightarrow> int \<Rightarrow> email_job list \<Rightarrow> email_job list" where
  "handleTwoFactorCodeRequested email code userName fromUsername expiresIn q =
     queue_TwoFactorCode \<lparr>mp_code = code, mp_email = email, mp_userName = userName, mp_fromUsername = fromUsername,
                          mp_expiresIn = expiresIn\<rparr> q"

definition process_email_job ::
  "(transport \<Rightarrow> mail \<Rightarrow> bool) \<Rightarrow> ext \<Rightarrow> email_job \<Rightarrow> world \<Rightarrow> mailer \<Rightarrow> (unit, mailer) result" where
  "process_email_job deliver e j w m =
     (if ej_name j = SEND_TWO_FACTOR_CODE then mail_sendTwoFactorCode deliver e (ej_data j) w m
      else if ej_name j = SEND_FORGOT_PASSWORD_RESET_CODE then mail_sendForgotPasswordResetCode deliver e (ej_data j) w m
      else ok () m)"

end
