(* ===== verification/Mailer_Facts.thy ===== *)
theory Mailer_Facts
  imports Mailer
begin

text \<open>
  What a change of the mail server means for the mails: within five minutes of a reading the old settings are used,
  five minutes after the change the new ones are, however the mails in between went.
\<close>

definition saved_config :: "world \<Rightarrow> smtp_response" where
  "saved_config w = smtp_data (smtp_rows w)"

text \<open>Jobs worked off one after the other, each at its time; a failed one leaves the service as it is then.\<close>

fun work_jobs ::
  "(transport \<Rightarrow> mail \<Rightarrow> bool) \<Rightarrow> ext \<Rightarrow> (time \<times> email_job) list \<Rightarrow> world \<Rightarrow> mailer \<Rightarrow> mailer" where
  "work_jobs deliver e [] w m = m"
| "work_jobs deliver e ((t, j) # js) w m =
     work_jobs deliver e js w (snd (process_email_job deliver (e\<lparr>x_now := t\<rparr>) j w m))"

text \<open>Everything kept was read by then, or is what is saved.\<close>

definition kept_by :: "time \<Rightarrow> world \<Rightarrow> mailer \<Rightarrow> bool" where
  "kept_by t w m \<longleftrightarrow> (\<forall>c r. smtpConfigCache m = Some (c, r) \<longrightarrow> r \<le> t \<or> c = saved_config w)"

lemma mailer_settings_kept:
  assumes "kept_by t0 w m" and "mailer_settings t w m = (c, m')"
  shows "kept_by t0 w m'" "outbox m' = outbox m"
  using assms by (auto simp: mailer_settings_def kept_by_def saved_config_def Let_def split: option.splits if_splits prod.splits)

lemma mailer_settings_late:
  assumes "kept_by t0 w m" and "t0 + SMTP_CACHE_TTL_MS \<le> t"
  shows "fst (mailer_settings t w m) = saved_config w"
  using assms by (fastforce simp: mailer_settings_def kept_by_def saved_config_def Let_def split: option.splits)

lemma send_mail_kept:
  assumes "kept_by t0 w m"
  shows "kept_by t0 w (snd (send_mail deliver failure to subject html t w m))"
proof -
  obtain c m1 where 1: "mailer_settings t w m = (c, m1)" by fastforce
  obtain c2 m2 where 2: "mailer_settings t w m1 = (c2, m2)" by fastforce
  have k: "kept_by t0 w m1" "kept_by t0 w m2"
    using mailer_settings_kept [OF assms 1] mailer_settings_kept [OF _ 2] by auto
  have "kept_by t0 w (m2\<lparr>outbox := x\<rparr>)" for x using k(2) by (simp add: kept_by_def)
  then show ?thesis using k by (simp add: send_mail_def getTransporter_def 1 2 Let_def)
qed

lemma process_kept: "kept_by t0 w m \<Longrightarrow> kept_by t0 w (snd (process_email_job deliver e j w m))"
  by (simp add: process_email_job_def mail_sendTwoFactorCode_def mail_sendForgotPasswordResetCode_def send_mail_kept)

lemma work_jobs_kept: "kept_by t0 w m \<Longrightarrow> kept_by t0 w (work_jobs deliver e js w m)"
  by (induction js arbitrary: m) (auto simp: process_kept)

lemma send_mail_late:
  assumes "kept_by t0 w m" and "t0 + SMTP_CACHE_TTL_MS \<le> t"
    and "send_mail deliver failure to subject html t w m = ok () m'"
  shows "outbox m' = outbox m @ [(transport_of (saved_config w),
      \<lparr>ml_from = sender (saved_config w), ml_to = to, ml_subject = subject, ml_html = html\<rparr>)]
    \<and> sr_smtpEnabled (saved_config w)"
proof -
  obtain c m1 where 1: "mailer_settings t w m = (c, m1)" by fastforce
  obtain c2 m2 where 2: "mailer_settings t w m1 = (c2, m2)" by fastforce
  have k: "kept_by t0 w m1" "outbox m1 = outbox m" using mailer_settings_kept [OF assms(1) 1] by auto
  have "outbox m2 = outbox m1" using mailer_settings_kept [OF k(1) 2] by simp
  moreover have "c = saved_config w" using mailer_settings_late [OF assms(1,2)] 1 by simp
  moreover have "c2 = saved_config w" using mailer_settings_late [OF k(1) assms(2)] 2 by simp
  ultimately show ?thesis
    using assms(3) k(2) by (auto simp: send_mail_def getTransporter_def 1 2 Let_def split: if_splits)
qed

text \<open>C32: a change of the mail server takes effect: every mail that goes out five minutes after the settings were saved,
  whatever went out before, goes to the saved server with the saved sender, to the addressee of the job, and only if
  the saved settings allow mails.\<close>

theorem smtp_change_takes_effect:
  assumes "settings_ok (settings w)" and "distinct is" and "length is = length smtpKeys"
    and "\<forall>i \<in> set is. \<not> references i (settings w)"
    and "createSMTPSettings t0 is d w = ok reply w1"
    and "\<And>c r. smtpConfigCache m = Some (c, r) \<Longrightarrow> r \<le> t0"
    and "t0 + SMTP_CACHE_TTL_MS \<le> t" and "x_now e = t" and "\<not> isOtpMockEnabled e"
    and "ej_name j \<in> {SEND_TWO_FACTOR_CODE, SEND_FORGOT_PASSWORD_RESET_CODE}"
    and "process_email_job deliver e j w1 (work_jobs deliver e js w1 m) = ok () m'"
  shows "sd_smtpEnabled d \<and> (\<exists>letter. outbox m' = outbox (work_jobs deliver e js w1 m) @ [(transport_of (smtp_of_dto d), letter)]
    \<and> ml_to letter = mp_email (ej_data j) \<and> ml_from letter = sender (smtp_of_dto d))"
proof -
  obtain ss where ss: "save_settings t0 (zip is (smtp_settings d)) w = ok () (w\<lparr>settings := ss\<rparr>)" "settings_ok ss"
      "setting_of ss = setting_of (settings w) ++ map_of (rev (smtp_settings d))"
    using save_smtp [OF assms(1-4)] .
  have "w1 = w\<lparr>settings := ss\<rparr>"
    using assms(5) ss(1) by (auto simp: createSMTPSettings_def getSMTPSettings_def split: list.splits)
  then have cfg: "saved_config w1 = smtp_of_dto d"
    using smtp_data_saved [of "w\<lparr>settings := ss\<rparr>" "setting_of (settings w)"] ss(2,3) by (simp add: saved_config_def)
  have "kept_by t0 w1 m" using assms(6) by (auto simp: kept_by_def)
  then have k: "kept_by t0 w1 (work_jobs deliver e js w1 m)" by (rule work_jobs_kept)
  obtain failure subject html where
    "send_mail deliver failure (mp_email (ej_data j)) subject html t w1 (work_jobs deliver e js w1 m) = ok () m'"
    using assms(8-11) by (auto simp: process_email_job_def mail_sendTwoFactorCode_def mail_sendForgotPasswordResetCode_def
        split: if_splits)
  from send_mail_late [OF k assms(7) this] show ?thesis unfolding cfg by (simp add: smtp_of_dto_def)
qed

text \<open>Until then the service does not look: with settings read less than five minutes ago, a mail goes out as they say,
  whatever is saved now.\<close>

theorem smtp_settings_lag:
  assumes "smtpConfigCache m = Some (c, r)" and "x_now e - r < SMTP_CACHE_TTL_MS"
  shows "process_email_job deliver e j w m = process_email_job deliver e j w' m"
  using assms
  by (simp add: process_email_job_def mail_sendTwoFactorCode_def mail_sendForgotPasswordResetCode_def send_mail_def
      getTransporter_def mailer_settings_def Let_def)

section \<open>Examples\<close>

definition sample_payload :: mail_payload where
  "sample_payload =
     \<lparr>mp_code = ''482913'', mp_email = ''root@hotel'', mp_userName = ''Root'', mp_fromUsername = ''Hotel'', mp_expiresIn = 10\<rparr>"

definition sample_job :: email_job where
  "sample_job = \<lparr>ej_name = SEND_TWO_FACTOR_CODE, ej_data = sample_payload, ej_attempts = 3\<rparr>"

definition idle_mailer :: mailer where
  "idle_mailer = \<lparr>smtpConfigCache = None, outbox = []\<rparr>"

theorem smtp_change_takes_effect_witness:
  "\<exists>w1 m' letter. outbox m' = [(transport_of (smtp_of_dto sample_smtp), letter)] \<and> ml_to letter = ''root@hotel''
     \<and> process_email_job (\<lambda>_ _. True) (plain_ext 300005) sample_job w1 idle_mailer = ok () m'"
proof -
  let ?c = "createSMTPSettings 5 sample_ids sample_smtp empty_world"
  let ?w = "snd ?c"
  let ?r = "process_email_job (\<lambda>_ _. True) (plain_ext 300005) sample_job ?w idle_mailer"
  have "succeeds ?c" by code_simp
  then have c: "?c = ok (result_of ?c) ?w" by (rule succeeds_ok)
  have "succeeds ?r" by code_simp
  then have r: "process_email_job (\<lambda>_ _. True) (plain_ext 300005) sample_job ?w
      (work_jobs (\<lambda>_ _. True) (plain_ext 300005) [] ?w idle_mailer) = ok () (snd ?r)"
    using succeeds_unit by simp
  have s: "settings_ok (settings empty_world)" "\<forall>i \<in> set sample_ids. \<not> references i (settings empty_world)"
    by (simp_all add: settings_ok_def empty_world_def)
  have i: "distinct sample_ids" "length sample_ids = length smtpKeys" by code_simp+
  have "\<not> isOtpMockEnabled (plain_ext 300005)" by code_simp
  then show ?thesis
    using smtp_change_takes_effect [OF s(1) i s(2) c _ _ _ _ _ r, of 300005] r
    by (auto simp: idle_mailer_def SMTP_CACHE_TTL_MS_def plain_ext_def sample_job_def sample_payload_def)
qed

theorem smtp_settings_lag_witness:
  "process_email_job (\<lambda>_ _. True) (plain_ext 5) sample_job empty_world (idle_mailer\<lparr>smtpConfigCache := Some (smtp_of_dto sample_smtp, 0)\<rparr>)
    = process_email_job (\<lambda>_ _. True) (plain_ext 5) sample_job (empty_world\<lparr>settings := []\<rparr>)
        (idle_mailer\<lparr>smtpConfigCache := Some (smtp_of_dto sample_smtp, 0)\<rparr>)"
  by (rule smtp_settings_lag [where c = "smtp_of_dto sample_smtp" and r = 0])
     (simp_all add: plain_ext_def SMTP_CACHE_TTL_MS_def)

end
