(* ===== verification/Logs.thy ===== *)
theory Logs
  imports Audit_Values Auth_Base Listing Js_Text
begin

text \<open>
  \<open>src/src/v1/log\<close>: the interceptor that writes a log row for every route marked with \<open>@LogActivity\<close>, and the two
  services of the log rows (activities of users, audits of administrators).
\<close>

section \<open>Redaction\<close>

definition SENSITIVE_KEYS :: "string list" where
  "SENSITIVE_KEYS =
     [''password'', ''currentPassword'', ''newPassword'', ''confirmPassword'', ''smtpPassword'', ''token'',
      ''accessToken'', ''refreshToken'', ''otp'', ''code'', ''secret'']"

text \<open>\<open>Object.entries\<close>: the elements of an array are named by their positions, a date has no entries.\<close>

fun object_entries :: "json \<Rightarrow> (string \<times> json) list" where
  "object_entries (JObj kvs) = kvs"
| "object_entries (JArr xs) = zip (map show_nat [0..<length xs]) xs"
| "object_entries _ = []"

lemma size_entry [termination_simp]:
  assumes "(k, v) \<in> set (object_entries b)"
  shows "size v < size b"
proof (cases b)
  case (JArr xs)
  then show ?thesis using assms size_element [of v xs] by (auto dest: set_zip_rightD)
next
  case (JObj kvs)
  then show ?thesis using assms size_field [of k v kvs] by simp
qed (use assms in simp_all)

fun sanitizeBody :: "json \<Rightarrow> json" where
  "sanitizeBody b =
     (if \<not> is_object b then b
      else JObj (map (\<lambda>(k, v). (k, if k \<in> set SENSITIVE_KEYS then JStr ''[REDACTED]''
                                    else if is_object v then sanitizeBody v else v)) (object_entries b)))"

declare sanitizeBody.simps [simp del]

definition sanitizeOptionalRecord :: "json option \<Rightarrow> json option" where
  "sanitizeOptionalRecord x = (case x of None \<Rightarrow> None | Some b \<Rightarrow> if js_truthy b then Some (sanitizeBody b) else None)"

section \<open>The services\<close>

text \<open>\<open>create\<close>: the rows refer to the account.\<close>

definition create_activity :: "activity_log \<Rightarrow> world \<Rightarrow> (activity_log, world) result" where
  "create_activity l w =
     (if \<not> references (al_userId l) (users w) then throw (QueryFailedError ''23503'') w
      else ok l (w\<lparr>activity_logs := activity_logs w @ [l]\<rparr>))"

definition create_audit :: "audit_log \<Rightarrow> world \<Rightarrow> (audit_log, world) result" where
  "create_audit l w =
     (if (case au_adminId l of None \<Rightarrow> False | Some i \<Rightarrow> \<not> references i (admins w)) then throw (QueryFailedError ''23503'') w
      else ok l (w\<lparr>audit_logs := audit_logs w @ [l]\<rparr>))"

record log_filter = pagination +
  lf_subjectId :: "uuid option"
  lf_action :: "log_action option"
  lf_resourceType :: "string option"
  lf_resourceId :: "string option"
  lf_ipAddress :: "string option"
  lf_device :: "string option"
  lf_location :: "string option"
  lf_status :: "log_status option"
  lf_startDate :: "range_date option"
  lf_endDate :: "range_date option"
  lf_sortBy :: "string option"
  lf_sortOrder :: "sort_order option"

text \<open>\<open>if (x) where.x = x\<close>.\<close>

definition wanted :: "string option \<Rightarrow> string option \<Rightarrow> bool" where
  "wanted x column \<longleftrightarrow> (truthy x \<longrightarrow> column = x)"

definition wanted_value :: "'a option \<Rightarrow> 'a \<Rightarrow> bool" where
  "wanted_value x column \<longleftrightarrow> (case x of None \<Rightarrow> True | Some v \<Rightarrow> column = v)"

text \<open>The condition on the date: an end without a start is no condition.\<close>

definition log_range :: "time \<Rightarrow> range_date option \<Rightarrow> range_date option \<Rightarrow> time \<Rightarrow> bool" where
  "log_range now from until t \<longleftrightarrow>
     (case from of
        None \<Rightarrow> True
      | Some a \<Rightarrow> (case until of None \<Rightarrow> parseRangeStart a \<le> t \<and> t \<le> now
                 | Some b \<Rightarrow> parseRangeStart a \<le> t \<and> t \<le> parseRangeEnd b))"

text \<open>Enumerations are sorted in the order of their declaration, texts by the collation of the database.\<close>

definition action_position :: "log_action \<Rightarrow> int" where
  "action_position a =
     (case a of LOGIN \<Rightarrow> 0 | LOGOUT \<Rightarrow> 1 | REGISTER \<Rightarrow> 2 | UPDATE_PROFILE \<Rightarrow> 3 | CHANGE_PASSWORD \<Rightarrow> 4
      | FORGOT_PASSWORD_OTP \<Rightarrow> 5 | L_RESET_PASSWORD \<Rightarrow> 6 | ENABLE_TWO_FACTOR \<Rightarrow> 7 | DISABLE_TWO_FACTOR \<Rightarrow> 8
      | VERIFY_TWO_FACTOR \<Rightarrow> 9 | DELETE_ACCOUNT \<Rightarrow> 10 | L_CREATE \<Rightarrow> 11 | L_UPDATE \<Rightarrow> 12 | L_DELETE \<Rightarrow> 13)"

definition activity_sort_key :: "(string option \<Rightarrow> int) \<Rightarrow> string \<Rightarrow> activity_log \<Rightarrow> int" where
  "activity_sort_key collate field l =
     (if field = ''action'' then action_position (al_action l)
      else if field = ''resourceType'' then collate (al_resourceType l)
      else al_createdAt l)"

definition audit_sort_key :: "(string option \<Rightarrow> int) \<Rightarrow> string \<Rightarrow> audit_log \<Rightarrow> int" where
  "audit_sort_key collate field l =
     (if field = ''action'' then action_position (au_action l)
      else if field = ''entityName'' then collate (au_entityName l)
      else au_createdAt l)"

definition fits_activity :: "time \<Rightarrow> 'a log_filter_scheme \<Rightarrow> activity_log \<Rightarrow> bool" where
  "fits_activity now f l \<longleftrightarrow>
     wanted (lf_subjectId f) (Some (al_userId l)) \<and> wanted_value (lf_action f) (al_action l)
     \<and> wanted (lf_resourceType f) (al_resourceType l) \<and> wanted (lf_resourceId f) (al_resourceId l)
     \<and> wanted (lf_ipAddress f) (al_ipAddress l) \<and> wanted (lf_device f) (al_device l)
     \<and> wanted (lf_location f) (al_location l) \<and> wanted_value (lf_status f) (al_status l)
     \<and> log_range now (lf_startDate f) (lf_endDate f) (al_createdAt l)"

definition fits_audit :: "time \<Rightarrow> 'a log_filter_scheme \<Rightarrow> audit_log \<Rightarrow> bool" where
  "fits_audit now f l \<longleftrightarrow>
     wanted (lf_subjectId f) (au_adminId l) \<and> wanted_value (lf_action f) (au_action l)
     \<and> wanted (lf_resourceType f) (au_entityName l) \<and> wanted (lf_resourceId f) (au_entityId l)
     \<and> wanted (lf_ipAddress f) (au_ipAddress l) \<and> wanted (lf_device f) (au_device l)
     \<and> wanted (lf_location f) (au_location l) \<and> wanted_value (lf_status f) (au_status l)
     \<and> log_range now (lf_startDate f) (lf_endDate f) (au_createdAt l)"

definition activity_listing ::
  "(string option \<Rightarrow> int) \<Rightarrow> time \<Rightarrow> 'a log_filter_scheme \<Rightarrow> world \<Rightarrow> (activity_log \<times> user option) list" where
  "activity_listing collate now f w =
     map (\<lambda>l. (l, by_id (al_userId l) (users w)))
       (order_rows (activity_sort_key collate (nullish (lf_sortBy f) ''createdAt'')) (nullish (lf_sortOrder f) DESC)
          (find_all (fits_activity now f) (activity_logs w)))"

definition audit_listing ::
  "(string option \<Rightarrow> int) \<Rightarrow> time \<Rightarrow> 'a log_filter_scheme \<Rightarrow> world \<Rightarrow> (audit_log \<times> admin option) list" where
  "audit_listing collate now f w =
     map (\<lambda>l. (l, case au_adminId l of None \<Rightarrow> None | Some i \<Rightarrow> by_id i (admins w)))
       (order_rows (audit_sort_key collate (nullish (lf_sortBy f) ''createdAt'')) (nullish (lf_sortOrder f) DESC)
          (find_all (fits_audit now f) (audit_logs w)))"

definition findAll_activity ::
  "(string option \<Rightarrow> int) \<Rightarrow> time \<Rightarrow> 'a log_filter_scheme \<Rightarrow> world \<Rightarrow> (activity_log \<times> user option) list \<times> nat" where
  "findAll_activity collate now f w = get_many_and_count f (activity_listing collate now f w)"

definition findAll_audit ::
  "(string option \<Rightarrow> int) \<Rightarrow> time \<Rightarrow> 'a log_filter_scheme \<Rightarrow> world \<Rightarrow> (audit_log \<times> admin option) list \<times> nat" where
  "findAll_audit collate now f w = get_many_and_count f (audit_listing collate now f w)"

definition deleteOldLogs_activity :: "time \<Rightarrow> int option \<Rightarrow> world \<Rightarrow> world" where
  "deleteOldLogs_activity now days w =
     w\<lparr>activity_logs := delete_where (\<lambda>l. al_createdAt l < subtractDays (nullish days LOG_RETENTION_DAYS) now) (activity_logs w)\<rparr>"

definition deleteOldLogs_audit :: "time \<Rightarrow> int option \<Rightarrow> world \<Rightarrow> world" where
  "deleteOldLogs_audit now days w =
     w\<lparr>audit_logs := delete_where (\<lambda>l. au_createdAt l < subtractDays (nullish days LOG_RETENTION_DAYS) now) (audit_logs w)\<rparr>"

section \<open>The interceptor\<close>

text \<open>A route's own way to name the resource reads the answer and the caller.\<close>

record log_options =
  lo_action :: log_action
  lo_description :: string
  lo_resourceType :: "string option"
  lo_getResourceId :: "(json \<Rightarrow> authenticated_user \<Rightarrow> string option) option"

definition getResponseData :: "json \<Rightarrow> json" where
  "getResponseData result = (if has_field ''data'' result then field_of ''data'' result else result)"

text \<open>\<open>toString()\<close> of a number that is no integer is not modelled: no entity of the program has such an identifier.\<close>

definition getResourceId :: "json \<Rightarrow> string option" where
  "getResourceId result =
     (if \<not> is_object result then None
      else case field_of ''id'' result of JStr s \<Rightarrow> Some s | JNum q \<Rightarrow> Some (show_int \<lfloor>q\<rfloor>) | _ \<Rightarrow> None)"

definition or_else :: "'a option \<Rightarrow> 'a option \<Rightarrow> 'a option" where
  "or_else x y = (case x of None \<Rightarrow> y | Some v \<Rightarrow> Some v)"

definition resource_id :: "log_options \<Rightarrow> json \<Rightarrow> authenticated_user \<Rightarrow> http_request \<Rightarrow> string option" where
  "resource_id opts result cu r =
     (let data = getResponseData result
      in or_else (case lo_getResourceId opts of None \<Rightarrow> None | Some f \<Rightarrow> or_else (f data cu) (f result cu))
           (or_else (getResourceId data) (rq_paramId r)))"

definition request_metadata :: "http_request \<Rightarrow> json" where
  "request_metadata r =
     JObj ([(''method'', JStr (rq_method r)), (''url'', JStr (rq_url r))]
         @ (if rq_method r \<noteq> ''GET'' then [(''body'', sanitizeBody (rq_body r))] else []))"

definition logActivity :: "ext \<Rightarrow> log_options \<Rightarrow> json \<Rightarrow> authenticated_user \<Rightarrow> world \<Rightarrow> world" where
  "logActivity e opts result cu w =
     (let r = x_request e; c = buildRequestContext (x_ua_parser e) r;
          rid = resource_id opts result cu r;
          am = fst (consumeAuditLogMetadata (getResponseData result))
      in if cu_subjectType cu = Some ADMIN
         then snd (create_audit
                \<lparr>au_createdAt = x_now e, au_adminId = Some (cu_id cu), au_action = lo_action opts,
                 au_description = lo_description opts, au_entityName = lo_resourceType opts, au_entityId = rid,
                 au_oldValue = sanitizeOptionalRecord (am_oldValue am), au_newValue = sanitizeOptionalRecord (am_newValue am),
                 au_ipAddress = Some (rc_ipAddress c), au_userAgent = Some (rc_userAgent c), au_device = Some (rc_device c),
                 au_browser = Some (rc_browser c), au_os = Some (rc_os c), au_location = rc_location c,
                 au_status = SUCCESS, au_metadata = Some (request_metadata r)\<rparr> w)
         else snd (create_activity
                \<lparr>al_createdAt = x_now e, al_userId = cu_id cu, al_action = lo_action opts,
                 al_description = lo_description opts, al_resourceType = lo_resourceType opts, al_resourceId = rid,
                 al_ipAddress = Some (rc_ipAddress c), al_userAgent = Some (rc_userAgent c), al_device = Some (rc_device c),
                 al_browser = Some (rc_browser c), al_os = Some (rc_os c), al_location = rc_location c,
                 al_status = SUCCESS, al_metadata = Some (request_metadata r)\<rparr> w))"

text \<open>What the caller gets: the audited values are taken off the answer in place.\<close>

definition without_metadata :: "json \<Rightarrow> json" where
  "without_metadata result =
     (if has_field ''data'' result
      then with_field ''data'' (snd (consumeAuditLogMetadata (field_of ''data'' result))) result
      else snd (consumeAuditLogMetadata result))"

definition intercept_log ::
  "ext \<Rightarrow> log_options option \<Rightarrow> authenticated_user option \<Rightarrow> json \<Rightarrow> world \<Rightarrow> json \<times> world" where
  "intercept_log e opts user result w =
     (case opts of
        None \<Rightarrow> (result, w)
      | Some lo \<Rightarrow>
          (case user of None \<Rightarrow> (result, w) | Some cu \<Rightarrow> (without_metadata result, logActivity e lo result cu w)))"

end
