(* ===== verification/Log_Facts.thy ===== *)
theory Log_Facts
  imports Logs Sample
begin

text \<open>
  What the logs keep: nothing of a secret in a request, exactly the rows asked for, and nothing older than the
  retention allows.
\<close>

section \<open>Secrets\<close>

text \<open>Two values look the same when they differ only below sensitive keys.\<close>

inductive same_visible :: "json \<Rightarrow> json \<Rightarrow> bool" where
  same: "same_visible j j"
| arrays: "list_all2 same_visible xs ys \<Longrightarrow> same_visible (JArr xs) (JArr ys)"
| objects: "list_all2 (\<lambda>p q. fst p = fst q \<and> (fst p \<in> set SENSITIVE_KEYS \<or> same_visible (snd p) (snd q))) kvs kvs'
    \<Longrightarrow> same_visible (JObj kvs) (JObj kvs')"

lemma same_visible_object: "same_visible a b \<Longrightarrow> is_object a = is_object b \<and> (is_object a \<or> a = b)"
  by (cases rule: same_visible.cases) auto

definition shown :: "string \<times> json \<Rightarrow> string \<times> json" where
  "shown = (\<lambda>(k, v). (k, if k \<in> set SENSITIVE_KEYS then JStr ''[REDACTED]''
                        else if is_object v then sanitizeBody v else v))"

lemma sanitizeBody_object: "is_object b \<Longrightarrow> sanitizeBody b = JObj (map shown (object_entries b))"
  unfolding shown_def by (subst sanitizeBody.simps) simp

lemma sanitizeBody_plain: "\<not> is_object b \<Longrightarrow> sanitizeBody b = b"
  by (subst sanitizeBody.simps) simp

lemma shown_eq: "shown (k, v) = (k, if k \<in> set SENSITIVE_KEYS then JStr ''[REDACTED]'' else sanitizeBody v)"
  by (simp add: shown_def sanitizeBody_plain)

text \<open>What is stored of a body depends only on its visible part.\<close>

lemma sanitize_visible: "same_visible a b \<Longrightarrow> sanitizeBody a = sanitizeBody b"
proof (induction rule: same_visible.induct)
  case (same j)
  show ?case ..
next
  case (arrays xs ys)
  have l: "length xs = length ys" using arrays by (rule list_all2_lengthD)
  have "map shown (zip (map show_nat [0..<length xs]) xs) = map shown (zip (map show_nat [0..<length ys]) ys)"
  proof (rule nth_equalityI)
    show "length (map shown (zip (map show_nat [0..<length xs]) xs)) = length (map shown (zip (map show_nat [0..<length ys]) ys))"
      using l by simp
    show "map shown (zip (map show_nat [0..<length xs]) xs) ! n = map shown (zip (map show_nat [0..<length ys]) ys) ! n"
      if "n < length (map shown (zip (map show_nat [0..<length xs]) xs))" for n
      using that l list_all2_nthD [OF arrays(1), of n] by (simp add: shown_eq)
  qed
  then show ?case by (simp add: sanitizeBody_object)
next
  case (objects kvs kvs')
  have "map shown kvs = map shown kvs'"
    using objects
  proof (induction rule: list_all2_induct)
    case (Cons x xs y ys)
    then show ?case by (cases x; cases y) (auto simp: shown_eq)
  qed simp
  then show ?case by (simp add: sanitizeBody_object)
qed

fun value_at :: "string list \<Rightarrow> json \<Rightarrow> json option" where
  "value_at [] j = Some j"
| "value_at (k # ks) j = (case map_of (entries j) k of None \<Rightarrow> None | Some v \<Rightarrow> value_at ks v)"

lemma map_of_shown: "map_of (map shown kvs) k = map_option (\<lambda>v. snd (shown (k, v))) (map_of kvs k)"
  by (induction kvs) (auto simp: shown_eq)

lemma sanitize_redacts:
  "value_at (ks @ [k]) (sanitizeBody b) = Some v \<Longrightarrow> k \<in> set SENSITIVE_KEYS \<Longrightarrow> v = JStr ''[REDACTED]''"
proof (induction ks arbitrary: b)
  case Nil
  then show ?case
    by (cases "is_object b") (auto simp: sanitizeBody_object sanitizeBody_plain map_of_shown shown_eq split: option.splits,
        cases b, auto)
next
  case (Cons k' ks)
  show ?case
  proof (cases "is_object b")
    case False
    then show ?thesis using Cons.prems by (cases b) (simp_all add: sanitizeBody_plain)
  next
    case True
    then obtain u where u: "map_of (object_entries b) k' = Some u" "value_at (ks @ [k]) (snd (shown (k', u))) = Some v"
      using Cons.prems(1) by (auto simp: sanitizeBody_object map_of_shown split: option.splits)
    show ?thesis
    proof (cases "k' \<in> set SENSITIVE_KEYS")
      case True
      then have "value_at (ks @ [k]) (JStr ''[REDACTED]'') = Some v" using u(2) by (simp add: shown_eq)
      then show ?thesis by (cases ks) auto
    next
      case False
      then show ?thesis using Cons.IH [of u] u(2) Cons.prems(2) by (simp add: shown_eq)
    qed
  qed
qed

text \<open>C30: no secret of a request reaches the logs: two requests whose bodies differ only below sensitive keys, at any
  depth, leave the same rows behind, and wherever a row shows a sensitive key it shows a placeholder.\<close>

theorem logs_keep_no_secret:
  assumes "same_visible (rq_body (x_request e)) body"
  shows "logActivity (e\<lparr>x_request := (x_request e)\<lparr>rq_body := body\<rparr>\<rparr>) opts result cu w = logActivity e opts result cu w
    \<and> (\<forall>ks k v. value_at (''body'' # ks @ [k]) (request_metadata (x_request e)) = Some v \<longrightarrow> k \<in> set SENSITIVE_KEYS
         \<longrightarrow> v = JStr ''[REDACTED]'')"
proof
  let ?r = "x_request e"
  have "request_metadata (?r\<lparr>rq_body := body\<rparr>) = request_metadata ?r"
    using sanitize_visible [OF assms] by (simp add: request_metadata_def)
  moreover have "buildRequestContext p (?r\<lparr>rq_body := body\<rparr>) = buildRequestContext p ?r" for p
    by (simp add: buildRequestContext_def parseUserAgent_def getClientIp_def header_def)
  moreover have "resource_id opts result cu (?r\<lparr>rq_body := body\<rparr>) = resource_id opts result cu ?r"
    by (simp add: resource_id_def)
  ultimately show "logActivity (e\<lparr>x_request := ?r\<lparr>rq_body := body\<rparr>\<rparr>) opts result cu w = logActivity e opts result cu w"
    by (simp add: logActivity_def Let_def)
  show "\<forall>ks k v. value_at (''body'' # ks @ [k]) (request_metadata ?r) = Some v \<longrightarrow> k \<in> set SENSITIVE_KEYS
      \<longrightarrow> v = JStr ''[REDACTED]''"
    using sanitize_redacts [where b = "rq_body ?r"] by (auto simp: request_metadata_def split: if_splits)
qed

section \<open>The audit of an update\<close>

lemma value_at_changed:
  "value_at [f] (sanitizeBody (JObj (map (\<lambda>f. (f, g f)) fs)))
     = (if f \<in> set fs then Some (if f \<in> set SENSITIVE_KEYS then JStr ''[REDACTED]'' else sanitizeBody (g f)) else None)"
proof -
  have "map_of (map (\<lambda>f. (f, g f)) fs) f = (if f \<in> set fs then Some (g f) else None)" by (induction fs) auto
  then show ?thesis by (simp add: sanitizeBody_object map_of_shown shown_eq del: map_map)
qed

lemma field_of_set_entry [simp]: "field_of k (JObj (set_entry k v kvs)) = v"
  by (simp add: field_of_def map_of_set_entry)


section \<open>Lists and retention\<close>

interpretation activity_pages: paged_listing
  "\<lambda>pg sz. findAll_activity collate now (f\<lparr>page := pg, limit := sz, getAll := False\<rparr>) w" "activity_listing collate now f w"
proof unfold_locales
  have same: "activity_listing collate now (f\<lparr>page := pg, limit := sz, getAll := False\<rparr>) w = activity_listing collate now f w" for pg sz
  proof -
    have "fits_activity now (f\<lparr>page := pg, limit := sz, getAll := False\<rparr>) = fits_activity now f"
      by (simp add: fits_activity_def fun_eq_iff)
    then show ?thesis by (simp add: activity_listing_def)
  qed
  show "fst (findAll_activity collate now (f\<lparr>page := pg, limit := sz, getAll := False\<rparr>) w)
      = take_page pg sz (activity_listing collate now f w)" for pg sz
    by (simp add: findAll_activity_def get_many_and_count_def same)
  show "snd (findAll_activity collate now (f\<lparr>page := pg, limit := sz, getAll := False\<rparr>) w)
      = length (activity_listing collate now f w)" for pg sz
    by (simp add: findAll_activity_def get_many_and_count_def same)
qed

text \<open>The pages of the activities put together are the rows that fit the filter; an end date without a start date
  is no condition.\<close>

theorem activity_search_exact:
  assumes "length (activity_listing collate now f w) \<le> n * sz" and "lf_startDate f = None"
  shows "l \<in> fst ` set (concat (map (\<lambda>i. fst (findAll_activity collate now (f\<lparr>page := Suc i, limit := sz, getAll := False\<rparr>) w)) [0..<n]))
    \<longleftrightarrow> l \<in> set (activity_logs w) \<and> fits_activity now (f\<lparr>lf_endDate := any\<rparr>) l"
proof -
  have "fits_activity now (f\<lparr>lf_endDate := any\<rparr>) l = fits_activity now f l"
    using assms(2) by (simp add: fits_activity_def log_range_def)
  then show ?thesis
    unfolding activity_pages.pages_cover [OF assms(1)] by (auto simp: activity_listing_def image_iff)
qed

text \<open>After a cleaning exactly the rows of the retention period are left, and every row written since then stays at
  least that long.\<close>

theorem retention_exact:
  "l \<in> set (activity_logs (deleteOldLogs_activity now days w)) \<longleftrightarrow>
     l \<in> set (activity_logs w) \<and> now - nullish days LOG_RETENTION_DAYS * day \<le> al_createdAt l"
  by (auto simp: deleteOldLogs_activity_def subtractDays_def)

section \<open>Examples\<close>

definition login_body :: "string \<Rightarrow> json" where
  "login_body p =
     JObj [(''email'', JStr ''guest@hotel''), (''profile'', JObj [(''password'', JStr p), (''tags'', JArr [JStr ''a''])])]"

lemma login_bodies_same: "same_visible (login_body p) (login_body q)"
  unfolding login_body_def
proof (rule same_visible.objects, intro list_all2_Cons [THEN iffD2] conjI)
  have "same_visible (JObj [(''password'', JStr p), (''tags'', JArr [JStr ''a''])])
      (JObj [(''password'', JStr q), (''tags'', JArr [JStr ''a''])])"
    by (rule same_visible.objects) (auto simp: SENSITIVE_KEYS_def intro: same_visible.same)
  then show "fst (''profile'', JObj [(''password'', JStr p), (''tags'', JArr [JStr ''a''])]) \<in> set SENSITIVE_KEYS
      \<or> same_visible (snd (''profile'', JObj [(''password'', JStr p), (''tags'', JArr [JStr ''a''])]))
          (snd (''profile'', JObj [(''password'', JStr q), (''tags'', JArr [JStr ''a''])]))"
    by simp
qed (auto intro: same_visible.same)

definition sample_options :: log_options where
  "sample_options =
     \<lparr>lo_action = L_UPDATE, lo_description = ''Admin updated a user'', lo_resourceType = Some ''User'', lo_getResourceId = None\<rparr>"

definition body_ext :: "string \<Rightarrow> ext" where
  "body_ext p = (plain_ext 5)\<lparr>x_request := sample_request\<lparr>rq_body := login_body p\<rparr>\<rparr>"

theorem logs_keep_no_secret_witness:
  "logActivity (body_ext ''one'') sample_options JNull (as_user ''u1'') sample_world
    = logActivity (body_ext ''two'') sample_options JNull (as_user ''u1'') sample_world"
  using logs_keep_no_secret [of "body_ext ''two''" "login_body ''one''" sample_options JNull "as_user ''u1''" sample_world]
    login_bodies_same
  by (simp add: body_ext_def)


definition any_log :: log_filter where
  "any_log =
     \<lparr>page = 1, limit = 10, getAll = False, lf_subjectId = None, lf_action = None, lf_resourceType = None,
      lf_resourceId = None, lf_ipAddress = None, lf_device = None, lf_location = None, lf_status = None,
      lf_startDate = None, lf_endDate = Some (BareDay 0), lf_sortBy = None, lf_sortOrder = None\<rparr>"

theorem activity_search_exact_witness:
  "l \<in> fst ` set (concat (map (\<lambda>i. fst (findAll_activity (\<lambda>_. 0) 9 (any_log\<lparr>page := Suc i, limit := 1, getAll := False\<rparr>) sample_world)) [0..<1]))
    \<longleftrightarrow> l \<in> set (activity_logs sample_world) \<and> fits_activity 9 (any_log\<lparr>lf_endDate := None\<rparr>) l"
  by (rule activity_search_exact)
     (simp_all add: activity_listing_def any_log_def sample_world_def empty_world_def find_all_def)

end
