(* ===== verification/Http.thy ===== *)
theory Http
  imports Json Request Js_Text
begin

text \<open>
  What every answer passes through: the exception filters of \<open>src/src/common/filters\<close>, the envelope of
  \<open>src/src/common/utils/response.util.ts\<close> and the interceptors of \<open>src/src/common/interceptors\<close>.  The time stamp of an
  answer is an argument.
\<close>

section \<open>Errors\<close>

text \<open>\<open>getResponse()\<close> of an \<open>HttpException\<close>: a text, or an object with a message, several messages or details.\<close>

datatype response_body =
    Body_Text string
  | Body_Object "string option" "json option"
  | Body_Messages "string list"

record http_exception =
  he_status :: nat
  he_message :: string
  he_response :: response_body

record driver_error =
  de_code :: "string option"
  de_detail :: "string option"
  de_constraint :: "string option"

datatype thrown =
    Http_Thrown http_exception
  | Database_Thrown driver_error
  | Throttled
  | Other_Thrown string

record error_response =
  er_statusCode :: nat
  er_message :: string
  er_error :: string
  er_details :: "json option"

text \<open>The ready-made errors; the source offers them beside the filters.\<close>

definition response_error :: "string \<Rightarrow> nat \<Rightarrow> string \<Rightarrow> json option \<Rightarrow> error_response" where
  "response_error message status error details =
     \<lparr>er_statusCode = status, er_message = message, er_error = error, er_details = details\<rparr>"

definition badRequest :: "string \<Rightarrow> json option \<Rightarrow> error_response" where
  "badRequest message details = response_error message 400 ''Bad Request'' details"

definition notFound :: "string \<Rightarrow> error_response" where
  "notFound message = response_error message 404 ''Not Found'' None"

definition unauthorized :: "string \<Rightarrow> error_response" where
  "unauthorized message = response_error message 401 ''Unauthorized'' None"

definition forbidden :: "string \<Rightarrow> error_response" where
  "forbidden message = response_error message 403 ''Forbidden'' None"

definition validationError :: "string \<Rightarrow> json option \<Rightarrow> error_response" where
  "validationError message details = response_error message 422 ''Validation Error'' details"

definition getErrorName :: "nat \<Rightarrow> string" where
  "getErrorName status =
     (if status = 400 then ''Bad Request'' else if status = 401 then ''Unauthorized''
      else if status = 403 then ''Forbidden'' else if status = 404 then ''Not Found''
      else if status = 409 then ''Conflict'' else if status = 422 then ''Validation Error''
      else if status = 429 then ''Too Many Requests'' else if status = 408 then ''Request Timeout''
      else if status = 500 then ''Internal Server Error'' else ''Error'')"

definition http_filter :: "http_exception \<Rightarrow> error_response" where
  "http_filter x =
     (let (message, details) =
        (case he_response x of
           Body_Text s \<Rightarrow> (s, Some JNull)
         | Body_Messages ms \<Rightarrow> (''Validation failed'', Some (JArr (map JStr ms)))
         | Body_Object m d \<Rightarrow> (nullish m (he_message x), Some (nullish d JNull)))
      in \<lparr>er_statusCode = he_status x, er_message = message, er_error = getErrorName (he_status x), er_details = details\<rparr>)"

definition throttler_filter :: error_response where
  "throttler_filter =
     \<lparr>er_statusCode = 429, er_message = ''Too many requests. Please slow down and try again later.'',
      er_error = ''Too Many Requests'', er_details = None\<rparr>"

definition all_filter :: error_response where
  "all_filter =
     \<lparr>er_statusCode = 500, er_message = ''An unexpected error occurred'', er_error = ''Internal Server Error'',
      er_details = None\<rparr>"

text \<open>
  The pattern \<open>Key \((.+)\)=\((.+)\) already exists\.\<close>, searched for from the left with both groups as long as possible;
  a dot fits everything but a line feed.
\<close>

definition KEY_OPEN :: string where "KEY_OPEN = ''Key (''"
definition KEY_VALUE :: string where "KEY_VALUE = '')=(''"
definition KEY_CLOSE :: string where "KEY_CLOSE = '') already exists.''"

definition starts_with :: "string \<Rightarrow> string \<Rightarrow> bool" where
  "starts_with p s \<longleftrightarrow> take (length p) s = p"

definition group_lengths :: "string \<Rightarrow> nat list" where
  "group_lengths s = rev [1..<Suc (length (takeWhile (\<lambda>c. c \<noteq> CHR 0x0A) s))]"

definition value_group :: "string \<Rightarrow> string option" where
  "value_group s = map_option (\<lambda>n. take n s) (List.find (\<lambda>n. starts_with KEY_CLOSE (drop n s)) (group_lengths s))"

definition field_group :: "string \<Rightarrow> (string \<times> string) option" where
  "field_group s =
     (case List.find (\<lambda>n. starts_with KEY_VALUE (drop n s) \<and> value_group (drop (n + length KEY_VALUE) s) \<noteq> None)
             (group_lengths s) of
        None \<Rightarrow> None
      | Some n \<Rightarrow> map_option (\<lambda>v. (take n s, v)) (value_group (drop (n + length KEY_VALUE) s)))"

definition parseUniqueConstraintDetail :: "string \<Rightarrow> (string \<times> string) option" where
  "parseUniqueConstraintDetail s =
     (case List.find (\<lambda>i. starts_with KEY_OPEN (drop i s) \<and> field_group (drop (i + length KEY_OPEN) s) \<noteq> None)
             [0..<Suc (length s)] of
        None \<Rightarrow> None
      | Some i \<Rightarrow> field_group (drop (i + length KEY_OPEN) s))"

definition text_field :: "string \<Rightarrow> string option \<Rightarrow> (string \<times> json) list" where
  "text_field k x = (case x of None \<Rightarrow> [] | Some s \<Rightarrow> [(k, JStr s)])"

definition database_filter :: "driver_error \<Rightarrow> error_response" where
  "database_filter d =
     (if de_code d = Some ''23505''
      then
        let parsed = parseUniqueConstraintDetail (nullish (de_detail d) ''Duplicate key value'');
            message = (case parsed of None \<Rightarrow> ''Duplicate value violates unique constraint''
                       | Some (f, _) \<Rightarrow> f @ '' already exists'')
        in \<lparr>er_statusCode = 409, er_message = message, er_error = ''Conflict'',
            er_details = Some (JObj (text_field ''constraint'' (de_constraint d)
              @ text_field ''field'' (map_option fst parsed) @ text_field ''value'' (map_option snd parsed)))\<rparr>
      else if de_code d = Some ''23503''
      then \<lparr>er_statusCode = 422, er_message = ''Referenced resource does not exist'', er_error = ''Foreign Key Violation'',
            er_details = Some (JObj (text_field ''constraint'' (de_constraint d)))\<rparr>
      else if de_code d = Some ''23502''
      then \<lparr>er_statusCode = 400, er_message = ''A required field is missing'', er_error = ''Not Null Violation'',
            er_details = Some (JObj (text_field ''constraint'' (de_constraint d)))\<rparr>
      else if de_code d = Some ''22P02''
      then \<lparr>er_statusCode = 400, er_message = ''Invalid UUID format'', er_error = ''Bad Request'', er_details = None\<rparr>
      else \<lparr>er_statusCode = 500, er_message = ''A database error occurred'', er_error = ''Database Error'',
            er_details = None\<rparr>)"

text \<open>
  The filters in the order of their registration, each with the exceptions it catches.  As documented, NestJS asks the
  filter registered last first, so that the one that catches everything comes last.
\<close>

datatype filter_class = All_Exceptions | Database_Exception | Http_Exception | Throttler_Exception

definition registered_filters :: "filter_class list" where
  "registered_filters = [All_Exceptions, Database_Exception, Http_Exception, Throttler_Exception]"

text \<open>A \<open>ThrottlerException\<close> is an \<open>HttpException\<close> too.\<close>

fun catches :: "filter_class \<Rightarrow> thrown \<Rightarrow> bool" where
  "catches All_Exceptions _ = True"
| "catches Database_Exception t = (case t of Database_Thrown _ \<Rightarrow> True | _ \<Rightarrow> False)"
| "catches Http_Exception t = (case t of Http_Thrown _ \<Rightarrow> True | Throttled \<Rightarrow> True | _ \<Rightarrow> False)"
| "catches Throttler_Exception t = (case t of Throttled \<Rightarrow> True | _ \<Rightarrow> False)"

definition filter_for :: "thrown \<Rightarrow> filter_class option" where
  "filter_for t = List.find (\<lambda>f. catches f t) (rev registered_filters)"

definition throttler_as_http :: http_exception where
  "throttler_as_http =
     \<lparr>he_status = 429, he_message = ''ThrottlerException: Too Many Requests'',
      he_response = Body_Text ''ThrottlerException: Too Many Requests''\<rparr>"

definition filtered :: "filter_class \<Rightarrow> thrown \<Rightarrow> error_response" where
  "filtered f t =
     (case f of
        All_Exceptions \<Rightarrow> all_filter
      | Throttler_Exception \<Rightarrow> throttler_filter
      | Database_Exception \<Rightarrow> (case t of Database_Thrown d \<Rightarrow> database_filter d | _ \<Rightarrow> all_filter)
      | Http_Exception \<Rightarrow> (case t of Http_Thrown x \<Rightarrow> http_filter x | _ \<Rightarrow> http_filter throttler_as_http))"

definition error_reply :: "thrown \<Rightarrow> error_response" where
  "error_reply t = (case filter_for t of None \<Rightarrow> all_filter | Some f \<Rightarrow> filtered f t)"

text \<open>The exceptions of the services as the filters see them: NestJS makes an object of the message.\<close>

definition http_thrown :: "nat \<Rightarrow> string \<Rightarrow> thrown" where
  "http_thrown status m = Http_Thrown \<lparr>he_status = status, he_message = m, he_response = Body_Object (Some m) None\<rparr>"

fun thrown_of :: "exn \<Rightarrow> string option \<Rightarrow> string option \<Rightarrow> thrown" where
  "thrown_of (BadRequestException m) _ _ = http_thrown 400 m"
| "thrown_of (UnauthorizedException m) _ _ = http_thrown 401 m"
| "thrown_of (ForbiddenException m) _ _ = http_thrown 403 m"
| "thrown_of (NotFoundException m) _ _ = http_thrown 404 m"
| "thrown_of (ConflictException m) _ _ = http_thrown 409 m"
| "thrown_of (InternalServerErrorException m) _ _ = http_thrown 500 m"
| "thrown_of RequestTimeoutException _ _ = http_thrown 408 ''Request Timeout''"
| "thrown_of ThrottlerException _ _ = Throttled"
| "thrown_of (QueryFailedError c) detail constraint =
     Database_Thrown \<lparr>de_code = Some c, de_detail = detail, de_constraint = constraint\<rparr>"
| "thrown_of (JsError m) _ _ = Other_Thrown m"

section \<open>The envelope\<close>

definition api_success :: "string \<Rightarrow> json \<Rightarrow> string \<Rightarrow> nat \<Rightarrow> json option \<Rightarrow> json" where
  "api_success timestamp data message statusCode meta =
     JObj ([(''success'', JBool True), (''statusCode'', JNum (of_nat statusCode)), (''message'', JStr message),
            (''data'', data)]
         @ (case meta of None \<Rightarrow> [] | Some m \<Rightarrow> [(''meta'', m)])
         @ [(''apiVersion'', JStr ''v1''), (''timestamp'', JStr timestamp)])"

definition total_pages :: "nat \<Rightarrow> nat \<Rightarrow> nat" where
  "total_pages count per = nat \<lceil>(of_nat count / of_nat per :: rat)\<rceil>"

definition paginated :: "string \<Rightarrow> json list \<Rightarrow> nat \<Rightarrow> nat \<Rightarrow> nat \<Rightarrow> json" where
  "paginated timestamp items count number per =
     api_success timestamp (JArr items) ''Data retrieved successfully'' 200
       (Some (JObj [(''total'', JNum (of_nat count)), (''page'', JNum (of_nat number)), (''limit'', JNum (of_nat per)),
                    (''totalPages'', JNum (of_nat (total_pages count per)))]))"

text \<open>\<open>Number(query) || d\<close> for a text of decimal digits, as the validated pages are; other notations count as none.\<close>

definition query_number :: "string \<Rightarrow> nat \<Rightarrow> http_request \<Rightarrow> nat" where
  "query_number k d r =
     (case map_of (rq_query r) k of
        None \<Rightarrow> d
      | Some s \<Rightarrow> if s \<noteq> '''' \<and> list_all (is_digit_of 10) s \<and> digits_value 10 s \<noteq> 0 then digits_value 10 s else d)"

definition paginated_payload :: "json \<Rightarrow> (json list \<times> nat) option" where
  "paginated_payload data =
     (case (field_of ''items'' data, field_of ''total'' data) of
        (JArr items, JNum q) \<Rightarrow> Some (items, nat \<lfloor>q\<rfloor>)
      | _ \<Rightarrow> None)"

definition success_message :: "string \<Rightarrow> nat \<Rightarrow> string" where
  "success_message m status =
     (if m = ''POST'' \<and> status = 201 then ''Resource created successfully''
      else if m = ''PUT'' \<or> m = ''PATCH'' then ''Resource updated successfully''
      else if m = ''DELETE'' then ''Resource deleted successfully''
      else if m = ''GET'' then ''Data retrieved successfully'' else ''Operation successful'')"

definition intercept_response :: "string \<Rightarrow> http_request \<Rightarrow> nat \<Rightarrow> json \<Rightarrow> json" where
  "intercept_response timestamp r status data =
     (if has_field ''success'' data then data
      else case paginated_payload data of
             Some (items, count) \<Rightarrow>
               paginated timestamp items count (query_number ''page'' 1 r) (query_number ''limit'' 10 r)
           | None \<Rightarrow> api_success timestamp data (success_message (rq_method r) status) status None)"

text \<open>The ready-made answers without a page.\<close>

definition created :: "string \<Rightarrow> json \<Rightarrow> string \<Rightarrow> json" where
  "created timestamp data message = api_success timestamp data message 201 None"

definition updated :: "string \<Rightarrow> json \<Rightarrow> string \<Rightarrow> json" where
  "updated timestamp data message = api_success timestamp data message 200 None"

definition deleted :: "string \<Rightarrow> string \<Rightarrow> json" where
  "deleted timestamp message = api_success timestamp JNull message 200 None"

section \<open>Signed addresses\<close>

text \<open>\<open>generatePresignedUrl\<close>: the SDK signs a key or fails.\<close>

definition generatePresignedUrl :: "(string \<Rightarrow> string option) \<Rightarrow> string \<Rightarrow> string option" where
  "generatePresignedUrl sign key = (if js_trim key = '''' then None else sign key)"

text \<open>One path of fields: nothing happens when a field on the way is missing or empty.\<close>

fun transform_path :: "(string \<Rightarrow> string option) \<Rightarrow> string list \<Rightarrow> json \<Rightarrow> json" where
  "transform_path sign [] j = j"
| "transform_path sign [k] j =
     (case field_of k j of
        JStr s \<Rightarrow> if s = '''' then j else with_field k (JStr (nullish (generatePresignedUrl sign s) '''')) j
      | _ \<Rightarrow> j)"
| "transform_path sign (k # k' # ks) j =
     (if js_truthy (field_of k j) then with_field k (transform_path sign (k' # ks) (field_of k j)) j else j)"

definition split_path :: "string \<Rightarrow> string list" where
  "split_path p = js_split CHR ''.'' p"

definition transformFields :: "(string \<Rightarrow> string option) \<Rightarrow> string list \<Rightarrow> json \<Rightarrow> json" where
  "transformFields sign paths j = fold (\<lambda>p. transform_path sign (split_path p)) paths j"

definition intercept_presigned :: "(string \<Rightarrow> string option) \<Rightarrow> string list option \<Rightarrow> json \<Rightarrow> json" where
  "intercept_presigned sign paths response =
     (case paths of
        None \<Rightarrow> response
      | Some ps \<Rightarrow>
          if ps = [] \<or> \<not> js_truthy (field_of ''success'' response) \<or> \<not> js_truthy (field_of ''data'' response) then response
          else
            (case field_of ''data'' response of
               JArr xs \<Rightarrow> with_field ''data'' (JArr (map (transformFields sign ps) xs)) response
             | d \<Rightarrow> with_field ''data'' (transformFields sign ps d) response))"

text \<open>
  The envelope is put around the data of the route, and the addresses are signed in the envelope: the module registers
  the two interceptors in this order, the outer one first.
\<close>

definition answer ::
  "(string \<Rightarrow> string option) \<Rightarrow> string list option \<Rightarrow> string \<Rightarrow> http_request \<Rightarrow> nat \<Rightarrow> json \<Rightarrow> json" where
  "answer sign paths timestamp r status data =
     intercept_presigned sign paths (intercept_response timestamp r status data)"

text \<open>A list of a service as the data of its route.\<close>

definition paged_json :: "('a \<Rightarrow> json) \<Rightarrow> 'a list \<times> nat \<Rightarrow> json" where
  "paged_json row rows = JObj [(''items'', JArr (map row (fst rows))), (''total'', JNum (of_nat (snd rows)))]"

section \<open>Time limit\<close>

definition DEFAULT_TIMEOUT_MS :: int where
  "DEFAULT_TIMEOUT_MS = 10000"

text \<open>The route answers within its limit or the answer is a \<open>RequestTimeoutException\<close>.\<close>

definition intercept_timeout :: "int option \<Rightarrow> int \<Rightarrow> exn + 'a \<Rightarrow> exn + 'a" where
  "intercept_timeout decorated elapsed reply =
     (if nullish decorated DEFAULT_TIMEOUT_MS < elapsed then Inl RequestTimeoutException else reply)"

end
