(* ===== verification/Http_Facts.thy ===== *)
theory Http_Facts
  imports Http Account_Facts
begin

text \<open>
  What holds of the answers: the status of every error, what an error hides, the pages the envelope announces, the
  parsed details of a duplicate and the signed addresses.
\<close>

section \<open>Errors\<close>

text \<open>The status codes the services mean.\<close>

fun status_of :: "exn \<Rightarrow> nat" where
  "status_of (BadRequestException _) = 400"
| "status_of (UnauthorizedException _) = 401"
| "status_of (ForbiddenException _) = 403"
| "status_of (NotFoundException _) = 404"
| "status_of (ConflictException _) = 409"
| "status_of (InternalServerErrorException _) = 500"
| "status_of RequestTimeoutException = 408"
| "status_of ThrottlerException = 429"
| "status_of (QueryFailedError c) =
     (if c = ''23505'' then 409 else if c = ''23503'' then 422 else if c = ''23502'' \<or> c = ''22P02'' then 400 else 500)"
| "status_of (JsError _) = 500"

lemmas filter_choice = filter_for_def registered_filters_def filtered_def

lemma error_reply_http [simp]: "error_reply (http_thrown s m) =
    \<lparr>er_statusCode = s, er_message = m, er_error = getErrorName s, er_details = Some JNull\<rparr>"
  by (simp add: error_reply_def filter_choice http_thrown_def http_filter_def nullish_def)

lemma error_reply_other [simp]: "error_reply (Other_Thrown m) = all_filter"
  by (simp add: error_reply_def filter_choice)

lemma error_reply_throttled [simp]: "error_reply Throttled = throttler_filter"
  by (simp add: error_reply_def filter_choice)

lemma error_reply_database [simp]: "error_reply (Database_Thrown d) = database_filter d"
  by (simp add: error_reply_def filter_choice)

text \<open>Every exception of the services reaches the client with the status its class stands for, a database error with
  the one of its code, and the message of an error that is no HTTP exception is never part of the answer.\<close>

theorem error_reply_status:
  "er_statusCode (error_reply (thrown_of x detail constraint)) = status_of x
   \<and> error_reply (thrown_of (JsError m) detail constraint) = error_reply (thrown_of (JsError m') detail' constraint')"
  by (cases x) (simp_all add: throttler_filter_def all_filter_def database_filter_def Let_def)

text \<open>The ready-made errors carry the names the filter gives their status.\<close>

lemma ready_made_errors:
  "list_all (\<lambda>x. er_error x = getErrorName (er_statusCode x))
     [badRequest m d, notFound m, unauthorized m, forbidden m, validationError m d]"
  by (simp add: badRequest_def notFound_def unauthorized_def forbidden_def validationError_def response_error_def getErrorName_def)

text \<open>What a service wraps itself is passed on as it is.\<close>

lemma ready_made_answers:
  "intercept_response t r status (created s data m) = created s data m"
  "intercept_response t r status (updated s data m) = updated s data m"
  "intercept_response t r status (deleted s m) = deleted s m"
  by (simp_all add: intercept_response_def created_def updated_def deleted_def api_success_def has_field_def)

section \<open>Details of a duplicate\<close>

lemma find_largest:
  assumes "P n" and "n \<in> set [a..<b]" and "\<And>m. n < m \<Longrightarrow> m < b \<Longrightarrow> \<not> P m"
  shows "List.find P (rev [a..<b]) = Some n"
  using assms
proof (induction b)
  case 0
  then show ?case by simp
next
  case (Suc b)
  show ?case
  proof (cases "n = b")
    case True
    then show ?thesis using Suc.prems by simp
  next
    case False
    then have n: "n \<in> set [a..<b]" using Suc.prems(2) by auto
    have "\<not> P b" using Suc.prems(3) [of b] n by simp
    moreover have "List.find P (rev [a..<b]) = Some n"
      by (rule Suc.IH) (use Suc.prems n in simp_all)
    ultimately show ?thesis using n by simp
  qed
qed

lemma starts_with_prefix: "starts_with p s \<longleftrightarrow> prefix p s"
proof
  assume "starts_with p s"
  then have "s = p @ drop (length p) s" unfolding starts_with_def by (metis append_take_drop_id)
  then show "prefix p s" by (rule prefixI)
qed (auto simp: starts_with_def prefix_def)

lemma group_lengths_line: "CHR 0x0A \<notin> set s \<Longrightarrow> group_lengths s = rev [1..<Suc (length s)]"
proof -
  assume "CHR 0x0A \<notin> set s"
  then have "takeWhile (\<lambda>c. c \<noteq> CHR 0x0A) s = s" unfolding takeWhile_eq_all_conv by metis
  then show ?thesis unfolding group_lengths_def by presburger
qed

lemma value_group_close:
  assumes "v \<noteq> []" and "CHR 0x0A \<notin> set v"
  shows "value_group (v @ KEY_CLOSE) = Some v"
proof -
  have line: "CHR 0x0A \<notin> set (v @ KEY_CLOSE)" using assms(2) by (simp add: KEY_CLOSE_def)
  have "List.find (\<lambda>n. starts_with KEY_CLOSE (drop n (v @ KEY_CLOSE))) (rev [1..<Suc (length (v @ KEY_CLOSE))])
      = Some (length v)"
  proof (rule find_largest)
    show "starts_with KEY_CLOSE (drop (length v) (v @ KEY_CLOSE))" by (simp add: starts_with_prefix)
    have "1 \<le> length v" using assms(1) by (cases v) auto
    then show "length v \<in> set [1..<Suc (length (v @ KEY_CLOSE))]" unfolding set_upt by simp
    fix m assume "length v < m" and "m < Suc (length (v @ KEY_CLOSE))"
    then have "length (drop m (v @ KEY_CLOSE)) < length KEY_CLOSE" by simp
    then show "\<not> starts_with KEY_CLOSE (drop m (v @ KEY_CLOSE))" unfolding starts_with_prefix using prefix_length_le by fastforce
  qed
  then show ?thesis unfolding value_group_def group_lengths_line [OF line] by simp
qed

text \<open>A separator in the rest of the text would have to lie in the value.\<close>

lemma no_separator_in_close: "\<not> prefix KEY_VALUE (drop k KEY_CLOSE)"
proof
  assume "prefix KEY_VALUE (drop k KEY_CLOSE)"
  then have "set KEY_VALUE \<subseteq> set (drop k KEY_CLOSE)" by (rule set_mono_prefix)
  then have "CHR ''('' \<in> set KEY_CLOSE" using set_drop_subset [of k KEY_CLOSE] by (auto simp: KEY_VALUE_def)
  then show False by (simp add: KEY_CLOSE_def)
qed

lemma separator_in_value:
  assumes "prefix KEY_VALUE (drop k (v @ KEY_CLOSE))"
  shows "sublist KEY_VALUE v"
proof -
  have split: "drop k (v @ KEY_CLOSE) = drop k v @ drop (k - length v) KEY_CLOSE" by simp
  have whole: "drop (k - length v) KEY_CLOSE = KEY_CLOSE" if "drop k v \<noteq> []" using that by simp
  have "3 \<le> length (drop k v)"
  proof (cases "drop k v")
    case Nil
    then show ?thesis using assms no_separator_in_close [of "k - length v"] unfolding split by simp
  next
    case (Cons a u)
    then have "prefix KEY_VALUE (a # u @ KEY_CLOSE)" using assms whole unfolding split by simp
    then have "2 \<le> length u" by (cases u; cases "tl u") (auto simp: KEY_VALUE_def KEY_CLOSE_def)
    then show ?thesis using Cons by simp
  qed
  then have "length KEY_VALUE \<le> length (drop k v)" by (simp add: KEY_VALUE_def)
  then have "prefix KEY_VALUE (drop k v)"
    using assms unfolding split by (metis prefixI prefix_length_prefix)
  then show ?thesis by (metis prefix_imp_sublist sublist_order.order_trans suffix_drop suffix_imp_sublist)
qed

lemma field_group_detail:
  assumes "f \<noteq> []" and "CHR 0x0A \<notin> set f" and "v \<noteq> []" and "CHR 0x0A \<notin> set v" and "\<not> sublist KEY_VALUE v"
  shows "field_group (f @ KEY_VALUE @ v @ KEY_CLOSE) = Some (f, v)"
proof -
  let ?s = "f @ KEY_VALUE @ v @ KEY_CLOSE"
  have line: "CHR 0x0A \<notin> set ?s" using assms by (simp add: KEY_CLOSE_def KEY_VALUE_def)
  have rest: "drop (length f + length KEY_VALUE) ?s = v @ KEY_CLOSE" by simp
  let ?P = "\<lambda>n. starts_with KEY_VALUE (drop n ?s) \<and> value_group (drop (n + length KEY_VALUE) ?s) \<noteq> None"
  have "List.find ?P (rev [1..<Suc (length ?s)]) = Some (length f)"
  proof (rule find_largest)
    show "?P (length f)" using rest value_group_close [OF assms(3,4)] by (simp add: starts_with_prefix)
    have "1 \<le> length f" using assms(1) by (cases f) auto
    then show "length f \<in> set [1..<Suc (length ?s)]" unfolding set_upt by simp
    fix m assume m: "length f < m" "m < Suc (length ?s)"
    show "\<not> ?P m"
    proof
      assume "?P m"
      then have p: "prefix KEY_VALUE (drop m ?s)" unfolding starts_with_prefix by simp
      consider "m = length f + 1" | "m = length f + 2" | "length f + 3 \<le> m" using m(1) by linarith
      then show False
      proof cases
        case 3
        then obtain j where "m = length f + 3 + j" using le_Suc_ex by blast
        then have "drop m ?s = drop j (v @ KEY_CLOSE)" by (simp add: KEY_VALUE_def eval_nat_numeral)
        then show False using p separator_in_value assms(5) by metis
      qed (use p in \<open>simp_all add: KEY_VALUE_def\<close>)
    qed
  qed
  then show ?thesis
    unfolding field_group_def group_lengths_line [OF line] using rest value_group_close [OF assms(3,4)] by simp
qed



section \<open>Pages\<close>

lemma total_pages_enough: "0 < per \<Longrightarrow> count \<le> total_pages count per * per"
proof -
  assume per: "0 < per"
  let ?q = "of_nat count / of_nat per :: rat"
  have q: "?q \<le> of_int \<lceil>?q\<rceil>" by (rule le_of_int_ceiling)
  have "0 \<le> ?q" by simp
  then have "0 \<le> \<lceil>?q\<rceil>" by (simp add: zero_le_ceiling less_le_trans [of "-1" 0])
  then have "(of_nat (nat \<lceil>?q\<rceil>) :: rat) = of_int \<lceil>?q\<rceil>" by simp
  then have "?q \<le> of_nat (total_pages count per)" using q by (simp add: total_pages_def)
  then have "(of_nat count :: rat) \<le> of_nat (total_pages count per) * of_nat per"
    using per by (simp add: pos_divide_le_eq)
  then show ?thesis by (metis of_nat_le_iff of_nat_mult)
qed

lemma total_pages_tight: "0 < per \<Longrightarrow> n < total_pages count per \<Longrightarrow> n * per < count"
proof -
  assume per: "0 < per" and n: "n < total_pages count per"
  then have "int n < \<lceil>of_nat count / of_nat per :: rat\<rceil>" by (simp add: total_pages_def)
  then have "of_int (int n) < (of_nat count / of_nat per :: rat)" by (simp add: less_ceiling_iff)
  then have "(of_nat (n * per) :: rat) < of_nat count" using per by (simp add: pos_less_divide_eq)
  then show ?thesis by (simp only: of_nat_less_iff)
qed

lemma query_number_show:
  assumes "map_of (rq_query r) k = Some (show_nat n)" and "0 < n"
  shows "query_number k d r = n"
proof -
  have s: "decimal_digits (show_nat n)" "show_nat n \<noteq> []" "digits_value 10 (show_nat n) = n"
    using decimal_show_nat [of n] by auto
  have "list_all (is_digit_of 10) (show_nat n)"
    using takeWhile_decimal [OF s(1)] unfolding takeWhile_eq_all_conv list_all_iff .
  then show ?thesis using assms s by (simp add: query_number_def)
qed

lemma paged_answer:
  assumes "map_of (rq_query r) ''page'' = Some (show_nat number)" and "map_of (rq_query r) ''limit'' = Some (show_nat per)"
    and "0 < number" and "0 < per"
  shows "intercept_response t r 200 (paged_json row (rows, count)) = paginated t (map row rows) count number per"
proof -
  have "paginated_payload (paged_json row (rows, count)) = Some (map row rows, count)"
    by (simp add: paginated_payload_def paged_json_def field_of_def)
  moreover have "\<not> has_field ''success'' (paged_json row (rows, count))"
    by (simp add: paged_json_def has_field_def)
  ultimately show ?thesis
    using query_number_show [OF assms(1,3)] query_number_show [OF assms(2,4)] by (simp add: intercept_response_def)
qed

lemma field_of_paginated [simp]:
  "field_of ''data'' (paginated t items count number per) = JArr items"
  "js_truthy (field_of ''success'' (paginated t items count number per))"
  "field_of ''totalPages'' (field_of ''meta'' (paginated t items count number per)) = JNum (of_nat (total_pages count per))"
  by (simp_all add: paginated_def api_success_def field_of_def)

lemma signed_rows:
  assumes "ps \<noteq> []"
  shows "field_of ''data'' (intercept_presigned sign (Some ps) (paginated t items count number per))
    = JArr (map (transformFields sign ps) items)"
proof -
  obtain kvs where "paginated t items count number per = JObj kvs" by (simp add: paginated_def api_success_def)
  then show ?thesis
    using assms field_of_paginated(1,2) [of t items count number per]
    by (simp add: intercept_presigned_def del: with_field.simps)
qed

text \<open>The request for one page of the users, the row an administrator sees, and the answer.\<close>

definition page_request :: "nat \<Rightarrow> nat \<Rightarrow> http_request" where
  "page_request number per =
     sample_request\<lparr>rq_method := ''GET'', rq_query := [(''page'', show_nat number), (''limit'', show_nat per)]\<rparr>"

text \<open>The class serialiser drops the fields marked \<open>@Exclude()\<close>: the password.\<close>

definition shown_user :: "user \<Rightarrow> json" where
  "shown_user u = without_field ''password'' (user_json u)"

definition users_page ::
  "(string \<Rightarrow> string option) \<Rightarrow> string \<Rightarrow> account_filter \<Rightarrow> nat \<Rightarrow> nat \<Rightarrow> world \<Rightarrow> json" where
  "users_page sign t f number per w =
     answer sign (Some [''profileImageUrl'']) t (page_request number per) 200
       (paged_json shown_user (findAll_users (f\<lparr>page := number, limit := per, getAll := False\<rparr>) w))"

definition json_rows :: "json \<Rightarrow> json list" where
  "json_rows j = (case j of JArr xs \<Rightarrow> xs | _ \<Rightarrow> [])"

lemma users_page_data:
  assumes "0 < number" and "0 < per"
  shows "field_of ''data'' (users_page sign t f number per w)
      = JArr (map (\<lambda>u. transformFields sign [''profileImageUrl''] (shown_user u))
          (fst (findAll_users (f\<lparr>page := number, limit := per, getAll := False\<rparr>) w)))"
proof -
  let ?r = "findAll_users (f\<lparr>page := number, limit := per, getAll := False\<rparr>) w"
  have "intercept_response t (page_request number per) 200 (paged_json shown_user (fst ?r, snd ?r))
      = paginated t (map shown_user (fst ?r)) (snd ?r) number per"
    by (rule paged_answer) (use assms in \<open>simp_all add: page_request_def\<close>)
  then show ?thesis by (simp add: users_page_def answer_def signed_rows)
qed

text \<open>A client that reads all the pages the first answer announces, each through the whole chain of interceptors, has
  seen every user the filter selects exactly once, newest first, and no page it was told of is empty.\<close>

theorem announced_pages_are_the_list:
  assumes "0 < per"
  shows "concat (map (\<lambda>i. json_rows (field_of ''data'' (users_page sign t f (Suc i) per w)))
        [0..<total_pages (snd (findAll_users (f\<lparr>page := 1, limit := per, getAll := False\<rparr>) w)) per])
      = map (\<lambda>u. transformFields sign [''profileImageUrl''] (shown_user u)) (users_listing f w)
    \<and> (\<forall>i < total_pages (snd (findAll_users (f\<lparr>page := 1, limit := per, getAll := False\<rparr>) w)) per.
        json_rows (field_of ''data'' (users_page sign t f (Suc i) per w)) \<noteq> [])"
proof -
  let ?n = "total_pages (snd (findAll_users (f\<lparr>page := 1, limit := per, getAll := False\<rparr>) w)) per"
  let ?row = "\<lambda>u. transformFields sign [''profileImageUrl''] (shown_user u)"
  have page: "json_rows (field_of ''data'' (users_page sign t f (Suc i) per w))
      = map ?row (fst (findAll_users (f\<lparr>page := Suc i, limit := per, getAll := False\<rparr>) w))" for i
    by (simp add: users_page_data assms json_rows_def)
  have count: "snd (findAll_users (f\<lparr>page := 1, limit := per, getAll := False\<rparr>) w) = length (users_listing f w)"
    by (rule user_pages.list_page_total)
  have "concat (map (\<lambda>i. map ?row (fst (findAll_users (f\<lparr>page := Suc i, limit := per, getAll := False\<rparr>) w))) [0..<?n])
      = map ?row (concat (map (\<lambda>i. fst (findAll_users (f\<lparr>page := Suc i, limit := per, getAll := False\<rparr>) w)) [0..<?n]))"
    by (simp add: map_concat comp_def)
  also have "\<dots> = map ?row (users_listing f w)"
    using user_pages.pages_cover [of f w ?n per] total_pages_enough [OF assms, of "length (users_listing f w)"] count by simp
  finally have all: "concat (map (\<lambda>i. json_rows (field_of ''data'' (users_page sign t f (Suc i) per w))) [0..<?n])
      = map ?row (users_listing f w)" unfolding page .
  have "json_rows (field_of ''data'' (users_page sign t f (Suc i) per w)) \<noteq> []" if "i < ?n" for i
  proof -
    have "i * per < length (users_listing f w)" using total_pages_tight [OF assms that] count by simp
    moreover have "fst (findAll_users (f\<lparr>page := Suc i, limit := per, getAll := False\<rparr>) w) = take_page (Suc i) per (users_listing f w)"
      by (rule user_pages.list_page_items)
    ultimately show ?thesis using assms unfolding page by (simp add: take_page_def)
  qed
  then show ?thesis using all by blast
qed

text \<open>The witness: three users on pages of two.\<close>

definition three_users :: world where
  "three_users = sample_world\<lparr>users := [sample_user ''u1'' ''1'', sample_user ''u2'' ''2'', sample_user ''u3'' ''3'']\<rparr>"

definition any_user :: account_filter where
  "any_user =
     \<lparr>page = 1, limit = 10, getAll = False, af_search = None, af_isBanned = None, af_roleId = None, af_startDate = None,
      af_endDate = None\<rparr>"

theorem announced_pages_are_the_list_witness:
  "concat (map (\<lambda>i. json_rows (field_of ''data'' (users_page Some ''now'' any_user (Suc i) 2 three_users))) [0..<2])
    = map (\<lambda>u. transformFields Some [''profileImageUrl''] (shown_user u)) (users_listing any_user three_users)"
proof -
  have "snd (findAll_users (any_user\<lparr>page := 1, limit := 2, getAll := False\<rparr>) three_users) = 3" by code_simp
  moreover have "total_pages 3 2 = 2" by code_simp
  ultimately show ?thesis
    using announced_pages_are_the_list [of 2 Some "''now''" any_user three_users] by simp
qed

section \<open>Signed addresses\<close>

lemma sign_profile_image:
  assumes "sign k = Some url" and "js_trim k \<noteq> ''''"
  shows "transformFields sign [''profileImageUrl''] (shown_user (u\<lparr>u_profileImageUrl := Some k\<rparr>))
    = shown_user (u\<lparr>u_profileImageUrl := Some url\<rparr>)"
proof -
  have "split_path ''profileImageUrl'' = [''profileImageUrl'']" by (simp add: split_path_def js_split_def)
  moreover have "k \<noteq> ''''" using assms(2) by auto
  ultimately show ?thesis
    using assms
    by (simp add: transformFields_def shown_user_def user_json_def field_of_def json_opt_def generatePresignedUrl_def nullish_def)
qed

text \<open>What an administrator is shown as the address of a picture is a signed address, not the key that is stored.  An
  update that sends the shown user back stores the address, which expires, as the key, and deletes the stored picture.\<close>

theorem echoed_picture_is_lost:
  assumes "by_id i (users w) = Some u" and "u_profileImageUrl u = Some k" and "js_trim k \<noteq> ''''"
    and "sign k = Some url" and "url \<noteq> k"
    and "field_of ''profileImageUrl'' (transformFields sign [''profileImageUrl''] (shown_user u)) = JStr shown"
  shows "\<exists>saved m w'. update_user_account e i (no_changes\<lparr>pd_profileImageUrl := Val shown\<rparr>) None w = ok (saved, m) w'
    \<and> u_profileImageUrl saved = Some url \<and> by_id i (users w') = Some saved \<and> last (effects w') = S3Delete k"
proof -
  let ?dto = "no_changes\<lparr>pd_profileImageUrl := Val url\<rparr>"
  have "transformFields sign [''profileImageUrl''] (shown_user (u\<lparr>u_profileImageUrl := Some k\<rparr>))
      = shown_user (u\<lparr>u_profileImageUrl := Some url\<rparr>)"
    by (rule sign_profile_image [where sign = sign and k = k and url = url]) (rule assms)+
  moreover have "u\<lparr>u_profileImageUrl := Some k\<rparr> = u" using assms(2) by simp
  ultimately have "transformFields sign [''profileImageUrl''] (shown_user u) = shown_user (u\<lparr>u_profileImageUrl := Some url\<rparr>)"
    by simp
  then have shown: "shown = url"
    using assms(6) by (simp add: shown_user_def user_json_def field_of_def json_opt_def)
  let ?s = "with_hashed_password e (set_password ?dto (preload_user ?dto url u))"
  have k: "k \<noteq> ''''" using assms(3) by auto
  have i: "live u" "entId u = i" using by_id_Some [OF assms(1)] by auto
  have found: "by_id i (save_row ?s (users w)) = Some ?s"
    by (rule by_id_save_row [OF assms(1)])
       (use i in \<open>simp_all add: with_hashed_password_def set_password_def preload_user_def no_changes_def live_def\<close>)
  have run: "update_user_account e i ?dto None w
      = ok (?s, diffAuditValues (user_json u) (user_json ?s) (user_dto_keys ?dto @ key_if ''profileImageUrl'' False))
          (emit (S3Delete k) (update_user e (set_password ?dto (preload_user ?dto url u)) w))"
    unfolding update_user_account_def
    using assms k
    by (simp add: no_changes_def Let_def resolveProfileImageUrl_def replaceProfileImage_def s3_deleteObject_def
        or_default_def save_preloaded_def)
  have "u_profileImageUrl ?s = Some url"
    by (simp add: with_hashed_password_def set_password_def preload_user_def no_changes_def)
  then show ?thesis
    unfolding shown run using found by (auto simp: emit_def update_user_def)
qed

theorem echoed_picture_is_lost_witness:
  "\<exists>saved m w'. update_user_account (plain_ext 5) ''u1'' (no_changes\<lparr>pd_profileImageUrl := Val ''https://x''\<rparr>) None member_world
      = ok (saved, m) w' \<and> u_profileImageUrl saved = Some ''https://x'' \<and> last (effects w') = S3Delete ''users/profile/x''"
proof -
  have "u_profileImageUrl member = Some ''users/profile/x''" by (simp add: member_def)
  moreover have "js_trim ''users/profile/x'' \<noteq> ''''" by code_simp
  moreover have "field_of ''profileImageUrl'' (transformFields (\<lambda>_. Some ''https://x'') [''profileImageUrl''] (shown_user member))
      = JStr ''https://x''" by code_simp
  ultimately show ?thesis
    using echoed_picture_is_lost [OF member_found, of "''users/profile/x''" "\<lambda>_. Some ''https://x''" "''https://x''" "''https://x''"]
    by simp blast
qed

end
