(* ===== verification/Schema.thy ===== *)
theory Schema
  imports Prelude
begin

text \<open>
  The database schema and the statements of \<open>src/src/database/migrations\<close> that change it: what each statement of
  PostgreSQL needs, what it does, and how it is undone.  The rows of the tables matter to one statement only, a new
  column that must not be null, so the model is told which tables have rows.  A key or a unique index that is added to
  a table with rows is checked against them by PostgreSQL; the migrations add them to tables they have just created.
\<close>

section \<open>Schemas\<close>

datatype sql_type =
    SQL_Uuid | SQL_Varchar | SQL_Text | SQL_Integer | SQL_Serial | SQL_Boolean | SQL_Timestamptz | SQL_Date | SQL_Time
  | SQL_Json | SQL_Numeric nat nat | SQL_Enum string

text \<open>A default is a quoted text or an expression.\<close>

datatype sql_default = Quoted string | Expression string

record sql_column =
  co_name :: string
  co_type :: sql_type
  co_nullable :: bool
  co_default :: "sql_default option"

datatype on_delete = No_Action | Restrict | Cascade | Set_Null

datatype sql_constraint =
    Primary_Key "string list"
  | Unique_Key "string list"
  | Foreign_Key string string string on_delete

record sql_table =
  tb_name :: string
  tb_columns :: "sql_column list"
  tb_constraints :: "(string \<times> sql_constraint) list"

record sql_index =
  ix_name :: string
  ix_table :: string
  ix_columns :: "string list"
  ix_unique :: bool

record schema =
  sc_types :: "(string \<times> string list) list"
  sc_tables :: "sql_table list"
  sc_indexes :: "sql_index list"

definition empty_schema :: schema where
  "empty_schema = \<lparr>sc_types = [], sc_tables = [], sc_indexes = []\<rparr>"

text \<open>Columns as the statements write them: with and without \<open>NOT NULL\<close>, with and without \<open>DEFAULT\<close>.\<close>

definition nullable :: "string \<Rightarrow> sql_type \<Rightarrow> sql_column" where
  "nullable n t = \<lparr>co_name = n, co_type = t, co_nullable = True, co_default = None\<rparr>"

definition nullable_by :: "string \<Rightarrow> sql_type \<Rightarrow> sql_default \<Rightarrow> sql_column" where
  "nullable_by n t d = \<lparr>co_name = n, co_type = t, co_nullable = True, co_default = Some d\<rparr>"

definition not_null :: "string \<Rightarrow> sql_type \<Rightarrow> sql_column" where
  "not_null n t = \<lparr>co_name = n, co_type = t, co_nullable = False, co_default = None\<rparr>"

definition not_null_by :: "string \<Rightarrow> sql_type \<Rightarrow> sql_default \<Rightarrow> sql_column" where
  "not_null_by n t d = \<lparr>co_name = n, co_type = t, co_nullable = False, co_default = Some d\<rparr>"

section \<open>Statements\<close>

datatype ddl =
    Create_Type string "string list"
  | Drop_Type string
  | Create_Table string "sql_column list" "(string \<times> sql_constraint) list"
  | Drop_Table string
  | Create_Index string string "string list" bool
  | Drop_Index string
  | Add_Constraint string string sql_constraint
  | Drop_Constraint string string
  | Add_Column string sql_column
  | Drop_Column string string
  | Set_Default string string sql_default
  | Drop_Default string string

definition find_table :: "string \<Rightarrow> schema \<Rightarrow> sql_table option" where
  "find_table t s = find_one (\<lambda>x. tb_name x = t) (sc_tables s)"

definition column_names :: "sql_table \<Rightarrow> string list" where
  "column_names t = map co_name (tb_columns t)"

definition in_table :: "string \<Rightarrow> (sql_table \<Rightarrow> sql_table) \<Rightarrow> schema \<Rightarrow> schema" where
  "in_table t f s = s\<lparr>sc_tables := map (\<lambda>x. if tb_name x = t then f x else x) (sc_tables s)\<rparr>"

definition type_known :: "schema \<Rightarrow> sql_column \<Rightarrow> bool" where
  "type_known s c = (case co_type c of SQL_Enum n \<Rightarrow> n \<in> set (map fst (sc_types s)) | _ \<Rightarrow> True)"

fun constraint_columns :: "sql_constraint \<Rightarrow> string list" where
  "constraint_columns (Primary_Key cs) = cs"
| "constraint_columns (Unique_Key cs) = cs"
| "constraint_columns (Foreign_Key c _ _ _) = [c]"

definition is_key :: "string list \<Rightarrow> sql_table \<Rightarrow> bool" where
  "is_key cs t \<longleftrightarrow> Primary_Key cs \<in> set (map snd (tb_constraints t)) \<or> Unique_Key cs \<in> set (map snd (tb_constraints t))"

text \<open>A constraint fits a table when it has the columns, and a foreign key when its target is a key.\<close>

definition constraint_fits :: "schema \<Rightarrow> sql_table \<Rightarrow> sql_constraint \<Rightarrow> bool" where
  "constraint_fits s t c \<longleftrightarrow>
     set (constraint_columns c) \<subseteq> set (column_names t)
     \<and> (case c of
          Foreign_Key _ r k _ \<Rightarrow> (case find_table r s of None \<Rightarrow> False | Some target \<Rightarrow> is_key [k] target)
        | _ \<Rightarrow> True)"

definition refers_to :: "string \<Rightarrow> sql_constraint \<Rightarrow> bool" where
  "refers_to t c = (case c of Foreign_Key _ r _ _ \<Rightarrow> r = t | _ \<Rightarrow> False)"

definition referenced :: "string \<Rightarrow> sql_table list \<Rightarrow> bool" where
  "referenced t ts \<longleftrightarrow> list_ex (\<lambda>x. list_ex (\<lambda>c. refers_to t (snd c)) (tb_constraints x)) ts"

definition type_used :: "string \<Rightarrow> schema \<Rightarrow> bool" where
  "type_used n s \<longleftrightarrow> list_ex (\<lambda>x. list_ex (\<lambda>c. co_type c = SQL_Enum n) (tb_columns x)) (sc_tables s)"

definition set_column_default :: "string \<Rightarrow> sql_default option \<Rightarrow> sql_table \<Rightarrow> sql_table" where
  "set_column_default c d t =
     t\<lparr>tb_columns := map (\<lambda>x. if co_name x = c then x\<lparr>co_default := d\<rparr> else x) (tb_columns t)\<rparr>"

text \<open>
  One statement; \<open>filled\<close> are the tables with rows.  A column that is dropped takes along the indexes and the constraints
  of its table that mention it.
\<close>

fun run_ddl :: "string list \<Rightarrow> ddl \<Rightarrow> schema \<Rightarrow> schema option" where
  "run_ddl filled (Create_Type n vs) s =
     (if n \<in> set (map fst (sc_types s)) then None else Some (s\<lparr>sc_types := sc_types s @ [(n, vs)]\<rparr>))"
| "run_ddl filled (Drop_Type n) s =
     (if n \<notin> set (map fst (sc_types s)) \<or> type_used n s then None
      else Some (s\<lparr>sc_types := filter (\<lambda>x. fst x \<noteq> n) (sc_types s)\<rparr>))"
| "run_ddl filled (Create_Table n cs ks) s =
     (let t = \<lparr>tb_name = n, tb_columns = cs, tb_constraints = ks\<rparr>;
          s' = s\<lparr>sc_tables := sc_tables s @ [t]\<rparr>
      in if n \<in> set (map tb_name (sc_tables s)) \<or> \<not> distinct (map co_name cs) \<or> \<not> distinct (map fst ks)
            \<or> \<not> list_all (type_known s) cs \<or> \<not> list_all (\<lambda>k. constraint_fits s' t (snd k)) ks
         then None else Some s')"
| "run_ddl filled (Drop_Table n) s =
     (if n \<notin> set (map tb_name (sc_tables s)) \<or> referenced n (filter (\<lambda>x. tb_name x \<noteq> n) (sc_tables s)) then None
      else Some (s\<lparr>sc_tables := filter (\<lambda>x. tb_name x \<noteq> n) (sc_tables s),
                   sc_indexes := filter (\<lambda>x. ix_table x \<noteq> n) (sc_indexes s)\<rparr>))"
| "run_ddl filled (Create_Index n t cs u) s =
     (case find_table t s of
        None \<Rightarrow> None
      | Some x \<Rightarrow>
          if n \<in> set (map ix_name (sc_indexes s)) \<or> \<not> set cs \<subseteq> set (column_names x) then None
          else Some (s\<lparr>sc_indexes := sc_indexes s @ [\<lparr>ix_name = n, ix_table = t, ix_columns = cs, ix_unique = u\<rparr>]\<rparr>))"
| "run_ddl filled (Drop_Index n) s =
     (if n \<notin> set (map ix_name (sc_indexes s)) then None
      else Some (s\<lparr>sc_indexes := filter (\<lambda>x. ix_name x \<noteq> n) (sc_indexes s)\<rparr>))"
| "run_ddl filled (Add_Constraint t n k) s =
     (case find_table t s of
        None \<Rightarrow> None
      | Some x \<Rightarrow>
          if n \<in> set (map fst (tb_constraints x)) \<or> \<not> constraint_fits s x k then None
          else Some (in_table t (\<lambda>x. x\<lparr>tb_constraints := tb_constraints x @ [(n, k)]\<rparr>) s))"
| "run_ddl filled (Drop_Constraint t n) s =
     (case find_table t s of
        None \<Rightarrow> None
      | Some x \<Rightarrow>
          (case map_of (tb_constraints x) n of
             None \<Rightarrow> None
           | Some k \<Rightarrow>
               if (case k of Foreign_Key _ _ _ _ \<Rightarrow> False | _ \<Rightarrow> referenced t (sc_tables s)) then None
               else Some (in_table t (\<lambda>x. x\<lparr>tb_constraints := filter (\<lambda>c. fst c \<noteq> n) (tb_constraints x)\<rparr>) s)))"
| "run_ddl filled (Add_Column t c) s =
     (case find_table t s of
        None \<Rightarrow> None
      | Some x \<Rightarrow>
          if co_name c \<in> set (column_names x) \<or> \<not> type_known s c
             \<or> (\<not> co_nullable c \<and> co_default c = None \<and> t \<in> set filled)
          then None
          else Some (in_table t (\<lambda>x. x\<lparr>tb_columns := tb_columns x @ [c]\<rparr>) s))"
| "run_ddl filled (Drop_Column t c) s =
     (case find_table t s of
        None \<Rightarrow> None
      | Some x \<Rightarrow>
          if c \<notin> set (column_names x)
             \<or> list_ex (\<lambda>y. list_ex (\<lambda>k. case snd k of Foreign_Key _ r d _ \<Rightarrow> r = t \<and> d = c | _ \<Rightarrow> False) (tb_constraints y))
                 (sc_tables s)
          then None
          else Some ((in_table t (\<lambda>x. x\<lparr>tb_columns := filter (\<lambda>y. co_name y \<noteq> c) (tb_columns x),
                        tb_constraints := filter (\<lambda>k. c \<notin> set (constraint_columns (snd k))) (tb_constraints x)\<rparr>) s)
                     \<lparr>sc_indexes := filter (\<lambda>i. \<not> (ix_table i = t \<and> c \<in> set (ix_columns i))) (sc_indexes s)\<rparr>))"
| "run_ddl filled (Set_Default t c d) s =
     (case find_table t s of
        None \<Rightarrow> None
      | Some x \<Rightarrow> if c \<in> set (column_names x) then Some (in_table t (set_column_default c (Some d)) s) else None)"
| "run_ddl filled (Drop_Default t c) s =
     (case find_table t s of
        None \<Rightarrow> None
      | Some x \<Rightarrow> if c \<in> set (column_names x) then Some (in_table t (set_column_default c None) s) else None)"

fun run_ddls :: "string list \<Rightarrow> ddl list \<Rightarrow> schema \<Rightarrow> schema option" where
  "run_ddls filled [] s = Some s"
| "run_ddls filled (d # ds) s = (case run_ddl filled d s of None \<Rightarrow> None | Some s' \<Rightarrow> run_ddls filled ds s')"

lemma run_ddls_append:
  "run_ddls filled (ds @ es) s = (case run_ddls filled ds s of None \<Rightarrow> None | Some s' \<Rightarrow> run_ddls filled es s')"
  by (induction ds arbitrary: s) (simp_all split: option.split)

section \<open>Statements without their conditions\<close>

fun effect :: "ddl \<Rightarrow> schema \<Rightarrow> schema" where
  "effect (Create_Type n vs) s = s\<lparr>sc_types := sc_types s @ [(n, vs)]\<rparr>"
| "effect (Create_Table n cs ks) s =
     s\<lparr>sc_tables := sc_tables s @ [\<lparr>tb_name = n, tb_columns = cs, tb_constraints = ks\<rparr>]\<rparr>"
| "effect (Create_Index n t cs u) s =
     s\<lparr>sc_indexes := sc_indexes s @ [\<lparr>ix_name = n, ix_table = t, ix_columns = cs, ix_unique = u\<rparr>]\<rparr>"
| "effect (Add_Constraint t n k) s = in_table t (\<lambda>x. x\<lparr>tb_constraints := tb_constraints x @ [(n, k)]\<rparr>) s"
| "effect (Add_Column t c) s = in_table t (\<lambda>x. x\<lparr>tb_columns := tb_columns x @ [c]\<rparr>) s"
| "effect (Set_Default t c d) s = in_table t (set_column_default c (Some d)) s"
| "effect _ s = s"

text \<open>The statements \<open>effect\<close> covers.\<close>

fun adds :: "ddl \<Rightarrow> bool" where
  "adds (Drop_Type _) = False"
| "adds (Drop_Table _) = False"
| "adds (Drop_Index _) = False"
| "adds (Drop_Constraint _ _) = False"
| "adds (Drop_Column _ _) = False"
| "adds (Drop_Default _ _) = False"
| "adds _ = True"

lemma run_ddl_effect: "adds d \<Longrightarrow> run_ddl filled d s = Some s' \<Longrightarrow> s' = effect d s"
  by (cases d) (auto simp: Let_def split: option.splits if_splits)

lemma run_ddls_effect: "list_all adds ds \<Longrightarrow> run_ddls filled ds s \<noteq> None \<Longrightarrow> run_ddls filled ds s = Some (fold effect ds s)"
  by (induction ds arbitrary: s) (auto split: option.splits dest: run_ddl_effect)

end
