(* ===== verification/Schema_Facts.thy ===== *)
theory Schema_Facts
  imports Schema
begin

text \<open>
  What every statement keeps, and which statement undoes it: a schema stays well formed under every statement that
  PostgreSQL accepts, and a creation or an addition is undone exactly by the matching removal.
\<close>

section \<open>Well-formed schemas\<close>

definition wf_table :: "schema \<Rightarrow> sql_table \<Rightarrow> bool" where
  "wf_table s t \<longleftrightarrow>
     distinct (column_names t) \<and> distinct (map fst (tb_constraints t)) \<and> list_all (type_known s) (tb_columns t)
     \<and> list_all (\<lambda>k. constraint_fits s t (snd k)) (tb_constraints t)"

definition wf_index :: "schema \<Rightarrow> sql_index \<Rightarrow> bool" where
  "wf_index s i \<longleftrightarrow> (case find_table (ix_table i) s of None \<Rightarrow> False | Some t \<Rightarrow> set (ix_columns i) \<subseteq> set (column_names t))"

definition wf_schema :: "schema \<Rightarrow> bool" where
  "wf_schema s \<longleftrightarrow>
     distinct (map fst (sc_types s)) \<and> distinct (map tb_name (sc_tables s)) \<and> distinct (map ix_name (sc_indexes s))
     \<and> list_all (wf_table s) (sc_tables s) \<and> list_all (wf_index s) (sc_indexes s)"

lemma wf_empty [simp]: "wf_schema empty_schema"
  by (simp add: wf_schema_def empty_schema_def)

text \<open>Tables by their names.\<close>

lemma find_table_in: "find_table n s = Some t \<Longrightarrow> t \<in> set (sc_tables s) \<and> tb_name t = n"
  unfolding find_table_def by (rule find_one_Some)

lemma find_table_distinct:
  "distinct (map tb_name (sc_tables s)) \<Longrightarrow> t \<in> set (sc_tables s) \<Longrightarrow> find_table (tb_name t) s = Some t"
  unfolding find_table_def using find_one_key [of tb_name "sc_tables s" t "\<lambda>_. True"] by simp

lemma find_table_none: "find_table n s = None \<longleftrightarrow> n \<notin> set (map tb_name (sc_tables s))"
  by (auto simp: find_table_def find_one_None)

lemma find_table_append:
  "find_table n (s\<lparr>sc_tables := sc_tables s @ [t]\<rparr>)
    = (case find_table n s of None \<Rightarrow> if tb_name t = n then Some t else None | Some x \<Rightarrow> Some x)"
  by (simp add: find_table_def find_one_append split: option.split)

lemma find_in_table:
  assumes "\<And>x. tb_name (f x) = tb_name x"
  shows "find_table n (in_table t f s) = map_option (\<lambda>x. if tb_name x = t then f x else x) (find_table n s)"
proof -
  have "find_one (\<lambda>x. tb_name x = n) (map (\<lambda>x. if tb_name x = t then f x else x) ts)
      = map_option (\<lambda>x. if tb_name x = t then f x else x) (find_one (\<lambda>x. tb_name x = n) ts)" for ts
    by (induction ts) (simp_all add: assms)
  then show ?thesis by (simp add: find_table_def in_table_def)
qed

lemma find_filter_tables:
  "n \<noteq> m \<Longrightarrow> find_one (\<lambda>x. tb_name x = m) (filter (\<lambda>x. tb_name x \<noteq> n) ts) = find_one (\<lambda>x. tb_name x = m) ts"
  by (induction ts) (auto simp: find_one_def)

text \<open>Fitting depends on the columns and on the key a foreign key points to.\<close>

lemma constraint_fits_mono:
  assumes "constraint_fits s t c" and "set (constraint_columns c) \<subseteq> set (column_names t')"
    and "\<And>a r d o' x. c = Foreign_Key a r d o' \<Longrightarrow> find_table r s = Some x \<Longrightarrow> is_key [d] x
      \<Longrightarrow> \<exists>y. find_table r s' = Some y \<and> is_key [d] y"
  shows "constraint_fits s' t' c"
proof (cases c)
  case (Foreign_Key a r d o')
  then obtain x where x: "find_table r s = Some x" "is_key [d] x"
    using assms(1) by (auto simp: constraint_fits_def split: option.splits)
  obtain y where "find_table r s' = Some y" "is_key [d] y" using assms(3) [OF Foreign_Key x] by blast
  then show ?thesis using assms(2) Foreign_Key by (simp add: constraint_fits_def)
qed (use assms(2) in \<open>simp_all add: constraint_fits_def\<close>)

lemma wf_tableD:
  assumes "wf_schema s" and "find_table n s = Some t"
  shows "wf_table s t" "t \<in> set (sc_tables s)" "tb_name t = n"
  using assms find_table_in [OF assms(2)] by (auto simp: wf_schema_def list_all_iff)

section \<open>Undoing\<close>

text \<open>The statement that takes back a creation or an addition.\<close>

fun undo :: "ddl \<Rightarrow> ddl option" where
  "undo (Create_Type n vs) = Some (Drop_Type n)"
| "undo (Create_Table n cs ks) = Some (Drop_Table n)"
| "undo (Create_Index n t cs u) = Some (Drop_Index n)"
| "undo (Add_Constraint t n (Foreign_Key c r k d)) = Some (Drop_Constraint t n)"
| "undo (Add_Column t c) = Some (Drop_Column t (co_name c))"
| "undo _ = None"

lemma filter_fresh: "n \<notin> set (map f xs) \<Longrightarrow> filter (\<lambda>x. f x \<noteq> n) xs = xs"
  by (auto simp: filter_id_conv)

lemma in_table_undo:
  assumes "distinct (map tb_name (sc_tables s))" and "find_table t s = Some x"
    and "\<And>y. tb_name (f y) = tb_name y" and "g (f x) = x"
  shows "in_table t g (in_table t f s) = s"
proof -
  have "g (f y) = y" if "y \<in> set (sc_tables s)" "tb_name y = t" for y
    using find_table_distinct [OF assms(1) that(1)] that(2) assms(2,4) by simp
  then have "map (\<lambda>y. if tb_name y = t then g y else y) (map (\<lambda>y. if tb_name y = t then f y else y) (sc_tables s)) = sc_tables s"
    by (auto simp: map_idI assms(3) comp_def)
  then show ?thesis by (simp add: in_table_def)
qed

lemma undo_type:
  assumes "wf_schema s" and "run_ddl f (Create_Type n vs) s = Some s'"
  shows "run_ddl g (Drop_Type n) s' = Some s"
proof -
  have fresh: "n \<notin> set (map fst (sc_types s))" and s': "s' = s\<lparr>sc_types := sc_types s @ [(n, vs)]\<rparr>"
    using assms(2) by (auto split: if_splits)
  have "\<not> type_used n s'"
  proof
    assume "type_used n s'"
    then obtain t c where t: "t \<in> set (sc_tables s)" "c \<in> set (tb_columns t)" "co_type c = SQL_Enum n"
      by (auto simp: type_used_def list_ex_iff s')
    then have "type_known s c" using assms(1) by (auto simp: wf_schema_def wf_table_def list_all_iff)
    then show False using t(3) fresh by (simp add: type_known_def)
  qed
  then show ?thesis using filter_fresh [OF fresh] by (simp add: s')
qed

lemma referenced_target:
  assumes "wf_schema s" and "t \<in> set (sc_tables s)" and "k \<in> set (tb_constraints t)" and "snd k = Foreign_Key c r d o'"
  shows "\<exists>x. find_table r s = Some x \<and> is_key [d] x \<and> c \<in> set (column_names t)"
proof -
  have "constraint_fits s t (snd k)" using assms(1-3) by (auto simp: wf_schema_def wf_table_def list_all_iff)
  then show ?thesis using assms(4) by (auto simp: constraint_fits_def split: option.splits)
qed

lemma undo_table:
  assumes "wf_schema s" and "run_ddl f (Create_Table n cs ks) s = Some s'"
  shows "run_ddl g (Drop_Table n) s' = Some s"
proof -
  have fresh: "n \<notin> set (map tb_name (sc_tables s))"
    and s': "s' = s\<lparr>sc_tables := sc_tables s @ [\<lparr>tb_name = n, tb_columns = cs, tb_constraints = ks\<rparr>]\<rparr>"
    using assms(2) by (auto simp: Let_def split: if_splits)
  have same: "filter (\<lambda>x. tb_name x \<noteq> n) (sc_tables s') = sc_tables s" using filter_fresh [OF fresh] by (simp add: s')
  have "\<not> referenced n (sc_tables s)"
  proof
    assume "referenced n (sc_tables s)"
    then obtain t k where t: "t \<in> set (sc_tables s)" "k \<in> set (tb_constraints t)" "refers_to n (snd k)"
      by (auto simp: referenced_def list_ex_iff)
    then obtain c d o' where "snd k = Foreign_Key c n d o'" by (cases "snd k") (auto simp: refers_to_def)
    then have "find_table n s \<noteq> None" using referenced_target [OF assms(1) t(1,2)] by blast
    then show False using fresh unfolding find_table_none by blast
  qed
  moreover have "filter (\<lambda>x. ix_table x \<noteq> n) (sc_indexes s) = sc_indexes s"
  proof (rule filter_True, rule ballI)
    fix i assume "i \<in> set (sc_indexes s)"
    then have "wf_index s i" using assms(1) by (simp add: wf_schema_def list_all_iff)
    then have "find_table (ix_table i) s \<noteq> None" by (auto simp: wf_index_def split: option.splits)
    then show "ix_table i \<noteq> n" using fresh unfolding find_table_none by metis
  qed
  ultimately show ?thesis using same by (simp add: s')
qed

lemma undo_index:
  assumes "run_ddl f (Create_Index n t cs u) s = Some s'"
  shows "run_ddl g (Drop_Index n) s' = Some s"
proof -
  have fresh: "n \<notin> set (map ix_name (sc_indexes s))"
    and s': "s' = s\<lparr>sc_indexes := sc_indexes s @ [\<lparr>ix_name = n, ix_table = t, ix_columns = cs, ix_unique = u\<rparr>]\<rparr>"
    using assms by (auto split: option.splits if_splits)
  show ?thesis using filter_fresh [OF fresh] by (simp add: s')
qed

lemma undo_foreign_key:
  assumes "wf_schema s" and "run_ddl f (Add_Constraint t n (Foreign_Key c r k d)) s = Some s'"
  shows "run_ddl g (Drop_Constraint t n) s' = Some s"
proof -
  let ?add = "\<lambda>x. x\<lparr>tb_constraints := tb_constraints x @ [(n, Foreign_Key c r k d)]\<rparr>"
  let ?drop = "\<lambda>x. x\<lparr>tb_constraints := filter (\<lambda>c. fst c \<noteq> n) (tb_constraints x)\<rparr>"
  obtain x where x: "find_table t s = Some x" and fresh: "n \<notin> set (map fst (tb_constraints x))"
    and s': "s' = in_table t ?add s"
    using assms(2) by (auto split: option.splits if_splits)
  have "find_table t s' = Some (?add x)" using x find_table_in [OF x] by (simp add: s' find_in_table)
  moreover have "map_of (tb_constraints (?add x)) n = Some (Foreign_Key c r k d)"
    using fresh by (simp add: map_add_def map_of_eq_None_iff [THEN iffD2])
  ultimately have "run_ddl g (Drop_Constraint t n) s' = Some (in_table t ?drop s')" by simp
  moreover have "in_table t ?drop s' = s"
    unfolding s'
  proof (rule in_table_undo)
    show "distinct (map tb_name (sc_tables s))" using assms(1) by (simp add: wf_schema_def)
    show "find_table t s = Some x" by (rule x)
    show "?drop (?add x) = x" using filter_fresh [OF fresh] by simp
  qed simp
  ultimately show ?thesis by simp
qed

lemma undo_column:
  assumes "wf_schema s" and "run_ddl f (Add_Column t c) s = Some s'"
  shows "run_ddl g (Drop_Column t (co_name c)) s' = Some s"
proof -
  let ?n = "co_name c"
  let ?add = "\<lambda>x. x\<lparr>tb_columns := tb_columns x @ [c]\<rparr>"
  let ?drop = "\<lambda>x. x\<lparr>tb_columns := filter (\<lambda>y. co_name y \<noteq> ?n) (tb_columns x),
      tb_constraints := filter (\<lambda>k. ?n \<notin> set (constraint_columns (snd k))) (tb_constraints x)\<rparr>"
  obtain x where x: "find_table t s = Some x" and fresh: "?n \<notin> set (column_names x)" and s': "s' = in_table t ?add s"
    using assms(2) by (auto split: option.splits if_splits)
  note wf = wf_tableD [OF assms(1) x]
  have cols: "set (constraint_columns (snd k)) \<subseteq> set (column_names x)" if "k \<in> set (tb_constraints x)" for k
    using wf(1) that by (auto simp: wf_table_def list_all_iff constraint_fits_def)
  have found: "find_table t s' = Some (?add x)" using x wf(3) by (simp add: s' find_in_table)
  have unreferenced: "\<not> list_ex (\<lambda>y. list_ex (\<lambda>k. case snd k of Foreign_Key _ r d _ \<Rightarrow> r = t \<and> d = ?n | _ \<Rightarrow> False)
      (tb_constraints y)) (sc_tables s')"
  proof
    assume "list_ex (\<lambda>y. list_ex (\<lambda>k. case snd k of Foreign_Key _ r d _ \<Rightarrow> r = t \<and> d = ?n | _ \<Rightarrow> False)
      (tb_constraints y)) (sc_tables s')"
    then obtain y k where y: "y \<in> set (sc_tables s)" "k \<in> set (tb_constraints y)"
        "case snd k of Foreign_Key _ r d _ \<Rightarrow> r = t \<and> d = ?n | _ \<Rightarrow> False"
      by (auto simp: list_ex_iff s' in_table_def split: if_splits)
    then obtain a d where "snd k = Foreign_Key a t ?n d" by (cases "snd k") auto
    then have "is_key [?n] x" using referenced_target [OF assms(1) y(1,2)] x by auto
    then have "\<exists>k \<in> set (tb_constraints x). snd k = Primary_Key [?n] \<or> snd k = Unique_Key [?n]"
      unfolding is_key_def by force
    then show False using cols fresh by fastforce
  qed
  have indexes: "filter (\<lambda>i. \<not> (ix_table i = t \<and> ?n \<in> set (ix_columns i))) (sc_indexes s') = sc_indexes s"
  proof -
    have "\<not> (ix_table i = t \<and> ?n \<in> set (ix_columns i))" if "i \<in> set (sc_indexes s)" for i
    proof -
      have "wf_index s i" using assms(1) that by (simp add: wf_schema_def list_all_iff)
      then show ?thesis using x fresh by (auto simp: wf_index_def)
    qed
    then show ?thesis by (simp add: s' in_table_def)
  qed
  have "run_ddl g (Drop_Column t ?n) s' = Some ((in_table t ?drop s')\<lparr>sc_indexes := sc_indexes s\<rparr>)"
    using found unreferenced indexes by (simp add: column_names_def)
  moreover have "in_table t ?drop s' = s"
    unfolding s'
  proof (rule in_table_undo)
    show "distinct (map tb_name (sc_tables s))" using assms(1) by (simp add: wf_schema_def)
    show "find_table t s = Some x" by (rule x)
    have "filter (\<lambda>k. ?n \<notin> set (constraint_columns (snd k))) (tb_constraints x) = tb_constraints x"
      using cols fresh by (auto simp: filter_id_conv)
    moreover have "filter (\<lambda>y. co_name y \<noteq> ?n) (tb_columns x) = tb_columns x"
      by (rule filter_fresh) (use fresh in \<open>simp add: column_names_def\<close>)
    ultimately show "?drop (?add x) = x" by simp
  qed simp
  ultimately show ?thesis by simp
qed

lemma undo_ok:
  assumes "wf_schema s" and "run_ddl f d s = Some s'" and "undo d = Some u"
  shows "run_ddl g u s' = Some s"
  using assms(3)
proof (cases rule: undo.elims)
  case (1 n vs)
  then show ?thesis using undo_type assms(1,2) by simp
next
  case (2 n cs ks)
  then show ?thesis using undo_table assms(1,2) by simp
next
  case (3 n t cs u')
  then show ?thesis using undo_index assms(2) by simp
next
  case (4 t n c r k d')
  then show ?thesis using undo_foreign_key assms(1,2) by simp
next
  case (5 t c)
  then show ?thesis using undo_column assms(1,2) by simp
qed simp_all

section \<open>Every statement keeps schemas well formed\<close>

lemma type_known_cong [simp]:
  "type_known (in_table t f s) = type_known s" "type_known (s\<lparr>sc_indexes := is\<rparr>) = type_known s"
  "type_known (s\<lparr>sc_tables := ts\<rparr>) = type_known s"
  by (auto simp: type_known_def in_table_def fun_eq_iff split: sql_type.split)

lemma find_table_cong [simp]:
  "find_table t (s\<lparr>sc_indexes := is\<rparr>) = find_table t s" "find_table t (s\<lparr>sc_types := ns\<rparr>) = find_table t s"
  by (simp_all add: find_table_def)

lemma constraint_fits_cong [simp]:
  "constraint_fits (s\<lparr>sc_indexes := is\<rparr>) = constraint_fits s" "constraint_fits (s\<lparr>sc_types := ns\<rparr>) = constraint_fits s"
  by (auto simp: constraint_fits_def fun_eq_iff split: sql_constraint.split)

lemma wf_fewer_indexes:
  assumes "wf_schema s"
  shows "wf_schema (s\<lparr>sc_indexes := filter P (sc_indexes s)\<rparr>)"
  using assms by (auto simp: wf_schema_def wf_table_def wf_index_def list_all_iff distinct_map_filter)

lemma in_table_names [simp]:
  "(\<And>y. tb_name (f y) = tb_name y) \<Longrightarrow> map tb_name (sc_tables (in_table t f s)) = map tb_name (sc_tables s)"
  by (simp add: in_table_def)

lemma wf_in_table:
  assumes wf: "wf_schema s" and x: "find_table t s = Some x" and names: "\<And>y. tb_name (f y) = tb_name y"
    and local: "distinct (column_names (f x))" "distinct (map fst (tb_constraints (f x)))"
      "list_all (type_known s) (tb_columns (f x))"
    and fits: "\<And>k. k \<in> set (tb_constraints (f x)) \<Longrightarrow> k \<in> set (tb_constraints x) \<or> constraint_fits s x (snd k)"
    and cols: "\<And>k. k \<in> set (tb_constraints (f x)) \<Longrightarrow> set (constraint_columns (snd k)) \<subseteq> set (column_names (f x))"
    and keys: "\<And>y k c d o'. y \<in> insert (f x) (set (sc_tables s)) \<Longrightarrow> k \<in> set (tb_constraints y)
      \<Longrightarrow> snd k = Foreign_Key c t d o' \<Longrightarrow> is_key [d] x \<Longrightarrow> is_key [d] (f x)"
    and idx: "\<And>i. i \<in> set (sc_indexes s) \<Longrightarrow> ix_table i = t \<Longrightarrow> set (ix_columns i) \<subseteq> set (column_names (f x))"
  shows "wf_schema (in_table t f s)"
proof -
  let ?s = "in_table t f s"
  have found: "find_table r ?s = map_option (\<lambda>y. if tb_name y = t then f y else y) (find_table r s)" for r
    by (rule find_in_table) (rule names)
  note wx = wf_tableD [OF wf x]
  have dist: "distinct (map tb_name (sc_tables s))" using wf by (simp add: wf_schema_def)
  have only: "y = x" if "y \<in> set (sc_tables s)" "tb_name y = t" for y
    using find_table_distinct [OF dist that(1)] that(2) x by simp
  have target: "\<exists>z. find_table r ?s = Some z \<and> is_key [d] z"
    if "find_table r s = Some y" "is_key [d] y" "r = t \<Longrightarrow> is_key [d] (f x)" for r y d
    using that found [of r] find_table_in [OF that(1)] only [of y] by auto
  have old: "constraint_fits ?s y' (snd k)"
    if "y \<in> set (sc_tables s)" "k \<in> set (tb_constraints y)" "set (constraint_columns (snd k)) \<subseteq> set (column_names y')" for y y' k
  proof (rule constraint_fits_mono [of s y])
    show "constraint_fits s y (snd k)" using wf that(1,2) by (auto simp: wf_schema_def wf_table_def list_all_iff)
    show "set (constraint_columns (snd k)) \<subseteq> set (column_names y')" by (rule that(3))
    fix a r d o' z assume k: "snd k = Foreign_Key a r d o'" "find_table r s = Some z" "is_key [d] z"
    show "\<exists>y. find_table r ?s = Some y \<and> is_key [d] y"
      by (rule target [OF k(2,3)]) (use keys [OF insertI2 [OF that(1)] that(2)] k x in auto)
  qed
  have new: "constraint_fits ?s (f x) (snd k)" if k: "k \<in> set (tb_constraints (f x))" for k
  proof (cases "k \<in> set (tb_constraints x)")
    case True
    then show ?thesis using old [OF wx(2)] cols [OF k] by blast
  next
    case False
    show ?thesis
    proof (rule constraint_fits_mono [of s x])
      show "constraint_fits s x (snd k)" using fits [OF k] False by blast
      show "set (constraint_columns (snd k)) \<subseteq> set (column_names (f x))" by (rule cols [OF k])
      fix a r d o' z assume z: "snd k = Foreign_Key a r d o'" "find_table r s = Some z" "is_key [d] z"
      show "\<exists>y. find_table r ?s = Some y \<and> is_key [d] y"
        by (rule target [OF z(2,3)]) (use keys [OF insertI1 k] z x in auto)
    qed
  qed
  have "wf_table ?s z" if z: "z \<in> set (sc_tables ?s)" for z
  proof -
    obtain y where y: "y \<in> set (sc_tables s)" "z = (if tb_name y = t then f y else y)"
      using z by (auto simp: in_table_def)
    show ?thesis
    proof (cases "tb_name y = t")
      case True
      then have "z = f x" using y only by simp
      then show ?thesis using local new by (simp add: wf_table_def list_all_iff)
    next
      case False
      have "wf_table s y" using wf y(1) by (simp add: wf_schema_def list_all_iff)
      then show ?thesis
        using y False old [OF y(1), of _ y]
        by (auto simp: wf_table_def list_all_iff constraint_fits_def)
    qed
  qed
  moreover have "wf_index ?s i" if i: "i \<in> set (sc_indexes ?s)" for i
  proof -
    have "i \<in> set (sc_indexes s)" using i by (simp add: in_table_def)
    then show ?thesis
      using wf idx [of i] found [of "ix_table i"] x find_table_in [of "ix_table i" s]
      by (fastforce simp: wf_schema_def list_all_iff wf_index_def split: option.splits)
  qed
  moreover have "map tb_name (sc_tables ?s) = map tb_name (sc_tables s)" by (rule in_table_names) (rule names)
  moreover have "sc_types ?s = sc_types s" "sc_indexes ?s = sc_indexes s" by (simp_all add: in_table_def)
  ultimately show ?thesis using wf by (simp add: wf_schema_def list_all_iff)
qed

lemma index_columns:
  assumes "wf_schema s" and "find_table t s = Some x" and "i \<in> set (sc_indexes s)" and "ix_table i = t"
  shows "set (ix_columns i) \<subseteq> set (column_names x)"
proof -
  have "wf_index s i" using assms(1,3) by (simp add: wf_schema_def list_all_iff)
  then show ?thesis using assms(2,4) by (simp add: wf_index_def)
qed

lemma referencedI: "y \<in> set ts \<Longrightarrow> k \<in> set (tb_constraints y) \<Longrightarrow> snd k = Foreign_Key a n d o' \<Longrightarrow> referenced n ts"
  by (force simp: referenced_def list_ex_iff refers_to_def)

lemma wf_create_type:
  assumes "wf_schema s" and "n \<notin> set (map fst (sc_types s))"
  shows "wf_schema (s\<lparr>sc_types := sc_types s @ [(n, vs)]\<rparr>)"
proof -
  have known: "type_known s c \<Longrightarrow> type_known (s\<lparr>sc_types := sc_types s @ [(n, vs)]\<rparr>) c" for c
    by (auto simp: type_known_def split: sql_type.splits)
  have "wf_table (s\<lparr>sc_types := sc_types s @ [(n, vs)]\<rparr>) t" if "t \<in> set (sc_tables s)" for t
  proof -
    have "wf_table s t" using assms(1) that by (simp add: wf_schema_def list_all_iff)
    then show ?thesis using known by (simp add: wf_table_def list_all_iff)
  qed
  moreover have "wf_index (s\<lparr>sc_types := sc_types s @ [(n, vs)]\<rparr>) = wf_index s" by (simp add: wf_index_def fun_eq_iff)
  ultimately show ?thesis using assms by (simp add: wf_schema_def list_all_iff)
qed

lemma wf_drop_type:
  assumes "wf_schema s" and "\<not> type_used n s"
  shows "wf_schema (s\<lparr>sc_types := filter (\<lambda>x. fst x \<noteq> n) (sc_types s)\<rparr>)"
proof -
  let ?s = "s\<lparr>sc_types := filter (\<lambda>x. fst x \<noteq> n) (sc_types s)\<rparr>"
  have "wf_table ?s t" if t: "t \<in> set (sc_tables s)" for t
  proof -
    have w: "wf_table s t" using assms(1) t by (simp add: wf_schema_def list_all_iff)
    have "type_known ?s c" if c: "c \<in> set (tb_columns t)" for c
    proof -
      have "co_type c \<noteq> SQL_Enum n" using assms(2) t c by (auto simp: type_used_def list_ex_iff)
      moreover have "type_known s c" using w c by (simp add: wf_table_def list_all_iff)
      ultimately show ?thesis by (auto simp: type_known_def image_iff split: sql_type.splits)
    qed
    then show ?thesis using w by (simp add: wf_table_def list_all_iff)
  qed
  moreover have "wf_index ?s = wf_index s" by (simp add: wf_index_def fun_eq_iff)
  ultimately show ?thesis using assms(1) by (simp add: wf_schema_def list_all_iff distinct_map_filter)
qed

lemma wf_create_table:
  assumes "wf_schema s" and "run_ddl f (Create_Table n cs ks) s = Some s'"
  shows "wf_schema s'"
proof -
  let ?t = "\<lparr>tb_name = n, tb_columns = cs, tb_constraints = ks\<rparr>"
  have fresh: "n \<notin> set (map tb_name (sc_tables s))" and s': "s' = s\<lparr>sc_tables := sc_tables s @ [?t]\<rparr>"
    and new: "distinct (map co_name cs)" "distinct (map fst ks)" "list_all (type_known s) cs"
      "list_all (\<lambda>k. constraint_fits s' ?t (snd k)) ks"
    using assms(2) by (auto simp: Let_def split: if_splits)
  have found: "find_table r s' = Some y" if "find_table r s = Some y" for r y
    using that by (simp add: s' find_table_append)
  have "wf_table s' y" if y: "y \<in> set (sc_tables s)" for y
  proof -
    have w: "wf_table s y" using assms(1) y by (simp add: wf_schema_def list_all_iff)
    have "constraint_fits s' y (snd k)" if "k \<in> set (tb_constraints y)" for k
    proof (rule constraint_fits_mono [of s y])
      show k: "constraint_fits s y (snd k)" using w that by (simp add: wf_table_def list_all_iff)
      then show "set (constraint_columns (snd k)) \<subseteq> set (column_names y)" by (simp add: constraint_fits_def)
    qed (use found in blast)
    then show ?thesis using w by (simp add: wf_table_def list_all_iff s')
  qed
  moreover have "wf_table s' ?t" using new by (simp add: wf_table_def column_names_def s')
  moreover have "wf_index s' i" if "wf_index s i" for i
    using that found by (auto simp: wf_index_def split: option.splits)
  ultimately show ?thesis using assms(1) fresh by (simp add: wf_schema_def list_all_iff s')
qed

lemma wf_drop_table:
  assumes "wf_schema s" and "run_ddl f (Drop_Table n) s = Some s'"
  shows "wf_schema s'"
proof -
  have free: "\<not> referenced n (filter (\<lambda>x. tb_name x \<noteq> n) (sc_tables s))"
    and s': "s' = s\<lparr>sc_tables := filter (\<lambda>x. tb_name x \<noteq> n) (sc_tables s),
        sc_indexes := filter (\<lambda>x. ix_table x \<noteq> n) (sc_indexes s)\<rparr>"
    using assms(2) by (auto split: if_splits)
  have found: "find_table r s' = find_table r s" if "r \<noteq> n" for r
    using find_filter_tables [of n r "sc_tables s"] that by (simp add: find_table_def s')
  have "wf_table s' y" if y: "y \<in> set (sc_tables s)" "tb_name y \<noteq> n" for y
  proof -
    have w: "wf_table s y" using assms(1) y by (simp add: wf_schema_def list_all_iff)
    have "constraint_fits s' y (snd k)" if k: "k \<in> set (tb_constraints y)" for k
    proof (rule constraint_fits_mono [of s y])
      show fits: "constraint_fits s y (snd k)" using w k by (simp add: wf_table_def list_all_iff)
      then show "set (constraint_columns (snd k)) \<subseteq> set (column_names y)" by (simp add: constraint_fits_def)
      fix a r d o' z assume z: "snd k = Foreign_Key a r d o'" "find_table r s = Some z" "is_key [d] z"
      then have "r \<noteq> n" using free y k referencedI [of y "filter (\<lambda>x. tb_name x \<noteq> n) (sc_tables s)" k a n d o'] by auto
      then show "\<exists>y. find_table r s' = Some y \<and> is_key [d] y" using found z by auto
    qed
    then show ?thesis using w by (simp add: wf_table_def list_all_iff s')
  qed
  moreover have "wf_index s' i" if "wf_index s i" "ix_table i \<noteq> n" for i
    using that found by (simp add: wf_index_def)
  ultimately show ?thesis using assms(1) by (auto simp: wf_schema_def list_all_iff s' distinct_map_filter)
qed

lemma wf_create_index:
  assumes "wf_schema s" and "run_ddl f (Create_Index n t cs u) s = Some s'"
  shows "wf_schema s'"
proof -
  let ?i = "\<lparr>ix_name = n, ix_table = t, ix_columns = cs, ix_unique = u\<rparr>"
  obtain x where x: "find_table t s = Some x" "n \<notin> set (map ix_name (sc_indexes s))" "set cs \<subseteq> set (column_names x)"
    and s': "s' = s\<lparr>sc_indexes := sc_indexes s @ [?i]\<rparr>"
    using assms(2) by (auto split: option.splits if_splits)
  have "wf_index s' = wf_index s" by (simp add: s' wf_index_def fun_eq_iff)
  moreover have "wf_index s ?i" using x by (simp add: wf_index_def)
  moreover have "wf_table s' = wf_table s" by (simp add: s' wf_table_def fun_eq_iff)
  ultimately show ?thesis using assms(1) x(2) by (simp add: wf_schema_def list_all_iff s')
qed

lemma wf_add_constraint:
  assumes "wf_schema s" and "run_ddl f (Add_Constraint t n k) s = Some s'"
  shows "wf_schema s'"
proof -
  let ?add = "\<lambda>x. x\<lparr>tb_constraints := tb_constraints x @ [(n, k)]\<rparr>"
  obtain x where x: "find_table t s = Some x" "n \<notin> set (map fst (tb_constraints x))" "constraint_fits s x k"
    and s': "s' = in_table t ?add s"
    using assms(2) by (auto split: option.splits if_splits)
  note w = wf_tableD [OF assms(1) x(1)]
  show ?thesis
    unfolding s'
  proof (rule wf_in_table [OF assms(1) x(1)])
    fix i assume "i \<in> set (sc_indexes s)" "ix_table i = t"
    then have "set (ix_columns i) \<subseteq> set (column_names x)" by (rule index_columns [OF assms(1) x(1)])
    then show "set (ix_columns i) \<subseteq> set (column_names (?add x))" by (auto simp: column_names_def)
  qed (use w(1) x in \<open>auto simp: wf_table_def column_names_def list_all_iff constraint_fits_def is_key_def\<close>)
qed

lemma wf_drop_constraint:
  assumes "wf_schema s" and "run_ddl f (Drop_Constraint t n) s = Some s'"
  shows "wf_schema s'"
proof -
  let ?drop = "\<lambda>x. x\<lparr>tb_constraints := filter (\<lambda>c. fst c \<noteq> n) (tb_constraints x)\<rparr>"
  obtain x k where x: "find_table t s = Some x" and k: "map_of (tb_constraints x) n = Some k"
    and free: "\<not> (case k of Foreign_Key _ _ _ _ \<Rightarrow> False | _ \<Rightarrow> referenced t (sc_tables s))"
    and s': "s' = in_table t ?drop s"
    using assms(2) by (auto split: option.splits if_splits)
  note w = wf_tableD [OF assms(1) x]
  have keep: "is_key ks (?drop x)" if "is_key ks x" "\<exists>c r d o'. k = Foreign_Key c r d o'" for ks
  proof -
    obtain q where q: "q \<in> set (tb_constraints x)" "snd q = Primary_Key ks \<or> snd q = Unique_Key ks"
      using \<open>is_key ks x\<close> unfolding is_key_def by force
    have "fst q \<noteq> n"
    proof
      assume "fst q = n"
      then have "map_of (tb_constraints x) n = Some (snd q)"
        using w(1) q(1) by (metis map_of_is_SomeI prod.collapse wf_table_def)
      then show False using k q(2) that(2) by auto
    qed
    then show ?thesis using q unfolding is_key_def by force
  qed
  show ?thesis
    unfolding s'
  proof (rule wf_in_table [OF assms(1) x])
    fix y q c d o' assume y: "y \<in> insert (?drop x) (set (sc_tables s))" "q \<in> set (tb_constraints y)"
      "snd q = Foreign_Key c t d o'" "is_key [d] x"
    have "\<exists>y \<in> set (sc_tables s). q \<in> set (tb_constraints y)" using y(1,2) w(2) by auto
    then have "referenced t (sc_tables s)" using referencedI y(3) by blast
    then have "\<exists>c r d o'. k = Foreign_Key c r d o'" using free by (cases k) auto
    then show "is_key [d] (?drop x)" by (rule keep [OF y(4)])
  next
    fix i assume "i \<in> set (sc_indexes s)" "ix_table i = t"
    then have "set (ix_columns i) \<subseteq> set (column_names x)" by (rule index_columns [OF assms(1) x])
    then show "set (ix_columns i) \<subseteq> set (column_names (?drop x))" by (simp add: column_names_def)
  qed (use w(1) in \<open>auto simp: wf_table_def column_names_def list_all_iff constraint_fits_def distinct_map_filter\<close>)
qed

lemma wf_add_column:
  assumes "wf_schema s" and "run_ddl f (Add_Column t c) s = Some s'"
  shows "wf_schema s'"
proof -
  let ?add = "\<lambda>x. x\<lparr>tb_columns := tb_columns x @ [c]\<rparr>"
  obtain x where x: "find_table t s = Some x" "co_name c \<notin> set (column_names x)" "type_known s c"
    and s': "s' = in_table t ?add s"
    using assms(2) by (auto split: option.splits if_splits)
  note w = wf_tableD [OF assms(1) x(1)]
  show ?thesis
    unfolding s'
  proof (rule wf_in_table [OF assms(1) x(1)])
    fix i assume "i \<in> set (sc_indexes s)" "ix_table i = t"
    then have "set (ix_columns i) \<subseteq> set (column_names x)" by (rule index_columns [OF assms(1) x(1)])
    then show "set (ix_columns i) \<subseteq> set (column_names (?add x))" by (auto simp: column_names_def)
  qed (use w(1) x in \<open>auto simp: wf_table_def column_names_def list_all_iff constraint_fits_def is_key_def\<close>)
qed

lemma wf_drop_column:
  assumes "wf_schema s" and "run_ddl f (Drop_Column t c) s = Some s'"
  shows "wf_schema s'"
proof -
  let ?drop = "\<lambda>x. x\<lparr>tb_columns := filter (\<lambda>y. co_name y \<noteq> c) (tb_columns x),
      tb_constraints := filter (\<lambda>k. c \<notin> set (constraint_columns (snd k))) (tb_constraints x)\<rparr>"
  let ?I = "filter (\<lambda>i. \<not> (ix_table i = t \<and> c \<in> set (ix_columns i))) (sc_indexes s)"
  let ?s = "s\<lparr>sc_indexes := ?I\<rparr>"
  obtain x where x: "find_table t s = Some x"
    and free: "\<not> list_ex (\<lambda>y. list_ex (\<lambda>k. case snd k of Foreign_Key _ r d _ \<Rightarrow> r = t \<and> d = c | _ \<Rightarrow> False)
        (tb_constraints y)) (sc_tables s)"
    and s': "s' = (in_table t ?drop s)\<lparr>sc_indexes := ?I\<rparr>"
    using assms(2) by (auto split: option.splits if_splits)
  have commute: "s' = in_table t ?drop ?s" by (simp add: s' in_table_def)
  have wf: "wf_schema ?s" by (rule wf_fewer_indexes) (rule assms(1))
  note w = wf_tableD [OF assms(1) x]
  have names: "column_names (?drop x) = filter (\<lambda>n. n \<noteq> c) (column_names x)"
    by (simp add: column_names_def filter_map comp_def)
  show ?thesis
    unfolding commute
  proof (rule wf_in_table [OF wf])
    show "find_table t ?s = Some x" using x by simp
  next
    fix y q a d o' assume y: "y \<in> insert (?drop x) (set (sc_tables ?s))" "q \<in> set (tb_constraints y)"
      "snd q = Foreign_Key a t d o'" "is_key [d] x"
    have "\<exists>y \<in> set (sc_tables s). q \<in> set (tb_constraints y)" using y(1,2) w(2) by auto
    then have "d \<noteq> c" using free y(3) by (fastforce simp: list_ex_iff)
    obtain p where "p \<in> set (tb_constraints x)" "snd p = Primary_Key [d] \<or> snd p = Unique_Key [d]"
      using y(4) unfolding is_key_def by force
    then show "is_key [d] (?drop x)" using \<open>d \<noteq> c\<close> unfolding is_key_def by force
  next
    fix i assume i: "i \<in> set (sc_indexes ?s)" "ix_table i = t"
    then have "set (ix_columns i) \<subseteq> set (column_names x)" using index_columns [OF assms(1) x] by simp
    then show "set (ix_columns i) \<subseteq> set (column_names (?drop x))" using i unfolding names by auto
  next
    fix k assume k: "k \<in> set (tb_constraints (?drop x))"
    then have "set (constraint_columns (snd k)) \<subseteq> set (column_names x)"
      using w(1) by (auto simp: wf_table_def list_all_iff constraint_fits_def)
    then show "set (constraint_columns (snd k)) \<subseteq> set (column_names (?drop x))" using k unfolding names by auto
  next
    show "distinct (column_names (?drop x))" using w(1) unfolding names by (simp add: wf_table_def)
  qed (use w(1) in \<open>auto simp: wf_table_def list_all_iff distinct_map_filter\<close>)
qed

lemma wf_set_default:
  assumes "wf_schema s" and x: "find_table t s = Some x"
  shows "wf_schema (in_table t (set_column_default c d) s)"
proof (rule wf_in_table [OF assms])
  note w = wf_tableD [OF assms]
  have names: "column_names (set_column_default c d x) = column_names x"
    by (simp add: column_names_def set_column_default_def comp_def)
  show "distinct (column_names (set_column_default c d x))" using w(1) by (simp add: names wf_table_def)
  show "set (constraint_columns (snd k)) \<subseteq> set (column_names (set_column_default c d x))"
    if "k \<in> set (tb_constraints (set_column_default c d x))" for k
    using that w(1) unfolding names by (auto simp: set_column_default_def wf_table_def list_all_iff constraint_fits_def)
  show "list_all (type_known s) (tb_columns (set_column_default c d x))"
    using w(1) by (auto simp: wf_table_def list_all_iff set_column_default_def type_known_def)
  fix i assume "i \<in> set (sc_indexes s)" "ix_table i = t"
  then show "set (ix_columns i) \<subseteq> set (column_names (set_column_default c d x))"
    unfolding names by (rule index_columns [OF assms])
qed (use wf_tableD(1) [OF assms] in \<open>auto simp: set_column_default_def is_key_def wf_table_def\<close>)

text \<open>Every statement that PostgreSQL accepts keeps the schema well formed: names are unique, the columns have known
  types, every index and constraint has its columns, and every foreign key points to a key.\<close>

lemma ddl_keeps_well_formed:
  assumes "wf_schema s" and "run_ddl filled d s = Some s'"
  shows "wf_schema s'"
proof (cases d)
  case (Create_Type n vs)
  then show ?thesis using assms wf_create_type by (auto split: if_splits)
next
  case (Drop_Type n)
  then show ?thesis using assms wf_drop_type by (auto split: if_splits)
next
  case (Drop_Index n)
  then show ?thesis using assms wf_fewer_indexes by (auto split: if_splits)
next
  case (Set_Default t c v)
  then show ?thesis using assms wf_set_default by (auto split: option.splits if_splits)
next
  case (Drop_Default t c)
  then show ?thesis using assms wf_set_default by (auto split: option.splits if_splits)
next
  case (Create_Table n cs ks)
  show ?thesis by (rule wf_create_table [OF assms(1) assms(2) [unfolded Create_Table]])
next
  case (Drop_Table n)
  show ?thesis by (rule wf_drop_table [OF assms(1) assms(2) [unfolded Drop_Table]])
next
  case (Create_Index n t cs u)
  show ?thesis by (rule wf_create_index [OF assms(1) assms(2) [unfolded Create_Index]])
next
  case (Add_Constraint t n k)
  show ?thesis by (rule wf_add_constraint [OF assms(1) assms(2) [unfolded Add_Constraint]])
next
  case (Drop_Constraint t n)
  show ?thesis by (rule wf_drop_constraint [OF assms(1) assms(2) [unfolded Drop_Constraint]])
next
  case (Add_Column t c)
  show ?thesis by (rule wf_add_column [OF assms(1) assms(2) [unfolded Add_Column]])
next
  case (Drop_Column t c)
  show ?thesis by (rule wf_drop_column [OF assms(1) assms(2) [unfolded Drop_Column]])
qed

section \<open>Sequences of statements\<close>

lemma ddls_keep_well_formed: "wf_schema s \<Longrightarrow> run_ddls filled ds s = Some s' \<Longrightarrow> wf_schema s'"
  by (induction ds arbitrary: s) (auto split: option.splits dest: ddl_keeps_well_formed)

text \<open>The removals in the opposite order, when every statement has one.\<close>

definition undo_all :: "ddl list \<Rightarrow> ddl list option" where
  "undo_all ds = those (map undo (rev ds))"

lemma those_append:
  "those (xs @ ys) = (case those xs of None \<Rightarrow> None | Some us \<Rightarrow> map_option (\<lambda>vs. us @ vs) (those ys))"
  by (induction xs; cases "those ys") (auto split: option.split)

lemma run_ddls_undo:
  assumes "wf_schema s" and "run_ddls f ds s = Some s'" and "undo_all ds = Some us"
  shows "run_ddls g us s' = Some s"
  using assms
proof (induction ds arbitrary: s us)
  case Nil
  then show ?case by (simp add: undo_all_def)
next
  case (Cons d ds)
  obtain s1 where s1: "run_ddl f d s = Some s1" "run_ddls f ds s1 = Some s'"
    using Cons.prems(2) by (auto split: option.splits)
  obtain vs u where u: "undo_all ds = Some vs" "undo d = Some u" "us = vs @ [u]"
    using Cons.prems(3) by (auto simp: undo_all_def those_append split: option.splits)
  have "run_ddls g vs s' = Some s1"
    by (rule Cons.IH [OF ddl_keeps_well_formed [OF Cons.prems(1) s1(1)] s1(2) u(1)])
  moreover have "run_ddl g u s1 = Some s" by (rule undo_ok [OF Cons.prems(1) s1(1) u(2)])
  ultimately show ?case by (simp add: u(3) run_ddls_append)
qed

section \<open>Defaults\<close>

definition default_of :: "string \<Rightarrow> string \<Rightarrow> schema \<Rightarrow> sql_default option" where
  "default_of t c s =
     (case find_table t s of
        None \<Rightarrow> None
      | Some x \<Rightarrow> (case find_one (\<lambda>y. co_name y = c) (tb_columns x) of None \<Rightarrow> None | Some y \<Rightarrow> co_default y))"

definition restore_default :: "string \<Rightarrow> string \<Rightarrow> sql_default option \<Rightarrow> ddl" where
  "restore_default t c d = (case d of None \<Rightarrow> Drop_Default t c | Some v \<Rightarrow> Set_Default t c v)"

lemma name_set_default [simp]: "tb_name (set_column_default c d x) = tb_name x"
  by (simp add: set_column_default_def)

lemma columns_set_default [simp]: "column_names (set_column_default c d x) = column_names x"
  by (simp add: column_names_def set_column_default_def comp_def)

lemma find_set_default: "find_table r (in_table t (set_column_default c d) s)
    = map_option (\<lambda>x. if tb_name x = t then set_column_default c d x else x) (find_table r s)"
  by (rule find_in_table) simp

lemma default_other_table: "r \<noteq> t \<Longrightarrow> default_of r k (in_table t (set_column_default c d) s) = default_of r k s"
  using find_table_in [of r s] by (auto simp: default_of_def find_set_default split: option.split)

lemma run_restore_default: "run_ddl g (restore_default t c d) s =
    (case find_table t s of
       None \<Rightarrow> None
     | Some x \<Rightarrow> if c \<in> set (column_names x) then Some (in_table t (set_column_default c d) s) else None)"
  by (cases d) (simp_all add: restore_default_def split: option.split)

lemma undo_default:
  assumes "wf_schema s" and "run_ddl f (Set_Default t c v) s = Some s'" and "default_of t c s = d"
  shows "run_ddl g (restore_default t c d) s' = Some s" and "r \<noteq> t \<Longrightarrow> default_of r k s' = default_of r k s"
proof -
  obtain x where x: "find_table t s = Some x" "c \<in> set (column_names x)"
    and s': "s' = in_table t (set_column_default c (Some v)) s"
    using assms(2) by (auto split: option.splits if_splits)
  note w = wf_tableD [OF assms(1) x(1)]
  have "y\<lparr>co_default := d\<rparr> = y" if y: "y \<in> set (tb_columns x)" "co_name y = c" for y
  proof -
    have "find_one (\<lambda>z. co_name z = c) (tb_columns x) = Some y"
      using find_one_key [of co_name "tb_columns x" y "\<lambda>_. True"] w(1) y by (simp add: wf_table_def column_names_def)
    then show ?thesis using assms(3) x(1) by (simp add: default_of_def)
  qed
  then have "map (\<lambda>y. if co_name y = c then y\<lparr>co_default := d\<rparr> else y)
      (map (\<lambda>y. if co_name y = c then y\<lparr>co_default := Some v\<rparr> else y) (tb_columns x)) = tb_columns x"
    by (auto simp: map_idI comp_def)
  then have "set_column_default c d (set_column_default c (Some v) x) = x" by (simp add: set_column_default_def)
  then have "in_table t (set_column_default c d) s' = s"
    unfolding s' by (intro in_table_undo) (use assms(1) x in \<open>auto simp: wf_schema_def\<close>)
  then show "run_ddl g (restore_default t c d) s' = Some s"
    unfolding run_restore_default using x w(3) by (simp add: s' find_set_default)
  show "r \<noteq> t \<Longrightarrow> default_of r k s' = default_of r k s" unfolding s' by (rule default_other_table)
qed

end
