(* ===== verification/Migrations.thy ===== *)
theory Migrations
  imports Schema
begin

text \<open>
  The statements of \<open>src/src/database/migrations\<close>, file by file in the order of their time stamps, and what TypeORM does
  with them: it runs the ones of the files that have not run yet, and reverts the last one that has.
\<close>

definition Init_up :: "ddl list" where
  "Init_up =
     [Create_Table ''modules''
        [not_null_by ''id'' SQL_Uuid (Expression ''uuid_generate_v4()''),
         not_null_by ''createdAt'' SQL_Timestamptz (Expression ''now()''),
         not_null_by ''updatedAt'' SQL_Timestamptz (Expression ''now()''), nullable ''deletedAt'' SQL_Timestamptz,
         not_null ''name'' SQL_Varchar, not_null ''code'' SQL_Varchar, nullable ''parentId'' SQL_Uuid]
        [(''UQ_25b42b11ac8b697cdb2eddcef1a'', Unique_Key [''code'']),
         (''PK_7dbefd488bd96c5bf31f0ce0c95'', Primary_Key [''id''])],
      Create_Index ''IDX_4fc2237062f5e034c8f0537af4'' ''modules'' [''deletedAt''] False,
      Create_Table ''permissions''
        [not_null_by ''id'' SQL_Uuid (Expression ''uuid_generate_v4()''),
         not_null_by ''createdAt'' SQL_Timestamptz (Expression ''now()''),
         not_null_by ''updatedAt'' SQL_Timestamptz (Expression ''now()''), nullable ''deletedAt'' SQL_Timestamptz,
         not_null ''moduleId'' SQL_Uuid, not_null ''action'' SQL_Varchar]
        [(''PK_920331560282b8bd21bb02290df'', Primary_Key [''id''])],
      Create_Index ''IDX_7a0dec7dfde2c5c743fdadf9ba'' ''permissions'' [''deletedAt''] False,
      Create_Index ''IDX_d08be7a97addd61b394eba245c'' ''permissions'' [''moduleId'', ''action''] True,
      Create_Table ''role_permissions''
        [not_null ''roleId'' SQL_Uuid, not_null ''permissionId'' SQL_Uuid]
        [(''PK_d430a02aad006d8a70f3acd7d03'', Primary_Key [''roleId'', ''permissionId''])],
      Create_Index ''IDX_d430a02aad006d8a70f3acd7d0'' ''role_permissions'' [''roleId'', ''permissionId''] True,
      Create_Table ''roles''
        [not_null_by ''id'' SQL_Uuid (Expression ''uuid_generate_v4()''),
         not_null_by ''createdAt'' SQL_Timestamptz (Expression ''now()''),
         not_null_by ''updatedAt'' SQL_Timestamptz (Expression ''now()''), nullable ''deletedAt'' SQL_Timestamptz,
         not_null ''name'' SQL_Varchar, nullable ''description'' SQL_Varchar,
         not_null_by ''rank'' SQL_Integer (Quoted ''99'')]
        [(''PK_c1433d71a4838793a49dcad46ab'', Primary_Key [''id''])],
      Create_Index ''IDX_e72912af85f8ca6ac65522f71e'' ''roles'' [''deletedAt''] False,
      Create_Table ''admins''
        [not_null_by ''id'' SQL_Uuid (Expression ''uuid_generate_v4()''),
         not_null_by ''createdAt'' SQL_Timestamptz (Expression ''now()''),
         not_null_by ''updatedAt'' SQL_Timestamptz (Expression ''now()''), nullable ''deletedAt'' SQL_Timestamptz,
         not_null ''fullName'' SQL_Varchar, nullable ''password'' SQL_Varchar, not_null ''email'' SQL_Varchar,
         nullable ''profileImageUrl'' SQL_Varchar, not_null ''roleId'' SQL_Uuid,
         not_null_by ''isBanned'' SQL_Boolean (Expression ''false''),
         not_null_by ''isTwoFactorEnabled'' SQL_Boolean (Expression ''false''),
         nullable ''lastLoginAt'' SQL_Timestamptz, nullable ''lastLogoutAt'' SQL_Timestamptz]
        [(''UQ_051db7d37d478a69a7432df1479'', Unique_Key [''email'']),
         (''PK_e3b38270c97a854c48d2e80874e'', Primary_Key [''id''])],
      Create_Index ''IDX_6c06ce78e9eb2b8fed71a5c752'' ''admins'' [''deletedAt''] False,
      Create_Index ''IDX_20f7eaea0ee98f1484256e59fd'' ''admins'' [''fullName''] False,
      Create_Index ''IDX_aa69cff29dbc09a27c6b75addf'' ''admins'' [''isBanned''] False,
      Create_Table ''refresh_tokens''
        [not_null_by ''id'' SQL_Uuid (Expression ''uuid_generate_v4()''),
         not_null_by ''createdAt'' SQL_Timestamptz (Expression ''now()''),
         not_null_by ''updatedAt'' SQL_Timestamptz (Expression ''now()''), not_null ''token'' SQL_Varchar,
         nullable ''userId'' SQL_Uuid, nullable ''adminId'' SQL_Uuid, nullable ''expiresAt'' SQL_Timestamptz,
         not_null_by ''isRevoked'' SQL_Boolean (Expression ''false'')]
        [(''PK_7d8bee0204106019488c4c50ffa'', Primary_Key [''id''])],
      Create_Type ''otp_records_status_enum'' [''PENDING'', ''VERIFIED'', ''EXPIRED'', ''USED''],
      Create_Type ''otp_records_purpose_enum'' [''TWO_FACTOR'', ''RESET_PASSWORD''],
      Create_Table ''otp_records''
        [not_null_by ''id'' SQL_Uuid (Expression ''uuid_generate_v4()''),
         not_null_by ''createdAt'' SQL_Timestamptz (Expression ''now()''),
         not_null_by ''updatedAt'' SQL_Timestamptz (Expression ''now()''), nullable ''userId'' SQL_Uuid,
         nullable ''adminId'' SQL_Uuid,
         not_null_by ''status'' (SQL_Enum ''otp_records_status_enum'') (Quoted ''PENDING''),
         not_null ''purpose'' (SQL_Enum ''otp_records_purpose_enum''), not_null ''code'' SQL_Varchar,
         not_null ''expiresAt'' SQL_Timestamptz, nullable ''requestId'' SQL_Varchar,
         not_null_by ''attempts'' SQL_Integer (Quoted ''0''), not_null_by ''maxAttempts'' SQL_Integer (Quoted ''3'')]
        [(''PK_3def88b3f662809c2c75f04e016'', Primary_Key [''id''])],
      Create_Type ''users_registrationstage_enum'' [''OTP_VERIFIED'', ''PASSWORD_SET'', ''COMPLETED''],
      Create_Table ''users''
        [not_null_by ''id'' SQL_Uuid (Expression ''uuid_generate_v4()''),
         not_null_by ''createdAt'' SQL_Timestamptz (Expression ''now()''),
         not_null_by ''updatedAt'' SQL_Timestamptz (Expression ''now()''), nullable ''deletedAt'' SQL_Timestamptz,
         nullable ''email'' SQL_Varchar, nullable ''fullName'' SQL_Varchar, not_null ''phone'' SQL_Varchar,
         nullable ''password'' SQL_Varchar, not_null_by ''isBanned'' SQL_Boolean (Expression ''false''),
         nullable ''profileImageUrl'' SQL_Varchar, nullable ''dateOfBirth'' SQL_Varchar,
         nullable ''gender'' SQL_Varchar, nullable ''preferLanguage'' SQL_Varchar,
         nullable_by ''registrationStage'' (SQL_Enum ''users_registrationstage_enum'') (Quoted ''OTP_VERIFIED''),
         nullable ''fcmToken'' SQL_Varchar, nullable ''lastLoginAt'' SQL_Timestamptz,
         nullable ''lastLogoutAt'' SQL_Timestamptz, nullable ''googleId'' SQL_Varchar,
         nullable ''appleId'' SQL_Varchar, nullable ''loginProvider'' SQL_Varchar]
        [(''PK_a3ffb1c0c8416b9fc6f907b7433'', Primary_Key [''id''])],
      Create_Index ''IDX_2a32f641edba1d0f973c19cc94'' ''users'' [''deletedAt''] False,
      Create_Index ''IDX_97672ac88f789774dd47f7c8be'' ''users'' [''email''] False,
      Create_Index ''IDX_4b2bf18167e94dce386d714c67'' ''users'' [''fullName''] False,
      Create_Index ''IDX_836026b660a661f0dbdc467bf1'' ''users'' [''isBanned''] False,
      Create_Table ''settings''
        [not_null_by ''id'' SQL_Uuid (Expression ''uuid_generate_v4()''),
         not_null_by ''createdAt'' SQL_Timestamptz (Expression ''now()''),
         not_null_by ''updatedAt'' SQL_Timestamptz (Expression ''now()''), nullable ''deletedAt'' SQL_Timestamptz,
         not_null ''key'' SQL_Varchar, nullable_by ''value'' SQL_Varchar (Quoted '''')]
        [(''UQ_c8639b7626fa94ba8265628f214'', Unique_Key [''key'']),
         (''PK_0669fe20e252eb692bf4d344975'', Primary_Key [''id''])],
      Create_Index ''IDX_b8ad02e0a2d004844b17af5e3f'' ''settings'' [''deletedAt''] False,
      Create_Type ''audit_logs_action_enum'' [''LOGIN'', ''LOGOUT'', ''REGISTER'', ''UPDATE_PROFILE'', ''CHANGE_PASSWORD'', ''FORGOT_PASSWORD_OTP'', ''RESET_PASSWORD'', ''ENABLE_TWO_FACTOR'', ''DISABLE_TWO_FACTOR'', ''VERIFY_TWO_FACTOR'', ''DELETE_ACCOUNT'', ''CREATE'', ''UPDATE'', ''DELETE''],
      Create_Type ''audit_logs_status_enum'' [''SUCCESS'', ''FAILURE''],
      Create_Table ''audit_logs''
        [not_null ''id'' SQL_Serial, nullable ''adminId'' SQL_Uuid,
         not_null ''action'' (SQL_Enum ''audit_logs_action_enum''), not_null ''description'' SQL_Text,
         nullable ''entityName'' SQL_Varchar, nullable ''entityId'' SQL_Varchar, nullable ''oldValue'' SQL_Json,
         nullable ''newValue'' SQL_Json, nullable ''ipAddress'' SQL_Varchar, nullable ''userAgent'' SQL_Varchar,
         nullable ''device'' SQL_Varchar, nullable ''browser'' SQL_Varchar, nullable ''os'' SQL_Varchar,
         nullable ''location'' SQL_Varchar,
         not_null_by ''status'' (SQL_Enum ''audit_logs_status_enum'') (Quoted ''SUCCESS''),
         nullable ''metadata'' SQL_Json, not_null_by ''createdAt'' SQL_Timestamptz (Expression ''now()'')]
        [(''PK_1bb179d048bbc581caa3b013439'', Primary_Key [''id''])],
      Create_Index ''IDX_2a495f3f3adbd1ceba0346ba16'' ''audit_logs'' [''adminId'', ''action'', ''createdAt''] False,
      Create_Type ''activity_logs_action_enum'' [''LOGIN'', ''LOGOUT'', ''REGISTER'', ''UPDATE_PROFILE'', ''CHANGE_PASSWORD'', ''FORGOT_PASSWORD_OTP'', ''RESET_PASSWORD'', ''ENABLE_TWO_FACTOR'', ''DISABLE_TWO_FACTOR'', ''VERIFY_TWO_FACTOR'', ''DELETE_ACCOUNT'', ''CREATE'', ''UPDATE'', ''DELETE''],
      Create_Type ''activity_logs_status_enum'' [''SUCCESS'', ''FAILURE''],
      Create_Table ''activity_logs''
        [not_null ''id'' SQL_Serial, not_null ''userId'' SQL_Uuid,
         not_null ''action'' (SQL_Enum ''activity_logs_action_enum''), not_null ''description'' SQL_Text,
         nullable ''resourceType'' SQL_Varchar, nullable ''resourceId'' SQL_Varchar,
         nullable ''ipAddress'' SQL_Varchar, nullable ''userAgent'' SQL_Varchar, nullable ''device'' SQL_Varchar,
         nullable ''browser'' SQL_Varchar, nullable ''os'' SQL_Varchar, nullable ''location'' SQL_Varchar,
         not_null_by ''status'' (SQL_Enum ''activity_logs_status_enum'') (Quoted ''SUCCESS''),
         nullable ''metadata'' SQL_Json, not_null_by ''createdAt'' SQL_Timestamptz (Expression ''now()'')]
        [(''PK_f25287b6140c5ba18d38776a796'', Primary_Key [''id''])],
      Create_Index ''IDX_b5fa115e88e67d287ba7a40223'' ''activity_logs'' [''userId'', ''action'', ''createdAt''] False,
      Add_Constraint ''modules'' ''FK_a6637494664d871968306442f3b'' (Foreign_Key ''parentId'' ''modules'' ''id'' Set_Null),
      Add_Constraint ''permissions'' ''FK_e61928198c29bb2202922b08755'' (Foreign_Key ''moduleId'' ''modules'' ''id'' Cascade),
      Add_Constraint ''role_permissions'' ''FK_b4599f8b8f548d35850afa2d12c'' (Foreign_Key ''roleId'' ''roles'' ''id'' Cascade),
      Add_Constraint ''role_permissions'' ''FK_06792d0c62ce6b0203c03643cdd'' (Foreign_Key ''permissionId'' ''permissions'' ''id'' Cascade),
      Add_Constraint ''admins'' ''FK_d27f7a7f01967e4a5e8ba73ebb0'' (Foreign_Key ''roleId'' ''roles'' ''id'' Restrict),
      Add_Constraint ''refresh_tokens'' ''FK_610102b60fea1455310ccd299de'' (Foreign_Key ''userId'' ''users'' ''id'' Cascade),
      Add_Constraint ''refresh_tokens'' ''FK_766ab81fa68d15204df19f83370'' (Foreign_Key ''adminId'' ''admins'' ''id'' Cascade),
      Add_Constraint ''otp_records'' ''FK_dc4b5901f412028b31b3ff7bb9d'' (Foreign_Key ''userId'' ''users'' ''id'' No_Action),
      Add_Constraint ''otp_records'' ''FK_e3da906c893cc0eb23559274b9c'' (Foreign_Key ''adminId'' ''admins'' ''id'' Cascade),
      Add_Constraint ''audit_logs'' ''FK_9d53d8c4d4227c02e4476129d25'' (Foreign_Key ''adminId'' ''admins'' ''id'' Set_Null),
      Add_Constraint ''activity_logs'' ''FK_597e6df96098895bf19d4b5ea45'' (Foreign_Key ''userId'' ''users'' ''id'' Cascade)]"

definition Init_down :: "ddl list" where
  "Init_down =
     [Drop_Constraint ''activity_logs'' ''FK_597e6df96098895bf19d4b5ea45'',
      Drop_Constraint ''audit_logs'' ''FK_9d53d8c4d4227c02e4476129d25'',
      Drop_Constraint ''otp_records'' ''FK_e3da906c893cc0eb23559274b9c'',
      Drop_Constraint ''otp_records'' ''FK_dc4b5901f412028b31b3ff7bb9d'',
      Drop_Constraint ''refresh_tokens'' ''FK_766ab81fa68d15204df19f83370'',
      Drop_Constraint ''refresh_tokens'' ''FK_610102b60fea1455310ccd299de'',
      Drop_Constraint ''admins'' ''FK_d27f7a7f01967e4a5e8ba73ebb0'',
      Drop_Constraint ''role_permissions'' ''FK_06792d0c62ce6b0203c03643cdd'',
      Drop_Constraint ''role_permissions'' ''FK_b4599f8b8f548d35850afa2d12c'',
      Drop_Constraint ''permissions'' ''FK_e61928198c29bb2202922b08755'',
      Drop_Constraint ''modules'' ''FK_a6637494664d871968306442f3b'',
      Drop_Index ''IDX_b5fa115e88e67d287ba7a40223'',
      Drop_Table ''activity_logs'',
      Drop_Type ''activity_logs_status_enum'',
      Drop_Type ''activity_logs_action_enum'',
      Drop_Index ''IDX_2a495f3f3adbd1ceba0346ba16'',
      Drop_Table ''audit_logs'',
      Drop_Type ''audit_logs_status_enum'',
      Drop_Type ''audit_logs_action_enum'',
      Drop_Index ''IDX_b8ad02e0a2d004844b17af5e3f'',
      Drop_Table ''settings'',
      Drop_Index ''IDX_836026b660a661f0dbdc467bf1'',
      Drop_Index ''IDX_4b2bf18167e94dce386d714c67'',
      Drop_Index ''IDX_97672ac88f789774dd47f7c8be'',
      Drop_Index ''IDX_2a32f641edba1d0f973c19cc94'',
      Drop_Table ''users'',
      Drop_Type ''users_registrationstage_enum'',
      Drop_Table ''otp_records'',
      Drop_Type ''otp_records_purpose_enum'',
      Drop_Type ''otp_records_status_enum'',
      Drop_Table ''refresh_tokens'',
      Drop_Index ''IDX_aa69cff29dbc09a27c6b75addf'',
      Drop_Index ''IDX_20f7eaea0ee98f1484256e59fd'',
      Drop_Index ''IDX_6c06ce78e9eb2b8fed71a5c752'',
      Drop_Table ''admins'',
      Drop_Index ''IDX_e72912af85f8ca6ac65522f71e'',
      Drop_Table ''roles'',
      Drop_Index ''IDX_d430a02aad006d8a70f3acd7d0'',
      Drop_Table ''role_permissions'',
      Drop_Index ''IDX_d08be7a97addd61b394eba245c'',
      Drop_Index ''IDX_7a0dec7dfde2c5c743fdadf9ba'',
      Drop_Table ''permissions'',
      Drop_Index ''IDX_4fc2237062f5e034c8f0537af4'',
      Drop_Table ''modules'']"

definition AddRoleIdInUserTable_up :: "ddl list" where
  "AddRoleIdInUserTable_up =
     [Add_Column ''users'' (not_null ''roleId'' SQL_Uuid),
      Add_Constraint ''users'' ''FK_368e146b785b574f42ae9e53d5e'' (Foreign_Key ''roleId'' ''roles'' ''id'' Restrict)]"

definition AddRoleIdInUserTable_down :: "ddl list" where
  "AddRoleIdInUserTable_down =
     [Drop_Constraint ''users'' ''FK_368e146b785b574f42ae9e53d5e'',
      Drop_Column ''users'' ''roleId'']"

definition AddHotelENtity_up :: "ddl list" where
  "AddHotelENtity_up =
     [Create_Table ''hotels''
        [not_null_by ''id'' SQL_Uuid (Expression ''uuid_generate_v4()''),
         not_null_by ''createdAt'' SQL_Timestamptz (Expression ''now()''),
         not_null_by ''updatedAt'' SQL_Timestamptz (Expression ''now()''), not_null ''name'' SQL_Varchar,
         nullable ''description'' SQL_Text, not_null ''latitude'' (SQL_Numeric 10 8),
         not_null ''longitude'' (SQL_Numeric 11 8), not_null ''address'' SQL_Varchar, not_null ''city'' SQL_Varchar,
         not_null ''country'' SQL_Varchar, not_null ''postalCode'' SQL_Varchar, not_null ''checkInTime'' SQL_Time,
         not_null ''checkOutTime'' SQL_Time, not_null_by ''isActive'' SQL_Boolean (Expression ''true''),
         not_null ''createdBy'' SQL_Uuid]
        [(''PK_2bb06797684115a1ba7c705fc7b'', Primary_Key [''id''])],
      Add_Constraint ''hotels'' ''FK_7309815ff1a3230370d612bbff3'' (Foreign_Key ''createdBy'' ''admins'' ''id'' Restrict)]"

definition AddHotelENtity_down :: "ddl list" where
  "AddHotelENtity_down =
     [Drop_Constraint ''hotels'' ''FK_7309815ff1a3230370d612bbff3'',
      Drop_Table ''hotels'']"

definition AddRoomModuleTables_up :: "ddl list" where
  "AddRoomModuleTables_up =
     [Create_Table ''room_characteristics''
        [not_null_by ''id'' SQL_Uuid (Expression ''uuid_generate_v4()''),
         not_null_by ''createdAt'' SQL_Timestamptz (Expression ''now()''),
         not_null_by ''updatedAt'' SQL_Timestamptz (Expression ''now()''), not_null ''name'' SQL_Varchar,
         nullable ''description'' SQL_Text]
        [(''PK_0d569bfa8bd8006dd7e030521f3'', Primary_Key [''id''])],
      Create_Table ''room_type_characteristics''
        [not_null_by ''id'' SQL_Uuid (Expression ''uuid_generate_v4()''), not_null ''roomTypeId'' SQL_Uuid,
         not_null ''roomCharacteristicId'' SQL_Uuid, not_null_by ''createdAt'' SQL_Timestamptz (Expression ''now()'')]
        [(''PK_b45bf43f665e4ad2ee7750ef18f'', Primary_Key [''id''])],
      Create_Index ''IDX_7b87ece01b71d42bc5d8146277'' ''room_type_characteristics'' [''roomTypeId'', ''roomCharacteristicId''] True,
      Create_Table ''room_types''
        [not_null_by ''id'' SQL_Uuid (Expression ''uuid_generate_v4()''),
         not_null_by ''createdAt'' SQL_Timestamptz (Expression ''now()''),
         not_null_by ''updatedAt'' SQL_Timestamptz (Expression ''now()''), not_null ''hotelId'' SQL_Uuid,
         not_null ''name'' SQL_Varchar, nullable ''description'' SQL_Text, not_null ''maxOccupancy'' SQL_Integer,
         not_null ''bedType'' SQL_Varchar, not_null ''areaInSquareFeet'' (SQL_Numeric 10 2)]
        [(''PK_b6e1d0a9b67d4b9fbff9c35ab69'', Primary_Key [''id''])],
      Create_Type ''rooms_status_enum'' [''AVAILABLE'', ''OCCUPIED'', ''MAINTENANCE'', ''OUT_OF_SERVICE''],
      Create_Table ''rooms''
        [not_null_by ''id'' SQL_Uuid (Expression ''uuid_generate_v4()''),
         not_null_by ''createdAt'' SQL_Timestamptz (Expression ''now()''),
         not_null_by ''updatedAt'' SQL_Timestamptz (Expression ''now()''), not_null ''hotelId'' SQL_Uuid,
         not_null ''roomTypeId'' SQL_Uuid, not_null ''roomNumber'' SQL_Varchar, not_null ''floorNumber'' SQL_Integer,
         not_null ''status'' (SQL_Enum ''rooms_status_enum'')]
        [(''PK_0368a2d7c215f2d0458a54933f2'', Primary_Key [''id''])],
      Create_Index ''IDX_7f26f50e307673fc973a85399e'' ''rooms'' [''hotelId'', ''roomNumber''] True,
      Add_Constraint ''room_type_characteristics'' ''FK_f47789b013cd7d804d957bb3b86'' (Foreign_Key ''roomTypeId'' ''room_types'' ''id'' Cascade),
      Add_Constraint ''room_type_characteristics'' ''FK_1a7a81520935dae93e850820188'' (Foreign_Key ''roomCharacteristicId'' ''room_characteristics'' ''id'' Cascade),
      Add_Constraint ''room_types'' ''FK_7ed42fc166559badb3c937c400c'' (Foreign_Key ''hotelId'' ''hotels'' ''id'' Restrict),
      Add_Constraint ''rooms'' ''FK_e9d4d68c8c47b7fe47b8e233f60'' (Foreign_Key ''hotelId'' ''hotels'' ''id'' Restrict),
      Add_Constraint ''rooms'' ''FK_76b20e23154532d6fc4a0f0ea27'' (Foreign_Key ''roomTypeId'' ''room_types'' ''id'' Restrict)]"

definition AddRoomModuleTables_down :: "ddl list" where
  "AddRoomModuleTables_down =
     [Drop_Constraint ''rooms'' ''FK_76b20e23154532d6fc4a0f0ea27'',
      Drop_Constraint ''rooms'' ''FK_e9d4d68c8c47b7fe47b8e233f60'',
      Drop_Constraint ''room_types'' ''FK_7ed42fc166559badb3c937c400c'',
      Drop_Constraint ''room_type_characteristics'' ''FK_1a7a81520935dae93e850820188'',
      Drop_Constraint ''room_type_characteristics'' ''FK_f47789b013cd7d804d957bb3b86'',
      Drop_Index ''IDX_7f26f50e307673fc973a85399e'',
      Drop_Table ''rooms'',
      Drop_Type ''rooms_status_enum'',
      Drop_Table ''room_types'',
      Drop_Index ''IDX_7b87ece01b71d42bc5d8146277'',
      Drop_Table ''room_type_characteristics'',
      Drop_Table ''room_characteristics'']"

definition AddRateOptionModuleTables_up :: "ddl list" where
  "AddRateOptionModuleTables_up =
     [Create_Table ''benefits''
        [not_null_by ''id'' SQL_Uuid (Expression ''uuid_generate_v4()''),
         not_null_by ''createdAt'' SQL_Timestamptz (Expression ''now()''),
         not_null_by ''updatedAt'' SQL_Timestamptz (Expression ''now()''), not_null ''name'' SQL_Varchar,
         nullable ''description'' SQL_Text]
        [(''PK_f83fd5765028f20487943258b46'', Primary_Key [''id''])],
      Create_Table ''rate_option_benefits''
        [not_null_by ''id'' SQL_Uuid (Expression ''uuid_generate_v4()''), not_null ''rateOptionId'' SQL_Uuid,
         not_null ''benefitId'' SQL_Uuid, not_null_by ''createdAt'' SQL_Timestamptz (Expression ''now()'')]
        [(''PK_ff9540d9d636577b058b4cb1e04'', Primary_Key [''id''])],
      Create_Index ''IDX_2a0ce378f98d641f92cec16fee'' ''rate_option_benefits'' [''rateOptionId'', ''benefitId''] True,
      Create_Type ''rate_options_currency_enum'' [''USD'', ''EUR'', ''GBP'', ''SGD'', ''THB''],
      Create_Type ''rate_options_cancellationpolicy_enum'' [''FREE_CANCELLATION'', ''FREE_CANCELLATION_UNTIL_DEADLINE'', ''NON_REFUNDABLE'', ''PARTIAL_REFUND_WITHIN_WINDOW'', ''FEE_BASED_CANCELLATION''],
      Create_Table ''rate_options''
        [not_null_by ''id'' SQL_Uuid (Expression ''uuid_generate_v4()''),
         not_null_by ''createdAt'' SQL_Timestamptz (Expression ''now()''),
         not_null_by ''updatedAt'' SQL_Timestamptz (Expression ''now()''), not_null ''roomTypeId'' SQL_Uuid,
         not_null ''name'' SQL_Varchar, nullable ''description'' SQL_Text,
         not_null ''pricePerNight'' (SQL_Numeric 12 2),
         not_null ''currency'' (SQL_Enum ''rate_options_currency_enum''),
         not_null_by ''isRefundable'' SQL_Boolean (Expression ''false''),
         not_null ''cancellationPolicy'' (SQL_Enum ''rate_options_cancellationpolicy_enum''),
         nullable ''deadlineHours'' SQL_Integer]
        [(''PK_c3c0190585f8e19928e76dd6121'', Primary_Key [''id''])],
      Add_Constraint ''rate_option_benefits'' ''FK_adef30a04dc252230c20568d64b'' (Foreign_Key ''rateOptionId'' ''rate_options'' ''id'' Cascade),
      Add_Constraint ''rate_option_benefits'' ''FK_8041f989f181378a4b4355fa78e'' (Foreign_Key ''benefitId'' ''benefits'' ''id'' Cascade),
      Add_Constraint ''rate_options'' ''FK_ce07861c7c196607058409d592d'' (Foreign_Key ''roomTypeId'' ''room_types'' ''id'' Restrict)]"

definition AddRateOptionModuleTables_down :: "ddl list" where
  "AddRateOptionModuleTables_down =
     [Drop_Constraint ''rate_options'' ''FK_ce07861c7c196607058409d592d'',
      Drop_Constraint ''rate_option_benefits'' ''FK_8041f989f181378a4b4355fa78e'',
      Drop_Constraint ''rate_option_benefits'' ''FK_adef30a04dc252230c20568d64b'',
      Drop_Table ''rate_options'',
      Drop_Type ''rate_options_cancellationpolicy_enum'',
      Drop_Type ''rate_options_currency_enum'',
      Drop_Index ''IDX_2a0ce378f98d641f92cec16fee'',
      Drop_Table ''rate_option_benefits'',
      Drop_Table ''benefits'']"

definition CreateBookingModuleTables_up :: "ddl list" where
  "CreateBookingModuleTables_up =
     [Create_Type ''bookings_status_enum'' [''PENDING'', ''CONFIRMED'', ''CHECKED_IN'', ''CHECKED_OUT'', ''CANCELLED''],
      Create_Table ''bookings''
        [not_null_by ''id'' SQL_Uuid (Expression ''uuid_generate_v4()''),
         not_null_by ''createdAt'' SQL_Timestamptz (Expression ''now()''),
         not_null_by ''updatedAt'' SQL_Timestamptz (Expression ''now()''), not_null ''bookingReference'' SQL_Varchar,
         not_null ''userId'' SQL_Uuid, not_null ''status'' (SQL_Enum ''bookings_status_enum''),
         not_null ''totalPrice'' (SQL_Numeric 12 2), not_null ''totalGuest'' SQL_Integer,
         not_null ''bookedAt'' SQL_Timestamptz]
        [(''PK_bee6805982cc1e248e94ce94957'', Primary_Key [''id''])],
      Create_Index ''IDX_efae15c3deed139b3a0ce03f69'' ''bookings'' [''bookingReference''] True,
      Create_Table ''booking_rooms''
        [not_null_by ''id'' SQL_Uuid (Expression ''uuid_generate_v4()''), not_null ''bookingId'' SQL_Uuid,
         not_null ''roomId'' SQL_Uuid, not_null ''rateOptionId'' SQL_Uuid, not_null ''checkInDate'' SQL_Date,
         not_null ''checkOutDate'' SQL_Date, not_null ''roomPricePerNight'' (SQL_Numeric 12 2),
         not_null ''roomTotalPrice'' (SQL_Numeric 12 2), not_null ''guestCount'' SQL_Integer,
         not_null_by ''createdAt'' SQL_Timestamptz (Expression ''now()'')]
        [(''PK_712966000837d1e06c04ba357be'', Primary_Key [''id''])],
      Add_Constraint ''bookings'' ''FK_38a69a58a323647f2e75eb994de'' (Foreign_Key ''userId'' ''users'' ''id'' Restrict),
      Add_Constraint ''booking_rooms'' ''FK_0306634eb14525ae6f5190af403'' (Foreign_Key ''bookingId'' ''bookings'' ''id'' Cascade),
      Add_Constraint ''booking_rooms'' ''FK_a32cc760486d0f65b9a018b5f7c'' (Foreign_Key ''roomId'' ''rooms'' ''id'' Restrict),
      Add_Constraint ''booking_rooms'' ''FK_9f2850b9705e862bcf3369b5c5c'' (Foreign_Key ''rateOptionId'' ''rate_options'' ''id'' Restrict)]"

definition CreateBookingModuleTables_down :: "ddl list" where
  "CreateBookingModuleTables_down =
     [Drop_Constraint ''booking_rooms'' ''FK_9f2850b9705e862bcf3369b5c5c'',
      Drop_Constraint ''booking_rooms'' ''FK_a32cc760486d0f65b9a018b5f7c'',
      Drop_Constraint ''booking_rooms'' ''FK_0306634eb14525ae6f5190af403'',
      Drop_Constraint ''bookings'' ''FK_38a69a58a323647f2e75eb994de'',
      Drop_Table ''booking_rooms'',
      Drop_Index ''IDX_efae15c3deed139b3a0ce03f69'',
      Drop_Table ''bookings'',
      Drop_Type ''bookings_status_enum'']"

definition SwitchBaseEntity_up :: "ddl list" where
  "SwitchBaseEntity_up =
     [Add_Column ''room_characteristics'' (nullable ''deletedAt'' SQL_Timestamptz),
      Add_Column ''benefits'' (nullable ''deletedAt'' SQL_Timestamptz),
      Add_Column ''rate_options'' (nullable ''deletedAt'' SQL_Timestamptz),
      Add_Column ''room_types'' (nullable ''deletedAt'' SQL_Timestamptz),
      Add_Column ''hotels'' (nullable ''deletedAt'' SQL_Timestamptz),
      Add_Column ''rooms'' (nullable ''deletedAt'' SQL_Timestamptz),
      Create_Index ''IDX_12defdfc64d13619ae92c49a0c'' ''room_characteristics'' [''deletedAt''] False,
      Create_Index ''IDX_4ec1b02d4ba714188a675d7f2c'' ''benefits'' [''deletedAt''] False,
      Create_Index ''IDX_fc273163dad68cad96ab0f3899'' ''rate_options'' [''deletedAt''] False,
      Create_Index ''IDX_189b2a72e61e0fae755c268573'' ''room_types'' [''deletedAt''] False,
      Create_Index ''IDX_f4cc6dbbcaac9f5c7b60d49927'' ''hotels'' [''deletedAt''] False,
      Create_Index ''IDX_de5c828db603a9ae9499292b63'' ''rooms'' [''deletedAt''] False]"

definition SwitchBaseEntity_down :: "ddl list" where
  "SwitchBaseEntity_down =
     [Drop_Index ''IDX_de5c828db603a9ae9499292b63'',
      Drop_Index ''IDX_f4cc6dbbcaac9f5c7b60d49927'',
      Drop_Index ''IDX_189b2a72e61e0fae755c268573'',
      Drop_Index ''IDX_fc273163dad68cad96ab0f3899'',
      Drop_Index ''IDX_4ec1b02d4ba714188a675d7f2c'',
      Drop_Index ''IDX_12defdfc64d13619ae92c49a0c'',
      Drop_Column ''rooms'' ''deletedAt'',
      Drop_Column ''hotels'' ''deletedAt'',
      Drop_Column ''room_types'' ''deletedAt'',
      Drop_Column ''rate_options'' ''deletedAt'',
      Drop_Column ''benefits'' ''deletedAt'',
      Drop_Column ''room_characteristics'' ''deletedAt'']"

definition CreatePaymentTable_up :: "ddl list" where
  "CreatePaymentTable_up =
     [Create_Type ''payments_provider_enum'' [''STRIPE''],
      Create_Type ''payments_currency_enum'' [''USD'', ''EUR'', ''GBP'', ''SGD'', ''THB''],
      Create_Type ''payments_status_enum'' [''PENDING'', ''COMPLETED'', ''FAILED'', ''REFUNDED'', ''REFUND_PENDING'', ''REFUND_FAILED''],
      Create_Table ''payments''
        [not_null_by ''id'' SQL_Uuid (Expression ''uuid_generate_v4()''),
         not_null_by ''createdAt'' SQL_Timestamptz (Expression ''now()''),
         not_null_by ''updatedAt'' SQL_Timestamptz (Expression ''now()''), nullable ''deletedAt'' SQL_Timestamptz,
         not_null ''bookingId'' SQL_Uuid, not_null ''userId'' SQL_Uuid,
         not_null ''provider'' (SQL_Enum ''payments_provider_enum''), not_null ''paymentIntentId'' SQL_Varchar,
         not_null ''amount'' (SQL_Numeric 12 2), not_null ''currency'' (SQL_Enum ''payments_currency_enum''),
         not_null_by ''status'' (SQL_Enum ''payments_status_enum'') (Quoted ''PENDING'')]
        [(''UQ_a1267c27d37d0c87154be17d931'', Unique_Key [''paymentIntentId'']),
         (''PK_197ab7af18c93fbb0c9b28b4a59'', Primary_Key [''id''])],
      Create_Index ''IDX_d703f4d1bf3e48dbaa5948e03d'' ''payments'' [''deletedAt''] False,
      Add_Column ''bookings'' (nullable ''deletedAt'' SQL_Timestamptz),
      Create_Index ''IDX_1481cb05f929015e6bbb257c25'' ''bookings'' [''deletedAt''] False,
      Add_Constraint ''payments'' ''FK_1ead3dc5d71db0ea822706e389d'' (Foreign_Key ''bookingId'' ''bookings'' ''id'' Cascade),
      Add_Constraint ''payments'' ''FK_d35cb3c13a18e1ea1705b2817b1'' (Foreign_Key ''userId'' ''users'' ''id'' Restrict)]"

definition CreatePaymentTable_down :: "ddl list" where
  "CreatePaymentTable_down =
     [Drop_Constraint ''payments'' ''FK_d35cb3c13a18e1ea1705b2817b1'',
      Drop_Constraint ''payments'' ''FK_1ead3dc5d71db0ea822706e389d'',
      Drop_Index ''IDX_1481cb05f929015e6bbb257c25'',
      Drop_Column ''bookings'' ''deletedAt'',
      Drop_Index ''IDX_d703f4d1bf3e48dbaa5948e03d'',
      Drop_Table ''payments'',
      Drop_Type ''payments_status_enum'',
      Drop_Type ''payments_currency_enum'',
      Drop_Type ''payments_provider_enum'']"

definition AddCurrencyInBookingTable_up :: "ddl list" where
  "AddCurrencyInBookingTable_up =
     [Create_Type ''bookings_currency_enum'' [''USD'', ''EUR'', ''GBP'', ''SGD'', ''THB''],
      Add_Column ''bookings'' (not_null_by ''currency'' (SQL_Enum ''bookings_currency_enum'') (Quoted ''SGD''))]"

definition AddCurrencyInBookingTable_down :: "ddl list" where
  "AddCurrencyInBookingTable_down =
     [Drop_Column ''bookings'' ''currency'',
      Drop_Type ''bookings_currency_enum'']"

definition RemoveMMKFromCurrencies_up :: "ddl list" where
  "RemoveMMKFromCurrencies_up =
     [Set_Default ''rate_options'' ''currency'' (Quoted ''USD''),
      Set_Default ''payments'' ''currency'' (Quoted ''USD''),
      Set_Default ''bookings'' ''currency'' (Quoted ''USD'')]"

definition RemoveMMKFromCurrencies_down :: "ddl list" where
  "RemoveMMKFromCurrencies_down =
     [Set_Default ''bookings'' ''currency'' (Quoted ''SGD''),
      Drop_Default ''payments'' ''currency'',
      Drop_Default ''rate_options'' ''currency'']"

section \<open>Running and reverting\<close>

record migration =
  mi_up :: "ddl list"
  mi_down :: "ddl list"

definition migrations :: "migration list" where
  "migrations =
     [\<lparr>mi_up = Init_up, mi_down = Init_down\<rparr>,
      \<lparr>mi_up = AddRoleIdInUserTable_up, mi_down = AddRoleIdInUserTable_down\<rparr>,
      \<lparr>mi_up = AddHotelENtity_up, mi_down = AddHotelENtity_down\<rparr>,
      \<lparr>mi_up = AddRoomModuleTables_up, mi_down = AddRoomModuleTables_down\<rparr>,
      \<lparr>mi_up = AddRateOptionModuleTables_up, mi_down = AddRateOptionModuleTables_down\<rparr>,
      \<lparr>mi_up = CreateBookingModuleTables_up, mi_down = CreateBookingModuleTables_down\<rparr>,
      \<lparr>mi_up = SwitchBaseEntity_up, mi_down = SwitchBaseEntity_down\<rparr>,
      \<lparr>mi_up = CreatePaymentTable_up, mi_down = CreatePaymentTable_down\<rparr>,
      \<lparr>mi_up = AddCurrencyInBookingTable_up, mi_down = AddCurrencyInBookingTable_down\<rparr>,
      \<lparr>mi_up = RemoveMMKFromCurrencies_up, mi_down = RemoveMMKFromCurrencies_down\<rparr>]"

definition migrate :: "string list \<Rightarrow> migration list \<Rightarrow> schema \<Rightarrow> schema option" where
  "migrate filled ms s = run_ddls filled (concat (map mi_up ms)) s"

definition revert :: "string list \<Rightarrow> migration list \<Rightarrow> schema \<Rightarrow> schema option" where
  "revert filled ms s = run_ddls filled (concat (map mi_down (rev ms))) s"

end
