(* ===== verification/Entity_Schema.thy ===== *)
theory Entity_Schema
  imports Schema
begin

text \<open>
  The entities as TypeORM reads them: the decorators of every class under \<open>entities\<close>, and the tables,
    types and indexes
  they stand for by TypeORM's documented conventions.  Its names for keys and indexes are digests and are left out.
\<close>

section \<open>Decorators\<close>

text \<open>The type of a column is given, an enumeration, or inferred from the type of the property.\<close>

datatype column_kind =
    Typed sql_type
  | Enumeration "string list"
  | Inferred_String
  | Inferred_Number
  | Inferred_Boolean

record entity_column =
  ec_name :: string
  ec_kind :: column_kind
  ec_primary :: bool
  ec_nullable :: bool
  ec_default :: "sql_default option"
  ec_unique :: bool
  ec_index :: "bool option"

definition declared :: "string \<Rightarrow> column_kind \<Rightarrow> entity_column" where
  "declared n k =
     \<lparr>ec_name = n, ec_kind = k, ec_primary = False, ec_nullable = False, ec_default = None, ec_unique = False,
      ec_index = None\<rparr>"

definition primary_uuid :: "string \<Rightarrow> entity_column" where
  "primary_uuid n = (declared n (Typed SQL_Uuid))\<lparr>ec_primary := True\<rparr>"

definition generated_uuid :: entity_column where
  "generated_uuid = (primary_uuid ''id'')\<lparr>ec_default := Some (Expression ''uuid_generate_v4()'')\<rparr>"

definition generated_integer :: entity_column where
  "generated_integer = (declared ''id'' (Typed SQL_Serial))\<lparr>ec_primary := True\<rparr>"

definition created_at :: entity_column where
  "created_at = (declared ''createdAt'' (Typed SQL_Timestamptz))\<lparr>ec_default := Some (Expression ''now()'')\<rparr>"

definition updated_at :: entity_column where
  "updated_at = (declared ''updatedAt'' (Typed SQL_Timestamptz))\<lparr>ec_default := Some (Expression ''now()'')\<rparr>"

definition deleted_at :: entity_column where
  "deleted_at = (declared ''deletedAt'' (Typed SQL_Timestamptz))\<lparr>ec_nullable := True,
    ec_index := Some False\<rparr>"

text \<open>The base classes.\<close>

definition audit_columns :: "entity_column list" where
  "audit_columns = [generated_uuid, created_at, updated_at]"

definition base_columns :: "entity_column list" where
  "base_columns = [generated_uuid, created_at, updated_at, deleted_at]"

text \<open>A relation that owns a column: its join column, the table of the other class,
  and \<open>onDelete\<close>.\<close>

record entity =
  en_table :: string
  en_columns :: "entity_column list"
  en_relations :: "(string \<times> string \<times> on_delete) list"
  en_indexes :: "(string list \<times> bool) list"

section \<open>The tables they stand for\<close>

definition enum_name :: "string \<Rightarrow> string \<Rightarrow> string" where
  "enum_name t c = map to_lower (t @ ''_'' @ c @ ''_enum'')"

text \<open>A join column takes the type of the key it points to, and every key is a UUID.\<close>

definition column_type :: "entity \<Rightarrow> entity_column \<Rightarrow> sql_type" where
  "column_type en c =
     (if ec_name c \<in> set (map fst (en_relations en)) then SQL_Uuid
      else case ec_kind c of
             Typed t \<Rightarrow> t
           | Enumeration _ \<Rightarrow> SQL_Enum (enum_name (en_table en) (ec_name c))
           | Inferred_String \<Rightarrow> SQL_Varchar
           | Inferred_Number \<Rightarrow> SQL_Integer
           | Inferred_Boolean \<Rightarrow> SQL_Boolean)"

definition entity_columns :: "entity \<Rightarrow> sql_column list" where
  "entity_columns en =
     map (\<lambda>c. \<lparr>co_name = ec_name c, co_type = column_type en c, co_nullable = ec_nullable c,
       co_default = ec_default c\<rparr>)
       (en_columns en)"

definition entity_constraints :: "entity \<Rightarrow> sql_constraint list" where
  "entity_constraints en =
     Primary_Key (map ec_name (filter ec_primary (en_columns en)))
       # map (\<lambda>c. Unique_Key [ec_name c]) (filter ec_unique (en_columns en))
       @ map (\<lambda>(c, t, d). Foreign_Key c t ''id'' d) (en_relations en)"

definition entity_types :: "entity \<Rightarrow> (string \<times> string list) list" where
  "entity_types en =
     concat (map (\<lambda>c. case ec_kind c of Enumeration vs \<Rightarrow> [(enum_name (en_table en) (ec_name c),
       vs)] | _ \<Rightarrow> [])
       (en_columns en))"

definition entity_indexes :: "entity \<Rightarrow> (string \<times> string list \<times> bool) list" where
  "entity_indexes en =
     concat (map (\<lambda>c. case ec_index c of None \<Rightarrow> [] | Some u \<Rightarrow> [(en_table en,
       [ec_name c], u)]) (en_columns en))
       @ map (\<lambda>(cs, u). (en_table en, cs, u)) (en_indexes en)"

text \<open>Two lists with the same elements, each once.\<close>

definition same_elements :: "'a list \<Rightarrow> 'a list \<Rightarrow> bool" where
  "same_elements xs ys \<longleftrightarrow> length xs = length ys \<and> list_all (\<lambda>x. x \<in> set ys) xs \<and> list_all (\<lambda>y. y \<in> set xs) ys"

definition table_matches :: "entity \<Rightarrow> sql_table \<Rightarrow> bool" where
  "table_matches en t \<longleftrightarrow>
     tb_name t = en_table en \<and> same_elements (tb_columns t) (entity_columns en)
     \<and> same_elements (map snd (tb_constraints t)) (entity_constraints en)"

text \<open>A schema is the one of the entities: the same tables, types and indexes, in any order.\<close>

definition schema_matches :: "entity list \<Rightarrow> schema \<Rightarrow> bool" where
  "schema_matches es s \<longleftrightarrow>
     length (sc_tables s) = length es
     \<and> list_all (\<lambda>en. case find_table (en_table en) s of None \<Rightarrow> False | Some t \<Rightarrow> table_matches en t) es
     \<and> same_elements (sc_types s) (concat (map entity_types es))
     \<and> same_elements (map (\<lambda>i. (ix_table i, ix_columns i,
       ix_unique i)) (sc_indexes s)) (concat (map entity_indexes es))"

section \<open>The entities\<close>

definition Module_entity :: entity where
  "Module_entity =
     \<lparr>en_table = ''modules'',
      en_columns =
        base_columns @ [declared ''name'' Inferred_String,
         (declared ''code'' Inferred_String)\<lparr>ec_unique := True\<rparr>,
         (declared ''parentId'' (Typed SQL_Uuid))\<lparr>ec_nullable := True\<rparr>],
      en_relations = [(''parentId'', ''modules'', Set_Null)],
      en_indexes = []\<rparr>"

definition Permission_entity :: entity where
  "Permission_entity =
     \<lparr>en_table = ''permissions'',
      en_columns =
        base_columns @ [declared ''moduleId'' (Typed SQL_Uuid),
         declared ''action'' (Typed SQL_Varchar)],
      en_relations = [(''moduleId'', ''modules'', Cascade)],
      en_indexes = [([''moduleId'', ''action''], True)]\<rparr>"

definition RolePermission_entity :: entity where
  "RolePermission_entity =
     \<lparr>en_table = ''role_permissions'',
      en_columns =
        [primary_uuid ''roleId'',
         primary_uuid ''permissionId''],
      en_relations = [(''roleId'', ''roles'', Cascade),
         (''permissionId'', ''permissions'', Cascade)],
      en_indexes = [([''roleId'', ''permissionId''], True)]\<rparr>"

definition Role_entity :: entity where
  "Role_entity =
     \<lparr>en_table = ''roles'',
      en_columns =
        base_columns @ [declared ''name'' Inferred_String,
         (declared ''description'' Inferred_String)\<lparr>ec_nullable := True\<rparr>,
         (declared ''rank'' (Typed SQL_Integer))\<lparr>ec_default := Some (Quoted ''99'')\<rparr>],
      en_relations = [],
      en_indexes = []\<rparr>"

definition Admin_entity :: entity where
  "Admin_entity =
     \<lparr>en_table = ''admins'',
      en_columns =
        base_columns @ [(declared ''fullName'' Inferred_String)\<lparr>ec_index := Some False\<rparr>,
         (declared ''password'' Inferred_String)\<lparr>ec_nullable := True\<rparr>,
         (declared ''email'' Inferred_String)\<lparr>ec_unique := True\<rparr>,
         (declared ''profileImageUrl'' Inferred_String)\<lparr>ec_nullable := True\<rparr>,
         declared ''roleId'' Inferred_String,
         (declared ''isBanned'' Inferred_Boolean)\<lparr>ec_default := Some (Expression ''false''),
           ec_index := Some False\<rparr>,
         (declared ''isTwoFactorEnabled'' Inferred_Boolean)\<lparr>ec_default := Some (Expression ''false'')\<rparr>,
         (declared ''lastLoginAt'' (Typed SQL_Timestamptz))\<lparr>ec_nullable := True\<rparr>,
         (declared ''lastLogoutAt'' (Typed SQL_Timestamptz))\<lparr>ec_nullable := True\<rparr>],
      en_relations = [(''roleId'', ''roles'', Restrict)],
      en_indexes = []\<rparr>"

definition RefreshToken_entity :: entity where
  "RefreshToken_entity =
     \<lparr>en_table = ''refresh_tokens'',
      en_columns =
        audit_columns @ [declared ''token'' Inferred_String,
         (declared ''userId'' Inferred_String)\<lparr>ec_nullable := True\<rparr>,
         (declared ''adminId'' Inferred_String)\<lparr>ec_nullable := True\<rparr>,
         (declared ''expiresAt'' (Typed SQL_Timestamptz))\<lparr>ec_nullable := True\<rparr>,
         (declared ''isRevoked'' Inferred_Boolean)\<lparr>ec_default := Some (Expression ''false'')\<rparr>],
      en_relations = [(''userId'', ''users'', Cascade),
         (''adminId'', ''admins'', Cascade)],
      en_indexes = []\<rparr>"

definition OtpRecord_entity :: entity where
  "OtpRecord_entity =
     \<lparr>en_table = ''otp_records'',
      en_columns =
        audit_columns @ [(declared ''userId'' (Typed SQL_Uuid))\<lparr>ec_nullable := True\<rparr>,
         (declared ''adminId'' (Typed SQL_Uuid))\<lparr>ec_nullable := True\<rparr>,
         (declared ''status'' (Enumeration [''PENDING'', ''VERIFIED'', ''EXPIRED'',
           ''USED'']))\<lparr>ec_default := Some (Quoted ''PENDING'')\<rparr>,
         declared ''purpose'' (Enumeration [''TWO_FACTOR'', ''RESET_PASSWORD'']),
         declared ''code'' Inferred_String,
         declared ''expiresAt'' (Typed SQL_Timestamptz),
         (declared ''requestId'' (Typed SQL_Varchar))\<lparr>ec_nullable := True\<rparr>,
         (declared ''attempts'' Inferred_Number)\<lparr>ec_default := Some (Quoted ''0'')\<rparr>,
         (declared ''maxAttempts'' Inferred_Number)\<lparr>ec_default := Some (Quoted ''3'')\<rparr>],
      en_relations = [(''userId'', ''users'', No_Action),
         (''adminId'', ''admins'', Cascade)],
      en_indexes = []\<rparr>"

definition User_entity :: entity where
  "User_entity =
     \<lparr>en_table = ''users'',
      en_columns =
        base_columns @ [(declared ''email'' Inferred_String)\<lparr>ec_nullable := True, ec_index := Some False\<rparr>,
         (declared ''fullName'' Inferred_String)\<lparr>ec_nullable := True, ec_index := Some False\<rparr>,
         declared ''phone'' Inferred_String,
         (declared ''password'' Inferred_String)\<lparr>ec_nullable := True\<rparr>,
         (declared ''isBanned'' Inferred_Boolean)\<lparr>ec_default := Some (Expression ''false''),
           ec_index := Some False\<rparr>,
         (declared ''profileImageUrl'' Inferred_String)\<lparr>ec_nullable := True\<rparr>,
         (declared ''dateOfBirth'' Inferred_String)\<lparr>ec_nullable := True\<rparr>,
         (declared ''gender'' Inferred_String)\<lparr>ec_nullable := True\<rparr>,
         (declared ''preferLanguage'' (Typed SQL_Varchar))\<lparr>ec_nullable := True\<rparr>,
         (declared ''registrationStage'' (Enumeration [''OTP_VERIFIED'', ''PASSWORD_SET'',
           ''COMPLETED'']))\<lparr>ec_nullable := True, ec_default := Some (Quoted ''OTP_VERIFIED'')\<rparr>,
         (declared ''fcmToken'' (Typed SQL_Varchar))\<lparr>ec_nullable := True\<rparr>,
         (declared ''lastLoginAt'' (Typed SQL_Timestamptz))\<lparr>ec_nullable := True\<rparr>,
         (declared ''lastLogoutAt'' (Typed SQL_Timestamptz))\<lparr>ec_nullable := True\<rparr>,
         (declared ''googleId'' (Typed SQL_Varchar))\<lparr>ec_nullable := True\<rparr>,
         (declared ''appleId'' (Typed SQL_Varchar))\<lparr>ec_nullable := True\<rparr>,
         (declared ''loginProvider'' (Typed SQL_Varchar))\<lparr>ec_nullable := True\<rparr>,
         declared ''roleId'' Inferred_String],
      en_relations = [(''roleId'', ''roles'', Restrict)],
      en_indexes = []\<rparr>"

definition Setting_entity :: entity where
  "Setting_entity =
     \<lparr>en_table = ''settings'',
      en_columns =
        base_columns @ [(declared ''key'' Inferred_String)\<lparr>ec_unique := True\<rparr>,
         (declared ''value'' Inferred_String)\<lparr>ec_nullable := True, ec_default := Some (Quoted '''')\<rparr>],
      en_relations = [],
      en_indexes = []\<rparr>"

definition AuditLog_entity :: entity where
  "AuditLog_entity =
     \<lparr>en_table = ''audit_logs'',
      en_columns =
        [generated_integer,
         (declared ''adminId'' (Typed SQL_Uuid))\<lparr>ec_nullable := True\<rparr>,
         declared ''action'' (Enumeration [''LOGIN'', ''LOGOUT'', ''REGISTER'', ''UPDATE_PROFILE'',
           ''CHANGE_PASSWORD'', ''FORGOT_PASSWORD_OTP'', ''RESET_PASSWORD'', ''ENABLE_TWO_FACTOR'',
             ''DISABLE_TWO_FACTOR'', ''VERIFY_TWO_FACTOR'', ''DELETE_ACCOUNT'', ''CREATE'', ''UPDATE'', ''DELETE'']),
         declared ''description'' (Typed SQL_Text),
         (declared ''entityName'' Inferred_String)\<lparr>ec_nullable := True\<rparr>,
         (declared ''entityId'' Inferred_String)\<lparr>ec_nullable := True\<rparr>,
         (declared ''oldValue'' (Typed SQL_Json))\<lparr>ec_nullable := True\<rparr>,
         (declared ''newValue'' (Typed SQL_Json))\<lparr>ec_nullable := True\<rparr>,
         (declared ''ipAddress'' Inferred_String)\<lparr>ec_nullable := True\<rparr>,
         (declared ''userAgent'' Inferred_String)\<lparr>ec_nullable := True\<rparr>,
         (declared ''device'' Inferred_String)\<lparr>ec_nullable := True\<rparr>,
         (declared ''browser'' Inferred_String)\<lparr>ec_nullable := True\<rparr>,
         (declared ''os'' Inferred_String)\<lparr>ec_nullable := True\<rparr>,
         (declared ''location'' Inferred_String)\<lparr>ec_nullable := True\<rparr>,
         (declared ''status'' (Enumeration [''SUCCESS'',
           ''FAILURE'']))\<lparr>ec_default := Some (Quoted ''SUCCESS'')\<rparr>,
         (declared ''metadata'' (Typed SQL_Json))\<lparr>ec_nullable := True\<rparr>,
         created_at],
      en_relations = [(''adminId'', ''admins'', Set_Null)],
      en_indexes = [([''adminId'', ''action'', ''createdAt''], False)]\<rparr>"

definition ActivityLog_entity :: entity where
  "ActivityLog_entity =
     \<lparr>en_table = ''activity_logs'',
      en_columns =
        [generated_integer,
         declared ''userId'' Inferred_String,
         declared ''action'' (Enumeration [''LOGIN'', ''LOGOUT'', ''REGISTER'', ''UPDATE_PROFILE'',
           ''CHANGE_PASSWORD'', ''FORGOT_PASSWORD_OTP'', ''RESET_PASSWORD'', ''ENABLE_TWO_FACTOR'',
             ''DISABLE_TWO_FACTOR'', ''VERIFY_TWO_FACTOR'', ''DELETE_ACCOUNT'', ''CREATE'', ''UPDATE'', ''DELETE'']),
         declared ''description'' (Typed SQL_Text),
         (declared ''resourceType'' Inferred_String)\<lparr>ec_nullable := True\<rparr>,
         (declared ''resourceId'' Inferred_String)\<lparr>ec_nullable := True\<rparr>,
         (declared ''ipAddress'' Inferred_String)\<lparr>ec_nullable := True\<rparr>,
         (declared ''userAgent'' Inferred_String)\<lparr>ec_nullable := True\<rparr>,
         (declared ''device'' Inferred_String)\<lparr>ec_nullable := True\<rparr>,
         (declared ''browser'' Inferred_String)\<lparr>ec_nullable := True\<rparr>,
         (declared ''os'' Inferred_String)\<lparr>ec_nullable := True\<rparr>,
         (declared ''location'' Inferred_String)\<lparr>ec_nullable := True\<rparr>,
         (declared ''status'' (Enumeration [''SUCCESS'',
           ''FAILURE'']))\<lparr>ec_default := Some (Quoted ''SUCCESS'')\<rparr>,
         (declared ''metadata'' (Typed SQL_Json))\<lparr>ec_nullable := True\<rparr>,
         created_at],
      en_relations = [(''userId'', ''users'', Cascade)],
      en_indexes = [([''userId'', ''action'', ''createdAt''], False)]\<rparr>"

definition Hotel_entity :: entity where
  "Hotel_entity =
     \<lparr>en_table = ''hotels'',
      en_columns =
        base_columns @ [declared ''name'' Inferred_String,
         (declared ''description'' (Typed SQL_Text))\<lparr>ec_nullable := True\<rparr>,
         declared ''latitude'' (Typed (SQL_Numeric 10 8)),
         declared ''longitude'' (Typed (SQL_Numeric 11 8)),
         declared ''address'' Inferred_String,
         declared ''city'' Inferred_String,
         declared ''country'' Inferred_String,
         declared ''postalCode'' Inferred_String,
         declared ''checkInTime'' (Typed SQL_Time),
         declared ''checkOutTime'' (Typed SQL_Time),
         (declared ''isActive'' Inferred_Boolean)\<lparr>ec_default := Some (Expression ''true'')\<rparr>,
         declared ''createdBy'' (Typed SQL_Uuid)],
      en_relations = [(''createdBy'', ''admins'', Restrict)],
      en_indexes = []\<rparr>"

definition RoomCharacteristic_entity :: entity where
  "RoomCharacteristic_entity =
     \<lparr>en_table = ''room_characteristics'',
      en_columns =
        base_columns @ [declared ''name'' Inferred_String,
         (declared ''description'' (Typed SQL_Text))\<lparr>ec_nullable := True\<rparr>],
      en_relations = [],
      en_indexes = []\<rparr>"

definition RoomTypeCharacteristic_entity :: entity where
  "RoomTypeCharacteristic_entity =
     \<lparr>en_table = ''room_type_characteristics'',
      en_columns =
        [generated_uuid,
         declared ''roomTypeId'' (Typed SQL_Uuid),
         declared ''roomCharacteristicId'' (Typed SQL_Uuid),
         created_at],
      en_relations = [(''roomTypeId'', ''room_types'', Cascade),
         (''roomCharacteristicId'', ''room_characteristics'', Cascade)],
      en_indexes = [([''roomTypeId'', ''roomCharacteristicId''], True)]\<rparr>"

definition RoomType_entity :: entity where
  "RoomType_entity =
     \<lparr>en_table = ''room_types'',
      en_columns =
        base_columns @ [declared ''hotelId'' (Typed SQL_Uuid),
         declared ''name'' Inferred_String,
         (declared ''description'' (Typed SQL_Text))\<lparr>ec_nullable := True\<rparr>,
         declared ''maxOccupancy'' (Typed SQL_Integer),
         declared ''bedType'' Inferred_String,
         declared ''areaInSquareFeet'' (Typed (SQL_Numeric 10 2))],
      en_relations = [(''hotelId'', ''hotels'', Restrict)],
      en_indexes = []\<rparr>"

definition Room_entity :: entity where
  "Room_entity =
     \<lparr>en_table = ''rooms'',
      en_columns =
        base_columns @ [declared ''hotelId'' (Typed SQL_Uuid),
         declared ''roomTypeId'' (Typed SQL_Uuid),
         declared ''roomNumber'' Inferred_String,
         declared ''floorNumber'' (Typed SQL_Integer),
         declared ''status'' (Enumeration [''AVAILABLE'', ''OCCUPIED'', ''MAINTENANCE'', ''OUT_OF_SERVICE''])],
      en_relations = [(''hotelId'', ''hotels'', Restrict),
         (''roomTypeId'', ''room_types'', Restrict)],
      en_indexes = [([''hotelId'', ''roomNumber''], True)]\<rparr>"

definition Benefit_entity :: entity where
  "Benefit_entity =
     \<lparr>en_table = ''benefits'',
      en_columns =
        base_columns @ [declared ''name'' Inferred_String,
         (declared ''description'' (Typed SQL_Text))\<lparr>ec_nullable := True\<rparr>],
      en_relations = [],
      en_indexes = []\<rparr>"

definition RateOptionBenefit_entity :: entity where
  "RateOptionBenefit_entity =
     \<lparr>en_table = ''rate_option_benefits'',
      en_columns =
        [generated_uuid,
         declared ''rateOptionId'' (Typed SQL_Uuid),
         declared ''benefitId'' (Typed SQL_Uuid),
         created_at],
      en_relations = [(''rateOptionId'', ''rate_options'', Cascade),
         (''benefitId'', ''benefits'', Cascade)],
      en_indexes = [([''rateOptionId'', ''benefitId''], True)]\<rparr>"

definition RateOption_entity :: entity where
  "RateOption_entity =
     \<lparr>en_table = ''rate_options'',
      en_columns =
        base_columns @ [declared ''roomTypeId'' (Typed SQL_Uuid),
         declared ''name'' Inferred_String,
         (declared ''description'' (Typed SQL_Text))\<lparr>ec_nullable := True\<rparr>,
         declared ''pricePerNight'' (Typed (SQL_Numeric 12 2)),
         (declared ''currency'' (Enumeration [''USD'', ''EUR'', ''GBP'', ''SGD'',
           ''THB'']))\<lparr>ec_default := Some (Quoted ''USD'')\<rparr>,
         (declared ''isRefundable'' Inferred_Boolean)\<lparr>ec_default := Some (Expression ''false'')\<rparr>,
         declared ''cancellationPolicy'' (Enumeration [''FREE_CANCELLATION'', ''FREE_CANCELLATION_UNTIL_DEADLINE'',
           ''NON_REFUNDABLE'', ''PARTIAL_REFUND_WITHIN_WINDOW'', ''FEE_BASED_CANCELLATION'']),
         (declared ''deadlineHours'' (Typed SQL_Integer))\<lparr>ec_nullable := True\<rparr>],
      en_relations = [(''roomTypeId'', ''room_types'', Restrict)],
      en_indexes = []\<rparr>"

definition Booking_entity :: entity where
  "Booking_entity =
     \<lparr>en_table = ''bookings'',
      en_columns =
        base_columns @ [(declared ''bookingReference'' Inferred_String)\<lparr>ec_index := Some True\<rparr>,
         declared ''userId'' (Typed SQL_Uuid),
         declared ''status'' (Enumeration [''PENDING'', ''CONFIRMED'', ''CHECKED_IN'', ''CHECKED_OUT'', ''CANCELLED'']),
         declared ''totalPrice'' (Typed (SQL_Numeric 12 2)),
         (declared ''currency'' (Enumeration [''USD'', ''EUR'', ''GBP'', ''SGD'',
           ''THB'']))\<lparr>ec_default := Some (Quoted ''USD'')\<rparr>,
         declared ''totalGuest'' (Typed SQL_Integer),
         declared ''bookedAt'' (Typed SQL_Timestamptz)],
      en_relations = [(''userId'', ''users'', Restrict)],
      en_indexes = []\<rparr>"

definition BookingRoom_entity :: entity where
  "BookingRoom_entity =
     \<lparr>en_table = ''booking_rooms'',
      en_columns =
        [generated_uuid,
         declared ''bookingId'' (Typed SQL_Uuid),
         declared ''roomId'' (Typed SQL_Uuid),
         declared ''rateOptionId'' (Typed SQL_Uuid),
         declared ''checkInDate'' (Typed SQL_Date),
         declared ''checkOutDate'' (Typed SQL_Date),
         declared ''roomPricePerNight'' (Typed (SQL_Numeric 12 2)),
         declared ''roomTotalPrice'' (Typed (SQL_Numeric 12 2)),
         declared ''guestCount'' (Typed SQL_Integer),
         created_at],
      en_relations = [(''bookingId'', ''bookings'', Cascade),
         (''roomId'', ''rooms'', Restrict),
         (''rateOptionId'', ''rate_options'', Restrict)],
      en_indexes = []\<rparr>"

definition Payment_entity :: entity where
  "Payment_entity =
     \<lparr>en_table = ''payments'',
      en_columns =
        base_columns @ [declared ''bookingId'' (Typed SQL_Uuid),
         declared ''userId'' (Typed SQL_Uuid),
         declared ''provider'' (Enumeration [''STRIPE'']),
         (declared ''paymentIntentId'' (Typed SQL_Varchar))\<lparr>ec_unique := True\<rparr>,
         declared ''amount'' (Typed (SQL_Numeric 12 2)),
         (declared ''currency'' (Enumeration [''USD'', ''EUR'', ''GBP'', ''SGD'',
           ''THB'']))\<lparr>ec_default := Some (Quoted ''USD'')\<rparr>,
         (declared ''status'' (Enumeration [''PENDING'', ''COMPLETED'', ''FAILED'', ''REFUNDED'', ''REFUND_PENDING'',
           ''REFUND_FAILED'']))\<lparr>ec_default := Some (Quoted ''PENDING'')\<rparr>],
      en_relations = [(''bookingId'', ''bookings'', Cascade),
         (''userId'', ''users'', Restrict)],
      en_indexes = []\<rparr>"
definition entities :: "entity list" where
  "entities =
     [Module_entity, Permission_entity, RolePermission_entity, Role_entity, Admin_entity, RefreshToken_entity,
       OtpRecord_entity, User_entity, Setting_entity, AuditLog_entity, ActivityLog_entity, Hotel_entity,
         RoomCharacteristic_entity, RoomTypeCharacteristic_entity, RoomType_entity, Room_entity, Benefit_entity,
           RateOptionBenefit_entity, RateOption_entity, Booking_entity, BookingRoom_entity, Payment_entity]"

end
