(* ===== verification/Migration_Facts.thy ===== *)
theory Migration_Facts
  imports Schema_Facts Migrations Entity_Schema
begin

text \<open>
  The migrations: run in order on an empty database they build the tables of the entities, every one of them is undone
  exactly by its \<open>down\<close>, and one of them cannot run on a database with users.
\<close>

section \<open>Running all of them\<close>

lemma migrations_add: "list_all (\<lambda>m. list_all adds (mi_up m)) migrations"
  by code_simp

text \<open>The files in groups, each started in the schema of the ones before.\<close>

lemma group_1: "run_ddls [] Init_up empty_schema \<noteq> None"
  by code_simp

lemma group_2: "run_ddls [] (AddRoleIdInUserTable_up @ AddHotelENtity_up @ AddRoomModuleTables_up)
    (fold effect Init_up empty_schema) \<noteq> None"
  by code_simp

lemma group_3: "run_ddls [] (AddRateOptionModuleTables_up @ CreateBookingModuleTables_up)
    (fold effect (AddRoleIdInUserTable_up @ AddHotelENtity_up @ AddRoomModuleTables_up) (fold effect Init_up empty_schema)) \<noteq> None"
  by code_simp

lemma group_4: "run_ddls [] (SwitchBaseEntity_up @ CreatePaymentTable_up @ AddCurrencyInBookingTable_up @ RemoveMMKFromCurrencies_up)
    (fold effect (AddRateOptionModuleTables_up @ CreateBookingModuleTables_up)
      (fold effect (AddRoleIdInUserTable_up @ AddHotelENtity_up @ AddRoomModuleTables_up) (fold effect Init_up empty_schema))) \<noteq> None"
  by code_simp

lemma built: "schema_matches entities (fold effect (concat (map mi_up migrations)) empty_schema)"
  by code_simp

lemma ups_in_order:
  "concat (map mi_up migrations) =
     Init_up @ (AddRoleIdInUserTable_up @ AddHotelENtity_up @ AddRoomModuleTables_up)
     @ (AddRateOptionModuleTables_up @ CreateBookingModuleTables_up)
     @ (SwitchBaseEntity_up @ CreatePaymentTable_up @ AddCurrencyInBookingTable_up @ RemoveMMKFromCurrencies_up)"
  by (simp add: migrations_def)

lemma run_groups:
  assumes "run_ddls f g1 s = Some s1" and "run_ddls f g2 s1 = Some s2" and "run_ddls f g3 s2 = Some s3"
    and "run_ddls f g4 s3 = Some s4"
  shows "run_ddls f (g1 @ g2 @ g3 @ g4) s = Some s4"
  using assms by (simp add: run_ddls_append)

lemma fold_groups: "fold h (g1 @ g2 @ g3 @ g4) s = fold h g4 (fold h g3 (fold h g2 (fold h g1 s)))"
  by simp

lemma run_three:
  "run_ddls f [a, b, c] s = Some s' \<Longrightarrow> \<exists>s1 s2. run_ddl f a s = Some s1 \<and> run_ddl f b s1 = Some s2 \<and> run_ddl f c s2 = Some s'"
  by (auto split: option.splits)

lemma three_runs:
  "run_ddl f a s = Some s1 \<Longrightarrow> run_ddl f b s1 = Some s2 \<Longrightarrow> run_ddl f c s2 = Some s' \<Longrightarrow> run_ddls f [a, b, c] s = Some s'"
  by simp

lemma all_run: "migrate [] migrations empty_schema = Some (fold effect (concat (map mi_up migrations)) empty_schema)"
proof -
  let ?g1 = Init_up
  let ?g2 = "AddRoleIdInUserTable_up @ AddHotelENtity_up @ AddRoomModuleTables_up"
  let ?g3 = "AddRateOptionModuleTables_up @ CreateBookingModuleTables_up"
  let ?g4 = "SwitchBaseEntity_up @ CreatePaymentTable_up @ AddCurrencyInBookingTable_up @ RemoveMMKFromCurrencies_up"
  have "list_all adds (?g1 @ ?g2 @ ?g3 @ ?g4)"
    using migrations_add unfolding ups_in_order [symmetric] by (simp add: list_all_iff)
  then have add: "list_all adds ?g1" "list_all adds ?g2" "list_all adds ?g3" "list_all adds ?g4"
    unfolding list_all_append by blast+
  show ?thesis
    unfolding migrate_def ups_in_order
    by (subst fold_groups, rule run_groups [OF run_ddls_effect [OF add(1) group_1] run_ddls_effect [OF add(2) group_2]
        run_ddls_effect [OF add(3) group_3] run_ddls_effect [OF add(4) group_4]])
qed

text \<open>C27: run one after the other on an empty database, the migrations succeed and build exactly the tables, columns,
  defaults, keys, foreign keys, enumerations and indexes that the decorators of the entities declare, in a well-formed schema.\<close>

theorem migrations_build_the_entities:
  "\<exists>s. migrate [] migrations empty_schema = Some s \<and> schema_matches entities s \<and> wf_schema s"
proof -
  let ?s = "fold effect (concat (map mi_up migrations)) empty_schema"
  have run: "migrate [] migrations empty_schema = Some ?s" by (rule all_run)
  moreover have "wf_schema ?s" using ddls_keep_well_formed [OF wf_empty] run unfolding migrate_def by blast
  ultimately show ?thesis using built by blast
qed

section \<open>Reverting\<close>

lemma exact_downs: "list_all (\<lambda>m. undo_all (mi_up m) = Some (mi_down m)) (butlast migrations)"
  by code_simp

lemma revert_exact:
  assumes "wf_schema s" and "run_ddls f (mi_up m) s = Some s'" and "m \<in> set (butlast migrations)"
  shows "run_ddls g (mi_down m) s' = Some s"
proof -
  have "undo_all (mi_up m) = Some (mi_down m)" using exact_downs assms(3) by (simp add: list_all_iff)
  then show ?thesis by (rule run_ddls_undo [OF assms(1,2)])
qed

text \<open>The last migration changes defaults; its \<open>down\<close> writes the ones of the migrations before it.\<close>

definition currency_defaults :: "schema \<Rightarrow> bool" where
  "currency_defaults s \<longleftrightarrow>
     default_of ''rate_options'' ''currency'' s = None \<and> default_of ''payments'' ''currency'' s = None
     \<and> default_of ''bookings'' ''currency'' s = Some (Quoted ''SGD'')"

lemma revert_defaults:
  assumes "wf_schema s" and "run_ddls f RemoveMMKFromCurrencies_up s = Some s'" and "currency_defaults s"
  shows "run_ddls g RemoveMMKFromCurrencies_down s' = Some s"
proof -
  let ?usd = "Quoted ''USD''"
  obtain s1 s2 where s1: "run_ddl f (Set_Default ''rate_options'' ''currency'' ?usd) s = Some s1"
    and s2: "run_ddl f (Set_Default ''payments'' ''currency'' ?usd) s1 = Some s2"
    and s3: "run_ddl f (Set_Default ''bookings'' ''currency'' ?usd) s2 = Some s'"
    using run_three [OF assms(2) [unfolded RemoveMMKFromCurrencies_up_def]] by blast
  have d: "default_of ''rate_options'' ''currency'' s = None" "default_of ''payments'' ''currency'' s = None"
      "default_of ''bookings'' ''currency'' s = Some (Quoted ''SGD'')"
    using assms(3) by (simp_all add: currency_defaults_def)
  have w1: "wf_schema s1" by (rule ddl_keeps_well_formed [OF assms(1) s1])
  have w2: "wf_schema s2" by (rule ddl_keeps_well_formed [OF w1 s2])
  note u1 = undo_default [OF assms(1) s1 d(1)]
  have p1: "default_of ''payments'' ''currency'' s1 = None" using u1(2) [of "''payments''" "''currency''"] d(2) by simp
  note u2 = undo_default [OF w1 s2 p1]
  have "default_of ''bookings'' ''currency'' s2 = Some (Quoted ''SGD'')"
    using u2(2) [of "''bookings''" "''currency''"] u1(2) [of "''bookings''" "''currency''"] d(3) by simp
  note u3 = undo_default [OF w2 s3 this]
  show ?thesis
    unfolding RemoveMMKFromCurrencies_down_def
    by (rule three_runs [OF u3(1) [of g, unfolded restore_default_def option.case]
        u2(1) [of g, unfolded restore_default_def option.case] u1(1) [of g, unfolded restore_default_def option.case]])
qed

text \<open>C28: reverting undoes migrating. Whatever schema a migration was run on, its \<open>down\<close> leads back to exactly that schema,
  whether or not the tables have rows by then; the last one needs the defaults the earlier ones have left.\<close>

theorem revert_undoes_migrate:
  assumes "wf_schema s" and "m \<in> set migrations" and "migrate filled [m] s = Some s'"
    and "mi_up m = RemoveMMKFromCurrencies_up \<longrightarrow> currency_defaults s"
  shows "revert filled' [m] s' = Some s"
proof -
  have run: "run_ddls filled (mi_up m) s = Some s'" using assms(3) by (simp add: migrate_def)
  have split: "migrations = butlast migrations @ [\<lparr>mi_up = RemoveMMKFromCurrencies_up, mi_down = RemoveMMKFromCurrencies_down\<rparr>]"
    by (simp add: migrations_def)
  consider "m \<in> set (butlast migrations)" | "m = \<lparr>mi_up = RemoveMMKFromCurrencies_up, mi_down = RemoveMMKFromCurrencies_down\<rparr>"
    using assms(2) split by (metis UnE empty_iff empty_set insertE list.simps(15) set_append)
  then have "run_ddls filled' (mi_down m) s' = Some s"
  proof cases
    case 1
    then show ?thesis by (rule revert_exact [OF assms(1) run])
  next
    case 2
    then have "currency_defaults s" using assms(4) by simp
    then show ?thesis using revert_defaults [OF assms(1)] run 2 by simp
  qed
  then show ?thesis by (simp add: revert_def)
qed

theorem revert_undoes_migrate_witness:
  "\<exists>s. migrate [] [hd migrations] empty_schema = Some s \<and> revert [''users''] [hd migrations] s = Some empty_schema"
proof -
  let ?m = "\<lparr>mi_up = Init_up, mi_down = Init_down\<rparr>"
  have hd: "hd migrations = ?m" and m: "?m \<in> set migrations" by (simp_all add: migrations_def)
  obtain s where s: "migrate [] [?m] empty_schema = Some s" using group_1 by (auto simp: migrate_def)
  have "Init_up \<noteq> RemoveMMKFromCurrencies_up" by (simp add: Init_up_def RemoveMMKFromCurrencies_up_def)
  then have "mi_up ?m = RemoveMMKFromCurrencies_up \<longrightarrow> currency_defaults empty_schema" by simp
  from revert_undoes_migrate [OF wf_empty m s this] show ?thesis unfolding hd using s by blast
qed

text \<open>The whole history there and back.\<close>

lemma revert_all_exact:
  assumes "wf_schema s" and "run_ddls f (concat (map mi_up ms)) s = Some s'" and "set ms \<subseteq> set (butlast migrations)"
  shows "run_ddls g (concat (map mi_down (rev ms))) s' = Some s"
  using assms
proof (induction ms arbitrary: s)
  case Nil
  then show ?case by simp
next
  case (Cons m ms)
  obtain s1 where s1: "run_ddls f (mi_up m) s = Some s1" "run_ddls f (concat (map mi_up ms)) s1 = Some s'"
    using Cons.prems(2) by (auto simp: run_ddls_append split: option.splits)
  have "run_ddls g (concat (map mi_down (rev ms))) s' = Some s1"
    by (rule Cons.IH [OF ddls_keep_well_formed [OF Cons.prems(1) s1(1)] s1(2)]) (use Cons.prems(3) in simp)
  moreover have "run_ddls g (mi_down m) s1 = Some s"
    by (rule revert_exact [OF Cons.prems(1) s1(1)]) (use Cons.prems(3) in simp)
  ultimately show ?case by (simp add: run_ddls_append)
qed

lemma defaults_before_last: "currency_defaults (fold effect (concat (map mi_up (butlast migrations))) empty_schema)"
  by code_simp

text \<open>The whole history can be run and reverted: from the schema all the migrations build, with or without rows in its
  tables, reverting them one after the other, the last one first, ends in the empty database.\<close>

theorem history_reverts_to_empty:
  "\<exists>s. migrate [] migrations empty_schema = Some s \<and> revert filled migrations s = Some empty_schema"
proof -
  let ?last = "\<lparr>mi_up = RemoveMMKFromCurrencies_up, mi_down = RemoveMMKFromCurrencies_down\<rparr>"
  let ?early = "concat (map mi_up (butlast migrations))"
  let ?s' = "fold effect (concat (map mi_up migrations)) empty_schema"
  have split: "migrations = butlast migrations @ [?last]" by (simp add: migrations_def)
  have ups: "concat (map mi_up migrations) = ?early @ RemoveMMKFromCurrencies_up"
    by (subst split) simp
  have downs: "concat (map mi_down (rev migrations)) = RemoveMMKFromCurrencies_down @ concat (map mi_down (rev (butlast migrations)))"
    by (subst split) simp
  have run: "run_ddls [] (?early @ RemoveMMKFromCurrencies_up) empty_schema = Some ?s'"
    using all_run unfolding migrate_def ups .
  obtain s1 where s1: "run_ddls [] ?early empty_schema = Some s1" "run_ddls [] RemoveMMKFromCurrencies_up s1 = Some ?s'"
    using run unfolding run_ddls_append by (auto split: option.splits)
  have "list_all adds ?early" using migrations_add by (auto simp: list_all_iff dest: in_set_butlastD)
  then have "s1 = fold effect ?early empty_schema" using run_ddls_effect [of ?early "[]" empty_schema] s1(1) by simp
  then have d: "currency_defaults s1" using defaults_before_last by simp
  have w: "wf_schema s1" by (rule ddls_keep_well_formed [OF wf_empty s1(1)])
  have "run_ddls filled RemoveMMKFromCurrencies_down ?s' = Some s1" by (rule revert_defaults [OF w s1(2) d])
  moreover have "run_ddls filled (concat (map mi_down (rev (butlast migrations)))) s1 = Some empty_schema"
    by (rule revert_all_exact [OF wf_empty s1(1)]) simp
  ultimately have "revert filled migrations ?s' = Some empty_schema"
    unfolding revert_def downs run_ddls_append by simp
  then show ?thesis using all_run by blast
qed

section \<open>On a database with users\<close>

text \<open>The second migration cannot run once a user is stored: it adds the role of a user as a column that must not be
  null and has no default, so a database that was filled after the first migration can never be brought up to date.\<close>

theorem role_column_needs_empty_users:
  assumes "''users'' \<in> set filled"
  shows "migrate filled (drop 1 migrations) s = None"
proof -
  let ?c = "not_null ''roleId'' SQL_Uuid"
  have "run_ddl filled (Add_Column ''users'' ?c) s = None"
    using assms by (simp add: not_null_def split: option.split)
  moreover obtain rest where "concat (map mi_up (drop 1 migrations)) = Add_Column ''users'' ?c # rest"
    by (simp add: migrations_def AddRoleIdInUserTable_up_def)
  ultimately show ?thesis by (simp add: migrate_def del: run_ddl.simps)
qed

theorem role_column_needs_empty_users_witness:
  "\<exists>s. migrate [] (take 1 migrations) empty_schema = Some s \<and> migrate [''users''] (drop 1 migrations) s = None"
proof -
  obtain s where s: "migrate [] (take 1 migrations) empty_schema = Some s"
    using group_1 by (auto simp: migrate_def migrations_def)
  have "''users'' \<in> set [''users'']" by simp
  from role_column_needs_empty_users [OF this] show ?thesis using s by blast
qed

end
