(* ===== verification/Password_Reset.thy ===== *)
theory Password_Reset
  imports Otp Token Sms Sample
begin

text \<open>
  \<open>src/src/v1/auth/services/password-reset.service.ts\<close>: forgotten passwords, by mail for
  administrators and by text message for users.
\<close>

section \<open>By mail\<close>

definition reset_record :: "ext \<Rightarrow> uuid option \<Rightarrow> uuid option \<Rightarrow> string \<Rightarrow> string option \<Rightarrow> otp_record" where
  "reset_record e userId adminId code requestId =
     \<lparr>entId = x_new_id e, createdAt = x_now e, o_userId = userId, o_adminId = adminId, o_status = PENDING,
      o_purpose = RESET_PASSWORD, o_code = code,
      o_expiresAt = addMinutes OTP_TTL_MINUTES (x_now e), o_requestId = requestId, o_attempts = 0,
      o_maxAttempts = 3\<rparr>"

definition insert_otp :: "otp_record \<Rightarrow> world \<Rightarrow> (unit, world) result" where
  "insert_otp r w =
     (if references (entId r) (otp_records w) then throw (QueryFailedError ''23505'') w
      else ok () (w\<lparr>otp_records := otp_records w @ [r]\<rparr>))"

definition passwordResetOTPSend :: "ext \<Rightarrow> string \<Rightarrow> world \<Rightarrow> (uuid, world) result" where
  "passwordResetOTPSend e email w =
     (case find_one (\<lambda>a. live a \<and> a_email a = email) (admins w) of
        None \<Rightarrow> throw (NotFoundException ''Admin not found'') w
      | Some a \<Rightarrow>
          let w1 = log_audit e (entId a) FORGOT_PASSWORD_OTP ''Forgot password OTP sent'' (Some ''admin'') (Some (entId a)) w;
              code = generateVerificationCode e
          in and_then (insert_otp (reset_record e None (Some (entId a)) code None) w1)
               (\<lambda>_ w2. ok (entId a) (emit (ForgotPasswordMail (a_email a) code) w2)))"

abbreviation reset_pending :: "otp_record \<Rightarrow> bool" where
  "reset_pending r \<equiv> o_purpose r = RESET_PASSWORD \<and> o_status r = PENDING"

definition reset_lookup :: "uuid \<Rightarrow> world \<Rightarrow> otp_record option" where
  "reset_lookup i w =
     (case find_one (\<lambda>r. o_userId r = Some i \<and> reset_pending r) (otp_records w) of
        Some r \<Rightarrow> Some r
      | None \<Rightarrow> find_one (\<lambda>r. o_adminId r = Some i \<and> reset_pending r) (otp_records w))"

definition verifyPasswordResetOTPCode :: "ext \<Rightarrow> uuid \<Rightarrow> string \<Rightarrow> world \<Rightarrow> (string, world) result" where
  "verifyPasswordResetOTPCode e i code w =
     (case reset_lookup i w of
        None \<Rightarrow> throw (BadRequestException ''No pending otp verification found'') w
      | Some r \<Rightarrow>
          if isExpired (x_now e) (Some (o_expiresAt r))
          then throw (BadRequestException ''Verification code has expired'') (otp_save (r\<lparr>o_status := EXPIRED\<rparr>) w)
          else if o_maxAttempts r \<le> o_attempts r
          then throw (BadRequestException ''Maximum verification attempts exceeded'')
                 (otp_save (r\<lparr>o_status := EXPIRED\<rparr>) w)
          else
            let r1 = r\<lparr>o_attempts := o_attempts r + 1\<rparr>
            in if o_code r \<noteq> code
               then throw (BadRequestException ''Invalid verification code'') (otp_save r1 w)
               else ok (x_sign e (ResetJwt i i) (access_expiry e)) (otp_save (r1\<lparr>o_status := VERIFIED\<rparr>) w))"

text \<open>What \<open>decode\<close> yields of \<open>userId\<close> and \<open>type\<close>; an access token of an administrator has no \<open>userId\<close>.\<close>

fun token_user_id :: "jwt_payload \<Rightarrow> uuid option" where
  "token_user_id (AdminJwt _ _ _) = None"
| "token_user_id (UserJwt _ i) = Some i"
| "token_user_id (ResetJwt _ i) = Some i"

fun is_reset_token :: "jwt_payload \<Rightarrow> bool" where
  "is_reset_token (ResetJwt _ _) = True"
| "is_reset_token _ = False"

definition resetPassword :: "ext \<Rightarrow> string \<Rightarrow> string \<Rightarrow> world \<Rightarrow> (unit, world) result" where
  "resetPassword e tok new w =
     (case x_verify e tok (x_now e) of
        None \<Rightarrow> throw (UnauthorizedException ''Access token verification failed'') w
      | Some p \<Rightarrow>
          (case token_user_id p of
             None \<Rightarrow> throw (BadRequestException ''Invalid reset password token'') w
           | Some i \<Rightarrow>
               (case by_id i (users w) of
                  None \<Rightarrow>
                    (case by_id i (admins w) of
                       None \<Rightarrow> throw (NotFoundException ''Account not found after token verification'') w
                     | Some a \<Rightarrow>
                         if \<not> is_reset_token p then throw (BadRequestException ''Invalid access token type'') w
                         else and_then (update_admin e (a\<lparr>a_password := Some new\<rparr>) w)
                                (\<lambda>_ w1. ok () (log_audit e i L_RESET_PASSWORD ''Admin password reset successfully''
                                   (Some ''admin'') (Some i) w1)))
                | Some u \<Rightarrow>
                    if \<not> is_reset_token p then throw (NotFoundException ''Invalid access token type'') w
                    else ok () (log_activity e i L_RESET_PASSWORD ''User password reset successfully''
                           (update_user e (u\<lparr>u_password := Some new\<rparr>) w)))))"

section \<open>By text message\<close>

definition reset_message :: string where
  "reset_message = ''[{brand}] Dear customer, your OTP code is {code} for password reset. It will expire in 30 minutes.''"

definition userPasswordResetOTPSend :: "ext \<Rightarrow> string \<Rightarrow> world \<Rightarrow> (uuid, world) result" where
  "userPasswordResetOTPSend e phone w =
     (case find_one (\<lambda>u. live u \<and> u_phone u = Some phone) (users w) of
        None \<Rightarrow> throw (NotFoundException ''User not found'') w
      | Some u \<Rightarrow>
          let w1 = log_activity e (entId u) FORGOT_PASSWORD_OTP ''Forgot password OTP sent'' w
          in and_then (sendOTP e phone reset_message None w1)
               (\<lambda>requestId w2.
                  and_then (insert_otp (reset_record e (Some (entId u)) None ''SMS_OTP'' (Some requestId)) w2)
                    (\<lambda>_ w3. ok (entId u) w3)))"

definition userVerifyPasswordResetOTPCode :: "ext \<Rightarrow> uuid \<Rightarrow> string \<Rightarrow> world \<Rightarrow> (string, world) result" where
  "userVerifyPasswordResetOTPCode e i code w =
     (case by_id i (users w) of
        None \<Rightarrow> throw (NotFoundException ''User not found'') w
      | Some u \<Rightarrow>
          (case find_latest createdAt (\<lambda>r. o_userId r = Some i \<and> reset_pending r) (otp_records w) of
             None \<Rightarrow> throw (BadRequestException ''Invalid verification code'') w
           | Some r \<Rightarrow>
               if isExpired (x_now e) (Some (o_expiresAt r))
               then throw (BadRequestException ''Verification code expired'') (otp_save (r\<lparr>o_status := EXPIRED\<rparr>) w)
               else if o_maxAttempts r \<le> o_attempts r
               then throw (BadRequestException ''Maximum verification attempts exceeded'')
                      (otp_save (r\<lparr>o_status := EXPIRED\<rparr>) w)
               else
                 let r1 = r\<lparr>o_attempts := o_attempts r + 1\<rparr>
                 in if \<not> truthy (o_requestId r)
                    then throw (BadRequestException ''Invalid verification code'') (otp_save r1 w)
                    else
                      (case verifyOTP e (the (o_requestId r)) code of
                         Inl _ \<Rightarrow> throw (BadRequestException ''Invalid verification code'') (otp_save r1 w)
                       | Inr _ \<Rightarrow>
                           ok (x_sign e (ResetJwt i i) (access_expiry e))
                             (otp_save (r1\<lparr>o_status := VERIFIED, o_code := code\<rparr>) w))))"

definition userResetPassword :: "ext \<Rightarrow> string \<Rightarrow> string \<Rightarrow> world \<Rightarrow> (unit, world) result" where
  "userResetPassword e tok new w =
     (case x_verify e tok (x_now e) of
        None \<Rightarrow> throw (UnauthorizedException ''Access token verification failed'') w
      | Some p \<Rightarrow>
          if token_user_id p = None \<or> \<not> is_reset_token p
          then throw (BadRequestException ''Invalid reset password token'') w
          else
            let i = the (token_user_id p)
            in case by_id i (users w) of
                 None \<Rightarrow> throw (NotFoundException ''Account not found after token verification'') w
               | Some u \<Rightarrow>
                   ok () (log_activity e i L_RESET_PASSWORD ''User password reset successfully''
                     (revokeAllUserTokens e i True (update_user e (u\<lparr>u_password := Some new\<rparr>) w))))"

section \<open>Wrong codes\<close>

definition reset_of :: "uuid \<Rightarrow> otp_record \<Rightarrow> bool" where
  "reset_of i r \<longleftrightarrow> (o_userId r = Some i \<or> o_adminId r = Some i) \<and> o_purpose r = RESET_PASSWORD"

definition reset_right :: "uuid \<Rightarrow> world \<Rightarrow> (ext \<times> string) set" where
  "reset_right i w = {(e, c). \<exists>r \<in> set (otp_records w). reset_of i r \<and> o_status r = PENDING \<and> accepts (x_now e) r c}"

definition reset_attempt :: "uuid \<Rightarrow> ext \<times> string \<Rightarrow> world \<Rightarrow> bool \<times> world" where
  "reset_attempt i g w =
     (succeeds (verifyPasswordResetOTPCode (fst g) i (snd g) w), snd (verifyPasswordResetOTPCode (fst g) i (snd g) w))"

definition reset_budget :: "uuid \<Rightarrow> world \<Rightarrow> nat" where
  "reset_budget i w = table_budget (reset_of i) (otp_records w)"

lemma reset_lookup_Some:
  "reset_lookup i w = Some r \<Longrightarrow> r \<in> set (otp_records w) \<and> reset_of i r \<and> o_status r = PENDING"
  by (auto simp: reset_lookup_def reset_of_def dest!: find_one_Some split: option.splits)

lemma reset_lookup_None:
  "reset_lookup i w = None \<longleftrightarrow> (\<forall>r \<in> set (otp_records w). \<not> (reset_of i r \<and> o_status r = PENDING))"
  by (auto simp: reset_lookup_def reset_of_def find_one_None split: option.split dest: find_one_Some)

lemma reset_attempt_wrong:
  assumes "g \<notin> reset_right i w"
  shows "reset_attempt i g w =
     (False, case reset_lookup i w of None \<Rightarrow> w | Some r \<Rightarrow> otp_save (wrong_try (x_now (fst g)) r) w)"
proof (cases "reset_lookup i w")
  case None
  then show ?thesis by (simp add: reset_attempt_def verifyPasswordResetOTPCode_def)
next
  case (Some r)
  have "\<not> accepts (x_now (fst g)) r (snd g)"
    using assms reset_lookup_Some [OF Some] by (cases g) (auto simp: reset_right_def)
  then show ?thesis
    using Some by (auto simp: reset_attempt_def verifyPasswordResetOTPCode_def accepts_def wrong_try_def Let_def)
qed

interpretation reset_lockout: lockout "reset_attempt i" "reset_right i" "reset_budget i" otp_ok for i
proof (unfold_locales, goal_cases)
  case (1 w g)
  then show ?case by (simp add: reset_attempt_wrong)
next
  case (2 w g)
  then show ?case by (simp add: reset_attempt_wrong split: option.split)
next
  case (3 w g)
  show ?case
  proof (cases "reset_lookup i w")
    case None
    then show ?thesis using 3(2) by (simp add: reset_attempt_wrong)
  next
    case (Some r)
    have "snd (reset_attempt i g w) = otp_save (wrong_try (x_now (fst g)) r) w"
      using 3(2) Some by (simp add: reset_attempt_wrong)
    moreover have "reset_right i (otp_save (wrong_try (x_now (fst g)) r) w) \<subseteq> reset_right i w"
      using accepts_after_wrong_try [of _ _ r "otp_records w" _ _ "reset_of i"] reset_lookup_Some [OF Some]
      by (fastforce simp: reset_right_def)
    ultimately show ?thesis by simp
  qed
next
  case (4 w g)
  have "reset_lookup i w \<noteq> None"
  proof
    assume "reset_lookup i w = None"
    then have "table_budget (reset_of i) (otp_records w) = 0" unfolding table_budget_zero reset_lookup_None .
    then show False using 4(3) by (simp add: reset_budget_def)
  qed
  then obtain r where r: "reset_lookup i w = Some r" by blast
  then show ?case
    using 4 wrong_try_save [of w r "reset_of i"] reset_lookup_Some [OF r] by (simp add: reset_attempt_wrong reset_budget_def)
next
  case (5 w)
  then show ?case by (auto simp: reset_budget_def table_budget_zero reset_right_def)
next
  case (6 w g)
  then have "reset_lookup i w = None" by (simp add: reset_budget_def table_budget_zero reset_lookup_None)
  then show ?case using 6 by (simp add: reset_attempt_def verifyPasswordResetOTPCode_def)
qed

text \<open>C24: wrong codes lock the reset of a password like they lock two-factor authentication: after as many
  wrong codes as the pending records of the account allow, no code is accepted.\<close>

theorem password_reset_locks:
  assumes "otp_ok w"
    and "\<forall>(e, c) \<in> set gs. \<forall>r \<in> set (otp_records w). reset_of i r \<and> o_status r = PENDING \<longrightarrow> o_code r \<noteq> c"
    and "reset_budget i w \<le> length gs"
  shows "\<not> succeeds (verifyPasswordResetOTPCode e i c
             (fold (\<lambda>(e, c) w. snd (verifyPasswordResetOTPCode e i c w)) gs w))"
proof -
  have "set gs \<inter> reset_right i w = {}" using assms(2) by (fastforce simp: reset_right_def accepts_def)
  from reset_lockout.locked_out [OF assms(1) this assms(3), of "(e, c)"]
  show ?thesis by (simp add: reset_attempt_def reset_lockout.guesses_def split_def)
qed

section \<open>The placeholder code\<close>

lemma otp_frames [simp]:
  "otp_records (log_activity e i act d w) = otp_records w" "users (log_activity e i act d w) = users w"
  "admins (log_activity e i act d w) = admins w" "refresh_tokens (log_activity e i act d w) = refresh_tokens w"
  "otp_records (log_audit e i act d x y w) = otp_records w" "users (log_audit e i act d x y w) = users w"
  "admins (log_audit e i act d x y w) = admins w" "refresh_tokens (log_audit e i act d x y w) = refresh_tokens w"
  "users (otp_save r w) = users w" "refresh_tokens (otp_save r w) = refresh_tokens w"
  by (simp_all add: log_activity_def log_audit_def otp_save_def Let_def)

lemma userPasswordResetOTPSend_ok:
  assumes "userPasswordResetOTPSend e phone w = ok i w1"
  shows "\<exists>u requestId. find_one (\<lambda>u. live u \<and> u_phone u = Some phone) (users w) = Some u \<and> entId u = i
    \<and> otp_records w1 = otp_records w @ [reset_record e (Some i) None ''SMS_OTP'' (Some requestId)]
    \<and> users w1 = users w"
proof -
  obtain u where u: "find_one (\<lambda>u. live u \<and> u_phone u = Some phone) (users w) = Some u" "entId u = i"
    using assms by (auto simp: userPasswordResetOTPSend_def Let_def and_then_eq_ok split: option.splits)
  then obtain r w2 where "sendOTP e phone reset_message None
        (log_activity e i FORGOT_PASSWORD_OTP ''Forgot password OTP sent'' w) = ok r w2"
      and "insert_otp (reset_record e (Some i) None ''SMS_OTP'' (Some r)) w2 = ok () w1"
    using assms by (auto simp: userPasswordResetOTPSend_def Let_def and_then_eq_ok)
  then show ?thesis
    using u sendOTP_tables(1,4) by (fastforce simp: insert_otp_def split: if_splits)
qed

text \<open>C40: whoever knows a user's phone number can set the user's password.  A reset by text message stores the
  placeholder \<open>SMS_OTP\<close> as the code of its record, because the provider checks the real one; but the
  public verification of the administrators' reset looks up users' records too and compares the stored code,
  so it accepts the placeholder and issues the token that sets the password.\<close>

theorem sms_reset_takeover:
  assumes "userPasswordResetOTPSend e phone w = ok i w1" and "reset_lookup i w = None"
    and "x_now e' \<le> x_now e + 600000"
    and "x_verify e'' (x_sign e' (ResetJwt i i) (access_expiry e')) (x_now e'') = Some (ResetJwt i i)"
  shows "\<exists>w2 w3 u. verifyPasswordResetOTPCode e' i ''SMS_OTP'' w1 = ok (x_sign e' (ResetJwt i i) (access_expiry e')) w2
    \<and> resetPassword e'' (x_sign e' (ResetJwt i i) (access_expiry e')) new w2 = ok () w3
    \<and> by_id i (users w3) = Some u \<and> u_password u = hashPasswordIfNeeded e'' (Some new)"
proof -
  obtain u req where u: "find_one (\<lambda>u. live u \<and> u_phone u = Some phone) (users w) = Some u" "entId u = i"
      and otp: "otp_records w1 = otp_records w @ [reset_record e (Some i) None ''SMS_OTP'' (Some req)]"
      and us: "users w1 = users w"
    using userPasswordResetOTPSend_ok [OF assms(1)] by blast
  let ?r = "reset_record e (Some i) None ''SMS_OTP'' (Some req)"
  have none: "find_one (\<lambda>r. o_userId r = Some i \<and> reset_pending r) (otp_records w) = None"
    using assms(2) by (simp add: reset_lookup_def split: option.splits)
  have look: "reset_lookup i w1 = Some ?r"
    by (simp add: reset_lookup_def otp find_one_append none reset_record_def)
  define w2 where "w2 = otp_save (?r\<lparr>o_attempts := 1, o_status := VERIFIED\<rparr>) w1"
  have v: "verifyPasswordResetOTPCode e' i ''SMS_OTP'' w1 = ok (x_sign e' (ResetJwt i i) (access_expiry e')) w2"
    using assms(3)
    by (simp add: verifyPasswordResetOTPCode_def look reset_record_def addMinutes_def OTP_TTL_MINUTES_def units w2_def)
  have "by_id i (users w2) \<noteq> None"
    using u find_one_Some [OF u(1)] by (auto simp: w2_def us by_id_def find_one_None)
  then obtain v where v': "by_id i (users w2) = Some v" by blast
  let ?v = "with_hashed_password e'' (v\<lparr>u_password := Some new\<rparr>)"
  have "resetPassword e'' (x_sign e' (ResetJwt i i) (access_expiry e')) new w2
      = ok () (log_activity e'' i L_RESET_PASSWORD ''User password reset successfully''
                 (update_user e'' (v\<lparr>u_password := Some new\<rparr>) w2))"
    by (simp add: resetPassword_def assms(4) v')
  moreover have "by_id i (save_row ?v (users w2)) = Some ?v"
    using by_id_save_row [OF v'] by_id_Some [OF v'] by (simp add: live_def with_hashed_password_def)
  ultimately show ?thesis using v by (auto simp: update_user_def)
qed

section \<open>Sessions\<close>

text \<open>The two ways to set a user's password treat the open sessions differently: the users' one closes them
  all, the administrators' one, which accepts the same token, leaves every one of them open.\<close>

theorem reset_and_sessions:
  assumes "x_verify e tok (x_now e) = Some (ResetJwt i i)" and "by_id i (users w) = Some u"
  shows "no_open_tokens i (snd (userResetPassword e tok new w))
    \<and> refresh_tokens (snd (resetPassword e tok new w)) = refresh_tokens w
    \<and> succeeds (userResetPassword e tok new w) \<and> succeeds (resetPassword e tok new w)"
  using assms revokeAllUserTokens_closes [of i e True "update_user e (u\<lparr>u_password := Some new\<rparr>) w"]
  by (simp add: userResetPassword_def resetPassword_def Let_def no_open_tokens_def update_user_def)

section \<open>Examples\<close>

theorem password_reset_locks_witness:
  "\<not> succeeds (verifyPasswordResetOTPCode (plain_ext 5) ''a1'' ''123456''
      (fold (\<lambda>(e, c) w. snd (verifyPasswordResetOTPCode e ''a1'' c w)) (replicate 4 (plain_ext 4, ''000000''))
        (sample_world\<lparr>otp_records := [reset_record (plain_ext 3) None (Some ''a1'') ''123456'' None]\<rparr>)))"
  by (rule password_reset_locks)
     (simp_all add: otp_ok_def reset_budget_def table_budget_def record_budget_def reset_of_def reset_record_def plain_ext_def)

theorem sms_reset_takeover_witness:
  "\<exists>w2 w3 u.
     verifyPasswordResetOTPCode (plain_ext 5) ''u1'' ''SMS_OTP'' (snd (userPasswordResetOTPSend (plain_ext 4) ''+959111'' sample_world))
       = ok (x_sign (plain_ext 5) (ResetJwt ''u1'' ''u1'') (access_expiry (plain_ext 5))) w2
     \<and> resetPassword (plain_ext 6) (x_sign (plain_ext 5) (ResetJwt ''u1'' ''u1'') (access_expiry (plain_ext 5))) ''Mine1234'' w2 = ok () w3
     \<and> by_id ''u1'' (users w3) = Some u \<and> u_password u = hashPasswordIfNeeded (plain_ext 6) (Some ''Mine1234'')"
proof (rule sms_reset_takeover)
  have "succeeds (userPasswordResetOTPSend (plain_ext 4) ''+959111'' sample_world)" by code_simp
  moreover have "result_of (userPasswordResetOTPSend (plain_ext 4) ''+959111'' sample_world) = ''u1''" by code_simp
  ultimately show "userPasswordResetOTPSend (plain_ext 4) ''+959111'' sample_world
      = ok ''u1'' (snd (userPasswordResetOTPSend (plain_ext 4) ''+959111'' sample_world))"
    by (rule succeeds_ok_of)
  show "reset_lookup ''u1'' sample_world = None" by code_simp
qed (simp_all add: plain_ext_def)

theorem reset_and_sessions_witness:
  "no_open_tokens ''u1'' (snd (userResetPassword (plain_ext 5) (CHR ''R'' # ''u1'') ''New12345'' sample_world))
   \<and> refresh_tokens (snd (resetPassword (plain_ext 5) (CHR ''R'' # ''u1'') ''New12345'' sample_world)) = refresh_tokens sample_world"
proof -
  have "x_verify (plain_ext 5) (CHR ''R'' # ''u1'') (x_now (plain_ext 5)) = Some (ResetJwt ''u1'' ''u1'')"
    by (simp add: plain_ext_def)
  moreover have "by_id ''u1'' (users sample_world) = Some (sample_user ''u1'' ''+959111'')"
    by (simp add: sample_defs by_id_def live_def)
  ultimately show ?thesis using reset_and_sessions by blast
qed

end
