(* ===== verification/Config.thy ===== *)
theory Config
  imports Json Js_Text Password_Reset
begin

text \<open>
  How the process is configured and started: the schema of \<open>src/src/common/config/env.validation.ts\<close>, what the services
  read of it, the configuration of the text messages, the allowed origins of \<open>src/src/main.ts\<close> and the connections that
  \<open>src/src/common/services/startup.service.ts\<close> tries.

  Joi is modelled as it documents itself: an empty string is no value of \<open>string()\<close>, \<open>required()\<close> asks for a value even
  where there is a default, \<open>convert\<close> reads numbers and booleans from text.  How it reads a number is an argument.
\<close>

section \<open>The schema\<close>

datatype joi_type = Joi_String | Joi_Number | Joi_Boolean

record joi_rule =
  jr_key :: string
  jr_type :: joi_type
  jr_valid :: "string list option"
  jr_min :: nat
  jr_six_digits :: bool
  jr_required :: bool
  jr_default :: "json option"

definition joi :: "joi_type \<Rightarrow> string \<Rightarrow> joi_rule" where
  "joi t k =
     \<lparr>jr_key = k, jr_type = t, jr_valid = None, jr_min = 0, jr_six_digits = False, jr_required = False, jr_default = None\<rparr>"

definition required :: "joi_rule \<Rightarrow> joi_rule" where
  "required r = r\<lparr>jr_required := True\<rparr>"

definition or_else :: "json \<Rightarrow> joi_rule \<Rightarrow> joi_rule" where
  "or_else d r = r\<lparr>jr_default := Some d\<rparr>"

definition envValidationSchema :: "joi_rule list" where
  "envValidationSchema =
     [or_else (JStr ''development'')
        ((joi Joi_String ''NODE_ENV'')\<lparr>jr_valid := Some [''development'', ''production'', ''test'']\<rparr>),
      or_else (JNum 3000) (joi Joi_Number ''PORT''),
      or_else (JStr ''NestJS TypeORM API Starter'') (joi Joi_String ''APP_NAME''),
      required (joi Joi_String ''DB_HOST''),
      or_else (JNum 5432) (joi Joi_Number ''DB_PORT''),
      required (joi Joi_String ''DB_USERNAME''),
      required (joi Joi_String ''DB_PASSWORD''),
      required (joi Joi_String ''DB_NAME''),
      or_else (JNum 10) (joi Joi_Number ''AUTH_PASSWORD_SALT_ROUNDS''),
      required ((joi Joi_String ''JWT_SECRET'')\<lparr>jr_min := 32\<rparr>),
      required ((joi Joi_String ''JWT_REFRESH_SECRET'')\<lparr>jr_min := 32\<rparr>),
      or_else (JNum 900000) (joi Joi_Number ''JWT_EXPIRATION''),
      or_else (JNum 2592000000) (joi Joi_Number ''JWT_REFRESH_EXPIRATION''),
      or_else (JStr ''localhost'') (joi Joi_String ''REDIS_HOST''),
      or_else (JNum 6379) (joi Joi_Number ''REDIS_PORT''),
      joi Joi_String ''CORS_ORIGINS'',
      joi Joi_String ''AWS_ACCESS_KEY_ID'',
      joi Joi_String ''AWS_SECRET_ACCESS_KEY'',
      joi Joi_String ''AWS_REGION'',
      joi Joi_String ''AWS_BUCKET_NAME'',
      joi Joi_String ''AWS_ENDPOINT'',
      joi Joi_String ''GOOGLE_CLIENT_ID'',
      joi Joi_String ''APPLE_CLIENT_ID'',
      required (joi Joi_String ''SMTP_FROM_NAME''),
      joi Joi_Boolean ''OTP_MOCK_ENABLED'',
      or_else (JStr ''000000'') ((joi Joi_String ''OTP_MOCK_CODE'')\<lparr>jr_six_digits := True\<rparr>),
      joi Joi_String ''SMS_POH_API_KEY'',
      joi Joi_String ''SMS_POH_API_SECRET_KEY'',
      joi Joi_String ''SMS_POH_BASE_API_URL'',
      joi Joi_String ''SMS_POH_API_BRAND'',
      joi Joi_String ''SMS_POH_API_SENDER_ID'',
      or_else (JBool False) (joi Joi_Boolean ''SMS_MOCK_ENABLED''),
      required (joi Joi_String ''STRIPE_SECRET_KEY''),
      required (joi Joi_String ''STRIPE_WEBHOOK_SECRET''),
      required (or_else (JNum 600000) (joi Joi_Number ''CACHE_TTL''))]"

type_synonym environment = "(string \<times> string) list"
type_synonym config = "string \<Rightarrow> json"

definition joi_text :: "joi_rule \<Rightarrow> string \<Rightarrow> bool" where
  "joi_text r s \<longleftrightarrow>
     s \<noteq> '''' \<and> (case jr_valid r of None \<Rightarrow> True | Some vs \<Rightarrow> s \<in> set vs) \<and> jr_min r \<le> length s
     \<and> (jr_six_digits r \<longrightarrow> length s = 6 \<and> list_all is_digit s)"

definition joi_value :: "(string \<Rightarrow> rat option) \<Rightarrow> joi_rule \<Rightarrow> string \<Rightarrow> json option" where
  "joi_value num r s =
     (case jr_type r of
        Joi_String \<Rightarrow> if joi_text r s then Some (JStr s) else None
      | Joi_Number \<Rightarrow> map_option JNum (num s)
      | Joi_Boolean \<Rightarrow>
          if map to_lower s = ''true'' then Some (JBool True) else if map to_lower s = ''false'' then Some (JBool False) else None)"

definition joi_check :: "(string \<Rightarrow> rat option) \<Rightarrow> environment \<Rightarrow> joi_rule \<Rightarrow> json option" where
  "joi_check num env r =
     (case map_of env (jr_key r) of
        Some s \<Rightarrow> joi_value num r s
      | None \<Rightarrow> if jr_required r then None else Some (nullish (jr_default r) JUndef))"

text \<open>\<open>abortEarly: false\<close>: all the keys in error; \<open>allowUnknown\<close>: other variables stay as they are.\<close>

definition validate_env :: "(string \<Rightarrow> rat option) \<Rightarrow> environment \<Rightarrow> string list + config" where
  "validate_env num env =
     (let bad = map jr_key (filter (\<lambda>r. joi_check num env r = None) envValidationSchema)
      in if bad \<noteq> [] then Inl bad
         else Inr (\<lambda>k. case find_one (\<lambda>r. jr_key r = k) envValidationSchema of
                         Some r \<Rightarrow> nullish (joi_check num env r) JUndef
                       | None \<Rightarrow> (case map_of env k of None \<Rightarrow> JUndef | Some s \<Rightarrow> JStr s)))"

section \<open>What the services read\<close>

definition config_text :: "json \<Rightarrow> string option" where
  "config_text j = (case j of JStr s \<Rightarrow> Some s | JBool b \<Rightarrow> Some (show_bool b) | _ \<Rightarrow> None)"

definition config_int :: "int \<Rightarrow> json \<Rightarrow> int" where
  "config_int d j = (case j of JNum q \<Rightarrow> \<lfloor>q\<rfloor> | _ \<Rightarrow> d)"

definition sms_configured :: "config \<Rightarrow> bool" where
  "sms_configured cfg \<longleftrightarrow>
     js_truthy (cfg ''SMS_POH_API_KEY'') \<and> js_truthy (cfg ''SMS_POH_API_SECRET_KEY'') \<and> js_truthy (cfg ''SMS_POH_BASE_API_URL'')"

definition configured :: "config \<Rightarrow> ext \<Rightarrow> ext" where
  "configured cfg e =
     e\<lparr>x_otp_mock_enabled := config_text (cfg ''OTP_MOCK_ENABLED''),
       x_sms_mock_enabled := config_text (cfg ''SMS_MOCK_ENABLED''),
       x_node_env := config_text (cfg ''NODE_ENV''),
       x_mock_code := config_text (cfg ''MOCK_OTP_CODE''),
       x_jwt_expiration := config_int 900000 (cfg ''JWT_EXPIRATION''),
       x_jwt_refresh_expiration := config_int 2592000000 (cfg ''JWT_REFRESH_EXPIRATION''),
       x_sms_configured := sms_configured cfg\<rparr>"

text \<open>The constructor of the text message service: whether the provider is used, or an error that ends the process.\<close>

definition sms_constructor :: "config \<Rightarrow> ext \<Rightarrow> exn + bool" where
  "sms_constructor cfg e =
     (if isOtpMockEnabled (configured cfg e) then Inr False
      else if \<not> sms_configured cfg then
        if or_default (config_text (cfg ''NODE_ENV'')) ''development'' \<in> {''development'', ''test''} then Inr False
        else Inl (InternalServerErrorException ''SMS provider configuration missing'')
      else Inr True)"

text \<open>\<open>onModuleInit\<close>: the error messages of the two connections, if they fail.\<close>

definition onModuleInit :: "string option \<Rightarrow> string option \<Rightarrow> exn + unit" where
  "onModuleInit postgres redis =
     (case postgres of
        Some m \<Rightarrow> Inl (JsError (''Startup failed '' @ [CHR 0xE2, CHR 0x80, CHR 0x94] @ '' Postgres unreachable: '' @ m))
      | None \<Rightarrow>
          (case redis of
             Some m \<Rightarrow> Inl (JsError (''Startup failed '' @ [CHR 0xE2, CHR 0x80, CHR 0x94] @ '' Redis unreachable: '' @ m))
           | None \<Rightarrow> Inr ()))"

section \<open>Origins\<close>

datatype cors_origin = Any_Origin | Origins "string list"

definition cors_origins :: "string option \<Rightarrow> cors_origin" where
  "cors_origins raw =
     (if \<not> truthy raw then Origins []
      else
        let parsed = filter (\<lambda>p. p \<noteq> '''') (map js_trim (js_split (CHR '','') (the raw)))
        in if length parsed = 1
           then if map to_lower (hd parsed) \<in> {''*'', ''all'', ''true''} then Any_Origin else Origins parsed
           else Origins parsed)"

text \<open>As the package documents: \<open>true\<close> reflects every origin, a list allows its members.\<close>

definition origin_allowed :: "cors_origin \<Rightarrow> string \<Rightarrow> bool" where
  "origin_allowed c origin = (case c of Any_Origin \<Rightarrow> True | Origins os \<Rightarrow> origin \<in> set os)"

end
