(* ===== verification/Config_Facts.thy ===== *)
theory Config_Facts
  imports Config
begin

text \<open>
  What a validated environment means for the services: when codes are mocked, when the process starts without a provider
  of text messages, how long tokens live, and which origins are allowed.
\<close>

section \<open>Reading a validated environment\<close>

lemma validated_rule:
  assumes "validate_env num env = Inr cfg" and "find_one (\<lambda>r. jr_key r = k) envValidationSchema = Some r"
  shows "joi_check num env r = Some (cfg k)"
proof -
  have all: "\<forall>r \<in> set envValidationSchema. joi_check num env r \<noteq> None"
    and cfg: "cfg k = nullish (joi_check num env r) JUndef"
    using assms by (auto simp: validate_env_def Let_def filter_empty_conv split: if_splits)
  have "r \<in> set envValidationSchema" using find_one_Some [OF assms(2)] by blast
  then obtain v where "joi_check num env r = Some v" using all by blast
  then show ?thesis using cfg by simp
qed

lemma schema_rules:
  "find_one (\<lambda>r. jr_key r = ''NODE_ENV'') envValidationSchema
     = Some (or_else (JStr ''development'') ((joi Joi_String ''NODE_ENV'')\<lparr>jr_valid := Some [''development'', ''production'', ''test'']\<rparr>))"
  "find_one (\<lambda>r. jr_key r = ''OTP_MOCK_ENABLED'') envValidationSchema = Some (joi Joi_Boolean ''OTP_MOCK_ENABLED'')"
  "find_one (\<lambda>r. jr_key r = ''SMS_MOCK_ENABLED'') envValidationSchema
     = Some (or_else (JBool False) (joi Joi_Boolean ''SMS_MOCK_ENABLED''))"
  "find_one (\<lambda>r. jr_key r = ''JWT_EXPIRATION'') envValidationSchema = Some (or_else (JNum 900000) (joi Joi_Number ''JWT_EXPIRATION''))"
  "find_one (\<lambda>r. jr_key r = ''MOCK_OTP_CODE'') envValidationSchema = None"
  by (simp_all add: envValidationSchema_def joi_def required_def or_else_def)

lemma validated_node_env:
  assumes "validate_env num env = Inr cfg"
  shows "map_of env ''NODE_ENV'' = None \<Longrightarrow> cfg ''NODE_ENV'' = JStr ''development''"
    and "map_of env ''NODE_ENV'' = Some s \<Longrightarrow> cfg ''NODE_ENV'' = JStr s"
  using validated_rule [OF assms schema_rules(1)]
  by (auto simp: joi_check_def joi_value_def or_else_def joi_def nullish_def split: if_splits)

lemma validated_unset:
  assumes "validate_env num env = Inr cfg"
  shows "map_of env ''OTP_MOCK_ENABLED'' = None \<Longrightarrow> cfg ''OTP_MOCK_ENABLED'' = JUndef"
    and "map_of env ''SMS_MOCK_ENABLED'' = None \<Longrightarrow> cfg ''SMS_MOCK_ENABLED'' = JBool False"
    and "map_of env ''JWT_EXPIRATION'' = None \<Longrightarrow> cfg ''JWT_EXPIRATION'' = JNum 900000"
  using validated_rule [OF assms schema_rules(2)] validated_rule [OF assms schema_rules(3)] validated_rule [OF assms schema_rules(4)]
  by (simp_all add: joi_check_def or_else_def joi_def nullish_def)

lemma validated_unknown:
  assumes "validate_env num env = Inr cfg" and "map_of env ''MOCK_OTP_CODE'' = None"
  shows "cfg ''MOCK_OTP_CODE'' = JUndef"
  using assms schema_rules(5) by (auto simp: validate_env_def Let_def split: if_splits)

lemma configured_simps [simp]:
  "x_otp_mock_enabled (configured cfg e) = config_text (cfg ''OTP_MOCK_ENABLED'')"
  "x_sms_mock_enabled (configured cfg e) = config_text (cfg ''SMS_MOCK_ENABLED'')"
  "x_node_env (configured cfg e) = config_text (cfg ''NODE_ENV'')"
  "x_mock_code (configured cfg e) = config_text (cfg ''MOCK_OTP_CODE'')"
  "x_jwt_expiration (configured cfg e) = config_int 900000 (cfg ''JWT_EXPIRATION'')"
  "x_now (configured cfg e) = x_now e" "x_sign (configured cfg e) = x_sign e"
  by (simp_all add: configured_def)

section \<open>The default deployment\<close>

lemma default_mocks:
  assumes "validate_env num env = Inr cfg" and "map_of env ''NODE_ENV'' \<in> {None, Some ''development''}"
    and "map_of env ''OTP_MOCK_ENABLED'' = None" and "map_of env ''MOCK_OTP_CODE'' = None"
  shows "isOtpMockEnabled (configured cfg e)" and "generateVerificationCode (configured cfg e) = ''123456''"
proof -
  have "cfg ''NODE_ENV'' = JStr ''development''" using assms(2) validated_node_env [OF assms(1)] by auto
  then show m: "isOtpMockEnabled (configured cfg e)"
    using validated_unset(1) [OF assms(1,3)] by (simp add: isOtpMockEnabled_def parseBoolean_def config_text_def)
  then show "generateVerificationCode (configured cfg e) = ''123456''"
    using validated_unknown [OF assms(1,4)]
    by (simp add: generateVerificationCode_def getMockOtpCode_def DEFAULT_MOCK_OTP_CODE_def config_text_def)
qed

lemma passwordResetOTPSend_ok:
  assumes "passwordResetOTPSend e email w = ok i w1"
  shows "otp_records w1 = otp_records w @ [reset_record e None (Some i) (generateVerificationCode e) None]"
  using assms
  by (auto simp: passwordResetOTPSend_def Let_def and_then_eq_ok insert_otp_def emit_def split: option.splits if_splits)

text \<open>A deployment that passes the validation of its environment and sets neither \<open>NODE_ENV\<close> nor \<open>OTP_MOCK_ENABLED\<close> takes
  the code 123456 for the reset of any administrator's password, whatever code \<open>OTP_MOCK_CODE\<close> names: the schema declares
  that variable, the code reads \<open>MOCK_OTP_CODE\<close>.\<close>

theorem default_deployment_accepts_123456:
  assumes "validate_env num env = Inr cfg" and "map_of env ''NODE_ENV'' \<in> {None, Some ''development''}"
    and "map_of env ''OTP_MOCK_ENABLED'' = None" and "map_of env ''MOCK_OTP_CODE'' = None"
    and "passwordResetOTPSend (configured cfg e) email w = ok i w1" and "reset_lookup i w = None"
    and "x_now e' \<le> x_now e + 600000"
  shows "\<exists>w2. verifyPasswordResetOTPCode (configured cfg e') i ''123456'' w1
    = ok (x_sign e' (ResetJwt i i) (access_expiry (configured cfg e'))) w2"
proof -
  let ?r = "reset_record (configured cfg e) None (Some i) ''123456'' None"
  have otp: "otp_records w1 = otp_records w @ [?r]"
    using passwordResetOTPSend_ok [OF assms(5)] default_mocks(2) [OF assms(1-4)] by simp
  have none: "find_one (\<lambda>r. o_userId r = Some i \<and> reset_pending r) (otp_records w) = None"
      "find_one (\<lambda>r. o_adminId r = Some i \<and> reset_pending r) (otp_records w) = None"
    using assms(6) by (simp_all add: reset_lookup_def split: option.splits)
  have "reset_lookup i w1 = Some ?r" by (simp add: reset_lookup_def otp find_one_append none reset_record_def)
  then show ?thesis
    using assms(7)
    by (simp add: verifyPasswordResetOTPCode_def reset_record_def addMinutes_def OTP_TTL_MINUTES_def units)
qed

text \<open>An environment with the required variables only, and a mock code of its own.\<close>

definition minimal_env :: environment where
  "minimal_env =
     [(''DB_HOST'', ''db''), (''DB_USERNAME'', ''app''), (''DB_PASSWORD'', ''pw''), (''DB_NAME'', ''hotel''),
      (''JWT_SECRET'', ''0123456789abcdef0123456789abcdef''), (''JWT_REFRESH_SECRET'', ''fedcba9876543210fedcba9876543210''),
      (''SMTP_FROM_NAME'', ''Hotel''), (''STRIPE_SECRET_KEY'', ''sk''), (''STRIPE_WEBHOOK_SECRET'', ''wh''),
      (''CACHE_TTL'', ''600000''), (''OTP_MOCK_CODE'', ''904417'')]"

definition digits_only :: "string \<Rightarrow> rat option" where
  "digits_only s = (if s \<noteq> '''' \<and> list_all (is_digit_of 10) s then Some (of_nat (digits_value 10 s)) else None)"

lemma digits_only_ttl: "digits_only ''600000'' \<noteq> None"
proof -
  have "list_all (is_digit_of 10) ''600000''" by code_simp
  then show ?thesis by (simp add: digits_only_def)
qed

lemma minimal_env_valid: "\<exists>cfg. validate_env digits_only minimal_env = Inr cfg"
proof -
  have "\<forall>r \<in> set envValidationSchema. joi_check digits_only minimal_env r \<noteq> None"
    using digits_only_ttl
    by (simp add: envValidationSchema_def joi_check_def joi_value_def joi_text_def joi_def or_else_def required_def
        minimal_env_def is_digit_def)
  then have "filter (\<lambda>r. joi_check digits_only minimal_env r = None) envValidationSchema = []"
    by (simp add: filter_empty_conv)
  then show ?thesis by (simp add: validate_env_def)
qed

theorem default_deployment_accepts_123456_witness:
  "\<exists>cfg w2. validate_env digits_only minimal_env = Inr cfg
    \<and> verifyPasswordResetOTPCode (configured cfg (plain_ext 5)) ''a1'' ''123456''
        (snd (passwordResetOTPSend (configured cfg (plain_ext 4)) ''root@hotel'' sample_world))
      = ok (x_sign (plain_ext 5) (ResetJwt ''a1'' ''a1'') (access_expiry (configured cfg (plain_ext 5)))) w2"
proof -
  obtain cfg where cfg: "validate_env digits_only minimal_env = Inr cfg" using minimal_env_valid by blast
  let ?r = "passwordResetOTPSend (configured cfg (plain_ext 4)) ''root@hotel'' sample_world"
  have "?r = ok ''a1'' (snd ?r)"
    by (simp add: passwordResetOTPSend_def sample_world_def empty_world_def sample_admin_def live_def insert_otp_def
        Let_def log_audit_def references_def ids_def)
  from default_deployment_accepts_123456 [OF cfg _ _ _ this, where e' = "plain_ext 5"]
  have "\<exists>w2. verifyPasswordResetOTPCode (configured cfg (plain_ext 5)) ''a1'' ''123456'' (snd ?r)
      = ok (x_sign (plain_ext 5) (ResetJwt ''a1'' ''a1'') (access_expiry (configured cfg (plain_ext 5)))) w2"
    by (simp add: minimal_env_def reset_lookup_def sample_world_def empty_world_def plain_ext_def)
  then show ?thesis using cfg by blast
qed

section \<open>Production\<close>

text \<open>In production codes are real: unless a mock is switched on by name, a process that starts, starts with a configured
  provider of text messages, and the codes it sends are random.\<close>

theorem production_sends_real_codes:
  assumes "validate_env num env = Inr cfg" and "map_of env ''NODE_ENV'' = Some ''production''"
    and "map_of env ''OTP_MOCK_ENABLED'' = None" and "map_of env ''SMS_MOCK_ENABLED'' = None"
    and "sms_constructor cfg e = Inr b"
  shows "b \<and> sms_configured cfg
    \<and> generateVerificationCode (configured cfg e') = show_nat (randomInt 100000 999999 (x_random e'))
    \<and> 100000 \<le> randomInt 100000 999999 (x_random e') \<and> randomInt 100000 999999 (x_random e') < 999999"
proof -
  have env: "cfg ''NODE_ENV'' = JStr ''production''" using validated_node_env(2) [OF assms(1,2)] .
  have off: "\<not> isOtpMockEnabled (configured cfg x)" for x
    using env validated_unset(1,2) [OF assms(1)] assms(3,4)
    by (simp add: isOtpMockEnabled_def parseBoolean_def config_text_def show_bool_def)
  have "b \<and> sms_configured cfg"
    using assms(5) off env by (auto simp: sms_constructor_def config_text_def or_default_def split: if_splits)
  moreover have "x_random (configured cfg e') = x_random e'" by (simp add: configured_def)
  ultimately show ?thesis using off by (simp add: generateVerificationCode_def randomInt_def)
qed

definition production_env :: environment where
  "production_env =
     minimal_env @ [(''NODE_ENV'', ''production''), (''SMS_POH_API_KEY'', ''k''), (''SMS_POH_API_SECRET_KEY'', ''s''),
                    (''SMS_POH_BASE_API_URL'', ''https://sms'')]"

lemma production_env_valid: "\<exists>cfg. validate_env digits_only production_env = Inr cfg \<and> sms_configured cfg"
proof -
  have all: "\<forall>r \<in> set envValidationSchema. joi_check digits_only production_env r \<noteq> None"
    using digits_only_ttl
    by (simp add: envValidationSchema_def joi_check_def joi_value_def joi_text_def joi_def or_else_def required_def
        production_env_def minimal_env_def is_digit_def)
  then have "filter (\<lambda>r. joi_check digits_only production_env r = None) envValidationSchema = []"
    by (simp add: filter_empty_conv)
  then obtain cfg where cfg: "validate_env digits_only production_env = Inr cfg" by (simp add: validate_env_def)
  have rules: "find_one (\<lambda>r. jr_key r = ''SMS_POH_API_KEY'') envValidationSchema = Some (joi Joi_String ''SMS_POH_API_KEY'')"
    "find_one (\<lambda>r. jr_key r = ''SMS_POH_API_SECRET_KEY'') envValidationSchema = Some (joi Joi_String ''SMS_POH_API_SECRET_KEY'')"
    "find_one (\<lambda>r. jr_key r = ''SMS_POH_BASE_API_URL'') envValidationSchema = Some (joi Joi_String ''SMS_POH_BASE_API_URL'')"
    by (simp_all add: envValidationSchema_def joi_def required_def or_else_def)
  have "sms_configured cfg"
    using validated_rule [OF cfg rules(1)] validated_rule [OF cfg rules(2)] validated_rule [OF cfg rules(3)]
    by (auto simp: sms_configured_def joi_check_def joi_value_def joi_text_def joi_def production_env_def minimal_env_def
        dest!: sym [of _ "cfg k" for k])
  then show ?thesis using cfg by blast
qed

theorem production_sends_real_codes_witness:
  "\<exists>cfg. validate_env digits_only production_env = Inr cfg
    \<and> generateVerificationCode (configured cfg (plain_ext 5)) = show_nat 100000"
proof -
  obtain cfg where cfg: "validate_env digits_only production_env = Inr cfg" "sms_configured cfg"
    using production_env_valid by blast
  have "sms_constructor cfg (plain_ext 5) \<noteq> Inl x" for x using cfg(2) by (simp add: sms_constructor_def)
  then obtain b where "sms_constructor cfg (plain_ext 5) = Inr b" by (cases "sms_constructor cfg (plain_ext 5)") auto
  from production_sends_real_codes [OF cfg(1) _ _ _ this, of "plain_ext 5"]
  have "generateVerificationCode (configured cfg (plain_ext 5)) = show_nat (randomInt 100000 999999 (x_random (plain_ext 5)))"
    by (simp add: production_env_def minimal_env_def)
  then show ?thesis using cfg(1) by (simp add: plain_ext_def randomInt_def)
qed

text \<open>The default life of an access token: the library reads the 900000 of the comment's fifteen minutes as seconds.\<close>

lemma default_tokens_live_for_days:
  assumes "validate_env num env = Inr cfg" and "map_of env ''JWT_EXPIRATION'' = None"
  shows "access_expiry (configured cfg e) = x_now e + 900000 * 1000"
  using validated_unset(3) [OF assms] by (simp add: access_expiry_def config_int_def)

section \<open>Allowed origins\<close>

text \<open>The origins written into \<open>CORS_ORIGINS\<close> with commas between them are exactly the origins that are allowed: a
  wildcard among several of them is an origin like any other.\<close>

theorem cors_reads_back:
  assumes "2 \<le> length os" and "\<forall>s \<in> set os. s \<noteq> '''' \<and> CHR '','' \<notin> set s \<and> js_trim s = s"
  shows "cors_origins (Some (js_join (CHR '','') os)) = Origins os
    \<and> (origin_allowed (cors_origins (Some (js_join (CHR '','') os))) origin \<longleftrightarrow> origin \<in> set os)"
proof -
  have ne: "os \<noteq> []" using assms(1) by auto
  have "js_split (CHR '','') (js_join (CHR '','') os) = os"
    by (rule js_split_join [OF ne]) (use assms(2) in blast)
  moreover have "map js_trim os = os" using assms(2) by (simp add: map_idI)
  moreover have "filter (\<lambda>p. p \<noteq> '''') os = os" using assms(2) by (simp add: filter_id_conv)
  moreover have "js_join (CHR '','') os \<noteq> ''''" using ne assms(2) by (cases os) (auto simp: js_join_def)
  ultimately have "cors_origins (Some (js_join (CHR '','') os)) = Origins os"
    using assms(1) by (simp add: cors_origins_def Let_def)
  then show ?thesis by (simp add: origin_allowed_def)
qed

theorem cors_reads_back_witness:
  "cors_origins (Some ''https://a,*'') = Origins [''https://a'', ''*'']"
proof -
  have "js_trim ''https://a'' = ''https://a''" "js_trim ''*'' = ''*''" by code_simp+
  then show ?thesis using cors_reads_back [of "[''https://a'', ''*'']"] by (simp add: js_join_def)
qed

end
