(* ===== verification/Notifications.thy ===== *)
theory Notifications
  imports Mailer Sms "HOL-Library.Multiset"
begin

text \<open>
  \<open>src/src/notification\<close>: the two queues and their workers.  A job waits with the attempts it has left; a worker takes any
  of the waiting jobs, since the delays of the retries put them in any order, and processes it.  A job that fails is
  retried while it has attempts left and fails for good afterwards, as the queue library documents.  What surrounds an
  attempt, such as the answer of the mail server, is different every time and given with it.
\<close>

section \<open>Workers\<close>

record ('j, 'r, 's) worker =
  wk_waiting :: "('j \<times> nat) list"
  wk_service :: 's
  wk_done :: "('j \<times> 'r) list"
  wk_failed :: "'j list"

inductive work_step ::
  "('e \<Rightarrow> 'j \<Rightarrow> 's \<Rightarrow> ('r, 's) result) \<Rightarrow> ('j, 'r, 's) worker \<Rightarrow> ('j, 'r, 's) worker \<Rightarrow> bool"
  for run :: "'e \<Rightarrow> 'j \<Rightarrow> 's \<Rightarrow> ('r, 's) result"
where
  completed: "wk_waiting k = xs @ (j, n) # ys \<Longrightarrow> run e j (wk_service k) = ok r v
    \<Longrightarrow> work_step run k (k\<lparr>wk_waiting := xs @ ys, wk_service := v, wk_done := wk_done k @ [(j, r)]\<rparr>)"
| retried: "wk_waiting k = xs @ (j, n) # ys \<Longrightarrow> run e j (wk_service k) = throw x v \<Longrightarrow> 1 < n
    \<Longrightarrow> work_step run k (k\<lparr>wk_waiting := xs @ ys @ [(j, n - 1)], wk_service := v\<rparr>)"
| failed: "wk_waiting k = xs @ (j, n) # ys \<Longrightarrow> run e j (wk_service k) = throw x v \<Longrightarrow> n \<le> 1
    \<Longrightarrow> work_step run k (k\<lparr>wk_waiting := xs @ ys, wk_service := v, wk_failed := wk_failed k @ [j]\<rparr>)"

inductive_cases work_stepE: "work_step run k k'"

text \<open>The attempts that can still be made.\<close>

definition work_left :: "('j, 'r, 's) worker \<Rightarrow> nat" where
  "work_left k = sum_list (map (\<lambda>(j, n). max 1 n) (wk_waiting k))"

definition all_jobs :: "('j, 'r, 's) worker \<Rightarrow> 'j multiset" where
  "all_jobs k = mset (map fst (wk_waiting k)) + mset (map fst (wk_done k)) + mset (wk_failed k)"

text \<open>What holds of every worker, whatever its jobs do.\<close>

locale job_worker =
  fixes run :: "'e \<Rightarrow> 'j \<Rightarrow> 's \<Rightarrow> ('r, 's) result"
begin

lemma step_decreases: "work_step run k k' \<Longrightarrow> Suc (work_left k') \<le> work_left k"
  by (induction rule: work_step.induct) (auto simp: work_left_def)

lemma step_keeps_jobs: "work_step run k k' \<Longrightarrow> all_jobs k' = all_jobs k"
  by (induction rule: work_step.induct) (auto simp: all_jobs_def)

lemma step_possible:
  assumes "wk_waiting k \<noteq> []"
  shows "\<exists>k'. work_step run k k'"
proof -
  obtain j n ys where k: "wk_waiting k = [] @ (j, n) # ys" using assms by (cases "wk_waiting k") auto
  obtain res v where r: "run undefined j (wk_service k) = (res, v)" by fastforce
  show ?thesis
  proof (cases res)
    case (Inr b)
    then have "run undefined j (wk_service k) = ok b v" using r by (simp add: ok_def)
    from work_step.completed [where run = run, OF k this] show ?thesis by blast
  next
    case (Inl x)
    then have "run undefined j (wk_service k) = throw x v" using r by (simp add: throw_def)
    from work_step.retried [where run = run, OF k this] work_step.failed [where run = run, OF k this]
    show ?thesis by (metis not_le)
  qed
qed

lemma no_step_iff: "(\<nexists>k'. work_step run k k') \<longleftrightarrow> wk_waiting k = []"
  using step_possible by (auto elim: work_stepE)

lemma steps_bounded: "(work_step run ^^ n) k k' \<Longrightarrow> n + work_left k' \<le> work_left k \<and> all_jobs k' = all_jobs k"
proof (induction n arbitrary: k')
  case 0
  then show ?case by simp
next
  case (Suc n)
  then obtain k1 where "(work_step run ^^ n) k k1" and s: "work_step run k1 k'" by auto
  then show ?case using Suc.IH step_decreases [OF s] step_keeps_jobs [OF s] by fastforce
qed

lemma terminates: "wfP (\<lambda>k' k. work_step run k k')"
  by (rule wfp_if_convertible_to_nat [of _ work_left]) (use step_decreases in fastforce)

end

text \<open>A worker whose failed attempts send nothing and whose successful ones send at most once.\<close>

locale quiet_worker = job_worker run
  for run :: "'e \<Rightarrow> 'j \<Rightarrow> 's \<Rightarrow> ('r, 's) result" +
  fixes sent :: "'s \<Rightarrow> 'm list"
  assumes failure_sends_nothing: "run e j s = throw x s' \<Longrightarrow> sent s' = sent s"
    and success_sends_once: "run e j s = ok r s' \<Longrightarrow> length (sent s') \<le> Suc (length (sent s))"
begin

definition surplus :: "('j, 'r, 's) worker \<Rightarrow> int" where
  "surplus k = int (length (wk_done k)) - int (length (sent (wk_service k)))"

lemma step_surplus: "work_step run k k' \<Longrightarrow> surplus k \<le> surplus k'"
  by (induction rule: work_step.induct)
     (auto simp: surplus_def dest: failure_sends_nothing dest!: success_sends_once)

lemma steps_surplus: "(work_step run ^^ n) k k' \<Longrightarrow> surplus k \<le> surplus k'"
proof (induction n arbitrary: k')
  case (Suc n)
  then obtain k1 where "(work_step run ^^ n) k k1" and s: "work_step run k1 k'" by auto
  then show ?case using Suc.IH step_surplus [OF s] by fastforce
qed simp

end

section \<open>Mails\<close>

text \<open>An attempt at a mail: whether the server takes it, the time and the database as they are then.\<close>

definition email_attempt ::
  "(transport \<Rightarrow> mail \<Rightarrow> bool) \<times> ext \<times> world \<Rightarrow> email_job \<Rightarrow> mailer \<Rightarrow> (unit, mailer) result" where
  "email_attempt = (\<lambda>(deliver, e, w) j m. process_email_job deliver e j w m)"

definition email_worker :: "email_job list \<Rightarrow> mailer \<Rightarrow> (email_job, unit, mailer) worker" where
  "email_worker q m = \<lparr>wk_waiting = map (\<lambda>j. (j, ej_attempts j)) q, wk_service = m, wk_done = [], wk_failed = []\<rparr>"

lemma settings_outbox: "mailer_settings now w m = (c, m') \<Longrightarrow> outbox m' = outbox m"
  by (auto simp: mailer_settings_def Let_def split: option.splits prod.splits if_splits)

lemma transporter_outbox: "getTransporter now w m = (r, m') \<Longrightarrow> outbox m' = outbox m"
  by (auto simp: getTransporter_def Let_def ok_def throw_def split: prod.splits if_splits dest: settings_outbox)

lemma send_mail_outbox:
  assumes "send_mail deliver failure to subject html now w m = (r, m')"
  shows "case r of Inl x \<Rightarrow> outbox m' = outbox m | Inr u \<Rightarrow> length (outbox m') = Suc (length (outbox m))"
proof -
  obtain a m1 where t: "getTransporter now w m = (a, m1)" by fastforce
  obtain c m2 where c: "mailer_settings now w m1 = (c, m2)" by fastforce
  show ?thesis
    using assms transporter_outbox [OF t] settings_outbox [OF c]
    by (cases a) (auto simp: send_mail_def t c and_then_def catching_def ok_def throw_def Let_def split: if_splits)
qed

lemma attempt_outbox:
  assumes "email_attempt e j m = (r, m')"
  shows "case r of Inl x \<Rightarrow> outbox m' = outbox m | Inr u \<Rightarrow> length (outbox m') \<le> Suc (length (outbox m))"
proof -
  obtain deliver c w where e: "e = (deliver, c, w)" by (cases e) auto
  consider "r = Inr ()" "m' = m"
    | failure to subject html where "send_mail deliver failure to subject html (x_now c) w m = (r, m')"
    using assms
    by (auto simp: e email_attempt_def process_email_job_def mail_sendTwoFactorCode_def
        mail_sendForgotPasswordResetCode_def ok_def split: if_splits)
  then show ?thesis
  proof cases
    case 2
    then show ?thesis using send_mail_outbox by (fastforce split: sum.splits)
  qed simp
qed

interpretation mails: quiet_worker email_attempt outbox
proof
  show "outbox s' = outbox s" if "email_attempt e j s = throw x s'" for e j s x s'
    using attempt_outbox that by (fastforce simp: throw_def)
  show "length (outbox s') \<le> Suc (length (outbox s))" if "email_attempt e j s = ok r s'" for e j s r s'
    using attempt_outbox that by (fastforce simp: ok_def)
qed

section \<open>Text messages\<close>

text \<open>No service of the program uses this queue: they call the text message service themselves.\<close>

datatype sms_request = Send_Otp string string "int option" | Verify_Otp string string

datatype sms_reply = Otp_Sent string | Otp_Verified | No_Reply

record sms_job =
  sj_name :: string
  sj_data :: sms_request
  sj_attempts :: nat

definition SEND_OTP :: string where "SEND_OTP = ''send_otp''"
definition VERIFY_OTP :: string where "VERIFY_OTP = ''verify_otp''"

definition queue_sendSmsOtp :: "string \<Rightarrow> string \<Rightarrow> int option \<Rightarrow> sms_job list \<Rightarrow> sms_job list" where
  "queue_sendSmsOtp to message ttl q = q @ [\<lparr>sj_name = SEND_OTP, sj_data = Send_Otp to message ttl, sj_attempts = 3\<rparr>]"

definition queue_verifySmsOtp :: "string \<Rightarrow> string \<Rightarrow> sms_job list \<Rightarrow> sms_job list" where
  "queue_verifySmsOtp requestId code q = q @ [\<lparr>sj_name = VERIFY_OTP, sj_data = Verify_Otp requestId code, sj_attempts = 1\<rparr>]"

definition process_sms_job :: "ext \<Rightarrow> sms_job \<Rightarrow> world \<Rightarrow> (sms_reply, world) result" where
  "process_sms_job e j w =
     (case sj_data j of
        Send_Otp to message ttl \<Rightarrow>
          if sj_name j = SEND_OTP then and_then (sendOTP e to message ttl w) (\<lambda>r w1. ok (Otp_Sent r) w1) else ok No_Reply w
      | Verify_Otp requestId code \<Rightarrow>
          if sj_name j = VERIFY_OTP
          then (case verifyOTP e requestId code of Inl x \<Rightarrow> throw x w | Inr _ \<Rightarrow> ok Otp_Verified w)
          else ok No_Reply w)"

definition sms_worker :: "sms_job list \<Rightarrow> world \<Rightarrow> (sms_job, sms_reply, world) worker" where
  "sms_worker q w = \<lparr>wk_waiting = map (\<lambda>j. (j, sj_attempts j)) q, wk_service = w, wk_done = [], wk_failed = []\<rparr>"

interpretation texts: job_worker process_sms_job .

section \<open>Both queues drain\<close>

lemma work_of_jobs:
  "work_left (email_worker q m) = sum_list (map (\<lambda>j. max 1 (ej_attempts j)) q)"
  "all_jobs (email_worker q m) = mset q" "work_left (sms_worker p w) = sum_list (map (\<lambda>j. max 1 (sj_attempts j)) p)"
  "all_jobs (sms_worker p w) = mset p"
  by (simp_all add: work_left_def all_jobs_def email_worker_def sms_worker_def comp_def)


text \<open>A job whose mail the server never takes.\<close>

definition doomed_job :: email_job where
  "doomed_job =
     \<lparr>ej_name = SEND_TWO_FACTOR_CODE,
      ej_data = \<lparr>mp_code = ''1'', mp_email = ''a'', mp_userName = ''A'', mp_fromUsername = ''H'', mp_expiresIn = 10\<rparr>,
      ej_attempts = 3\<rparr>"

lemma doomed: "\<exists>x v. email_attempt (\<lambda>_ _. False, plain_ext 5, empty_world) doomed_job m = throw x v"
proof -
  have "\<not> isOtpMockEnabled (plain_ext 5)" by code_simp
  moreover have "\<exists>x v. send_mail (\<lambda>_ _. False) failure to subject html now w m = throw x v" for failure to subject html now w
    by (auto simp: send_mail_def and_then_def catching_def throw_def Let_def split: prod.split sum.split)
  ultimately show ?thesis
    by (simp add: email_attempt_def process_email_job_def doomed_job_def mail_sendTwoFactorCode_def)
qed

lemma doomed_run: "\<exists>k. (work_step email_attempt ^^ 3) (email_worker [doomed_job] m) k \<and> wk_failed k = [doomed_job]"
proof -
  let ?k = "\<lambda>ws v fs. \<lparr>wk_waiting = ws, wk_service = v, wk_done = [], wk_failed = fs\<rparr>"
  note retry = work_step.retried [where run = email_attempt and xs = "[]" and ys = "[]" and j = doomed_job]
  obtain x1 v1 where 1: "email_attempt (\<lambda>_ _. False, plain_ext 5, empty_world) doomed_job m = throw x1 v1" using doomed by blast
  obtain x2 v2 where 2: "email_attempt (\<lambda>_ _. False, plain_ext 5, empty_world) doomed_job v1 = throw x2 v2" using doomed by blast
  obtain x3 v3 where 3: "email_attempt (\<lambda>_ _. False, plain_ext 5, empty_world) doomed_job v2 = throw x3 v3" using doomed by blast
  have "email_worker [doomed_job] m = ?k [(doomed_job, 3)] m []" by (simp add: email_worker_def doomed_job_def)
  moreover have "work_step email_attempt (?k [(doomed_job, 3)] m []) (?k [(doomed_job, 2)] v1 [])"
    using retry [of "?k [(doomed_job, 3)] m []" 3, OF _ _ ] 1 by fastforce
  moreover have "work_step email_attempt (?k [(doomed_job, 2)] v1 []) (?k [(doomed_job, 1)] v2 [])"
    using retry [of "?k [(doomed_job, 2)] v1 []" 2] 2 by fastforce
  moreover have "work_step email_attempt (?k [(doomed_job, 1)] v2 []) (?k [] v3 [doomed_job])"
    using work_step.failed [where run = email_attempt and xs = "[]" and ys = "[]" and j = doomed_job,
        of "?k [(doomed_job, 1)] v2 []" 1] 3 by fastforce
  ultimately have "(work_step email_attempt ^^ 3) (email_worker [doomed_job] m) (?k [] v3 [doomed_job])"
    by (auto simp: eval_nat_numeral intro!: relcomppI)
  then show ?thesis by fastforce
qed

definition idle_mailer :: mailer where
  "idle_mailer = \<lparr>smtpConfigCache = None, outbox = []\<rparr>"


lemma sms_queue_drains:
  "(work_step process_sms_job ^^ n) (sms_worker q w) k \<Longrightarrow> n \<le> sum_list (map (\<lambda>j. max 1 (sj_attempts j)) q)"
  using texts.steps_bounded work_of_jobs(3) by fastforce

end
