(* ===== verification/Seed_Data.thy ===== *)
theory Seed_Data
  imports Entities
begin

text \<open>
  The tables the seeders of \<open>src/src/v1\<close> write, as they are listed there: modules, hotels, characteristics, room
  types, rooms, benefits and rates.  A table whose entries belong to hotels is the concatenation of one
  table per hotel.  Prices and areas are in hundredths.
\<close>

section \<open>Modules\<close>

text \<open>A module with its children.\<close>

record module_seed =
  ms_name :: string
  ms_code :: permission_module
  ms_children :: "(string \<times> permission_module) list"

definition modulesToSeed :: "module_seed list" where
  "modulesToSeed =
    [
     \<lparr>ms_name = ''Admin'', ms_code = M_ADMIN, ms_children = [(''Admin List'', M_ADMIN_LIST), (''Admin Role Permissions'', M_ADMIN_ROLE_PERMISSIONS)]\<rparr>,
     \<lparr>ms_name = ''Setting'', ms_code = M_SETTING, ms_children = [(''SMTP Setting'', M_SETTING_SMTP)]\<rparr>,
     \<lparr>ms_name = ''Application User'', ms_code = M_APPLICATION_USER, ms_children = [(''Application User List'', M_APPLICATION_USER_LIST)]\<rparr>,
     \<lparr>ms_name = ''Logs'', ms_code = M_LOGS, ms_children = [(''Activity Logs'', M_ACTIVITY_LOGS), (''Audit Logs'', M_AUDIT_LOGS)]\<rparr>,
     \<lparr>ms_name = ''Hotels'', ms_code = M_HOTELS, ms_children = [(''Hotel List'', M_HOTEL_LIST)]\<rparr>,
     \<lparr>ms_name = ''Rooms'', ms_code = M_ROOMS, ms_children = [(''Room List'', M_ROOM_LIST)]\<rparr>,
     \<lparr>ms_name = ''Room Types'', ms_code = M_ROOM_TYPES, ms_children = [(''Room Type List'', M_ROOM_TYPE_LIST)]\<rparr>,
     \<lparr>ms_name = ''Rate Options'', ms_code = M_RATE_OPTIONS, ms_children = [(''Rate Option List'', M_RATE_OPTION_LIST)]\<rparr>,
     \<lparr>ms_name = ''Bookings'', ms_code = M_BOOKINGS, ms_children = [(''Booking List'', M_BOOKING_LIST)]\<rparr>,
     \<lparr>ms_name = ''Payments'', ms_code = M_PAYMENTS, ms_children = [(''Payment List'', M_PAYMENT_LIST)]\<rparr>,
     \<lparr>ms_name = ''Profile'', ms_code = M_PROFILE, ms_children = []\<rparr>]"

section \<open>Hotels\<close>

record hotel_seed =
  hs_name :: string
  hs_description :: string
  hs_latitude :: string
  hs_longitude :: string
  hs_address :: string
  hs_city :: string
  hs_country :: string
  hs_postalCode :: string
  hs_checkInTime :: string
  hs_checkOutTime :: string
  hs_isActive :: bool

definition hotel_seeds :: "hotel_seed list" where
  "hotel_seeds =
    [
     \<lparr>hs_name = ''Yangon Grand Palace Hotel'', hs_description = ''Central Yangon hotel close to business districts.'', hs_latitude = ''16.84090000'', hs_longitude = ''96.17350000'', hs_address = ''No. 123 Sule Pagoda Road'', hs_city = ''Yangon'', hs_country = ''Myanmar'', hs_postalCode = ''11182'', hs_checkInTime = ''14:00'', hs_checkOutTime = ''12:00'', hs_isActive = True\<rparr>,
     \<lparr>hs_name = ''Mandalay Royal View Hotel'', hs_description = ''Comfortable stay near Mandalay Palace.'', hs_latitude = ''21.95880000'', hs_longitude = ''96.08910000'', hs_address = ''No. 45 26th Street'', hs_city = ''Mandalay'', hs_country = ''Myanmar'', hs_postalCode = ''05021'', hs_checkInTime = ''14:00'', hs_checkOutTime = ''12:00'', hs_isActive = True\<rparr>,
     \<lparr>hs_name = ''Bagan Heritage Resort'', hs_description = ''Resort-style hotel near the Bagan temple area.'', hs_latitude = ''21.17170000'', hs_longitude = ''94.85850000'', hs_address = ''Anawrahta Road, New Bagan'', hs_city = ''Bagan'', hs_country = ''Myanmar'', hs_postalCode = ''05231'', hs_checkInTime = ''15:00'', hs_checkOutTime = ''11:00'', hs_isActive = True\<rparr>,
     \<lparr>hs_name = ''Inle Lake Garden Hotel'', hs_description = ''Quiet lakeside hotel with garden views.'', hs_latitude = ''20.58630000'', hs_longitude = ''96.91020000'', hs_address = ''Khaung Daing Village'', hs_city = ''Nyaung Shwe'', hs_country = ''Myanmar'', hs_postalCode = ''06081'', hs_checkInTime = ''14:00'', hs_checkOutTime = ''12:00'', hs_isActive = True\<rparr>,
     \<lparr>hs_name = ''Ngapali Sunset Beach Hotel'', hs_description = ''Beachfront property currently unavailable for booking.'', hs_latitude = ''18.43680000'', hs_longitude = ''94.31960000'', hs_address = ''Mya Pyin Village, Ngapali Beach'', hs_city = ''Ngapali'', hs_country = ''Myanmar'', hs_postalCode = ''07172'', hs_checkInTime = ''14:00'', hs_checkOutTime = ''12:00'', hs_isActive = False\<rparr>]"

section \<open>Room characteristics\<close>

record named_seed =
  ns_name :: string
  ns_description :: string

definition characteristic_seeds :: "named_seed list" where
  "characteristic_seeds =
    [
     \<lparr>ns_name = ''Free Wi-Fi'', ns_description = ''Complimentary high-speed wireless internet access.''\<rparr>,
     \<lparr>ns_name = ''Wired Internet'', ns_description = ''High-speed wired LAN connection available in the room.''\<rparr>,
     \<lparr>ns_name = ''Air Conditioning'', ns_description = ''Individual climate control unit in the room.''\<rparr>,
     \<lparr>ns_name = ''Heating'', ns_description = ''In-room heating system for colder climates.''\<rparr>,
     \<lparr>ns_name = ''Ceiling Fan'', ns_description = ''Ceiling fan for additional air circulation.''\<rparr>,
     \<lparr>ns_name = ''Private Bathroom'', ns_description = ''En-suite bathroom exclusively for the room guests.''\<rparr>,
     \<lparr>ns_name = ''Bathtub'', ns_description = ''Full-size soaking or jetted bathtub.''\<rparr>,
     \<lparr>ns_name = ''Walk-in Shower'', ns_description = ''Separate walk-in shower with rain or power head.''\<rparr>,
     \<lparr>ns_name = ''Hot Water'', ns_description = ''24-hour hot water supply.''\<rparr>,
     \<lparr>ns_name = ''Flat-screen TV'', ns_description = ''Flat-screen television with cable or satellite channels.''\<rparr>,
     \<lparr>ns_name = ''Streaming Services'', ns_description = ''Smart TV with access to popular streaming platforms.''\<rparr>,
     \<lparr>ns_name = ''Work Desk'', ns_description = ''Dedicated desk and chair for working.''\<rparr>,
     \<lparr>ns_name = ''USB Charging Ports'', ns_description = ''Built-in USB charging ports at the bedside or desk.''\<rparr>,
     \<lparr>ns_name = ''In-room Safe'', ns_description = ''Electronic safe for storing valuables.''\<rparr>,
     \<lparr>ns_name = ''Smoke Detector'', ns_description = ''Compliant smoke detection system.''\<rparr>,
     \<lparr>ns_name = ''Blackout Curtains'', ns_description = ''Heavy blackout drapes for complete light blocking.''\<rparr>,
     \<lparr>ns_name = ''Sea View'', ns_description = ''Direct view of the sea or ocean from the room.''\<rparr>,
     \<lparr>ns_name = ''Pool View'', ns_description = ''Overlooks the hotel swimming pool.''\<rparr>,
     \<lparr>ns_name = ''City View'', ns_description = ''Panoramic view of the city skyline.''\<rparr>,
     \<lparr>ns_name = ''Garden View'', ns_description = ''Scenic view of hotel gardens or grounds.''\<rparr>,
     \<lparr>ns_name = ''Private Balcony'', ns_description = ''Private outdoor balcony or terrace.''\<rparr>,
     \<lparr>ns_name = ''Minibar'', ns_description = ''In-room minibar stocked with beverages and snacks.''\<rparr>,
     \<lparr>ns_name = ''Coffee & Tea Maker'', ns_description = ''Kettle or coffee machine with complimentary supplies.''\<rparr>,
     \<lparr>ns_name = ''Refrigerator'', ns_description = ''Dedicated mini-fridge for storing personal items.''\<rparr>,
     \<lparr>ns_name = ''Microwave'', ns_description = ''Compact microwave oven in the room.''\<rparr>,
     \<lparr>ns_name = ''Accessible Room'', ns_description = ''Room designed for guests with mobility impairments; wide doorways and grab bars.''\<rparr>,
     \<lparr>ns_name = ''Non-smoking'', ns_description = ''Designated non-smoking room.''\<rparr>,
     \<lparr>ns_name = ''Pet Friendly'', ns_description = ''Room that accommodates pets.''\<rparr>]"

section \<open>Room types\<close>

record room_type_seed =
  rts_hotelName :: string
  rts_name :: string
  rts_description :: string
  rts_maxOccupancy :: int
  rts_bedType :: string
  rts_areaInSquareFeet :: cents

definition room_type_seeds_yangon :: "room_type_seed list" where
  "room_type_seeds_yangon =
    [
     \<lparr>rts_hotelName = ''Yangon Grand Palace Hotel'', rts_name = ''Standard Twin'', rts_description = ''Comfortable twin room with city views and modern amenities.'', rts_maxOccupancy = 2, rts_bedType = ''Twin'', rts_areaInSquareFeet = 28000\<rparr>,
     \<lparr>rts_hotelName = ''Yangon Grand Palace Hotel'', rts_name = ''Deluxe King'', rts_description = ''Spacious king room with upgraded furnishings and city views.'', rts_maxOccupancy = 2, rts_bedType = ''King'', rts_areaInSquareFeet = 38000\<rparr>,
     \<lparr>rts_hotelName = ''Yangon Grand Palace Hotel'', rts_name = ''Executive Suite'', rts_description = ''Expansive suite with separate living area, premium amenities, and panoramic city views.'', rts_maxOccupancy = 3, rts_bedType = ''King'', rts_areaInSquareFeet = 65000\<rparr>]"

definition room_type_seeds_mandalay :: "room_type_seed list" where
  "room_type_seeds_mandalay =
    [
     \<lparr>rts_hotelName = ''Mandalay Royal View Hotel'', rts_name = ''Superior Twin'', rts_description = ''Well-appointed twin room with views toward Mandalay Palace.'', rts_maxOccupancy = 2, rts_bedType = ''Twin'', rts_areaInSquareFeet = 30000\<rparr>,
     \<lparr>rts_hotelName = ''Mandalay Royal View Hotel'', rts_name = ''Deluxe Double'', rts_description = ''Deluxe double room offering palace-view balcony and premium bath amenities.'', rts_maxOccupancy = 2, rts_bedType = ''Double'', rts_areaInSquareFeet = 35000\<rparr>,
     \<lparr>rts_hotelName = ''Mandalay Royal View Hotel'', rts_name = ''Family Room'', rts_description = ''Spacious family room with one king and one single bed, ideal for small families.'', rts_maxOccupancy = 4, rts_bedType = ''King + Single'', rts_areaInSquareFeet = 52000\<rparr>]"

definition room_type_seeds_bagan :: "room_type_seed list" where
  "room_type_seeds_bagan =
    [
     \<lparr>rts_hotelName = ''Bagan Heritage Resort'', rts_name = ''Garden Cottage'', rts_description = ''Standalone cottage surrounded by tropical gardens with traditional Bagan decor.'', rts_maxOccupancy = 2, rts_bedType = ''Queen'', rts_areaInSquareFeet = 40000\<rparr>,
     \<lparr>rts_hotelName = ''Bagan Heritage Resort'', rts_name = ''Temple View Villa'', rts_description = ''Private villa with a terrace offering direct views of ancient Bagan temples.'', rts_maxOccupancy = 2, rts_bedType = ''King'', rts_areaInSquareFeet = 58000\<rparr>,
     \<lparr>rts_hotelName = ''Bagan Heritage Resort'', rts_name = ''Pool Villa'', rts_description = ''Luxury villa with a private plunge pool and unobstructed temple panorama.'', rts_maxOccupancy = 3, rts_bedType = ''King'', rts_areaInSquareFeet = 90000\<rparr>]"

definition room_type_seeds_inle :: "room_type_seed list" where
  "room_type_seeds_inle =
    [
     \<lparr>rts_hotelName = ''Inle Lake Garden Hotel'', rts_name = ''Garden View Room'', rts_description = ''Serene room overlooking manicured hotel gardens.'', rts_maxOccupancy = 2, rts_bedType = ''Queen'', rts_areaInSquareFeet = 29000\<rparr>,
     \<lparr>rts_hotelName = ''Inle Lake Garden Hotel'', rts_name = ''Lake View Room'', rts_description = ''Elevated room with direct views across the calm waters of Inle Lake.'', rts_maxOccupancy = 2, rts_bedType = ''King'', rts_areaInSquareFeet = 34000\<rparr>,
     \<lparr>rts_hotelName = ''Inle Lake Garden Hotel'', rts_name = ''Over-water Bungalow'', rts_description = ''Iconic stilted bungalow built directly over the lake with glass floor panels.'', rts_maxOccupancy = 2, rts_bedType = ''King'', rts_areaInSquareFeet = 48000\<rparr>]"

definition room_type_seeds_ngapali :: "room_type_seed list" where
  "room_type_seeds_ngapali =
    [
     \<lparr>rts_hotelName = ''Ngapali Sunset Beach Hotel'', rts_name = ''Beach Front Room'', rts_description = ''Ground-floor room with direct beach access and ocean views.'', rts_maxOccupancy = 2, rts_bedType = ''King'', rts_areaInSquareFeet = 36000\<rparr>,
     \<lparr>rts_hotelName = ''Ngapali Sunset Beach Hotel'', rts_name = ''Ocean Suite'', rts_description = ''Elevated suite with wraparound terrace and uninterrupted Indian Ocean views.'', rts_maxOccupancy = 3, rts_bedType = ''King'', rts_areaInSquareFeet = 70000\<rparr>]"

definition room_type_seeds :: "room_type_seed list" where
  "room_type_seeds = room_type_seeds_yangon @ room_type_seeds_mandalay @ room_type_seeds_bagan @ room_type_seeds_inle @ room_type_seeds_ngapali"

section \<open>Characteristics of the room types\<close>

definition BASE :: "string list" where
  "BASE =
    [
     ''Free Wi-Fi'',
     ''Air Conditioning'',
     ''Flat-screen TV'',
     ''Private Bathroom'',
     ''Hot Water'',
     ''In-room Safe'',
     ''Smoke Detector'',
     ''Non-smoking'',
     ''Blackout Curtains'']"

record characteristic_mapping =
  cm_hotelName :: string
  cm_roomTypeName :: string
  cm_characteristicNames :: "string list"

definition characteristic_mappings_yangon :: "characteristic_mapping list" where
  "characteristic_mappings_yangon =
    [
     \<lparr>cm_hotelName = ''Yangon Grand Palace Hotel'', cm_roomTypeName = ''Standard Twin'', cm_characteristicNames = BASE @ [''Work Desk'', ''City View'']\<rparr>,
     \<lparr>cm_hotelName = ''Yangon Grand Palace Hotel'', cm_roomTypeName = ''Deluxe King'', cm_characteristicNames = BASE @ [''Work Desk'', ''Coffee & Tea Maker'', ''Minibar'', ''City View'', ''Bathtub'']\<rparr>,
     \<lparr>cm_hotelName = ''Yangon Grand Palace Hotel'', cm_roomTypeName = ''Executive Suite'', cm_characteristicNames = BASE @ [''Work Desk'', ''USB Charging Ports'', ''Coffee & Tea Maker'', ''Minibar'', ''Refrigerator'', ''City View'', ''Private Balcony'', ''Bathtub'', ''Walk-in Shower'']\<rparr>]"

definition characteristic_mappings_mandalay :: "characteristic_mapping list" where
  "characteristic_mappings_mandalay =
    [
     \<lparr>cm_hotelName = ''Mandalay Royal View Hotel'', cm_roomTypeName = ''Superior Twin'', cm_characteristicNames = BASE @ [''Work Desk'', ''City View'']\<rparr>,
     \<lparr>cm_hotelName = ''Mandalay Royal View Hotel'', cm_roomTypeName = ''Deluxe Double'', cm_characteristicNames = BASE @ [''Work Desk'', ''Coffee & Tea Maker'', ''Minibar'', ''City View'', ''Private Balcony'', ''Bathtub'']\<rparr>,
     \<lparr>cm_hotelName = ''Mandalay Royal View Hotel'', cm_roomTypeName = ''Family Room'', cm_characteristicNames = BASE @ [''Work Desk'', ''Coffee & Tea Maker'', ''Refrigerator'', ''City View'']\<rparr>]"

definition characteristic_mappings_bagan :: "characteristic_mapping list" where
  "characteristic_mappings_bagan =
    [
     \<lparr>cm_hotelName = ''Bagan Heritage Resort'', cm_roomTypeName = ''Garden Cottage'', cm_characteristicNames = BASE @ [''Coffee & Tea Maker'', ''Garden View'', ''Private Balcony'', ''Ceiling Fan'']\<rparr>,
     \<lparr>cm_hotelName = ''Bagan Heritage Resort'', cm_roomTypeName = ''Temple View Villa'', cm_characteristicNames = BASE @ [''Coffee & Tea Maker'', ''Minibar'', ''Garden View'', ''Private Balcony'', ''Bathtub'', ''Ceiling Fan'']\<rparr>,
     \<lparr>cm_hotelName = ''Bagan Heritage Resort'', cm_roomTypeName = ''Pool Villa'', cm_characteristicNames = BASE @ [''Coffee & Tea Maker'', ''Minibar'', ''Refrigerator'', ''Garden View'', ''Private Balcony'', ''Bathtub'', ''Walk-in Shower'', ''USB Charging Ports'', ''Pool View'']\<rparr>]"

definition characteristic_mappings_inle :: "characteristic_mapping list" where
  "characteristic_mappings_inle =
    [
     \<lparr>cm_hotelName = ''Inle Lake Garden Hotel'', cm_roomTypeName = ''Garden View Room'', cm_characteristicNames = BASE @ [''Coffee & Tea Maker'', ''Garden View'']\<rparr>,
     \<lparr>cm_hotelName = ''Inle Lake Garden Hotel'', cm_roomTypeName = ''Lake View Room'', cm_characteristicNames = BASE @ [''Coffee & Tea Maker'', ''Minibar'', ''Private Balcony'']\<rparr>,
     \<lparr>cm_hotelName = ''Inle Lake Garden Hotel'', cm_roomTypeName = ''Over-water Bungalow'', cm_characteristicNames = BASE @ [''Coffee & Tea Maker'', ''Minibar'', ''Refrigerator'', ''Private Balcony'', ''Bathtub'', ''Walk-in Shower'', ''USB Charging Ports'']\<rparr>]"

definition characteristic_mappings_ngapali :: "characteristic_mapping list" where
  "characteristic_mappings_ngapali =
    [
     \<lparr>cm_hotelName = ''Ngapali Sunset Beach Hotel'', cm_roomTypeName = ''Beach Front Room'', cm_characteristicNames = BASE @ [''Coffee & Tea Maker'', ''Minibar'', ''Sea View'', ''Private Balcony'']\<rparr>,
     \<lparr>cm_hotelName = ''Ngapali Sunset Beach Hotel'', cm_roomTypeName = ''Ocean Suite'', cm_characteristicNames = BASE @ [''Coffee & Tea Maker'', ''Minibar'', ''Refrigerator'', ''Sea View'', ''Private Balcony'', ''Bathtub'', ''Walk-in Shower'', ''USB Charging Ports'', ''Work Desk'']\<rparr>]"

definition characteristic_mappings :: "characteristic_mapping list" where
  "characteristic_mappings = characteristic_mappings_yangon @ characteristic_mappings_mandalay @ characteristic_mappings_bagan @ characteristic_mappings_inle @ characteristic_mappings_ngapali"

section \<open>Rooms\<close>

record room_seed =
  rms_hotelName :: string
  rms_roomTypeName :: string
  rms_roomNumber :: string
  rms_floorNumber :: int
  rms_status :: room_status

definition room_seeds_yangon :: "room_seed list" where
  "room_seeds_yangon =
    [
     \<lparr>rms_hotelName = ''Yangon Grand Palace Hotel'', rms_roomTypeName = ''Standard Twin'', rms_roomNumber = ''201'', rms_floorNumber = 2, rms_status = AVAILABLE\<rparr>,
     \<lparr>rms_hotelName = ''Yangon Grand Palace Hotel'', rms_roomTypeName = ''Standard Twin'', rms_roomNumber = ''202'', rms_floorNumber = 2, rms_status = AVAILABLE\<rparr>,
     \<lparr>rms_hotelName = ''Yangon Grand Palace Hotel'', rms_roomTypeName = ''Standard Twin'', rms_roomNumber = ''203'', rms_floorNumber = 2, rms_status = AVAILABLE\<rparr>,
     \<lparr>rms_hotelName = ''Yangon Grand Palace Hotel'', rms_roomTypeName = ''Standard Twin'', rms_roomNumber = ''204'', rms_floorNumber = 2, rms_status = MAINTENANCE\<rparr>,
     \<lparr>rms_hotelName = ''Yangon Grand Palace Hotel'', rms_roomTypeName = ''Standard Twin'', rms_roomNumber = ''301'', rms_floorNumber = 3, rms_status = AVAILABLE\<rparr>,
     \<lparr>rms_hotelName = ''Yangon Grand Palace Hotel'', rms_roomTypeName = ''Standard Twin'', rms_roomNumber = ''302'', rms_floorNumber = 3, rms_status = AVAILABLE\<rparr>,
     \<lparr>rms_hotelName = ''Yangon Grand Palace Hotel'', rms_roomTypeName = ''Deluxe King'', rms_roomNumber = ''501'', rms_floorNumber = 5, rms_status = AVAILABLE\<rparr>,
     \<lparr>rms_hotelName = ''Yangon Grand Palace Hotel'', rms_roomTypeName = ''Deluxe King'', rms_roomNumber = ''502'', rms_floorNumber = 5, rms_status = AVAILABLE\<rparr>,
     \<lparr>rms_hotelName = ''Yangon Grand Palace Hotel'', rms_roomTypeName = ''Deluxe King'', rms_roomNumber = ''503'', rms_floorNumber = 5, rms_status = AVAILABLE\<rparr>,
     \<lparr>rms_hotelName = ''Yangon Grand Palace Hotel'', rms_roomTypeName = ''Deluxe King'', rms_roomNumber = ''601'', rms_floorNumber = 6, rms_status = AVAILABLE\<rparr>,
     \<lparr>rms_hotelName = ''Yangon Grand Palace Hotel'', rms_roomTypeName = ''Deluxe King'', rms_roomNumber = ''602'', rms_floorNumber = 6, rms_status = OCCUPIED\<rparr>,
     \<lparr>rms_hotelName = ''Yangon Grand Palace Hotel'', rms_roomTypeName = ''Executive Suite'', rms_roomNumber = ''1001'', rms_floorNumber = 10, rms_status = AVAILABLE\<rparr>,
     \<lparr>rms_hotelName = ''Yangon Grand Palace Hotel'', rms_roomTypeName = ''Executive Suite'', rms_roomNumber = ''1002'', rms_floorNumber = 10, rms_status = AVAILABLE\<rparr>]"

definition room_seeds_mandalay :: "room_seed list" where
  "room_seeds_mandalay =
    [
     \<lparr>rms_hotelName = ''Mandalay Royal View Hotel'', rms_roomTypeName = ''Superior Twin'', rms_roomNumber = ''101'', rms_floorNumber = 1, rms_status = AVAILABLE\<rparr>,
     \<lparr>rms_hotelName = ''Mandalay Royal View Hotel'', rms_roomTypeName = ''Superior Twin'', rms_roomNumber = ''102'', rms_floorNumber = 1, rms_status = AVAILABLE\<rparr>,
     \<lparr>rms_hotelName = ''Mandalay Royal View Hotel'', rms_roomTypeName = ''Superior Twin'', rms_roomNumber = ''103'', rms_floorNumber = 1, rms_status = AVAILABLE\<rparr>,
     \<lparr>rms_hotelName = ''Mandalay Royal View Hotel'', rms_roomTypeName = ''Superior Twin'', rms_roomNumber = ''201'', rms_floorNumber = 2, rms_status = AVAILABLE\<rparr>,
     \<lparr>rms_hotelName = ''Mandalay Royal View Hotel'', rms_roomTypeName = ''Superior Twin'', rms_roomNumber = ''202'', rms_floorNumber = 2, rms_status = MAINTENANCE\<rparr>,
     \<lparr>rms_hotelName = ''Mandalay Royal View Hotel'', rms_roomTypeName = ''Deluxe Double'', rms_roomNumber = ''301'', rms_floorNumber = 3, rms_status = AVAILABLE\<rparr>,
     \<lparr>rms_hotelName = ''Mandalay Royal View Hotel'', rms_roomTypeName = ''Deluxe Double'', rms_roomNumber = ''302'', rms_floorNumber = 3, rms_status = AVAILABLE\<rparr>,
     \<lparr>rms_hotelName = ''Mandalay Royal View Hotel'', rms_roomTypeName = ''Deluxe Double'', rms_roomNumber = ''303'', rms_floorNumber = 3, rms_status = AVAILABLE\<rparr>,
     \<lparr>rms_hotelName = ''Mandalay Royal View Hotel'', rms_roomTypeName = ''Deluxe Double'', rms_roomNumber = ''401'', rms_floorNumber = 4, rms_status = OCCUPIED\<rparr>,
     \<lparr>rms_hotelName = ''Mandalay Royal View Hotel'', rms_roomTypeName = ''Family Room'', rms_roomNumber = ''501'', rms_floorNumber = 5, rms_status = AVAILABLE\<rparr>,
     \<lparr>rms_hotelName = ''Mandalay Royal View Hotel'', rms_roomTypeName = ''Family Room'', rms_roomNumber = ''502'', rms_floorNumber = 5, rms_status = AVAILABLE\<rparr>]"

definition room_seeds_bagan :: "room_seed list" where
  "room_seeds_bagan =
    [
     \<lparr>rms_hotelName = ''Bagan Heritage Resort'', rms_roomTypeName = ''Garden Cottage'', rms_roomNumber = ''GC-01'', rms_floorNumber = 1, rms_status = AVAILABLE\<rparr>,
     \<lparr>rms_hotelName = ''Bagan Heritage Resort'', rms_roomTypeName = ''Garden Cottage'', rms_roomNumber = ''GC-02'', rms_floorNumber = 1, rms_status = AVAILABLE\<rparr>,
     \<lparr>rms_hotelName = ''Bagan Heritage Resort'', rms_roomTypeName = ''Garden Cottage'', rms_roomNumber = ''GC-03'', rms_floorNumber = 1, rms_status = AVAILABLE\<rparr>,
     \<lparr>rms_hotelName = ''Bagan Heritage Resort'', rms_roomTypeName = ''Garden Cottage'', rms_roomNumber = ''GC-04'', rms_floorNumber = 1, rms_status = MAINTENANCE\<rparr>,
     \<lparr>rms_hotelName = ''Bagan Heritage Resort'', rms_roomTypeName = ''Temple View Villa'', rms_roomNumber = ''TV-01'', rms_floorNumber = 1, rms_status = AVAILABLE\<rparr>,
     \<lparr>rms_hotelName = ''Bagan Heritage Resort'', rms_roomTypeName = ''Temple View Villa'', rms_roomNumber = ''TV-02'', rms_floorNumber = 1, rms_status = AVAILABLE\<rparr>,
     \<lparr>rms_hotelName = ''Bagan Heritage Resort'', rms_roomTypeName = ''Temple View Villa'', rms_roomNumber = ''TV-03'', rms_floorNumber = 1, rms_status = AVAILABLE\<rparr>,
     \<lparr>rms_hotelName = ''Bagan Heritage Resort'', rms_roomTypeName = ''Pool Villa'', rms_roomNumber = ''PV-01'', rms_floorNumber = 1, rms_status = AVAILABLE\<rparr>,
     \<lparr>rms_hotelName = ''Bagan Heritage Resort'', rms_roomTypeName = ''Pool Villa'', rms_roomNumber = ''PV-02'', rms_floorNumber = 1, rms_status = AVAILABLE\<rparr>]"

definition room_seeds_inle :: "room_seed list" where
  "room_seeds_inle =
    [
     \<lparr>rms_hotelName = ''Inle Lake Garden Hotel'', rms_roomTypeName = ''Garden View Room'', rms_roomNumber = ''101'', rms_floorNumber = 1, rms_status = AVAILABLE\<rparr>,
     \<lparr>rms_hotelName = ''Inle Lake Garden Hotel'', rms_roomTypeName = ''Garden View Room'', rms_roomNumber = ''102'', rms_floorNumber = 1, rms_status = AVAILABLE\<rparr>,
     \<lparr>rms_hotelName = ''Inle Lake Garden Hotel'', rms_roomTypeName = ''Garden View Room'', rms_roomNumber = ''103'', rms_floorNumber = 1, rms_status = AVAILABLE\<rparr>,
     \<lparr>rms_hotelName = ''Inle Lake Garden Hotel'', rms_roomTypeName = ''Garden View Room'', rms_roomNumber = ''201'', rms_floorNumber = 2, rms_status = AVAILABLE\<rparr>,
     \<lparr>rms_hotelName = ''Inle Lake Garden Hotel'', rms_roomTypeName = ''Lake View Room'', rms_roomNumber = ''301'', rms_floorNumber = 3, rms_status = AVAILABLE\<rparr>,
     \<lparr>rms_hotelName = ''Inle Lake Garden Hotel'', rms_roomTypeName = ''Lake View Room'', rms_roomNumber = ''302'', rms_floorNumber = 3, rms_status = AVAILABLE\<rparr>,
     \<lparr>rms_hotelName = ''Inle Lake Garden Hotel'', rms_roomTypeName = ''Lake View Room'', rms_roomNumber = ''303'', rms_floorNumber = 3, rms_status = OCCUPIED\<rparr>,
     \<lparr>rms_hotelName = ''Inle Lake Garden Hotel'', rms_roomTypeName = ''Over-water Bungalow'', rms_roomNumber = ''OW-01'', rms_floorNumber = 1, rms_status = AVAILABLE\<rparr>,
     \<lparr>rms_hotelName = ''Inle Lake Garden Hotel'', rms_roomTypeName = ''Over-water Bungalow'', rms_roomNumber = ''OW-02'', rms_floorNumber = 1, rms_status = AVAILABLE\<rparr>,
     \<lparr>rms_hotelName = ''Inle Lake Garden Hotel'', rms_roomTypeName = ''Over-water Bungalow'', rms_roomNumber = ''OW-03'', rms_floorNumber = 1, rms_status = MAINTENANCE\<rparr>]"

definition room_seeds_ngapali :: "room_seed list" where
  "room_seeds_ngapali =
    [
     \<lparr>rms_hotelName = ''Ngapali Sunset Beach Hotel'', rms_roomTypeName = ''Beach Front Room'', rms_roomNumber = ''BF-01'', rms_floorNumber = 1, rms_status = OUT_OF_SERVICE\<rparr>,
     \<lparr>rms_hotelName = ''Ngapali Sunset Beach Hotel'', rms_roomTypeName = ''Beach Front Room'', rms_roomNumber = ''BF-02'', rms_floorNumber = 1, rms_status = OUT_OF_SERVICE\<rparr>,
     \<lparr>rms_hotelName = ''Ngapali Sunset Beach Hotel'', rms_roomTypeName = ''Beach Front Room'', rms_roomNumber = ''BF-03'', rms_floorNumber = 1, rms_status = OUT_OF_SERVICE\<rparr>,
     \<lparr>rms_hotelName = ''Ngapali Sunset Beach Hotel'', rms_roomTypeName = ''Ocean Suite'', rms_roomNumber = ''OS-01'', rms_floorNumber = 2, rms_status = OUT_OF_SERVICE\<rparr>,
     \<lparr>rms_hotelName = ''Ngapali Sunset Beach Hotel'', rms_roomTypeName = ''Ocean Suite'', rms_roomNumber = ''OS-02'', rms_floorNumber = 2, rms_status = OUT_OF_SERVICE\<rparr>]"

definition room_seeds :: "room_seed list" where
  "room_seeds = room_seeds_yangon @ room_seeds_mandalay @ room_seeds_bagan @ room_seeds_inle @ room_seeds_ngapali"

section \<open>Benefits\<close>

definition benefit_seeds :: "named_seed list" where
  "benefit_seeds =
    [
     \<lparr>ns_name = ''Breakfast Included'', ns_description = ''Daily buffet or set breakfast for all guests in the room.''\<rparr>,
     \<lparr>ns_name = ''Half Board'', ns_description = ''Breakfast and dinner included in the rate.''\<rparr>,
     \<lparr>ns_name = ''Full Board'', ns_description = ''Breakfast, lunch, and dinner included.''\<rparr>,
     \<lparr>ns_name = ''All Inclusive'', ns_description = ''All meals, snacks, and selected beverages included throughout the stay.''\<rparr>,
     \<lparr>ns_name = ''Airport Transfer (One-way)'', ns_description = ''Complimentary one-way airport pickup or drop-off.''\<rparr>,
     \<lparr>ns_name = ''Airport Transfer (Return)'', ns_description = ''Complimentary return airport transfers.''\<rparr>,
     \<lparr>ns_name = ''Free Parking'', ns_description = ''On-site parking at no extra charge.''\<rparr>,
     \<lparr>ns_name = ''Spa Access'', ns_description = ''Complimentary access to the hotel spa facilities.''\<rparr>,
     \<lparr>ns_name = ''Gym Access'', ns_description = ''Unlimited use of the fitness centre during the stay.''\<rparr>,
     \<lparr>ns_name = ''Pool Access'', ns_description = ''Access to hotel swimming pool(s).''\<rparr>,
     \<lparr>ns_name = ''Early Check-in'', ns_description = ''Guaranteed early check-in subject to availability.''\<rparr>,
     \<lparr>ns_name = ''Late Check-out'', ns_description = ''Guaranteed late check-out up to 2 PM.''\<rparr>,
     \<lparr>ns_name = ''Room Upgrade'', ns_description = ''Complimentary room upgrade on arrival, subject to availability.''\<rparr>,
     \<lparr>ns_name = ''Welcome Amenity'', ns_description = ''Complimentary welcome gift or amenity upon arrival.''\<rparr>,
     \<lparr>ns_name = ''Turndown Service'', ns_description = ''Nightly turndown service with chocolates or amenities.''\<rparr>,
     \<lparr>ns_name = ''Daily Housekeeping'', ns_description = ''Full daily room cleaning service.''\<rparr>,
     \<lparr>ns_name = ''Free Wi-Fi'', ns_description = ''Complimentary high-speed internet throughout the property.''\<rparr>,
     \<lparr>ns_name = ''Loyalty Points'', ns_description = ''Rate earns hotel loyalty programme points.''\<rparr>,
     \<lparr>ns_name = ''Flexible Cancellation'', ns_description = ''Free cancellation up to the deadline specified in the policy.''\<rparr>,
     \<lparr>ns_name = ''No Prepayment Required'', ns_description = ''Pay at the property; no upfront charge.''\<rparr>]"

section \<open>Rates\<close>

record rate_option_seed =
  ros_hotelName :: string
  ros_roomTypeName :: string
  ros_name :: string
  ros_description :: string
  ros_pricePerNight :: cents
  ros_currency :: currency
  ros_isRefundable :: bool
  ros_cancellationPolicy :: cancellation_policy
  ros_deadlineHours :: "int option"

definition rate_option_seeds_yangon :: "rate_option_seed list" where
  "rate_option_seeds_yangon =
    [
     \<lparr>ros_hotelName = ''Yangon Grand Palace Hotel'', ros_roomTypeName = ''Standard Twin'', ros_name = ''Room Only'', ros_description = ''No meals included. Free cancellation up to 48 hours before check-in.'', ros_pricePerNight = 7500, ros_currency = USD, ros_isRefundable = True, ros_cancellationPolicy = FREE_CANCELLATION_UNTIL_DEADLINE, ros_deadlineHours = Some 48\<rparr>,
     \<lparr>ros_hotelName = ''Yangon Grand Palace Hotel'', ros_roomTypeName = ''Standard Twin'', ros_name = ''Non-Refundable'', ros_description = ''Best price, no cancellation or modification allowed.'', ros_pricePerNight = 6000, ros_currency = USD, ros_isRefundable = False, ros_cancellationPolicy = NON_REFUNDABLE, ros_deadlineHours = None\<rparr>,
     \<lparr>ros_hotelName = ''Yangon Grand Palace Hotel'', ros_roomTypeName = ''Deluxe King'', ros_name = ''Bed & Breakfast'', ros_description = ''Daily breakfast for two included. Free cancellation up to 72 hours.'', ros_pricePerNight = 13000, ros_currency = USD, ros_isRefundable = True, ros_cancellationPolicy = FREE_CANCELLATION_UNTIL_DEADLINE, ros_deadlineHours = Some 72\<rparr>,
     \<lparr>ros_hotelName = ''Yangon Grand Palace Hotel'', ros_roomTypeName = ''Deluxe King'', ros_name = ''Non-Refundable'', ros_description = ''Best price, no cancellation or modification allowed.'', ros_pricePerNight = 10500, ros_currency = USD, ros_isRefundable = False, ros_cancellationPolicy = NON_REFUNDABLE, ros_deadlineHours = None\<rparr>,
     \<lparr>ros_hotelName = ''Yangon Grand Palace Hotel'', ros_roomTypeName = ''Executive Suite'', ros_name = ''Suite with Breakfast'', ros_description = ''Full breakfast and evening cocktails included. Free cancellation up to 7 days.'', ros_pricePerNight = 28000, ros_currency = USD, ros_isRefundable = True, ros_cancellationPolicy = FREE_CANCELLATION_UNTIL_DEADLINE, ros_deadlineHours = Some 168\<rparr>,
     \<lparr>ros_hotelName = ''Yangon Grand Palace Hotel'', ros_roomTypeName = ''Executive Suite'', ros_name = ''Non-Refundable Suite'', ros_description = ''Best price suite. No cancellation or modification.'', ros_pricePerNight = 23000, ros_currency = USD, ros_isRefundable = False, ros_cancellationPolicy = NON_REFUNDABLE, ros_deadlineHours = None\<rparr>]"

definition rate_option_seeds_mandalay :: "rate_option_seed list" where
  "rate_option_seeds_mandalay =
    [
     \<lparr>ros_hotelName = ''Mandalay Royal View Hotel'', ros_roomTypeName = ''Superior Twin'', ros_name = ''Room Only'', ros_description = ''No meals. Free cancellation any time.'', ros_pricePerNight = 6500, ros_currency = USD, ros_isRefundable = True, ros_cancellationPolicy = FREE_CANCELLATION, ros_deadlineHours = None\<rparr>,
     \<lparr>ros_hotelName = ''Mandalay Royal View Hotel'', ros_roomTypeName = ''Superior Twin'', ros_name = ''Non-Refundable'', ros_description = ''Lowest rate, strict no-cancellation policy.'', ros_pricePerNight = 5000, ros_currency = USD, ros_isRefundable = False, ros_cancellationPolicy = NON_REFUNDABLE, ros_deadlineHours = None\<rparr>,
     \<lparr>ros_hotelName = ''Mandalay Royal View Hotel'', ros_roomTypeName = ''Deluxe Double'', ros_name = ''Bed & Breakfast'', ros_description = ''Breakfast included. Free cancellation up to 48 hours.'', ros_pricePerNight = 11000, ros_currency = USD, ros_isRefundable = True, ros_cancellationPolicy = FREE_CANCELLATION_UNTIL_DEADLINE, ros_deadlineHours = Some 48\<rparr>,
     \<lparr>ros_hotelName = ''Mandalay Royal View Hotel'', ros_roomTypeName = ''Deluxe Double'', ros_name = ''Non-Refundable'', ros_description = ''Best available rate, no modification allowed.'', ros_pricePerNight = 8800, ros_currency = USD, ros_isRefundable = False, ros_cancellationPolicy = NON_REFUNDABLE, ros_deadlineHours = None\<rparr>,
     \<lparr>ros_hotelName = ''Mandalay Royal View Hotel'', ros_roomTypeName = ''Family Room'', ros_name = ''Family Bed & Breakfast'', ros_description = ''Breakfast for all guests. Free cancellation up to 72 hours.'', ros_pricePerNight = 17000, ros_currency = USD, ros_isRefundable = True, ros_cancellationPolicy = FREE_CANCELLATION_UNTIL_DEADLINE, ros_deadlineHours = Some 72\<rparr>]"

definition rate_option_seeds_bagan :: "rate_option_seed list" where
  "rate_option_seeds_bagan =
    [
     \<lparr>ros_hotelName = ''Bagan Heritage Resort'', ros_roomTypeName = ''Garden Cottage'', ros_name = ''Cottage Only'', ros_description = ''No meals. Free cancellation any time.'', ros_pricePerNight = 9500, ros_currency = USD, ros_isRefundable = True, ros_cancellationPolicy = FREE_CANCELLATION, ros_deadlineHours = None\<rparr>,
     \<lparr>ros_hotelName = ''Bagan Heritage Resort'', ros_roomTypeName = ''Garden Cottage'', ros_name = ''Non-Refundable'', ros_description = ''Best rate, no cancellation.'', ros_pricePerNight = 7800, ros_currency = USD, ros_isRefundable = False, ros_cancellationPolicy = NON_REFUNDABLE, ros_deadlineHours = None\<rparr>,
     \<lparr>ros_hotelName = ''Bagan Heritage Resort'', ros_roomTypeName = ''Temple View Villa'', ros_name = ''Half Board'', ros_description = ''Breakfast and dinner included. Free cancellation up to 5 days.'', ros_pricePerNight = 21000, ros_currency = USD, ros_isRefundable = True, ros_cancellationPolicy = FREE_CANCELLATION_UNTIL_DEADLINE, ros_deadlineHours = Some 120\<rparr>,
     \<lparr>ros_hotelName = ''Bagan Heritage Resort'', ros_roomTypeName = ''Temple View Villa'', ros_name = ''Non-Refundable'', ros_description = ''Best rate villa. No cancellation.'', ros_pricePerNight = 17500, ros_currency = USD, ros_isRefundable = False, ros_cancellationPolicy = NON_REFUNDABLE, ros_deadlineHours = None\<rparr>,
     \<lparr>ros_hotelName = ''Bagan Heritage Resort'', ros_roomTypeName = ''Pool Villa'', ros_name = ''All Inclusive'', ros_description = ''All meals, beverages, and resort activities included. Free cancellation up to 7 days.'', ros_pricePerNight = 42000, ros_currency = USD, ros_isRefundable = True, ros_cancellationPolicy = FREE_CANCELLATION_UNTIL_DEADLINE, ros_deadlineHours = Some 168\<rparr>,
     \<lparr>ros_hotelName = ''Bagan Heritage Resort'', ros_roomTypeName = ''Pool Villa'', ros_name = ''Non-Refundable'', ros_description = ''Best rate pool villa. No cancellation or modification.'', ros_pricePerNight = 35000, ros_currency = USD, ros_isRefundable = False, ros_cancellationPolicy = NON_REFUNDABLE, ros_deadlineHours = None\<rparr>]"

definition rate_option_seeds_inle :: "rate_option_seed list" where
  "rate_option_seeds_inle =
    [
     \<lparr>ros_hotelName = ''Inle Lake Garden Hotel'', ros_roomTypeName = ''Garden View Room'', ros_name = ''Room Only'', ros_description = ''No meals. Free cancellation any time before check-in.'', ros_pricePerNight = 8000, ros_currency = USD, ros_isRefundable = True, ros_cancellationPolicy = FREE_CANCELLATION, ros_deadlineHours = None\<rparr>,
     \<lparr>ros_hotelName = ''Inle Lake Garden Hotel'', ros_roomTypeName = ''Garden View Room'', ros_name = ''Non-Refundable'', ros_description = ''Best rate. No cancellation.'', ros_pricePerNight = 6500, ros_currency = USD, ros_isRefundable = False, ros_cancellationPolicy = NON_REFUNDABLE, ros_deadlineHours = None\<rparr>,
     \<lparr>ros_hotelName = ''Inle Lake Garden Hotel'', ros_roomTypeName = ''Lake View Room'', ros_name = ''Bed & Breakfast'', ros_description = ''Breakfast for two included. Free cancellation up to 48 hours.'', ros_pricePerNight = 14000, ros_currency = USD, ros_isRefundable = True, ros_cancellationPolicy = FREE_CANCELLATION_UNTIL_DEADLINE, ros_deadlineHours = Some 48\<rparr>,
     \<lparr>ros_hotelName = ''Inle Lake Garden Hotel'', ros_roomTypeName = ''Lake View Room'', ros_name = ''Non-Refundable'', ros_description = ''Best available rate. No modification.'', ros_pricePerNight = 11500, ros_currency = USD, ros_isRefundable = False, ros_cancellationPolicy = NON_REFUNDABLE, ros_deadlineHours = None\<rparr>,
     \<lparr>ros_hotelName = ''Inle Lake Garden Hotel'', ros_roomTypeName = ''Over-water Bungalow'', ros_name = ''Half Board'', ros_description = ''Breakfast and dinner. Free cancellation up to 7 days.'', ros_pricePerNight = 32000, ros_currency = USD, ros_isRefundable = True, ros_cancellationPolicy = FREE_CANCELLATION_UNTIL_DEADLINE, ros_deadlineHours = Some 168\<rparr>,
     \<lparr>ros_hotelName = ''Inle Lake Garden Hotel'', ros_roomTypeName = ''Over-water Bungalow'', ros_name = ''Non-Refundable'', ros_description = ''Best bungalow rate. No cancellation.'', ros_pricePerNight = 26500, ros_currency = USD, ros_isRefundable = False, ros_cancellationPolicy = NON_REFUNDABLE, ros_deadlineHours = None\<rparr>]"

definition rate_option_seeds_ngapali :: "rate_option_seed list" where
  "rate_option_seeds_ngapali =
    [
     \<lparr>ros_hotelName = ''Ngapali Sunset Beach Hotel'', ros_roomTypeName = ''Beach Front Room'', ros_name = ''Room Only'', ros_description = ''No meals. Free cancellation any time.'', ros_pricePerNight = 16000, ros_currency = USD, ros_isRefundable = True, ros_cancellationPolicy = FREE_CANCELLATION, ros_deadlineHours = None\<rparr>,
     \<lparr>ros_hotelName = ''Ngapali Sunset Beach Hotel'', ros_roomTypeName = ''Beach Front Room'', ros_name = ''Non-Refundable'', ros_description = ''Best beach room rate. No cancellation.'', ros_pricePerNight = 13000, ros_currency = USD, ros_isRefundable = False, ros_cancellationPolicy = NON_REFUNDABLE, ros_deadlineHours = None\<rparr>,
     \<lparr>ros_hotelName = ''Ngapali Sunset Beach Hotel'', ros_roomTypeName = ''Ocean Suite'', ros_name = ''All Inclusive'', ros_description = ''All meals and resort facilities. Free cancellation up to 7 days.'', ros_pricePerNight = 50000, ros_currency = USD, ros_isRefundable = True, ros_cancellationPolicy = FREE_CANCELLATION_UNTIL_DEADLINE, ros_deadlineHours = Some 168\<rparr>,
     \<lparr>ros_hotelName = ''Ngapali Sunset Beach Hotel'', ros_roomTypeName = ''Ocean Suite'', ros_name = ''Non-Refundable'', ros_description = ''Best ocean suite rate. No cancellation.'', ros_pricePerNight = 42000, ros_currency = USD, ros_isRefundable = False, ros_cancellationPolicy = NON_REFUNDABLE, ros_deadlineHours = None\<rparr>]"

definition rate_option_seeds :: "rate_option_seed list" where
  "rate_option_seeds = rate_option_seeds_yangon @ rate_option_seeds_mandalay @ rate_option_seeds_bagan @ rate_option_seeds_inle @ rate_option_seeds_ngapali"

section \<open>Benefits of the rates\<close>

record benefit_mapping =
  bm_hotelName :: string
  bm_roomTypeName :: string
  bm_rateOptionName :: string
  bm_benefitNames :: "string list"

definition benefit_mappings_yangon :: "benefit_mapping list" where
  "benefit_mappings_yangon =
    [
     \<lparr>bm_hotelName = ''Yangon Grand Palace Hotel'', bm_roomTypeName = ''Standard Twin'', bm_rateOptionName = ''Room Only'', bm_benefitNames = [''Free Wi-Fi'', ''Flexible Cancellation'']\<rparr>,
     \<lparr>bm_hotelName = ''Yangon Grand Palace Hotel'', bm_roomTypeName = ''Standard Twin'', bm_rateOptionName = ''Non-Refundable'', bm_benefitNames = [''Free Wi-Fi'']\<rparr>,
     \<lparr>bm_hotelName = ''Yangon Grand Palace Hotel'', bm_roomTypeName = ''Deluxe King'', bm_rateOptionName = ''Bed & Breakfast'', bm_benefitNames = [''Free Wi-Fi'', ''Breakfast Included'', ''Flexible Cancellation'']\<rparr>,
     \<lparr>bm_hotelName = ''Yangon Grand Palace Hotel'', bm_roomTypeName = ''Deluxe King'', bm_rateOptionName = ''Non-Refundable'', bm_benefitNames = [''Free Wi-Fi'', ''Breakfast Included'']\<rparr>,
     \<lparr>bm_hotelName = ''Yangon Grand Palace Hotel'', bm_roomTypeName = ''Executive Suite'', bm_rateOptionName = ''Suite with Breakfast'', bm_benefitNames = [''Free Wi-Fi'', ''Breakfast Included'', ''Welcome Amenity'', ''Room Upgrade'', ''Late Check-out'', ''Flexible Cancellation'']\<rparr>,
     \<lparr>bm_hotelName = ''Yangon Grand Palace Hotel'', bm_roomTypeName = ''Executive Suite'', bm_rateOptionName = ''Non-Refundable Suite'', bm_benefitNames = [''Free Wi-Fi'', ''Breakfast Included'', ''Welcome Amenity'']\<rparr>]"

definition benefit_mappings_mandalay :: "benefit_mapping list" where
  "benefit_mappings_mandalay =
    [
     \<lparr>bm_hotelName = ''Mandalay Royal View Hotel'', bm_roomTypeName = ''Superior Twin'', bm_rateOptionName = ''Room Only'', bm_benefitNames = [''Free Wi-Fi'', ''Flexible Cancellation'', ''No Prepayment Required'']\<rparr>,
     \<lparr>bm_hotelName = ''Mandalay Royal View Hotel'', bm_roomTypeName = ''Superior Twin'', bm_rateOptionName = ''Non-Refundable'', bm_benefitNames = [''Free Wi-Fi'']\<rparr>,
     \<lparr>bm_hotelName = ''Mandalay Royal View Hotel'', bm_roomTypeName = ''Deluxe Double'', bm_rateOptionName = ''Bed & Breakfast'', bm_benefitNames = [''Free Wi-Fi'', ''Breakfast Included'', ''Flexible Cancellation'']\<rparr>,
     \<lparr>bm_hotelName = ''Mandalay Royal View Hotel'', bm_roomTypeName = ''Deluxe Double'', bm_rateOptionName = ''Non-Refundable'', bm_benefitNames = [''Free Wi-Fi'', ''Breakfast Included'']\<rparr>,
     \<lparr>bm_hotelName = ''Mandalay Royal View Hotel'', bm_roomTypeName = ''Family Room'', bm_rateOptionName = ''Family Bed & Breakfast'', bm_benefitNames = [''Free Wi-Fi'', ''Breakfast Included'', ''Flexible Cancellation'', ''Free Parking'']\<rparr>]"

definition benefit_mappings_bagan :: "benefit_mapping list" where
  "benefit_mappings_bagan =
    [
     \<lparr>bm_hotelName = ''Bagan Heritage Resort'', bm_roomTypeName = ''Garden Cottage'', bm_rateOptionName = ''Cottage Only'', bm_benefitNames = [''Free Wi-Fi'', ''Flexible Cancellation'', ''No Prepayment Required'']\<rparr>,
     \<lparr>bm_hotelName = ''Bagan Heritage Resort'', bm_roomTypeName = ''Garden Cottage'', bm_rateOptionName = ''Non-Refundable'', bm_benefitNames = [''Free Wi-Fi'']\<rparr>,
     \<lparr>bm_hotelName = ''Bagan Heritage Resort'', bm_roomTypeName = ''Temple View Villa'', bm_rateOptionName = ''Half Board'', bm_benefitNames = [''Free Wi-Fi'', ''Breakfast Included'', ''Half Board'', ''Flexible Cancellation'', ''Daily Housekeeping'']\<rparr>,
     \<lparr>bm_hotelName = ''Bagan Heritage Resort'', bm_roomTypeName = ''Temple View Villa'', bm_rateOptionName = ''Non-Refundable'', bm_benefitNames = [''Free Wi-Fi'', ''Breakfast Included'', ''Daily Housekeeping'']\<rparr>,
     \<lparr>bm_hotelName = ''Bagan Heritage Resort'', bm_roomTypeName = ''Pool Villa'', bm_rateOptionName = ''All Inclusive'', bm_benefitNames = [''Free Wi-Fi'', ''All Inclusive'', ''Pool Access'', ''Spa Access'', ''Airport Transfer (Return)'', ''Welcome Amenity'', ''Late Check-out'', ''Early Check-in'', ''Flexible Cancellation'', ''Daily Housekeeping'', ''Turndown Service'']\<rparr>,
     \<lparr>bm_hotelName = ''Bagan Heritage Resort'', bm_roomTypeName = ''Pool Villa'', bm_rateOptionName = ''Non-Refundable'', bm_benefitNames = [''Free Wi-Fi'', ''Breakfast Included'', ''Pool Access'', ''Welcome Amenity'', ''Daily Housekeeping'']\<rparr>]"

definition benefit_mappings_inle :: "benefit_mapping list" where
  "benefit_mappings_inle =
    [
     \<lparr>bm_hotelName = ''Inle Lake Garden Hotel'', bm_roomTypeName = ''Garden View Room'', bm_rateOptionName = ''Room Only'', bm_benefitNames = [''Free Wi-Fi'', ''Flexible Cancellation'', ''No Prepayment Required'']\<rparr>,
     \<lparr>bm_hotelName = ''Inle Lake Garden Hotel'', bm_roomTypeName = ''Garden View Room'', bm_rateOptionName = ''Non-Refundable'', bm_benefitNames = [''Free Wi-Fi'']\<rparr>,
     \<lparr>bm_hotelName = ''Inle Lake Garden Hotel'', bm_roomTypeName = ''Lake View Room'', bm_rateOptionName = ''Bed & Breakfast'', bm_benefitNames = [''Free Wi-Fi'', ''Breakfast Included'', ''Flexible Cancellation'']\<rparr>,
     \<lparr>bm_hotelName = ''Inle Lake Garden Hotel'', bm_roomTypeName = ''Lake View Room'', bm_rateOptionName = ''Non-Refundable'', bm_benefitNames = [''Free Wi-Fi'', ''Breakfast Included'']\<rparr>,
     \<lparr>bm_hotelName = ''Inle Lake Garden Hotel'', bm_roomTypeName = ''Over-water Bungalow'', bm_rateOptionName = ''Half Board'', bm_benefitNames = [''Free Wi-Fi'', ''Half Board'', ''Airport Transfer (One-way)'', ''Welcome Amenity'', ''Turndown Service'', ''Flexible Cancellation'', ''Daily Housekeeping'']\<rparr>,
     \<lparr>bm_hotelName = ''Inle Lake Garden Hotel'', bm_roomTypeName = ''Over-water Bungalow'', bm_rateOptionName = ''Non-Refundable'', bm_benefitNames = [''Free Wi-Fi'', ''Breakfast Included'', ''Welcome Amenity'', ''Daily Housekeeping'']\<rparr>]"

definition benefit_mappings_ngapali :: "benefit_mapping list" where
  "benefit_mappings_ngapali =
    [
     \<lparr>bm_hotelName = ''Ngapali Sunset Beach Hotel'', bm_roomTypeName = ''Beach Front Room'', bm_rateOptionName = ''Room Only'', bm_benefitNames = [''Free Wi-Fi'', ''Flexible Cancellation'', ''No Prepayment Required'', ''Pool Access'']\<rparr>,
     \<lparr>bm_hotelName = ''Ngapali Sunset Beach Hotel'', bm_roomTypeName = ''Beach Front Room'', bm_rateOptionName = ''Non-Refundable'', bm_benefitNames = [''Free Wi-Fi'', ''Pool Access'']\<rparr>,
     \<lparr>bm_hotelName = ''Ngapali Sunset Beach Hotel'', bm_roomTypeName = ''Ocean Suite'', bm_rateOptionName = ''All Inclusive'', bm_benefitNames = [''Free Wi-Fi'', ''All Inclusive'', ''Pool Access'', ''Spa Access'', ''Gym Access'', ''Airport Transfer (Return)'', ''Welcome Amenity'', ''Room Upgrade'', ''Early Check-in'', ''Late Check-out'', ''Flexible Cancellation'', ''Daily Housekeeping'', ''Turndown Service'']\<rparr>,
     \<lparr>bm_hotelName = ''Ngapali Sunset Beach Hotel'', bm_roomTypeName = ''Ocean Suite'', bm_rateOptionName = ''Non-Refundable'', bm_benefitNames = [''Free Wi-Fi'', ''Breakfast Included'', ''Pool Access'', ''Welcome Amenity'', ''Daily Housekeeping'']\<rparr>]"

definition benefit_mappings :: "benefit_mapping list" where
  "benefit_mappings = benefit_mappings_yangon @ benefit_mappings_mandalay @ benefit_mappings_bagan @ benefit_mappings_inle @ benefit_mappings_ngapali"

end
