(* ===== verification/Seeding.thy ===== *)
theory Seeding
  imports Auth_Base Seed_Data
begin

text \<open>
  The seeders, \<open>src/src/seeders/seed.ts\<close> and \<open>seeders/*.seeder.ts\<close> of the modules: each looks a row up by its
  name and inserts it when it is missing.  \<open>en\<close> gives the environment of an insert: its identifier, its instant and
  the hash.

  \<open>settles f f'\<close> is what makes seeding repeatable: once \<open>f\<close> has returned, \<open>f'\<close> returns the same and writes nothing,
  then and in every world with more rows.  It is closed under sequencing and loops, so that the whole of \<open>runSeeders\<close>
  inherits it from its inserts.
\<close>

section \<open>Looking up or inserting\<close>

type_synonym 'a op = "world \<Rightarrow> ('a, world) result"

definition ensure :: "(world \<Rightarrow> 'r list) \<Rightarrow> ('r \<Rightarrow> bool) \<Rightarrow> 'r op \<Rightarrow> 'r op" where
  "ensure tbl p ins w = (case find_one p (tbl w) of Some r \<Rightarrow> ok r w | None \<Rightarrow> ins w)"

definition required :: "(world \<Rightarrow> 'r list) \<Rightarrow> ('r \<Rightarrow> bool) \<Rightarrow> string \<Rightarrow> 'r op" where
  "required tbl p msg w = (case find_one p (tbl w) of None \<Rightarrow> throw (JsError msg) w | Some r \<Rightarrow> ok r w)"

fun each :: "('a \<Rightarrow> 'b op) \<Rightarrow> 'a list \<Rightarrow> unit op" where
  "each f [] w = ok () w"
| "each f (x # xs) w = and_then (f x w) (\<lambda>_. each f xs)"

fun collect :: "('a \<Rightarrow> 'b op) \<Rightarrow> 'a list \<Rightarrow> 'b list op" where
  "collect f [] w = ok [] w"
| "collect f (x # xs) w = and_then (f x w) (\<lambda>y w1. and_then (collect f xs w1) (\<lambda>ys. ok (y # ys)))"

text \<open>An insert fails on a primary key or a unique index, which also counts the soft deleted rows.\<close>

definition insert_row ::
  "(world \<Rightarrow> 'a audit_entity_scheme list) \<Rightarrow> ('a audit_entity_scheme list \<Rightarrow> world \<Rightarrow> world)
   \<Rightarrow> ('a audit_entity_scheme \<Rightarrow> bool) \<Rightarrow> 'a audit_entity_scheme \<Rightarrow> 'a audit_entity_scheme op" where
  "insert_row tbl put clash r w =
     (if references (entId r) (tbl w) \<or> exists_by clash (tbl w) then throw (QueryFailedError ''23505'') w
      else ok r (put (tbl w @ [r]) w))"

section \<open>Modules, permissions, roles, accounts\<close>

definition new_module :: "(world \<Rightarrow> ext) \<Rightarrow> string \<Rightarrow> permission_module \<Rightarrow> uuid option \<Rightarrow> module_entity op" where
  "new_module en name code parent w =
     insert_row modules (\<lambda>rs w. w\<lparr>modules := rs\<rparr>) (\<lambda>m. m_code m = code)
       \<lparr>entId = x_new_id (en w), createdAt = x_now (en w), deletedAt = None, m_name = name, m_code = code, m_parentId = parent\<rparr> w"

text \<open>The children come before their parent, as \<open>createdModules\<close> collects them.\<close>

definition seed_module :: "(world \<Rightarrow> ext) \<Rightarrow> module_seed \<Rightarrow> module_entity list op" where
  "seed_module en ms w =
     and_then (ensure modules (\<lambda>m. live m \<and> m_code m = ms_code ms) (new_module en (ms_name ms) (ms_code ms) None) w)
       (\<lambda>m w1. and_then (collect (\<lambda>c. ensure modules (\<lambda>x. live x \<and> m_code x = snd c \<and> m_parentId x = Some (entId m))
                                          (new_module en (fst c) (snd c) (Some (entId m)))) (ms_children ms) w1)
          (\<lambda>cs. ok (cs @ [m])))"

definition new_permission :: "(world \<Rightarrow> ext) \<Rightarrow> uuid \<Rightarrow> action_type \<Rightarrow> permission op" where
  "new_permission en i a w =
     insert_row permissions (\<lambda>rs w. w\<lparr>permissions := rs\<rparr>) (\<lambda>p. p_moduleId p = i \<and> p_action p = a)
       \<lparr>entId = x_new_id (en w), createdAt = x_now (en w), deletedAt = None, p_moduleId = i, p_action = a\<rparr> w"

definition createModulePermissions :: "(world \<Rightarrow> ext) \<Rightarrow> module_entity \<Rightarrow> permission list op" where
  "createModulePermissions en m =
     collect (\<lambda>a. ensure permissions (\<lambda>p. live p \<and> p_moduleId p = entId m \<and> p_action p = a) (new_permission en (entId m) a))
       [CREATE, READ, UPDATE, DELETE]"

definition ADMIN_ONLY_MODULES :: "permission_module list" where
  "ADMIN_ONLY_MODULES = [M_ADMIN, M_ADMIN_LIST, M_ADMIN_ROLE_PERMISSIONS]"

record role_config =
  rcf_name :: string
  rcf_description :: string
  rcf_rank :: int
  rcf_modules :: "(permission_module \<times> action_type list) list"

definition all_actions :: "action_type list" where
  "all_actions = [CREATE, READ, UPDATE, DELETE]"

definition customerModuleAccess :: "(permission_module \<times> action_type list) list" where
  "customerModuleAccess =
     [(M_HOTELS, [READ]), (M_HOTEL_LIST, [READ]), (M_ROOMS, [READ]), (M_ROOM_LIST, [READ]), (M_ROOM_TYPES, [READ]),
      (M_ROOM_TYPE_LIST, [READ]), (M_RATE_OPTIONS, [READ]), (M_RATE_OPTION_LIST, [READ]),
      (M_BOOKINGS, [CREATE, READ, UPDATE]), (M_BOOKING_LIST, [READ]), (M_PAYMENTS, [CREATE, READ]),
      (M_PAYMENT_LIST, [READ]), (M_PROFILE, [READ, UPDATE])]"

definition getRoleConfigurations :: "permission_module list \<Rightarrow> role_config list" where
  "getRoleConfigurations allModules =
     [\<lparr>rcf_name = ''Super Admin'', rcf_description = ''Super Administrator role with full access'', rcf_rank = 1,
       rcf_modules = map (\<lambda>m. (m, all_actions)) allModules\<rparr>,
      \<lparr>rcf_name = ''Admin'', rcf_description = ''Administrator role with access to most features'', rcf_rank = 2,
       rcf_modules = map (\<lambda>m. (m, all_actions)) (filter (\<lambda>m. \<not> List.member ADMIN_ONLY_MODULES m) allModules)\<rparr>,
      \<lparr>rcf_name = ''Customer'',
       rcf_description = ''Authenticated customer '' @ [CHR 0xE2, CHR 0x80, CHR 0x94] @ '' can browse hotels/rooms, manage own bookings and profile'',
       rcf_rank = 3, rcf_modules = customerModuleAccess\<rparr>]"

definition createRole :: "(world \<Rightarrow> ext) \<Rightarrow> string \<Rightarrow> string \<Rightarrow> int \<Rightarrow> role op" where
  "createRole en name descr rank =
     ensure roles (\<lambda>r. live r \<and> r_name r = name)
       (\<lambda>w. insert_row roles (\<lambda>rs w. w\<lparr>roles := rs\<rparr>) (\<lambda>_. False)
          \<lparr>entId = x_new_id (en w), createdAt = x_now (en w), deletedAt = None, r_name = name,
           r_description = Some descr, r_rank = rank\<rparr> w)"

definition assign_permission :: "uuid \<Rightarrow> permission \<Rightarrow> role_permission op" where
  "assign_permission i p =
     ensure role_permissions (\<lambda>rp. rp_roleId rp = i \<and> rp_permissionId rp = entId p)
       (\<lambda>w. let rp = \<lparr>rp_roleId = i, rp_permissionId = entId p\<rparr>
            in ok rp (w\<lparr>role_permissions := role_permissions w @ [rp]\<rparr>))"

definition assignPermissionsToRoleFromConfig ::
  "role \<Rightarrow> (permission_module \<times> action_type list) list \<Rightarrow> (permission_module \<times> permission list) list \<Rightarrow> unit op" where
  "assignPermissionsToRoleFromConfig r config modulePermissions =
     each (\<lambda>c. each (assign_permission (entId r))
                 (filter (\<lambda>p. List.member (snd c) (p_action p)) (nullish (map_of modulePermissions (fst c)) []))) config"

definition default_password :: string where
  "default_password = ''passwordD123!@#''"

definition createAdminAccount :: "(world \<Rightarrow> ext) \<Rightarrow> string \<Rightarrow> string \<Rightarrow> role \<Rightarrow> admin op" where
  "createAdminAccount en email name r =
     ensure admins (\<lambda>a. live a \<and> a_email a = email)
       (\<lambda>w. insert_row admins (\<lambda>rs w. w\<lparr>admins := rs\<rparr>) (\<lambda>a. a_email a = email)
          (admin_with_hashed_password (en w)
             \<lparr>entId = x_new_id (en w), createdAt = x_now (en w), deletedAt = None, a_fullName = name,
              a_password = Some default_password, a_email = email, a_profileImageUrl = None, a_roleId = entId r,
              a_isBanned = False, a_isTwoFactorEnabled = False, a_lastLoginAt = None, a_lastLogoutAt = None\<rparr>) w)"

definition createCustomerUser :: "(world \<Rightarrow> ext) \<Rightarrow> role \<Rightarrow> user op" where
  "createCustomerUser en r =
     ensure users (\<lambda>u. live u \<and> u_email u = Some ''customer@obs.com.mm'')
       (\<lambda>w. insert_user (en w)
          \<lparr>entId = x_new_id (en w), createdAt = x_now (en w), deletedAt = None,
           u_email = Some ''customer@obs.com.mm'', u_fullName = Some ''Customer'', u_phone = Some ''095085730'',
           u_password = Some default_password, u_isBanned = False, u_profileImageUrl = None, u_dateOfBirth = None,
           u_gender = None, u_preferLanguage = None, u_registrationStage = Some COMPLETED, u_fcmToken = None,
           u_lastLoginAt = None, u_lastLogoutAt = None, u_googleId = None, u_appleId = None,
           u_loginProvider = None, u_roleId = Some (entId r)\<rparr> w)"

definition seed_role ::
  "(world \<Rightarrow> ext) \<Rightarrow> (permission_module \<times> permission list) list \<Rightarrow> role_config \<Rightarrow> role op" where
  "seed_role en mps c w =
     and_then (createRole en (rcf_name c) (rcf_description c) (rcf_rank c) w)
       (\<lambda>r w1. and_then (assignPermissionsToRoleFromConfig r (rcf_modules c) mps w1) (\<lambda>_. ok r))"

definition seed_accounts :: "(world \<Rightarrow> ext) \<Rightarrow> role list \<Rightarrow> unit op" where
  "seed_accounts en rs w =
     (let named = (\<lambda>n. find_one (\<lambda>r. r_name r = n) rs)
      in and_then (case named ''Super Admin'' of None \<Rightarrow> ok () w
                   | Some r \<Rightarrow> and_then (createAdminAccount en ''arkarmin@obs.com.mm'' ''Super Admin'' r w) (\<lambda>_. ok ()))
           (\<lambda>_ w1. and_then (case named ''Admin'' of None \<Rightarrow> ok () w1
                   | Some r \<Rightarrow> and_then (createAdminAccount en ''admin@obs.com.mm'' ''Admin'' r w1) (\<lambda>_. ok ()))
             (\<lambda>_ w2. case named ''Customer'' of None \<Rightarrow> ok () w2
                   | Some r \<Rightarrow> and_then (createCustomerUser en r w2) (\<lambda>_. ok ()))))"

definition seed_auth :: "(world \<Rightarrow> ext) \<Rightarrow> unit op" where
  "seed_auth en w =
     and_then (collect (seed_module en) modulesToSeed w)
       (\<lambda>mss w1. let ms = concat mss
         in and_then (collect (\<lambda>m w. and_then (createModulePermissions en m w) (\<lambda>ps. ok (m_code m, ps))) ms w1)
           (\<lambda>mps w2. and_then (collect (seed_role en mps) (getRoleConfigurations (map m_code ms)) w2)
             (\<lambda>rs. seed_accounts en rs)))"

section \<open>Hotels, rooms, rates\<close>

definition hotel_admin :: "world \<Rightarrow> admin option" where
  "hotel_admin w =
     find_latest (\<lambda>a. - createdAt a)
       (\<lambda>a. live a \<and> (a_email a = ''arkarmin@obs.com.mm'' \<or> a_email a = ''admin@obs.com.mm'')) (admins w)"

definition seed_hotel :: "(world \<Rightarrow> ext) \<Rightarrow> uuid \<Rightarrow> hotel_seed \<Rightarrow> hotel op" where
  "seed_hotel en creator s =
     ensure hotels (\<lambda>h. live h \<and> h_name h = hs_name s)
       (\<lambda>w. insert_row hotels (\<lambda>rs w. w\<lparr>hotels := rs\<rparr>) (\<lambda>_. False)
          \<lparr>entId = x_new_id (en w), createdAt = x_now (en w), deletedAt = None, h_name = hs_name s,
           h_description = Some (hs_description s), h_latitude = hs_latitude s, h_longitude = hs_longitude s,
           h_address = hs_address s, h_city = hs_city s, h_country = hs_country s, h_postalCode = hs_postalCode s,
           h_checkInTime = hs_checkInTime s, h_checkOutTime = hs_checkOutTime s, h_isActive = hs_isActive s,
           h_createdBy = creator\<rparr> w)"

definition seed_hotels :: "(world \<Rightarrow> ext) \<Rightarrow> unit op" where
  "seed_hotels en w =
     (case hotel_admin w of
        None \<Rightarrow> throw (JsError ''Admin user is required before seeding hotels'') w
      | Some a \<Rightarrow> each (seed_hotel en (entId a)) hotel_seeds w)"

definition seed_characteristic :: "(world \<Rightarrow> ext) \<Rightarrow> named_seed \<Rightarrow> room_characteristic op" where
  "seed_characteristic en s =
     ensure room_characteristics (\<lambda>c. live c \<and> rc_name c = ns_name s)
       (\<lambda>w. insert_row room_characteristics (\<lambda>rs w. w\<lparr>room_characteristics := rs\<rparr>) (\<lambda>_. False)
          \<lparr>entId = x_new_id (en w), createdAt = x_now (en w), deletedAt = None, rc_name = ns_name s,
           rc_description = Some (ns_description s)\<rparr> w)"

definition seed_characteristics :: "(world \<Rightarrow> ext) \<Rightarrow> unit op" where
  "seed_characteristics en = each (seed_characteristic en) characteristic_seeds"

definition seeded_hotel :: "string \<Rightarrow> hotel op" where
  "seeded_hotel n = required hotels (\<lambda>h. live h \<and> h_name h = n) ''Hotel not found. Run HotelSeeder first.''"

definition seeded_room_type :: "string \<Rightarrow> uuid \<Rightarrow> room_type op" where
  "seeded_room_type n h =
     required room_types (\<lambda>t. live t \<and> ty_name t = n \<and> ty_hotelId t = h) ''Room type not found. Run RoomTypeSeeder first.''"

definition seed_room_type :: "(world \<Rightarrow> ext) \<Rightarrow> room_type_seed \<Rightarrow> room_type op" where
  "seed_room_type en s w =
     and_then (seeded_hotel (rts_hotelName s) w)
       (\<lambda>h. ensure room_types (\<lambda>t. live t \<and> ty_name t = rts_name s \<and> ty_hotelId t = entId h)
          (\<lambda>w. insert_row room_types (\<lambda>rs w. w\<lparr>room_types := rs\<rparr>) (\<lambda>_. False)
             \<lparr>entId = x_new_id (en w), createdAt = x_now (en w), deletedAt = None, ty_hotelId = entId h,
              ty_name = rts_name s, ty_description = Some (rts_description s), ty_maxOccupancy = rts_maxOccupancy s,
              ty_bedType = rts_bedType s, ty_areaInSquareFeet = rts_areaInSquareFeet s\<rparr> w))"

definition seed_room_types :: "(world \<Rightarrow> ext) \<Rightarrow> unit op" where
  "seed_room_types en = each (seed_room_type en) room_type_seeds"

definition seed_type_characteristic :: "(world \<Rightarrow> ext) \<Rightarrow> uuid \<Rightarrow> string \<Rightarrow> room_type_characteristic op" where
  "seed_type_characteristic en t n w =
     and_then (required room_characteristics (\<lambda>c. live c \<and> rc_name c = n)
                 ''Room characteristic not found. Run RoomCharacteristicSeeder first.'' w)
       (\<lambda>c. ensure room_type_characteristics (\<lambda>x. rtc_roomTypeId x = t \<and> rtc_roomCharacteristicId x = entId c)
          (\<lambda>w. insert_row room_type_characteristics (\<lambda>rs w. w\<lparr>room_type_characteristics := rs\<rparr>)
             (\<lambda>x. rtc_roomTypeId x = t \<and> rtc_roomCharacteristicId x = entId c)
             \<lparr>entId = x_new_id (en w), createdAt = x_now (en w), rtc_roomTypeId = t, rtc_roomCharacteristicId = entId c\<rparr> w))"

definition seed_type_characteristics :: "(world \<Rightarrow> ext) \<Rightarrow> unit op" where
  "seed_type_characteristics en =
     each (\<lambda>m w. and_then (seeded_hotel (cm_hotelName m) w)
       (\<lambda>h w1. and_then (seeded_room_type (cm_roomTypeName m) (entId h) w1)
          (\<lambda>t. each (seed_type_characteristic en (entId t)) (cm_characteristicNames m)))) characteristic_mappings"

definition seed_room :: "(world \<Rightarrow> ext) \<Rightarrow> room_seed \<Rightarrow> room op" where
  "seed_room en s w =
     and_then (seeded_hotel (rms_hotelName s) w)
       (\<lambda>h w1. and_then (seeded_room_type (rms_roomTypeName s) (entId h) w1)
          (\<lambda>t. ensure rooms (\<lambda>r. live r \<and> rm_hotelId r = entId h \<and> rm_roomNumber r = rms_roomNumber s)
             (\<lambda>w. insert_row rooms (\<lambda>rs w. w\<lparr>rooms := rs\<rparr>) (\<lambda>r. rm_hotelId r = entId h \<and> rm_roomNumber r = rms_roomNumber s)
                \<lparr>entId = x_new_id (en w), createdAt = x_now (en w), deletedAt = None, rm_hotelId = entId h,
                 rm_roomTypeId = entId t, rm_roomNumber = rms_roomNumber s, rm_floorNumber = rms_floorNumber s,
                 rm_status = rms_status s\<rparr> w)))"

definition seed_rooms :: "(world \<Rightarrow> ext) \<Rightarrow> unit op" where
  "seed_rooms en = each (seed_room en) room_seeds"

definition seed_benefit :: "(world \<Rightarrow> ext) \<Rightarrow> named_seed \<Rightarrow> benefit op" where
  "seed_benefit en s =
     ensure benefits (\<lambda>c. live c \<and> be_name c = ns_name s)
       (\<lambda>w. insert_row benefits (\<lambda>rs w. w\<lparr>benefits := rs\<rparr>) (\<lambda>_. False)
          \<lparr>entId = x_new_id (en w), createdAt = x_now (en w), deletedAt = None, be_name = ns_name s,
           be_description = Some (ns_description s)\<rparr> w)"

definition seed_benefits :: "(world \<Rightarrow> ext) \<Rightarrow> unit op" where
  "seed_benefits en = each (seed_benefit en) benefit_seeds"

definition seed_rate_option :: "(world \<Rightarrow> ext) \<Rightarrow> rate_option_seed \<Rightarrow> rate_option op" where
  "seed_rate_option en s w =
     and_then (seeded_hotel (ros_hotelName s) w)
       (\<lambda>h w1. and_then (seeded_room_type (ros_roomTypeName s) (entId h) w1)
          (\<lambda>t. ensure rate_options (\<lambda>r. live r \<and> ro_name r = ros_name s \<and> ro_roomTypeId r = entId t)
             (\<lambda>w. insert_row rate_options (\<lambda>rs w. w\<lparr>rate_options := rs\<rparr>) (\<lambda>_. False)
                \<lparr>entId = x_new_id (en w), createdAt = x_now (en w), deletedAt = None, ro_roomTypeId = entId t,
                 ro_name = ros_name s, ro_description = Some (ros_description s), ro_pricePerNight = ros_pricePerNight s,
                 ro_currency = ros_currency s, ro_isRefundable = ros_isRefundable s,
                 ro_cancellationPolicy = ros_cancellationPolicy s, ro_deadlineHours = ros_deadlineHours s\<rparr> w)))"

definition seed_rate_options :: "(world \<Rightarrow> ext) \<Rightarrow> unit op" where
  "seed_rate_options en = each (seed_rate_option en) rate_option_seeds"

definition seed_rate_benefit :: "(world \<Rightarrow> ext) \<Rightarrow> uuid \<Rightarrow> string \<Rightarrow> rate_option_benefit op" where
  "seed_rate_benefit en i n w =
     and_then (required benefits (\<lambda>b. live b \<and> be_name b = n) ''Benefit not found. Run BenefitSeeder first.'' w)
       (\<lambda>b. ensure rate_option_benefits (\<lambda>x. rob_rateOptionId x = i \<and> rob_benefitId x = entId b)
          (\<lambda>w. insert_row rate_option_benefits (\<lambda>rs w. w\<lparr>rate_option_benefits := rs\<rparr>)
             (\<lambda>x. rob_rateOptionId x = i \<and> rob_benefitId x = entId b)
             \<lparr>entId = x_new_id (en w), createdAt = x_now (en w), rob_rateOptionId = i, rob_benefitId = entId b\<rparr> w))"

definition seed_rate_benefits :: "(world \<Rightarrow> ext) \<Rightarrow> unit op" where
  "seed_rate_benefits en =
     each (\<lambda>m w. and_then (seeded_hotel (bm_hotelName m) w)
       (\<lambda>h w1. and_then (seeded_room_type (bm_roomTypeName m) (entId h) w1)
         (\<lambda>t w2. and_then (required rate_options (\<lambda>r. live r \<and> ro_name r = bm_rateOptionName m \<and> ro_roomTypeId r = entId t)
                             ''Rate option not found. Run RateOptionSeeder first.'' w2)
           (\<lambda>r. each (seed_rate_benefit en (entId r)) (bm_benefitNames m))))) benefit_mappings"

section \<open>Settings\<close>

text \<open>
  The account and the password of the mail server are literals in the source; here they are the arguments
  \<open>account\<close> and \<open>secret\<close>.
\<close>

definition smtp_seeds :: "string \<Rightarrow> string \<Rightarrow> string option \<Rightarrow> (string \<times> string) list" where
  "smtp_seeds account secret from_name =
     [(''smtp_host'', ''smtp.gmail.com''), (''smtp_port'', ''587''), (''smtp_secure'', ''false''),
      (''smtp_username'', account), (''smtp_password'', secret), (''smtp_from_email'', ''noreply@example.com''),
      (''smtp_from_name'', nullish from_name ''NestJS TypeORM API Starter''), (''smtp_enabled'', ''true'')]"

definition seed_setting :: "(world \<Rightarrow> ext) \<Rightarrow> string \<times> string \<Rightarrow> setting op" where
  "seed_setting en s =
     ensure settings (\<lambda>x. live x \<and> s_key x = fst s)
       (\<lambda>w. insert_row settings (\<lambda>rs w. w\<lparr>settings := rs\<rparr>) (\<lambda>x. s_key x = fst s)
          \<lparr>entId = x_new_id (en w), createdAt = x_now (en w), deletedAt = None, s_key = fst s, s_value = Some (snd s)\<rparr> w)"

definition seed_settings :: "(world \<Rightarrow> ext) \<Rightarrow> string \<Rightarrow> string \<Rightarrow> string option \<Rightarrow> unit op" where
  "seed_settings en account secret from_name = each (seed_setting en) (smtp_seeds account secret from_name)"

section \<open>All seeders\<close>

definition runSeeders :: "(world \<Rightarrow> ext) \<Rightarrow> string \<Rightarrow> string \<Rightarrow> string option \<Rightarrow> unit op" where
  "runSeeders en account secret from_name =
     each (\<lambda>seeder. seeder)
       [seed_auth en, seed_hotels en, seed_characteristics en, seed_room_types en, seed_type_characteristics en,
        seed_rooms en, seed_benefits en, seed_rate_options en, seed_rate_benefits en,
        seed_settings en account secret from_name]"

end
