(* ===== verification/Roles.thy ===== *)
theory Roles
  imports Access Listing Sample
begin

text \<open>
  \<open>src/src/v1/auth/services/role.service.ts\<close>: roles and their permissions.  \<open>create\<close> and \<open>update\<close> run in a
  transaction: on a throw the world is the old one.
\<close>

section \<open>Operations\<close>

definition roles_listing :: "string option \<Rightarrow> world \<Rightarrow> role list" where
  "roles_listing search w =
     order_rows createdAt DESC
       (find_all (\<lambda>r. live r \<and> (truthy search \<longrightarrow> fits_search (the search) (Some (r_name r))
                                                 \<or> fits_search (the search) (r_description r))) (roles w))"

definition findAll_roles :: "nat \<Rightarrow> nat \<Rightarrow> bool \<Rightarrow> string option \<Rightarrow> world \<Rightarrow> role list \<times> nat" where
  "findAll_roles pg sz everything search w =
     get_many_and_count \<lparr>page = pg, limit = sz, getAll = everything\<rparr> (roles_listing search w)"

definition findOne_role :: "uuid \<Rightarrow> world \<Rightarrow> role option" where
  "findOne_role i w = by_id i (roles w)"

record create_role_dto =
  cr_name :: string
  cr_description :: "string option"
  cr_rank :: "int option"
  cr_permissionIds :: "uuid list"

record update_role_dto =
  ur_name :: "string option"
  ur_description :: "string option"
  ur_rank :: "int option"
  ur_permissionIds :: "uuid list option"

definition role_named :: "string \<Rightarrow> world \<Rightarrow> role option" where
  "role_named n w = find_one (\<lambda>r. live r \<and> r_name r = n) (roles w)"

definition validatePermissionIds :: "uuid list \<Rightarrow> world \<Rightarrow> exn + unit" where
  "validatePermissionIds is w =
     (if is = [] then Inr ()
      else if length (find_all (\<lambda>p. live p \<and> entId p \<in> set is) (permissions w)) \<noteq> length is
      then Inl (BadRequestException ''Invalid permission IDs'')
      else Inr ())"

text \<open>\<open>save\<close> of a row whose key is already there writes nothing new.\<close>

definition assignPermissionsToRole :: "uuid \<Rightarrow> uuid list \<Rightarrow> world \<Rightarrow> world" where
  "assignPermissionsToRole i is w =
     w\<lparr>role_permissions := role_permissions w
        @ filter (\<lambda>rp. rp \<notin> set (role_permissions w)) (map (\<lambda>p. \<lparr>rp_roleId = i, rp_permissionId = p\<rparr>) is)\<rparr>"

definition create_role :: "ext \<Rightarrow> create_role_dto \<Rightarrow> world \<Rightarrow> (role option, world) result" where
  "create_role e dto w =
     (if role_named (cr_name dto) w \<noteq> None then throw (ConflictException ''Role already exists'') w
      else
        (case validatePermissionIds (cr_permissionIds dto) w of
           Inl err \<Rightarrow> throw err w
         | Inr _ \<Rightarrow>
             let r = \<lparr>entId = x_new_id e, createdAt = x_now e, deletedAt = None, r_name = cr_name dto,
                      r_description = cr_description dto, r_rank = nullish (cr_rank dto) 99\<rparr>
             in if references (entId r) (roles w) then throw (QueryFailedError ''23505'') w
                else
                  let w1 = assignPermissionsToRole (entId r) (cr_permissionIds dto) (w\<lparr>roles := roles w @ [r]\<rparr>)
                  in ok (by_id (entId r) (roles w1)) w1))"

definition update_role :: "uuid \<Rightarrow> update_role_dto \<Rightarrow> world \<Rightarrow> (role option, world) result" where
  "update_role i dto w =
     (case findOne_role i w of
        None \<Rightarrow> ok None w
      | Some r \<Rightarrow>
          if truthy (ur_name dto) \<and> the (ur_name dto) \<noteq> r_name r \<and> role_named (the (ur_name dto)) w \<noteq> None
          then throw (ConflictException ''Role already exists'') w
          else
            (case validatePermissionIds (nullish (ur_permissionIds dto) []) w of
               Inl err \<Rightarrow> throw err w
             | Inr _ \<Rightarrow>
                 let w1 = (if truthy (ur_name dto) \<or> truthy (ur_description dto) \<or> ur_rank dto \<noteq> None
                           then w\<lparr>roles := update_where (\<lambda>x. entId x = i)
                                    (\<lambda>x. x\<lparr>r_name := nullish (ur_name dto) (r_name x),
                                          r_description := keep_if_undefined (ur_description dto) (r_description x),
                                          r_rank := nullish (ur_rank dto) (r_rank x)\<rparr>) (roles w)\<rparr>
                           else w);
                     w2 = (case ur_permissionIds dto of
                             None \<Rightarrow> w1
                           | Some is \<Rightarrow> assignPermissionsToRole i is
                               (w1\<lparr>role_permissions := delete_where (\<lambda>rp. rp_roleId rp = i) (role_permissions w1)\<rparr>))
                 in ok (by_id i (roles w2)) w2))"

definition remove_role :: "ext \<Rightarrow> uuid \<Rightarrow> world \<Rightarrow> (bool, world) result" where
  "remove_role e i w =
     (case findOne_role i w of
        None \<Rightarrow> ok False w
      | Some r \<Rightarrow>
          if exists_by (\<lambda>a. live a \<and> a_roleId a = i) (admins w)
          then throw (ConflictException ''Cannot delete role that has admins assigned to it'') w
          else ok True (w\<lparr>roles := update_where (\<lambda>x. entId x = i) (\<lambda>x. x\<lparr>deletedAt := Some (x_now e)\<rparr>) (roles w)\<rparr>))"

section \<open>Listing\<close>

text \<open>The listing of roles is a listing by pages.\<close>

interpretation role_pages: paged_listing
  "\<lambda>pg sz. findAll_roles pg sz False search w" "roles_listing search w"
  by unfold_locales (simp_all add: findAll_roles_def get_many_and_count_def)

lemma in_roles_listing:
  "r \<in> set (roles_listing search w) \<longleftrightarrow> r \<in> set (roles w) \<and> live r
     \<and> (truthy search \<longrightarrow> fits_search (the search) (Some (r_name r)) \<or> fits_search (the search) (r_description r))"
  by (auto simp: roles_listing_def)

text \<open>The pages of the roles put together are the live roles whose name or description contains the
  searched text, whatever the case, provided it has no wildcard.\<close>

theorem role_search_exact:
  assumes "set t \<inter> wildcards = {}" and "t \<noteq> ''''" and "length (roles_listing (Some t) w) \<le> n * sz"
  shows "r \<in> set (concat (map (\<lambda>i. fst (findAll_roles (Suc i) sz False (Some t) w)) [0..<n])) \<longleftrightarrow>
     r \<in> set (roles w) \<and> live r
     \<and> (sublist (map to_lower t) (map to_lower (r_name r))
        \<or> (\<exists>d. r_description r = Some d \<and> sublist (map to_lower t) (map to_lower d)))"
proof -
  have "fits_search t column \<longleftrightarrow> (\<exists>d. column = Some d \<and> sublist (map to_lower t) (map to_lower d))" for column
    by (cases column) (simp_all add: fits_search_def literal_search [OF assms(1)])
  then show ?thesis
    using assms(2) by (simp add: role_pages.pages_cover [OF assms(3)] in_roles_listing)
qed

section \<open>Permissions\<close>

lemma validatePermissionIds_iff:
  assumes "distinct (ids (permissions w))"
  shows "validatePermissionIds is w = Inr () \<longleftrightarrow> distinct is \<and> (\<forall>i \<in> set is. by_id i (permissions w) \<noteq> None)"
  using count_live_iff [OF assms, of "is"] by (cases "is = []") (auto simp: validatePermissionIds_def)

lemma set_assigned:
  "rp \<in> set (role_permissions (assignPermissionsToRole i is w)) \<longleftrightarrow>
     rp \<in> set (role_permissions w) \<or> rp_roleId rp = i \<and> rp_permissionId rp \<in> set is"
  by (cases rp) (auto simp: assignPermissionsToRole_def)

lemma assigned_tables [simp]:
  "roles (assignPermissionsToRole i is w) = roles w" "permissions (assignPermissionsToRole i is w) = permissions w"
  "modules (assignPermissionsToRole i is w) = modules w" "users (assignPermissionsToRole i is w) = users w"
  "admins (assignPermissionsToRole i is w) = admins w"
  by (simp_all add: assignPermissionsToRole_def)

lemma update_role_permissions:
  assumes "update_role i dto w = ok (Some r) w'" and "ur_permissionIds dto = Some is"
  shows "rp \<in> set (role_permissions w') \<and> rp_roleId rp = i \<longleftrightarrow> rp_roleId rp = i \<and> rp_permissionId rp \<in> set is"
    and "permissions w' = permissions w" and "modules w' = modules w" and "by_id i (roles w') = Some r"
  using assms
  by (auto simp: update_role_def Let_def set_assigned split: option.splits sum.splits if_splits)

text \<open>C16: an update of the permissions takes effect at once and entirely: the callers of the role pass a
  route exactly when one of the permissions just assigned is among those the route asks for.\<close>

theorem role_update_exact:
  assumes "update_role i dto w = ok (Some r) w'" and "ur_permissionIds dto = Some is"
    and "cu_role cu = role_view_of i w'"
  shows "permissions_guard (Some reqs) (Some cu) = Inr () \<longleftrightarrow>
     (\<exists>p \<in> set is. \<exists>req \<in> set reqs. permission_pair p w = Some req)"
proof -
  note u = update_role_permissions [OF assms(1,2)]
  have pp: "permission_pair p w' = permission_pair p w" for p
    by (simp add: permission_pair_def u split: option.split)
  obtain rv where rv: "role_view_of i w' = Some rv" "rv_permissions rv = role_pairs i w'"
    using u(4) by (auto simp: role_view_of_Some)
  have "req \<in> set (role_pairs i w') \<longleftrightarrow> (\<exists>p \<in> set is. permission_pair p w = Some req)" for req
    using u(1) unfolding in_role_pairs pp
    by (metis role_permission.select_convs)
  then show ?thesis using assms(3) rv by (auto simp: permissions_guard_iff)
qed

section \<open>Names\<close>

definition unique_role_names :: "world \<Rightarrow> bool" where
  "unique_role_names w \<longleftrightarrow> distinct (map r_name (filter live (roles w)))"

lemma role_named_None: "role_named n w = None \<longleftrightarrow> n \<notin> set (map r_name (filter live (roles w)))"
  by (auto simp: role_named_def find_one_None)

text \<open>Giving one row a name that no live row has keeps the names distinct.\<close>

lemma rename_distinct:
  fixes rs :: "role list" and f :: "role \<Rightarrow> role"
  assumes "distinct (map entId rs)" and "distinct (map r_name (filter live rs))"
    and "\<And>x. entId (f x) = entId x \<and> deletedAt (f x) = deletedAt x"
    and "\<And>x. x \<in> set rs \<Longrightarrow> entId x = i \<Longrightarrow> r_name (f x) = n"
    and "\<And>x. x \<in> set rs \<Longrightarrow> live x \<Longrightarrow> r_name x = n \<Longrightarrow> entId x = i"
  shows "distinct (map r_name (filter live (update_where (\<lambda>x. entId x = i) f rs)))"
  using assms
proof (induction rs)
  case Nil
  then show ?case by simp
next
  case (Cons a rs)
  have l: "live (f x) = live x" for x :: role using assms(3) by (simp add: live_def)
  have IH: "distinct (map r_name (filter live (update_where (\<lambda>x. entId x = i) f rs)))"
    using Cons by (auto split: if_splits)
  show ?case
  proof (cases "entId a = i")
    case True
    then have "update_where (\<lambda>x. entId x = i) f rs = rs"
      using Cons.prems(1) by (intro update_where_none) (force simp: image_iff)
    moreover have "\<forall>x \<in> set rs. live x \<longrightarrow> r_name x \<noteq> n"
      using Cons.prems(1) Cons.prems(5) True by (auto simp: image_iff)
    ultimately show ?thesis using Cons.prems(2,4) True l by (auto split: if_splits)
  next
    case False
    have "r_name a \<notin> r_name ` {x \<in> set (update_where (\<lambda>x. entId x = i) f rs). live x}" if "live a"
    proof
      assume "r_name a \<in> r_name ` {x \<in> set (update_where (\<lambda>x. entId x = i) f rs). live x}"
      then obtain x where x: "x \<in> set (update_where (\<lambda>x. entId x = i) f rs)" "live x" "r_name x = r_name a" by auto
      from x(1) show False
      proof (cases rule: in_update_whereE)
        case (hit y)
        then have "r_name a = n" using Cons.prems(4) [of y] x(3) by simp
        then show False using Cons.prems(5) [of a] that False by simp
      next
        case miss
        have "r_name a \<notin> r_name ` {x \<in> set rs. live x}" using Cons.prems(2) that by simp
        moreover have "r_name x \<in> r_name ` {x \<in> set rs. live x}" using miss x(2) by blast
        ultimately show False using x(3) by simp
      qed
    qed
    then show ?thesis using IH False by auto
  qed
qed

lemma update_role_unique:
  assumes "unique_role_names w" and "distinct (ids (roles w))" and "ur_name u \<noteq> Some ''''"
  shows "unique_role_names (snd (update_role i u w))"
proof -
  let ?f = "\<lambda>x. x\<lparr>r_name := nullish (ur_name u) (r_name x), r_description := keep_if_undefined (ur_description u) (r_description x),
            r_rank := nullish (ur_rank u) (r_rank x)\<rparr>"
  have renamed: "distinct (map r_name (filter live (update_where (\<lambda>x. entId x = i) ?f (roles w))))"
    if r: "by_id i (roles w) = Some r"
      and n: "truthy (ur_name u) \<and> the (ur_name u) \<noteq> r_name r \<longrightarrow> role_named (the (ur_name u)) w = None" for r
  proof (rule rename_distinct [where n = "nullish (ur_name u) (r_name r)"])
    show "distinct (map entId (roles w))" using assms(2) by (simp add: ids_def)
    show "distinct (map r_name (filter live (roles w)))" using assms(1) by (simp add: unique_role_names_def)
    show "r_name (?f x) = nullish (ur_name u) (r_name r)" if "x \<in> set (roles w)" "entId x = i" for x
      using distinct_ids_unique [OF assms(2) that(1), of r] by_id_Some [OF r] that(2) by simp
    show "entId x = i" if "x \<in> set (roles w)" "live x" "r_name x = nullish (ur_name u) (r_name r)" for x
    proof -
      have "r_name x = r_name r"
        using n that assms(3) by (cases "ur_name u") (auto simp: role_named_def find_one_None)
      then have "x = r"
        using assms(1) that by_id_Some [OF r] by (auto simp: unique_role_names_def distinct_map inj_on_def)
      then show ?thesis using by_id_Some [OF r] by simp
    qed
  qed simp_all
  show ?thesis
  proof (cases "by_id i (roles w)")
    case None
    then show ?thesis using assms(1) by (simp add: update_role_def findOne_role_def)
  next
    case (Some r)
    have w: "unique_role_names (snd (update_role i u w))"
      if "roles (snd (update_role i u w)) = roles w" using assms(1) that by (simp add: unique_role_names_def)
    show ?thesis
    proof (cases "truthy (ur_name u) \<and> the (ur_name u) \<noteq> r_name r \<and> role_named (the (ur_name u)) w \<noteq> None")
      case True
      then show ?thesis using Some w by (simp add: update_role_def findOne_role_def)
    next
      case False
      then have "distinct (map r_name (filter live (update_where (\<lambda>x. entId x = i) ?f (roles w))))"
        by (intro renamed [OF Some]) blast
      then show ?thesis
        using False Some assms(1)
        by (auto simp: update_role_def Let_def unique_role_names_def findOne_role_def split: option.splits sum.splits)
    qed
  qed
qed

lemma remove_role_unique:
  assumes "unique_role_names w"
  shows "unique_role_names (snd (remove_role e i w))"
proof -
  have "filter live (update_where (\<lambda>x. entId x = i) (\<lambda>x. x\<lparr>deletedAt := Some (x_now e)\<rparr>) rs)
      = filter (\<lambda>x. entId x \<noteq> i) (filter live rs)" for rs :: "role list"
    by (induction rs) (auto simp: live_def)
  moreover have "distinct (map r_name (filter (\<lambda>x. entId x \<noteq> i) (filter live (roles w))))"
    using assms distinct_map_filter [of r_name "filter live (roles w)" "\<lambda>x. entId x \<noteq> i"]
    unfolding unique_role_names_def by blast
  ultimately have "distinct (map r_name (filter live (update_where (\<lambda>x. entId x = i)
      (\<lambda>x. x\<lparr>deletedAt := Some (x_now e)\<rparr>) (roles w))))" by metis
  then show ?thesis
    using assms by (cases "findOne_role i w") (simp_all add: remove_role_def unique_role_names_def)
qed

text \<open>C17: the names of the live roles stay distinct, whatever roles are created, changed and removed.\<close>

theorem role_names_unique:
  assumes "unique_role_names w" and "distinct (ids (roles w))" and "ur_name u \<noteq> Some ''''"
  shows "unique_role_names (snd (create_role e c w)) \<and> unique_role_names (snd (update_role i u w))
    \<and> unique_role_names (snd (remove_role e i w))"
proof -
  have "unique_role_names (snd (create_role e c w))"
    using assms role_named_None [of "cr_name c" w]
    by (auto simp: create_role_def Let_def unique_role_names_def split: sum.splits)
  then show ?thesis using update_role_unique [OF assms] remove_role_unique [OF assms(1)] by blast
qed

section \<open>Creating and removing\<close>

text \<open>Creating a role succeeds exactly for a free name and a list of existing permissions without a
  repetition; a permission named twice is refused as if it did not exist.\<close>

theorem role_create_iff:
  assumes "distinct (ids (permissions w))"
  shows "succeeds (create_role e dto w) \<longleftrightarrow>
     role_named (cr_name dto) w = None \<and> distinct (cr_permissionIds dto)
     \<and> (\<forall>p \<in> set (cr_permissionIds dto). by_id p (permissions w) \<noteq> None)
     \<and> x_new_id e \<notin> set (ids (roles w))"
proof (cases "validatePermissionIds (cr_permissionIds dto) w")
  case (Inl err)
  then show ?thesis
    using validatePermissionIds_iff [OF assms, of "cr_permissionIds dto"] by (auto simp: create_role_def)
next
  case (Inr x)
  then show ?thesis
    using validatePermissionIds_iff [OF assms, of "cr_permissionIds dto"] by (auto simp: create_role_def Let_def)
qed

text \<open>Only administrators protect a role from removal: a role held by users is removed, and from then
  on every route that asks for a permission refuses them.\<close>

theorem removed_role_strands_users:
  assumes "by_id i (roles w) = Some r" and "\<forall>a \<in> set (admins w). live a \<longrightarrow> a_roleId a \<noteq> i"
    and "by_id j (users w) = Some u" and "u_roleId u = Some i" and "j \<noteq> ''''"
  shows "\<exists>w'. remove_role e i w = ok True w' \<and>
     (\<exists>cu. validate (UserJwt j j) w' = Inr cu \<and>
        permissions_guard (Some reqs) (Some cu) = Inl (ForbiddenException ''Access denied: No permissions''))"
proof -
  let ?w = "w\<lparr>roles := update_where (\<lambda>x. entId x = i) (\<lambda>x. x\<lparr>deletedAt := Some (x_now e)\<rparr>) (roles w)\<rparr>"
  have rm: "remove_role e i w = ok True ?w"
    using assms(1,2) by (simp add: remove_role_def findOne_role_def)
  have "by_id i (roles ?w) = None"
    by (simp add: by_id_soft_deleted)
  then have "user_role u ?w = None" using assms(4) by (simp add: user_role_def role_view_of_def)
  then have "validate (UserJwt j j) ?w = Inr \<lparr>cu_id = j, cu_subjectType = Some USER, cu_role = None\<rparr>"
    using assms(3,5) by (simp add: validate_user)
  then show ?thesis using rm by (auto simp: permissions_guard_def)
qed

section \<open>Examples\<close>

definition guest_role :: role where
  "guest_role = \<lparr>entId = ''customer'', createdAt = 0, deletedAt = None, r_name = ''Customer'', r_description = Some ''Guests'', r_rank = 3\<rparr>"

definition bookings_module :: module_entity where
  "bookings_module = \<lparr>entId = ''m1'', createdAt = 0, deletedAt = None, m_name = ''Bookings'', m_code = M_BOOKINGS, m_parentId = None\<rparr>"

definition sample_permission :: "uuid \<Rightarrow> action_type \<Rightarrow> permission" where
  "sample_permission i a = \<lparr>entId = i, createdAt = 0, deletedAt = None, p_moduleId = ''m1'', p_action = a\<rparr>"

definition role_world :: world where
  "role_world = sample_world
     \<lparr>roles := [guest_role], modules := [bookings_module],
      permissions := [sample_permission ''p1'' CREATE, sample_permission ''p2'' READ],
      role_permissions := [\<lparr>rp_roleId = ''customer'', rp_permissionId = ''p1''\<rparr>]\<rparr>"

lemmas role_world_defs = role_world_def guest_role_def bookings_module_def sample_permission_def sample_defs

theorem role_search_exact_witness:
  "guest_role \<in> set (concat (map (\<lambda>i. fst (findAll_roles (Suc i) 5 False (Some ''STOM'') role_world)) [0..<1]))"
proof -
  have "set ''STOM'' \<inter> wildcards = {}" by (simp add: wildcards_def)
  moreover have "length (roles_listing (Some ''STOM'') role_world) \<le> 1 * 5" by code_simp
  moreover have "sublist (map to_lower ''STOM'') (map to_lower ''Customer'')" by code_simp
  ultimately show ?thesis
    using role_search_exact [of "''STOM''" role_world 1 5 guest_role]
    by (simp add: role_world_defs live_def)
qed

theorem role_update_exact_witness:
  "let w' = snd (update_role ''customer'' \<lparr>ur_name = None, ur_description = None, ur_rank = None, ur_permissionIds = Some [''p2'']\<rparr> role_world)
   in permissions_guard (Some [(M_BOOKINGS, READ)]) (Some \<lparr>cu_id = ''u1'', cu_subjectType = Some USER, cu_role = role_view_of ''customer'' w'\<rparr>) = Inr ()
    \<and> permissions_guard (Some [(M_BOOKINGS, CREATE)]) (Some \<lparr>cu_id = ''u1'', cu_subjectType = Some USER, cu_role = role_view_of ''customer'' w'\<rparr>) \<noteq> Inr ()"
proof -
  let ?dto = "\<lparr>ur_name = None, ur_description = None, ur_rank = None, ur_permissionIds = Some [''p2'']\<rparr> :: update_role_dto"
  let ?r = "update_role ''customer'' ?dto role_world"
  have "succeeds ?r" by code_simp
  moreover have "map_option r_name (result_of ?r) = Some ''Customer''" by code_simp
  then obtain r where "result_of ?r = Some r" by blast
  ultimately have ok: "?r = ok (Some r) (snd ?r)" by (rule succeeds_ok_of)
  have p: "permission_pair ''p2'' role_world = Some (M_BOOKINGS, READ)" by code_simp
  show ?thesis
    unfolding Let_def using role_update_exact [OF ok, of "[''p2'']"] p by simp
qed

theorem role_names_unique_witness:
  "unique_role_names (snd (create_role (plain_ext 5) \<lparr>cr_name = ''Desk'', cr_description = None, cr_rank = None, cr_permissionIds = []\<rparr> role_world))"
proof -
  have u: "unique_role_names role_world" by (simp add: unique_role_names_def role_world_defs)
  have d: "distinct (ids (roles role_world))" by (simp add: role_world_defs)
  have n: "ur_name \<lparr>ur_name = None, ur_description = None, ur_rank = None, ur_permissionIds = None\<rparr> \<noteq> Some ''''" by simp
  show ?thesis using role_names_unique [OF u d n] by blast
qed

theorem role_create_iff_witness:
  "\<not> succeeds (create_role (plain_ext 5) \<lparr>cr_name = ''Desk'', cr_description = None, cr_rank = None, cr_permissionIds = [''p1'', ''p1'']\<rparr> role_world)"
proof -
  have d: "distinct (ids (permissions role_world))" by (simp add: role_world_defs)
  show ?thesis by (simp add: role_create_iff [OF d])
qed

theorem removed_role_strands_users_witness:
  "\<exists>w'. remove_role (plain_ext 5) ''customer'' role_world = ok True w' \<and>
     (\<exists>cu. validate (UserJwt ''u1'' ''u1'') w' = Inr cu \<and>
        permissions_guard (Some [(M_BOOKINGS, CREATE)]) (Some cu) = Inl (ForbiddenException ''Access denied: No permissions''))"
  by (rule removed_role_strands_users [where r = guest_role and u = "sample_user ''u1'' ''+959111''"])
     (simp_all add: role_world_defs by_id_def live_def)

end
