(* ===== verification/Seeding_Facts.thy ===== *)
theory Seeding_Facts
  imports Seeding Roles
begin

text \<open>
  Seeding is repeatable, resolves all its names, and what it leaves behind.
\<close>

section \<open>More rows\<close>

definition extends :: "world \<Rightarrow> world \<Rightarrow> bool" where
  "extends w w' \<longleftrightarrow>
     prefix (users w) (users w') \<and> prefix (admins w) (admins w') \<and> prefix (modules w) (modules w')
     \<and> prefix (permissions w) (permissions w') \<and> prefix (roles w) (roles w')
     \<and> prefix (role_permissions w) (role_permissions w') \<and> prefix (hotels w) (hotels w')
     \<and> prefix (room_types w) (room_types w') \<and> prefix (rooms w) (rooms w')
     \<and> prefix (room_characteristics w) (room_characteristics w')
     \<and> prefix (room_type_characteristics w) (room_type_characteristics w')
     \<and> prefix (rate_options w) (rate_options w') \<and> prefix (benefits w) (benefits w')
     \<and> prefix (rate_option_benefits w) (rate_option_benefits w') \<and> prefix (settings w) (settings w')"

lemma extends_refl [simp]: "extends w w"
  by (simp add: extends_def)

lemma extends_trans: "extends u v \<Longrightarrow> extends v w \<Longrightarrow> extends u w"
  unfolding extends_def by (meson prefix_order.trans)

definition grows :: "(world \<Rightarrow> 'r list) \<Rightarrow> bool" where
  "grows tbl \<longleftrightarrow> (\<forall>w w'. extends w w' \<longrightarrow> prefix (tbl w) (tbl w'))"

named_theorems grow \<open>tables that only grow\<close>

lemma grows_tables [grow]:
  "grows users" "grows admins" "grows modules" "grows permissions" "grows roles" "grows role_permissions"
  "grows hotels" "grows room_types" "grows rooms" "grows room_characteristics" "grows room_type_characteristics"
  "grows rate_options" "grows benefits" "grows rate_option_benefits" "grows settings"
  by (simp_all add: grows_def extends_def)

lemma found_later:
  assumes "grows tbl" and "find_one p (tbl w) = Some r" and "extends w v"
  shows "find_one p (tbl v) = Some r"
proof -
  obtain zs where "tbl v = tbl w @ zs" using assms(1,3) by (auto simp: grows_def prefix_def)
  then show ?thesis using assms(2) by (simp add: find_one_append)
qed

section \<open>Operations that settle\<close>

definition settles :: "'a op \<Rightarrow> 'a op \<Rightarrow> bool" where
  "settles f f' \<longleftrightarrow>
     (\<forall>w x w'. f w = ok x w' \<longrightarrow> extends w w' \<and> (\<forall>v. extends w' v \<longrightarrow> f' v = ok x v))"

definition post :: "'a op \<Rightarrow> ('a \<Rightarrow> world \<Rightarrow> bool) \<Rightarrow> bool" where
  "post f Q \<longleftrightarrow> (\<forall>w x w' v. f w = ok x w' \<longrightarrow> extends w' v \<longrightarrow> Q x v)"

lemma settlesD: "settles f f' \<Longrightarrow> f w = ok x w' \<Longrightarrow> extends w w' \<and> (extends w' v \<longrightarrow> f' v = ok x v)"
  by (auto simp: settles_def)

lemma settles_ok: "settles (ok x) (ok x)"
  by (simp add: settles_def)

lemma settles_throw: "settles (throw e) f"
  by (simp add: settles_def)

lemma settles_bind:
  assumes "settles f f'" and "\<And>x. settles (g x) (g' x)"
  shows "settles (\<lambda>w. and_then (f w) g) (\<lambda>w. and_then (f' w) g')"
  unfolding settles_def
proof (intro allI impI)
  fix w y w2 assume "and_then (f w) g = ok y w2"
  then obtain x w1 where r: "f w = ok x w1" "g x w1 = ok y w2" by (auto simp: and_then_eq_ok)
  have e: "extends w w1" "extends w1 w2" using settlesD [OF assms(1) r(1)] settlesD [OF assms(2) r(2)] by auto
  have "and_then (f' v) g' = ok y v" if v: "extends w2 v" for v
  proof -
    have "f' v = ok x v" using settlesD [OF assms(1) r(1), of v] extends_trans [OF e(2) v] by simp
    moreover have "g' x v = ok y v" using settlesD [OF assms(2) r(2), of v] v by simp
    ultimately show ?thesis by simp
  qed
  then show "extends w w2 \<and> (\<forall>v. extends w2 v \<longrightarrow> and_then (f' v) g' = ok y v)"
    using extends_trans [OF e] by blast
qed

lemma post_bind:
  assumes "post f Q" and "\<And>x. settles (g x) (g x)" and "\<And>x. post (g x) (R x)"
  shows "post (\<lambda>w. and_then (f w) g) (\<lambda>y v. \<exists>x. Q x v \<and> R x y v)"
  unfolding post_def
proof (intro allI impI)
  fix w y w2 v assume "and_then (f w) g = ok y w2" and v: "extends w2 v"
  then obtain x w1 where r: "f w = ok x w1" "g x w1 = ok y w2" by (auto simp: and_then_eq_ok)
  have "extends w1 v" using settlesD [OF assms(2) r(2)] extends_trans [OF _ v] by blast
  then have "Q x v" using assms(1) r(1) unfolding post_def by blast
  moreover have "R x y v" using assms(3) r(2) v unfolding post_def by blast
  ultimately show "\<exists>x. Q x v \<and> R x y v" by blast
qed

lemma post_ok: "post (ok x) (\<lambda>y v. y = x)"
  by (simp add: post_def)

lemma post_weaken: "post f Q \<Longrightarrow> (\<And>x v. Q x v \<Longrightarrow> R x v) \<Longrightarrow> post f R"
  by (auto simp: post_def)

lemma op_funs:
  "each f [] = ok ()" "each f (x # xs) = (\<lambda>w. and_then (f x w) (\<lambda>_. each f xs))"
  "collect f [] = ok []" "collect f (x # xs) = (\<lambda>w. and_then (f x w) (\<lambda>y w1. and_then (collect f xs w1) (\<lambda>ys. ok (y # ys))))"
  by (rule ext, simp)+

lemma settles_each:
  assumes "\<And>x. settles (f x) (f' x)"
  shows "settles (each f xs) (each f' xs)"
proof (induction xs)
  case Nil
  show ?case unfolding op_funs by (rule settles_ok)
next
  case (Cons x xs)
  show ?case unfolding op_funs by (rule settles_bind [OF assms Cons.IH])
qed

lemma post_each:
  assumes "\<And>x. settles (f x) (f x)" and "\<And>x. x \<in> set xs \<Longrightarrow> post (f x) (Q x)"
  shows "post (each f xs) (\<lambda>_ v. \<forall>x \<in> set xs. \<exists>y. Q x y v)"
  using assms(2)
proof (induction xs)
  case Nil
  show ?case by (simp add: post_def)
next
  case (Cons x xs)
  have "post (f x) (Q x)" using Cons.prems by simp
  moreover have "post (each f xs) (\<lambda>_ v. \<forall>x \<in> set xs. \<exists>y. Q x y v)" using Cons.IH Cons.prems by simp
  ultimately have "post (each f (x # xs)) (\<lambda>_ v. \<exists>y. Q x y v \<and> (\<forall>x \<in> set xs. \<exists>y. Q x y v))"
    unfolding op_funs by (rule post_bind [OF _ settles_each [OF assms(1)]])
  then show ?case by (rule post_weaken) auto
qed

lemma settles_collect:
  assumes "\<And>x. settles (f x) (f' x)"
  shows "settles (collect f xs) (collect f' xs)"
proof (induction xs)
  case Nil
  show ?case unfolding op_funs by (rule settles_ok)
next
  case (Cons x xs)
  show ?case unfolding op_funs by (rule settles_bind [OF assms settles_bind [OF Cons.IH settles_ok]])
qed

lemma post_collect:
  assumes "\<And>x. settles (f x) (f x)" and "\<And>x. post (f x) (Q x)"
  shows "post (collect f xs) (\<lambda>ys v. list_all2 (\<lambda>x y. Q x y v) xs ys)"
proof (induction xs)
  case Nil
  show ?case by (simp add: post_def)
next
  case (Cons x xs)
  have p: "post (\<lambda>w1. and_then (collect f xs w1) (\<lambda>ys. ok (y # ys)))
      (\<lambda>zs v. \<exists>ys. list_all2 (\<lambda>x y. Q x y v) xs ys \<and> zs = y # ys)" for y
    by (rule post_bind [OF Cons.IH settles_ok post_ok])
  have "post (collect f (x # xs)) (\<lambda>zs v. \<exists>y. Q x y v \<and> (\<exists>ys. list_all2 (\<lambda>x y. Q x y v) xs ys \<and> zs = y # ys))"
    unfolding op_funs
    by (rule post_bind [OF assms(2) settles_bind [OF settles_collect [OF assms(1)] settles_ok] p])
  then show ?case by (rule post_weaken) auto
qed

lemma settles_required:
  assumes "grows tbl"
  shows "settles (required tbl p msg) (required tbl p msg)"
  unfolding settles_def
proof (intro allI impI)
  fix w r w' assume "required tbl p msg w = ok r w'"
  then have w: "find_one p (tbl w') = Some r" "w' = w" by (auto simp: required_def split: option.splits)
  have "required tbl p msg v = ok r v" if "extends w' v" for v
    using found_later [OF assms w(1) that] by (simp add: required_def)
  then show "extends w w' \<and> (\<forall>v. extends w' v \<longrightarrow> required tbl p msg v = ok r v)" using w(2) by simp
qed

lemma post_required:
  assumes "grows tbl"
  shows "post (required tbl p msg) (\<lambda>r v. find_one p (tbl v) = Some r)"
  unfolding post_def
proof (intro allI impI)
  fix w r w' v assume "required tbl p msg w = ok r w'" and v: "extends w' v"
  then have "find_one p (tbl w') = Some r" by (auto simp: required_def split: option.splits)
  then show "find_one p (tbl v) = Some r" using found_later [OF assms _ v] by blast
qed

text \<open>An insert that appends a row which the lookup then finds.\<close>

definition appends :: "(world \<Rightarrow> 'r list) \<Rightarrow> ('r \<Rightarrow> bool) \<Rightarrow> 'r op \<Rightarrow> bool" where
  "appends tbl p ins \<longleftrightarrow>
     (\<forall>w r w'. ins w = ok r w' \<longrightarrow> extends w w' \<and> tbl w' = tbl w @ [r] \<and> p r)"

lemma appends_finds: "appends tbl p ins \<Longrightarrow> find_one p (tbl w) = None \<Longrightarrow> ins w = ok r w' \<Longrightarrow>
    extends w w' \<and> find_one p (tbl w') = Some r"
  by (simp add: appends_def find_one_append)

lemma ensured:
  assumes "appends tbl p ins" and "ensure tbl p ins w = ok r w'"
  shows "extends w w' \<and> find_one p (tbl w') = Some r"
  using assms(2) appends_finds [OF assms(1)] by (cases "find_one p (tbl w)") (auto simp: ensure_def)

lemma settles_ensure:
  assumes "grows tbl" and "appends tbl p ins"
  shows "settles (ensure tbl p ins) (ensure tbl p ins')"
  unfolding settles_def
proof (intro allI impI)
  fix w r w' assume "ensure tbl p ins w = ok r w'"
  note e = ensured [OF assms(2) this]
  have "ensure tbl p ins' v = ok r v" if "extends w' v" for v
    using found_later [OF assms(1) _ that] e by (simp add: ensure_def)
  then show "extends w w' \<and> (\<forall>v. extends w' v \<longrightarrow> ensure tbl p ins' v = ok r v)" using e by blast
qed

lemma post_ensure:
  assumes "grows tbl" and "appends tbl p ins"
  shows "post (ensure tbl p ins) (\<lambda>r v. find_one p (tbl v) = Some r)"
  unfolding post_def using ensured [OF assms(2)] found_later [OF assms(1)] by blast

lemma appends_insert_row:
  assumes "\<And>w. p (r w)"
    and "\<And>w. extends w (put (tbl w @ [r w]) w)" and "\<And>rs w. tbl (put rs w) = rs"
  shows "appends tbl p (\<lambda>w. insert_row tbl put clash (r w) w)"
  using assms by (auto simp: appends_def insert_row_def split: if_splits)

section \<open>The inserts append\<close>

named_theorems app \<open>inserts that append the row the lookup finds\<close>

lemma appends_modules [app]:
  "appends modules (\<lambda>m. live m \<and> m_code m = code) (new_module en name code None)"
  "appends modules (\<lambda>m. live m \<and> m_code m = code \<and> m_parentId m = Some i) (new_module en name code (Some i))"
  unfolding new_module_def by (rule appends_insert_row; simp add: extends_def live_def)+

lemma appends_permissions [app]:
  "appends permissions (\<lambda>p. live p \<and> p_moduleId p = i \<and> p_action p = a) (new_permission en i a)"
  unfolding new_permission_def by (rule appends_insert_row; simp add: extends_def live_def)

lemma settles_createRole: "settles (createRole en n d k) (createRole en' n d k)"
  unfolding createRole_def
  by (rule settles_ensure [OF grows_tables(5)], rule appends_insert_row; simp add: extends_def live_def)

lemma post_createRole: "post (createRole en n d k) (\<lambda>r v. find_one (\<lambda>r. live r \<and> r_name r = n) (roles v) = Some r)"
  unfolding createRole_def
  by (rule post_ensure [OF grows_tables(5)], rule appends_insert_row; simp add: extends_def live_def)

lemma appends_assign:
  "appends role_permissions (\<lambda>rp. rp_roleId rp = i \<and> rp_permissionId rp = j)
     (\<lambda>w. let rp = \<lparr>rp_roleId = i, rp_permissionId = j\<rparr> in ok rp (w\<lparr>role_permissions := role_permissions w @ [rp]\<rparr>))"
  by (auto simp: appends_def extends_def Let_def)

lemma settles_assign: "settles (assign_permission i p) (assign_permission i p)"
  unfolding assign_permission_def by (rule settles_ensure [OF grows_tables(6) appends_assign])

lemma post_assign:
  "post (assign_permission i p) (\<lambda>_ v. \<lparr>rp_roleId = i, rp_permissionId = entId p\<rparr> \<in> set (role_permissions v))"
  unfolding assign_permission_def
proof (rule post_weaken [OF post_ensure [OF grows_tables(6) appends_assign]])
  fix rp v assume "find_one (\<lambda>rp. rp_roleId rp = i \<and> rp_permissionId rp = entId p) (role_permissions v) = Some rp"
  then show "\<lparr>rp_roleId = i, rp_permissionId = entId p\<rparr> \<in> set (role_permissions v)"
    by (cases rp) (auto dest!: find_one_Some)
qed

lemma settles_createAdminAccount: "settles (createAdminAccount en m n r) (createAdminAccount en' m n r)"
  unfolding createAdminAccount_def
  by (rule settles_ensure [OF grows_tables(2)], rule appends_insert_row;
      simp add: extends_def live_def admin_with_hashed_password_def)

lemma settles_createCustomerUser: "settles (createCustomerUser en r) (createCustomerUser en' r)"
  unfolding createCustomerUser_def
  by (rule settles_ensure [OF grows_tables(1)])
     (auto simp: appends_def insert_user_def extends_def live_def with_hashed_password_def split: if_splits)

section \<open>The seeders settle\<close>

lemma settles_seed_module: "settles (seed_module en ms) (seed_module en' ms)"
  unfolding seed_module_def [abs_def]
  by (intro settles_bind settles_collect settles_ok settles_ensure grow app)

lemma settles_createModulePermissions: "settles (createModulePermissions en m) (createModulePermissions en' m)"
  unfolding createModulePermissions_def
  by (intro settles_collect settles_ensure grow app)

lemma settles_config: "settles (assignPermissionsToRoleFromConfig r c mps) (assignPermissionsToRoleFromConfig r c mps)"
  unfolding assignPermissionsToRoleFromConfig_def by (intro settles_each settles_assign)

lemma settles_seed_role: "settles (seed_role en mps c) (seed_role en' mps c)"
  unfolding seed_role_def [abs_def] by (intro settles_bind settles_createRole settles_config settles_ok)

lemma settles_optional:
  assumes "\<And>r. settles (f r) (f' r)"
  shows "settles (\<lambda>w. case x of None \<Rightarrow> ok () w | Some r \<Rightarrow> and_then (f r w) (\<lambda>_. ok ()))
    (\<lambda>w. case x of None \<Rightarrow> ok () w | Some r \<Rightarrow> and_then (f' r w) (\<lambda>_. ok ()))"
  by (cases x) (simp_all add: settles_ok settles_bind [OF assms settles_ok])

lemma settles_seed_accounts: "settles (seed_accounts en rs) (seed_accounts en' rs)"
  unfolding seed_accounts_def [abs_def] Let_def
  by (intro settles_bind settles_optional settles_createAdminAccount settles_createCustomerUser)

lemma settles_seed_auth: "settles (seed_auth en) (seed_auth en')"
  unfolding seed_auth_def [abs_def] Let_def
  by (intro settles_bind settles_collect settles_seed_module settles_createModulePermissions settles_ok
      settles_seed_role settles_seed_accounts)

lemma settles_seed_hotel: "settles (seed_hotel en i s) (seed_hotel en' j s)"
  unfolding seed_hotel_def
  by (rule settles_ensure [OF grows_tables(7)], rule appends_insert_row; simp add: extends_def live_def)

lemma hotel_admin_later: "hotel_admin w \<noteq> None \<Longrightarrow> extends w v \<Longrightarrow> hotel_admin v \<noteq> None"
  unfolding hotel_admin_def find_latest_None extends_def by (auto dest: set_mono_prefix)

lemma settles_seed_hotels: "settles (seed_hotels en) (seed_hotels en')"
  unfolding settles_def
proof (intro allI impI)
  fix w x w' assume run: "seed_hotels en w = ok x w'"
  then obtain a where a: "hotel_admin w = Some a" "each (seed_hotel en (entId a)) hotel_seeds w = ok x w'"
    by (auto simp: seed_hotels_def split: option.splits)
  have s: "settles (each (seed_hotel en (entId a)) hotel_seeds) (each (seed_hotel en' j) hotel_seeds)" for j
    by (intro settles_each settles_seed_hotel)
  have e: "extends w w'" using settlesD [OF s a(2)] by blast
  have "seed_hotels en' v = ok x v" if v: "extends w' v" for v
  proof -
    obtain b where b: "hotel_admin v = Some b"
      using hotel_admin_later [OF _ extends_trans [OF e v]] a(1) by auto
    have "each (seed_hotel en' (entId b)) hotel_seeds v = ok x v" using settlesD [OF s a(2)] v by blast
    then show ?thesis by (simp add: seed_hotels_def b)
  qed
  then show "extends w w' \<and> (\<forall>v. extends w' v \<longrightarrow> seed_hotels en' v = ok x v)" using e by blast
qed

lemma settles_seeded: "settles (seeded_hotel n) (seeded_hotel n)" "settles (seeded_room_type n h) (seeded_room_type n h)"
  unfolding seeded_hotel_def seeded_room_type_def by (rule settles_required; rule grow)+

lemma settles_seed_characteristic: "settles (seed_characteristic en s) (seed_characteristic en' s)"
  unfolding seed_characteristic_def by (intro settles_ensure grow appends_insert_row; simp add: extends_def live_def)

lemma settles_seed_room_type: "settles (seed_room_type en s) (seed_room_type en' s)"
  unfolding seed_room_type_def [abs_def]
  by (intro settles_bind settles_seeded settles_ensure grow appends_insert_row; simp add: extends_def live_def)

lemma settles_seed_type_characteristic: "settles (seed_type_characteristic en t n) (seed_type_characteristic en' t n)"
  unfolding seed_type_characteristic_def [abs_def]
  by (intro settles_bind settles_required settles_ensure grow appends_insert_row; simp add: extends_def live_def)

lemma settles_seed_room: "settles (seed_room en s) (seed_room en' s)"
  unfolding seed_room_def [abs_def]
  by (intro settles_bind settles_seeded settles_ensure grow appends_insert_row; simp add: extends_def live_def)

lemma settles_seed_benefit: "settles (seed_benefit en s) (seed_benefit en' s)"
  unfolding seed_benefit_def by (intro settles_ensure grow appends_insert_row; simp add: extends_def live_def)

lemma settles_seed_rate_option: "settles (seed_rate_option en s) (seed_rate_option en' s)"
  unfolding seed_rate_option_def [abs_def]
  by (intro settles_bind settles_seeded settles_ensure grow appends_insert_row; simp add: extends_def live_def)

lemma settles_seed_rate_benefit: "settles (seed_rate_benefit en i n) (seed_rate_benefit en' i n)"
  unfolding seed_rate_benefit_def [abs_def]
  by (intro settles_bind settles_required settles_ensure grow appends_insert_row; simp add: extends_def live_def)

lemma settles_seed_setting: "settles (seed_setting en s) (seed_setting en' s)"
  unfolding seed_setting_def by (intro settles_ensure grow appends_insert_row; simp add: extends_def live_def)

lemmas rows_settle =
  settles_seed_characteristic settles_seed_room_type settles_seed_type_characteristic settles_seed_room
  settles_seed_benefit settles_seed_rate_option settles_seed_rate_benefit settles_seed_setting

lemma settles_seed_characteristics: "settles (seed_characteristics en) (seed_characteristics en')"
  unfolding seed_characteristics_def by (intro settles_each rows_settle)

lemma settles_seed_room_types: "settles (seed_room_types en) (seed_room_types en')"
  unfolding seed_room_types_def by (intro settles_each rows_settle)

lemma settles_seed_type_characteristics: "settles (seed_type_characteristics en) (seed_type_characteristics en')"
  unfolding seed_type_characteristics_def by (intro settles_each settles_bind settles_seeded rows_settle)

lemma settles_seed_rooms: "settles (seed_rooms en) (seed_rooms en')"
  unfolding seed_rooms_def by (intro settles_each rows_settle)

lemma settles_seed_benefits: "settles (seed_benefits en) (seed_benefits en')"
  unfolding seed_benefits_def by (intro settles_each rows_settle)

lemma settles_seed_rate_options: "settles (seed_rate_options en) (seed_rate_options en')"
  unfolding seed_rate_options_def by (intro settles_each rows_settle)

lemma settles_seed_rate_benefits: "settles (seed_rate_benefits en) (seed_rate_benefits en')"
  unfolding seed_rate_benefits_def by (intro settles_each settles_bind settles_seeded settles_required grow rows_settle)

lemma settles_seed_settings: "settles (seed_settings en a s n) (seed_settings en' a s n)"
  unfolding seed_settings_def by (intro settles_each rows_settle)

lemmas seeders_settle =
  settles_seed_auth settles_seed_hotels settles_seed_characteristics settles_seed_room_types
  settles_seed_type_characteristics settles_seed_rooms settles_seed_benefits settles_seed_rate_options
  settles_seed_rate_benefits settles_seed_settings

lemma settles_runSeeders: "settles (runSeeders en a s n) (runSeeders en' a s n)"
  unfolding runSeeders_def op_funs
  by (intro settles_bind settles_ok seeders_settle)

text \<open>C36: seeding is repeatable: run again, whatever the environment, the seeders succeed and change nothing, even
  after other rows were added.\<close>

theorem seeding_twice:
  assumes "runSeeders en account secret from_name w = ok () w'"
  shows "extends w w' \<and> runSeeders en' account secret from_name w' = ok () w'
    \<and> (extends w' v \<longrightarrow> runSeeders en' account secret from_name v = ok () v)"
  using settlesD [OF settles_runSeeders assms] extends_refl by blast

section \<open>What seeding grants\<close>

definition seed_codes :: "module_seed \<Rightarrow> permission_module list" where
  "seed_codes ms = map snd (ms_children ms) @ [ms_code ms]"

definition seeded_codes :: "permission_module list" where
  "seeded_codes = concat (map seed_codes modulesToSeed)"

definition live_module :: "world \<Rightarrow> module_entity \<Rightarrow> bool" where
  "live_module v m \<longleftrightarrow> m \<in> set (modules v) \<and> live m"

definition live_permission :: "world \<Rightarrow> module_entity \<Rightarrow> permission \<Rightarrow> bool" where
  "live_permission v m p \<longleftrightarrow> p \<in> set (permissions v) \<and> live p \<and> p_moduleId p = entId m"

lemma list_all2_map_eq: "list_all2 (\<lambda>x y. f y = g x) xs ys \<Longrightarrow> map f ys = map g xs"
  by (induction rule: list_all2_induct) auto

lemma list_all2_right: "list_all2 (\<lambda>x y. Q x y) xs ys \<Longrightarrow> y \<in> set ys \<Longrightarrow> \<exists>x \<in> set xs. Q x y"
  by (induction rule: list_all2_induct) auto

lemma list_all2_left: "list_all2 (\<lambda>x y. Q x y) xs ys \<Longrightarrow> x \<in> set xs \<Longrightarrow> \<exists>y \<in> set ys. Q x y"
  by (induction rule: list_all2_induct) auto

lemma post_seed_module:
  "post (seed_module en ms) (\<lambda>mds v. map m_code mds = seed_codes ms \<and> (\<forall>m \<in> set mds. live_module v m))"
  unfolding seed_module_def [abs_def]
proof (rule post_weaken [OF post_bind [OF post_ensure [OF grows_tables(3) appends_modules(1)]
        settles_bind [OF settles_collect [OF settles_ensure [OF grows_tables(3) appends_modules(2)]] settles_ok]
        post_bind [OF post_collect [OF settles_ensure [OF grows_tables(3) appends_modules(2)] post_ensure [OF grows_tables(3) appends_modules(2)]]
            settles_ok post_ok]]])
  fix mds and v :: world
  assume "\<exists>x. find_one (\<lambda>m. live m \<and> m_code m = ms_code ms) (modules v) = Some x \<and>
      (\<exists>xa. list_all2 (\<lambda>xa y. find_one (\<lambda>xb. live xb \<and> m_code xb = snd xa \<and> m_parentId xb = Some (entId x)) (modules v) = Some y)
         (ms_children ms) xa \<and> mds = xa @ [x])"
  then obtain x cs where x: "find_one (\<lambda>m. live m \<and> m_code m = ms_code ms) (modules v) = Some x"
    and cs: "list_all2 (\<lambda>xa y. find_one (\<lambda>xb. live xb \<and> m_code xb = snd xa \<and> m_parentId xb = Some (entId x)) (modules v) = Some y)
         (ms_children ms) cs" and mds: "mds = cs @ [x]" by blast
  have "list_all2 (\<lambda>c y. m_code y = snd c) (ms_children ms) cs"
    by (rule list_all2_mono [OF cs]) (auto dest: find_one_Some)
  then have "map m_code cs = map snd (ms_children ms)" by (rule list_all2_map_eq)
  moreover have "\<forall>m \<in> set cs. live_module v m"
    using list_all2_right [OF cs] by (auto simp: live_module_def dest: find_one_Some)
  ultimately show "map m_code mds = seed_codes ms \<and> (\<forall>m \<in> set mds. live_module v m)"
    using find_one_Some [OF x] by (auto simp: mds seed_codes_def live_module_def)
qed

lemma post_createModulePermissions:
  "post (createModulePermissions en m) (\<lambda>ps v. \<forall>a. \<exists>p \<in> set ps. p_action p = a \<and> live_permission v m p)"
  unfolding createModulePermissions_def
proof (rule post_weaken [OF post_collect [OF settles_ensure [OF grows_tables(4) appends_permissions]
        post_ensure [OF grows_tables(4) appends_permissions]]])
  fix ps and v :: world
  assume l: "list_all2 (\<lambda>a p. find_one (\<lambda>p. live p \<and> p_moduleId p = entId m \<and> p_action p = a) (permissions v) = Some p)
      [CREATE, READ, UPDATE, DELETE] ps"
  have "a \<in> set [CREATE, READ, UPDATE, DELETE]" for a by (cases a) simp_all
  note found = list_all2_left [OF l this]
  show "\<forall>a. \<exists>p \<in> set ps. p_action p = a \<and> live_permission v m p"
  proof
    fix a
    obtain p where p: "p \<in> set ps" "find_one (\<lambda>p. live p \<and> p_moduleId p = entId m \<and> p_action p = a) (permissions v) = Some p"
      by (rule bexE [OF found [of a]])
    show "\<exists>p \<in> set ps. p_action p = a \<and> live_permission v m p"
      using p(1) find_one_Some [OF p(2)] by (intro bexI [of _ p]) (simp_all add: live_permission_def)
  qed
qed

text \<open>The role has been given what its configuration names, for the modules of the table \<open>mps\<close>.\<close>

definition assigned :: "world \<Rightarrow> role \<Rightarrow> permission \<Rightarrow> bool" where
  "assigned v r p \<longleftrightarrow> \<lparr>rp_roleId = entId r, rp_permissionId = entId p\<rparr> \<in> set (role_permissions v)"

lemma post_config:
  "post (assignPermissionsToRoleFromConfig r config mps)
     (\<lambda>_ v. \<forall>c \<in> set config. \<forall>p \<in> set (nullish (map_of mps (fst c)) []). p_action p \<in> set (snd c) \<longrightarrow> assigned v r p)"
proof -
  have "post (each (assign_permission (entId r)) (filter (\<lambda>p. List.member (snd c) (p_action p)) (nullish (map_of mps (fst c)) [])))
      (\<lambda>_ v. \<forall>p \<in> set (nullish (map_of mps (fst c)) []). p_action p \<in> set (snd c) \<longrightarrow> assigned v r p)" for c
    by (rule post_weaken [OF post_each [OF settles_assign post_assign]]) (auto simp: assigned_def)
  from post_each [OF settles_each [OF settles_assign] this]
  show ?thesis unfolding assignPermissionsToRoleFromConfig_def by (rule post_weaken) simp
qed

lemma post_seed_role:
  "post (seed_role en mps c) (\<lambda>r v. find_one (\<lambda>r. live r \<and> r_name r = rcf_name c) (roles v) = Some r
     \<and> (\<forall>x \<in> set (rcf_modules c). \<forall>p \<in> set (nullish (map_of mps (fst x)) []). p_action p \<in> set (snd x) \<longrightarrow> assigned v r p))"
  unfolding seed_role_def [abs_def]
  by (rule post_weaken [OF post_bind [OF post_createRole settles_bind [OF settles_config settles_ok]
        post_bind [OF post_config settles_ok post_ok]]]) auto

text \<open>All permissions of the module of \<open>m\<close> are in the table under its code.\<close>

definition permission_table :: "world \<Rightarrow> (permission_module \<times> permission list) list \<Rightarrow> bool" where
  "permission_table v mps \<longleftrightarrow> map fst mps = seeded_codes
     \<and> (\<forall>(c, ps) \<in> set mps. \<exists>m. live_module v m \<and> m_code m = c \<and> (\<forall>a. \<exists>p \<in> set ps. p_action p = a \<and> live_permission v m p))"

definition role_seeded :: "world \<Rightarrow> role_config \<Rightarrow> bool" where
  "role_seeded v c \<longleftrightarrow> (\<exists>r. find_one (\<lambda>r. live r \<and> r_name r = rcf_name c) (roles v) = Some r
     \<and> (\<forall>x \<in> set (rcf_modules c). fst x \<in> set seeded_codes \<longrightarrow> (\<forall>a \<in> set (snd x).
          \<exists>m p. live_module v m \<and> m_code m = fst x \<and> live_permission v m p \<and> p_action p = a \<and> assigned v r p)))"

lemma role_seededI:
  assumes "permission_table v mps"
    and "find_one (\<lambda>r. live r \<and> r_name r = rcf_name c) (roles v) = Some r"
    and "\<forall>x \<in> set (rcf_modules c). \<forall>p \<in> set (nullish (map_of mps (fst x)) []). p_action p \<in> set (snd x) \<longrightarrow> assigned v r p"
  shows "role_seeded v c"
  unfolding role_seeded_def
proof (intro exI [of _ r] conjI assms(2) ballI impI)
  fix x a assume x: "x \<in> set (rcf_modules c)" "fst x \<in> set seeded_codes" "a \<in> set (snd x)"
  then have "fst x \<in> fst ` set mps" using assms(1) by (metis permission_table_def list.set_map)
  then obtain ps where ps: "map_of mps (fst x) = Some ps" by (metis map_of_eq_None_iff option.exhaust)
  then have "(fst x, ps) \<in> set mps" by (rule map_of_SomeD)
  then obtain m p where "live_module v m" "m_code m = fst x" "p \<in> set ps" "p_action p = a" "live_permission v m p"
    using assms(1) unfolding permission_table_def by blast
  moreover then have "assigned v r p" using assms(3) x ps by auto
  ultimately show "\<exists>m p. live_module v m \<and> m_code m = fst x \<and> live_permission v m p \<and> p_action p = a \<and> assigned v r p"
    by blast
qed

lemma post_permission_tables:
  "post (collect (\<lambda>m w. and_then (createModulePermissions en m w) (\<lambda>ps. ok (m_code m, ps))) ms)
     (\<lambda>mps v. map fst mps = map m_code ms
        \<and> (\<forall>(c, ps) \<in> set mps. \<exists>m \<in> set ms. m_code m = c \<and> (\<forall>a. \<exists>p \<in> set ps. p_action p = a \<and> live_permission v m p)))"
proof (rule post_weaken [OF post_collect [OF settles_bind [OF settles_createModulePermissions settles_ok]
        post_bind [OF post_createModulePermissions settles_ok post_ok]]])
  fix mps and v :: world
  assume l: "list_all2 (\<lambda>m y. \<exists>ps. (\<forall>a. \<exists>p \<in> set ps. p_action p = a \<and> live_permission v m p) \<and> y = (m_code m, ps)) ms mps"
  have "list_all2 (\<lambda>m y. fst y = m_code m) ms mps" by (rule list_all2_mono [OF l]) auto
  then have "map fst mps = map m_code ms" by (rule list_all2_map_eq)
  then show "map fst mps = map m_code ms
      \<and> (\<forall>(c, ps) \<in> set mps. \<exists>m \<in> set ms. m_code m = c \<and> (\<forall>a. \<exists>p \<in> set ps. p_action p = a \<and> live_permission v m p))"
    using list_all2_right [OF l] by fastforce
qed

lemma post_seed_auth:
  "post (seed_auth en) (\<lambda>_ v. \<forall>c \<in> set (getRoleConfigurations seeded_codes). role_seeded v c)"
proof -
  let ?tables = "\<lambda>ms. collect (\<lambda>m w. and_then (createModulePermissions en m w) (\<lambda>ps. ok (m_code m, ps))) ms"
  let ?roles = "\<lambda>ms mps. collect (seed_role en mps) (getRoleConfigurations (map m_code ms))"
  have mods: "post (collect (seed_module en) modulesToSeed)
      (\<lambda>mss v. map m_code (concat mss) = seeded_codes \<and> (\<forall>m \<in> set (concat mss). live_module v m))"
  proof (rule post_weaken [OF post_collect [OF settles_seed_module post_seed_module]])
    fix mss and v :: world
    assume l: "list_all2 (\<lambda>ms mds. map m_code mds = seed_codes ms \<and> (\<forall>m \<in> set mds. live_module v m)) modulesToSeed mss"
    have "list_all2 (\<lambda>ms mds. map m_code mds = seed_codes ms) modulesToSeed mss" by (rule list_all2_mono [OF l]) simp
    then have "map (map m_code) mss = map seed_codes modulesToSeed" by (rule list_all2_map_eq)
    then show "map m_code (concat mss) = seeded_codes \<and> (\<forall>m \<in> set (concat mss). live_module v m)"
      using list_all2_right [OF l] by (auto simp: seeded_codes_def map_concat)
  qed
  have rls: "post (\<lambda>w. and_then (?roles ms mps w) (seed_accounts en))
      (\<lambda>_ v. \<exists>rs. list_all2 (\<lambda>c r. find_one (\<lambda>r. live r \<and> r_name r = rcf_name c) (roles v) = Some r
         \<and> (\<forall>x \<in> set (rcf_modules c). \<forall>p \<in> set (nullish (map_of mps (fst x)) []). p_action p \<in> set (snd x) \<longrightarrow> assigned v r p))
        (getRoleConfigurations (map m_code ms)) rs)" for ms mps
    by (rule post_weaken [OF post_bind [OF post_collect [OF settles_seed_role post_seed_role] settles_seed_accounts]])
       (auto simp: post_def)
  show ?thesis
    unfolding seed_auth_def [abs_def] Let_def
  proof (rule post_weaken [OF post_bind [OF mods
          settles_bind [OF settles_collect [OF settles_bind [OF settles_createModulePermissions settles_ok]]
             settles_bind [OF settles_collect [OF settles_seed_role] settles_seed_accounts]]
          post_bind [OF post_permission_tables settles_bind [OF settles_collect [OF settles_seed_role] settles_seed_accounts] rls]]])
    fix u and v :: world
    assume "\<exists>mss. (map m_code (concat mss) = seeded_codes \<and> (\<forall>m \<in> set (concat mss). live_module v m)) \<and>
      (\<exists>mps. (map fst mps = map m_code (concat mss) \<and>
         (\<forall>(c, ps) \<in> set mps. \<exists>m \<in> set (concat mss). m_code m = c \<and> (\<forall>a. \<exists>p \<in> set ps. p_action p = a \<and> live_permission v m p))) \<and>
       (\<exists>rs. list_all2 (\<lambda>c r. find_one (\<lambda>r. live r \<and> r_name r = rcf_name c) (roles v) = Some r
         \<and> (\<forall>x \<in> set (rcf_modules c). \<forall>p \<in> set (nullish (map_of mps (fst x)) []). p_action p \<in> set (snd x) \<longrightarrow> assigned v r p))
        (getRoleConfigurations (map m_code (concat mss))) rs))"
    then obtain mss mps rs where m: "map m_code (concat mss) = seeded_codes" "\<forall>m \<in> set (concat mss). live_module v m"
      and t: "map fst mps = seeded_codes"
        "\<forall>(c, ps) \<in> set mps. \<exists>m \<in> set (concat mss). m_code m = c \<and> (\<forall>a. \<exists>p \<in> set ps. p_action p = a \<and> live_permission v m p)"
      and l: "list_all2 (\<lambda>c r. find_one (\<lambda>r. live r \<and> r_name r = rcf_name c) (roles v) = Some r
         \<and> (\<forall>x \<in> set (rcf_modules c). \<forall>p \<in> set (nullish (map_of mps (fst x)) []). p_action p \<in> set (snd x) \<longrightarrow> assigned v r p))
        (getRoleConfigurations seeded_codes) rs"
      by (elim exE conjE) simp
    have tab: "permission_table v mps" unfolding permission_table_def using t m(2) by fastforce
    show "\<forall>c \<in> set (getRoleConfigurations seeded_codes). role_seeded v c"
      using list_all2_left [OF l] role_seededI [OF tab] by blast
  qed
qed

lemma post_trivial: "post f (\<lambda>_ _. True)"
  by (simp add: post_def)

lemma post_runSeeders:
  "post (runSeeders en a s n) (\<lambda>_ v. \<forall>c \<in> set (getRoleConfigurations seeded_codes). role_seeded v c)"
proof -
  have "settles (each (\<lambda>seeder. seeder) [seed_hotels en, seed_characteristics en, seed_room_types en, seed_type_characteristics en,
        seed_rooms en, seed_benefits en, seed_rate_options en, seed_rate_benefits en, seed_settings en a s n])
      (each (\<lambda>seeder. seeder) [seed_hotels en, seed_characteristics en, seed_room_types en, seed_type_characteristics en,
        seed_rooms en, seed_benefits en, seed_rate_options en, seed_rate_benefits en, seed_settings en a s n])" (is "settles ?rest ?rest")
    unfolding op_funs by (intro settles_bind settles_ok seeders_settle)
  from post_bind [OF post_seed_auth this post_trivial]
  show ?thesis unfolding runSeeders_def op_funs(2) [of _ "seed_auth en"] by (rule post_weaken) blast
qed

lemma every_module_seeded: "m \<in> set seeded_codes"
  by (cases m) (simp_all add: seeded_codes_def modulesToSeed_def seed_codes_def)

lemma seeded_pairs:
  assumes "role_seeded v c" and "distinct (ids (permissions v))" and "distinct (ids (modules v))"
  shows "\<exists>r. role_named (rcf_name c) v = Some r
    \<and> (\<forall>(m, acts) \<in> set (rcf_modules c). \<forall>a \<in> set acts. (m, a) \<in> set (role_pairs (entId r) v))"
proof -
  obtain r where r: "role_named (rcf_name c) v = Some r"
    and g: "\<forall>x \<in> set (rcf_modules c). \<forall>a \<in> set (snd x).
          \<exists>m p. live_module v m \<and> m_code m = fst x \<and> live_permission v m p \<and> p_action p = a \<and> assigned v r p"
    using assms(1) every_module_seeded unfolding role_seeded_def role_named_def by blast
  have "(m, a) \<in> set (role_pairs (entId r) v)" if c: "(m, acts) \<in> set (rcf_modules c)" "a \<in> set acts" for m acts a
  proof -
    obtain md p where md: "live_module v md" "m_code md = m" and p: "live_permission v md p" "p_action p = a" "assigned v r p"
      using bspec [OF bspec [OF g c(1)], of a] c(2) by auto
    have "by_id (entId p) (permissions v) = Some p"
      by (rule by_id_eq [OF assms(2)]) (use p in \<open>auto simp: live_permission_def\<close>)
    moreover have "by_id (entId md) (modules v) = Some md"
      by (rule by_id_eq [OF assms(3)]) (use md in \<open>auto simp: live_module_def\<close>)
    ultimately have "permission_pair (entId p) v = Some (m, a)"
      using md p by (auto simp: permission_pair_Some live_permission_def)
    then show ?thesis using p(3) by (force simp: in_role_pairs assigned_def)
  qed
  then show ?thesis using r by blast
qed

text \<open>After seeding, and as long as rows are only added, the role of each configuration passes every route that asks
  for one of its permissions; what an administrator took away from a role, the next seeding gives back.\<close>

theorem seeding_grants:
  assumes "runSeeders en account secret from_name w = ok () w'" and "extends w' v"
    and "distinct (ids (permissions v))" and "distinct (ids (modules v))"
    and "c \<in> set (getRoleConfigurations seeded_codes)"
  shows "\<exists>r. role_named (rcf_name c) v = Some r \<and>
    (\<forall>cu reqs. cu_role cu = role_view_of (entId r) v \<and> (\<exists>(m, a) \<in> set reqs. \<exists>acts. (m, acts) \<in> set (rcf_modules c) \<and> a \<in> set acts)
       \<longrightarrow> permissions_guard (Some reqs) (Some cu) = Inr ())"
proof -
  have "role_seeded v c" using post_runSeeders assms(1,2,5) unfolding post_def by blast
  from seeded_pairs [OF this assms(3,4)]
  obtain r where r: "role_named (rcf_name c) v = Some r"
    and g: "\<forall>(m, acts) \<in> set (rcf_modules c). \<forall>a \<in> set acts. (m, a) \<in> set (role_pairs (entId r) v)" by blast
  have "r \<in> set (roles v)" "live r" using r by (auto simp: role_named_def dest: find_one_Some)
  then have "by_id (entId r) (roles v) \<noteq> None" unfolding by_id_def find_one_None by blast
  then have "\<exists>r'. by_id (entId r) (roles v) = Some r'" by blast
  then obtain rv where rv: "role_view_of (entId r) v = Some rv" "rv_permissions rv = role_pairs (entId r) v"
    by (auto simp: role_view_of_def)
  have "permissions_guard (Some reqs) (Some cu) = Inr ()"
    if "cu_role cu = role_view_of (entId r) v" and "\<exists>(m, a) \<in> set reqs. \<exists>acts. (m, acts) \<in> set (rcf_modules c) \<and> a \<in> set acts" for cu reqs
    unfolding permissions_guard_iff using that rv g by fastforce
  then show ?thesis using r by blast
qed

end
