(* ===== verification/Seeding_Runs.thy ===== *)
theory Seeding_Runs
  imports Seeding_Facts
begin

text \<open>
  Seeding an empty database succeeds: every name a seeder looks up was written by a seeder before it, and no unique
  index is violated.  \<open>runs I P f\<close> says that \<open>f\<close> returns in every world with the invariant \<open>I\<close> in which, and in all
  worlds with more rows, \<open>P\<close> holds; \<open>P\<close> collects what the earlier steps have established.
\<close>

section \<open>Operations that return\<close>

definition runs :: "(world \<Rightarrow> bool) \<Rightarrow> (world \<Rightarrow> bool) \<Rightarrow> 'a op \<Rightarrow> bool" where
  "runs I P f \<longleftrightarrow> (\<forall>w. I w \<longrightarrow> (\<forall>v. extends w v \<longrightarrow> P v) \<longrightarrow> (\<exists>x w'. f w = ok x w' \<and> I w'))"

lemma runs_ok: "runs I P (ok x)"
  by (auto simp: runs_def)

lemma runs_weaken: "runs I P f \<Longrightarrow> (\<And>v. P' v \<Longrightarrow> P v) \<Longrightarrow> runs I P' f"
  unfolding runs_def by blast

lemma runs_bind:
  assumes "runs I P f" and "settles f f" and "post f Q" and "\<And>x. runs I (\<lambda>v. P v \<and> Q x v) (g x)"
  shows "runs I P (\<lambda>w. and_then (f w) g)"
  unfolding runs_def
proof (intro allI impI)
  fix w assume I: "I w" and P: "\<forall>v. extends w v \<longrightarrow> P v"
  obtain x w1 where f: "f w = ok x w1" "I w1" using assms(1) I P unfolding runs_def by blast
  have e: "extends w w1" using settlesD [OF assms(2) f(1)] by blast
  have "P v \<and> Q x v" if "extends w1 v" for v
    using P extends_trans [OF e that] assms(3) f(1) that unfolding post_def by blast
  then obtain y w2 where "g x w1 = ok y w2" "I w2" using assms(4) f(2) unfolding runs_def by blast
  then show "\<exists>y w2. and_then (f w) g = ok y w2 \<and> I w2" using f(1) by simp
qed

lemma runs_seq:
  assumes "runs I P f" and "settles f f" and "\<And>x. runs I P (g x)"
  shows "runs I P (\<lambda>w. and_then (f w) g)"
  by (rule runs_bind [OF assms(1,2) post_trivial]) (rule runs_weaken [OF assms(3)], simp)

lemma runs_each:
  assumes "\<And>x. settles (f x) (f x)" and "\<And>x. x \<in> set xs \<Longrightarrow> runs I P (f x)"
  shows "runs I P (each f xs)"
  using assms(2)
proof (induction xs)
  case Nil
  show ?case unfolding op_funs by (rule runs_ok)
next
  case (Cons x xs)
  show ?case unfolding op_funs
    by (rule runs_seq [OF _ assms(1)]) (use Cons in auto)
qed

lemma runs_collect:
  assumes "\<And>x. settles (f x) (f x)" and "\<And>x. x \<in> set xs \<Longrightarrow> runs I P (f x)"
  shows "runs I P (collect f xs)"
  using assms(2)
proof (induction xs)
  case Nil
  show ?case unfolding op_funs by (rule runs_ok)
next
  case (Cons x xs)
  show ?case unfolding op_funs
    by (rule runs_seq [OF _ assms(1)], use Cons in simp)
       (rule runs_seq [OF _ settles_collect [OF assms(1)] runs_ok], use Cons in simp)
qed

lemma runs_ensure:
  assumes "\<And>w. I w \<Longrightarrow> (\<forall>v. extends w v \<longrightarrow> P v) \<Longrightarrow> find_one p (tbl w) = None \<Longrightarrow> \<exists>r w'. ins w = ok r w' \<and> I w'"
  shows "runs I P (ensure tbl p ins)"
  unfolding runs_def
proof (intro allI impI)
  fix w assume w: "I w" "\<forall>v. extends w v \<longrightarrow> P v"
  show "\<exists>x w'. ensure tbl p ins w = ok x w' \<and> I w'"
  proof (cases "find_one p (tbl w)")
    case None
    then show ?thesis using assms [OF w] by (simp add: ensure_def)
  next
    case (Some r)
    then show ?thesis using w(1) by (simp add: ensure_def)
  qed
qed

lemma runs_required:
  assumes "\<And>w. P w \<Longrightarrow> find_one p (tbl w) \<noteq> None"
  shows "runs I P (required tbl p msg)"
  unfolding runs_def
proof (intro allI impI)
  fix w assume "I w" "\<forall>v. extends w v \<longrightarrow> P v"
  then obtain r where "find_one p (tbl w) = Some r" using assms extends_refl by blast
  then show "\<exists>x w'. required tbl p msg w = ok x w' \<and> I w'" using \<open>I w\<close> by (simp add: required_def)
qed

section \<open>The invariant\<close>

text \<open>
  No row is soft deleted where a unique index is, a module that is seeded as a child hangs at its parent, and the keys
  are distinct.
\<close>

definition child_codes :: "module_seed \<Rightarrow> permission_module list" where
  "child_codes ms = map snd (ms_children ms)"

definition rooted :: "module_entity list \<Rightarrow> bool" where
  "rooted rs \<longleftrightarrow> distinct (map m_code rs)
     \<and> (\<forall>m \<in> set rs. \<forall>ms \<in> set modulesToSeed. m_code m \<in> set (child_codes ms) \<longrightarrow>
          (\<exists>pm \<in> set rs. m_code pm = ms_code ms \<and> m_parentId m = Some (entId pm)))"

definition tidy :: "world \<Rightarrow> bool" where
  "tidy w \<longleftrightarrow>
     (\<forall>m \<in> set (modules w). live m) \<and> (\<forall>p \<in> set (permissions w). live p) \<and> (\<forall>a \<in> set (admins w). live a)
     \<and> (\<forall>r \<in> set (rooms w). live r) \<and> (\<forall>s \<in> set (settings w). live s) \<and> rooted (modules w)
     \<and> distinct (ids (modules w)) \<and> distinct (ids (permissions w))"

definition fresh_ids :: "(world \<Rightarrow> ext) \<Rightarrow> bool" where
  "fresh_ids en \<longleftrightarrow> (\<forall>w. x_new_id (en w) \<notin>
     set (ids (modules w) @ ids (permissions w) @ ids (roles w) @ ids (admins w) @ ids (users w) @ ids (hotels w)
          @ ids (room_characteristics w) @ ids (room_types w) @ ids (room_type_characteristics w) @ ids (rooms w)
          @ ids (benefits w) @ ids (rate_options w) @ ids (rate_option_benefits w) @ ids (settings w)))"

lemma insert_row_ok:
  assumes "entId r \<notin> set (ids (tbl w))" and "\<not> (\<exists>x \<in> set (tbl w). clash x)"
  shows "insert_row tbl put clash r w = ok r (put (tbl w @ [r]) w)"
  using assms by (simp add: insert_row_def)

lemma parents_are_no_children:
  "ms \<in> set modulesToSeed \<Longrightarrow> ms' \<in> set modulesToSeed \<Longrightarrow> ms_code ms \<notin> set (child_codes ms')"
  by (auto simp: modulesToSeed_def child_codes_def)

lemma one_parent:
  "ms \<in> set modulesToSeed \<Longrightarrow> ms' \<in> set modulesToSeed \<Longrightarrow> c \<in> set (child_codes ms) \<Longrightarrow> c \<in> set (child_codes ms')
    \<Longrightarrow> ms_code ms = ms_code ms'"
  by (auto simp: modulesToSeed_def child_codes_def)

lemma fresh_new_id:
  assumes "fresh_ids en"
  shows "x_new_id (en w) \<notin> set (ids (modules w))" "x_new_id (en w) \<notin> set (ids (permissions w))"
    "x_new_id (en w) \<notin> set (ids (roles w))" "x_new_id (en w) \<notin> set (ids (admins w))" "x_new_id (en w) \<notin> set (ids (users w))"
    "x_new_id (en w) \<notin> set (ids (hotels w))" "x_new_id (en w) \<notin> set (ids (room_characteristics w))"
    "x_new_id (en w) \<notin> set (ids (room_types w))" "x_new_id (en w) \<notin> set (ids (room_type_characteristics w))"
    "x_new_id (en w) \<notin> set (ids (rooms w))" "x_new_id (en w) \<notin> set (ids (benefits w))"
    "x_new_id (en w) \<notin> set (ids (rate_options w))" "x_new_id (en w) \<notin> set (ids (rate_option_benefits w))"
    "x_new_id (en w) \<notin> set (ids (settings w))"
  using assms by (auto simp: fresh_ids_def)

section \<open>Modules, permissions, roles, accounts\<close>

lemma rooted_append:
  assumes "rooted rs" and "\<forall>x \<in> set rs. m_code x \<noteq> m_code m"
    and "\<And>ms. ms \<in> set modulesToSeed \<Longrightarrow> m_code m \<in> set (child_codes ms) \<Longrightarrow>
           \<exists>pm \<in> set rs. m_code pm = ms_code ms \<and> m_parentId m = Some (entId pm)"
  shows "rooted (rs @ [m])"
proof -
  have "distinct (map m_code (rs @ [m]))" using assms(1,2) by (force simp: rooted_def)
  moreover have "\<exists>pm \<in> set (rs @ [m]). m_code pm = ms_code ms \<and> m_parentId x = Some (entId pm)"
    if x: "x \<in> set (rs @ [m])" and ms: "ms \<in> set modulesToSeed" "m_code x \<in> set (child_codes ms)" for x ms
  proof (cases "x = m")
    case True
    then show ?thesis using assms(3) [OF ms(1)] ms(2) by auto
  next
    case False
    then have "x \<in> set rs" using x by simp
    then have "\<exists>pm \<in> set rs. m_code pm = ms_code ms \<and> m_parentId x = Some (entId pm)"
      using assms(1) ms unfolding rooted_def by blast
    then show ?thesis by auto
  qed
  ultimately show ?thesis unfolding rooted_def by blast
qed

lemma tidy_append_module: "tidy w \<Longrightarrow> rooted (modules w @ [m]) \<Longrightarrow> live m \<Longrightarrow> entId m \<notin> set (ids (modules w))
    \<Longrightarrow> tidy (w\<lparr>modules := modules w @ [m]\<rparr>)"
  by (simp add: tidy_def)

lemma tidy_insert_parent:
  assumes "tidy w" and "ms \<in> set modulesToSeed" and "\<forall>x \<in> set (modules w). m_code x \<noteq> ms_code ms"
    and "live m" and "entId m \<notin> set (ids (modules w))" and "m_code m = ms_code ms"
  shows "tidy (w\<lparr>modules := modules w @ [m]\<rparr>)"
proof (rule tidy_append_module [OF assms(1) rooted_append assms(4,5)])
  show "rooted (modules w)" using assms(1) by (simp add: tidy_def)
qed (use assms(3,6) parents_are_no_children [OF assms(2)] in auto)

lemma tidy_insert_child:
  assumes "tidy w" and "ms \<in> set modulesToSeed" and "pm \<in> set (modules w)" and "m_code pm = ms_code ms"
    and "m_code m \<in> set (child_codes ms)" and "\<forall>x \<in> set (modules w). m_code x \<noteq> m_code m"
    and "live m" and "entId m \<notin> set (ids (modules w))" and "m_parentId m = Some (entId pm)"
  shows "tidy (w\<lparr>modules := modules w @ [m]\<rparr>)"
proof (rule tidy_append_module [OF assms(1) rooted_append [OF _ assms(6)] assms(7,8)])
  show "rooted (modules w)" using assms(1) by (simp add: tidy_def)
  show "\<exists>pm \<in> set (modules w). m_code pm = ms_code ms' \<and> m_parentId m = Some (entId pm)"
    if "ms' \<in> set modulesToSeed" "m_code m \<in> set (child_codes ms')" for ms'
    using one_parent [OF assms(2) that(1) assms(5) that(2)] assms(3,4,9) by force
qed

lemma runs_seed_module:
  assumes "fresh_ids en" and "ms \<in> set modulesToSeed"
  shows "runs tidy P (seed_module en ms)"
  unfolding seed_module_def [abs_def]
proof (rule runs_bind)
  show "settles (ensure modules (\<lambda>m. live m \<and> m_code m = ms_code ms) (new_module en (ms_name ms) (ms_code ms) None))
      (ensure modules (\<lambda>m. live m \<and> m_code m = ms_code ms) (new_module en (ms_name ms) (ms_code ms) None))"
    and "post (ensure modules (\<lambda>m. live m \<and> m_code m = ms_code ms) (new_module en (ms_name ms) (ms_code ms) None))
      (\<lambda>m v. find_one (\<lambda>m. live m \<and> m_code m = ms_code ms) (modules v) = Some m)"
    by (intro settles_ensure post_ensure grow app)+
  show "runs tidy P (ensure modules (\<lambda>m. live m \<and> m_code m = ms_code ms) (new_module en (ms_name ms) (ms_code ms) None))"
  proof (rule runs_ensure)
    fix w assume t: "tidy w" and n: "find_one (\<lambda>m. live m \<and> m_code m = ms_code ms) (modules w) = None"
    have c: "\<forall>x \<in> set (modules w). m_code x \<noteq> ms_code ms" using t n by (auto simp: find_one_None tidy_def)
    let ?m = "\<lparr>entId = x_new_id (en w), createdAt = x_now (en w), deletedAt = None, m_name = ms_name ms, m_code = ms_code ms, m_parentId = None\<rparr>"
    have "new_module en (ms_name ms) (ms_code ms) None w = ok ?m (w\<lparr>modules := modules w @ [?m]\<rparr>)"
      unfolding new_module_def by (rule insert_row_ok) (use c fresh_new_id [OF assms(1)] in auto)
    moreover have "tidy (w\<lparr>modules := modules w @ [?m]\<rparr>)"
      by (rule tidy_insert_parent [OF t assms(2) c]) (simp_all add: live_def fresh_new_id [OF assms(1)])
    ultimately show "\<exists>r w'. new_module en (ms_name ms) (ms_code ms) None w = ok r w' \<and> tidy w'" by blast
  qed
  fix m :: module_entity
  let ?child = "\<lambda>c. ensure modules (\<lambda>x. live x \<and> m_code x = snd c \<and> m_parentId x = Some (entId m))
                  (new_module en (fst c) (snd c) (Some (entId m)))"
  have child: "runs tidy (\<lambda>v. P v \<and> find_one (\<lambda>m. live m \<and> m_code m = ms_code ms) (modules v) = Some m) (?child c)"
    if c: "c \<in> set (ms_children ms)" for c
  proof (rule runs_ensure)
    fix w assume t: "tidy w" and p: "\<forall>v. extends w v \<longrightarrow> P v \<and> find_one (\<lambda>m. live m \<and> m_code m = ms_code ms) (modules v) = Some m"
      and n: "find_one (\<lambda>x. live x \<and> m_code x = snd c \<and> m_parentId x = Some (entId m)) (modules w) = None"
    have "find_one (\<lambda>m. live m \<and> m_code m = ms_code ms) (modules w) = Some m"
      using spec [OF p, of w] extends_refl by simp
    from find_one_Some [OF this] have m: "m \<in> set (modules w)" "m_code m = ms_code ms" by simp_all
    have cc: "snd c \<in> set (child_codes ms)" using c by (auto simp: child_codes_def)
    have new: "\<forall>x \<in> set (modules w). m_code x \<noteq> snd c"
    proof (intro ballI notI)
      fix x assume x: "x \<in> set (modules w)" "m_code x = snd c"
      have r: "rooted (modules w)" using t by (simp add: tidy_def)
      then obtain pm where pm: "pm \<in> set (modules w)" "m_code pm = ms_code ms" "m_parentId x = Some (entId pm)"
        using x assms(2) cc unfolding rooted_def by metis
      have "pm = m" using r m pm unfolding rooted_def distinct_map by (metis inj_onD)
      then show False using n x pm t by (auto simp: find_one_None tidy_def)
    qed
    let ?m = "\<lparr>entId = x_new_id (en w), createdAt = x_now (en w), deletedAt = None, m_name = fst c, m_code = snd c, m_parentId = Some (entId m)\<rparr>"
    have "new_module en (fst c) (snd c) (Some (entId m)) w = ok ?m (w\<lparr>modules := modules w @ [?m]\<rparr>)"
      unfolding new_module_def by (rule insert_row_ok) (use new fresh_new_id [OF assms(1)] in auto)
    moreover have "tidy (w\<lparr>modules := modules w @ [?m]\<rparr>)"
      by (rule tidy_insert_child [OF t assms(2) m]) (use cc new in \<open>simp_all add: live_def fresh_new_id [OF assms(1)]\<close>)
    ultimately show "\<exists>r w'. new_module en (fst c) (snd c) (Some (entId m)) w = ok r w' \<and> tidy w'" by blast
  qed
  have "runs tidy (\<lambda>v. P v \<and> find_one (\<lambda>m. live m \<and> m_code m = ms_code ms) (modules v) = Some m) (collect ?child (ms_children ms))"
    by (intro runs_collect settles_ensure grow app child)
  then show "runs tidy (\<lambda>v. P v \<and> find_one (\<lambda>m. live m \<and> m_code m = ms_code ms) (modules v) = Some m)
      (\<lambda>w1. and_then (collect ?child (ms_children ms) w1) (\<lambda>cs. ok (cs @ [m])))"
    by (rule runs_seq [OF _ settles_collect [OF settles_ensure [OF grows_tables(3) appends_modules(2)]] runs_ok])
qed

lemma runs_createModulePermissions:
  assumes "fresh_ids en"
  shows "runs tidy P (createModulePermissions en m)"
  unfolding createModulePermissions_def
proof (rule runs_collect)
  show "settles (ensure permissions (\<lambda>p. live p \<and> p_moduleId p = entId m \<and> p_action p = a) (new_permission en (entId m) a))
      (ensure permissions (\<lambda>p. live p \<and> p_moduleId p = entId m \<and> p_action p = a) (new_permission en (entId m) a))" for a
    by (intro settles_ensure grow app)
  show "runs tidy P (ensure permissions (\<lambda>p. live p \<and> p_moduleId p = entId m \<and> p_action p = a) (new_permission en (entId m) a))" for a
  proof (rule runs_ensure)
    fix w assume "tidy w" "find_one (\<lambda>p. live p \<and> p_moduleId p = entId m \<and> p_action p = a) (permissions w) = None"
    then show "\<exists>r w'. new_permission en (entId m) a w = ok r w' \<and> tidy w'"
      using fresh_new_id [OF assms, of w]
      by (auto simp: new_permission_def insert_row_def find_one_None tidy_def live_def)
  qed
qed

lemma runs_createRole:
  assumes "fresh_ids en"
  shows "runs tidy P (createRole en n d k)"
  unfolding createRole_def
  by (rule runs_ensure) (use fresh_new_id [OF assms] in \<open>auto simp: insert_row_def tidy_def\<close>)

lemma runs_config: "runs tidy P (assignPermissionsToRoleFromConfig r c mps)"
proof -
  have "runs tidy P (assign_permission i p)" for i p
    unfolding assign_permission_def by (rule runs_ensure) (simp add: Let_def tidy_def)
  then show ?thesis
    unfolding assignPermissionsToRoleFromConfig_def
    by (intro runs_each settles_each settles_assign)
qed

lemma runs_seed_role:
  assumes "fresh_ids en"
  shows "runs tidy P (seed_role en mps c)"
  unfolding seed_role_def [abs_def]
  by (intro runs_seq runs_createRole runs_config runs_ok settles_createRole settles_config assms)

lemma runs_createAdminAccount:
  assumes "fresh_ids en"
  shows "runs tidy P (createAdminAccount en email n r)"
  unfolding createAdminAccount_def
proof (rule runs_ensure)
  fix w assume "tidy w" "find_one (\<lambda>a. live a \<and> a_email a = email) (admins w) = None"
  then show "\<exists>ra w'. insert_row admins (\<lambda>rs w. w\<lparr>admins := rs\<rparr>) (\<lambda>a. a_email a = email)
          (admin_with_hashed_password (en w)
             \<lparr>entId = x_new_id (en w), createdAt = x_now (en w), deletedAt = None, a_fullName = n,
              a_password = Some default_password, a_email = email, a_profileImageUrl = None, a_roleId = entId r,
              a_isBanned = False, a_isTwoFactorEnabled = False, a_lastLoginAt = None, a_lastLogoutAt = None\<rparr>) w = ok ra w' \<and> tidy w'"
    using fresh_new_id [OF assms, of w]
    by (auto simp: insert_row_def find_one_None tidy_def live_def admin_with_hashed_password_def)
qed

lemma runs_createCustomerUser:
  assumes "fresh_ids en"
  shows "runs tidy (\<lambda>v. r \<in> set (roles v)) (createCustomerUser en r)"
  unfolding createCustomerUser_def
proof (rule runs_ensure)
  fix w assume t: "tidy w" and "\<forall>v. extends w v \<longrightarrow> r \<in> set (roles v)"
  then have "entId r \<in> set (ids (roles w))" using extends_refl by (force simp: ids_def)
  then show "\<exists>ra w'. insert_user (en w)
          \<lparr>entId = x_new_id (en w), createdAt = x_now (en w), deletedAt = None,
           u_email = Some ''customer@obs.com.mm'', u_fullName = Some ''Customer'', u_phone = Some ''095085730'',
           u_password = Some default_password, u_isBanned = False, u_profileImageUrl = None, u_dateOfBirth = None,
           u_gender = None, u_preferLanguage = None, u_registrationStage = Some COMPLETED, u_fcmToken = None,
           u_lastLoginAt = None, u_lastLogoutAt = None, u_googleId = None, u_appleId = None,
           u_loginProvider = None, u_roleId = Some (entId r)\<rparr> w = ok ra w' \<and> tidy w'"
    using t fresh_new_id [OF assms, of w] by (simp add: insert_user_def tidy_def)
qed

lemma runs_optional:
  assumes "\<And>r. x = Some r \<Longrightarrow> runs I P (f r)" and "\<And>r. settles (f r) (f r)"
  shows "runs I P (\<lambda>w. case x of None \<Rightarrow> ok () w | Some r \<Rightarrow> and_then (f r w) (\<lambda>_. ok ()))"
  using assms by (cases x) (simp_all add: runs_ok runs_seq)

lemma runs_seed_accounts:
  assumes "fresh_ids en"
  shows "runs tidy (\<lambda>v. \<forall>r \<in> set rs. r \<in> set (roles v)) (seed_accounts en rs)"
proof -
  have account: "runs tidy (\<lambda>v. \<forall>r \<in> set rs. r \<in> set (roles v))
      (\<lambda>w. case find_one (\<lambda>r. r_name r = n) rs of None \<Rightarrow> ok () w | Some r \<Rightarrow> and_then (createAdminAccount en m k r w) (\<lambda>_. ok ()))" for n m k
    by (intro runs_optional runs_createAdminAccount settles_createAdminAccount assms)
  have customer: "runs tidy (\<lambda>v. \<forall>r \<in> set rs. r \<in> set (roles v))
      (\<lambda>w. case find_one (\<lambda>r. r_name r = ''Customer'') rs of None \<Rightarrow> ok () w | Some r \<Rightarrow> and_then (createCustomerUser en r w) (\<lambda>_. ok ()))"
    by (intro runs_optional settles_createCustomerUser, rule runs_weaken [OF runs_createCustomerUser [OF assms]])
       (auto dest: find_one_Some)
  show ?thesis
    unfolding seed_accounts_def [abs_def] Let_def
    by (intro runs_seq settles_optional settles_createAdminAccount account customer)
qed

lemma post_createAdminAccount:
  "post (createAdminAccount en m n r) (\<lambda>a v. find_one (\<lambda>a. live a \<and> a_email a = m) (admins v) = Some a)"
  unfolding createAdminAccount_def
  by (rule post_ensure [OF grows_tables(2)], rule appends_insert_row;
      simp add: extends_def live_def admin_with_hashed_password_def)

lemma post_seed_accounts:
  "post (seed_accounts en rs) (\<lambda>_ v. find_one (\<lambda>r. r_name r = ''Super Admin'') rs \<noteq> None \<longrightarrow> hotel_admin v \<noteq> None)"
proof -
  have p: "post (\<lambda>w. case find_one (\<lambda>r. r_name r = ''Super Admin'') rs of None \<Rightarrow> ok () w
          | Some r \<Rightarrow> and_then (createAdminAccount en ''arkarmin@obs.com.mm'' ''Super Admin'' r w) (\<lambda>_. ok ()))
      (\<lambda>_ v. find_one (\<lambda>r. r_name r = ''Super Admin'') rs \<noteq> None \<longrightarrow> hotel_admin v \<noteq> None)"
  proof (cases "find_one (\<lambda>r. r_name r = ''Super Admin'') rs")
    case None
    then show ?thesis by (simp add: post_def)
  next
    case (Some r)
    have "post (\<lambda>w. and_then (createAdminAccount en ''arkarmin@obs.com.mm'' ''Super Admin'' r w) (\<lambda>_. ok ()))
        (\<lambda>_ v. hotel_admin v \<noteq> None)"
      by (rule post_weaken [OF post_bind [OF post_createAdminAccount settles_ok post_trivial]])
         (auto simp: hotel_admin_def find_latest_None dest!: find_one_Some)
    then show ?thesis using Some by simp
  qed
  show ?thesis
    unfolding seed_accounts_def [abs_def] Let_def
    by (rule post_weaken [OF post_bind [OF p
          settles_bind [OF settles_optional [OF settles_createAdminAccount] settles_optional [OF settles_createCustomerUser]] post_trivial]]) blast
qed

lemma runs_seed_roles:
  assumes "fresh_ids en"
  shows "runs tidy P (\<lambda>w. and_then (collect (seed_role en mps) cs w) (seed_accounts en))"
proof (rule runs_bind)
  show "runs tidy P (collect (seed_role en mps) cs)"
    by (intro runs_collect settles_seed_role runs_seed_role assms)
  show "settles (collect (seed_role en mps) cs) (collect (seed_role en mps) cs)"
    by (intro settles_collect settles_seed_role)
  show "post (collect (seed_role en mps) cs) (\<lambda>rs v. \<forall>r \<in> set rs. r \<in> set (roles v))"
  proof (rule post_weaken [OF post_collect [OF settles_seed_role post_seed_role]])
    fix rs and v :: world
    assume l: "list_all2 (\<lambda>c r. find_one (\<lambda>r. live r \<and> r_name r = rcf_name c) (roles v) = Some r
         \<and> (\<forall>x \<in> set (rcf_modules c). \<forall>p \<in> set (nullish (map_of mps (fst x)) []). p_action p \<in> set (snd x) \<longrightarrow> assigned v r p)) cs rs"
    show "\<forall>r \<in> set rs. r \<in> set (roles v)" using list_all2_right [OF l] by (auto dest: find_one_Some)
  qed
  show "runs tidy (\<lambda>v. P v \<and> (\<forall>r \<in> set rs. r \<in> set (roles v))) (seed_accounts en rs)" for rs
    by (rule runs_weaken [OF runs_seed_accounts [OF assms]]) simp
qed

lemma runs_seed_auth:
  assumes "fresh_ids en"
  shows "runs tidy P (seed_auth en)"
proof -
  have "runs tidy P (collect (seed_module en) modulesToSeed)"
    by (intro runs_collect settles_seed_module runs_seed_module assms)
  moreover have "runs tidy P (collect (\<lambda>m w. and_then (createModulePermissions en m w) (\<lambda>ps. ok (m_code m, ps))) ms)" for ms
    by (intro runs_collect runs_seq settles_bind settles_createModulePermissions settles_ok runs_createModulePermissions runs_ok assms)
  then have "runs tidy P (\<lambda>w. and_then (collect (\<lambda>m w. and_then (createModulePermissions en m w) (\<lambda>ps. ok (m_code m, ps))) ms w)
      (\<lambda>mps w2. and_then (collect (seed_role en mps) (getRoleConfigurations (map m_code ms)) w2) (seed_accounts en)))" for ms
    by (rule runs_seq [OF _ settles_collect [OF settles_bind [OF settles_createModulePermissions settles_ok]] runs_seed_roles [OF assms]])
  ultimately show ?thesis
    unfolding seed_auth_def [abs_def] Let_def
    by (rule runs_seq [OF _ settles_collect [OF settles_seed_module]])
qed

lemma post_seed_auth_admin: "post (seed_auth en) (\<lambda>_ v. hotel_admin v \<noteq> None)"
  unfolding seed_auth_def [abs_def] Let_def
proof (rule post_weaken [OF post_bind [OF post_trivial
        settles_bind [OF settles_collect [OF settles_bind [OF settles_createModulePermissions settles_ok]]
             settles_bind [OF settles_collect [OF settles_seed_role] settles_seed_accounts]]
        post_bind [OF post_trivial settles_bind [OF settles_collect [OF settles_seed_role] settles_seed_accounts]
          post_bind [OF post_collect [OF settles_seed_role post_seed_role] settles_seed_accounts post_seed_accounts]]]])
  fix u and v :: world
  assume "\<exists>mss. True \<and> (\<exists>mps. True \<and> (\<exists>rs. list_all2 (\<lambda>c r. find_one (\<lambda>r. live r \<and> r_name r = rcf_name c) (roles v) = Some r
           \<and> (\<forall>x \<in> set (rcf_modules c). \<forall>p \<in> set (nullish (map_of mps (fst x)) []). p_action p \<in> set (snd x) \<longrightarrow> assigned v r p))
          (getRoleConfigurations (map m_code (concat mss))) rs
        \<and> (find_one (\<lambda>r. r_name r = ''Super Admin'') rs \<noteq> None \<longrightarrow> hotel_admin v \<noteq> None)))"
  then obtain codes mps rs where l': "list_all2 (\<lambda>c r. find_one (\<lambda>r. live r \<and> r_name r = rcf_name c) (roles v) = Some r
           \<and> (\<forall>x \<in> set (rcf_modules c). \<forall>p \<in> set (nullish (map_of mps (fst x)) []). p_action p \<in> set (snd x) \<longrightarrow> assigned v r p))
          (getRoleConfigurations codes) rs"
    and h: "find_one (\<lambda>r. r_name r = ''Super Admin'') rs \<noteq> None \<longrightarrow> hotel_admin v \<noteq> None"
    by (elim exE conjE)
  have l: "list_all2 (\<lambda>c r. r_name r = rcf_name c) (getRoleConfigurations codes) rs"
    by (rule list_all2_mono [OF l']) (auto dest: find_one_Some)
  show "hotel_admin v \<noteq> None"
    using l h by (auto simp: getRoleConfigurations_def list_all2_Cons1)
qed

section \<open>Hotels, rooms, rates\<close>

text \<open>What the later seeders look up.\<close>

definition hotel_there :: "string \<Rightarrow> world \<Rightarrow> bool" where
  "hotel_there n v \<longleftrightarrow> find_one (\<lambda>h. live h \<and> h_name h = n) (hotels v) \<noteq> None"

definition type_there :: "string \<Rightarrow> string \<Rightarrow> world \<Rightarrow> bool" where
  "type_there n t v \<longleftrightarrow> (\<exists>h. find_one (\<lambda>h. live h \<and> h_name h = n) (hotels v) = Some h
     \<and> find_one (\<lambda>x. live x \<and> ty_name x = t \<and> ty_hotelId x = entId h) (room_types v) \<noteq> None)"

definition rate_there :: "string \<Rightarrow> string \<Rightarrow> string \<Rightarrow> world \<Rightarrow> bool" where
  "rate_there n t r v \<longleftrightarrow> (\<exists>h x. find_one (\<lambda>h. live h \<and> h_name h = n) (hotels v) = Some h
     \<and> find_one (\<lambda>x. live x \<and> ty_name x = t \<and> ty_hotelId x = entId h) (room_types v) = Some x
     \<and> find_one (\<lambda>y. live y \<and> ro_name y = r \<and> ro_roomTypeId y = entId x) (rate_options v) \<noteq> None)"

definition characteristic_there :: "string \<Rightarrow> world \<Rightarrow> bool" where
  "characteristic_there n v \<longleftrightarrow> find_one (\<lambda>c. live c \<and> rc_name c = n) (room_characteristics v) \<noteq> None"

definition benefit_there :: "string \<Rightarrow> world \<Rightarrow> bool" where
  "benefit_there n v \<longleftrightarrow> find_one (\<lambda>b. live b \<and> be_name b = n) (benefits v) \<noteq> None"

lemma post_seeded_hotel: "post (seeded_hotel n) (\<lambda>h v. find_one (\<lambda>h. live h \<and> h_name h = n) (hotels v) = Some h)"
  unfolding seeded_hotel_def by (intro post_required grow)

lemma post_seeded_room_type:
  "post (seeded_room_type t h) (\<lambda>x v. find_one (\<lambda>x. live x \<and> ty_name x = t \<and> ty_hotelId x = h) (room_types v) = Some x)"
  unfolding seeded_room_type_def by (intro post_required grow)

lemma runs_seeded_hotel:
  assumes "\<And>v. P v \<Longrightarrow> hotel_there n v"
  shows "runs I P (seeded_hotel n)"
  unfolding seeded_hotel_def using assms by (intro runs_required) (simp add: hotel_there_def)

text \<open>Looking up a hotel and one of its room types, and going on.\<close>

lemma runs_at_type:
  assumes "\<And>v. P v \<Longrightarrow> type_there n t v" and "\<And>h x. settles (g h x) (g h x)"
    and "\<And>h x. runs I (\<lambda>v. (P v \<and> find_one (\<lambda>h. live h \<and> h_name h = n) (hotels v) = Some h)
          \<and> find_one (\<lambda>x. live x \<and> ty_name x = t \<and> ty_hotelId x = entId h) (room_types v) = Some x) (g h x)"
  shows "runs I P (\<lambda>w. and_then (seeded_hotel n w) (\<lambda>h w1. and_then (seeded_room_type t (entId h) w1) (g h)))"
proof (rule runs_bind [OF _ settles_seeded(1) post_seeded_hotel])
  show "runs I P (seeded_hotel n)"
  proof (rule runs_seeded_hotel)
    fix v assume "P v"
    from assms(1) [OF this] show "hotel_there n v" by (auto simp: type_there_def hotel_there_def)
  qed
  show "runs I (\<lambda>v. P v \<and> find_one (\<lambda>h. live h \<and> h_name h = n) (hotels v) = Some h)
      (\<lambda>w1. and_then (seeded_room_type t (entId h) w1) (g h))" for h
  proof (rule runs_bind [OF _ settles_seeded(2) post_seeded_room_type assms(3)])
    show "runs I (\<lambda>v. P v \<and> find_one (\<lambda>h. live h \<and> h_name h = n) (hotels v) = Some h) (seeded_room_type t (entId h))"
      unfolding seeded_room_type_def
    proof (rule runs_required)
      fix v assume "P v \<and> find_one (\<lambda>h. live h \<and> h_name h = n) (hotels v) = Some h"
      then show "find_one (\<lambda>x. live x \<and> ty_name x = t \<and> ty_hotelId x = entId h) (room_types v) \<noteq> None"
        using assms(1) [of v] by (auto simp: type_there_def)
    qed
  qed
qed

lemma tidy_inserts:
  "tidy (w\<lparr>hotels := hs\<rparr>) = tidy w" "tidy (w\<lparr>room_types := ts\<rparr>) = tidy w"
  "tidy (w\<lparr>room_characteristics := cs\<rparr>) = tidy w" "tidy (w\<lparr>room_type_characteristics := xs\<rparr>) = tidy w"
  "tidy (w\<lparr>benefits := bs\<rparr>) = tidy w" "tidy (w\<lparr>rate_options := os\<rparr>) = tidy w"
  "tidy (w\<lparr>rate_option_benefits := ys\<rparr>) = tidy w"
  by (simp_all add: tidy_def)

text \<open>An insert that no unique index stands against.\<close>

lemma runs_insert:
  assumes "\<And>w. entId (r w) \<notin> set (ids (tbl w))"
    and "\<And>w. tidy w \<Longrightarrow> find_one p (tbl w) = None \<Longrightarrow> \<not> (\<exists>x \<in> set (tbl w). clash x)"
    and "\<And>w. tidy w \<Longrightarrow> tidy (put (tbl w @ [r w]) w)"
  shows "runs tidy P (ensure tbl p (\<lambda>w. insert_row tbl put clash (r w) w))"
proof (rule runs_ensure)
  fix w assume "tidy w" "find_one p (tbl w) = None"
  then have "insert_row tbl put clash (r w) w = ok (r w) (put (tbl w @ [r w]) w)" "tidy (put (tbl w @ [r w]) w)"
    using assms insert_row_ok by blast+
  then show "\<exists>ra w'. insert_row tbl put clash (r w) w = ok ra w' \<and> tidy w'" by blast
qed

lemma runs_seed_hotels:
  assumes "fresh_ids en"
  shows "runs tidy (\<lambda>v. hotel_admin v \<noteq> None) (seed_hotels en)"
proof -
  have r: "runs tidy (\<lambda>_. True) (each (seed_hotel en i) hotel_seeds)" for i
    unfolding seed_hotel_def
    by (intro runs_each settles_seed_hotel [unfolded seed_hotel_def] runs_insert)
       (simp_all add: fresh_new_id [OF assms] tidy_inserts)
  show ?thesis
    unfolding runs_def
  proof (intro allI impI)
    fix w assume w: "tidy w" "\<forall>v. extends w v \<longrightarrow> hotel_admin v \<noteq> None"
    then obtain a where a: "hotel_admin w = Some a" using extends_refl by blast
    then show "\<exists>x w'. seed_hotels en w = ok x w' \<and> tidy w'"
      using r [of "entId a"] w(1) by (simp add: seed_hotels_def runs_def)
  qed
qed

lemma post_seed_hotels: "post (seed_hotels en) (\<lambda>_ v. \<forall>s \<in> set hotel_seeds. hotel_there (hs_name s) v)"
proof -
  have "post (seed_hotel en i s) (\<lambda>h v. find_one (\<lambda>h. live h \<and> h_name h = hs_name s) (hotels v) = Some h)" for i s
    unfolding seed_hotel_def
    by (rule post_ensure [OF grows_tables(7)], rule appends_insert_row; simp add: extends_def live_def)
  then have "post (each (seed_hotel en i) hotel_seeds) (\<lambda>_ v. \<forall>s \<in> set hotel_seeds. hotel_there (hs_name s) v)" for i
    by (rule post_weaken [OF post_each [OF settles_seed_hotel]]) (auto simp: hotel_there_def)
  then show ?thesis by (auto simp: post_def seed_hotels_def split: option.splits)
qed

lemma runs_seed_characteristics:
  assumes "fresh_ids en"
  shows "runs tidy P (seed_characteristics en)"
proof -
  have "runs tidy P (seed_characteristic en s)" for s
    unfolding seed_characteristic_def
    by (rule runs_insert) (simp_all add: fresh_new_id [OF assms] tidy_inserts)
  then show ?thesis unfolding seed_characteristics_def by (intro runs_each rows_settle)
qed

lemma post_seed_characteristics:
  "post (seed_characteristics en) (\<lambda>_ v. \<forall>s \<in> set characteristic_seeds. characteristic_there (ns_name s) v)"
proof -
  have "post (seed_characteristic en s) (\<lambda>c v. find_one (\<lambda>c. live c \<and> rc_name c = ns_name s) (room_characteristics v) = Some c)" for s
    unfolding seed_characteristic_def by (intro post_ensure grow appends_insert_row; simp add: extends_def live_def)
  then show ?thesis
    unfolding seed_characteristics_def
    by (rule post_weaken [OF post_each [OF settles_seed_characteristic]]) (auto simp: characteristic_there_def)
qed

lemma runs_seed_room_type:
  assumes "fresh_ids en"
  shows "runs tidy (\<lambda>v. hotel_there (rts_hotelName s) v) (seed_room_type en s)"
  unfolding seed_room_type_def [abs_def]
proof (rule runs_seq [OF runs_seeded_hotel settles_seeded(1)])
  show "runs tidy (\<lambda>v. hotel_there (rts_hotelName s) v)
      (ensure room_types (\<lambda>t. live t \<and> ty_name t = rts_name s \<and> ty_hotelId t = entId h)
          (\<lambda>w. insert_row room_types (\<lambda>rs w. w\<lparr>room_types := rs\<rparr>) (\<lambda>_. False)
             \<lparr>entId = x_new_id (en w), createdAt = x_now (en w), deletedAt = None, ty_hotelId = entId h,
              ty_name = rts_name s, ty_description = Some (rts_description s), ty_maxOccupancy = rts_maxOccupancy s,
              ty_bedType = rts_bedType s, ty_areaInSquareFeet = rts_areaInSquareFeet s\<rparr> w))" for h :: hotel
    by (rule runs_insert) (simp_all add: fresh_new_id [OF assms] tidy_inserts)
qed

lemma post_seed_room_type: "post (seed_room_type en s) (\<lambda>_ v. type_there (rts_hotelName s) (rts_name s) v)"
proof -
  have "post (seed_room_type en s) (\<lambda>t v. \<exists>h. find_one (\<lambda>h. live h \<and> h_name h = rts_hotelName s) (hotels v) = Some h
      \<and> find_one (\<lambda>x. live x \<and> ty_name x = rts_name s \<and> ty_hotelId x = entId h) (room_types v) = Some t)"
    unfolding seed_room_type_def [abs_def]
    by (intro post_bind post_seeded_hotel settles_ensure post_ensure grow appends_insert_row; simp add: extends_def live_def)
  then show ?thesis by (rule post_weaken) (auto simp: type_there_def)
qed

definition types_there :: "world \<Rightarrow> bool" where
  "types_there v \<longleftrightarrow> (\<forall>s \<in> set room_type_seeds. type_there (rts_hotelName s) (rts_name s) v)"

lemma post_seed_room_types: "post (seed_room_types en) (\<lambda>_ v. types_there v)"
  unfolding seed_room_types_def types_there_def
  by (rule post_weaken [OF post_each [OF settles_seed_room_type post_seed_room_type]]) blast

text \<open>The names in the tables of seeds refer to each other.\<close>

lemma types_have_hotels: "s \<in> set room_type_seeds \<Longrightarrow> rts_hotelName s \<in> set (map hs_name hotel_seeds)"
proof -
  have "list_all (\<lambda>s. List.member (map hs_name hotel_seeds) (rts_hotelName s)) room_type_seeds" by code_simp
  then show "s \<in> set room_type_seeds \<Longrightarrow> rts_hotelName s \<in> set (map hs_name hotel_seeds)" by (simp add: list_all_iff)
qed

definition seeded_types :: "(string \<times> string) list" where
  "seeded_types = map (\<lambda>s. (rts_hotelName s, rts_name s)) room_type_seeds"

lemma mappings_have_types:
  "m \<in> set characteristic_mappings \<Longrightarrow> (cm_hotelName m, cm_roomTypeName m) \<in> set seeded_types"
proof -
  have "list_all (\<lambda>m. List.member seeded_types (cm_hotelName m, cm_roomTypeName m)) characteristic_mappings" by code_simp
  then show "m \<in> set characteristic_mappings \<Longrightarrow> (cm_hotelName m, cm_roomTypeName m) \<in> set seeded_types"
    by (simp add: list_all_iff)
qed

lemma mappings_have_characteristics:
  "m \<in> set characteristic_mappings \<Longrightarrow> n \<in> set (cm_characteristicNames m) \<Longrightarrow> n \<in> set (map ns_name characteristic_seeds)"
proof -
  have "list_all (\<lambda>m. list_all (List.member (map ns_name characteristic_seeds)) (cm_characteristicNames m)) characteristic_mappings"
    by code_simp
  then show "m \<in> set characteristic_mappings \<Longrightarrow> n \<in> set (cm_characteristicNames m) \<Longrightarrow> n \<in> set (map ns_name characteristic_seeds)"
    by (simp add: list_all_iff)
qed

lemma rooms_have_types: "s \<in> set room_seeds \<Longrightarrow> (rms_hotelName s, rms_roomTypeName s) \<in> set seeded_types"
proof -
  have "list_all (\<lambda>s. List.member seeded_types (rms_hotelName s, rms_roomTypeName s)) room_seeds" by code_simp
  then show "s \<in> set room_seeds \<Longrightarrow> (rms_hotelName s, rms_roomTypeName s) \<in> set seeded_types" by (simp add: list_all_iff)
qed

lemma rates_have_types: "s \<in> set rate_option_seeds \<Longrightarrow> (ros_hotelName s, ros_roomTypeName s) \<in> set seeded_types"
proof -
  have "list_all (\<lambda>s. List.member seeded_types (ros_hotelName s, ros_roomTypeName s)) rate_option_seeds" by code_simp
  then show "s \<in> set rate_option_seeds \<Longrightarrow> (ros_hotelName s, ros_roomTypeName s) \<in> set seeded_types" by (simp add: list_all_iff)
qed

definition seeded_rates :: "(string \<times> string \<times> string) list" where
  "seeded_rates = map (\<lambda>s. (ros_hotelName s, ros_roomTypeName s, ros_name s)) rate_option_seeds"

lemma benefits_have_rates:
  "m \<in> set benefit_mappings \<Longrightarrow> (bm_hotelName m, bm_roomTypeName m, bm_rateOptionName m) \<in> set seeded_rates"
proof -
  have "list_all (\<lambda>m. List.member seeded_rates (bm_hotelName m, bm_roomTypeName m, bm_rateOptionName m)) benefit_mappings" by code_simp
  then show "m \<in> set benefit_mappings \<Longrightarrow> (bm_hotelName m, bm_roomTypeName m, bm_rateOptionName m) \<in> set seeded_rates"
    by (simp add: list_all_iff)
qed

lemma mappings_have_benefits:
  "m \<in> set benefit_mappings \<Longrightarrow> n \<in> set (bm_benefitNames m) \<Longrightarrow> n \<in> set (map ns_name benefit_seeds)"
proof -
  have "list_all (\<lambda>m. list_all (List.member (map ns_name benefit_seeds)) (bm_benefitNames m)) benefit_mappings" by code_simp
  then show "m \<in> set benefit_mappings \<Longrightarrow> n \<in> set (bm_benefitNames m) \<Longrightarrow> n \<in> set (map ns_name benefit_seeds)"
    by (simp add: list_all_iff)
qed

lemma types_thereD: "types_there v \<Longrightarrow> (n, t) \<in> set seeded_types \<Longrightarrow> type_there n t v"
  by (auto simp: types_there_def seeded_types_def)

lemma runs_seed_type_characteristics:
  assumes "fresh_ids en"
  shows "runs tidy (\<lambda>v. types_there v \<and> (\<forall>s \<in> set characteristic_seeds. characteristic_there (ns_name s) v))
    (seed_type_characteristics en)"
  unfolding seed_type_characteristics_def
proof (intro runs_each runs_at_type settles_bind settles_seeded settles_each rows_settle)
  fix m assume m: "m \<in> set characteristic_mappings"
  show "type_there (cm_hotelName m) (cm_roomTypeName m) v"
    if "types_there v \<and> (\<forall>s \<in> set characteristic_seeds. characteristic_there (ns_name s) v)" for v
    using that types_thereD mappings_have_types [OF m] by blast
  fix h :: hotel and x :: room_type and n assume n: "n \<in> set (cm_characteristicNames m)"
  let ?P = "\<lambda>v. ((types_there v \<and> (\<forall>s \<in> set characteristic_seeds. characteristic_there (ns_name s) v))
      \<and> find_one (\<lambda>h. live h \<and> h_name h = cm_hotelName m) (hotels v) = Some h)
      \<and> find_one (\<lambda>x. live x \<and> ty_name x = cm_roomTypeName m \<and> ty_hotelId x = entId h) (room_types v) = Some x"
  have "runs tidy ?P (ensure room_type_characteristics (\<lambda>y. rtc_roomTypeId y = entId x \<and> rtc_roomCharacteristicId y = entId c)
          (\<lambda>w. insert_row room_type_characteristics (\<lambda>rs w. w\<lparr>room_type_characteristics := rs\<rparr>)
             (\<lambda>y. rtc_roomTypeId y = entId x \<and> rtc_roomCharacteristicId y = entId c)
             \<lparr>entId = x_new_id (en w), createdAt = x_now (en w), rtc_roomTypeId = entId x, rtc_roomCharacteristicId = entId c\<rparr> w))"
    for c :: room_characteristic
    by (rule runs_insert) (simp_all add: fresh_new_id [OF assms] tidy_inserts find_one_None)
  moreover have "runs tidy ?P (required room_characteristics (\<lambda>c. live c \<and> rc_name c = n)
        ''Room characteristic not found. Run RoomCharacteristicSeeder first.'')"
  proof (rule runs_required)
    fix v assume "?P v"
    then have "\<forall>s \<in> set characteristic_seeds. characteristic_there (ns_name s) v" by blast
    then have "characteristic_there n v" using mappings_have_characteristics [OF m n] by auto
    then show "find_one (\<lambda>c. live c \<and> rc_name c = n) (room_characteristics v) \<noteq> None" by (simp add: characteristic_there_def)
  qed
  ultimately show "runs tidy ?P (seed_type_characteristic en (entId x) n)"
    unfolding seed_type_characteristic_def [abs_def] by (intro runs_seq settles_required grow)
qed

lemma runs_seed_room:
  assumes "fresh_ids en" and "s \<in> set room_seeds"
  shows "runs tidy types_there (seed_room en s)"
  unfolding seed_room_def [abs_def]
proof (rule runs_at_type)
  show "type_there (rms_hotelName s) (rms_roomTypeName s) v" if "types_there v" for v
    by (rule types_thereD [OF that rooms_have_types [OF assms(2)]])
  fix h :: hotel and t :: room_type
  let ?P = "\<lambda>v. (types_there v \<and> find_one (\<lambda>h. live h \<and> h_name h = rms_hotelName s) (hotels v) = Some h)
      \<and> find_one (\<lambda>x. live x \<and> ty_name x = rms_roomTypeName s \<and> ty_hotelId x = entId h) (room_types v) = Some t"
  show "runs tidy ?P (ensure rooms (\<lambda>r. live r \<and> rm_hotelId r = entId h \<and> rm_roomNumber r = rms_roomNumber s)
             (\<lambda>w. insert_row rooms (\<lambda>rs w. w\<lparr>rooms := rs\<rparr>) (\<lambda>r. rm_hotelId r = entId h \<and> rm_roomNumber r = rms_roomNumber s)
                \<lparr>entId = x_new_id (en w), createdAt = x_now (en w), deletedAt = None, rm_hotelId = entId h,
                 rm_roomTypeId = entId t, rm_roomNumber = rms_roomNumber s, rm_floorNumber = rms_floorNumber s,
                 rm_status = rms_status s\<rparr> w))"
    by (rule runs_insert) (auto simp: fresh_new_id [OF assms(1)] find_one_None tidy_def live_def)
qed (intro settles_ensure grow appends_insert_row; simp add: extends_def live_def)

lemma runs_seed_rooms: "fresh_ids en \<Longrightarrow> runs tidy types_there (seed_rooms en)"
  unfolding seed_rooms_def by (intro runs_each rows_settle runs_seed_room)

lemma runs_seed_benefits:
  assumes "fresh_ids en"
  shows "runs tidy P (seed_benefits en)"
proof -
  have "runs tidy P (seed_benefit en s)" for s
    unfolding seed_benefit_def
    by (rule runs_insert) (simp_all add: fresh_new_id [OF assms] tidy_inserts)
  then show ?thesis unfolding seed_benefits_def by (intro runs_each rows_settle)
qed

lemma post_seed_benefits: "post (seed_benefits en) (\<lambda>_ v. \<forall>s \<in> set benefit_seeds. benefit_there (ns_name s) v)"
proof -
  have "post (seed_benefit en s) (\<lambda>c v. find_one (\<lambda>c. live c \<and> be_name c = ns_name s) (benefits v) = Some c)" for s
    unfolding seed_benefit_def by (intro post_ensure grow appends_insert_row; simp add: extends_def live_def)
  then show ?thesis
    unfolding seed_benefits_def
    by (rule post_weaken [OF post_each [OF settles_seed_benefit]]) (auto simp: benefit_there_def)
qed

lemma runs_seed_rate_option:
  assumes "fresh_ids en" and "s \<in> set rate_option_seeds"
  shows "runs tidy types_there (seed_rate_option en s)"
  unfolding seed_rate_option_def [abs_def]
proof (rule runs_at_type)
  show "type_there (ros_hotelName s) (ros_roomTypeName s) v" if "types_there v" for v
    by (rule types_thereD [OF that rates_have_types [OF assms(2)]])
  fix h :: hotel and t :: room_type
  let ?P = "\<lambda>v. (types_there v \<and> find_one (\<lambda>h. live h \<and> h_name h = ros_hotelName s) (hotels v) = Some h)
      \<and> find_one (\<lambda>x. live x \<and> ty_name x = ros_roomTypeName s \<and> ty_hotelId x = entId h) (room_types v) = Some t"
  show "runs tidy ?P (ensure rate_options (\<lambda>r. live r \<and> ro_name r = ros_name s \<and> ro_roomTypeId r = entId t)
             (\<lambda>w. insert_row rate_options (\<lambda>rs w. w\<lparr>rate_options := rs\<rparr>) (\<lambda>_. False)
                \<lparr>entId = x_new_id (en w), createdAt = x_now (en w), deletedAt = None, ro_roomTypeId = entId t,
                 ro_name = ros_name s, ro_description = Some (ros_description s), ro_pricePerNight = ros_pricePerNight s,
                 ro_currency = ros_currency s, ro_isRefundable = ros_isRefundable s,
                 ro_cancellationPolicy = ros_cancellationPolicy s, ro_deadlineHours = ros_deadlineHours s\<rparr> w))"
    by (rule runs_insert) (simp_all add: fresh_new_id [OF assms(1)] tidy_inserts)
qed (intro settles_ensure grow appends_insert_row; simp add: extends_def live_def)

lemma post_seed_rate_option:
  "post (seed_rate_option en s) (\<lambda>_ v. rate_there (ros_hotelName s) (ros_roomTypeName s) (ros_name s) v)"
proof -
  have "post (seed_rate_option en s) (\<lambda>r v. \<exists>h. find_one (\<lambda>h. live h \<and> h_name h = ros_hotelName s) (hotels v) = Some h
      \<and> (\<exists>t. find_one (\<lambda>x. live x \<and> ty_name x = ros_roomTypeName s \<and> ty_hotelId x = entId h) (room_types v) = Some t
      \<and> find_one (\<lambda>y. live y \<and> ro_name y = ros_name s \<and> ro_roomTypeId y = entId t) (rate_options v) = Some r))"
    unfolding seed_rate_option_def [abs_def]
    by (intro post_bind post_seeded_hotel post_seeded_room_type settles_bind settles_seeded settles_ensure post_ensure grow
        appends_insert_row; simp add: extends_def live_def)
  then show ?thesis by (rule post_weaken) (auto simp: rate_there_def)
qed

definition rates_there :: "world \<Rightarrow> bool" where
  "rates_there v \<longleftrightarrow> (\<forall>s \<in> set rate_option_seeds. rate_there (ros_hotelName s) (ros_roomTypeName s) (ros_name s) v)"

lemma post_seed_rate_options: "post (seed_rate_options en) (\<lambda>_ v. rates_there v)"
  unfolding seed_rate_options_def rates_there_def
  by (rule post_weaken [OF post_each [OF settles_seed_rate_option post_seed_rate_option]]) blast

lemma runs_seed_rate_benefit:
  assumes "fresh_ids en" and "\<And>v. P v \<Longrightarrow> benefit_there n v"
  shows "runs tidy P (seed_rate_benefit en i n)"
proof -
  have "runs tidy P (ensure rate_option_benefits (\<lambda>x. rob_rateOptionId x = i \<and> rob_benefitId x = entId b)
          (\<lambda>w. insert_row rate_option_benefits (\<lambda>rs w. w\<lparr>rate_option_benefits := rs\<rparr>)
             (\<lambda>x. rob_rateOptionId x = i \<and> rob_benefitId x = entId b)
             \<lparr>entId = x_new_id (en w), createdAt = x_now (en w), rob_rateOptionId = i, rob_benefitId = entId b\<rparr> w))" for b :: benefit
    by (rule runs_insert) (simp_all add: fresh_new_id [OF assms(1)] tidy_inserts find_one_None)
  moreover have "runs tidy P (required benefits (\<lambda>b. live b \<and> be_name b = n) ''Benefit not found. Run BenefitSeeder first.'')"
    by (rule runs_required) (use assms(2) in \<open>simp add: benefit_there_def\<close>)
  ultimately show ?thesis
    unfolding seed_rate_benefit_def [abs_def] by (intro runs_seq settles_required grow)
qed

lemma runs_seed_rate_benefits:
  assumes "fresh_ids en"
  shows "runs tidy (\<lambda>v. rates_there v \<and> (\<forall>s \<in> set benefit_seeds. benefit_there (ns_name s) v)) (seed_rate_benefits en)"
  unfolding seed_rate_benefits_def
proof (rule runs_each)
  let ?P = "\<lambda>v. rates_there v \<and> (\<forall>s \<in> set benefit_seeds. benefit_there (ns_name s) v)"
  fix m assume m: "m \<in> set benefit_mappings"
  have there: "rate_there (bm_hotelName m) (bm_roomTypeName m) (bm_rateOptionName m) v" if "?P v" for v
    using that benefits_have_rates [OF m] by (auto simp: rates_there_def seeded_rates_def)
  show "runs tidy ?P (\<lambda>w. and_then (seeded_hotel (bm_hotelName m) w)
       (\<lambda>h w1. and_then (seeded_room_type (bm_roomTypeName m) (entId h) w1)
         (\<lambda>t w2. and_then (required rate_options (\<lambda>r. live r \<and> ro_name r = bm_rateOptionName m \<and> ro_roomTypeId r = entId t)
                             ''Rate option not found. Run RateOptionSeeder first.'' w2)
           (\<lambda>r. each (seed_rate_benefit en (entId r)) (bm_benefitNames m)))))"
  proof (rule runs_at_type)
    show "type_there (bm_hotelName m) (bm_roomTypeName m) v" if "?P v" for v
      using there [OF that] by (auto simp: type_there_def rate_there_def)
    fix h :: hotel and t :: room_type
    let ?Q = "\<lambda>v. (?P v \<and> find_one (\<lambda>h. live h \<and> h_name h = bm_hotelName m) (hotels v) = Some h)
      \<and> find_one (\<lambda>x. live x \<and> ty_name x = bm_roomTypeName m \<and> ty_hotelId x = entId h) (room_types v) = Some t"
    show "runs tidy ?Q (\<lambda>w2. and_then (required rate_options (\<lambda>r. live r \<and> ro_name r = bm_rateOptionName m \<and> ro_roomTypeId r = entId t)
                             ''Rate option not found. Run RateOptionSeeder first.'' w2)
           (\<lambda>r. each (seed_rate_benefit en (entId r)) (bm_benefitNames m)))"
    proof (rule runs_seq)
      show "runs tidy ?Q (required rate_options (\<lambda>r. live r \<and> ro_name r = bm_rateOptionName m \<and> ro_roomTypeId r = entId t)
          ''Rate option not found. Run RateOptionSeeder first.'')"
      proof (rule runs_required)
        fix v assume q: "?Q v"
        then have "rate_there (bm_hotelName m) (bm_roomTypeName m) (bm_rateOptionName m) v" using there by simp
        then show "find_one (\<lambda>r. live r \<and> ro_name r = bm_rateOptionName m \<and> ro_roomTypeId r = entId t) (rate_options v) \<noteq> None"
          using q by (simp add: rate_there_def)
      qed
      show "runs tidy ?Q (each (seed_rate_benefit en (entId r)) (bm_benefitNames m))" for r :: rate_option
      proof (intro runs_each rows_settle runs_seed_rate_benefit assms)
        fix n v assume n: "n \<in> set (bm_benefitNames m)" and "?Q v"
        then have "\<forall>s \<in> set benefit_seeds. benefit_there (ns_name s) v" by blast
        then show "benefit_there n v" using mappings_have_benefits [OF m n] by auto
      qed
    qed (intro settles_required grow)
  qed (intro settles_bind settles_required settles_each rows_settle grow)
qed (intro settles_bind settles_seeded settles_required settles_each rows_settle grow)

lemma runs_seed_settings:
  assumes "fresh_ids en"
  shows "runs tidy P (seed_settings en a s n)"
proof -
  have "runs tidy P (seed_setting en x)" for x
    unfolding seed_setting_def
    by (rule runs_insert) (auto simp: fresh_new_id [OF assms] find_one_None tidy_def live_def)
  then show ?thesis unfolding seed_settings_def by (intro runs_each rows_settle)
qed

section \<open>The empty database\<close>

lemma runs_runSeeders:
  assumes "fresh_ids en"
  shows "runs tidy (\<lambda>_. True) (runSeeders en a s n)"
  unfolding runSeeders_def op_funs
proof (rule runs_bind [OF runs_seed_auth [OF assms] settles_seed_auth post_seed_auth_admin],
    rule runs_bind [OF _ settles_seed_hotels post_seed_hotels],
    rule runs_weaken [OF runs_seed_hotels [OF assms]], simp,
    rule runs_bind [OF runs_seed_characteristics [OF assms] settles_seed_characteristics post_seed_characteristics],
    rule runs_bind [OF _ settles_seed_room_types post_seed_room_types])
  fix u1 u2 u3 u4 :: unit
  let ?P = "\<lambda>v. (((True \<and> hotel_admin v \<noteq> None) \<and> (\<forall>s \<in> set hotel_seeds. hotel_there (hs_name s) v))
      \<and> (\<forall>s \<in> set characteristic_seeds. characteristic_there (ns_name s) v))"
  show "runs tidy ?P (seed_room_types en)"
    unfolding seed_room_types_def
  proof (intro runs_each rows_settle)
    fix s assume s: "s \<in> set room_type_seeds"
    show "runs tidy ?P (seed_room_type en s)"
      by (rule runs_weaken [OF runs_seed_room_type [OF assms]]) (use types_have_hotels [OF s] in auto)
  qed
  show "runs tidy (\<lambda>v. ?P v \<and> types_there v)
      (\<lambda>w. and_then (seed_type_characteristics en w) (\<lambda>_ w. and_then (seed_rooms en w) (\<lambda>_ w. and_then (seed_benefits en w)
        (\<lambda>_ w. and_then (seed_rate_options en w) (\<lambda>_ w. and_then (seed_rate_benefits en w)
          (\<lambda>_ w. and_then (seed_settings en a s n w) (\<lambda>_. ok ())))))))"
  proof (rule runs_seq [OF _ settles_seed_type_characteristics], rule runs_weaken [OF runs_seed_type_characteristics [OF assms]], simp,
      rule runs_seq [OF _ settles_seed_rooms], rule runs_weaken [OF runs_seed_rooms [OF assms]], simp,
      rule runs_bind [OF runs_seed_benefits [OF assms] settles_seed_benefits post_seed_benefits],
      rule runs_bind [OF _ settles_seed_rate_options post_seed_rate_options])
    let ?Q = "\<lambda>v. (?P v \<and> types_there v) \<and> (\<forall>s \<in> set benefit_seeds. benefit_there (ns_name s) v)"
    show "runs tidy ?Q (seed_rate_options en)"
      unfolding seed_rate_options_def
      by (intro runs_each rows_settle) (rule runs_weaken [OF runs_seed_rate_option [OF assms]], simp_all)
    show "runs tidy (\<lambda>v. ?Q v \<and> rates_there v)
        (\<lambda>w. and_then (seed_rate_benefits en w) (\<lambda>_ w. and_then (seed_settings en a s n w) (\<lambda>_. ok ())))"
      by (rule runs_seq [OF _ settles_seed_rate_benefits], rule runs_weaken [OF runs_seed_rate_benefits [OF assms]], simp,
          intro runs_seq runs_seed_settings settles_seed_settings runs_ok assms)
  qed
qed

text \<open>Seeding an empty database succeeds, whatever the fresh identifiers are.\<close>

theorem seeding_succeeds:
  assumes "fresh_ids en"
  shows "\<exists>w. runSeeders en account secret from_name empty_world = ok () w"
proof -
  have "tidy empty_world" by (simp add: tidy_def rooted_def empty_world_def)
  then show ?thesis using runs_runSeeders [OF assms] unfolding runs_def by fastforce
qed

section \<open>An environment\<close>

text \<open>An identifier longer than all that are in use.\<close>

definition seed_env :: "world \<Rightarrow> ext" where
  "seed_env w = (plain_ext 0)\<lparr>x_new_id := CHR ''x'' # concat
     (ids (modules w) @ ids (permissions w) @ ids (roles w) @ ids (admins w) @ ids (users w) @ ids (hotels w)
      @ ids (room_characteristics w) @ ids (room_types w) @ ids (room_type_characteristics w) @ ids (rooms w)
      @ ids (benefits w) @ ids (rate_options w) @ ids (rate_option_benefits w) @ ids (settings w))\<rparr>"

lemma longer_than_all: "CHR ''x'' # concat xs \<notin> set xs"
proof
  assume "CHR ''x'' # concat xs \<in> set xs"
  moreover have "x \<in> set xs \<Longrightarrow> length x \<le> length (concat xs)" for x
    by (induction xs) auto
  ultimately show False by fastforce
qed

lemma seed_env_fresh: "fresh_ids seed_env"
  unfolding fresh_ids_def seed_env_def using longer_than_all by (simp del: concat_append concat.simps set_append)

theorem seeding_succeeds_witness:
  "\<exists>w. runSeeders seed_env ''mail'' ''key'' None empty_world = ok () w"
  by (rule seeding_succeeds [OF seed_env_fresh])

lemma seeded_run:
  obtains w where "runSeeders seed_env ''mail'' ''key'' None empty_world = ok () w" and "tidy w"
proof -
  have "tidy empty_world" by (simp add: tidy_def rooted_def empty_world_def)
  then show ?thesis using that runs_runSeeders [OF seed_env_fresh] unfolding runs_def by fastforce
qed

theorem seeding_twice_witness:
  "\<exists>w. runSeeders seed_env ''mail'' ''key'' None empty_world = ok () w \<and> runSeeders seed_env ''mail'' ''key'' None w = ok () w"
proof (rule seeded_run)
  fix w assume "runSeeders seed_env ''mail'' ''key'' None empty_world = ok () w"
  with seeding_twice [OF this] show ?thesis by blast
qed

theorem seeding_grants_witness:
  "\<exists>w r. runSeeders seed_env ''mail'' ''key'' None empty_world = ok () w \<and> role_named ''Customer'' w = Some r
     \<and> permissions_guard (Some [(M_PAYMENTS, CREATE)])
         (Some \<lparr>cu_id = ''u1'', cu_subjectType = Some USER, cu_role = role_view_of (entId r) w\<rparr>) = Inr ()"
proof (rule seeded_run)
  fix w assume run: "runSeeders seed_env ''mail'' ''key'' None empty_world = ok () w" and t: "tidy w"
  let ?c = "getRoleConfigurations seeded_codes ! 2"
  have c: "?c \<in> set (getRoleConfigurations seeded_codes)" "rcf_name ?c = ''Customer''" "rcf_modules ?c = customerModuleAccess"
    by (simp_all add: getRoleConfigurations_def)
  have "(M_PAYMENTS, [CREATE, READ]) \<in> set (rcf_modules ?c)" unfolding c(3) by (simp add: customerModuleAccess_def)
  then have req: "\<exists>p \<in> set [(M_PAYMENTS, CREATE)]. case p of (m, a) \<Rightarrow> \<exists>acts. (m, acts) \<in> set (rcf_modules ?c) \<and> a \<in> set acts"
    by force
  have d: "distinct (ids (permissions w))" "distinct (ids (modules w))" using t by (simp_all add: tidy_def)
  obtain r where r: "role_named (rcf_name ?c) w = Some r"
    and g: "\<forall>cu reqs. cu_role cu = role_view_of (entId r) w \<and> (\<exists>p \<in> set reqs. case p of (m, a) \<Rightarrow> \<exists>acts. (m, acts) \<in> set (rcf_modules ?c) \<and> a \<in> set acts)
       \<longrightarrow> permissions_guard (Some reqs) (Some cu) = Inr ()"
    using seeding_grants [OF run extends_refl d c(1)] by blast
  let ?cu = "\<lparr>cu_id = ''u1'', cu_subjectType = Some USER, cu_role = role_view_of (entId r) w\<rparr> :: authenticated_user"
  have "cu_role ?cu = role_view_of (entId r) w" by simp
  then have "permissions_guard (Some [(M_PAYMENTS, CREATE)]) (Some ?cu) = Inr ()" using g req by blast
  then show ?thesis using run r unfolding c(2) by blast
qed

end
