(* ===== verification/Routes.thy ===== *)
theory Routes
  imports Access Payment_Facts Seeding_Runs
begin

text \<open>
  The routes, as the decorators of \<open>src/src/v1/*/controllers\<close> declare them: whether a route is public, whether the
  permission guard stands before it and what it asks for, its success status, its own throttle and timeout, what is
  logged, and which fields of the response are signed.  Paths are without the prefix \<open>/api/v1\<close>.
\<close>

section \<open>Routes\<close>

datatype http_method = GET | POST | PUT | PATCH | DEL

record route =
  rt_method :: http_method
  rt_path :: string
  rt_public :: bool
  rt_guarded :: bool
  rt_requires :: "(permission_module \<times> action_type) list option"
  rt_status :: nat
  rt_throttle :: "nat \<times> int"
  rt_timeout :: int
  rt_log :: "(log_action \<times> string \<times> string) option"
  rt_presigned :: "string list"

text \<open>The defaults: 201 for a \<open>POST\<close>, 100 requests a minute, ten seconds.\<close>

definition plain_route :: "http_method \<Rightarrow> string \<Rightarrow> route" where
  "plain_route m p =
     \<lparr>rt_method = m, rt_path = p, rt_public = False, rt_guarded = False, rt_requires = None,
      rt_status = (if m = POST then 201 else 200), rt_throttle = (100, 60000), rt_timeout = 10000,
      rt_log = None, rt_presigned = []\<rparr>"

definition public_route :: "http_method \<Rightarrow> string \<Rightarrow> route" where
  "public_route m p = (plain_route m p)\<lparr>rt_public := True\<rparr>"

definition guarded_route :: "http_method \<Rightarrow> string \<Rightarrow> (permission_module \<times> action_type) list \<Rightarrow> route" where
  "guarded_route m p reqs = (plain_route m p)\<lparr>rt_guarded := True, rt_requires := Some reqs\<rparr>"

definition logged :: "log_action \<Rightarrow> string \<Rightarrow> string \<Rightarrow> route \<Rightarrow> route" where
  "logged a d t r = r\<lparr>rt_log := Some (a, d, t)\<rparr>"

definition http_200 :: "route \<Rightarrow> route" where
  "http_200 r = r\<lparr>rt_status := 200\<rparr>"

text \<open>Logins, registration and the own account; the second factor and forgotten passwords.\<close>

definition session_routes :: "route list" where
  "session_routes =
     [(http_200 (public_route POST ''auth/admin/login''))\<lparr>rt_throttle := (5, 60000)\<rparr>,
      (http_200 (public_route POST ''auth/user/login''))\<lparr>rt_throttle := (5, 60000)\<rparr>,
      (http_200 (public_route POST ''auth/user/login/google''))\<lparr>rt_timeout := 30000\<rparr>,
      (http_200 (public_route POST ''auth/user/login/apple''))\<lparr>rt_timeout := 30000\<rparr>,
      (http_200 (public_route POST ''auth/user/register''))\<lparr>rt_timeout := 30000\<rparr>,
      (http_200 (public_route POST ''auth/register/otp''))\<lparr>rt_throttle := (3, 900000)\<rparr>,
      http_200 (public_route POST ''auth/register/otp/verify''),
      http_200 (public_route POST ''auth/register/password''),
      (http_200 (public_route POST ''auth/register''))\<lparr>rt_timeout := 30000\<rparr>,
      http_200 (public_route POST ''auth/refresh''),
      logged LOGOUT ''User logged out'' ''Auth'' (http_200 (plain_route POST ''auth/logout'')),
      (plain_route GET ''auth/me'')\<lparr>rt_presigned := [''profileImageUrl'']\<rparr>,
      (plain_route PATCH ''auth/me'')\<lparr>rt_timeout := 30000\<rparr>,
      plain_route PUT ''auth/me/password'',
      plain_route DEL ''auth/me'']"

definition recovery_routes :: "route list" where
  "recovery_routes =
     [(http_200 (public_route POST ''auth/2fa/verify''))\<lparr>rt_throttle := (5, 60000)\<rparr>,
      http_200 (plain_route POST ''auth/2fa/enable''),
      http_200 (public_route POST ''auth/2fa/enable/confirm''),
      http_200 (plain_route POST ''auth/2fa/disable''),
      (http_200 (public_route POST ''auth/admin/forgot-password''))\<lparr>rt_throttle := (3, 900000)\<rparr>,
      http_200 (public_route POST ''auth/admin/forgot-password/verify''),
      http_200 (public_route POST ''auth/admin/reset-password''),
      (http_200 (public_route POST ''auth/user/forgot-password''))\<lparr>rt_throttle := (3, 900000)\<rparr>,
      http_200 (public_route POST ''auth/user/forgot-password/verify''),
      http_200 (public_route POST ''auth/user/reset-password'')]"

definition auth_routes :: "route list" where
  "auth_routes = session_routes @ recovery_routes"

definition role_routes :: "route list" where
  "role_routes =
     [guarded_route GET ''roles'' [(M_ADMIN, READ), (M_ADMIN_ROLE_PERMISSIONS, READ)],
      guarded_route GET ''roles/:id'' [(M_ADMIN, READ), (M_ADMIN_ROLE_PERMISSIONS, READ)],
      logged L_CREATE ''Admin created a role'' ''Role''
        (guarded_route POST ''roles'' [(M_ADMIN, CREATE), (M_ADMIN_ROLE_PERMISSIONS, CREATE)]),
      logged L_UPDATE ''Admin updated a role'' ''Role''
        (guarded_route PATCH ''roles/:id'' [(M_ADMIN, UPDATE), (M_ADMIN_ROLE_PERMISSIONS, UPDATE)]),
      logged L_DELETE ''Admin deleted a role'' ''Role''
        (guarded_route DEL ''roles/:id'' [(M_ADMIN, DELETE), (M_ADMIN_ROLE_PERMISSIONS, DELETE)])]"

definition permission_routes :: "route list" where
  "permission_routes = [guarded_route GET ''permissions'' [(M_ADMIN, READ), (M_ADMIN_ROLE_PERMISSIONS, READ)]]"

definition admin_routes :: "route list" where
  "admin_routes =
     [logged L_CREATE ''Admin created another admin'' ''Admin''
        (guarded_route POST ''admins'' [(M_ADMIN, CREATE), (M_ADMIN_LIST, CREATE)]),
      (guarded_route GET ''admins'' [(M_ADMIN, READ), (M_ADMIN_LIST, READ)])\<lparr>rt_presigned := [''profileImageUrl'']\<rparr>,
      (guarded_route GET ''admins/:id'' [(M_ADMIN, READ), (M_ADMIN_LIST, READ)])\<lparr>rt_presigned := [''profileImageUrl'']\<rparr>,
      logged L_UPDATE ''Admin updated another admin'' ''Admin''
        (guarded_route PATCH ''admins/:id'' [(M_ADMIN, UPDATE), (M_ADMIN_LIST, UPDATE)]),
      logged L_DELETE ''Admin deleted another admin'' ''Admin''
        (guarded_route DEL ''admins/:id'' [(M_ADMIN, DELETE), (M_ADMIN_LIST, DELETE)])]"

definition user_routes :: "route list" where
  "user_routes =
     [logged L_CREATE ''Admin created a user'' ''User''
        (guarded_route POST ''users'' [(M_APPLICATION_USER, CREATE), (M_APPLICATION_USER_LIST, CREATE)]),
      (guarded_route GET ''users'' [(M_APPLICATION_USER, READ), (M_APPLICATION_USER_LIST, READ)])
        \<lparr>rt_presigned := [''profileImageUrl'']\<rparr>,
      (guarded_route GET ''users/:id'' [(M_APPLICATION_USER, READ), (M_APPLICATION_USER_LIST, READ)])
        \<lparr>rt_presigned := [''profileImageUrl'']\<rparr>,
      logged L_UPDATE ''Admin updated a user'' ''User''
        (guarded_route PATCH ''users/:id'' [(M_APPLICATION_USER, UPDATE), (M_APPLICATION_USER_LIST, UPDATE)]),
      logged L_DELETE ''Admin deleted a user'' ''User''
        (guarded_route DEL ''users/:id'' [(M_APPLICATION_USER, DELETE), (M_APPLICATION_USER_LIST, DELETE)])]"

definition hotel_routes :: "route list" where
  "hotel_routes =
     [(public_route GET ''hotels'')\<lparr>rt_guarded := True\<rparr>,
      (public_route GET ''hotels/:id'')\<lparr>rt_guarded := True\<rparr>,
      logged L_CREATE ''Admin created a hotel'' ''Hotel'' (guarded_route POST ''hotels'' [(M_HOTELS, CREATE)]),
      logged L_UPDATE ''Admin updated a hotel'' ''Hotel'' (guarded_route PATCH ''hotels/:id'' [(M_HOTELS, UPDATE)]),
      logged L_DELETE ''Admin deleted a hotel'' ''Hotel'' (guarded_route DEL ''hotels/:id'' [(M_HOTELS, DELETE)])]"

definition room_type_routes :: "route list" where
  "room_type_routes =
     [logged L_CREATE ''Admin created a room type'' ''RoomType''
        (guarded_route POST ''hotels/:hotelId/room-types'' [(M_HOTELS, CREATE)]),
      (public_route GET ''hotels/:hotelId/room-types'')\<lparr>rt_guarded := True\<rparr>,
      logged L_UPDATE ''Admin updated a room type'' ''RoomType''
        (guarded_route PATCH ''hotels/:hotelId/room-types/:id'' [(M_HOTELS, UPDATE)]),
      logged L_DELETE ''Admin deleted a room type'' ''RoomType''
        (guarded_route DEL ''hotels/:hotelId/room-types/:id'' [(M_HOTELS, DELETE)])]"

definition room_characteristic_routes :: "route list" where
  "room_characteristic_routes = [(public_route GET ''room-characteristics'')\<lparr>rt_guarded := True\<rparr>]"

definition room_routes :: "route list" where
  "room_routes =
     [(public_route GET ''hotels/:hotelId/rooms'')\<lparr>rt_guarded := True\<rparr>,
      logged L_CREATE ''Admin created a room'' ''Room'' (guarded_route POST ''hotels/:hotelId/rooms'' [(M_HOTELS, CREATE)]),
      logged L_CREATE ''Admin bulk-created rooms'' ''Room''
        (guarded_route POST ''hotels/:hotelId/rooms/bulk'' [(M_HOTELS, CREATE)]),
      logged L_UPDATE ''Admin updated a room'' ''Room'' (guarded_route PATCH ''hotels/:hotelId/rooms/:id'' [(M_HOTELS, UPDATE)]),
      logged L_DELETE ''Admin deleted a room'' ''Room'' (guarded_route DEL ''hotels/:hotelId/rooms/:id'' [(M_HOTELS, DELETE)])]"

definition rates_path :: "string \<Rightarrow> string" where
  "rates_path rest = ''hotels/:hotelId/room-types/:roomTypeId/rate-options'' @ rest"

definition rate_option_routes :: "route list" where
  "rate_option_routes =
     [logged L_CREATE ''Admin created a rate option'' ''RateOption'' (guarded_route POST (rates_path '''') [(M_ROOM_TYPES, CREATE)]),
      (public_route GET (rates_path ''''))\<lparr>rt_guarded := True\<rparr>,
      logged L_UPDATE ''Admin updated a rate option'' ''RateOption'' (guarded_route PATCH (rates_path ''/:id'') [(M_ROOM_TYPES, UPDATE)]),
      logged L_DELETE ''Admin deleted a rate option'' ''RateOption'' (guarded_route DEL (rates_path ''/:id'') [(M_ROOM_TYPES, DELETE)]),
      logged L_UPDATE ''Admin added benefits to a rate option'' ''RateOption''
        (http_200 (guarded_route POST (rates_path ''/:id/benefits'') [(M_ROOM_TYPES, UPDATE)])),
      logged L_UPDATE ''Admin removed benefits from a rate option'' ''RateOption''
        (guarded_route DEL (rates_path ''/:id/benefits'') [(M_ROOM_TYPES, UPDATE)])]"

definition benefit_routes :: "route list" where
  "benefit_routes = [(public_route GET ''benefits'')\<lparr>rt_guarded := True\<rparr>]"

definition booking_routes :: "route list" where
  "booking_routes =
     [logged L_CREATE ''User created a booking'' ''Booking'' (guarded_route POST ''bookings'' [(M_BOOKINGS, CREATE)]),
      guarded_route GET ''bookings'' [(M_BOOKINGS, READ)],
      guarded_route GET ''bookings/:id'' [(M_BOOKINGS, READ)],
      logged L_UPDATE ''Booking status updated'' ''Booking'' (guarded_route PATCH ''bookings/:id/status'' [(M_BOOKINGS, UPDATE)])]"

definition webhook_route :: route where
  "webhook_route = plain_route POST ''payments/webhook/stripe''"

definition confirm_cash_route :: route where
  "confirm_cash_route =
     logged L_CREATE ''Admin confirmed cash payment for booking'' ''Payment''
       (guarded_route POST ''payments/confirm-cash'' [(M_PAYMENTS, CREATE)])"

definition payment_routes :: "route list" where
  "payment_routes =
     [logged L_CREATE ''Payment intent created for booking'' ''Payment'' (guarded_route POST ''payments/intent'' [(M_PAYMENTS, CREATE)]),
      webhook_route, confirm_cash_route,
      guarded_route GET ''payments'' [(M_PAYMENTS, READ)],
      guarded_route GET ''payments/:id'' [(M_PAYMENTS, READ)]]"

definition setting_routes :: "route list" where
  "setting_routes =
     [logged L_UPDATE ''Admin updated SMTP settings'' ''Setting''
        (guarded_route PUT ''settings/smtp'' [(M_SETTING, UPDATE), (M_SETTING_SMTP, UPDATE)]),
      plain_route GET ''settings/smtp'']"

definition log_routes :: "route list" where
  "log_routes =
     [(guarded_route GET ''activity-logs'' [(M_ADMIN, READ), (M_ACTIVITY_LOGS, READ)])\<lparr>rt_presigned := [''user.profileImageUrl'']\<rparr>,
      (guarded_route GET ''audit-logs'' [(M_ADMIN, READ), (M_AUDIT_LOGS, READ)])\<lparr>rt_presigned := [''admin.profileImageUrl'']\<rparr>]"

definition app_routes :: "route list" where
  "app_routes = [plain_route GET '''', public_route GET ''health'']"

definition all_routes :: "route list" where
  "all_routes =
     auth_routes @ role_routes @ permission_routes @ admin_routes @ user_routes @ hotel_routes @ room_type_routes
     @ room_characteristic_routes @ room_routes @ rate_option_routes @ benefit_routes @ booking_routes
     @ payment_routes @ setting_routes @ log_routes @ app_routes"

lemmas route_defs =
  all_routes_def auth_routes_def session_routes_def recovery_routes_def role_routes_def permission_routes_def admin_routes_def user_routes_def hotel_routes_def
  room_type_routes_def room_characteristic_routes_def room_routes_def rate_option_routes_def benefit_routes_def
  booking_routes_def payment_routes_def setting_routes_def log_routes_def app_routes_def webhook_route_def
  confirm_cash_route_def rates_path_def plain_route_def public_route_def guarded_route_def logged_def http_200_def

section \<open>Authorisation of a request\<close>

text \<open>The global guards, the token first and the throttle second, then the guard of the controller.\<close>

definition authorize :: "ext \<Rightarrow> bool \<Rightarrow> route \<Rightarrow> string option \<Rightarrow> world \<Rightarrow> exn + authenticated_user option" where
  "authorize e throttled r token w =
     (case jwt_auth_guard e (rt_public r) token w of
        Inl err \<Rightarrow> Inl err
      | Inr caller \<Rightarrow>
          if throttled then Inl ThrottlerException
          else if rt_guarded r
          then (case permissions_guard (rt_requires r) caller of Inl err \<Rightarrow> Inl err | Inr _ \<Rightarrow> Inr caller)
          else Inr caller)"

text \<open>What a caller with given permissions reaches, beside the public routes.\<close>

definition reaches :: "(permission_module \<times> action_type) list \<Rightarrow> route \<Rightarrow> bool" where
  "reaches ps r \<longleftrightarrow> \<not> rt_public r \<and> (rt_guarded r \<longrightarrow> (case rt_requires r of None \<Rightarrow> True | Some reqs \<Rightarrow> list_ex (List.member ps) reqs))"

definition flat_access :: "(permission_module \<times> action_type list) list \<Rightarrow> (permission_module \<times> action_type) list" where
  "flat_access xs = concat (map (\<lambda>(m, acts). map (\<lambda>a. (m, a)) acts) xs)"

definition changes_state :: "route \<Rightarrow> bool" where
  "changes_state r \<longleftrightarrow> rt_method r \<noteq> GET"

lemma reaches_iff:
  assumes "cu_role cu = Some rv" and "\<not> rt_public r"
  shows "(rt_guarded r \<longrightarrow> permissions_guard (rt_requires r) (Some cu) = Inr ()) \<longleftrightarrow> reaches (rv_permissions rv) r"
proof (cases "rt_requires r")
  case None
  then show ?thesis using assms(2) by (simp add: reaches_def permissions_guard_def)
next
  case (Some reqs)
  then show ?thesis
    using assms permissions_guard_iff [of reqs "Some cu"] by (auto simp: reaches_def list_ex_iff)
qed


text \<open>What a customer may change with the seeded permissions: his account, bookings, payment intents - and the
  confirmation of cash payments.\<close>

theorem customer_changes:
  "map rt_path (filter (\<lambda>r. changes_state r \<and> reaches (flat_access customerModuleAccess) r) all_routes)
   = [''auth/logout'', ''auth/me'', ''auth/me/password'', ''auth/me'', ''auth/2fa/enable'', ''auth/2fa/disable'',
      ''bookings'', ''bookings/:id/status'', ''payments/intent'', ''payments/webhook/stripe'', ''payments/confirm-cash'']"
  by code_simp

text \<open>Stripe cannot deliver its events: a request without a bearer token never reaches the webhook.\<close>

theorem webhook_needs_token:
  "authorize e throttled webhook_route None w = Inl (UnauthorizedException ''Unauthorized'')"
  by (simp add: authorize_def jwt_auth_guard_def webhook_route_def plain_route_def)

text \<open>The settings of the mail server are shown to every live account, whatever its role.\<close>

theorem smtp_settings_open:
  assumes "jwt_auth_guard e False token w = Inr (Some cu)"
  shows "authorize e False (plain_route GET ''settings/smtp'') token w = Inr (Some cu) \<and> plain_route GET ''settings/smtp'' \<in> set all_routes"
  using assms by (simp add: authorize_def plain_route_def) (simp add: route_defs)

text \<open>A customer confirms a booking without paying: a caller whose role may create payments passes the guards of
  the cash route, and the service records the payment of any pending booking as settled.\<close>

theorem customer_confirms_cash:
  assumes "x_verify e s (x_now e) = Some (UserJwt sub u)" and "u \<noteq> ''''" and "by_id u (users w) = Some usr"
    and "u_roleId usr = Some i" and "by_id i (roles w) = Some r" and "(M_PAYMENTS, CREATE) \<in> set (role_pairs i w)"
    and "by_id bk (bookings w) = Some b" and "b_status b = B_PENDING" and "b_userId b \<in> set (ids (users w))"
    and "pe_paymentId env \<notin> set (ids (payments w))"
    and "\<forall>p \<in> set (payments w). y_paymentIntentId p \<noteq> syntheticIntentId bk (pe_now env)"
  shows "\<exists>cu. authorize e False confirm_cash_route (Some s) w = Inr (Some cu) \<and> cu_subjectType cu = Some USER
    \<and> (\<exists>p w'. confirmCashPayment env bk cu w = ok p w' \<and> y_status p = P_COMPLETED
         \<and> (\<exists>b'. by_id bk (bookings w') = Some b' \<and> b_status b' = B_CONFIRMED))"
proof -
  let ?cu = "\<lparr>cu_id = u, cu_subjectType = Some USER, cu_role = user_role usr w\<rparr> :: authenticated_user"
  obtain rv where rv: "user_role usr w = Some rv" "rv_permissions rv = role_pairs i w"
    using assms(4,5) by (auto simp: user_role_def role_view_of_def)
  have "jwt_auth_guard e False (Some s) w = Inr (Some ?cu)" using assms(1-3) by (auto simp: jwt_auth_guard_iff)
  moreover have "permissions_guard (Some [(M_PAYMENTS, CREATE)]) (Some ?cu) = Inr ()"
    using rv assms(6) by (auto simp: permissions_guard_iff)
  ultimately have a: "authorize e False confirm_cash_route (Some s) w = Inr (Some ?cu)"
    by (simp add: authorize_def confirm_cash_route_def logged_def guarded_route_def plain_route_def)
  have "succeeds (confirmCashPayment env bk ?cu w)" by (rule confirmCashPayment_succeeds [OF assms(7-11)])
  then obtain b' where b': "by_id bk (bookings w) = Some b'" and run: "confirmCashPayment env bk ?cu w = ok (cash_row env b') (cash_paid env b' w)"
    by (cases rule: confirmCashPayment_cases [of env bk ?cu w]) auto
  have bb: "b' = b" "entId b = bk" "live b" using b' assms(7) by_id_Some [OF assms(7)] by auto
  have "by_id bk (update_where (\<lambda>x. entId x = bk) (\<lambda>x. x\<lparr>b_status := B_CONFIRMED\<rparr>) (bookings w)) = Some (b\<lparr>b_status := B_CONFIRMED\<rparr>)"
  proof -
    have "find_one (\<lambda>x. live x \<and> entId x = bk) (update_where (\<lambda>x. entId x = bk) (\<lambda>x. x\<lparr>b_status := B_CONFIRMED\<rparr>) (bookings w))
        = map_option (\<lambda>x. if entId x = bk then x\<lparr>b_status := B_CONFIRMED\<rparr> else x) (find_one (\<lambda>x. live x \<and> entId x = bk) (bookings w))"
      by (rule find_one_update_where) (simp add: live_def)
    then show ?thesis using assms(7) bb by (simp add: by_id_def)
  qed
  then have "by_id bk (bookings (cash_paid env b' w)) = Some (b\<lparr>b_status := B_CONFIRMED\<rparr>)" using bb by (simp add: cash_paid_def)
  then show ?thesis using a run by (intro exI [of _ ?cu]) (auto simp: cash_row_def)
qed

section \<open>Examples\<close>

definition cash_world :: world where
  "cash_world = pending_world
     \<lparr>roles := [guest_role],
      modules := [\<lparr>entId = ''m2'', createdAt = 0, deletedAt = None, m_name = ''Payments'', m_code = M_PAYMENTS, m_parentId = None\<rparr>],
      permissions := [\<lparr>entId = ''p9'', createdAt = 0, deletedAt = None, p_moduleId = ''m2'', p_action = CREATE\<rparr>],
      role_permissions := [\<lparr>rp_roleId = ''customer'', rp_permissionId = ''p9''\<rparr>]\<rparr>"

lemmas cash_world_defs = cash_world_def pending_world_def guest_role_def sample_defs

theorem smtp_settings_open_witness:
  "authorize (plain_ext 5) False (plain_route GET ''settings/smtp'') (Some ''Uu1'') cash_world
   = Inr (Some \<lparr>cu_id = ''u1'', cu_subjectType = Some USER, cu_role = user_role (sample_user ''u1'' ''+959111'') cash_world\<rparr>)"
proof -
  have "jwt_auth_guard (plain_ext 5) False (Some ''Uu1'') cash_world
      = Inr (Some \<lparr>cu_id = ''u1'', cu_subjectType = Some USER, cu_role = user_role (sample_user ''u1'' ''+959111'') cash_world\<rparr>)"
    unfolding jwt_auth_guard_iff by (simp add: plain_ext_def by_id_def live_def cash_world_def pending_world_def sample_world_def empty_world_def sample_user_def)
  from smtp_settings_open [OF this] show ?thesis by blast
qed

theorem customer_confirms_cash_witness:
  "\<exists>cu. authorize (plain_ext 5) False confirm_cash_route (Some ''Uu2'') cash_world = Inr (Some cu) \<and> cu_subjectType cu = Some USER
    \<and> (\<exists>p w'. confirmCashPayment (pay_env 1 ''p1'') ''b1'' cu cash_world = ok p w' \<and> y_status p = P_COMPLETED
         \<and> (\<exists>b'. by_id ''b1'' (bookings w') = Some b' \<and> b_status b' = B_CONFIRMED))"
proof (rule customer_confirms_cash [where u = "''u2''" and sub = "''u2''" and usr = "sample_user ''u2'' ''+959222''" and i = "''customer''"
      and r = guest_role and b = "sample_booking ''b1'' ''u1'' B_PENDING 9990"])
  show "(M_PAYMENTS, CREATE) \<in> set (role_pairs ''customer'' cash_world)"
    by (simp add: in_role_pairs permission_pair_Some) (simp add: cash_world_defs by_id_def live_def)
qed (simp_all add: cash_world_defs plain_ext_def by_id_def live_def pay_env_def)

end
