(* ===== verification/Js_Parse.thy ===== *)
theory Js_Parse
  imports Js_Text Js_Number Date_Time
begin

text \<open>
  Texts as the numbers and lists a query stands for: \<open>Number(text)\<close>, the literals of ECMAScript rounded to a double, and
  the separation of a text at its commas.  \<open>None\<close> stands for \<open>NaN\<close> and for the infinities, which \<open>@IsNumber()\<close> refuses
  alike.  Doubles below \<open>2\<^sup>-\<^sup>1\<^sup>0\<^sup>2\<^sup>2\<close> are not coarsened.
\<close>

section \<open>Numbers\<close>

text \<open>\<open>ExponentPart\<close>: nothing, or an \<open>e\<close>, a sign and digits.\<close>

definition exponent_part :: "string \<Rightarrow> int option" where
  "exponent_part s =
     (case s of
        [] \<Rightarrow> Some 0
      | c # r \<Rightarrow>
          (let (negative, ds) = split_sign r
           in if to_lower c = CHR ''e'' \<and> ds \<noteq> [] \<and> list_all (is_digit_of 10) ds
              then Some (if negative then - int (digits_value 10 ds) else int (digits_value 10 ds)) else None))"

text \<open>\<open>StrUnsignedDecimalLiteral\<close>: digits, a point, digits and an exponent; one of the two runs of digits is not empty.\<close>

definition decimal_literal :: "string \<Rightarrow> rat option" where
  "decimal_literal s =
     (let whole = takeWhile (is_digit_of 10) s;
          rest = dropWhile (is_digit_of 10) s;
          (part, rest) =
            (case rest of
               [] \<Rightarrow> ([], [])
             | c # r \<Rightarrow> if c = CHR ''.'' then (takeWhile (is_digit_of 10) r, dropWhile (is_digit_of 10) r) else ([], rest))
      in if whole = [] \<and> part = [] then None
         else map_option (\<lambda>e. of_nat (digits_value 10 (whole @ part)) * 10 powi (e - int (length part))) (exponent_part rest))"

definition literal_base :: "char \<Rightarrow> nat option" where
  "literal_base c =
     (if to_lower c = CHR ''x'' then Some 16 else if to_lower c = CHR ''o'' then Some 8
      else if to_lower c = CHR ''b'' then Some 2 else None)"

text \<open>\<open>NonDecimalIntegerLiteral\<close>, which has no sign.\<close>

definition based_literal :: "string \<Rightarrow> (nat \<times> string) option" where
  "based_literal s =
     (case s of
        c # x # ds \<Rightarrow> if c = CHR ''0'' then map_option (\<lambda>base. (base, ds)) (literal_base x) else None
      | _ \<Rightarrow> None)"

definition text_number :: "string \<Rightarrow> rat option" where
  "text_number s =
     (let t = js_trim s
      in if t = '''' then Some 0
         else case based_literal t of
                Some (base, ds) \<Rightarrow>
                  if ds \<noteq> [] \<and> list_all (is_digit_of base) ds then Some (of_nat (digits_value base ds)) else None
              | None \<Rightarrow>
                  (let (negative, u) = split_sign t
                   in map_option (\<lambda>q. if negative then - q else q) (decimal_literal u)))"

definition js_Number :: "string \<Rightarrow> rat option" where
  "js_Number s =
     (case text_number s of
        None \<Rightarrow> None
      | Some q \<Rightarrow> if \<bar>fl q\<bar> < 2 ^ 1024 then Some (fl q) else None)"

section \<open>Facts\<close>

lemma fl_of_int: "\<bar>k\<bar> \<le> 2 ^ 53 \<Longrightarrow> fl (of_int k) = of_int k"
  using fl_multiple [of k 52] by (simp add: two_powi_def)

lemma decimal_trim: "decimal_digits s \<Longrightarrow> js_trim s = s"
  using decimal_plain(1) [of s] decimal_plain(1) [of "rev s"] by (simp add: js_trim_def decimal_digits_def)

lemma decimal_all_digits: "decimal_digits s \<Longrightarrow> list_all (is_digit_of 10) s"
  by (auto simp: list_all_iff decimal_digits_def is_digit_of_def digit_facts)

lemma decimal_not_based:
  assumes "decimal_digits s"
  shows "based_literal s = None"
proof -
  have "\<forall>d \<in> set [0..<10]. literal_base (show_digit d) = None" by code_simp
  then have "\<And>c. c \<in> set s \<Longrightarrow> literal_base c = None" using assms by (auto simp: decimal_digits_def)
  then show ?thesis by (auto simp: based_literal_def split: list.split)
qed

text \<open>A natural number up to \<open>2\<^sup>5\<^sup>3\<close> is read back.\<close>

lemma js_Number_show_nat:
  assumes "n \<le> 2 ^ 53"
  shows "js_Number (show_nat n) = Some (of_nat n)"
proof -
  let ?s = "show_nat n"
  have s: "decimal_digits ?s" "?s \<noteq> []" "digits_value 10 ?s = n" using decimal_show_nat by auto
  have d: "dropWhile (is_digit_of 10) ?s = []"
    using decimal_all_digits [OF s(1)] by (simp only: dropWhile_eq_Nil_conv list_all_iff)
  have "decimal_literal ?s = Some (of_nat n)"
    using s by (simp add: decimal_literal_def d takeWhile_decimal exponent_part_def)
  then have "text_number ?s = Some (of_nat n)"
    using s by (simp add: text_number_def decimal_trim decimal_not_based decimal_plain(2))
  moreover have "fl (of_nat n) = of_nat n" using fl_of_int [of "int n"] assms by simp
  moreover have "(of_nat n :: rat) < 2 ^ 1024"
  proof -
    have "n < 2 ^ 1024" using assms by (rule order_le_less_trans) simp
    then show ?thesis by (metis of_nat_less_iff of_nat_numeral of_nat_power)
  qed
  ultimately show ?thesis by (simp add: js_Number_def)
qed

text \<open>Other notations, the empty text and what is no number.\<close>

lemma text_number_examples:
  "text_number '''' = Some 0" "text_number '' 12 '' = Some 12" "text_number ''0x1F'' = Some 31"
  "text_number ''1.5'' = Some (3 / 2)" "text_number ''-2e2'' = Some (- 200)" "text_number ''.5'' = Some (1 / 2)"
  "text_number ''ten'' = None" "text_number ''1,5'' = None" "text_number ''-0x1'' = None"
  by code_simp+

end
