(* ===== verification/Validation.thy ===== *)
theory Validation
  imports Json Js_Parse
begin

text \<open>
  The bodies of the account routes, before any service sees them: the classes of \<open>src/src/v1/auth/dto\<close>,
  \<open>src/src/v1/user/dto\<close> and \<open>src/src/v1/admin/dto\<close> as the lists of their decorators, and the pipe that \<open>src/src/main.ts\<close>
  configures with them (\<open>whitelist\<close>, \<open>forbidNonWhitelisted\<close>, \<open>transform\<close>).

  What a single decorator of class-validator accepts is an argument \<open>cv\<close>; \<open>documented cv\<close> states the documentation of the
  decorators the results rely on.  The regular expressions are the source's own and are translated.
\<close>

section \<open>Regular expressions\<close>

text \<open>A dot stops at a line feed, a carriage return and the separators U+2028 and U+2029.\<close>

definition line_end :: "string \<Rightarrow> bool" where
  "line_end s \<longleftrightarrow>
     (case s of
        c # cs \<Rightarrow> c = CHR 0x0A \<or> c = CHR 0x0D
                  \<or> (c = CHR 0xE2 \<and> (take 2 cs = [CHR 0x80, CHR 0xA8] \<or> take 2 cs = [CHR 0x80, CHR 0xA9]))
      | [] \<Rightarrow> True)"

fun rest_of_line :: "string \<Rightarrow> string" where
  "rest_of_line [] = []"
| "rest_of_line (c # cs) = (if line_end (c # cs) then [] else c # rest_of_line cs)"

definition is_capital :: "char \<Rightarrow> bool" where
  "is_capital c \<longleftrightarrow> c \<in> set ''ABCDEFGHIJKLMNOPQRSTUVWXYZ''"

text \<open>\<open>/(?=.*[A-Z])(?=.*\d)/\<close>, searched for from the left.\<close>

fun password_pattern :: "string \<Rightarrow> bool" where
  "password_pattern [] = False"
| "password_pattern (c # cs) =
     ((list_ex is_capital (rest_of_line (c # cs)) \<and> list_ex is_digit (rest_of_line (c # cs))) \<or> password_pattern cs)"

text \<open>\<open>/^09\d{7,9}$/\<close>.\<close>

definition phone_pattern :: "string \<Rightarrow> bool" where
  "phone_pattern s \<longleftrightarrow> take 2 s = ''09'' \<and> list_all is_digit (drop 2 s) \<and> length (drop 2 s) \<in> {7..9}"

text \<open>\<open>/^([01]\d|2[0-3]):[0-5]\d(:[0-5]\d)?$/\<close>.\<close>

definition sixtieth :: "char \<Rightarrow> char \<Rightarrow> bool" where
  "sixtieth a b \<longleftrightarrow> a \<in> set ''012345'' \<and> is_digit b"

definition hour_of_day :: "char \<Rightarrow> char \<Rightarrow> bool" where
  "hour_of_day a b \<longleftrightarrow> (a \<in> set ''01'' \<and> is_digit b) \<or> (a = CHR ''2'' \<and> b \<in> set ''0123'')"

definition time_pattern :: "string \<Rightarrow> bool" where
  "time_pattern s \<longleftrightarrow>
     (case s of
        [a, b, c, d, e] \<Rightarrow> hour_of_day a b \<and> c = CHR '':'' \<and> sixtieth d e
      | [a, b, c, d, e, f, g, h] \<Rightarrow>
          hour_of_day a b \<and> c = CHR '':'' \<and> sixtieth d e \<and> f = CHR '':'' \<and> sixtieth g h
      | _ \<Rightarrow> False)"

datatype regex = Password_Regex | Phone_Regex | Time_Regex

definition regex_test :: "regex \<Rightarrow> string \<Rightarrow> bool" where
  "regex_test re s =
     (case re of Password_Regex \<Rightarrow> password_pattern s | Phone_Regex \<Rightarrow> phone_pattern s | Time_Regex \<Rightarrow> time_pattern s)"

section \<open>Decorators\<close>

datatype decorator =
    IsString | IsNotEmpty | IsEmail | IsUUID | IsUUIDv4 | IsInt | IsNumber | IsBoolean | IsDateString
  | IsLatitude | IsLongitude | Is_Array | Each_IsString | Each_IsUUIDv4
  | MinLength nat | MaxLength nat | Length_Is nat | Min_Is int | Max_Is int | ArrayMinSize nat | ArrayMaxSize nat
  | Matches regex | IsIn "string list"

type_synonym validators = "decorator \<Rightarrow> json \<Rightarrow> bool"

definition ascii :: "string \<Rightarrow> bool" where
  "ascii s \<longleftrightarrow> list_all (\<lambda>c. of_char c < (128::nat)) s"

definition documented :: "validators \<Rightarrow> bool" where
  "documented cv \<longleftrightarrow>
     (\<forall>v. cv IsString v = (\<exists>s. v = JStr s))
     \<and> (\<forall>v. cv IsNotEmpty v = (v \<noteq> JStr '''' \<and> v \<noteq> JNull \<and> v \<noteq> JUndef))
     \<and> (\<forall>v. cv IsEmail v \<longrightarrow> (\<exists>s. v = JStr s))
     \<and> (\<forall>v. cv IsUUIDv4 v \<longrightarrow> (\<exists>s. v = JStr s))
     \<and> (\<forall>v. cv IsBoolean v = (\<exists>x. v = JBool x))
     \<and> (\<forall>v. cv IsNumber v = (\<exists>q. v = JNum q))
     \<and> (\<forall>v. cv IsInt v = (\<exists>n. v = JNum (of_int n)))
     \<and> (\<forall>n v. cv (Min_Is n) v = (\<exists>q. v = JNum q \<and> of_int n \<le> q))
     \<and> (\<forall>n v. cv (Max_Is n) v = (\<exists>q. v = JNum q \<and> q \<le> of_int n))
     \<and> (\<forall>v. cv Is_Array v = (\<exists>xs. v = JArr xs))
     \<and> (\<forall>n v. cv (ArrayMinSize n) v = (\<exists>xs. v = JArr xs \<and> n \<le> length xs))
     \<and> (\<forall>n v. cv (ArrayMaxSize n) v = (\<exists>xs. v = JArr xs \<and> length xs \<le> n))
     \<and> (\<forall>xs v. cv (IsIn xs) v = (\<exists>s \<in> set xs. v = JStr s))
     \<and> (\<forall>re v. cv (Matches re) v = (\<exists>s. v = JStr s \<and> regex_test re s))
     \<and> (\<exists>len. (\<forall>s. ascii s \<longrightarrow> len s = length s)
              \<and> (\<forall>n v. cv (MinLength n) v = (\<exists>s. v = JStr s \<and> n \<le> len s))
              \<and> (\<forall>n v. cv (MaxLength n) v = (\<exists>s. v = JStr s \<and> len s \<le> n)))"

text \<open>
  A field with its decorators: \<open>@IsOptional()\<close>, the condition of \<open>@ValidateIf\<close> on the whole object, \<open>@Transform\<close>, the
  initialiser of the property, and the rules.
\<close>

datatype transform = As_Is | Flag | Flag_Or_Value | To_Number | To_Strings | Trimmed

record dto_field =
  dv_key :: string
  dv_optional :: bool
  dv_when :: "json \<Rightarrow> bool"
  dv_transform :: transform
  dv_default :: "json option"
  dv_rules :: "decorator list"

type_synonym dto = "dto_field list"

definition needs :: "string \<Rightarrow> decorator list \<Rightarrow> dto_field" where
  "needs k ds =
     \<lparr>dv_key = k, dv_optional = False, dv_when = (\<lambda>_. True), dv_transform = As_Is, dv_default = None, dv_rules = ds\<rparr>"

definition may_have :: "string \<Rightarrow> decorator list \<Rightarrow> dto_field" where
  "may_have k ds = (needs k ds)\<lparr>dv_optional := True\<rparr>"

definition flag :: "string \<Rightarrow> dto_field" where
  "flag k = (may_have k [])\<lparr>dv_transform := Flag\<rparr>"

text \<open>\<open>PartialType\<close> puts \<open>@IsOptional()\<close> on every field and keeps its initialiser.\<close>

definition PartialType :: "dto \<Rightarrow> dto" where
  "PartialType d = map (dv_optional_update (\<lambda>_. True)) d"

definition flag_value :: "json \<Rightarrow> json" where
  "flag_value v =
     (if v = JStr ''true'' \<or> v = JStr ''1'' \<or> v = JBool True then JBool True
      else if v = JStr ''false'' \<or> v = JStr ''0'' \<or> v = JBool False then JBool False else JUndef)"

definition flag_or_value :: "json \<Rightarrow> json" where
  "flag_or_value v = (if v = JNull then JUndef else if flag_value v = JUndef then v else flag_value v)"

text \<open>
  The transformations of a query, whose values are texts and lists of texts.  \<open>@Type(() => Number)\<close> works on the elements
  of a list; a text that is no number becomes \<open>NaN\<close>, which every rule beside it refuses as it refuses the text, so the
  text stands for it.  \<open>value?.trim()\<close> is no function of a list: \<open>trim_throws\<close>.
\<close>

definition number_of_json :: "json \<Rightarrow> json" where
  "number_of_json v =
     (case v of JStr s \<Rightarrow> (case js_Number s of None \<Rightarrow> v | Some q \<Rightarrow> JNum q)
      | JBool b \<Rightarrow> JNum (if b then 1 else 0) | _ \<Rightarrow> v)"

definition number_value :: "json \<Rightarrow> json" where
  "number_value v = (case v of JArr xs \<Rightarrow> JArr (map number_of_json xs) | _ \<Rightarrow> number_of_json v)"

definition trimmed_texts :: "string list \<Rightarrow> json" where
  "trimmed_texts ss = JArr (map JStr (filter (\<lambda>s. s \<noteq> '''') (map js_trim ss)))"

definition text_of_json :: "json \<Rightarrow> string" where
  "text_of_json v = (case v of JStr s \<Rightarrow> s | _ \<Rightarrow> '''')"

definition toStringArray :: "json \<Rightarrow> json" where
  "toStringArray v =
     (case v of JArr xs \<Rightarrow> trimmed_texts (map text_of_json xs)
      | JStr s \<Rightarrow> if s = '''' then JUndef else trimmed_texts (js_split (CHR '','') s)
      | _ \<Rightarrow> JUndef)"

definition trimmed_value :: "json \<Rightarrow> json" where
  "trimmed_value v = (case v of JStr s \<Rightarrow> if js_trim s = '''' then JUndef else JStr (js_trim s) | _ \<Rightarrow> JUndef)"

definition trim_throws :: "json \<Rightarrow> bool" where
  "trim_throws v = (case v of JUndef \<Rightarrow> False | JNull \<Rightarrow> False | JStr _ \<Rightarrow> False | _ \<Rightarrow> True)"

definition transform_value :: "transform \<Rightarrow> json \<Rightarrow> json" where
  "transform_value t v =
     (case t of As_Is \<Rightarrow> v | Flag \<Rightarrow> flag_value v | Flag_Or_Value \<Rightarrow> flag_or_value v
      | To_Number \<Rightarrow> number_value v | To_Strings \<Rightarrow> toStringArray v | Trimmed \<Rightarrow> trimmed_value v)"

section \<open>The pipe\<close>

definition field_accepts :: "validators \<Rightarrow> json \<Rightarrow> dto_field \<Rightarrow> bool" where
  "field_accepts cv b f \<longleftrightarrow>
     (let v = field_of (dv_key f) b
      in (dv_optional f \<and> (v = JUndef \<or> v = JNull)) \<or> \<not> dv_when f b \<or> list_all (\<lambda>d. cv d v) (dv_rules f))"

definition transform_of :: "dto \<Rightarrow> string \<Rightarrow> transform" where
  "transform_of d k = (case find_one (\<lambda>f. dv_key f = k) d of None \<Rightarrow> As_Is | Some f \<Rightarrow> dv_transform f)"

definition defaults :: "dto \<Rightarrow> json \<Rightarrow> (string \<times> json) list" where
  "defaults d body =
     List.map_filter (\<lambda>f. case dv_default f of None \<Rightarrow> None
                          | Some v \<Rightarrow> if has_field (dv_key f) body then None else Some (dv_key f, v)) d"

text \<open>\<open>plainToInstance\<close>: the initialisers of the class, then the fields of the body, transformed.\<close>

definition transformed :: "dto \<Rightarrow> json \<Rightarrow> json" where
  "transformed d body =
     JObj (defaults d body @ map (\<lambda>(k, v). (k, transform_value (transform_of d k) v)) (entries body))"

text \<open>The properties the answer 400 complains of, or the body the handler gets.\<close>

definition ValidationPipe :: "validators \<Rightarrow> dto \<Rightarrow> json \<Rightarrow> string list + json" where
  "ValidationPipe cv d body =
     (let b = transformed d body;
          bad = filter (\<lambda>k. k \<notin> set (map dv_key d)) (map fst (entries b))
                @ map dv_key (filter (\<lambda>f. \<not> field_accepts cv b f) d)
      in if bad = [] then Inr b else Inl bad)"

section \<open>The classes\<close>

definition new_password_rules :: "decorator list" where
  "new_password_rules = [IsString, IsNotEmpty, MinLength 8, MaxLength 128, Matches Password_Regex]"

definition text_rules :: "decorator list" where
  "text_rules = [IsString, IsNotEmpty]"

definition AdminLoginDto :: dto where
  "AdminLoginDto = [needs ''email'' [IsEmail, IsNotEmpty], needs ''password'' [IsString, IsNotEmpty, MaxLength 128]]"

definition UserLoginDto :: dto where
  "UserLoginDto = [needs ''email'' [IsEmail, IsNotEmpty], needs ''password'' [IsString, IsNotEmpty, MaxLength 128]]"

definition UserGoogleLoginDto :: dto where
  "UserGoogleLoginDto = [needs ''token'' text_rules, may_have ''fcmToken'' [IsString]]"

definition UserAppleLoginDto :: dto where
  "UserAppleLoginDto = [needs ''token'' text_rules, may_have ''fcmToken'' [IsString]]"

definition RefreshTokenDto :: dto where
  "RefreshTokenDto = [needs ''refreshToken'' text_rules]"

definition ChangePasswordDto :: dto where
  "ChangePasswordDto =
     [needs ''currentPassword'' [IsString, IsNotEmpty, MaxLength 128], needs ''newPassword'' new_password_rules]"

definition ResetPasswordDto :: dto where
  "ResetPasswordDto = [needs ''accessToken'' text_rules, needs ''newPassword'' new_password_rules]"

definition ForgotPasswordSendOTPDto :: dto where
  "ForgotPasswordSendOTPDto = [needs ''email'' [IsEmail, IsNotEmpty]]"

definition UserForgotPasswordSendOTPDto :: dto where
  "UserForgotPasswordSendOTPDto = [needs ''phone'' text_rules]"

definition VerifyPasswordResetOTPCodeDto :: dto where
  "VerifyPasswordResetOTPCodeDto = [needs ''userId'' [IsUUID, IsString, IsNotEmpty], needs ''code'' text_rules]"

definition VerifyTwoFactorDto :: dto where
  "VerifyTwoFactorDto = [needs ''userId'' text_rules, needs ''code'' [IsString, IsNotEmpty, Length_Is 6]]"

definition EnableTwoFactorDto :: dto where
  "EnableTwoFactorDto = [needs ''email'' [IsEmail, IsNotEmpty]]"

definition DisableTwoFactorDto :: dto where
  "DisableTwoFactorDto = [needs ''password'' text_rules]"

definition UserRegisterOTPRequestDto :: dto where
  "UserRegisterOTPRequestDto = [needs ''phone'' [IsString, IsNotEmpty, Matches Phone_Regex]]"

definition UserRegisterOTPVerifyDto :: dto where
  "UserRegisterOTPVerifyDto =
     [needs ''phone'' [IsString, IsNotEmpty, Matches Phone_Regex], needs ''otp'' [IsString, IsNotEmpty, Length_Is 6],
      needs ''fcmToken'' text_rules, needs ''requestId'' text_rules]"

definition UserRegisterPasswordSetupDto :: dto where
  "UserRegisterPasswordSetupDto =
     [needs ''password'' new_password_rules,
      needs ''confirmPassword'' [IsString, IsNotEmpty, MinLength 8, MaxLength 128],
      needs ''userId'' [IsString, IsUUIDv4, IsNotEmpty]]"

definition UserRegisterAccountSetupDto :: dto where
  "UserRegisterAccountSetupDto =
     [may_have ''email'' [IsEmail], needs ''fullName'' [IsString, IsNotEmpty, MinLength 2, MaxLength 100],
      needs ''userId'' [IsString, IsUUIDv4, IsNotEmpty], needs ''dateOfBirth'' [IsString],
      may_have ''gender'' [IsString, IsIn [''male'', ''female'']],
      may_have ''preferLanguage'' [IsString, IsIn [''myanmar'', ''english'']],
      may_have ''profileImageUrl'' [IsString], may_have ''fcmToken'' [IsString]]"

definition UserRegisterDto :: dto where
  "UserRegisterDto =
     [needs ''phone'' text_rules, needs ''password'' [IsString, IsNotEmpty, MinLength 8],
      needs ''fullName'' [IsString, IsNotEmpty, MinLength 2, MaxLength 100], may_have ''email'' [IsEmail],
      may_have ''dateOfBirth'' [IsString], may_have ''gender'' [IsString, IsIn [''male'', ''female'']],
      may_have ''preferLanguage'' [IsString], may_have ''fcmToken'' [IsString]]"

definition CreateUserDto :: dto where
  "CreateUserDto =
     [may_have ''email'' [IsEmail], needs ''fullName'' [IsString, IsNotEmpty, MinLength 2, MaxLength 100],
      needs ''password'' [IsString, IsNotEmpty, MinLength 8], needs ''phone'' text_rules,
      may_have ''dateOfBirth'' [IsString], may_have ''gender'' [IsString, IsIn [''male'', ''female'']], flag ''isBanned'',
      may_have ''profileImageUrl'' [IsString],
      may_have ''loginProvider'' [IsString, IsIn [''SMS'', ''GOOGLE'', ''APPLE'']]]"

definition UpdateUserDto :: dto where
  "UpdateUserDto = PartialType CreateUserDto"

definition UpdateProfileDto :: dto where
  "UpdateProfileDto = PartialType CreateUserDto"

definition CreateAdminDto :: dto where
  "CreateAdminDto =
     [needs ''fullName'' [IsString, IsNotEmpty, MinLength 2, MaxLength 100], needs ''email'' [IsEmail, IsNotEmpty],
      may_have ''password'' [IsString, MinLength 8], needs ''roleId'' [IsUUIDv4, IsNotEmpty], flag ''isBanned'',
      may_have ''profileImageUrl'' [IsString]]"

definition UpdateAdminDto :: dto where
  "UpdateAdminDto = PartialType CreateAdminDto"

definition CreateRoleDto :: dto where
  "CreateRoleDto =
     [needs ''name'' [IsString, IsNotEmpty, MinLength 2, MaxLength 50], may_have ''description'' [IsString, MaxLength 255],
      may_have ''rank'' [IsInt, Min_Is 1], needs ''permissionIds'' [Is_Array, Each_IsString]]"

definition UpdateRoleDto :: dto where
  "UpdateRoleDto = PartialType CreateRoleDto"

end
