(* ===== verification/Validation_Facts.thy ===== *)
theory Validation_Facts
  imports Validation
begin

text \<open>
  What the validated bodies of \<open>Validation\<close> are worth: nothing undeclared gets through, a partial class accepts every part
  of a body, the fields that reach the services have the types the services were modelled with, and which passwords can be
  chosen and used.
\<close>

section \<open>The pipe\<close>

lemma defaults_declared: "fst ` set (defaults d j) \<subseteq> dv_key ` set d"
  by (induction d) (auto simp: defaults_def split: option.splits if_splits)

lemma keys_transformed: "fst ` set (entries (transformed d j)) = fst ` set (defaults d j) \<union> fst ` set (entries j)"
  by (force simp: transformed_def image_Un)

lemma pipe_accepts:
  "ValidationPipe cv d j = Inr b \<longleftrightarrow>
     b = transformed d j \<and> fst ` set (entries j) \<subseteq> dv_key ` set d \<and> (\<forall>f \<in> set d. field_accepts cv (transformed d j) f)"
proof -
  have "fst ` set (entries (transformed d j)) \<subseteq> dv_key ` set d \<longleftrightarrow> fst ` set (entries j) \<subseteq> dv_key ` set d"
    using defaults_declared [of d j] by (auto simp: keys_transformed)
  moreover have "filter (\<lambda>k. k \<notin> set (map dv_key d)) (map fst (entries (transformed d j))) = []
      \<longleftrightarrow> fst ` set (entries (transformed d j)) \<subseteq> dv_key ` set d"
    by (auto simp: filter_empty_conv)
  ultimately show ?thesis by (auto simp: ValidationPipe_def Let_def filter_empty_conv split: if_splits)
qed

lemma documented_simps:
  assumes "documented cv"
  shows "cv IsString v \<longleftrightarrow> (\<exists>s. v = JStr s)"
    and "cv IsNotEmpty v \<longleftrightarrow> v \<noteq> JStr '''' \<and> v \<noteq> JNull \<and> v \<noteq> JUndef"
    and "cv (Matches re) v \<longleftrightarrow> (\<exists>s. v = JStr s \<and> regex_test re s)"
    and "cv (IsIn xs) v \<longleftrightarrow> (\<exists>s \<in> set xs. v = JStr s)"
    and "cv IsEmail v \<Longrightarrow> \<exists>s. v = JStr s"
    and "cv IsUUIDv4 v \<Longrightarrow> \<exists>s. v = JStr s"
    and "cv IsBoolean v \<longleftrightarrow> (\<exists>x. v = JBool x)"
    and "cv IsNumber v \<longleftrightarrow> (\<exists>q. v = JNum q)"
    and "cv IsInt v \<longleftrightarrow> (\<exists>n. v = JNum (of_int n))"
    and "cv (Min_Is n) v \<longleftrightarrow> (\<exists>q. v = JNum q \<and> of_int n \<le> q)"
    and "cv (Max_Is n) v \<longleftrightarrow> (\<exists>q. v = JNum q \<and> q \<le> of_int n)"
    and "cv Is_Array v \<longleftrightarrow> (\<exists>xs. v = JArr xs)"
    and "cv (ArrayMinSize m) v \<longleftrightarrow> (\<exists>xs. v = JArr xs \<and> m \<le> length xs)"
    and "cv (ArrayMaxSize m) v \<longleftrightarrow> (\<exists>xs. v = JArr xs \<and> length xs \<le> m)"
proof -
  note d = assms [unfolded documented_def]
  show "cv IsString v \<longleftrightarrow> (\<exists>s. v = JStr s)" using d by (elim conjE) (erule allE, assumption)
qed (use assms [unfolded documented_def] in \<open>elim conjE; simp\<close>)+

lemma documented_lengths:
  assumes "documented cv"
  obtains len where "\<And>s. ascii s \<Longrightarrow> len s = length s"
    "\<And>n v. cv (MinLength n) v \<longleftrightarrow> (\<exists>s. v = JStr s \<and> n \<le> len s)"
    "\<And>n v. cv (MaxLength n) v \<longleftrightarrow> (\<exists>s. v = JStr s \<and> len s \<le> n)"
  using assms unfolding documented_def by (elim conjE exE) (rule that, simp_all)

lemma map_of_transformed:
  "map_of (map (\<lambda>(k, v). (k, g k v)) kvs) k = map_option (g k) (map_of kvs k)"
  by (induction kvs) auto

lemma no_defaults: "\<forall>f \<in> set d. dv_default f = None \<Longrightarrow> defaults d j = []"
  by (induction d) (auto simp: defaults_def)

lemma field_transformed:
  assumes "\<forall>f \<in> set d. dv_default f = None"
  shows "field_of k (transformed d j) = (if has_field k j then transform_value (transform_of d k) (field_of k j) else JUndef)"
proof (cases "map_of (entries j) k")
  case None
  then have "\<not> has_field k j" by (auto simp: has_field_def map_of_eq_None_iff)
  then show ?thesis using None by (simp add: transformed_def field_of_def map_of_transformed no_defaults [OF assms])
next
  case (Some v)
  then have "has_field k j" by (force simp: has_field_def dest: map_of_SomeD)
  then show ?thesis using Some by (simp add: transformed_def field_of_def map_of_transformed no_defaults [OF assms])
qed

text \<open>A class without transformations and initialisers leaves a body as it is.\<close>

definition plain_dto :: "dto \<Rightarrow> bool" where
  "plain_dto d \<longleftrightarrow> list_all (\<lambda>f. dv_default f = None \<and> dv_transform f = As_Is) d"

lemma transform_of_plain: "plain_dto d \<Longrightarrow> transform_of d k = As_Is"
  by (auto simp: plain_dto_def transform_of_def list_all_iff split: option.split dest!: find_one_Some)

lemma plain_transformed: "plain_dto d \<Longrightarrow> transformed d (JObj kvs) = JObj kvs"
  using no_defaults [of d] transform_of_plain [of d]
  by (simp add: transformed_def plain_dto_def list_all_iff transform_value_def case_prod_beta)

lemma pipe_plain:
  assumes "plain_dto d"
  shows "ValidationPipe cv d (JObj kvs) =
    (let bad = filter (\<lambda>k. k \<notin> set (map dv_key d)) (map fst kvs) @ map dv_key (filter (\<lambda>f. \<not> field_accepts cv (JObj kvs) f) d)
     in if bad = [] then Inr (JObj kvs) else Inl bad)"
  by (simp add: ValidationPipe_def plain_transformed [OF assms] Let_def)

lemma plain_classes:
  "plain_dto UserLoginDto" "plain_dto ChangePasswordDto" "plain_dto UserRegisterDto" "plain_dto CreateRoleDto"
  by (simp_all add: plain_dto_def UserLoginDto_def ChangePasswordDto_def UserRegisterDto_def CreateRoleDto_def needs_def
      may_have_def)

text \<open>A field that the class does not declare is refused, whatever it holds.\<close>

lemma undeclared_refused:
  assumes "has_field k j" and "k \<notin> dv_key ` set d"
  shows "\<exists>ks. ValidationPipe cv d j = Inl ks \<and> k \<in> set ks"
proof -
  let ?unknown = "filter (\<lambda>k. k \<notin> set (map dv_key d)) (map fst (entries (transformed d j)))"
  have "k \<in> fst ` set (entries (transformed d j))" using assms(1) by (simp add: keys_transformed has_field_def)
  then have k: "k \<in> set ?unknown" using assms(2) by auto
  let ?bad = "?unknown @ map dv_key (filter (\<lambda>f. \<not> field_accepts cv (transformed d j) f) d)"
  have "?bad \<noteq> []" by (metis k append_is_Nil_conv emptyE empty_set)
  then have "ValidationPipe cv d j = Inl ?bad" unfolding ValidationPipe_def Let_def by (rule if_not_P)
  moreover have "k \<in> set ?bad" using k by (metis UnI1 set_append)
  ultimately show ?thesis by blast
qed

text \<open>So nobody registers with a role or a ban of his choice.\<close>

lemma registration_fields:
  assumes "k \<in> {''roleId'', ''isBanned'', ''registrationStage''}" and "has_field k j"
  shows "\<exists>ks. ValidationPipe cv UserRegisterDto j = Inl ks \<and> k \<in> set ks"
  by (rule undeclared_refused [OF assms(2)]) (use assms(1) in \<open>auto simp: UserRegisterDto_def needs_def may_have_def\<close>)

section \<open>Partial classes\<close>

lemma map_of_part: "map_of (filter (\<lambda>kv. P (fst kv)) kvs) k = (if P k then map_of kvs k else None)"
  by (induction kvs) auto

text \<open>A body that creates an object updates it, and so does every part of it: whatever fields are left out, the
  partial class accepts the rest, with the values the full class gives them.  This is for classes whose properties have no
  initialisers: an initialiser comes back in the part.\<close>

theorem partial_accepts_parts:
  assumes "ValidationPipe cv d (JObj kvs) = Inr b"
    and "\<forall>f \<in> set d. dv_default f = None \<and> dv_when f = (\<lambda>_. True)"
  shows "ValidationPipe cv (PartialType d) (JObj (filter (\<lambda>kv. P (fst kv)) kvs))
    = Inr (JObj (filter (\<lambda>kv. P (fst kv)) (entries b)))"
proof -
  let ?part = "JObj (filter (\<lambda>kv. P (fst kv)) kvs)"
  have none: "defaults d j = []" "defaults (PartialType d) j = []" for j
    by (rule no_defaults; use assms(2) in \<open>auto simp: PartialType_def\<close>)+
  have keys: "dv_key ` set (PartialType d) = dv_key ` set d" by (simp add: PartialType_def image_image)
  have transforms: "transform_of (PartialType d) k = transform_of d k" for k
    by (induction d) (auto simp: PartialType_def transform_of_def)
  have b: "b = transformed d (JObj kvs)" "fst ` set kvs \<subseteq> dv_key ` set d"
    and fine: "\<And>f. f \<in> set d \<Longrightarrow> field_accepts cv b f"
    using assms(1) by (auto simp: pipe_accepts)
  have part: "transformed (PartialType d) ?part = JObj (filter (\<lambda>kv. P (fst kv)) (entries b))"
    unfolding transformed_def b(1) transforms by (simp add: none filter_map o_def case_prod_beta)
  have "field_accepts cv (transformed (PartialType d) ?part) f" if f: "f \<in> set (PartialType d)" for f
  proof -
    obtain g where g: "g \<in> set d" "f = dv_optional_update (\<lambda>_. True) g" using f by (auto simp: PartialType_def)
    have "field_of (dv_key f) (transformed (PartialType d) ?part) = (if P (dv_key f) then field_of (dv_key f) b else JUndef)"
      unfolding part field_of_def by (simp add: map_of_part)
    then show ?thesis using fine [OF g(1)] g assms(2) by (auto simp: field_accepts_def Let_def)
  qed
  then show ?thesis using b(2) by (auto simp: pipe_accepts part keys)
qed

section \<open>Passwords\<close>

lemma rest_of_line_set: "set (rest_of_line s) \<subseteq> set s"
  by (induction s) auto

lemma pattern_has_both: "password_pattern s \<Longrightarrow> list_ex is_capital s \<and> list_ex is_digit s"
proof (induction s)
  case (Cons c cs)
  then show ?case
    using rest_of_line_set [of "c # cs"] by (auto simp: list_ex_iff simp del: rest_of_line.simps)
qed simp

text \<open>For a password on one line the pattern is what its message says; a capital and a digit on two lines are refused.\<close>

definition one_line :: "string \<Rightarrow> bool" where
  "one_line s \<longleftrightarrow> rest_of_line s = s"

lemma pattern_one_line: "one_line s \<Longrightarrow> password_pattern s \<longleftrightarrow> list_ex is_capital s \<and> list_ex is_digit s"
  using pattern_has_both [of s] by (cases s) (auto simp: one_line_def simp del: rest_of_line.simps)

lemma two_lines_refused: "\<not> password_pattern (''Password'' @ [CHR 0x0A] @ ''12345678'')"
  by code_simp

text \<open>The classes that let an account choose a password, with the field it is in.\<close>

definition choosing :: "(dto \<times> string) list" where
  "choosing = [(ChangePasswordDto, ''newPassword''), (ResetPasswordDto, ''newPassword''), (UserRegisterPasswordSetupDto, ''password'')]"

definition credentials :: "string \<Rightarrow> string \<Rightarrow> json" where
  "credentials m p = JObj [(''email'', JStr m), (''password'', JStr p)]"

lemma login_accepts:
  assumes "documented cv" and "cv IsEmail (JStr m)" and "m \<noteq> ''''" and "p \<noteq> ''''"
  shows "ValidationPipe cv UserLoginDto (credentials m p)
      = (if cv (MaxLength 128) (JStr p) then Inr (credentials m p) else Inl [''password''])"
    and "AdminLoginDto = UserLoginDto"
proof -
  show "ValidationPipe cv UserLoginDto (credentials m p)
      = (if cv (MaxLength 128) (JStr p) then Inr (credentials m p) else Inl [''password''])"
    unfolding credentials_def pipe_plain [OF plain_classes(1)] using assms(2-4)
    by (simp add: UserLoginDto_def needs_def Let_def field_accepts_def field_of_def documented_simps [OF assms(1)])
qed (simp add: UserLoginDto_def AdminLoginDto_def)

lemma new_password_accepted:
  assumes "documented cv" and "field_accepts cv b (needs k new_password_rules)"
  shows "\<exists>p. field_of k b = JStr p \<and> p \<noteq> '''' \<and> password_pattern p \<and> cv (MinLength 8) (JStr p) \<and> cv (MaxLength 128) (JStr p)"
  using assms(2) by (auto simp: field_accepts_def Let_def needs_def new_password_rules_def documented_simps [OF assms(1)] regex_test_def)

lemma chosen_rules: "(d, k) \<in> set choosing \<Longrightarrow> needs k new_password_rules \<in> set d"
  by (auto simp: choosing_def ChangePasswordDto_def ResetPasswordDto_def UserRegisterPasswordSetupDto_def)

text \<open>C26: a password that can be chosen can be used: whatever body changes, resets or sets up a password, the new
  password has a capital and a digit, and both logins accept it with every mail address.\<close>

theorem chosen_password_logs_in:
  assumes "documented cv" and "(d, k) \<in> set choosing" and "ValidationPipe cv d j = Inr b"
    and "cv IsEmail (JStr m)" and "m \<noteq> ''''"
  shows "\<exists>p. field_of k b = JStr p \<and> list_ex is_capital p \<and> list_ex is_digit p
    \<and> ValidationPipe cv UserLoginDto (credentials m p) = Inr (credentials m p)
    \<and> ValidationPipe cv AdminLoginDto (credentials m p) = Inr (credentials m p)"
proof -
  have "field_accepts cv b (needs k new_password_rules)"
    using assms(3) chosen_rules [OF assms(2)] by (auto simp: pipe_accepts)
  from new_password_accepted [OF assms(1) this] obtain p where
    p: "field_of k b = JStr p" "p \<noteq> ''''" "password_pattern p" "cv (MaxLength 128) (JStr p)" by blast
  have both: "list_ex is_capital p \<and> list_ex is_digit p" using p(3) by (rule pattern_has_both)
  have user: "ValidationPipe cv UserLoginDto (credentials m p) = Inr (credentials m p)"
    using login_accepts(1) [OF assms(1,4,5) p(2)] p(4) by simp
  then have "ValidationPipe cv AdminLoginDto (credentials m p) = Inr (credentials m p)"
    by (simp add: UserLoginDto_def AdminLoginDto_def)
  then show ?thesis using p(1) both user by blast
qed

text \<open>The registration in one step has no upper bound: it takes a password that the login refuses.\<close>

definition registration :: "string \<Rightarrow> json" where
  "registration p = JObj [(''phone'', JStr ''0911111111''), (''password'', JStr p), (''fullName'', JStr ''Ann Lee'')]"

lemma registration_accepted:
  assumes "documented cv" and "ascii p" and "8 \<le> length p"
  shows "ValidationPipe cv UserRegisterDto (registration p) = Inr (registration p)"
proof -
  obtain len where len: "\<And>s. ascii s \<Longrightarrow> len s = length s"
    "\<And>n v. cv (MinLength n) v \<longleftrightarrow> (\<exists>s. v = JStr s \<and> n \<le> len s)"
    "\<And>n v. cv (MaxLength n) v \<longleftrightarrow> (\<exists>s. v = JStr s \<and> len s \<le> n)"
    using documented_lengths [OF assms(1)] by metis
  have name: "ascii ''Ann Lee''" by code_simp
  have "p \<noteq> ''''" using assms(3) by auto
  then show ?thesis
    using assms(3) len(1) [OF assms(2)] len(1) [OF name]
    unfolding registration_def pipe_plain [OF plain_classes(3)]
    by (simp add: UserRegisterDto_def needs_def may_have_def text_rules_def Let_def field_accepts_def field_of_def
        documented_simps [OF assms(1)] len(2,3))
qed

lemma login_refuses_long:
  assumes "documented cv" and "ascii p" and "128 < length p" and "cv IsEmail (JStr m)" and "m \<noteq> ''''"
  shows "ValidationPipe cv UserLoginDto (credentials m p) = Inl [''password'']"
proof -
  obtain len where len: "\<And>s. ascii s \<Longrightarrow> len s = length s"
    "\<And>n v. cv (MaxLength n) v \<longleftrightarrow> (\<exists>s. v = JStr s \<and> len s \<le> n)"
    using documented_lengths [OF assms(1)] by metis
  have "p \<noteq> ''''" using assms(3) by auto
  then show ?thesis
    using login_accepts(1) [OF assms(1,4,5), of p] assms(3) by (simp add: len(2) len(1) [OF assms(2)])
qed

text \<open>A password of more than 128 characters registers an account whose login refuses it.\<close>

theorem registered_password_refused:
  assumes "documented cv" and "ascii p" and "128 < length p" and "cv IsEmail (JStr m)" and "m \<noteq> ''''"
  shows "ValidationPipe cv UserRegisterDto (registration p) = Inr (registration p)
    \<and> ValidationPipe cv UserLoginDto (credentials m p) = Inl [''password'']"
  using registration_accepted [OF assms(1,2)] login_refuses_long [OF assms] assms(3) by simp

section \<open>Witnesses\<close>

text \<open>A library that does what is documented; mails are texts with an at sign, characters are counted by their first byte.\<close>

definition characters :: "string \<Rightarrow> nat" where
  "characters s = length (filter (\<lambda>c. of_char c < (128::nat) \<or> 192 \<le> (of_char c :: nat)) s)"

fun class_validator :: validators where
  "class_validator IsString v = (case v of JStr _ \<Rightarrow> True | _ \<Rightarrow> False)"
| "class_validator IsNotEmpty v = (v \<noteq> JStr '''' \<and> v \<noteq> JNull \<and> v \<noteq> JUndef)"
| "class_validator IsEmail v = (case v of JStr s \<Rightarrow> CHR ''@'' \<in> set s | _ \<Rightarrow> False)"
| "class_validator IsInt v = (case v of JNum q \<Rightarrow> q = of_int \<lfloor>q\<rfloor> | _ \<Rightarrow> False)"
| "class_validator Is_Array v = (case v of JArr _ \<Rightarrow> True | _ \<Rightarrow> False)"
| "class_validator Each_IsString v = (case v of JArr xs \<Rightarrow> list_all (\<lambda>x. case x of JStr _ \<Rightarrow> True | _ \<Rightarrow> False) xs | _ \<Rightarrow> False)"
| "class_validator (MinLength n) v = (case v of JStr s \<Rightarrow> n \<le> characters s | _ \<Rightarrow> False)"
| "class_validator (MaxLength n) v = (case v of JStr s \<Rightarrow> characters s \<le> n | _ \<Rightarrow> False)"
| "class_validator (Length_Is n) v = (case v of JStr s \<Rightarrow> characters s = n | _ \<Rightarrow> False)"
| "class_validator (Min_Is n) v = (case v of JNum q \<Rightarrow> of_int n \<le> q | _ \<Rightarrow> False)"
| "class_validator (Matches re) v = (case v of JStr s \<Rightarrow> regex_test re s | _ \<Rightarrow> False)"
| "class_validator (IsIn xs) v = (case v of JStr s \<Rightarrow> s \<in> set xs | _ \<Rightarrow> False)"
| "class_validator IsUUID v = (case v of JStr s \<Rightarrow> length s = 36 | _ \<Rightarrow> False)"
| "class_validator IsUUIDv4 v = (case v of JStr s \<Rightarrow> length s = 36 \<and> s ! 14 = CHR ''4'' | _ \<Rightarrow> False)"
| "class_validator IsNumber v = (case v of JNum _ \<Rightarrow> True | _ \<Rightarrow> False)"
| "class_validator IsBoolean v = (case v of JBool _ \<Rightarrow> True | _ \<Rightarrow> False)"
| "class_validator IsDateString v = (case v of JStr s \<Rightarrow> 10 \<le> length s | _ \<Rightarrow> False)"
| "class_validator IsLatitude v = (case v of JStr s \<Rightarrow> s \<noteq> '''' | _ \<Rightarrow> False)"
| "class_validator IsLongitude v = (case v of JStr s \<Rightarrow> s \<noteq> '''' | _ \<Rightarrow> False)"
| "class_validator Each_IsUUIDv4 v =
     (case v of JArr xs \<Rightarrow> list_all (\<lambda>x. case x of JStr s \<Rightarrow> length s = 36 \<and> s ! 14 = CHR ''4'' | _ \<Rightarrow> False) xs | _ \<Rightarrow> False)"
| "class_validator (Max_Is n) v = (case v of JNum q \<Rightarrow> q \<le> of_int n | _ \<Rightarrow> False)"
| "class_validator (ArrayMinSize n) v = (case v of JArr xs \<Rightarrow> n \<le> length xs | _ \<Rightarrow> False)"
| "class_validator (ArrayMaxSize n) v = (case v of JArr xs \<Rightarrow> length xs \<le> n | _ \<Rightarrow> False)"

lemma characters_ascii: "ascii s \<Longrightarrow> characters s = length s"
  by (induction s) (simp_all add: characters_def ascii_def)

lemma class_validator_documented: "documented class_validator"
  unfolding documented_def
proof (intro conjI allI)
  show "\<exists>len. (\<forall>s. ascii s \<longrightarrow> len s = length s)
      \<and> (\<forall>n v. class_validator (MinLength n) v = (\<exists>s. v = JStr s \<and> n \<le> len s))
      \<and> (\<forall>n v. class_validator (MaxLength n) v = (\<exists>s. v = JStr s \<and> len s \<le> n))"
    by (rule exI [of _ characters]) (auto simp: characters_ascii split: json.splits)
qed (auto split: json.splits)

theorem chosen_password_logs_in_witness:
  "ValidationPipe class_validator UserLoginDto (credentials ''guest@hotel'' ''Secret99'')
     = Inr (credentials ''guest@hotel'' ''Secret99'')"
proof -
  let ?j = "JObj [(''currentPassword'', JStr ''old''), (''newPassword'', JStr ''Secret99'')]"
  have "ValidationPipe class_validator ChangePasswordDto ?j = Inr ?j"
    unfolding pipe_plain [OF plain_classes(2)]
    by (simp add: ChangePasswordDto_def needs_def new_password_rules_def Let_def field_accepts_def field_of_def regex_test_def line_end_def is_capital_def is_digit_def characters_def)
  moreover have "(ChangePasswordDto, ''newPassword'') \<in> set choosing" by (simp add: choosing_def)
  moreover have "class_validator IsEmail (JStr ''guest@hotel'')" "''guest@hotel'' \<noteq> ''''" by simp_all
  ultimately have "\<exists>p. field_of ''newPassword'' ?j = JStr p \<and> list_ex is_capital p \<and> list_ex is_digit p
      \<and> ValidationPipe class_validator UserLoginDto (credentials ''guest@hotel'' p) = Inr (credentials ''guest@hotel'' p)
      \<and> ValidationPipe class_validator AdminLoginDto (credentials ''guest@hotel'' p) = Inr (credentials ''guest@hotel'' p)"
    by (intro chosen_password_logs_in [OF class_validator_documented])
  then show ?thesis by (simp add: field_of_def)
qed

theorem partial_accepts_parts_witness:
  "ValidationPipe class_validator (PartialType CreateRoleDto) (JObj [(''rank'', JNum 2)]) = Inr (JObj [(''rank'', JNum 2)])"
proof -
  let ?kvs = "[(''name'', JStr ''Clerk''), (''rank'', JNum 2), (''permissionIds'', JArr [JStr ''p1''])]"
  have "ValidationPipe class_validator CreateRoleDto (JObj ?kvs) = Inr (JObj ?kvs)"
    unfolding pipe_plain [OF plain_classes(4)]
    by (simp add: CreateRoleDto_def needs_def may_have_def Let_def field_accepts_def field_of_def characters_def)
  moreover have "\<forall>f \<in> set CreateRoleDto. dv_default f = None \<and> dv_when f = (\<lambda>_. True)"
    by (simp add: CreateRoleDto_def needs_def may_have_def)
  ultimately show ?thesis
    using partial_accepts_parts [of class_validator CreateRoleDto ?kvs "JObj ?kvs" "\<lambda>k. k = ''rank''"] by simp
qed

theorem registered_password_refused_witness:
  "ValidationPipe class_validator UserLoginDto (credentials ''guest@hotel'' (replicate 129 CHR ''x'')) = Inl [''password'']"
proof -
  have "ascii (replicate 129 CHR ''x'')" by (simp add: ascii_def list_all_iff)
  then show ?thesis
    using registered_password_refused [OF class_validator_documented, of "replicate 129 CHR ''x''" "''guest@hotel''"] by simp
qed

end
