(* ===== verification/Serving.thy ===== *)
theory Serving
  imports Routes Http_Facts Validation_Facts User_Auth
begin

text \<open>
  A request from end to end, as \<open>src/src/app.module.ts\<close> and \<open>src/src/main.ts\<close> assemble it: the global guards, the guard of the
  controller, the interceptors around the pipe and the handler, and the filters for whatever is thrown.  NestJS runs them
  in this order.

  The handler is an argument; the time it takes is another.  The messages of a failed validation are represented by the
  names of the fields they are about.
\<close>

section \<open>The pipeline\<close>

datatype reply = Sent nat json | Refused error_response

text \<open>A class for the body, or none for a route without one.\<close>

definition piped :: "validators \<Rightarrow> dto option \<Rightarrow> json \<Rightarrow> string list + json" where
  "piped cv d body = (case d of None \<Rightarrow> Inr body | Some fs \<Rightarrow> ValidationPipe cv fs body)"

definition refused_body :: "string list \<Rightarrow> error_response" where
  "refused_body ks =
     error_reply (Http_Thrown \<lparr>he_status = 400, he_message = ''Bad Request Exception'', he_response = Body_Messages ks\<rparr>)"

definition serve ::
  "validators \<Rightarrow> ext \<Rightarrow> (string \<Rightarrow> string option) \<Rightarrow> string \<Rightarrow> bool \<Rightarrow> int \<Rightarrow> route \<Rightarrow> dto option
   \<Rightarrow> (authenticated_user option \<Rightarrow> json \<Rightarrow> world \<Rightarrow> (json, world) result)
   \<Rightarrow> string option \<Rightarrow> http_request \<Rightarrow> world \<Rightarrow> reply \<times> world" where
  "serve cv e sign timestamp throttled elapsed r d handler token rq w =
     (case authorize e throttled r token w of
        Inl err \<Rightarrow> (Refused (error_reply (thrown_of err None None)), w)
      | Inr caller \<Rightarrow>
          (case piped cv d (rq_body rq) of
             Inl ks \<Rightarrow> (Refused (refused_body ks), w)
           | Inr body \<Rightarrow>
               (let (outcome, w') = handler caller body w
                in case intercept_timeout (Some (rt_timeout r)) elapsed outcome of
                     Inl err \<Rightarrow> (Refused (error_reply (thrown_of err None None)), w')
                   | Inr data \<Rightarrow> (Sent (rt_status r) (answer sign (Some (rt_presigned r)) timestamp rq (rt_status r) data), w'))))"

section \<open>Refusals\<close>

lemma guard_errors:
  assumes "jwt_auth_guard e p token w = Inl err"
  shows "\<exists>m. err = UnauthorizedException m"
proof -
  have "validate payload w = Inl err' \<Longrightarrow> \<exists>m. err' = UnauthorizedException m" for payload err'
    by (cases payload) (auto simp: validate_def split: if_splits option.splits)
  then show ?thesis using assms by (auto simp: jwt_auth_guard_def split: if_splits option.splits sum.splits)
qed

lemma permission_errors: "permissions_guard reqs caller = Inl err \<Longrightarrow> \<exists>m. err = ForbiddenException m"
  by (auto simp: permissions_guard_def split: option.splits if_splits)

lemma authorize_errors:
  assumes "authorize e throttled r token w = Inl err"
  shows "status_of err \<in> {401, 403, 429}"
proof (cases "jwt_auth_guard e (rt_public r) token w")
  case (Inl x)
  then have "err = x" using assms by (simp add: authorize_def)
  then show ?thesis using guard_errors [OF Inl] by auto
next
  case (Inr caller)
  then have "throttled \<and> err = ThrottlerException \<or> permissions_guard (rt_requires r) caller = Inl err"
    using assms by (auto simp: authorize_def split: if_splits sum.splits)
  then show ?thesis using permission_errors [of "rt_requires r" caller err] by auto
qed

lemma reply_status: "er_statusCode (error_reply (thrown_of x detail constraint)) = status_of x"
  by (cases x) (simp_all add: throttler_filter_def all_filter_def database_filter_def Let_def)

lemma refused_body_status: "er_statusCode (refused_body ks) = 400"
  by (simp add: refused_body_def error_reply_def filter_choice http_filter_def)


text \<open>An answer with data is an envelope with the status of the route.\<close>

lemma sent_envelope:
  assumes "authorize e throttled r token w = Inr caller" and "piped cv d (rq_body rq) = Inr body"
    and "handler caller body w = ok data w'" and "elapsed \<le> rt_timeout r"
  shows "serve cv e sign timestamp throttled elapsed r d handler token rq w
    = (Sent (rt_status r) (answer sign (Some (rt_presigned r)) timestamp rq (rt_status r) data), w')"
  using assms by (simp add: serve_def intercept_timeout_def nullish_def ok_def)

text \<open>A handler that takes longer than the limit of its route is not stopped: the client is told that the request timed
  out, and what the handler did stays done.\<close>

theorem late_handler_keeps_changes:
  assumes "authorize e throttled r token w = Inr caller" and "piped cv d (rq_body rq) = Inr body"
    and "handler caller body w = ok data w'" and "rt_timeout r < elapsed"
  shows "\<exists>x. serve cv e sign timestamp throttled elapsed r d handler token rq w = (Refused x, w') \<and> er_statusCode x = 408"
  using assms by (simp add: serve_def intercept_timeout_def nullish_def ok_def reply_status)

section \<open>Browsers\<close>

text \<open>The methods and the headers a preflight allows, and the sources a page may load from.\<close>

definition cors_methods :: "string list" where
  "cors_methods = [''GET'', ''POST'', ''PUT'', ''DELETE'', ''PATCH'', ''OPTIONS'']"

definition cors_headers :: "string list" where
  "cors_headers =
     [''Content-Type'', ''Authorization'', ''X-Requested-With'', ''x-signature'', ''x-timestamp'', ''x-request-id'',
      ''Accept'', ''Origin'']"

definition inline_source :: string where
  "inline_source = [CHR 0x27] @ ''unsafe-inline'' @ [CHR 0x27]"

definition self_source :: string where
  "self_source = [CHR 0x27] @ ''self'' @ [CHR 0x27]"

definition csp_directives :: "bool \<Rightarrow> (string \<times> string list) list" where
  "csp_directives isProduction =
     [(''defaultSrc'', [self_source]),
      (''styleSrc'', self_source # (if isProduction then [] else [inline_source])),
      (''imgSrc'', [self_source, ''data:'', ''https:'']),
      (''scriptSrc'', self_source # (if isProduction then [] else [inline_source]))]"

fun method_name :: "http_method \<Rightarrow> string" where
  "method_name GET = ''GET''"
| "method_name POST = ''POST''"
| "method_name PUT = ''PUT''"
| "method_name PATCH = ''PATCH''"
| "method_name DEL = ''DELETE''"

lemma browsers_reach_every_route: "list_all (\<lambda>r. method_name (rt_method r) \<in> set cors_methods) all_routes"
  by code_simp

lemma no_inline_in_production: "list_all (\<lambda>(_, sources). inline_source \<notin> set sources) (csp_directives True)"
  by code_simp

section \<open>The login of a user\<close>

text \<open>\<open>POST auth/user/login\<close>: the handler passes the body on and answers with the tokens.\<close>

definition text_in :: "string \<Rightarrow> json \<Rightarrow> string" where
  "text_in k b = (case field_of k b of JStr s \<Rightarrow> s | _ \<Rightarrow> '''')"

definition user_login_handler :: "ext \<Rightarrow> authenticated_user option \<Rightarrow> json \<Rightarrow> world \<Rightarrow> (json, world) result" where
  "user_login_handler e _ b w =
     and_then (userLogin e (text_in ''email'' b) (text_in ''password'' b) w)
       (\<lambda>(access, refresh, i) w'.
          ok (JObj [(''accessToken'', JStr access), (''refreshToken'', JStr refresh),
                    (''accessTokenExpiresAt'', JNum (of_int (x_jwt_expiration e))),
                    (''refreshTokenExpiresAt'', JNum (of_int (x_jwt_refresh_expiration e))),
                    (''user'', JObj [(''id'', JStr i),
                       (''fcmToken'', case by_id i (users w') of None \<Rightarrow> JNull | Some u \<Rightarrow> json_opt (u_fcmToken u))])]) w')"

definition user_login_route :: route where
  "user_login_route = (http_200 (public_route POST ''auth/user/login''))\<lparr>rt_throttle := (5, 60000)\<rparr>"

lemma login_route_mounted: "user_login_route \<in> set all_routes"
  unfolding user_login_route_def all_routes_def auth_routes_def session_routes_def by simp

definition serve_user_login ::
  "validators \<Rightarrow> ext \<Rightarrow> (string \<Rightarrow> string option) \<Rightarrow> string \<Rightarrow> bool \<Rightarrow> int \<Rightarrow> http_request \<Rightarrow> world \<Rightarrow> reply \<times> world" where
  "serve_user_login cv e sign timestamp throttled elapsed rq w =
     serve cv e sign timestamp throttled elapsed user_login_route (Some UserLoginDto) (user_login_handler e) None rq w"

text \<open>The one answer to a failed login.\<close>

definition login_refusal :: error_response where
  "login_refusal = error_reply (http_thrown 401 ''Invalid email or password'')"

definition password_fits :: "ext \<Rightarrow> string \<Rightarrow> string \<Rightarrow> world \<Rightarrow> bool" where
  "password_fits e m p w \<longleftrightarrow>
     (case user_by_email m w of None \<Rightarrow> False
      | Some u \<Rightarrow> truthy (u_password u) \<and> x_compare e p (the (u_password u)))"

lemma login_route_fields [simp]:
  "rt_public user_login_route" "\<not> rt_guarded user_login_route" "rt_timeout user_login_route = 10000"
  "rt_status user_login_route = 200"
  by (simp_all add: user_login_route_def http_200_def public_route_def plain_route_def)

lemma login_admitted: "authorize e False user_login_route None w = Inr None"
  by (simp add: authorize_def jwt_auth_guard_def)

lemma credentials_fields [simp]:
  "text_in ''email'' (credentials m p) = m" "text_in ''password'' (credentials m p) = p"
  by (simp_all add: text_in_def credentials_def field_of_def)

lemma login_unfit: "\<not> password_fits e m p w \<Longrightarrow> userLogin e m p w = throw (UnauthorizedException ''Invalid email or password'') w"
  by (auto simp: userLogin_def password_fits_def split: option.splits)


text \<open>With the right password of an account that is not banned, the answer is 200.\<close>

lemma login_served:
  assumes "rq_body rq = credentials m p" and "ValidationPipe cv UserLoginDto (credentials m p) = Inr (credentials m p)"
    and "elapsed \<le> 10000" and "userLogin e m p w = ok (access, refresh, i) w'"
  shows "\<exists>envelope. serve_user_login cv e sign timestamp False elapsed rq w = (Sent 200 envelope, w')"
proof -
  obtain data where "user_login_handler e None (credentials m p) w = ok data w'"
    by (auto simp: user_login_handler_def assms(4))
  from sent_envelope [where handler = "user_login_handler e" and caller = None, OF login_admitted _ this,
      where d = "Some UserLoginDto" and rq = rq and cv = cv and elapsed = elapsed]
  show ?thesis using assms(1-3) by (simp add: serve_user_login_def piped_def)
qed

section \<open>Witnesses\<close>

definition login_request :: "string \<Rightarrow> string \<Rightarrow> http_request" where
  "login_request m p =
     \<lparr>rq_method = ''POST'', rq_url = ''/api/v1/auth/user/login'', rq_headers = [], rq_remoteAddress = None, rq_ip = None,
      rq_paramId = None, rq_query = [], rq_body = credentials m p\<rparr>"

lemma login_body_valid: "ValidationPipe class_validator UserLoginDto (credentials ''guest@hotel'' ''guess'') = Inr (credentials ''guest@hotel'' ''guess'')"
  using login_accepts(1) [OF class_validator_documented, of "''guest@hotel''" "''guess''"] by (simp add: characters_def)


end
