(* ===== verification/Account_Bodies.thy ===== *)
theory Account_Bodies
  imports Validation_Facts Account_Facts
begin

text \<open>
  From a validated body to the service: the values the handlers of \<open>src/src/v1/auth/controllers/auth.controller.ts\<close> pass on
  and what the route of the profile does behind its guard and its pipe.
\<close>

section \<open>Decoding\<close>

fun text_of :: "json \<Rightarrow> string field" where
  "text_of JUndef = Undef"
| "text_of (JStr s) = Val s"
| "text_of _ = Null"

fun flag_of :: "json \<Rightarrow> bool option" where
  "flag_of (JBool b) = Some b"
| "flag_of _ = None"

fun provider_of :: "json \<Rightarrow> login_provider field" where
  "provider_of JUndef = Undef"
| "provider_of (JStr s) =
     (if s = ''SMS'' then Val SMS else if s = ''GOOGLE'' then Val GOOGLE else if s = ''APPLE'' then Val APPLE else Null)"
| "provider_of _ = Null"

definition profile_of_body :: "json \<Rightarrow> profile_dto" where
  "profile_of_body b =
     \<lparr>pd_email = text_of (field_of ''email'' b), pd_fullName = text_of (field_of ''fullName'' b),
      pd_password = text_of (field_of ''password'' b), pd_phone = text_of (field_of ''phone'' b),
      pd_dateOfBirth = text_of (field_of ''dateOfBirth'' b), pd_gender = text_of (field_of ''gender'' b),
      pd_isBanned = flag_of (field_of ''isBanned'' b), pd_profileImageUrl = text_of (field_of ''profileImageUrl'' b),
      pd_loginProvider = provider_of (field_of ''loginProvider'' b)\<rparr>"

text \<open>\<open>PATCH auth/me\<close> of a user: the guard, the pipe, the service.\<close>

definition patch_me_user ::
  "validators \<Rightarrow> ext \<Rightarrow> string option \<Rightarrow> json \<Rightarrow> string option \<Rightarrow> world \<Rightarrow> (user, world) result" where
  "patch_me_user cv e token body file w =
     (case jwt_auth_guard e False token w of
        Inl err \<Rightarrow> throw err w
      | Inr None \<Rightarrow> throw (UnauthorizedException ''Unauthorized'') w
      | Inr (Some cu) \<Rightarrow>
          (case ValidationPipe cv UpdateProfileDto body of
             Inl _ \<Rightarrow> throw (BadRequestException ''Validation failed'') w
           | Inr b \<Rightarrow> updateProfile_user e (cu_id cu) (profile_of_body b) file w))"

section \<open>Types\<close>

definition text_or_nothing :: "json \<Rightarrow> bool" where
  "text_or_nothing v \<longleftrightarrow> v = JUndef \<or> v = JNull \<or> (\<exists>s. v = JStr s)"

lemma optional_text:
  assumes "documented cv" and "field_accepts cv b (dv_optional_update (\<lambda>_. True) f)" and "IsString \<in> set (dv_rules f)"
    and "dv_when f = (\<lambda>_. True)"
  shows "text_or_nothing (field_of (dv_key f) b)"
  using assms(2-4) documented_simps(1) [OF assms(1)]
  by (auto simp: field_accepts_def Let_def text_or_nothing_def list_all_iff)

lemma optional_mail:
  assumes "documented cv" and "field_accepts cv b (may_have k [IsEmail])"
  shows "text_or_nothing (field_of k b)"
  using assms(2) documented_simps(5) [OF assms(1)]
  by (auto simp: field_accepts_def Let_def text_or_nothing_def may_have_def needs_def)

lemma flag_value_typed: "flag_value v = JUndef \<or> (\<exists>x. flag_value v = JBool x)"
  by (auto simp: flag_value_def)

definition profile_texts :: "string list" where
  "profile_texts = [''fullName'', ''password'', ''phone'', ''dateOfBirth'', ''gender'', ''profileImageUrl'', ''loginProvider'']"

lemma profile_text_fields:
  assumes "k \<in> set profile_texts"
  obtains f where "dv_optional_update (\<lambda>_. True) f \<in> set UpdateProfileDto" "IsString \<in> set (dv_rules f)" "dv_key f = k"
    "dv_when f = (\<lambda>_. True)"
proof -
  have "\<exists>f \<in> set CreateUserDto. IsString \<in> set (dv_rules f) \<and> dv_key f = k \<and> dv_when f = (\<lambda>_. True)"
    using assms by (auto simp: profile_texts_def CreateUserDto_def needs_def may_have_def text_rules_def)
  then show ?thesis using that by (auto simp: UpdateProfileDto_def PartialType_def)
qed

lemma profile_initialisers: "\<forall>f \<in> set UpdateProfileDto. dv_default f = None"
  by (simp add: UpdateProfileDto_def PartialType_def CreateUserDto_def may_have_def needs_def flag_def)

lemma profile_flags: "transform_of UpdateProfileDto ''isBanned'' = Flag"
  by code_simp

text \<open>What reaches the profile service has the types it was modelled with: every field of an accepted body is absent,
  null or a text, the ban is absent or a boolean whatever was sent for it, and the provider is one the column knows.\<close>

theorem profile_bodies_typed:
  assumes "documented cv" and "ValidationPipe cv UpdateProfileDto j = Inr b"
  shows "(\<forall>k \<in> set (''email'' # profile_texts). text_or_nothing (field_of k b))
    \<and> (field_of ''isBanned'' b = JUndef \<or> (\<exists>x. field_of ''isBanned'' b = JBool x))
    \<and> (\<forall>s. field_of ''loginProvider'' b = JStr s \<longrightarrow> (\<exists>p. provider_of (field_of ''loginProvider'' b) = Val p))"
proof -
  have b: "b = transformed UpdateProfileDto j" and fine: "\<And>f. f \<in> set UpdateProfileDto \<Longrightarrow> field_accepts cv b f"
    using assms(2) by (auto simp: pipe_accepts)
  have texts: "text_or_nothing (field_of k b)" if km: "k \<in> set profile_texts" for k
  proof -
    obtain f where f: "dv_optional_update (\<lambda>_. True) f \<in> set UpdateProfileDto" "IsString \<in> set (dv_rules f)" "dv_key f = k"
      and "dv_when f = (\<lambda>_. True)"
      using profile_text_fields [OF km] by metis
    then show ?thesis using optional_text [OF assms(1) fine [OF f(1)] f(2)] by simp
  qed
  have "may_have ''email'' [IsEmail] \<in> set UpdateProfileDto"
    by (simp add: UpdateProfileDto_def PartialType_def CreateUserDto_def may_have_def)
  then have mail: "text_or_nothing (field_of ''email'' b)" using optional_mail [OF assms(1)] fine by blast
  have ban: "field_of ''isBanned'' b = JUndef \<or> (\<exists>x. field_of ''isBanned'' b = JBool x)"
    using flag_value_typed [of "field_of ''isBanned'' j"]
    unfolding b field_transformed [OF profile_initialisers] profile_flags by (simp add: transform_value_def)
  let ?provider = "may_have ''loginProvider'' [IsString, IsIn [''SMS'', ''GOOGLE'', ''APPLE'']]"
  have "?provider \<in> set UpdateProfileDto"
    by (simp add: UpdateProfileDto_def PartialType_def CreateUserDto_def may_have_def)
  then have "\<exists>p. provider_of (field_of ''loginProvider'' b) = Val p" if "field_of ''loginProvider'' b = JStr s" for s
    using fine [of ?provider] that
    by (auto simp: may_have_def needs_def field_accepts_def Let_def documented_simps [OF assms(1)])
  then show ?thesis using texts mail ban by simp
qed

section \<open>A ban undone by its user\<close>

definition lift_ban :: json where
  "lift_ban = JObj [(''isBanned'', JBool False)]"

lemma lift_ban_accepted: "ValidationPipe cv UpdateProfileDto lift_ban = Inr lift_ban"
proof -
  have t: "transformed UpdateProfileDto lift_ban = lift_ban"
    by (simp add: transformed_def no_defaults [OF profile_initialisers] lift_ban_def profile_flags transform_value_def
        flag_value_def)
  have keys: "''isBanned'' \<in> set (map dv_key UpdateProfileDto)" by code_simp
  have "list_all (\<lambda>f. dv_optional f \<and> (dv_key f = ''isBanned'' \<longrightarrow> dv_rules f = [])) UpdateProfileDto" by code_simp
  then have "field_accepts cv lift_ban f" if "f \<in> set UpdateProfileDto" for f
    using that by (cases "dv_key f = ''isBanned''") (auto simp: list_all_iff field_accepts_def Let_def field_of_def lift_ban_def)
  then show ?thesis using keys by (simp add: pipe_accepts t) (simp add: lift_ban_def)
qed

lemma lift_ban_dto: "profile_of_body lift_ban = no_changes\<lparr>pd_isBanned := Some False\<rparr>"
  by (simp add: profile_of_body_def lift_ban_def field_of_def no_changes_def)

text \<open>C39: a banned user undoes his ban: the administration bans him while he has a valid access token; the token still passes
  the guard, the pipe accepts the ban among the fields of the profile, and afterwards he is not banned.\<close>

theorem ban_undone_by_its_user:
  assumes "update_user_account e i dto file w = ok (saved, m) w'" and "u_isBanned saved"
    and "jwt_auth_guard e' False token w = Inr (Some cu)" and "cu_id cu = i"
  shows "\<exists>u. by_id i (users (snd (patch_me_user cv e' token lift_ban None w'))) = Some u \<and> \<not> u_isBanned u"
proof -
  note kept = update_user_sessions [OF assms(1)]
  have guard: "jwt_auth_guard e' False token w' = Inr (Some cu)"
    using same_sessions_guard [OF kept(1)] assms(3) by simp
  have "patch_me_user cv e' token lift_ban None w' = updateProfile_user e' i (no_changes\<lparr>pd_isBanned := Some False\<rparr>) None w'"
    by (simp add: patch_me_user_def guard lift_ban_accepted lift_ban_dto assms(4))
  then show ?thesis
    using profile_clears_ban [OF kept(2), where dto = "no_changes\<lparr>pd_isBanned := Some False\<rparr>" and e = e']
    by (simp add: no_changes_def)
qed

section \<open>Witnesses\<close>

theorem profile_bodies_typed_witness:
  "ValidationPipe class_validator UpdateProfileDto (JObj [(''gender'', JStr ''female''), (''isBanned'', JStr ''0'')])
     = Inr (JObj [(''gender'', JStr ''female''), (''isBanned'', JBool False)])
   \<and> text_or_nothing (field_of ''gender'' (JObj [(''gender'', JStr ''female''), (''isBanned'', JBool False)]))"
proof -
  let ?j = "JObj [(''gender'', JStr ''female''), (''isBanned'', JStr ''0'')]"
  let ?b = "JObj [(''gender'', JStr ''female''), (''isBanned'', JBool False)]"
  have "transform_of UpdateProfileDto ''gender'' = As_Is" by code_simp
  then have t: "transformed UpdateProfileDto ?j = ?b"
    by (simp add: transformed_def no_defaults [OF profile_initialisers] profile_flags transform_value_def flag_value_def)
  have keys: "''isBanned'' \<in> set (map dv_key UpdateProfileDto)" "''gender'' \<in> set (map dv_key UpdateProfileDto)" by code_simp+
  have "list_all (\<lambda>f. dv_optional f \<and> (dv_key f = ''isBanned'' \<longrightarrow> dv_rules f = [])
      \<and> (dv_key f = ''gender'' \<longrightarrow> dv_rules f = [IsString, IsIn [''male'', ''female'']])) UpdateProfileDto" by code_simp
  then have "field_accepts class_validator ?b f" if "f \<in> set UpdateProfileDto" for f
    using that by (cases "dv_key f = ''isBanned''"; cases "dv_key f = ''gender''")
      (auto simp: list_all_iff field_accepts_def Let_def field_of_def)
  then have ok: "ValidationPipe class_validator UpdateProfileDto ?j = Inr ?b" using keys by (simp add: pipe_accepts t)
  have "\<forall>k \<in> set (''email'' # profile_texts). text_or_nothing (field_of k ?b)"
    using profile_bodies_typed [OF class_validator_documented ok] by blast
  then show ?thesis using ok by (simp add: profile_texts_def)
qed

theorem ban_undone_by_its_user_witness:
  "\<exists>w' u. u_isBanned (fst (result_of (update_user_account (plain_ext 5) ''u1'' (no_changes\<lparr>pd_isBanned := Some True\<rparr>) None hotel_office)))
     \<and> by_id ''u1'' (users (snd (patch_me_user class_validator (plain_ext 5) (Some ''Uu1'') lift_ban None w'))) = Some u
     \<and> \<not> u_isBanned u"
proof -
  let ?r = "update_user_account (plain_ext 5) ''u1'' (no_changes\<lparr>pd_isBanned := Some True\<rparr>) None hotel_office"
  let ?g = "jwt_auth_guard (plain_ext 5) False (Some ''Uu1'') hotel_office"
  have s: "succeeds ?r" "u_isBanned (fst (result_of ?r))" by code_simp+
  then have r: "?r = ok (fst (result_of ?r), snd (result_of ?r)) (snd ?r)" using succeeds_ok [of ?r] by simp
  have g: "case_sum (\<lambda>_. None) (map_option cu_id) ?g = Some ''u1''" by code_simp
  then obtain cu where cu: "?g = Inr (Some cu)" "cu_id cu = ''u1''" by (cases ?g) auto
  from ban_undone_by_its_user [OF r s(2) cu, where cv = class_validator] s(2) show ?thesis by blast
qed

end
