(* ===== verification/Own_Account.thy ===== *)
theory Own_Account
  imports Account_Bodies Admin_Auth
begin

text \<open>
  The requests of a caller about his own account, as \<open>src/src/v1/auth/controllers/auth.controller.ts\<close> hands them to the two
  account services, and the frame they share: nobody else's account is touched.
\<close>

section \<open>The controller\<close>

datatype own_request =
    Patch_Me profile_dto "string option"
  | Put_Password string string
  | Delete_Me
  | Post_Logout string
  | Enable_Two_Factor string
  | Disable_Two_Factor string

text \<open>The service of the administrators reads four of the fields; null and undefined are the same to it.\<close>

definition admin_profile_of :: "profile_dto \<Rightarrow> admin_profile_dto" where
  "admin_profile_of d =
     \<lparr>pa_fullName = field_value (pd_fullName d), pa_email = field_value (pd_email d),
      pa_password = field_value (pd_password d), pa_profileImageUrl = field_value (pd_profileImageUrl d)\<rparr>"

definition own_step :: "ext \<Rightarrow> authenticated_user \<Rightarrow> own_request \<Rightarrow> world \<Rightarrow> (unit, world) result" where
  "own_step e cu r w =
     (let i = cu_id cu; admin = (cu_subjectType cu = Some ADMIN)
      in case r of
           Patch_Me dto file \<Rightarrow>
             if admin then and_then (updateProfile_admin e i (admin_profile_of dto) file w) (\<lambda>_. ok ())
             else and_then (updateProfile_user e i dto file w) (\<lambda>_. ok ())
         | Put_Password current new \<Rightarrow>
             if admin then changePassword_admin e i current new w else changePassword_user e i current new w
         | Delete_Me \<Rightarrow>
             if admin then throw (ForbiddenException ''Admins cannot delete their own account through this endpoint'') w
             else deleteProfile e i w
         | Post_Logout s \<Rightarrow> ok () (logout e s i w)
         | Enable_Two_Factor mail \<Rightarrow> enableTwoFactor e i mail w
         | Disable_Two_Factor password \<Rightarrow> disableTwoFactor e i password w)"

section \<open>Everyone else\<close>

text \<open>The world without an account: its row, its logs, its codes.  Sessions are taken out, because a logout revokes any
  refresh token that is presented; so is what was sent to the object store.\<close>

definition without_account :: "uuid \<Rightarrow> world \<Rightarrow> world" where
  "without_account i w =
     w\<lparr>users := filter (\<lambda>u. entId u \<noteq> i) (users w), admins := filter (\<lambda>a. entId a \<noteq> i) (admins w),
       otp_records := filter (\<lambda>r. o_adminId r \<noteq> Some i) (otp_records w),
       activity_logs := filter (\<lambda>l. al_userId l \<noteq> i) (activity_logs w),
       audit_logs := filter (\<lambda>l. au_adminId l \<noteq> Some i) (audit_logs w),
       refresh_tokens := [], effects := []\<rparr>"

lemma filter_update_where:
  "(\<And>r. p r \<Longrightarrow> \<not> q r \<and> \<not> q (f r)) \<Longrightarrow> filter q (update_where p f rs) = filter q rs"
  by (induction rs) (auto simp: update_where_def)

lemma filter_save_row: "\<not> q x \<Longrightarrow> (\<And>r. entId r = entId x \<Longrightarrow> \<not> q r) \<Longrightarrow> filter q (save_row x rs) = filter q rs"
  unfolding save_row_def by (rule filter_update_where) auto

named_theorems own \<open>what a step on the own account leaves alone\<close>

lemma without_user_row [own]: "entId u = i \<Longrightarrow> without_account i (update_user e u w) = without_account i w"
  by (simp add: without_account_def update_user_def filter_save_row with_hashed_password_def)

lemma without_admin_row [own]:
  "entId a = i \<Longrightarrow> update_admin e a w = ok saved w' \<Longrightarrow> without_account i w' = without_account i w"
  by (auto simp: without_account_def update_admin_def filter_save_row admin_with_hashed_password_def split: if_splits)

lemma without_logs [own]:
  "without_account i (log_activity e i act d w) = without_account i w"
  "without_account i (log_audit e i act d n x w) = without_account i w"
  "without_account i (log_audit_bare e i act d w) = without_account i w"
  by (simp_all add: without_account_def log_activity_def log_audit_def log_audit_bare_def Let_def)

lemma without_revoked [own]:
  "without_account i (revokeAllUserTokens e i c w) = without_account i w"
  "without_account i (revokeAllAdminTokens e i w) = without_account i w"
  "without_account i (revokeToken e s w) = without_account i w"
  by (simp_all add: without_account_def revokeAllUserTokens_def revokeAllAdminTokens_def revokeToken_def filter_update_where
      split: option.split)

lemma without_effects [own]: "without_account i (emit x w) = without_account i w"
  by (simp add: without_account_def emit_def)

lemma without_same_tables: "same_tables w w' \<Longrightarrow> without_account i w' = without_account i w"
  by (auto simp: same_tables_def without_account_def)

lemma without_images [own]:
  "without_account i (replaceProfileImage n old w) = without_account i w"
  "without_account i (deleteProfileImage u w) = without_account i w"
  by (simp_all add: without_same_tables)

lemma without_soft_deleted [own]:
  "without_account i (w\<lparr>users := update_where (\<lambda>x. entId x = i) (deletedAt_update f) (users w)\<rparr>) = without_account i w"
  by (simp add: without_account_def filter_update_where)

lemma without_two_factor [own]:
  "without_account i (w\<lparr>otp_records := update_where (\<lambda>r. tf_of i r \<and> q r) (o_status_update f) (otp_records w),
      admins := update_where (\<lambda>a. entId a = i) (a_isTwoFactorEnabled_update g) (admins w)\<rparr>) = without_account i w"
proof -
  have "filter (\<lambda>r. o_adminId r \<noteq> Some i) (update_where (\<lambda>r. tf_of i r \<and> q r) (o_status_update f) (otp_records w))
      = filter (\<lambda>r. o_adminId r \<noteq> Some i) (otp_records w)"
    by (rule filter_update_where) (auto simp: tf_of_def)
  then show ?thesis by (simp add: without_account_def filter_update_where)
qed

lemma send_code_others: "send_code e i mail n w = (r, w') \<Longrightarrow> without_account i w' = without_account i w"
  by (auto simp: send_code_def without_account_def emit_def tf_record_def ok_def throw_def split: if_splits)

section \<open>The steps\<close>

lemma and_then_cases:
  assumes "and_then r k = (x, w')"
  obtains y w1 where "r = ok y w1" "k y w1 = (x, w')" | err where "r = (Inl err, w')" "x = Inl err"
  using assms by (cases r; cases "fst r") (auto simp: and_then_def ok_def)

lemma updateProfile_user_others:
  assumes "updateProfile_user e i dto file w = (r, w')"
  shows "without_account i w' = without_account i w"
proof (cases "by_id i (users w)")
  case None
  then show ?thesis using assms by (simp add: updateProfile_user_def throw_def)
next
  case (Some u)
  obtain url w1 where up: "resolveProfileImageUrl e file (field_value (pd_profileImageUrl dto)) (or_default (u_profileImageUrl u) '''')
      ''users/profile'' w = (url, w1)" by fastforce
  have w1: "without_account i w1 = without_account i w" by (rule without_same_tables [OF resolve_same_tables [OF up]])
  have u: "entId (set_password dto (preload_user dto url u)) = i" using by_id_Some [OF Some] by simp
  show ?thesis
    using assms Some up w1 u by (auto simp: updateProfile_user_def save_preloaded_def Let_def own ok_def throw_def and_then_def split: if_splits)
qed

lemma updateProfile_admin_others:
  assumes "updateProfile_admin e i dto file w = (r, w')"
  shows "without_account i w' = without_account i w"
proof (cases "by_id i (admins w)")
  case None
  then show ?thesis using assms by (simp add: updateProfile_admin_def throw_def)
next
  case (Some a)
  obtain url w1 where up: "resolveProfileImageUrl e file (pa_profileImageUrl dto) (nullish (a_profileImageUrl a) '''')
      ''admins/profile'' w = (url, w1)" by fastforce
  have w1: "without_account i w1 = without_account i w" by (rule without_same_tables [OF resolve_same_tables [OF up]])
  let ?a = "a\<lparr>a_fullName := nullish (pa_fullName dto) (a_fullName a), a_email := nullish (pa_email dto) (a_email a),
      a_profileImageUrl := Some url, a_password := (if truthy (pa_password dto) then pa_password dto else a_password a)\<rparr>"
  have a: "entId ?a = i" using by_id_Some [OF Some] by simp
  have run: "and_then (update_admin e ?a w1) (\<lambda>saved w2.
      ok saved (log_audit e i UPDATE_PROFILE ''Admin profile updated successfully'' (Some ''admin'') (Some i)
        (replaceProfileImage url (nullish (a_profileImageUrl a) '''') w2))) = (r, w')"
    using assms Some up by (simp add: updateProfile_admin_def Let_def)
  from run show ?thesis
  proof (cases rule: and_then_cases)
    case (1 saved w2)
    then show ?thesis using without_admin_row [OF a 1(1)] w1 by (auto simp: own ok_def)
  next
    case (2 err)
    then show ?thesis using w1 by (auto simp: update_admin_def throw_def ok_def split: if_splits)
  qed
qed

lemma changePassword_admin_others:
  assumes "changePassword_admin e i current new w = (r, w')"
  shows "without_account i w' = without_account i w"
proof (cases "by_id i (admins w)")
  case None
  then show ?thesis using assms by (simp add: changePassword_admin_def throw_def)
next
  case (Some a)
  have a: "entId (a\<lparr>a_password := Some new\<rparr>) = i" using by_id_Some [OF Some] by simp
  consider "w' = w" | saved w1 where "update_admin e (a\<lparr>a_password := Some new\<rparr>) w = ok saved w1"
      "w' = log_audit e i CHANGE_PASSWORD ''Admin password changed successfully'' (Some ''admin'') (Some i) (revokeAllAdminTokens e i w1)"
    using assms Some
    by (auto simp: changePassword_admin_def throw_def ok_def and_then_def update_admin_def split: sum.splits if_splits)
  then show ?thesis by cases (simp_all add: own without_admin_row [OF a])
qed

lemma user_steps_others:
  "changePassword_user e i current new w = (r, w') \<Longrightarrow> without_account i w' = without_account i w"
  "deleteProfile e i w = (r, w') \<Longrightarrow> without_account i w' = without_account i w"
  by (auto simp: changePassword_user_def deleteProfile_def ok_def throw_def Let_def own dest!: by_id_Some
      split: option.splits sum.splits if_splits)

lemma two_factor_others:
  "enableTwoFactor e i mail w = (r, w') \<Longrightarrow> without_account i w' = without_account i w"
  "disableTwoFactor e i password w = (r, w') \<Longrightarrow> without_account i w' = without_account i w"
  by (auto simp: enableTwoFactor_def disableTwoFactor_def ok_def throw_def Let_def own and_then_def dest: send_code_others
      split: option.splits sum.splits if_splits prod.splits)

text \<open>C10: what a caller does to his own account touches nobody else's: whatever he asks for and whether it succeeds or not,
  every other account, every other account's logs and codes, and all of hotels, rates, bookings and payments stay as they
  were.\<close>

theorem own_steps_touch_own_account:
  assumes "own_step e cu r w = (x, w')"
  shows "without_account (cu_id cu) w' = without_account (cu_id cu) w"
proof (cases r)
  case (Patch_Me dto img)
  show ?thesis
  proof (cases "cu_subjectType cu = Some ADMIN")
    case True
    then have "and_then (updateProfile_admin e (cu_id cu) (admin_profile_of dto) img w) (\<lambda>_. ok ()) = (x, w')"
      using assms Patch_Me by (simp add: own_step_def)
    then show ?thesis by (cases rule: and_then_cases) (auto simp: ok_def dest: updateProfile_admin_others)
  next
    case False
    then have "and_then (updateProfile_user e (cu_id cu) dto img w) (\<lambda>_. ok ()) = (x, w')"
      using assms Patch_Me by (simp add: own_step_def)
    then show ?thesis by (cases rule: and_then_cases) (auto simp: ok_def dest: updateProfile_user_others)
  qed
next
  case (Put_Password current new)
  then show ?thesis
    using assms by (auto simp: own_step_def Let_def dest: changePassword_admin_others user_steps_others split: if_splits)
next
  case Delete_Me
  then show ?thesis using assms by (auto simp: own_step_def throw_def dest: user_steps_others split: if_splits)
next
  case (Post_Logout s)
  then show ?thesis using assms by (auto simp: own_step_def ok_def logout_def own)
next
  case (Enable_Two_Factor mail)
  then show ?thesis using assms two_factor_others(1) by (auto simp: own_step_def)
next
  case (Disable_Two_Factor password)
  then show ?thesis using assms two_factor_others(2) by (auto simp: own_step_def)
qed

section \<open>Witnesses\<close>

definition the_user :: authenticated_user where
  "the_user = \<lparr>cu_id = ''u1'', cu_subjectType = Some USER, cu_role = None\<rparr>"

theorem own_steps_touch_own_account_witness:
  "by_id ''u1'' (users (snd (own_step (plain_ext 5) the_user Delete_Me member_world))) = None
   \<and> without_account ''u1'' (snd (own_step (plain_ext 5) the_user Delete_Me member_world)) = without_account ''u1'' member_world"
proof -
  have "map_option entId (by_id ''u1'' (users (snd (own_step (plain_ext 5) the_user Delete_Me member_world)))) = None" by code_simp
  moreover have "cu_id the_user = ''u1''" by (simp add: the_user_def)
  ultimately show ?thesis
    using own_steps_touch_own_account [where e = "plain_ext 5" and cu = the_user and r = Delete_Me and w = member_world,
      OF surjective_pairing] by simp
qed

end
