(* ===== verification/Catalogue.thy ===== *)
theory Catalogue
  imports Listing Cache_Lists Sample
begin

text \<open>
  What the services of the catalogue share (\<open>src/src/v1/hotel\<close>, \<open>room\<close> and \<open>rate-option\<close>): the environment of a
  call, the rows joined with their relations, the checks of existence, and the foreign keys that a removal meets.

  Rows of the catalogue are removed for good (\<open>repository.remove\<close>), never soft deleted.
\<close>

section \<open>The environment\<close>

text \<open>
  \<open>sh_newId n\<close> is the identifier of the \<open>n\<close>-th row a call inserts, \<open>sh_to_dec\<close> the decimal that \<open>String(x)\<close> prints, and
  \<open>sh_collate\<close> the place of a string in the collation of the database.
\<close>

record shop_env =
  sh_now :: time
  sh_ttl :: int
  sh_newId :: "nat \<Rightarrow> uuid"
  sh_to_dec :: "rat \<Rightarrow> rat"
  sh_collate :: "string \<Rightarrow> int"

section \<open>Joins\<close>

definition rate_view_of :: "world \<Rightarrow> rate_option \<Rightarrow> rate_view" where
  "rate_view_of w r =
     \<lparr>rtv_rate = r,
      rtv_benefits = map (\<lambda>l. (l, by_id (rob_benefitId l) (benefits w)))
                       (find_all (\<lambda>l. rob_rateOptionId l = entId r) (rate_option_benefits w))\<rparr>"

definition type_view_of :: "world \<Rightarrow> room_type \<Rightarrow> type_view" where
  "type_view_of w t =
     \<lparr>tyv_type = t,
      tyv_characteristics = map (\<lambda>l. (l, by_id (rtc_roomCharacteristicId l) (room_characteristics w)))
                              (find_all (\<lambda>l. rtc_roomTypeId l = entId t) (room_type_characteristics w))\<rparr>"

definition rates_of :: "world \<Rightarrow> uuid \<Rightarrow> rate_option list" where
  "rates_of w t = find_all (\<lambda>r. live r \<and> ro_roomTypeId r = t) (rate_options w)"

definition types_of :: "world \<Rightarrow> uuid \<Rightarrow> room_type list" where
  "types_of w h = find_all (\<lambda>t. live t \<and> ty_hotelId t = h) (room_types w)"

definition hotel_view_of :: "world \<Rightarrow> hotel \<Rightarrow> hotel_view" where
  "hotel_view_of w h =
     \<lparr>hv_hotel = h,
      hv_types = map (\<lambda>t. (type_view_of w t, map (rate_view_of w) (rates_of w (entId t)))) (types_of w (entId h))\<rparr>"

definition room_view_of :: "world \<Rightarrow> room \<Rightarrow> room_view" where
  "room_view_of w r =
     \<lparr>rmv_room = r, rmv_type = map_option (type_view_of w) (by_id (rm_roomTypeId r) (room_types w))\<rparr>"

section \<open>Existence\<close>

definition assertHotelExists :: "uuid \<Rightarrow> world \<Rightarrow> (unit, world) result" where
  "assertHotelExists h w =
     (if exists_by (\<lambda>x. live x \<and> entId x = h) (hotels w) then ok () w
      else throw (NotFoundException ''Hotel not found'') w)"

definition assertRoomTypeBelongsToHotel :: "uuid \<Rightarrow> uuid \<Rightarrow> world \<Rightarrow> (unit, world) result" where
  "assertRoomTypeBelongsToHotel t h w =
     (if exists_by (\<lambda>x. live x \<and> entId x = t \<and> ty_hotelId x = h) (room_types w) then ok () w
      else throw (NotFoundException ''Room type not found in hotel'') w)"

definition assertRoomTypeExists :: "uuid \<Rightarrow> world \<Rightarrow> (unit, world) result" where
  "assertRoomTypeExists t w =
     (if exists_by (\<lambda>x. live x \<and> entId x = t) (room_types w) then ok () w
      else throw (NotFoundException ''Room type not found'') w)"

section \<open>Numbers\<close>

text \<open>
  \<open>numeric(10,2)\<close> and \<open>int\<close> columns.  A number of a body is printed with \<open>String(x)\<close>; \<open>null\<close> prints as \<open>null\<close>, which is not
  a number to the database.
\<close>

definition to_numeric_10_2 :: "(rat \<Rightarrow> rat) \<Rightarrow> rat \<Rightarrow> exn + cents" where
  "to_numeric_10_2 to_dec x =
     (let c = round_half_away (to_dec x * 100)
      in if \<bar>c\<bar> < 10 ^ 10 then Inr c else Inl (QueryFailedError ''22003''))"

definition to_int4 :: "int \<Rightarrow> exn + int" where
  "to_int4 n = (if - (2 ^ 31) \<le> n \<and> n < 2 ^ 31 then Inr n else Inl (QueryFailedError ''22003''))"

fun patch_number :: "(rat \<Rightarrow> exn + cents) \<Rightarrow> rat field \<Rightarrow> cents \<Rightarrow> exn + cents" where
  "patch_number conv Undef old = Inr old"
| "patch_number conv Null old = Inl (QueryFailedError ''22P02'')"
| "patch_number conv (Val x) old = conv x"

section \<open>Removal\<close>

text \<open>
  \<open>DELETE\<close> under the foreign keys, which count every row that still refers to the deleted one: \<open>RESTRICT\<close> refuses,
  \<open>CASCADE\<close> takes the links along.
\<close>

definition delete_hotel :: "uuid \<Rightarrow> world \<Rightarrow> (unit, world) result" where
  "delete_hotel h w =
     (if exists_by (\<lambda>t. ty_hotelId t = h) (room_types w) \<or> exists_by (\<lambda>r. rm_hotelId r = h) (rooms w)
      then throw (QueryFailedError ''23503'') w
      else ok () (w\<lparr>hotels := delete_where (\<lambda>x. entId x = h) (hotels w)\<rparr>))"

definition delete_room_type :: "uuid \<Rightarrow> world \<Rightarrow> (unit, world) result" where
  "delete_room_type t w =
     (if exists_by (\<lambda>r. rm_roomTypeId r = t) (rooms w) \<or> exists_by (\<lambda>r. ro_roomTypeId r = t) (rate_options w)
      then throw (QueryFailedError ''23503'') w
      else ok () (w\<lparr>room_types := delete_where (\<lambda>x. entId x = t) (room_types w),
                   room_type_characteristics := delete_where (\<lambda>l. rtc_roomTypeId l = t) (room_type_characteristics w)\<rparr>))"

definition delete_room :: "uuid \<Rightarrow> world \<Rightarrow> (unit, world) result" where
  "delete_room r w =
     (if exists_by (\<lambda>s. br_roomId s = r) (booking_rooms w) then throw (QueryFailedError ''23503'') w
      else ok () (w\<lparr>rooms := delete_where (\<lambda>x. entId x = r) (rooms w)\<rparr>))"

definition delete_rate_option :: "uuid \<Rightarrow> world \<Rightarrow> (unit, world) result" where
  "delete_rate_option r w =
     (if exists_by (\<lambda>s. br_rateOptionId s = r) (booking_rooms w) then throw (QueryFailedError ''23503'') w
      else ok () (w\<lparr>rate_options := delete_where (\<lambda>x. entId x = r) (rate_options w),
                   rate_option_benefits := delete_where (\<lambda>l. rob_rateOptionId l = r) (rate_option_benefits w)\<rparr>))"

section \<open>Facts\<close>

lemma assert_simps:
  "assertHotelExists h w = ok x w' \<longleftrightarrow> w' = w \<and> by_id h (hotels w) \<noteq> None"
  "assertRoomTypeBelongsToHotel t h w = ok x w' \<longleftrightarrow> w' = w \<and> (\<exists>y \<in> set (room_types w). live y \<and> entId y = t \<and> ty_hotelId y = h)"
  "assertRoomTypeExists t w = ok x w' \<longleftrightarrow> w' = w \<and> by_id t (room_types w) \<noteq> None"
  by (auto simp: assertHotelExists_def assertRoomTypeBelongsToHotel_def assertRoomTypeExists_def by_id_def find_one_None)

lemma assert_world [simp, res]:
  "snd (assertHotelExists h w) = w" "snd (assertRoomTypeBelongsToHotel t h w) = w" "snd (assertRoomTypeExists t w) = w"
  by (simp_all add: assertHotelExists_def assertRoomTypeBelongsToHotel_def assertRoomTypeExists_def)

lemma by_id_delete_other: "j \<noteq> i \<Longrightarrow> by_id j (delete_where (\<lambda>x. entId x = i) rs) = by_id j rs"
  by (induction rs) (auto simp: by_id_def delete_where_def)

lemma by_id_delete_self: "by_id i (delete_where (\<lambda>x. entId x = i) rs) = None"
  by (induction rs) (auto simp: by_id_def delete_where_def)

lemma ids_delete_where: "set (ids (delete_where p rs)) \<subseteq> set (ids rs)"
  by (auto simp: ids_def)

lemma distinct_delete_where: "distinct (map f rs) \<Longrightarrow> distinct (map f (delete_where p rs))"
  by (simp add: delete_where_def distinct_map_filter)

lemma order_rows_perm: "set (order_rows k d xs) = set xs" "length (order_rows k d xs) = length xs"
  by simp_all

text \<open>The cache never enters a table.\<close>

lemma cache_tables [simp, tbl]:
  "hotels (cache_set k v ttl now w) = hotels w" "room_types (cache_set k v ttl now w) = room_types w"
  "rooms (cache_set k v ttl now w) = rooms w" "rate_options (cache_set k v ttl now w) = rate_options w"
  "hotels (cache_del k w) = hotels w" "room_types (cache_del k w) = room_types w"
  "rooms (cache_del k w) = rooms w" "rate_options (cache_del k w) = rate_options w"
  by (simp_all add: cache_set_def cache_del_def)

section \<open>An environment for the examples\<close>

definition shop :: "time \<Rightarrow> uuid \<Rightarrow> shop_env" where
  "shop now i = \<lparr>sh_now = now, sh_ttl = 600000, sh_newId = (\<lambda>n. i @ replicate n (CHR ''x'')), sh_to_dec = (\<lambda>x. x), sh_collate = (\<lambda>s. int (length s))\<rparr>"

end
