(* ===== verification/Hotels.thy ===== *)
theory Hotels
  imports Catalogue
begin

text \<open>
  \<open>src/src/v1/hotel/services/hotel.service.ts\<close>: hotels, their search, and the two caches in front of it - lists
  under a registry of keys, details under a key for administrators and one for everybody else.
\<close>

section \<open>Requests\<close>

record create_hotel_dto =
  ch_name :: string
  ch_description :: "string option"
  ch_latitude :: string
  ch_longitude :: string
  ch_address :: string
  ch_city :: string
  ch_country :: string
  ch_postalCode :: string
  ch_checkInTime :: string
  ch_checkOutTime :: string
  ch_isActive :: "bool option"

text \<open>\<open>isActive\<close> is never \<open>null\<close>: its \<open>@Transform\<close> makes \<open>null\<close> undefined.\<close>

record update_hotel_dto =
  uh_name :: "string field"
  uh_description :: "string field"
  uh_latitude :: "string field"
  uh_longitude :: "string field"
  uh_address :: "string field"
  uh_city :: "string field"
  uh_country :: "string field"
  uh_postalCode :: "string field"
  uh_checkInTime :: "string field"
  uh_checkOutTime :: "string field"
  uh_isActive :: "bool option"

section \<open>Search\<close>

definition VALID_SORT_FIELDS :: "string list" where
  "VALID_SORT_FIELDS = [''createdAt'', ''name'', ''city'', ''country'', ''isActive'']"

definition hotel_sort_key :: "(string \<Rightarrow> int) \<Rightarrow> string \<Rightarrow> hotel \<Rightarrow> int" where
  "hotel_sort_key collate field h =
     (if field = ''name'' then collate (h_name h)
      else if field = ''city'' then collate (h_city h)
      else if field = ''country'' then collate (h_country h)
      else if field = ''isActive'' then (if h_isActive h then 1 else 0)
      else createdAt h)"

text \<open>\<open>ids?.length\<close>, and \<open>column IN (\<dots>)\<close> for such a list.\<close>

definition wanted :: "uuid list option \<Rightarrow> bool" where
  "wanted is \<longleftrightarrow> nullish is [] \<noteq> []"

definition in_wanted :: "uuid list option \<Rightarrow> uuid \<Rightarrow> bool" where
  "in_wanted is i \<longleftrightarrow> \<not> wanted is \<or> i \<in> set (nullish is [])"

definition needsRateOptionJoin :: "filter_hotel \<Rightarrow> bool" where
  "needsRateOptionJoin f \<longleftrightarrow>
     wanted (fh_rateOptionIds f) \<or> wanted (fh_rateOptionBenefitIds f) \<or> fh_minPrice f \<noteq> None \<or> fh_maxPrice f \<noteq> None"

definition needsRoomTypeJoin :: "filter_hotel \<Rightarrow> bool" where
  "needsRoomTypeJoin f \<longleftrightarrow>
     wanted (fh_roomTypeIds f) \<or> wanted (fh_roomCharacteristicIds f) \<or> needsRateOptionJoin f"

text \<open>The conditions on one joined rate, room type and hotel; the benefits are those of the link table.\<close>

definition fits_rate :: "world \<Rightarrow> filter_hotel \<Rightarrow> rate_option \<Rightarrow> bool" where
  "fits_rate w f r \<longleftrightarrow>
     in_wanted (fh_rateOptionIds f) (entId r)
     \<and> (if wanted (fh_rateOptionBenefitIds f)
        then exists_by (\<lambda>l. rob_rateOptionId l = entId r \<and> entId l \<in> set (nullish (fh_rateOptionBenefitIds f) [])) (rate_option_benefits w)
        else True)
     \<and> (case fh_minPrice f of None \<Rightarrow> True | Some p \<Rightarrow> p \<le> of_int (ro_pricePerNight r) / 100)
     \<and> (case fh_maxPrice f of None \<Rightarrow> True | Some p \<Rightarrow> of_int (ro_pricePerNight r) / 100 \<le> p)"

definition fits_type :: "world \<Rightarrow> filter_hotel \<Rightarrow> room_type \<Rightarrow> bool" where
  "fits_type w f t \<longleftrightarrow>
     in_wanted (fh_roomTypeIds f) (entId t)
     \<and> (if wanted (fh_roomCharacteristicIds f)
        then exists_by (\<lambda>l. rtc_roomTypeId l = entId t \<and> by_id (rtc_roomCharacteristicId l) (room_characteristics w) \<noteq> None
                          \<and> rtc_roomCharacteristicId l \<in> set (nullish (fh_roomCharacteristicIds f) [])) (room_type_characteristics w)
        else True)
     \<and> (if needsRateOptionJoin f then exists_by (fits_rate w f) (rates_of w (entId t)) else True)"

definition hotel_visible :: "world \<Rightarrow> filter_hotel \<Rightarrow> bool \<Rightarrow> hotel \<Rightarrow> bool" where
  "hotel_visible w f isAdmin h \<longleftrightarrow>
     live h
     \<and> (if truthy (fh_search f)
        then list_ex (\<lambda>column. fits_search (the (fh_search f)) (Some column)) [h_name h, h_city h, h_country h, h_address h]
        else True)
     \<and> (if \<not> isAdmin then h_isActive h
        else case fh_isActive f of None \<Rightarrow> True | Some b \<Rightarrow> h_isActive h = b)
     \<and> (if needsRoomTypeJoin f then exists_by (fits_type w f) (types_of w (entId h)) else True)"

definition hotels_listing :: "(string \<Rightarrow> int) \<Rightarrow> filter_hotel \<Rightarrow> bool \<Rightarrow> world \<Rightarrow> hotel list" where
  "hotels_listing collate f isAdmin w =
     (let orderField = (if List.member VALID_SORT_FIELDS (nullish (fh_sortBy f) '''') then nullish (fh_sortBy f) '''' else ''createdAt'')
      in order_rows (hotel_sort_key collate orderField) (nullish (fh_sortOrder f) DESC)
           (find_all (hotel_visible w f isAdmin) (hotels w)))"

section \<open>Operations\<close>

definition assertAdmin :: "authenticated_user \<Rightarrow> world \<Rightarrow> (unit, world) result" where
  "assertAdmin cu w =
     (if \<not> is_admin cu then throw (ForbiddenException ''Only admins can manage hotels'') w else ok () w)"

definition caller_is_admin :: "authenticated_user option \<Rightarrow> bool" where
  "caller_is_admin caller = (case caller of None \<Rightarrow> False | Some cu \<Rightarrow> is_admin cu)"

definition create_hotel ::
  "shop_env \<Rightarrow> create_hotel_dto \<Rightarrow> authenticated_user \<Rightarrow> world \<Rightarrow> (hotel, world) result" where
  "create_hotel e dto cu w =
     and_then (assertAdmin cu w)
       (\<lambda>_ w. let h = \<lparr>entId = sh_newId e 0, createdAt = sh_now e, deletedAt = None, h_name = ch_name dto,
                     h_description = ch_description dto, h_latitude = ch_latitude dto, h_longitude = ch_longitude dto,
                     h_address = ch_address dto, h_city = ch_city dto, h_country = ch_country dto,
                     h_postalCode = ch_postalCode dto, h_checkInTime = ch_checkInTime dto,
                     h_checkOutTime = ch_checkOutTime dto, h_isActive = nullish (ch_isActive dto) True,
                     h_createdBy = cu_id cu\<rparr>
              in if references (entId h) (hotels w) then throw (QueryFailedError ''23505'') w
                 else if \<not> references (cu_id cu) (admins w) then throw (QueryFailedError ''23503'') w
                 else ok h (invalidateHotelLists (sh_now e) (w\<lparr>hotels := hotels w @ [h]\<rparr>)))"

definition findAll_hotels ::
  "shop_env \<Rightarrow> filter_hotel \<Rightarrow> authenticated_user option \<Rightarrow> world \<Rightarrow> (hotel list \<times> nat, world) result" where
  "findAll_hotels e f caller w =
     (let isAdmin = caller_is_admin caller; key = HotelListKey isAdmin f
      in case cache_get (sh_now e) key w of
           Some (VHotels items tot) \<Rightarrow> ok (items, tot) w
         | _ \<Rightarrow>
             (let (items, tot) = get_many_and_count f (hotels_listing (sh_collate e) f isAdmin w);
                  w1 = cache_set key (VHotels items tot) (sh_ttl e) (sh_now e) w
              in ok (items, tot) (hotel_registerListKey key (sh_ttl e) (sh_now e) w1)))"

definition findOne_hotel ::
  "shop_env \<Rightarrow> uuid \<Rightarrow> authenticated_user option \<Rightarrow> world \<Rightarrow> (hotel_view, world) result" where
  "findOne_hotel e i caller w =
     (let isAdmin = caller_is_admin caller; key = HotelDetailKey isAdmin i
      in case cache_get (sh_now e) key w of
           Some (VHotel v) \<Rightarrow> ok v w
         | _ \<Rightarrow>
             (case find_one (\<lambda>h. live h \<and> entId h = i \<and> (isAdmin \<or> h_isActive h)) (hotels w) of
                None \<Rightarrow> throw (NotFoundException ''Hotel not found'') w
              | Some h \<Rightarrow> ok (hotel_view_of w h) (cache_set key (VHotel (hotel_view_of w h)) (sh_ttl e) (sh_now e) w)))"

definition patched_hotel :: "update_hotel_dto \<Rightarrow> hotel \<Rightarrow> exn + hotel" where
  "patched_hotel dto h =
     also_needs (also_needs (also_needs (also_needs (also_needs (also_needs (also_needs (also_needs (also_needs
       (Inr (\<lambda>n la lo ad ci co pc cin cout.
          h\<lparr>h_name := n, h_description := patch_nullable (uh_description dto) (h_description h), h_latitude := la,
            h_longitude := lo, h_address := ad, h_city := ci, h_country := co, h_postalCode := pc, h_checkInTime := cin,
            h_checkOutTime := cout, h_isActive := nullish (uh_isActive dto) (h_isActive h)\<rparr>))
       (patch_required (uh_name dto) (h_name h))) (patch_required (uh_latitude dto) (h_latitude h)))
       (patch_required (uh_longitude dto) (h_longitude h))) (patch_required (uh_address dto) (h_address h)))
       (patch_required (uh_city dto) (h_city h))) (patch_required (uh_country dto) (h_country h)))
       (patch_required (uh_postalCode dto) (h_postalCode h))) (patch_required (uh_checkInTime dto) (h_checkInTime h)))
       (patch_required (uh_checkOutTime dto) (h_checkOutTime h))"

definition forget_hotel :: "time \<Rightarrow> uuid \<Rightarrow> world \<Rightarrow> world" where
  "forget_hotel now i w =
     invalidateHotelLists now (cache_del (HotelDetailKey False i) (cache_del (HotelDetailKey True i) w))"

definition update_hotel ::
  "shop_env \<Rightarrow> uuid \<Rightarrow> update_hotel_dto \<Rightarrow> authenticated_user \<Rightarrow> world \<Rightarrow> (hotel, world) result" where
  "update_hotel e i dto cu w =
     and_then (assertAdmin cu w)
       (\<lambda>_ w. case by_id i (hotels w) of
          None \<Rightarrow> throw (NotFoundException ''Hotel not found'') w
        | Some h \<Rightarrow>
            (case patched_hotel dto h of
               Inl err \<Rightarrow> throw err w
             | Inr h' \<Rightarrow> ok h' (forget_hotel (sh_now e) i (w\<lparr>hotels := save_row h' (hotels w)\<rparr>))))"

definition remove_hotel :: "shop_env \<Rightarrow> uuid \<Rightarrow> authenticated_user \<Rightarrow> world \<Rightarrow> (unit, world) result" where
  "remove_hotel e i cu w =
     and_then (assertAdmin cu w)
       (\<lambda>_ w. case by_id i (hotels w) of
          None \<Rightarrow> throw (NotFoundException ''Hotel not found'') w
        | Some h \<Rightarrow> and_then (delete_hotel i w) (\<lambda>_ w1. ok () (forget_hotel (sh_now e) i w1)))"

end
