(* ===== verification/Rooms.thy ===== *)
theory Rooms
  imports Catalogue
begin

text \<open>
  \<open>src/src/v1/room/services/room.service.ts\<close>: the rooms of a hotel, their listing with its cache, and the creation of
  one room or of several at once.
\<close>

section \<open>Requests\<close>

record create_room_dto =
  crm_roomTypeId :: uuid
  crm_roomNumber :: string
  crm_floorNumber :: int
  crm_status :: room_status

record update_room_dto =
  urm_roomTypeId :: "uuid field"
  urm_roomNumber :: "string field"
  urm_floorNumber :: "int field"
  urm_status :: "room_status field"

text \<open>
  \<open>UpdateRoomDto\<close> is a \<open>PartialType\<close> of \<open>CreateRoomDto\<close> and inherits its initialiser \<open>status = AVAILABLE\<close>: a body without a
  status becomes a request with this one.
\<close>

definition room_dto_of_body :: "update_room_dto \<Rightarrow> update_room_dto" where
  "room_dto_of_body b = b\<lparr>urm_status := (case urm_status b of Undef \<Rightarrow> Val AVAILABLE | s \<Rightarrow> s)\<rparr>"

section \<open>Listing\<close>

definition rooms_listing :: "(string \<Rightarrow> int) \<Rightarrow> uuid \<Rightarrow> filter_room \<Rightarrow> world \<Rightarrow> room_view list" where
  "rooms_listing collate h f w =
     map (room_view_of w)
       (order_rows rm_floorNumber ASC (order_rows (collate \<circ> rm_roomNumber) ASC
         (find_all (\<lambda>r. live r \<and> rm_hotelId r = h
            \<and> (if truthy (fr_roomTypeId f) then rm_roomTypeId r = the (fr_roomTypeId f) else True)
            \<and> (case fr_status f of None \<Rightarrow> True | Some s \<Rightarrow> rm_status r = s)) (rooms w))))"

text \<open>
  A filter on prices names a column \<open>rateOption.price\<close> that the entity does not have.  The name reaches the database as
  it is, where it stands for no table.
\<close>

definition findAllByHotel_rooms ::
  "shop_env \<Rightarrow> uuid \<Rightarrow> filter_room \<Rightarrow> world \<Rightarrow> (room_view list \<times> nat \<times> nat \<times> nat, world) result" where
  "findAllByHotel_rooms e h f w =
     and_then (assertHotelExists h w)
       (\<lambda>_ w. let key = RoomListKey h f
        in case cache_get (sh_now e) key w of
             Some (VRooms data tot pg sz) \<Rightarrow> ok (data, tot, pg, sz) w
           | _ \<Rightarrow>
               if fr_minPrice f \<noteq> None \<or> fr_maxPrice f \<noteq> None then throw (QueryFailedError ''42P01'') w
               else
                 (let (data, tot) = get_many_and_count f (rooms_listing (sh_collate e) h f w);
                      pg = (if getAll f then 1 else page f); sz = (if getAll f then tot else limit f);
                      w1 = cache_set key (VRooms data tot pg sz) (sh_ttl e) (sh_now e) w
                  in ok (data, tot, pg, sz) (room_registerListKey h key (sh_ttl e) (sh_now e) w1)))"

section \<open>Operations\<close>

definition assertRoomNumberUnique :: "uuid \<Rightarrow> string \<Rightarrow> uuid option \<Rightarrow> world \<Rightarrow> (unit, world) result" where
  "assertRoomNumberUnique h n except w =
     (if exists_by (\<lambda>r. live r \<and> rm_hotelId r = h \<and> rm_roomNumber r = n \<and> except \<noteq> Some (entId r)) (rooms w)
      then throw (ConflictException ''Room number already exists in hotel'') w
      else ok () w)"

text \<open>The unique index on hotel and number, and the foreign keys.\<close>

definition insert_rooms :: "room list \<Rightarrow> world \<Rightarrow> (unit, world) result" where
  "insert_rooms rs w =
     (if \<not> distinct (ids (rooms w @ rs)) \<or> \<not> distinct (map (\<lambda>r. (rm_hotelId r, rm_roomNumber r)) (rooms w @ rs))
      then throw (QueryFailedError ''23505'') w
      else if list_ex (\<lambda>r. \<not> references (rm_hotelId r) (hotels w) \<or> \<not> references (rm_roomTypeId r) (room_types w)) rs
      then throw (QueryFailedError ''23503'') w
      else ok () (w\<lparr>rooms := rooms w @ rs\<rparr>))"

definition room_row :: "shop_env \<Rightarrow> uuid \<Rightarrow> nat \<Rightarrow> create_room_dto \<Rightarrow> room" where
  "room_row e h n dto =
     \<lparr>entId = sh_newId e n, createdAt = sh_now e, deletedAt = None, rm_hotelId = h, rm_roomTypeId = crm_roomTypeId dto,
      rm_roomNumber = crm_roomNumber dto, rm_floorNumber = crm_floorNumber dto, rm_status = crm_status dto\<rparr>"

definition create_room :: "shop_env \<Rightarrow> uuid \<Rightarrow> create_room_dto \<Rightarrow> world \<Rightarrow> (room, world) result" where
  "create_room e h dto w =
     and_then (assertHotelExists h w)
       (\<lambda>_ w. and_then (assertRoomTypeBelongsToHotel (crm_roomTypeId dto) h w)
         (\<lambda>_ w. and_then (assertRoomNumberUnique h (crm_roomNumber dto) None w)
           (\<lambda>_ w. let r = room_row e h 0 dto
                  in and_then (insert_rooms [r] w) (\<lambda>_ w1. ok r (invalidateRoomLists h (sh_now e) w1)))))"

definition bulkCreate :: "shop_env \<Rightarrow> uuid \<Rightarrow> create_room_dto list \<Rightarrow> world \<Rightarrow> (room list, world) result" where
  "bulkCreate e h dtos w =
     and_then (assertHotelExists h w)
       (\<lambda>_ w. let types = remdups (map crm_roomTypeId dtos); numbers = map crm_roomNumber dtos
        in if length (find_all (\<lambda>t. live t \<and> entId t \<in> set types \<and> ty_hotelId t = h) (room_types w)) \<noteq> length types
           then throw (NotFoundException ''Room type(s) not found in hotel'') w
           else if duplicates numbers \<noteq> [] then throw (ConflictException ''Duplicate room numbers in request'') w
           else if exists_by (\<lambda>r. live r \<and> rm_hotelId r = h \<and> rm_roomNumber r \<in> set numbers) (rooms w)
           then throw (ConflictException ''Room number(s) already exist in hotel'') w
           else
             let rs = map (\<lambda>(n, dto). room_row e h n dto) (enumerate 0 dtos)
             in and_then (insert_rooms rs w) (\<lambda>_ w1. ok rs (invalidateRoomLists h (sh_now e) w1)))"

definition room_in :: "uuid \<Rightarrow> uuid \<Rightarrow> world \<Rightarrow> room option" where
  "room_in h i w = find_one (\<lambda>r. live r \<and> entId r = i \<and> rm_hotelId r = h) (rooms w)"

definition patched_room :: "update_room_dto \<Rightarrow> room \<Rightarrow> exn + room" where
  "patched_room dto r =
     also_needs (also_needs (also_needs (also_needs
       (Inr (\<lambda>t n fl st. r\<lparr>rm_roomTypeId := t, rm_roomNumber := n, rm_floorNumber := fl, rm_status := st\<rparr>))
       (patch_required (urm_roomTypeId dto) (rm_roomTypeId r))) (patch_required (urm_roomNumber dto) (rm_roomNumber r)))
       (patch_required (urm_floorNumber dto) (rm_floorNumber r))) (patch_required (urm_status dto) (rm_status r))"

text \<open>\<open>dto.x && dto.x !== existing.x\<close> for a string.\<close>

definition changes_to :: "string field \<Rightarrow> string \<Rightarrow> string option" where
  "changes_to f old = (case f of Val v \<Rightarrow> if v \<noteq> '''' \<and> v \<noteq> old then Some v else None | _ \<Rightarrow> None)"

text \<open>The empty text, which the check above lets pass, is no identifier.\<close>

definition update_room_row :: "room \<Rightarrow> world \<Rightarrow> (unit, world) result" where
  "update_room_row r w =
     (if rm_roomTypeId r = '''' then throw (QueryFailedError ''22P02'') w
      else if exists_by (\<lambda>x. entId x \<noteq> entId r \<and> rm_hotelId x = rm_hotelId r \<and> rm_roomNumber x = rm_roomNumber r) (rooms w)
      then throw (QueryFailedError ''23505'') w
      else if \<not> references (rm_roomTypeId r) (room_types w) then throw (QueryFailedError ''23503'') w
      else ok () (w\<lparr>rooms := save_row r (rooms w)\<rparr>))"

definition update_room :: "shop_env \<Rightarrow> uuid \<Rightarrow> uuid \<Rightarrow> update_room_dto \<Rightarrow> world \<Rightarrow> (room, world) result" where
  "update_room e h i dto w =
     and_then (assertHotelExists h w)
       (\<lambda>_ w. case room_in h i w of
          None \<Rightarrow> throw (NotFoundException ''Room not found in hotel'') w
        | Some r \<Rightarrow>
            and_then (case changes_to (urm_roomTypeId dto) (rm_roomTypeId r) of
                        None \<Rightarrow> ok () w | Some t \<Rightarrow> assertRoomTypeBelongsToHotel t h w)
              (\<lambda>_ w. and_then (case changes_to (urm_roomNumber dto) (rm_roomNumber r) of
                               None \<Rightarrow> ok () w | Some n \<Rightarrow> assertRoomNumberUnique h n (Some i) w)
                (\<lambda>_ w. case patched_room dto r of
                   Inl err \<Rightarrow> throw err w
                 | Inr r' \<Rightarrow> and_then (update_room_row r' w) (\<lambda>_ w1. ok r' (invalidateRoomLists h (sh_now e) w1)))))"

definition remove_room :: "shop_env \<Rightarrow> uuid \<Rightarrow> uuid \<Rightarrow> world \<Rightarrow> (unit, world) result" where
  "remove_room e h i w =
     and_then (assertHotelExists h w)
       (\<lambda>_ w. case room_in h i w of
          None \<Rightarrow> throw (NotFoundException ''Room not found in hotel'') w
        | Some r \<Rightarrow> and_then (delete_room i w) (\<lambda>_ w1. ok () (invalidateRoomLists h (sh_now e) w1)))"

end
