(* ===== verification/Room_Types.thy ===== *)
theory Room_Types
  imports Catalogue
begin

text \<open>
  \<open>src/src/v1/room/services/room-type.service.ts\<close>: room types and their characteristics.  None of the operations runs
  in a transaction: what was saved before an exception stays.
\<close>

section \<open>Requests\<close>

record create_room_type_dto =
  ct_name :: string
  ct_description :: "string option"
  ct_maxOccupancy :: int
  ct_bedType :: string
  ct_areaInSquareFeet :: rat
  ct_roomCharacteristicIds :: "uuid list option"

record update_room_type_dto =
  ut_name :: "string field"
  ut_description :: "string field"
  ut_maxOccupancy :: "int field"
  ut_bedType :: "string field"
  ut_areaInSquareFeet :: "rat field"
  ut_roomCharacteristicIds :: "uuid list field"

section \<open>Operations\<close>

definition findOneOrFail_type :: "uuid \<Rightarrow> world \<Rightarrow> (type_view, world) result" where
  "findOneOrFail_type t w =
     (case by_id t (room_types w) of
        None \<Rightarrow> throw (NotFoundException ''Room type not found'') w
      | Some ty \<Rightarrow> ok (type_view_of w ty) w)"

definition characteristic_links :: "shop_env \<Rightarrow> uuid \<Rightarrow> uuid list \<Rightarrow> room_type_characteristic list" where
  "characteristic_links e t is =
     map (\<lambda>(n, c). \<lparr>entId = sh_newId e n, createdAt = sh_now e, rtc_roomTypeId = t, rtc_roomCharacteristicId = c\<rparr>)
       (enumerate 1 is)"

text \<open>The links are saved together, in the transaction of one \<open>save\<close>; the deletion before it is not part of it.\<close>

definition syncCharacteristics :: "shop_env \<Rightarrow> uuid \<Rightarrow> uuid list \<Rightarrow> world \<Rightarrow> (unit, world) result" where
  "syncCharacteristics e t is w =
     (if is \<noteq> [] \<and> length (find_all (\<lambda>c. live c \<and> entId c \<in> set is) (room_characteristics w)) \<noteq> length is
      then throw (NotFoundException ''Room characteristic(s) not found'') w
      else
        let w1 = w\<lparr>room_type_characteristics := delete_where (\<lambda>l. rtc_roomTypeId l = t) (room_type_characteristics w)\<rparr>;
            ls = characteristic_links e t is
        in if is = [] then ok () w1
           else if \<not> distinct (ids ls) \<or> list_ex (\<lambda>l. references (entId l) (room_type_characteristics w1)) ls \<or> \<not> distinct is
           then throw (QueryFailedError ''23505'') w1
           else if \<not> references t (room_types w1) then throw (QueryFailedError ''23503'') w1
           else ok () (w1\<lparr>room_type_characteristics := room_type_characteristics w1 @ ls\<rparr>))"

definition create_room_type ::
  "shop_env \<Rightarrow> uuid \<Rightarrow> create_room_type_dto \<Rightarrow> world \<Rightarrow> (type_view, world) result" where
  "create_room_type e h dto w =
     and_then (assertHotelExists h w)
       (\<lambda>_ w. case to_numeric_10_2 (sh_to_dec e) (ct_areaInSquareFeet dto) of
          Inl err \<Rightarrow> throw err w
        | Inr area \<Rightarrow>
            let t = \<lparr>entId = sh_newId e 0, createdAt = sh_now e, deletedAt = None, ty_hotelId = h, ty_name = ct_name dto,
                     ty_description = ct_description dto, ty_maxOccupancy = ct_maxOccupancy dto,
                     ty_bedType = ct_bedType dto, ty_areaInSquareFeet = area\<rparr>;
                w1 = w\<lparr>room_types := room_types w @ [t]\<rparr>
            in if references (entId t) (room_types w) then throw (QueryFailedError ''23505'') w
               else and_then
                 (case ct_roomCharacteristicIds dto of
                    None \<Rightarrow> ok () w1
                  | Some is \<Rightarrow> if is = [] then ok () w1 else syncCharacteristics e (entId t) is w1)
                 (\<lambda>_ w2. findOneOrFail_type (entId t) w2))"

definition findAllCharacteristics :: "shop_env \<Rightarrow> world \<Rightarrow> room_characteristic list" where
  "findAllCharacteristics e w = order_rows (sh_collate e \<circ> rc_name) ASC (find_all live (room_characteristics w))"

text \<open>The room types of a hotel, each with the number of its rooms that are available.\<close>

definition findAllByHotel_types :: "uuid \<Rightarrow> world \<Rightarrow> ((type_view \<times> nat) list, world) result" where
  "findAllByHotel_types h w =
     and_then (assertHotelExists h w)
       (\<lambda>_ w. ok (map (\<lambda>t. (type_view_of w t,
                          length (find_all (\<lambda>r. live r \<and> rm_roomTypeId r = entId t \<and> rm_status r = AVAILABLE) (rooms w))))
                   (order_rows createdAt DESC (types_of w h))) w)"

definition patched_room_type :: "shop_env \<Rightarrow> update_room_type_dto \<Rightarrow> room_type \<Rightarrow> exn + room_type" where
  "patched_room_type e dto t =
     also_needs (also_needs (also_needs (also_needs
       (Inr (\<lambda>area n occ bed.
          t\<lparr>ty_name := n, ty_description := patch_nullable (ut_description dto) (ty_description t), ty_maxOccupancy := occ,
            ty_bedType := bed, ty_areaInSquareFeet := area\<rparr>))
       (patch_number (to_numeric_10_2 (sh_to_dec e)) (ut_areaInSquareFeet dto) (ty_areaInSquareFeet t)))
       (patch_required (ut_name dto) (ty_name t))) (patch_required (ut_maxOccupancy dto) (ty_maxOccupancy t)))
       (patch_required (ut_bedType dto) (ty_bedType t))"

definition room_type_in :: "uuid \<Rightarrow> uuid \<Rightarrow> world \<Rightarrow> room_type option" where
  "room_type_in h i w = find_one (\<lambda>t. live t \<and> entId t = i \<and> ty_hotelId t = h) (room_types w)"

definition update_room_type ::
  "shop_env \<Rightarrow> uuid \<Rightarrow> uuid \<Rightarrow> update_room_type_dto \<Rightarrow> world \<Rightarrow> (type_view, world) result" where
  "update_room_type e h i dto w =
     and_then (assertHotelExists h w)
       (\<lambda>_ w. case room_type_in h i w of
          None \<Rightarrow> throw (NotFoundException ''Room type not found in hotel'') w
        | Some t \<Rightarrow>
            (case patched_room_type e dto t of
               Inl err \<Rightarrow> throw err w
             | Inr t' \<Rightarrow>
                 let w1 = w\<lparr>room_types := save_row t' (room_types w)\<rparr>
                 in and_then
                      (case ut_roomCharacteristicIds dto of
                         Undef \<Rightarrow> ok () w1
                       | Null \<Rightarrow> throw (JsError ''TypeError'') w1
                       | Val is \<Rightarrow> syncCharacteristics e i is w1)
                      (\<lambda>_ w2. findOneOrFail_type i w2)))"

definition remove_room_type :: "uuid \<Rightarrow> uuid \<Rightarrow> world \<Rightarrow> (unit, world) result" where
  "remove_room_type h i w =
     and_then (assertHotelExists h w)
       (\<lambda>_ w. case room_type_in h i w of
          None \<Rightarrow> throw (NotFoundException ''Room type not found in hotel'') w
        | Some t \<Rightarrow> delete_room_type i w)"

end
