(* ===== verification/Rate_Options.thy ===== *)
theory Rate_Options
  imports Catalogue
begin

text \<open>
  \<open>src/src/v1/rate-option/services/rate-option.service.ts\<close>: the rates of a room type and their benefits.  The routes
  carry the identifier of a hotel too, which the service never looks at.
\<close>

section \<open>Requests\<close>

record create_rate_option_dto =
  co_name :: string
  co_description :: "string option"
  co_pricePerNight :: rat
  co_currency :: currency
  co_isRefundable :: bool
  co_cancellationPolicy :: cancellation_policy
  co_deadlineHours :: "int option"

record update_rate_option_dto =
  uo_name :: "string field"
  uo_description :: "string field"
  uo_pricePerNight :: "rat field"
  uo_currency :: "currency field"
  uo_isRefundable :: "bool field"
  uo_cancellationPolicy :: "cancellation_policy field"
  uo_deadlineHours :: "int field"

definition DEADLINE_REQUIRED_POLICIES :: "cancellation_policy list" where
  "DEADLINE_REQUIRED_POLICIES = [FREE_CANCELLATION_UNTIL_DEADLINE, PARTIAL_REFUND_WITHIN_WINDOW]"

text \<open>The validators of the two bodies; in the partial one an absent or \<open>null\<close> field is not validated.\<close>

definition valid_create_rate_option :: "create_rate_option_dto \<Rightarrow> bool" where
  "valid_create_rate_option dto \<longleftrightarrow>
     co_name dto \<noteq> '''' \<and> length (co_name dto) \<le> 150 \<and> 0 \<le> co_pricePerNight dto
     \<and> (if List.member DEADLINE_REQUIRED_POLICIES (co_cancellationPolicy dto)
        then (case co_deadlineHours dto of None \<Rightarrow> False | Some n \<Rightarrow> 1 \<le> n) else True)"

definition valid_update_rate_option :: "update_rate_option_dto \<Rightarrow> bool" where
  "valid_update_rate_option dto \<longleftrightarrow>
     (case uo_name dto of Val n \<Rightarrow> n \<noteq> '''' \<and> length n \<le> 150 | _ \<Rightarrow> True)
     \<and> (case uo_pricePerNight dto of Val p \<Rightarrow> 0 \<le> p | _ \<Rightarrow> True)
     \<and> (case uo_cancellationPolicy dto of
          Val pol \<Rightarrow>
            if List.member DEADLINE_REQUIRED_POLICIES pol
            then (case uo_deadlineHours dto of Val n \<Rightarrow> 1 \<le> n | _ \<Rightarrow> True) else True
        | _ \<Rightarrow> True)"

section \<open>Operations\<close>

definition findOneOrFail_rate :: "uuid \<Rightarrow> world \<Rightarrow> (rate_view, world) result" where
  "findOneOrFail_rate i w =
     (case by_id i (rate_options w) of
        None \<Rightarrow> throw (NotFoundException ''Rate option not found'') w
      | Some r \<Rightarrow> ok (rate_view_of w r) w)"

definition to_int4_option :: "int option \<Rightarrow> exn + int option" where
  "to_int4_option n = (case n of None \<Rightarrow> Inr None | Some k \<Rightarrow> (case to_int4 k of Inl e \<Rightarrow> Inl e | Inr m \<Rightarrow> Inr (Some m)))"

definition create_rate_option ::
  "shop_env \<Rightarrow> uuid \<Rightarrow> create_rate_option_dto \<Rightarrow> world \<Rightarrow> (rate_view, world) result" where
  "create_rate_option e t dto w =
     and_then (assertRoomTypeExists t w)
       (\<lambda>_ w. case to_int4_option (co_deadlineHours dto) of
          Inl err \<Rightarrow> throw err w
        | Inr hours \<Rightarrow>
            (case to_numeric_12_2 (sh_to_dec e) (co_pricePerNight dto) of
               Inl err \<Rightarrow> throw err w
             | Inr price \<Rightarrow>
                 let r = \<lparr>entId = sh_newId e 0, createdAt = sh_now e, deletedAt = None, ro_roomTypeId = t,
                          ro_name = co_name dto, ro_description = co_description dto, ro_pricePerNight = price,
                          ro_currency = co_currency dto, ro_isRefundable = co_isRefundable dto,
                          ro_cancellationPolicy = co_cancellationPolicy dto, ro_deadlineHours = hours\<rparr>
                 in if references (entId r) (rate_options w) then throw (QueryFailedError ''23505'') w
                    else findOneOrFail_rate (entId r) (w\<lparr>rate_options := rate_options w @ [r]\<rparr>)))"

definition findAllByRoomType :: "uuid \<Rightarrow> world \<Rightarrow> (rate_view list, world) result" where
  "findAllByRoomType t w =
     and_then (assertRoomTypeExists t w)
       (\<lambda>_ w. ok (map (rate_view_of w) (order_rows createdAt DESC (rates_of w t))) w)"

definition rate_in :: "uuid \<Rightarrow> uuid \<Rightarrow> world \<Rightarrow> rate_option option" where
  "rate_in t i w = find_one (\<lambda>r. live r \<and> entId r = i \<and> ro_roomTypeId r = t) (rate_options w)"

definition patched_rate :: "shop_env \<Rightarrow> update_rate_option_dto \<Rightarrow> rate_option \<Rightarrow> exn + rate_option" where
  "patched_rate e dto r =
     also_needs (also_needs (also_needs (also_needs (also_needs (also_needs
       (Inr (\<lambda>hours price n cur ref pol.
          r\<lparr>ro_name := n, ro_description := patch_nullable (uo_description dto) (ro_description r),
            ro_pricePerNight := price, ro_currency := cur, ro_isRefundable := ref, ro_cancellationPolicy := pol,
            ro_deadlineHours := hours\<rparr>))
       (to_int4_option (patch_nullable (uo_deadlineHours dto) (ro_deadlineHours r))))
       (patch_number (to_numeric_12_2 (sh_to_dec e)) (uo_pricePerNight dto) (ro_pricePerNight r)))
       (patch_required (uo_name dto) (ro_name r))) (patch_required (uo_currency dto) (ro_currency r)))
       (patch_required (uo_isRefundable dto) (ro_isRefundable r)))
       (patch_required (uo_cancellationPolicy dto) (ro_cancellationPolicy r))"

definition update_rate_option ::
  "shop_env \<Rightarrow> uuid \<Rightarrow> uuid \<Rightarrow> update_rate_option_dto \<Rightarrow> world \<Rightarrow> (rate_view, world) result" where
  "update_rate_option e t i dto w =
     and_then (assertRoomTypeExists t w)
       (\<lambda>_ w. case rate_in t i w of
          None \<Rightarrow> throw (NotFoundException ''Rate option not found in room type'') w
        | Some r \<Rightarrow>
            (case patched_rate e dto r of
               Inl err \<Rightarrow> throw err w
             | Inr r' \<Rightarrow> findOneOrFail_rate i (w\<lparr>rate_options := save_row r' (rate_options w)\<rparr>)))"

definition remove_rate_option :: "uuid \<Rightarrow> uuid \<Rightarrow> world \<Rightarrow> (unit, world) result" where
  "remove_rate_option t i w =
     and_then (assertRoomTypeExists t w)
       (\<lambda>_ w. case rate_in t i w of
          None \<Rightarrow> throw (NotFoundException ''Rate option not found in room type'') w
        | Some r \<Rightarrow> delete_rate_option i w)"

definition assertRateOptionBelongsToRoomType :: "uuid \<Rightarrow> uuid \<Rightarrow> world \<Rightarrow> (unit, world) result" where
  "assertRateOptionBelongsToRoomType i t w =
     (if exists_by (\<lambda>r. live r \<and> entId r = i \<and> ro_roomTypeId r = t) (rate_options w) then ok () w
      else throw (NotFoundException ''Rate option not found in room type'') w)"

definition benefit_links :: "shop_env \<Rightarrow> uuid \<Rightarrow> uuid list \<Rightarrow> rate_option_benefit list" where
  "benefit_links e i bs =
     map (\<lambda>(n, b). \<lparr>entId = sh_newId e n, createdAt = sh_now e, rob_rateOptionId = i, rob_benefitId = b\<rparr>) (enumerate 0 bs)"

definition linked :: "uuid \<Rightarrow> uuid list \<Rightarrow> world \<Rightarrow> rate_option_benefit list" where
  "linked i bs w = find_all (\<lambda>l. rob_rateOptionId l = i \<and> rob_benefitId l \<in> set bs) (rate_option_benefits w)"

definition addBenefits :: "shop_env \<Rightarrow> uuid \<Rightarrow> uuid \<Rightarrow> uuid list \<Rightarrow> world \<Rightarrow> (rate_view, world) result" where
  "addBenefits e t i bs w =
     and_then (assertRateOptionBelongsToRoomType i t w)
       (\<lambda>_ w. if length (find_all (\<lambda>b. live b \<and> entId b \<in> set bs) (benefits w)) \<noteq> length bs
        then throw (NotFoundException ''Benefit(s) not found'') w
        else if linked i bs w \<noteq> [] then throw (ConflictException ''Benefit(s) already linked to this rate option'') w
        else
          let ls = benefit_links e i bs
          in if \<not> distinct (ids (rate_option_benefits w @ ls)) \<or> \<not> distinct bs then throw (QueryFailedError ''23505'') w
             else findOneOrFail_rate i (w\<lparr>rate_option_benefits := rate_option_benefits w @ ls\<rparr>))"

definition removeBenefits :: "uuid \<Rightarrow> uuid \<Rightarrow> uuid list \<Rightarrow> world \<Rightarrow> (rate_view, world) result" where
  "removeBenefits t i bs w =
     and_then (assertRateOptionBelongsToRoomType i t w)
       (\<lambda>_ w. if length (linked i bs w) \<noteq> length bs
        then throw (NotFoundException ''Benefit(s) not linked to this rate option'') w
        else findOneOrFail_rate i
               (w\<lparr>rate_option_benefits := delete_where (\<lambda>l. entId l \<in> set (ids (linked i bs w))) (rate_option_benefits w)\<rparr>))"

definition findAllBenefits :: "world \<Rightarrow> benefit list" where
  "findAllBenefits w = order_rows createdAt DESC (find_all live (benefits w))"

end
