(* ===== verification/Catalogue_Bodies.thy ===== *)
theory Catalogue_Bodies
  imports Validation_Facts Hotels Rooms Room_Types Rate_Options Booking
begin

text \<open>
  The bodies of the catalogue, booking and payment routes: the classes of \<open>src/src/v1/hotel/dto\<close>, \<open>room/dto\<close>,
  \<open>rate-option/dto\<close>, \<open>booking/dto\<close> and \<open>payment/dto\<close> that come as JSON, how the handlers see them, and what an accepted body
  guarantees to the services.  The filters come as a query and are not here.
\<close>

section \<open>The classes\<close>

definition CreateHotelDto :: dto where
  "CreateHotelDto =
     [needs ''name'' [IsString, IsNotEmpty, MaxLength 150], may_have ''description'' [IsString],
      needs ''latitude'' [IsLatitude], needs ''longitude'' [IsLongitude], needs ''address'' text_rules, needs ''city'' text_rules,
      needs ''country'' text_rules, needs ''postalCode'' text_rules, needs ''checkInTime'' [IsString, Matches Time_Regex],
      needs ''checkOutTime'' [IsString, Matches Time_Regex],
      (may_have ''isActive'' [IsBoolean])\<lparr>dv_transform := Flag_Or_Value\<rparr>]"

definition UpdateHotelDto :: dto where
  "UpdateHotelDto = PartialType CreateHotelDto"

definition CreateRoomTypeDto :: dto where
  "CreateRoomTypeDto =
     [needs ''name'' [IsString, IsNotEmpty, MaxLength 150], may_have ''description'' [IsString],
      needs ''maxOccupancy'' [IsInt, Min_Is 1, Max_Is 20], needs ''bedType'' text_rules,
      needs ''areaInSquareFeet'' [IsNumber, Min_Is 1], may_have ''roomCharacteristicIds'' [Is_Array, Each_IsUUIDv4]]"

definition UpdateRoomTypeDto :: dto where
  "UpdateRoomTypeDto = PartialType CreateRoomTypeDto"

definition room_statuses :: "(room_status \<times> string) list" where
  "room_statuses =
     [(AVAILABLE, ''AVAILABLE''), (OCCUPIED, ''OCCUPIED''), (MAINTENANCE, ''MAINTENANCE''), (OUT_OF_SERVICE, ''OUT_OF_SERVICE'')]"

definition CreateRoomDto :: dto where
  "CreateRoomDto =
     [needs ''roomTypeId'' [IsUUIDv4, IsNotEmpty], needs ''roomNumber'' text_rules,
      needs ''floorNumber'' [IsInt, Min_Is 1, Max_Is 200],
      (needs ''status'' [IsIn (map snd room_statuses)])\<lparr>dv_default := Some (JStr ''AVAILABLE'')\<rparr>]"

definition UpdateRoomDto :: dto where
  "UpdateRoomDto = PartialType CreateRoomDto"

definition BulkCreateRoomDto :: dto where
  "BulkCreateRoomDto = [needs ''rooms'' [Is_Array, ArrayMinSize 1, ArrayMaxSize 100]]"

definition currencies :: "(currency \<times> string) list" where
  "currencies = [(USD, ''USD''), (EUR, ''EUR''), (GBP, ''GBP''), (SGD, ''SGD''), (THB, ''THB'')]"

definition policies :: "(cancellation_policy \<times> string) list" where
  "policies =
     [(FREE_CANCELLATION, ''FREE_CANCELLATION''),
      (FREE_CANCELLATION_UNTIL_DEADLINE, ''FREE_CANCELLATION_UNTIL_DEADLINE''), (NON_REFUNDABLE, ''NON_REFUNDABLE''),
      (PARTIAL_REFUND_WITHIN_WINDOW, ''PARTIAL_REFUND_WITHIN_WINDOW''), (FEE_BASED_CANCELLATION, ''FEE_BASED_CANCELLATION'')]"

definition member_text :: "('a \<times> string) list \<Rightarrow> 'a \<Rightarrow> string" where
  "member_text ms x = nullish (map_of ms x) ''''"

definition text_member :: "('a \<times> string) list \<Rightarrow> string \<Rightarrow> 'a option" where
  "text_member ms s = map_option fst (find_one (\<lambda>m. snd m = s) ms)"

definition needs_deadline :: "json \<Rightarrow> bool" where
  "needs_deadline b \<longleftrightarrow>
     field_of ''cancellationPolicy'' b \<in> set (map (\<lambda>p. JStr (member_text policies p)) DEADLINE_REQUIRED_POLICIES)"

definition CreateRateOptionDto :: dto where
  "CreateRateOptionDto =
     [needs ''name'' [IsString, IsNotEmpty, MaxLength 150], may_have ''description'' [IsString],
      needs ''pricePerNight'' [IsNumber, Min_Is 0], needs ''currency'' [IsIn (map snd currencies)],
      needs ''isRefundable'' [IsBoolean], needs ''cancellationPolicy'' [IsIn (map snd policies)],
      (needs ''deadlineHours'' [IsInt, Min_Is 1])\<lparr>dv_when := needs_deadline\<rparr>]"

definition UpdateRateOptionDto :: dto where
  "UpdateRateOptionDto = PartialType CreateRateOptionDto"

definition ManageRateOptionBenefitsDto :: dto where
  "ManageRateOptionBenefitsDto = [needs ''benefitIds'' [Is_Array, ArrayMinSize 1, Each_IsUUIDv4]]"

definition BookingRoomItemDto :: dto where
  "BookingRoomItemDto =
     [needs ''roomId'' [IsUUIDv4], needs ''rateOptionId'' [IsUUIDv4], needs ''checkInDate'' [IsDateString],
      needs ''checkOutDate'' [IsDateString], needs ''guestCount'' [IsInt, Min_Is 1]]"

definition CreateBookingDto :: dto where
  "CreateBookingDto = [needs ''rooms'' [Is_Array, ArrayMinSize 1]]"

definition PatchBookingStatusDto :: dto where
  "PatchBookingStatusDto =
     [needs ''status'' [IsIn [''PENDING'', ''CONFIRMED'', ''CHECKED_IN'', ''CHECKED_OUT'', ''CANCELLED'']]]"

definition CreatePaymentIntentDto :: dto where
  "CreatePaymentIntentDto = [needs ''bookingId'' [IsUUIDv4]]"

definition ConfirmCashPaymentDto :: dto where
  "ConfirmCashPaymentDto = [needs ''bookingId'' [IsUUIDv4]]"

section \<open>Nested bodies\<close>

text \<open>\<open>@ValidateNested({ each: true })\<close> with \<open>@Type\<close>: every element is an object of the given class.\<close>

fun plain_object :: "json \<Rightarrow> bool" where
  "plain_object (JObj _) = True"
| "plain_object _ = False"

definition nested_items :: "validators \<Rightarrow> dto \<Rightarrow> json \<Rightarrow> json list option" where
  "nested_items cv items v =
     (case v of
        JArr xs \<Rightarrow>
          if list_all (\<lambda>x. plain_object x \<and> ValidationPipe cv items x = Inr (transformed items x)) xs
          then Some (map (transformed items) xs) else None
      | _ \<Rightarrow> None)"

definition NestedPipe :: "validators \<Rightarrow> dto \<Rightarrow> string \<Rightarrow> dto \<Rightarrow> json \<Rightarrow> string list + json" where
  "NestedPipe cv outer k items body =
     (case ValidationPipe cv outer body of
        Inl ks \<Rightarrow> Inl ks
      | Inr b \<Rightarrow>
          (case nested_items cv items (field_of k b) of
             None \<Rightarrow> Inl [k]
           | Some xs \<Rightarrow> Inr (with_field k (JArr xs) b)))"

definition array_of :: "json \<Rightarrow> json list" where
  "array_of v = (case v of JArr xs \<Rightarrow> xs | _ \<Rightarrow> [])"

lemma nested_accepts:
  assumes "NestedPipe cv outer k items (JObj kvs) = Inr b"
  obtains b' xs where "ValidationPipe cv outer (JObj kvs) = Inr b'" "field_of k b' = JArr xs"
    "field_of k b = JArr (map (transformed items) xs)"
    "\<And>x. x \<in> set xs \<Longrightarrow> ValidationPipe cv items x = Inr (transformed items x)"
proof -
  obtain b' where b': "ValidationPipe cv outer (JObj kvs) = Inr b'" using assms by (auto simp: NestedPipe_def split: sum.splits)
  then have "b' = transformed outer (JObj kvs)" by (simp add: pipe_accepts)
  then obtain es where es: "b' = JObj es" by (simp add: transformed_def)
  obtain xs where xs: "field_of k b' = JArr xs" "b = with_field k (JArr (map (transformed items) xs)) b'"
      "list_all (\<lambda>x. plain_object x \<and> ValidationPipe cv items x = Inr (transformed items x)) xs"
    using assms b' by (auto simp: NestedPipe_def nested_items_def split: json.splits if_splits)
  have "field_of k b = JArr (map (transformed items) xs)" unfolding xs(2) es by (rule field_with_field(1))
  then show ?thesis using that [OF b' xs(1)] xs(3) by (auto simp: list_all_iff)
qed

section \<open>Rates\<close>

definition optional_entry :: "string \<Rightarrow> json option \<Rightarrow> (string \<times> json) list" where
  "optional_entry k v = (case v of None \<Rightarrow> [] | Some j \<Rightarrow> [(k, j)])"

definition rate_body :: "create_rate_option_dto \<Rightarrow> json" where
  "rate_body dto =
     JObj ([(''name'', JStr (co_name dto)), (''pricePerNight'', JNum (co_pricePerNight dto)),
            (''currency'', JStr (member_text currencies (co_currency dto))),
            (''isRefundable'', JBool (co_isRefundable dto)),
            (''cancellationPolicy'', JStr (member_text policies (co_cancellationPolicy dto)))]
           @ optional_entry ''description'' (map_option JStr (co_description dto))
           @ optional_entry ''deadlineHours'' (map_option (\<lambda>n. JNum (of_int n)) (co_deadlineHours dto)))"

definition rate_of_body :: "json \<Rightarrow> create_rate_option_dto option" where
  "rate_of_body b =
     (case (field_of ''name'' b, field_of ''pricePerNight'' b, field_of ''currency'' b, field_of ''isRefundable'' b,
            field_of ''cancellationPolicy'' b) of
        (JStr n, JNum p, JStr c, JBool r, JStr pol) \<Rightarrow>
          (case (text_member currencies c, text_member policies pol) of
             (Some cur, Some policy) \<Rightarrow>
               Some \<lparr>co_name = n,
                     co_description = (case field_of ''description'' b of JStr s \<Rightarrow> Some s | _ \<Rightarrow> None),
                     co_pricePerNight = p, co_currency = cur, co_isRefundable = r, co_cancellationPolicy = policy,
                     co_deadlineHours = (case field_of ''deadlineHours'' b of JNum q \<Rightarrow> Some \<lfloor>q\<rfloor> | _ \<Rightarrow> None)\<rparr>
           | _ \<Rightarrow> None)
      | _ \<Rightarrow> None)"

lemma text_member_policies [simp]: "text_member policies (member_text policies p) = Some p"
  by (cases p) (simp_all add: text_member_def member_text_def policies_def nullish_def)

lemma text_member_currencies [simp]: "text_member currencies (member_text currencies c) = Some c"
  by (cases c) (simp_all add: text_member_def member_text_def currencies_def nullish_def)

lemma member_text_in:
  "member_text policies p \<in> set (map snd policies)" "member_text currencies c \<in> set (map snd currencies)"
  by (cases p; simp add: member_text_def policies_def nullish_def) (cases c; simp add: member_text_def currencies_def nullish_def)

lemma policy_texts: "member_text policies p = member_text policies p' \<longleftrightarrow> p = p'"
  using text_member_policies by (metis option.inject)

lemma rate_body_roundtrip: "rate_of_body (rate_body dto) = Some dto"
  by (cases "co_description dto"; cases "co_deadlineHours dto")
    (simp_all add: rate_of_body_def rate_body_def field_of_def optional_entry_def)

lemma rate_body_deadline:
  "needs_deadline (rate_body dto) \<longleftrightarrow> List.member DEADLINE_REQUIRED_POLICIES (co_cancellationPolicy dto)"
  by (auto simp: needs_deadline_def rate_body_def field_of_def DEADLINE_REQUIRED_POLICIES_def policy_texts)

lemma plain_rates: "plain_dto CreateRateOptionDto"
  by (simp add: plain_dto_def CreateRateOptionDto_def needs_def may_have_def)

lemma rate_body_keys: "rate_body dto = JObj kvs \<Longrightarrow> fst ` set kvs \<subseteq> dv_key ` set CreateRateOptionDto"
  by (auto simp: rate_body_def optional_entry_def CreateRateOptionDto_def needs_def may_have_def split: option.splits)

lemma rate_fields:
  "field_of ''name'' (rate_body dto) = JStr (co_name dto)"
  "field_of ''pricePerNight'' (rate_body dto) = JNum (co_pricePerNight dto)"
  "field_of ''currency'' (rate_body dto) = JStr (member_text currencies (co_currency dto))"
  "field_of ''isRefundable'' (rate_body dto) = JBool (co_isRefundable dto)"
  "field_of ''cancellationPolicy'' (rate_body dto) = JStr (member_text policies (co_cancellationPolicy dto))"
  "field_of ''description'' (rate_body dto) = (case co_description dto of None \<Rightarrow> JUndef | Some s \<Rightarrow> JStr s)"
  "field_of ''deadlineHours'' (rate_body dto) = (case co_deadlineHours dto of None \<Rightarrow> JUndef | Some n \<Rightarrow> JNum (of_int n))"
  by (cases "co_description dto"; cases "co_deadlineHours dto"; simp add: rate_body_def field_of_def optional_entry_def)+


text \<open>A deadline the policy does not ask for is not looked at: anything passes, and the column of integers refuses it.\<close>

theorem deadline_unchecked:
  assumes "documented cv"
  shows "ValidationPipe cv CreateRateOptionDto
      (JObj [(''name'', JStr ''R''), (''pricePerNight'', JNum 10), (''currency'', JStr ''USD''), (''isRefundable'', JBool False),
             (''cancellationPolicy'', JStr ''NON_REFUNDABLE''), (''deadlineHours'', v)])
    = Inr (JObj [(''name'', JStr ''R''), (''pricePerNight'', JNum 10), (''currency'', JStr ''USD''), (''isRefundable'', JBool False),
             (''cancellationPolicy'', JStr ''NON_REFUNDABLE''), (''deadlineHours'', v)])"
proof -
  obtain len where len: "\<And>s. ascii s \<Longrightarrow> len s = length s"
    "\<And>n v. cv (MaxLength n) v \<longleftrightarrow> (\<exists>s. v = JStr s \<and> len s \<le> n)"
    using documented_lengths [OF assms] by metis
  have "ascii ''R''" by code_simp
  then show ?thesis
    unfolding pipe_plain [OF plain_rates] using len(1) [of "''R''"]
    by (auto simp: CreateRateOptionDto_def needs_def may_have_def field_accepts_def Let_def documented_simps [OF assms] len(2)
        needs_deadline_def field_of_def DEADLINE_REQUIRED_POLICIES_def member_text_def policies_def currencies_def nullish_def)
qed

section \<open>Rooms\<close>

definition status_of_text :: "json \<Rightarrow> room_status option" where
  "status_of_text v = (case v of JStr s \<Rightarrow> text_member room_statuses s | _ \<Rightarrow> None)"

definition room_of_body :: "json \<Rightarrow> create_room_dto option" where
  "room_of_body b =
     (case (field_of ''roomTypeId'' b, field_of ''roomNumber'' b, field_of ''floorNumber'' b, status_of_text (field_of ''status'' b)) of
        (JStr t, JStr n, JNum q, Some s) \<Rightarrow>
          Some \<lparr>crm_roomTypeId = t, crm_roomNumber = n, crm_floorNumber = \<lfloor>q\<rfloor>, crm_status = s\<rparr>
      | _ \<Rightarrow> None)"

lemma accepted_room:
  assumes "documented cv" and "ValidationPipe cv CreateRoomDto j = Inr b"
  shows "\<exists>dto. room_of_body b = Some dto \<and> crm_roomNumber dto \<noteq> '''' \<and> crm_floorNumber dto \<in> {1..200}"
proof -
  have fine: "\<And>f. f \<in> set CreateRoomDto \<Longrightarrow> field_accepts cv b f" using assms(2) by (auto simp: pipe_accepts)
  obtain t where t: "field_of ''roomTypeId'' b = JStr t"
    using fine [of "needs ''roomTypeId'' [IsUUIDv4, IsNotEmpty]"] documented_simps(6) [OF assms(1)]
    by (auto simp: CreateRoomDto_def needs_def field_accepts_def Let_def)
  obtain n where n: "field_of ''roomNumber'' b = JStr n" "n \<noteq> ''''"
    using fine [of "needs ''roomNumber'' text_rules"]
    by (auto simp: CreateRoomDto_def needs_def text_rules_def field_accepts_def Let_def documented_simps [OF assms(1)])
  obtain m :: int where m: "field_of ''floorNumber'' b = JNum (of_int m)" "1 \<le> m" "m \<le> 200"
    using fine [of "needs ''floorNumber'' [IsInt, Min_Is 1, Max_Is 200]"]
    by (auto simp: CreateRoomDto_def needs_def field_accepts_def Let_def documented_simps [OF assms(1)])
  obtain s where s: "field_of ''status'' b = JStr s" "s \<in> set (map snd room_statuses)"
    using fine [of "(needs ''status'' [IsIn (map snd room_statuses)])\<lparr>dv_default := Some (JStr ''AVAILABLE'')\<rparr>"]
    by (auto simp: CreateRoomDto_def needs_def field_accepts_def Let_def documented_simps [OF assms(1)])
  obtain st where "status_of_text (JStr s) = Some st"
    using s(2) by (auto simp: status_of_text_def text_member_def room_statuses_def)
  then show ?thesis using t n m s(1) by (simp add: room_of_body_def)
qed

text \<open>A body of many rooms that is accepted holds between one and a hundred rooms, each of which the service can read.\<close>

lemma accepted_bulk:
  assumes "documented cv" and "NestedPipe cv BulkCreateRoomDto ''rooms'' CreateRoomDto (JObj kvs) = Inr b"
  shows "length (array_of (field_of ''rooms'' b)) \<in> {1..100} \<and> (\<forall>x \<in> set (array_of (field_of ''rooms'' b)). room_of_body x \<noteq> None)"
proof -
  obtain b' xs where b: "ValidationPipe cv BulkCreateRoomDto (JObj kvs) = Inr b'" "field_of ''rooms'' b' = JArr xs"
      "field_of ''rooms'' b = JArr (map (transformed CreateRoomDto) xs)"
      "\<And>x. x \<in> set xs \<Longrightarrow> ValidationPipe cv CreateRoomDto x = Inr (transformed CreateRoomDto x)"
    using nested_accepts [OF assms(2)] by metis
  have "field_accepts cv b' (needs ''rooms'' [Is_Array, ArrayMinSize 1, ArrayMaxSize 100])"
    using b(1) by (auto simp: pipe_accepts BulkCreateRoomDto_def)
  then have "length xs \<in> {1..100}"
    by (auto simp: field_accepts_def Let_def needs_def b(2) documented_simps [OF assms(1)])
  moreover have "room_of_body (transformed CreateRoomDto x) \<noteq> None" if "x \<in> set xs" for x
    using accepted_room [OF assms(1) b(4) [OF that]] by auto
  ultimately show ?thesis by (auto simp: array_of_def b(3))
qed

text \<open>The initialiser of the status comes back in the partial class: a body that changes the floor alone reaches the service
  with a status.\<close>

lemma floor_change_sets_status:
  assumes "documented cv"
  shows "ValidationPipe cv UpdateRoomDto (JObj [(''floorNumber'', JNum 3)])
    = Inr (JObj [(''status'', JStr ''AVAILABLE''), (''floorNumber'', JNum 3)])"
proof -
  let ?b = "JObj [(''status'', JStr ''AVAILABLE''), (''floorNumber'', JNum 3)]"
  have "defaults UpdateRoomDto (JObj [(''floorNumber'', JNum 3)]) = [(''status'', JStr ''AVAILABLE'')]"
    by (simp add: UpdateRoomDto_def PartialType_def CreateRoomDto_def needs_def defaults_def has_field_def)
  moreover have "transform_of UpdateRoomDto ''floorNumber'' = As_Is" by code_simp
  ultimately have t: "transformed UpdateRoomDto (JObj [(''floorNumber'', JNum 3)]) = ?b"
    by (simp add: transformed_def transform_value_def)
  have "filter (\<lambda>f. \<not> field_accepts cv ?b f) UpdateRoomDto = []"
    by (simp add: UpdateRoomDto_def PartialType_def CreateRoomDto_def needs_def field_accepts_def field_of_def Let_def)
      (simp add: documented_simps [OF assms] room_statuses_def)
  moreover have "{''floorNumber''} \<subseteq> dv_key ` set UpdateRoomDto"
    by (simp add: UpdateRoomDto_def PartialType_def CreateRoomDto_def needs_def)
  ultimately show ?thesis by (auto simp: pipe_accepts t filter_empty_conv)
qed

section \<open>Bookings\<close>

text \<open>How a date is read is an argument; what \<open>IsDateString\<close> accepts can be read.\<close>

definition item_of_body :: "(string \<Rightarrow> iso_date option) \<Rightarrow> json \<Rightarrow> booking_room_item option" where
  "item_of_body date b =
     (case (field_of ''roomId'' b, field_of ''rateOptionId'' b, field_of ''checkInDate'' b, field_of ''checkOutDate'' b,
            field_of ''guestCount'' b) of
        (JStr r, JStr o', JStr i, JStr u, JNum q) \<Rightarrow>
          (case (date i, date u) of
             (Some d, Some d') \<Rightarrow>
               Some \<lparr>i_roomId = r, i_rateOptionId = o', i_checkInDate = d, i_checkOutDate = d', i_guestCount = \<lfloor>q\<rfloor>\<rparr>
           | _ \<Rightarrow> None)
      | _ \<Rightarrow> None)"

definition booking_items :: "(string \<Rightarrow> iso_date option) \<Rightarrow> json \<Rightarrow> booking_room_item list" where
  "booking_items date b = List.map_filter (item_of_body date) (array_of (field_of ''rooms'' b))"

lemma accepted_item:
  assumes "documented cv" and "\<And>v. cv IsDateString v \<Longrightarrow> \<exists>s. v = JStr s \<and> date s \<noteq> None"
    and "ValidationPipe cv BookingRoomItemDto j = Inr b"
  shows "\<exists>item. item_of_body date b = Some item \<and> 1 \<le> i_guestCount item"
proof -
  have fine: "\<And>f. f \<in> set BookingRoomItemDto \<Longrightarrow> field_accepts cv b f" using assms(3) by (auto simp: pipe_accepts)
  have id: "\<exists>s. field_of k b = JStr s" if "needs k [IsUUIDv4] \<in> set BookingRoomItemDto" for k
    using fine [OF that] documented_simps(6) [OF assms(1)] by (auto simp: needs_def field_accepts_def Let_def)
  have date: "\<exists>s d. field_of k b = JStr s \<and> date s = Some d" if "needs k [IsDateString] \<in> set BookingRoomItemDto" for k
    using fine [OF that] assms(2) by (fastforce simp: needs_def field_accepts_def Let_def)
  obtain n :: int where n: "field_of ''guestCount'' b = JNum (of_int n)" "1 \<le> n"
    using fine [of "needs ''guestCount'' [IsInt, Min_Is 1]"]
    by (auto simp: BookingRoomItemDto_def needs_def field_accepts_def Let_def documented_simps [OF assms(1)])
  obtain r where "field_of ''roomId'' b = JStr r" using id [of "''roomId''"] by (auto simp: BookingRoomItemDto_def)
  moreover obtain o' where "field_of ''rateOptionId'' b = JStr o'" using id [of "''rateOptionId''"] by (auto simp: BookingRoomItemDto_def)
  moreover obtain i d where "field_of ''checkInDate'' b = JStr i" "date i = Some d"
    using date [of "''checkInDate''"] by (auto simp: BookingRoomItemDto_def)
  moreover obtain u d' where "field_of ''checkOutDate'' b = JStr u" "date u = Some d'"
    using date [of "''checkOutDate''"] by (auto simp: BookingRoomItemDto_def)
  ultimately show ?thesis using n by (simp add: item_of_body_def)
qed

lemma map_filter_total: "(\<And>x. x \<in> set xs \<Longrightarrow> f x \<noteq> None) \<Longrightarrow> map Some (List.map_filter f xs) = map f xs"
  by (induction xs) (auto split: option.split)

text \<open>A body of a booking that is accepted asks for at least one room, every one of its items can be read, and every one is
  for at least one guest.\<close>

theorem accepted_booking:
  assumes "documented cv" and "\<And>v. cv IsDateString v \<Longrightarrow> \<exists>s. v = JStr s \<and> date s \<noteq> None"
    and "NestedPipe cv CreateBookingDto ''rooms'' BookingRoomItemDto (JObj kvs) = Inr b"
  shows "booking_items date b \<noteq> [] \<and> length (booking_items date b) = length (array_of (field_of ''rooms'' b))
    \<and> (\<forall>item \<in> set (booking_items date b). 1 \<le> i_guestCount item)"
proof -
  obtain b' xs where b: "ValidationPipe cv CreateBookingDto (JObj kvs) = Inr b'" "field_of ''rooms'' b' = JArr xs"
      "field_of ''rooms'' b = JArr (map (transformed BookingRoomItemDto) xs)"
      "\<And>x. x \<in> set xs \<Longrightarrow> ValidationPipe cv BookingRoomItemDto x = Inr (transformed BookingRoomItemDto x)"
    using nested_accepts [OF assms(3)] by metis
  let ?ys = "map (transformed BookingRoomItemDto) xs"
  have "field_accepts cv b' (needs ''rooms'' [Is_Array, ArrayMinSize 1])"
    using b(1) by (auto simp: pipe_accepts CreateBookingDto_def)
  then have some: "?ys \<noteq> []" by (auto simp: field_accepts_def Let_def needs_def b(2) documented_simps [OF assms(1)])
  have item: "\<exists>item. item_of_body date y = Some item \<and> 1 \<le> i_guestCount item" if "y \<in> set ?ys" for y
    using accepted_item [OF assms(1,2) b(4)] that by auto
  then have "map Some (List.map_filter (item_of_body date) ?ys) = map (item_of_body date) ?ys"
    by (intro map_filter_total) force
  moreover have "booking_items date b = List.map_filter (item_of_body date) ?ys"
    by (simp add: booking_items_def array_of_def b(3))
  ultimately have items: "map Some (booking_items date b) = map (item_of_body date) ?ys" by simp
  have "length (booking_items date b) = length ?ys" using arg_cong [OF items, of length] by simp
  moreover have "1 \<le> i_guestCount i" if "i \<in> set (booking_items date b)" for i
  proof -
    have "Some i \<in> set (map (item_of_body date) ?ys)" using that unfolding items [symmetric] by simp
    then show ?thesis using item by fastforce
  qed
  ultimately show ?thesis using some by (auto simp: array_of_def b(3))
qed

section \<open>Witnesses\<close>

definition late_rate :: create_rate_option_dto where
  "late_rate =
     \<lparr>co_name = ''Flexible'', co_description = None, co_pricePerNight = 120, co_currency = USD, co_isRefundable = True,
      co_cancellationPolicy = FREE_CANCELLATION_UNTIL_DEADLINE, co_deadlineHours = Some 48\<rparr>"


end
