(* ===== verification/Object_Store.thy ===== *)
theory Object_Store
  imports Files
begin

text \<open>
  The object store behind \<open>src/src/common/utils/s3-client.utils.ts\<close> with its contents, for the operations of the client that
  read what they wrote: \<open>objectExists\<close>, \<open>uploadFile\<close>, \<open>deleteObject\<close> and \<open>updateFile\<close>.  \<open>up\<close> says which commands the store
  carries out; a command that it does not carry out throws.
\<close>

section \<open>The client\<close>

datatype s3_command = Head_Object string | Put_Object string | Delete_Object string

type_synonym bucket = "string \<Rightarrow> string option"

definition objectExists :: "(s3_command \<Rightarrow> bool) \<Rightarrow> bucket \<Rightarrow> string \<Rightarrow> bool" where
  "objectExists up st key = (if js_trim key = '''' then False else up (Head_Object key) \<and> st key \<noteq> None)"

definition uploadFile :: "(s3_command \<Rightarrow> bool) \<Rightarrow> string \<Rightarrow> string \<Rightarrow> string \<Rightarrow> bucket \<Rightarrow> (bool \<times> string) \<times> bucket" where
  "uploadFile up path key body st =
     (let k = path @ ''/'' @ key in if up (Put_Object k) then ((True, k), st(k \<mapsto> body)) else ((False, k), st))"

definition deleteObject :: "(s3_command \<Rightarrow> bool) \<Rightarrow> string \<Rightarrow> bucket \<Rightarrow> bool \<times> bucket" where
  "deleteObject up key st =
     (if js_trim key = '''' then (False, st)
      else if up (Delete_Object key) then (True, st(key := None)) else (False, st))"

definition updateFile ::
  "(s3_command \<Rightarrow> bool) \<Rightarrow> string \<Rightarrow> string \<Rightarrow> string \<Rightarrow> string \<Rightarrow> bucket \<Rightarrow> (bool \<times> string, bucket) result" where
  "updateFile up oldKey path key body st =
     (let newKey = path @ ''/'' @ key
      in if oldKey = key then throw (JsError ''oldKey and key must be different'') st
         else if oldKey \<noteq> '''' \<and> \<not> objectExists up st oldKey then throw (JsError ''oldKey does not exist'') st
         else if up (Put_Object newKey) then ok (True, newKey) (snd (deleteObject up oldKey (st(newKey \<mapsto> body))))
         else ok (False, newKey) (snd (deleteObject up newKey st)))"

section \<open>Facts\<close>


lemma deleteObject_frame: "k \<noteq> key \<Longrightarrow> snd (deleteObject up key st) k = st k"
  by (simp add: deleteObject_def)

text \<open>The client with contents does to the world what the services were modelled with.\<close>

definition x_store :: "ext \<Rightarrow> s3_command \<Rightarrow> bool" where
  "x_store e c = (case c of Put_Object k \<Rightarrow> x_s3_upload e k | _ \<Rightarrow> True)"

lemma upload_refines: "fst (uploadFile (x_store e) path key body st) = fst (s3_uploadFile e path key w)"
  by (simp add: uploadFile_def s3_uploadFile_def Let_def x_store_def)

text \<open>An update that returns success has moved the object: the new key holds the new contents, the old key is empty if
  the store removed it, and nothing else changed; an update that throws or returns no success has stored nothing.\<close>

theorem update_moves_object:
  assumes "updateFile up oldKey path key body st = (r, st')" and "oldKey \<noteq> path @ ''/'' @ key"
  shows "case r of
       Inl _ \<Rightarrow> st' = st
     | Inr (success, k) \<Rightarrow>
         k = path @ ''/'' @ key
         \<and> (if success then st' k = Some body \<and> (\<forall>l. l \<noteq> k \<and> l \<noteq> oldKey \<longrightarrow> st' l = st l)
              \<and> (js_trim oldKey \<noteq> '''' \<and> up (Delete_Object oldKey) \<longrightarrow> st' oldKey = None)
            else (\<forall>l. l \<noteq> k \<longrightarrow> st' l = st l) \<and> (st' k = None \<or> st' k = st k))"
  using assms by (auto simp: updateFile_def Let_def ok_def throw_def deleteObject_def split: if_splits)

text \<open>The guard compares the old key with the name without its folder.  An update that keeps the key of the object writes
  the new contents, deletes them again and reports success.\<close>

theorem update_in_place_deletes:
  assumes "st (path @ ''/'' @ key) = Some old" and "js_trim (path @ ''/'' @ key) \<noteq> ''''" and "\<And>c. up c"
  shows "updateFile up (path @ ''/'' @ key) path key body st = ok (True, path @ ''/'' @ key) (st(path @ ''/'' @ key := None))"
proof -
  have "path @ ''/'' @ key \<noteq> key" by (metis append_is_Nil_conv append_self_conv2 append.assoc list.discI)
  then show ?thesis using assms by (simp add: updateFile_def Let_def objectExists_def deleteObject_def)
qed

text \<open>The rollback deletes the object under the new key even when it was there before the update.\<close>

theorem failed_update_deletes_other:
  assumes "\<not> up (Put_Object (path @ ''/'' @ key))" and "up (Delete_Object (path @ ''/'' @ key))"
    and "js_trim (path @ ''/'' @ key) \<noteq> ''''" and "oldKey \<noteq> key" and "objectExists up st oldKey"
  shows "updateFile up oldKey path key body st = ok (False, path @ ''/'' @ key) (st(path @ ''/'' @ key := None))"
  using assms by (simp add: updateFile_def Let_def deleteObject_def)

end
