(* ===== verification/Transactions.thy ===== *)
theory Transactions
  imports Roles
begin

text \<open>
  \<open>src/src/common/transaction/transactional.decorator.ts\<close>: a method runs in the transaction that is active, or in one of its
  own, which keeps nothing when the method throws.  Whether a transaction is active and whether the class has a data source
  are arguments.
\<close>

definition Transactional :: "bool \<Rightarrow> bool \<Rightarrow> ('w \<Rightarrow> ('a, 'w) result) \<Rightarrow> 'w \<Rightarrow> ('a, 'w) result" where
  "Transactional active dataSource original w =
     (if active then original w
      else if \<not> dataSource then throw (JsError ''@Transactional() requires a dataSource property on the class'') w
      else catching (original w) (\<lambda>err _. throw err w))"

lemma transaction_atomic: "Transactional False True f w = (Inl err, w') \<Longrightarrow> w' = w"
  by (auto simp: Transactional_def catching_def throw_def split: prod.splits sum.splits)

lemma transaction_success: "f w = ok x w' \<Longrightarrow> Transactional a True f w = ok x w'"
  by (simp add: Transactional_def catching_def ok_def)

text \<open>A method called by another in the same transaction is rolled back with it.\<close>

lemma nested_transaction: "Transactional False True (Transactional True d f) = Transactional False True f"
  by (simp add: Transactional_def fun_eq_iff)

text \<open>The two methods of the roles that carry the decorator throw before they write, so they are what the transaction makes
  of them.\<close>

lemma catching_if [simp]: "catching (if b then x else y) h = (if b then catching x h else catching y h)"
  by simp


text \<open>Creating and updating a role inside the transaction of their decorator is what the model of the roles does without
  it.\<close>

theorem roles_are_transactional:
  "Transactional False True (create_role e dto) w = create_role e dto w"
  "Transactional False True (update_role i changes) w = update_role i changes w"
proof -
  show "Transactional False True (create_role e dto) w = create_role e dto w"
    by (simp add: Transactional_def create_role_def Let_def split: sum.split)
  show "Transactional False True (update_role i changes) w = update_role i changes w"
    by (simp add: Transactional_def update_role_def Let_def split: sum.split option.split)
qed

end
