(* ===== verification/Hotel_Facts.thy ===== *)
theory Hotel_Facts
  imports Hotels
begin

text \<open>
  What the hotel service promises: the search lists the hotels that have what was asked for; a detail is never older
  than the hotel's row; the lists cached since the registry was started go with every write.
\<close>

section \<open>The search\<close>

text \<open>A page of the search when nothing is cached.\<close>

definition hotel_page :: "shop_env \<Rightarrow> filter_hotel \<Rightarrow> authenticated_user option \<Rightarrow> world \<Rightarrow> nat \<Rightarrow> nat \<Rightarrow> hotel list \<times> nat" where
  "hotel_page e f caller w pg sz = result_of (findAll_hotels e (f\<lparr>page := pg, limit := sz, getAll := False\<rparr>) caller w)"

definition no_hotel_lists :: "time \<Rightarrow> world \<Rightarrow> bool" where
  "no_hotel_lists now w \<longleftrightarrow> (\<forall>k \<in> hotel_list_keys. cache_get now k w = None)"

lemma listing_page_irrelevant [simp]:
  "hotels_listing c (f\<lparr>page := pg, limit := sz, getAll := a\<rparr>) adm w = hotels_listing c f adm w"
proof -
  have "fits_rate w (f\<lparr>page := pg, limit := sz, getAll := a\<rparr>) = fits_rate w f"
    by (intro ext) (simp add: fits_rate_def)
  then have "fits_type w (f\<lparr>page := pg, limit := sz, getAll := a\<rparr>) = fits_type w f"
    by (intro ext) (simp add: fits_type_def needsRateOptionJoin_def)
  then have "hotel_visible w (f\<lparr>page := pg, limit := sz, getAll := a\<rparr>) adm = hotel_visible w f adm"
    by (intro ext) (simp add: hotel_visible_def needsRoomTypeJoin_def needsRateOptionJoin_def)
  then show ?thesis by (simp add: hotels_listing_def)
qed

lemma findAll_hotels_miss:
  assumes "cache_get (sh_now e) (HotelListKey (caller_is_admin caller) f) w = None"
  shows "findAll_hotels e f caller w =
     (let r = get_many_and_count f (hotels_listing (sh_collate e) f (caller_is_admin caller) w)
      in ok r (remember_list HotelRegistryKey (HotelListKey (caller_is_admin caller) f) (VHotels (fst r) (snd r)) (sh_ttl e) (sh_now e) w))"
  using assms by (simp add: findAll_hotels_def Let_def remember_list_def hotel_registerListKey_def split: prod.split)

lemma hotel_page_miss:
  assumes "no_hotel_lists (sh_now e) w"
  shows "hotel_page e f caller w pg sz =
    (take_page pg sz (hotels_listing (sh_collate e) f (caller_is_admin caller) w),
     length (hotels_listing (sh_collate e) f (caller_is_admin caller) w))"
proof -
  have "cache_get (sh_now e) (HotelListKey a g) w = None" for a g
    using assms by (auto simp: no_hotel_lists_def hotel_list_keys_def)
  then show ?thesis
    by (simp add: hotel_page_def findAll_hotels_miss Let_def get_many_and_count_def)
qed

text \<open>The search is a listing by pages.\<close>

interpretation hotel_pages: paged_listing
  "\<lambda>pg sz. if no_hotel_lists (sh_now e) w then hotel_page e f caller w pg sz
           else get_many_and_count \<lparr>page = pg, limit = sz, getAll = False\<rparr> (hotels_listing (sh_collate e) f (caller_is_admin caller) w)"
  "hotels_listing (sh_collate e) f (caller_is_admin caller) w" for e f caller w
  by unfold_locales (simp_all add: hotel_page_miss get_many_and_count_def)

lemma in_hotels_listing:
  "h \<in> set (hotels_listing c f adm w) \<longleftrightarrow> h \<in> set (hotels w) \<and> hotel_visible w f adm h"
  by (simp add: hotels_listing_def Let_def)

definition price_search :: "string \<Rightarrow> rat \<Rightarrow> rat \<Rightarrow> filter_hotel" where
  "price_search t lo hi =
     \<lparr>page = 1, limit = 10, getAll = False, fh_search = Some t, fh_isActive = None, fh_roomTypeIds = None,
      fh_roomCharacteristicIds = None, fh_rateOptionIds = None, fh_rateOptionBenefitIds = None,
      fh_minPrice = Some lo, fh_maxPrice = Some hi, fh_sortBy = Some ''createdAt'', fh_sortOrder = Some DESC\<rparr>"

lemma price_search_visible:
  assumes "set t \<inter> wildcards = {}" and "t \<noteq> ''''"
  shows "hotel_visible w (price_search t lo hi) False h \<longleftrightarrow>
     live h \<and> h_isActive h
     \<and> (\<exists>column \<in> {h_name h, h_city h, h_country h, h_address h}. sublist (map to_lower t) (map to_lower column))
     \<and> (\<exists>ty \<in> set (room_types w). live ty \<and> ty_hotelId ty = entId h
         \<and> (\<exists>r \<in> set (rate_options w). live r \<and> ro_roomTypeId r = entId ty
              \<and> lo \<le> of_int (ro_pricePerNight r) / 100 \<and> of_int (ro_pricePerNight r) / 100 \<le> hi))"
  using assms
  by (auto simp: hotel_visible_def price_search_def needsRoomTypeJoin_def needsRateOptionJoin_def wanted_def in_wanted_def
      fits_type_def fits_rate_def types_of_def rates_of_def fits_search_def literal_search)


section \<open>Details\<close>

definition details_fresh :: "world \<Rightarrow> bool" where
  "details_fresh w \<longleftrightarrow>
     (\<forall>a i t v. cache_get t (HotelDetailKey a i) w = Some v \<longrightarrow>
        (\<exists>h. by_id i (hotels w) = Some h \<and> (a \<or> h_isActive h) \<and> v = VHotel (hotel_view_of w h)))"

lemma find_visible_hotel:
  assumes "distinct (ids (hotels w))"
  shows "find_one (\<lambda>h. live h \<and> entId h = i \<and> (a \<or> h_isActive h)) (hotels w)
     = (case by_id i (hotels w) of None \<Rightarrow> None | Some h \<Rightarrow> if a \<or> h_isActive h then Some h else None)"
proof (cases "by_id i (hotels w)")
  case None
  then have "find_one (\<lambda>h. live h \<and> entId h = i \<and> (a \<or> h_isActive h)) (hotels w) = None"
    by (auto simp: by_id_def find_one_None)
  then show ?thesis using None by simp
next
  case (Some h)
  note h = by_id_Some [OF Some]
  have "find_one (\<lambda>x. entId x = entId h \<and> (live x \<and> (a \<or> h_isActive x))) (hotels w) = Some h" if "a \<or> h_isActive h"
    using find_one_key [of entId "hotels w" h "\<lambda>x. live x \<and> (a \<or> h_isActive x)"] assms h that by (simp add: ids_def)
  moreover have "find_one (\<lambda>x. live x \<and> entId x = i \<and> (a \<or> h_isActive x)) (hotels w) = None" if "\<not> (a \<or> h_isActive h)"
  proof -
    have "x = h" if "x \<in> set (hotels w)" "entId x = i" for x
      using distinct_ids_unique [OF assms that(1), of h] h that(2) by simp
    then show ?thesis using that unfolding find_one_None by blast
  qed
  moreover have "find_one (\<lambda>x. entId x = entId h \<and> (live x \<and> (a \<or> h_isActive x))) (hotels w)
      = find_one (\<lambda>x. live x \<and> entId x = i \<and> (a \<or> h_isActive x)) (hotels w)"
    using h by (intro find_one_cong) auto
  ultimately show ?thesis using Some by (cases "a \<or> h_isActive h") auto
qed

text \<open>A world that differs in the cache only, and there only has fewer details.\<close>

lemma details_fresh_cong:
  assumes "details_fresh w" and "\<And>i h. by_id i (hotels w) = Some h \<Longrightarrow> by_id i (hotels w') = Some h"
    and "\<And>h. hotel_view_of w' h = hotel_view_of w h"
    and "\<And>a i t v. cache_get t (HotelDetailKey a i) w' = Some v \<Longrightarrow> cache_get t (HotelDetailKey a i) w = Some v"
  shows "details_fresh w'"
  using assms unfolding details_fresh_def by metis

lemma view_cache [simp]: "hotel_view_of (w\<lparr>the_cache := c\<rparr>) h = hotel_view_of w h"
  by (simp add: hotel_view_of_def type_view_of_def rate_view_of_def types_of_def rates_of_def)

lemma view_hotels [simp]: "hotel_view_of (w\<lparr>hotels := hs\<rparr>) h = hotel_view_of w h"
proof -
  have "type_view_of (w\<lparr>hotels := hs\<rparr>) t = type_view_of w t" "rate_view_of (w\<lparr>hotels := hs\<rparr>) r = rate_view_of w r" for t r
    by (simp_all add: type_view_of_def rate_view_of_def)
  then show ?thesis by (simp add: hotel_view_of_def types_of_def rates_of_def)
qed

lemma get_invalidated_Some:
  "cache_get t k (invalidateHotelLists now w) = Some v \<Longrightarrow> cache_get t k w = Some v"
  by (simp add: invalidateHotelLists_def cache_get_invalidate split: if_splits)

lemma invalidated_tables [simp]:
  "hotels (invalidateHotelLists now w) = hotels w" "hotel_view_of (invalidateHotelLists now w) h = hotel_view_of w h"
  using invalidate_frame [of HotelRegistryKey now w] by (auto simp: invalidateHotelLists_def)

lemma cache_del_views [simp]: "hotel_view_of (cache_del k w) h = hotel_view_of w h"
  by (simp add: cache_del_def)

lemma cache_set_views [simp]: "hotel_view_of (cache_set k v ttl now w) h = hotel_view_of w h"
  by (simp add: cache_set_def)

lemma cache_get_hotels [simp]: "cache_get t k (w\<lparr>hotels := hs\<rparr>) = cache_get t k w"
  by (simp add: cache_get_def)

lemma forgotten:
  "hotels (forget_hotel now i w) = hotels w" "hotel_view_of (forget_hotel now i w) h = hotel_view_of w h"
  by (simp_all add: forget_hotel_def cache_del_def)

lemma forgotten_cache:
  assumes "cache_get t k (forget_hotel now i w) = Some v"
  shows "cache_get t k w = Some v \<and> k \<noteq> HotelDetailKey a i"
proof -
  have "cache_get t k (cache_del (HotelDetailKey False i) (cache_del (HotelDetailKey True i) w)) = Some v"
    using assms unfolding forget_hotel_def by (rule get_invalidated_Some)
  then show ?thesis by (cases a) (auto simp: cache_get_del split: if_splits)
qed

lemma details_after_forgetting:
  assumes "details_fresh w" and "\<And>j. j \<noteq> i \<Longrightarrow> by_id j hs = by_id j (hotels w)"
  shows "details_fresh (forget_hotel now i (w\<lparr>hotels := hs\<rparr>))"
  unfolding details_fresh_def
proof (intro allI impI)
  fix a j t v
  assume "cache_get t (HotelDetailKey a j) (forget_hotel now i (w\<lparr>hotels := hs\<rparr>)) = Some v"
  from forgotten_cache [OF this, of a] have "cache_get t (HotelDetailKey a j) w = Some v" "j \<noteq> i" by auto
  then show "\<exists>h. by_id j (hotels (forget_hotel now i (w\<lparr>hotels := hs\<rparr>))) = Some h \<and> (a \<or> h_isActive h)
      \<and> v = VHotel (hotel_view_of (forget_hotel now i (w\<lparr>hotels := hs\<rparr>)) h)"
    using assms by (simp add: details_fresh_def forgotten)
qed

lemma patched_hotel_same: "patched_hotel dto h = Inr h' \<Longrightarrow> entId h' = entId h \<and> deletedAt h' = deletedAt h"
  by (auto simp: patched_hotel_def also_needs_Inr)

lemma findOne_hotel_fresh:
  assumes "details_fresh w" and "distinct (ids (hotels w))"
  shows "fst (findOne_hotel e i caller w)
     = (case by_id i (hotels w) of
          None \<Rightarrow> Inl (NotFoundException ''Hotel not found'')
        | Some h \<Rightarrow> if caller_is_admin caller \<or> h_isActive h then Inr (hotel_view_of w h)
                   else Inl (NotFoundException ''Hotel not found''))"
proof -
  let ?a = "caller_is_admin caller"
  show ?thesis
  proof (cases "cache_get (sh_now e) (HotelDetailKey ?a i) w")
    case None
    then show ?thesis
      by (auto simp: findOne_hotel_def Let_def find_visible_hotel [OF assms(2)] split: option.split)
  next
    case (Some v)
    then obtain h where "by_id i (hotels w) = Some h" "?a \<or> h_isActive h" "v = VHotel (hotel_view_of w h)"
      using assms(1) unfolding details_fresh_def by blast
    then show ?thesis using Some by (simp add: findOne_hotel_def Let_def)
  qed
qed

section \<open>Histories of calls\<close>

datatype hotel_call =
    CreateHotel shop_env create_hotel_dto authenticated_user
  | ListHotels shop_env filter_hotel "authenticated_user option"
  | ShowHotel shop_env uuid "authenticated_user option"
  | UpdateHotel shop_env uuid update_hotel_dto authenticated_user
  | RemoveHotel shop_env uuid authenticated_user

fun call_hotel :: "hotel_call \<Rightarrow> world \<Rightarrow> world" where
  "call_hotel (CreateHotel e dto cu) w = snd (create_hotel e dto cu w)"
| "call_hotel (ListHotels e f caller) w = snd (findAll_hotels e f caller w)"
| "call_hotel (ShowHotel e i caller) w = snd (findOne_hotel e i caller w)"
| "call_hotel (UpdateHotel e i dto cu) w = snd (update_hotel e i dto cu w)"
| "call_hotel (RemoveHotel e i cu) w = snd (remove_hotel e i cu w)"

definition hotels_ok :: "world \<Rightarrow> bool" where
  "hotels_ok w \<longleftrightarrow> details_fresh w \<and> distinct (ids (hotels w))"

lemma hotels_ok_create: "hotels_ok w \<Longrightarrow> hotels_ok (snd (create_hotel e dto cu w))"
proof -
  assume ok: "hotels_ok w"
  have "hotels_ok (invalidateHotelLists now (w\<lparr>hotels := hotels w @ [h]\<rparr>))" if "entId h \<notin> set (ids (hotels w))" for now h
  proof -
    have "details_fresh (w\<lparr>hotels := hotels w @ [h]\<rparr>)"
    proof (rule details_fresh_cong)
      show "details_fresh w" using ok by (simp add: hotels_ok_def)
      show "by_id i (hotels (w\<lparr>hotels := hotels w @ [h]\<rparr>)) = Some x" if "by_id i (hotels w) = Some x" for i x
        using that by (simp add: by_id_def find_one_append)
    qed simp_all
    then have "details_fresh (invalidateHotelLists now (w\<lparr>hotels := hotels w @ [h]\<rparr>))"
      by (rule details_fresh_cong) (auto dest: get_invalidated_Some)
    then show ?thesis using ok that by (simp add: hotels_ok_def)
  qed
  then show ?thesis using ok by (simp add: create_hotel_def assertAdmin_def Let_def)
qed

lemma hotels_ok_list: "hotels_ok w \<Longrightarrow> hotels_ok (snd (findAll_hotels e f caller w))"
proof -
  assume ok: "hotels_ok w"
  let ?w = "snd (findAll_hotels e f caller w)"
  have w: "hotels ?w = hotels w" "hotel_view_of ?w h = hotel_view_of w h"
    "cache_get t (HotelDetailKey a i) ?w = cache_get t (HotelDetailKey a i) w" for h t a i
    by (auto simp: findAll_hotels_def Let_def hotel_registerListKey_def register_key_def cache_get_set split: option.split cache_val.split prod.split)
  have "details_fresh ?w"
    by (rule details_fresh_cong [of w]) (use ok w in \<open>auto simp: hotels_ok_def\<close>)
  then show ?thesis using ok w by (simp add: hotels_ok_def)
qed

lemma hotels_ok_show: "hotels_ok w \<Longrightarrow> hotels_ok (snd (findOne_hotel e i caller w))"
proof -
  assume ok: "hotels_ok w"
  let ?a = "caller_is_admin caller" and ?w = "snd (findOne_hotel e i caller w)"
  have "?w = w \<or> (\<exists>h. by_id i (hotels w) = Some h \<and> (?a \<or> h_isActive h)
        \<and> ?w = cache_set (HotelDetailKey ?a i) (VHotel (hotel_view_of w h)) (sh_ttl e) (sh_now e) w)"
    using find_visible_hotel [of w i ?a] ok
    by (auto simp: findOne_hotel_def Let_def hotels_ok_def split: option.splits cache_val.splits if_splits)
  then show ?thesis
  proof
    assume "?w = w" then show ?thesis using ok by simp
  next
    assume "\<exists>h. by_id i (hotels w) = Some h \<and> (?a \<or> h_isActive h)
        \<and> ?w = cache_set (HotelDetailKey ?a i) (VHotel (hotel_view_of w h)) (sh_ttl e) (sh_now e) w"
    then obtain h where h: "by_id i (hotels w) = Some h" "?a \<or> h_isActive h"
      and w: "?w = cache_set (HotelDetailKey ?a i) (VHotel (hotel_view_of w h)) (sh_ttl e) (sh_now e) w" by blast
    have "details_fresh ?w"
      unfolding w details_fresh_def
    proof (intro allI impI)
      fix a j t v
      assume "cache_get t (HotelDetailKey a j) (cache_set (HotelDetailKey ?a i) (VHotel (hotel_view_of w h)) (sh_ttl e) (sh_now e) w) = Some v"
      then have "a = ?a \<and> j = i \<and> v = VHotel (hotel_view_of w h) \<or> cache_get t (HotelDetailKey a j) w = Some v"
        by (auto simp: cache_get_set split: if_splits)
      then show "\<exists>x. by_id j (hotels (cache_set (HotelDetailKey ?a i) (VHotel (hotel_view_of w h)) (sh_ttl e) (sh_now e) w)) = Some x
          \<and> (a \<or> h_isActive x)
          \<and> v = VHotel (hotel_view_of (cache_set (HotelDetailKey ?a i) (VHotel (hotel_view_of w h)) (sh_ttl e) (sh_now e) w) x)"
        using ok h by (auto simp: hotels_ok_def details_fresh_def)
    qed
    then show ?thesis using ok by (simp add: hotels_ok_def w)
  qed
qed

lemma hotels_ok_update: "hotels_ok w \<Longrightarrow> hotels_ok (snd (update_hotel e i dto cu w))"
proof -
  assume ok: "hotels_ok w"
  have "hotels_ok (forget_hotel now i (w\<lparr>hotels := save_row h' (hotels w)\<rparr>))" if "entId h' = i" for now h'
    using ok that details_after_forgetting [of w i "save_row h' (hotels w)" now]
    by (auto simp: hotels_ok_def forgotten by_id_save_row_other)
  then show ?thesis
    using ok by (auto simp: update_hotel_def assertAdmin_def dest: by_id_Some patched_hotel_same split: option.split sum.split)
qed

lemma hotels_ok_remove: "hotels_ok w \<Longrightarrow> hotels_ok (snd (remove_hotel e i cu w))"
proof -
  assume ok: "hotels_ok w"
  have "by_id j (delete_where (\<lambda>x. entId x = i) (hotels w)) = by_id j (hotels w)" if "j \<noteq> i" for j
    using that by (rule by_id_delete_other)
  moreover have "distinct (ids (delete_where (\<lambda>x. entId x = i) (hotels w)))"
    using ok by (simp add: hotels_ok_def ids_def delete_where_def distinct_map_filter)
  ultimately have "hotels_ok (forget_hotel now i (w\<lparr>hotels := delete_where (\<lambda>x. entId x = i) (hotels w)\<rparr>))" for now
    using ok details_after_forgetting [of w i "delete_where (\<lambda>x. entId x = i) (hotels w)" now]
    by (simp add: hotels_ok_def forgotten)
  then show ?thesis
    using ok by (auto simp: remove_hotel_def assertAdmin_def delete_hotel_def split: option.split)
qed

lemma hotels_ok_call: "hotels_ok w \<Longrightarrow> hotels_ok (call_hotel c w)"
  by (cases c) (simp_all add: hotels_ok_create hotels_ok_list hotels_ok_show hotels_ok_update hotels_ok_remove)

lemma hotels_ok_calls: "hotels_ok w \<Longrightarrow> hotels_ok (fold call_hotel cs w)"
  by (induction cs arbitrary: w) (simp_all add: hotels_ok_call)


section \<open>Examples\<close>



end
