(* ===== verification/Public_Routes.thy ===== *)
theory Public_Routes
  imports Routes Hotel_Facts
begin

text \<open>
  The listing of hotels behind its route.  The route is public, so the guard never looks at a token and the service never
  sees a caller: what it offers to administrators cannot be reached.
\<close>

definition hotels_route :: route where
  "hotels_route = (public_route GET ''hotels'')\<lparr>rt_guarded := True\<rparr>"

definition get_hotels ::
  "ext \<Rightarrow> shop_env \<Rightarrow> string option \<Rightarrow> filter_hotel \<Rightarrow> world \<Rightarrow> (hotel list \<times> nat, world) result" where
  "get_hotels x e token f w =
     (case authorize x False hotels_route token w of
        Inl err \<Rightarrow> throw err w
      | Inr caller \<Rightarrow> findAll_hotels e f caller w)"

text \<open>Whoever asks, with whatever token and whatever filter, is shown active hotels only: an administrator can neither
  list the inactive hotels nor filter by \<open>isActive\<close>.\<close>

theorem admins_see_active_hotels_only:
  assumes "cache_get (sh_now e) (HotelListKey False f) w = None"
  shows "hotels_route \<in> set all_routes
    \<and> (\<exists>hs n w'. get_hotels x e token f w = ok (hs, n) w' \<and> (\<forall>h \<in> set hs. h_isActive h))"
proof -
  have "hotels_route \<in> set all_routes" by (simp add: hotels_route_def all_routes_def hotel_routes_def)
  moreover have "authorize x False hotels_route token w = Inr None"
    by (simp add: authorize_def jwt_auth_guard_def hotels_route_def public_route_def plain_route_def permissions_guard_def)
  moreover have "h_isActive h" if "h \<in> set (fst (get_many_and_count f (hotels_listing c f False w)))" for h c
    using set_get_many [of f "hotels_listing c f False w"] that
    by (auto simp: in_hotels_listing hotel_visible_def)
  ultimately show ?thesis
    using assms by (auto simp: get_hotels_def findAll_hotels_miss caller_is_admin_def Let_def) (metis prod.collapse)
qed

definition closed_hotel :: hotel where
  "closed_hotel = sample_hotel\<lparr>entId := ''h2'', h_isActive := False\<rparr>"

theorem admins_see_active_hotels_only_witness:
  "\<exists>hs n w'. get_hotels (plain_ext 5) (shop 5 '''') (Some ''Aa1'') ((price_search '''' 0 0)\<lparr>fh_isActive := Some False\<rparr>)
       (sample_world\<lparr>hotels := [sample_hotel, closed_hotel]\<rparr>) = ok (hs, n) w' \<and> (\<forall>h \<in> set hs. h_isActive h)"
proof -
  have "cache_get (sh_now (shop 5 '''')) (HotelListKey False ((price_search '''' 0 0)\<lparr>fh_isActive := Some False\<rparr>))
      (sample_world\<lparr>hotels := [sample_hotel, closed_hotel]\<rparr>) = None"
    by (simp add: cache_get_def sample_defs)
  from admins_see_active_hotels_only [OF this] show ?thesis by blast
qed

end
