(* ===== verification/Catalogue_Facts.thy ===== *)
theory Catalogue_Facts
  imports Hotels Room_Types Rooms Rate_Options Booking
begin

text \<open>
  The consistency of the catalogue.  The database keeps keys unique and references existing; that a room's type belongs
  to the room's hotel is kept by the services alone.  \<open>shop_step\<close> is a call of any operation of the catalogue or of the
  booking service, and \<open>catalogue_ok\<close> is kept by all of them, on their error paths too.
\<close>

section \<open>The invariant\<close>

definition keys_ok :: "world \<Rightarrow> bool" where
  "keys_ok w \<longleftrightarrow>
     distinct (ids (hotels w)) \<and> distinct (ids (room_types w)) \<and> distinct (ids (rooms w)) \<and> distinct (ids (rate_options w))
     \<and> distinct (ids (room_characteristics w)) \<and> distinct (ids (benefits w))
     \<and> distinct (map (\<lambda>r. (rm_hotelId r, rm_roomNumber r)) (rooms w))"

definition types_ok :: "world \<Rightarrow> bool" where
  "types_ok w \<longleftrightarrow> (\<forall>t \<in> set (room_types w). ty_hotelId t \<in> set (ids (hotels w)))"

definition rooms_ok :: "world \<Rightarrow> bool" where
  "rooms_ok w \<longleftrightarrow> (\<forall>r \<in> set (rooms w). \<exists>t \<in> set (room_types w). entId t = rm_roomTypeId r \<and> ty_hotelId t = rm_hotelId r)"

definition rates_ok :: "world \<Rightarrow> bool" where
  "rates_ok w \<longleftrightarrow> (\<forall>r \<in> set (rate_options w). ro_roomTypeId r \<in> set (ids (room_types w)))"

definition characteristic_links_ok :: "world \<Rightarrow> bool" where
  "characteristic_links_ok w \<longleftrightarrow>
     (\<forall>l \<in> set (room_type_characteristics w). rtc_roomTypeId l \<in> set (ids (room_types w))
        \<and> rtc_roomCharacteristicId l \<in> set (ids (room_characteristics w)))
     \<and> distinct (map (\<lambda>l. (rtc_roomTypeId l, rtc_roomCharacteristicId l)) (room_type_characteristics w))"

definition benefit_links_ok :: "world \<Rightarrow> bool" where
  "benefit_links_ok w \<longleftrightarrow>
     (\<forall>l \<in> set (rate_option_benefits w). rob_rateOptionId l \<in> set (ids (rate_options w))
        \<and> rob_benefitId l \<in> set (ids (benefits w)))
     \<and> distinct (map (\<lambda>l. (rob_rateOptionId l, rob_benefitId l)) (rate_option_benefits w))
     \<and> distinct (ids (rate_option_benefits w))"

definition stays_ok :: "world \<Rightarrow> bool" where
  "stays_ok w \<longleftrightarrow> (\<forall>s \<in> set (booking_rooms w). br_roomId s \<in> set (ids (rooms w)) \<and> br_rateOptionId s \<in> set (ids (rate_options w)))"

definition catalogue_ok :: "world \<Rightarrow> bool" where
  "catalogue_ok w \<longleftrightarrow>
     keys_ok w \<and> types_ok w \<and> rooms_ok w \<and> rates_ok w \<and> characteristic_links_ok w \<and> benefit_links_ok w \<and> stays_ok w"

lemmas ok_defs =
  catalogue_ok_def keys_ok_def types_ok_def rooms_ok_def rates_ok_def characteristic_links_ok_def benefit_links_ok_def stays_ok_def

section \<open>Changes of one table\<close>

lemma ok_cache [simp]: "catalogue_ok (w\<lparr>the_cache := c\<rparr>) = catalogue_ok w"
  by (simp add: ok_defs)

lemma ok_cache_ops [simp]:
  "catalogue_ok (cache_set k v ttl now w) = catalogue_ok w" "catalogue_ok (cache_del k w) = catalogue_ok w"
  "catalogue_ok (invalidate_lists reg now w) = catalogue_ok w" "catalogue_ok (register_key reg k ttl now w) = catalogue_ok w"
proof -
  show i: "catalogue_ok (cache_set k v ttl now w) = catalogue_ok w" for k v ttl now w by (simp add: cache_set_def)
  show "catalogue_ok (cache_del k w) = catalogue_ok w" by (simp add: cache_del_def)
  show "catalogue_ok (invalidate_lists reg now w) = catalogue_ok w" using invalidate_frame [of reg now w] by auto
  show "catalogue_ok (register_key reg k ttl now w) = catalogue_ok w" by (simp add: register_key_def Let_def i)
qed

lemma ok_invalidations [simp]:
  "catalogue_ok (invalidateHotelLists now w) = catalogue_ok w" "catalogue_ok (invalidateRoomLists h now w) = catalogue_ok w"
  "catalogue_ok (forget_hotel now i w) = catalogue_ok w" "catalogue_ok (hotel_registerListKey k ttl now w) = catalogue_ok w"
  "catalogue_ok (room_registerListKey h k ttl now w) = catalogue_ok w"
  by (simp_all add: invalidateHotelLists_def invalidateRoomLists_def forget_hotel_def hotel_registerListKey_def room_registerListKey_def)

lemma ok_add_hotel: "catalogue_ok w \<Longrightarrow> entId h \<notin> set (ids (hotels w)) \<Longrightarrow> catalogue_ok (w\<lparr>hotels := hotels w @ [h]\<rparr>)"
  by (auto simp: ok_defs)

lemma ok_save_hotel: "catalogue_ok w \<Longrightarrow> catalogue_ok (w\<lparr>hotels := save_row h (hotels w)\<rparr>)"
  by (simp add: ok_defs)

lemma ids_deleted: "i \<in> set (ids (delete_where p rs)) \<longleftrightarrow> (\<exists>r \<in> set rs. entId r = i \<and> \<not> p r)"
  by (auto simp: ids_def)

lemma distinct_ids_deleted: "distinct (ids rs) \<Longrightarrow> distinct (ids (delete_where p rs))"
  by (simp add: ids_def distinct_delete_where)

lemma in_ids: "i \<in> set (ids rs) \<longleftrightarrow> (\<exists>r \<in> set rs. entId r = i)"
  by (auto simp: ids_def)

lemma ids_deleted_id [simp]: "set (ids (delete_where (\<lambda>x. entId x = i) rs)) = set (ids rs) - {i}"
  by (auto simp: ids_def)

lemma ok_delete_hotel: "catalogue_ok w \<Longrightarrow> catalogue_ok (snd (delete_hotel i w))"
  by (auto simp: delete_hotel_def ok_defs distinct_ids_deleted)

lemma ok_add_type:
  "catalogue_ok w \<Longrightarrow> entId t \<notin> set (ids (room_types w)) \<Longrightarrow> ty_hotelId t \<in> set (ids (hotels w)) \<Longrightarrow>
     catalogue_ok (w\<lparr>room_types := room_types w @ [t]\<rparr>)"
  unfolding ok_defs by auto

lemma ok_save_type:
  assumes "catalogue_ok w" and "t \<in> set (room_types w)" and "entId t' = entId t" and "ty_hotelId t' = ty_hotelId t"
  shows "catalogue_ok (w\<lparr>room_types := save_row t' (room_types w)\<rparr>)"
proof -
  have "types_ok (w\<lparr>room_types := save_row t' (room_types w)\<rparr>)"
    using assms by (auto simp: ok_defs dest!: in_save_row)
  moreover have "rooms_ok (w\<lparr>room_types := save_row t' (room_types w)\<rparr>)"
    unfolding rooms_ok_def
  proof
    fix r assume "r \<in> set (rooms (w\<lparr>room_types := save_row t' (room_types w)\<rparr>))"
    then obtain u where u: "u \<in> set (room_types w)" "entId u = rm_roomTypeId r" "ty_hotelId u = rm_hotelId r"
      using assms(1) by (auto simp: ok_defs)
    show "\<exists>t \<in> set (room_types (w\<lparr>room_types := save_row t' (room_types w)\<rparr>)). entId t = rm_roomTypeId r \<and> ty_hotelId t = rm_hotelId r"
    proof (cases "entId u = entId t'")
      case True
      then have "u = t" using distinct_ids_unique [of "room_types w" u t] assms u by (auto simp: ok_defs)
      then show ?thesis using u assms by (intro bexI [of _ t']) (auto simp: set_save_row in_ids)
    next
      case False
      then show ?thesis using u by (intro bexI [of _ u]) (auto simp: set_save_row)
    qed
  qed
  ultimately show ?thesis using assms(1) by (simp add: catalogue_ok_def keys_ok_def rates_ok_def characteristic_links_ok_def benefit_links_ok_def stays_ok_def)
qed

lemma ok_delete_type: "catalogue_ok w \<Longrightarrow> catalogue_ok (snd (delete_room_type i w))"
proof (cases "exists_by (\<lambda>r. rm_roomTypeId r = i) (rooms w) \<or> exists_by (\<lambda>r. ro_roomTypeId r = i) (rate_options w)")
  case False
  assume ok: "catalogue_ok w"
  let ?w = "w\<lparr>room_types := delete_where (\<lambda>x. entId x = i) (room_types w),
             room_type_characteristics := delete_where (\<lambda>l. rtc_roomTypeId l = i) (room_type_characteristics w)\<rparr>"
  have "keys_ok ?w \<and> types_ok ?w \<and> rates_ok ?w \<and> characteristic_links_ok ?w \<and> benefit_links_ok ?w \<and> stays_ok ?w"
    using ok False by (auto simp: ok_defs distinct_ids_deleted intro: distinct_delete_where)
  moreover have "rooms_ok ?w"
    unfolding rooms_ok_def
  proof
    fix r assume r: "r \<in> set (rooms ?w)"
    then obtain u where u: "u \<in> set (room_types w)" "entId u = rm_roomTypeId r" "ty_hotelId u = rm_hotelId r"
      using ok by (auto simp: ok_defs)
    then have "entId u \<noteq> i" using r False by auto
    then show "\<exists>t \<in> set (room_types ?w). entId t = rm_roomTypeId r \<and> ty_hotelId t = rm_hotelId r"
      using u by auto
  qed
  ultimately show ?thesis using False by (simp add: delete_room_type_def catalogue_ok_def)
qed (simp add: delete_room_type_def)

lemma ok_characteristic_links:
  assumes "catalogue_ok w" and "t \<in> set (ids (room_types w))" and "distinct (map rtc_roomCharacteristicId ls)"
    and "\<forall>l \<in> set ls. rtc_roomTypeId l = t \<and> rtc_roomCharacteristicId l \<in> set (ids (room_characteristics w))"
  shows "catalogue_ok (w\<lparr>room_type_characteristics := delete_where (\<lambda>l. rtc_roomTypeId l = t) (room_type_characteristics w) @ ls\<rparr>)"
proof -
  have "distinct (map (\<lambda>l. (rtc_roomTypeId l, rtc_roomCharacteristicId l)) ls)"
    using assms(3) by (auto simp: distinct_map inj_on_def)
  then have "characteristic_links_ok (w\<lparr>room_type_characteristics := delete_where (\<lambda>l. rtc_roomTypeId l = t) (room_type_characteristics w) @ ls\<rparr>)"
    using assms by (auto simp: ok_defs intro: distinct_delete_where)
  then show ?thesis using assms(1) by (simp add: catalogue_ok_def keys_ok_def types_ok_def rooms_ok_def rates_ok_def benefit_links_ok_def stays_ok_def)
qed

lemma rooms_of_type:
  "catalogue_ok w \<Longrightarrow> live t \<Longrightarrow> t \<in> set (room_types w) \<Longrightarrow> ty_hotelId t \<in> set (ids (hotels w))"
  by (simp add: ok_defs)

lemma ok_insert_rooms:
  assumes "catalogue_ok w"
    and "\<forall>r \<in> set rs. \<exists>t \<in> set (room_types w). entId t = rm_roomTypeId r \<and> ty_hotelId t = rm_hotelId r"
  shows "catalogue_ok (snd (insert_rooms rs w))"
  using assms by (auto simp: insert_rooms_def ok_defs)

lemma unique_except:
  assumes "distinct (map f xs)" and "distinct (map g xs)" and "x \<in> set xs" and "g x' = g x"
    and "\<forall>y \<in> set xs. g y \<noteq> g x' \<longrightarrow> f y \<noteq> f x'"
  shows "distinct (map f (update_where (\<lambda>y. g y = g x') (\<lambda>_. x') xs))"
  using assms
proof (induction xs)
  case Nil
  then show ?case by simp
next
  case (Cons a xs)
  show ?case
  proof (cases "g a = g x'")
    case True
    then have "update_where (\<lambda>y. g y = g x') (\<lambda>_. x') xs = xs"
      using Cons.prems(2) by (intro update_where_none) (auto simp: image_iff)
    moreover have "f x' \<notin> f ` set xs"
    proof
      assume "f x' \<in> f ` set xs"
      then obtain y where y: "y \<in> set xs" "f y = f x'" by auto
      then have "g y = g x'" using Cons.prems(5) by auto
      then show False using True Cons.prems(2) y(1) by (auto simp: image_iff)
    qed
    ultimately show ?thesis using Cons.prems(1) True by simp
  next
    case False
    then have x: "x \<in> set xs" using Cons.prems(3,4) by auto
    have "distinct (map f (update_where (\<lambda>y. g y = g x') (\<lambda>_. x') xs))"
      using Cons.IH Cons.prems x by simp
    moreover have "f a \<noteq> f y" if "y \<in> set (update_where (\<lambda>y. g y = g x') (\<lambda>_. x') xs)" for y
      using that
    proof (cases rule: in_update_whereE)
      case (hit z)
      then show ?thesis using Cons.prems(5) False by simp
    next
      case miss
      then show ?thesis using Cons.prems(1) by auto
    qed
    ultimately show ?thesis using False by auto
  qed
qed

lemma ok_update_room_row:
  assumes "catalogue_ok w" and "r \<in> set (rooms w)" and "entId r' = entId r" and "rm_hotelId r' = rm_hotelId r"
    and "\<exists>t \<in> set (room_types w). entId t = rm_roomTypeId r' \<and> ty_hotelId t = rm_hotelId r'"
  shows "catalogue_ok (snd (update_room_row r' w))"
proof (cases "exists_by (\<lambda>x. entId x \<noteq> entId r' \<and> rm_hotelId x = rm_hotelId r' \<and> rm_roomNumber x = rm_roomNumber r') (rooms w)")
  case True
  then show ?thesis using assms(1) by (simp add: update_room_row_def)
next
  case False
  let ?w = "w\<lparr>rooms := save_row r' (rooms w)\<rparr>"
  have "distinct (map (\<lambda>r. (rm_hotelId r, rm_roomNumber r)) (save_row r' (rooms w)))"
    unfolding save_row_def
    by (rule unique_except [where x = r]) (use assms False in \<open>auto simp: ok_defs ids_def\<close>)
  then have "keys_ok ?w" using assms(1) by (simp add: ok_defs)
  moreover have "rooms_ok ?w"
    using assms(1,5) by (auto simp: ok_defs dest!: in_save_row)
  moreover have "stays_ok ?w" using assms(1) by (simp add: ok_defs)
  ultimately show ?thesis
    using assms(1) False
    by (simp add: update_room_row_def catalogue_ok_def types_ok_def rates_ok_def characteristic_links_ok_def benefit_links_ok_def)
qed

lemma ok_delete_room: "catalogue_ok w \<Longrightarrow> catalogue_ok (snd (delete_room i w))"
  by (auto simp: delete_room_def ok_defs distinct_ids_deleted intro: distinct_delete_where)

lemma ok_add_rate:
  "catalogue_ok w \<Longrightarrow> entId r \<notin> set (ids (rate_options w)) \<Longrightarrow> ro_roomTypeId r \<in> set (ids (room_types w)) \<Longrightarrow>
     catalogue_ok (w\<lparr>rate_options := rate_options w @ [r]\<rparr>)"
  unfolding ok_defs by auto

lemma ok_save_rate:
  "catalogue_ok w \<Longrightarrow> ro_roomTypeId r \<in> set (ids (room_types w)) \<Longrightarrow>
     catalogue_ok (w\<lparr>rate_options := save_row r (rate_options w)\<rparr>)"
  unfolding ok_defs by (auto dest!: in_save_row)

lemma ok_delete_rate: "catalogue_ok w \<Longrightarrow> catalogue_ok (snd (delete_rate_option i w))"
  by (auto simp: delete_rate_option_def ok_defs distinct_ids_deleted intro: distinct_delete_where)

lemma ok_delete_links: "catalogue_ok w \<Longrightarrow> catalogue_ok (w\<lparr>rate_option_benefits := delete_where p (rate_option_benefits w)\<rparr>)"
  by (auto simp: ok_defs distinct_ids_deleted intro: distinct_delete_where)

lemma ok_room_status:
  assumes "catalogue_ok w"
  shows "catalogue_ok (w\<lparr>rooms := update_where p (\<lambda>r. r\<lparr>rm_status := st\<rparr>) (rooms w)\<rparr>)"
proof -
  have "map (\<lambda>r. (rm_hotelId r, rm_roomNumber r)) (update_where p (\<lambda>r. r\<lparr>rm_status := st\<rparr>) (rooms w))
      = map (\<lambda>r. (rm_hotelId r, rm_roomNumber r)) (rooms w)"
    by (rule map_update_where) simp
  moreover have "ids (update_where p (\<lambda>r. r\<lparr>rm_status := st\<rparr>) (rooms w)) = ids (rooms w)"
    by (rule ids_update_where) simp
  moreover have "rooms_ok (w\<lparr>rooms := update_where p (\<lambda>r. r\<lparr>rm_status := st\<rparr>) (rooms w)\<rparr>)"
    using assms by (fastforce simp: ok_defs elim: in_update_whereE)
  ultimately show ?thesis
    using assms by (simp add: catalogue_ok_def keys_ok_def types_ok_def rates_ok_def characteristic_links_ok_def benefit_links_ok_def stays_ok_def)
qed

section \<open>Every operation keeps the catalogue consistent\<close>

lemma and_then_ok_world:
  assumes "catalogue_ok (snd r)" and "\<And>x w. r = ok x w \<Longrightarrow> catalogue_ok w \<Longrightarrow> catalogue_ok (snd (k x w))"
  shows "catalogue_ok (snd (and_then r k))"
  using and_then_snd [of catalogue_ok] assms by blast

lemma room_type_in_Some: "room_type_in h i w = Some t \<Longrightarrow> t \<in> set (room_types w) \<and> live t \<and> entId t = i \<and> ty_hotelId t = h"
  by (auto simp: room_type_in_def dest: find_one_Some)

lemma room_in_Some: "room_in h i w = Some r \<Longrightarrow> r \<in> set (rooms w) \<and> live r \<and> entId r = i \<and> rm_hotelId r = h"
  by (auto simp: room_in_def dest: find_one_Some)

lemma rate_in_Some: "rate_in t i w = Some r \<Longrightarrow> r \<in> set (rate_options w) \<and> live r \<and> entId r = i \<and> ro_roomTypeId r = t"
  by (auto simp: rate_in_def dest: find_one_Some)

lemma by_id_in_ids: "by_id i rs = Some r \<Longrightarrow> i \<in> set (ids rs)"
  by (auto simp: ids_def dest: by_id_Some)

lemma findOneOrFail_worlds [simp]: "snd (findOneOrFail_type i w) = w" "snd (findOneOrFail_rate i w) = w"
  by (auto simp: findOneOrFail_type_def findOneOrFail_rate_def split: option.split)

lemma links_simps:
  "map rtc_roomCharacteristicId (characteristic_links e t is) = is"
  "l \<in> set (characteristic_links e t is) \<Longrightarrow> rtc_roomTypeId l = t"
  "map rob_benefitId (benefit_links e i bs) = bs"
  "k \<in> set (benefit_links e i bs) \<Longrightarrow> rob_rateOptionId k = i"
  by (auto simp: characteristic_links_def benefit_links_def comp_def case_prod_beta map_snd_enumerate)

lemma room_rows_simps:
  assumes "r \<in> set (map (\<lambda>(n, dto). room_row e h n dto) (enumerate k dtos))"
  shows "rm_hotelId r = h \<and> rm_roomTypeId r \<in> crm_roomTypeId ` set dtos"
proof -
  have "\<exists>n dto. (n, dto) \<in> set (enumerate k dtos) \<and> r = room_row e h n dto" using assms by auto
  then show ?thesis by (auto simp: room_row_def enumerate_eq_zip dest: set_zip_rightD)
qed

lemma ok_sync:
  assumes "catalogue_ok w" and "t \<in> set (ids (room_types w))"
  shows "catalogue_ok (snd (syncCharacteristics e t is w))"
proof -
  have d: "distinct (ids (room_characteristics w))" using assms(1) by (simp add: ok_defs)
  let ?del = "w\<lparr>room_type_characteristics := delete_where (\<lambda>l. rtc_roomTypeId l = t) (room_type_characteristics w)\<rparr>"
  have del: "catalogue_ok ?del"
    using ok_characteristic_links [OF assms, of "[]"] by simp
  show ?thesis
  proof (cases "is = [] \<or> length (find_all (\<lambda>c. live c \<and> entId c \<in> set is) (room_characteristics w)) \<noteq> length is")
    case True
    then show ?thesis using assms(1) del by (auto simp: syncCharacteristics_def Let_def)
  next
    case False
    then have "is = [] \<or> distinct is \<and> (\<forall>c \<in> set is. by_id c (room_characteristics w) \<noteq> None)"
      using count_live_iff [OF d, of "is"] by simp
    then have c: "distinct is" "\<forall>c \<in> set is. c \<in> set (ids (room_characteristics w))"
      by (auto simp: dest: by_id_in_ids)
    have "catalogue_ok (w\<lparr>room_type_characteristics :=
        delete_where (\<lambda>l. rtc_roomTypeId l = t) (room_type_characteristics w) @ characteristic_links e t is\<rparr>)"
    proof (rule ok_characteristic_links [OF assms])
      show "distinct (map rtc_roomCharacteristicId (characteristic_links e t is))" using c(1) by (simp add: links_simps)
      show "\<forall>l \<in> set (characteristic_links e t is). rtc_roomTypeId l = t \<and> rtc_roomCharacteristicId l \<in> set (ids (room_characteristics w))"
        using c(2) links_simps(1) [of e t "is"] links_simps(2) by (metis image_eqI list.set_map)
    qed
    then show ?thesis using False del by (auto simp: syncCharacteristics_def Let_def)
  qed
qed

lemma ok_create_hotel: "catalogue_ok w \<Longrightarrow> catalogue_ok (snd (create_hotel e dto cu w))"
  by (auto simp: create_hotel_def assertAdmin_def Let_def ok_add_hotel)

lemma ok_findAll_hotels: "catalogue_ok w \<Longrightarrow> catalogue_ok (snd (findAll_hotels e f caller w))"
  by (simp add: findAll_hotels_def Let_def split: option.split cache_val.split prod.split)

lemma ok_findOne_hotel: "catalogue_ok w \<Longrightarrow> catalogue_ok (snd (findOne_hotel e i caller w))"
  by (simp add: findOne_hotel_def Let_def split: option.split cache_val.split)

lemma ok_update_hotel: "catalogue_ok w \<Longrightarrow> catalogue_ok (snd (update_hotel e i dto cu w))"
  by (auto simp: update_hotel_def assertAdmin_def ok_save_hotel split: option.split sum.split)

lemma ok_remove_hotel: "catalogue_ok w \<Longrightarrow> catalogue_ok (snd (remove_hotel e i cu w))"
  unfolding remove_hotel_def assertAdmin_def
  by (auto intro!: and_then_ok_world simp: ok_delete_hotel split: option.split)

lemma ok_create_type: "catalogue_ok w \<Longrightarrow> catalogue_ok (snd (create_room_type e h dto w))"
  unfolding create_room_type_def
  by (intro and_then_ok_world)
     (auto intro!: and_then_ok_world ok_sync ok_add_type simp: Let_def assert_simps dest: by_id_in_ids split: sum.split option.split)

lemma ok_update_type: "catalogue_ok w \<Longrightarrow> catalogue_ok (snd (update_room_type e h i dto w))"
proof -
  assume ok: "catalogue_ok w"
  have save: "catalogue_ok (w\<lparr>room_types := save_row t' (room_types w)\<rparr>)"
    if "room_type_in h i w = Some t" "patched_room_type e dto t = Inr t'" for t t'
    using that by (intro ok_save_type [OF ok, of t])
      (auto simp: patched_room_type_def also_needs_Inr dest: room_type_in_Some)
  have i: "i \<in> set (ids (room_types w))" if "room_type_in h i w = Some t" for t
    using room_type_in_Some [OF that] by (auto simp: ids_def)
  show ?thesis
    unfolding update_room_type_def
    by (intro and_then_ok_world)
       (auto intro!: and_then_ok_world ok_sync save i simp: ok Let_def assert_simps split: sum.split option.split field.split)
qed

lemma ok_remove_type: "catalogue_ok w \<Longrightarrow> catalogue_ok (snd (remove_room_type h i w))"
  unfolding remove_room_type_def by (auto intro!: and_then_ok_world simp: ok_delete_type split: option.split)

lemma ok_findAll_rooms: "catalogue_ok w \<Longrightarrow> catalogue_ok (snd (findAllByHotel_rooms e h f w))"
  unfolding findAllByHotel_rooms_def
  by (intro and_then_ok_world) (auto simp: Let_def split: option.split cache_val.split prod.split)

lemma assertRoomNumberUnique_world [simp]: "snd (assertRoomNumberUnique h n x w) = w"
  by (simp add: assertRoomNumberUnique_def)

lemma assertRoomNumberUnique_ok: "assertRoomNumberUnique h n x w = ok u w' \<Longrightarrow> w' = w"
  by (auto simp: assertRoomNumberUnique_def split: if_splits)

lemma ok_create_room: "catalogue_ok w \<Longrightarrow> catalogue_ok (snd (create_room e h dto w))"
  unfolding create_room_def
  by (auto intro!: and_then_ok_world ok_insert_rooms simp: Let_def assert_simps room_row_def dest!: assertRoomNumberUnique_ok)

lemma ok_bulkCreate: "catalogue_ok w \<Longrightarrow> catalogue_ok (snd (bulkCreate e h dtos w))"
proof -
  assume ok: "catalogue_ok w"
  let ?types = "remdups (map crm_roomTypeId dtos)"
  have d: "distinct (ids (filter (\<lambda>t. ty_hotelId t = h) (room_types w)))"
    using ok by (simp add: ok_defs ids_def distinct_map_filter)
  have f: "find_all (\<lambda>t. live t \<and> entId t \<in> set ?types \<and> ty_hotelId t = h) (room_types w)
      = find_all (\<lambda>t. live t \<and> entId t \<in> set ?types) (filter (\<lambda>t. ty_hotelId t = h) (room_types w))"
    by (auto simp: find_all_def intro: filter_cong)
  have "\<exists>t \<in> set (room_types w). entId t = i \<and> ty_hotelId t = h"
    if "length (find_all (\<lambda>t. live t \<and> entId t \<in> set ?types \<and> ty_hotelId t = h) (room_types w)) = length ?types" "i \<in> set ?types" for i
  proof -
    have "by_id i (filter (\<lambda>t. ty_hotelId t = h) (room_types w)) \<noteq> None"
      using that count_live_iff [OF d, of ?types] unfolding f by blast
    then obtain t where "by_id i (filter (\<lambda>t. ty_hotelId t = h) (room_types w)) = Some t" by blast
    from by_id_Some [OF this] show ?thesis by auto
  qed
  then have "catalogue_ok (snd (insert_rooms (map (\<lambda>(n, dto). room_row e h n dto) (enumerate 0 dtos)) w))"
    if "length (find_all (\<lambda>t. live t \<and> entId t \<in> set ?types \<and> ty_hotelId t = h) (room_types w)) = length ?types"
    using that by (intro ok_insert_rooms [OF ok] ballI) (drule room_rows_simps, fastforce)
  then show ?thesis
    unfolding bulkCreate_def
    by (intro and_then_ok_world) (auto intro!: and_then_ok_world simp: Let_def ok assert_simps)
qed

lemma changes_to_spec: "patch_required f old = Inr v \<Longrightarrow> v = old \<or> v = '''' \<or> changes_to f old = Some v"
  by (cases f) (auto simp: changes_to_def)

lemma ok_update_room: "catalogue_ok w \<Longrightarrow> catalogue_ok (snd (update_room e h i dto w))"
proof -
  assume ok: "catalogue_ok w"
  have row: "catalogue_ok (snd (update_room_row r' w))"
    if r: "room_in h i w = Some r" and p: "patched_room dto r = Inr r'"
      and t: "case changes_to (urm_roomTypeId dto) (rm_roomTypeId r) of None \<Rightarrow> True
              | Some t \<Rightarrow> \<exists>y \<in> set (room_types w). live y \<and> entId y = t \<and> ty_hotelId y = h"
    for r r'
  proof (cases "rm_roomTypeId r' = ''''")
    case False
    note r = room_in_Some [OF r]
    have e: "entId r' = entId r" "rm_hotelId r' = rm_hotelId r"
      and "patch_required (urm_roomTypeId dto) (rm_roomTypeId r) = Inr (rm_roomTypeId r')"
      using p by (auto simp: patched_room_def also_needs_Inr)
    then have "rm_roomTypeId r' = rm_roomTypeId r \<or> changes_to (urm_roomTypeId dto) (rm_roomTypeId r) = Some (rm_roomTypeId r')"
      using False changes_to_spec by blast
    then have "\<exists>t \<in> set (room_types w). entId t = rm_roomTypeId r' \<and> ty_hotelId t = rm_hotelId r'"
    proof
      assume "rm_roomTypeId r' = rm_roomTypeId r"
      moreover have "\<exists>t \<in> set (room_types w). entId t = rm_roomTypeId r \<and> ty_hotelId t = rm_hotelId r"
        using ok r unfolding catalogue_ok_def rooms_ok_def by blast
      ultimately show ?thesis by (simp add: e)
    next
      assume "changes_to (urm_roomTypeId dto) (rm_roomTypeId r) = Some (rm_roomTypeId r')"
      then show ?thesis using t r e by auto
    qed
    then show ?thesis using r e by (intro ok_update_room_row [OF ok, of r]) auto
  next
    case True
    then show ?thesis using ok by (simp add: update_room_row_def)
  qed
  show ?thesis
  proof (cases "room_in h i w")
    case None
    then show ?thesis by (auto simp: update_room_def ok assert_simps intro!: and_then_ok_world)
  next
    case (Some r)
    show ?thesis
    proof (cases "patched_room dto r")
      case (Inl err)
      then show ?thesis
        using Some ok
        by (auto simp: update_room_def assert_simps intro!: and_then_ok_world dest!: assertRoomNumberUnique_ok split: option.split)
    next
      case (Inr r')
      have "catalogue_ok (snd (update_room_row r' w))"
        if "(case changes_to (urm_roomTypeId dto) (rm_roomTypeId r) of None \<Rightarrow> ok () w
             | Some t \<Rightarrow> assertRoomTypeBelongsToHotel t h w) = ok () w"
        using row [OF Some Inr] that by (auto simp: assert_simps split: option.splits)
      then show ?thesis
        using Some Inr ok unfolding update_room_def
        by (intro and_then_ok_world)
           (auto simp: assert_simps intro!: and_then_ok_world dest!: assertRoomNumberUnique_ok split: option.splits)
    qed
  qed
qed

lemma ok_remove_room: "catalogue_ok w \<Longrightarrow> catalogue_ok (snd (remove_room e h i w))"
  unfolding remove_room_def by (auto intro!: and_then_ok_world simp: ok_delete_room split: option.split)

lemma ok_create_rate: "catalogue_ok w \<Longrightarrow> catalogue_ok (snd (create_rate_option e t dto w))"
  unfolding create_rate_option_def
  by (intro and_then_ok_world) (auto simp: Let_def assert_simps intro!: ok_add_rate dest: by_id_in_ids split: sum.split)

lemma ok_update_rate: "catalogue_ok w \<Longrightarrow> catalogue_ok (snd (update_rate_option e t i dto w))"
proof -
  assume ok: "catalogue_ok w"
  have "catalogue_ok (w\<lparr>rate_options := save_row r' (rate_options w)\<rparr>)"
    if "rate_in t i w = Some r" "patched_rate e dto r = Inr r'" for r r'
    using that ok by (intro ok_save_rate [OF ok]) (auto simp: patched_rate_def also_needs_Inr ok_defs dest!: rate_in_Some)
  then show ?thesis
    unfolding update_rate_option_def
    by (intro and_then_ok_world) (auto simp: ok assert_simps split: option.split sum.split)
qed

lemma ok_remove_rate: "catalogue_ok w \<Longrightarrow> catalogue_ok (snd (remove_rate_option t i w))"
  unfolding remove_rate_option_def by (auto intro!: and_then_ok_world simp: ok_delete_rate split: option.split)

lemma assertBelongs_world [simp]: "snd (assertRateOptionBelongsToRoomType i t w) = w"
  by (simp add: assertRateOptionBelongsToRoomType_def)

lemma assertBelongs_ok:
  "assertRateOptionBelongsToRoomType i t w = ok u w' \<longleftrightarrow> w' = w \<and> (\<exists>r \<in> set (rate_options w). live r \<and> entId r = i \<and> ro_roomTypeId r = t)"
  by (auto simp: assertRateOptionBelongsToRoomType_def split: if_splits)

text \<open>What \<open>addBenefits\<close> has established when it saves its links.\<close>

lemma ok_add_links:
  assumes "catalogue_ok w" and "i \<in> set (ids (rate_options w))"
    and "length (find_all (\<lambda>b. live b \<and> entId b \<in> set bs) (benefits w)) = length bs" and "linked i bs w = []"
    and "distinct (ids (rate_option_benefits w @ benefit_links e i bs))"
  shows "catalogue_ok (w\<lparr>rate_option_benefits := rate_option_benefits w @ benefit_links e i bs\<rparr>)"
proof -
  have "distinct (ids (benefits w))" using assms(1) by (simp add: ok_defs)
  then have b: "distinct bs" "\<forall>b \<in> set bs. b \<in> set (ids (benefits w))"
    using count_live_iff [of "benefits w" bs] assms(3) by (auto dest: by_id_in_ids)
  let ?pair = "\<lambda>l. (rob_rateOptionId l, rob_benefitId l)" and ?ls = "benefit_links e i bs"
  have p: "map ?pair ?ls = map (Pair i) bs"
  proof -
    have "map ?pair ?ls = map (Pair i) (map rob_benefitId ?ls)" using links_simps(4) [of _ e i bs] by simp
    then show ?thesis by (simp add: links_simps)
  qed
  have "?pair l \<notin> Pair i ` set bs" if "l \<in> set (rate_option_benefits w)" for l
    using that assms(4) by (auto simp: linked_def find_all_def filter_empty_conv)
  moreover have "distinct (map ?pair (rate_option_benefits w))" using assms(1) by (simp add: ok_defs)
  moreover have "distinct (map (Pair i) bs)" using b(1) by (simp add: distinct_map inj_on_def)
  ultimately have "distinct (map ?pair (rate_option_benefits w) @ map (Pair i) bs)" by auto
  then have "distinct (map ?pair (rate_option_benefits w @ ?ls))" using p by simp
  then have "benefit_links_ok (w\<lparr>rate_option_benefits := rate_option_benefits w @ ?ls\<rparr>)"
  proof -
    assume d: "distinct (map ?pair (rate_option_benefits w @ ?ls))"
    have "rob_rateOptionId l \<in> set (ids (rate_options w)) \<and> rob_benefitId l \<in> set (ids (benefits w))" if "l \<in> set ?ls" for l
      using that assms(2) b(2) links_simps(4) [OF that] arg_cong [OF links_simps(3) [of e i bs], of set] by auto
    then show ?thesis using d assms(1,5) by (auto simp: ok_defs)
  qed
  then show ?thesis
    using assms(1) by (simp add: catalogue_ok_def keys_ok_def types_ok_def rooms_ok_def rates_ok_def characteristic_links_ok_def stays_ok_def)
qed

lemma ok_addBenefits: "catalogue_ok w \<Longrightarrow> catalogue_ok (snd (addBenefits e t i bs w))"
  unfolding addBenefits_def
  by (intro and_then_ok_world) (auto simp: Let_def assertBelongs_ok ids_def intro!: ok_add_links)

lemma ok_removeBenefits: "catalogue_ok w \<Longrightarrow> catalogue_ok (snd (removeBenefits t i bs w))"
  unfolding removeBenefits_def
  by (intro and_then_ok_world) (auto simp: assertBelongs_ok intro!: ok_delete_links)

lemma sample_world_ok: "catalogue_ok sample_world"
  by (simp add: ok_defs sample_defs)

end
