(* ===== verification/Catalogue_System.thy ===== *)
theory Catalogue_System
  imports Catalogue_Facts
begin

text \<open>
  The catalogue under any sequence of calls of its services and of the booking service.
\<close>

section \<open>Bookings\<close>

lemma ok_create_commit: "catalogue_ok w \<Longrightarrow> catalogue_ok (snd (create_commit env ps cu w))"
  by (auto simp: create_commit_def insert_booking_rooms_def ok_defs split: sum.split option.split if_splits)

lemma findOneOrFail_world [simp]: "snd (findOneOrFail i cu w) = w"
  by (simp add: findOneOrFail_def split: option.split)

lemma ok_create: "catalogue_ok w \<Longrightarrow> catalogue_ok (snd (create env items cu w))"
  unfolding create_def by (auto intro!: and_then_ok_world ok_create_commit split: sum.split)

lemma ok_set_room_status: "catalogue_ok w \<Longrightarrow> catalogue_ok (snd (set_room_status st is w))"
  by (simp add: set_room_status_def ok_room_status)

lemma ok_bookings [simp]: "catalogue_ok (w\<lparr>bookings := bs\<rparr>) = catalogue_ok w"
  by (simp add: ok_defs)

lemma ok_patchStatus: "catalogue_ok w \<Longrightarrow> catalogue_ok (snd (patchStatus i new cu w))"
  unfolding patchStatus_def Let_def
  by (auto intro!: and_then_ok_world simp: ok_set_room_status split: option.split)

section \<open>Steps\<close>

inductive shop_step :: "world \<Rightarrow> world \<Rightarrow> bool" where
  "shop_step w (snd (create_hotel e hc cu w))"
| "shop_step w (snd (findAll_hotels e hf caller w))"
| "shop_step w (snd (findOne_hotel e i caller w))"
| "shop_step w (snd (update_hotel e i hu cu w))"
| "shop_step w (snd (remove_hotel e i cu w))"
| "shop_step w (snd (create_room_type e h tc w))"
| "shop_step w (snd (update_room_type e h i tu w))"
| "shop_step w (snd (remove_room_type h i w))"
| "shop_step w (snd (findAllByHotel_rooms e h rf w))"
| "shop_step w (snd (create_room e h rc w))"
| "shop_step w (snd (bulkCreate e h rcs w))"
| "shop_step w (snd (update_room e h i ru w))"
| "shop_step w (snd (remove_room e h i w))"
| "shop_step w (snd (create_rate_option e t oc w))"
| "shop_step w (snd (update_rate_option e t i ou w))"
| "shop_step w (snd (remove_rate_option t i w))"
| "shop_step w (snd (addBenefits e t i bs w))"
| "shop_step w (snd (removeBenefits t i bs w))"
| "shop_step w (snd (create env items cu w))"
| "shop_step w (snd (patchStatus i new cu w))"

inductive_cases shop_stepE: "shop_step w w'"

lemmas operation_ok =
  ok_create_hotel ok_findAll_hotels ok_findOne_hotel ok_update_hotel ok_remove_hotel ok_create_type ok_update_type
  ok_remove_type ok_findAll_rooms ok_create_room ok_bulkCreate ok_update_room ok_remove_room ok_create_rate
  ok_update_rate ok_remove_rate ok_addBenefits ok_removeBenefits ok_create ok_patchStatus

lemma shop_step_ok: "shop_step w w' \<Longrightarrow> catalogue_ok w \<Longrightarrow> catalogue_ok w'"
  by (induction rule: shop_step.induct) (rule operation_ok, assumption)+

lemma shop_steps_ok: "shop_step\<^sup>*\<^sup>* w w' \<Longrightarrow> catalogue_ok w \<Longrightarrow> catalogue_ok w'"
  by (induction rule: rtranclp_induct) (blast intro: shop_step_ok)+

section \<open>Stays are never lost\<close>

lemma frame_stays [simp]:
  "booking_rooms (invalidateHotelLists now w) = booking_rooms w" "booking_rooms (invalidateRoomLists h now w) = booking_rooms w"
  "booking_rooms (forget_hotel now i w) = booking_rooms w" "booking_rooms (cache_set k v ttl now w) = booking_rooms w"
  "booking_rooms (register_key reg k ttl now w) = booking_rooms w"
  by (simp_all add: invalidateHotelLists_def invalidateRoomLists_def forget_hotel_def cache_set_def cache_del_def register_key_def Let_def)

definition keeps_stays :: "world \<Rightarrow> world \<Rightarrow> bool" where
  "keeps_stays w w' \<longleftrightarrow> set (booking_rooms w) \<subseteq> set (booking_rooms w')"

lemma keeps_refl [simp]: "keeps_stays w w"
  by (simp add: keeps_stays_def)

lemma and_then_keeps:
  assumes "keeps_stays w (snd r)" and "\<And>x w1. r = ok x w1 \<Longrightarrow> keeps_stays w w1 \<Longrightarrow> keeps_stays w (snd (k x w1))"
  shows "keeps_stays w (snd (and_then r k))"
  using and_then_snd [of "keeps_stays w"] assms by blast

lemma keeps_eq: "booking_rooms w' = booking_rooms w \<Longrightarrow> keeps_stays w w'"
  by (simp add: keeps_stays_def)

lemma keeps_frames:
  "booking_rooms (snd (insert_rooms rs w)) = booking_rooms w" "booking_rooms (snd (update_room_row r w)) = booking_rooms w"
  "booking_rooms (snd (delete_hotel i w)) = booking_rooms w" "booking_rooms (snd (delete_room_type i w)) = booking_rooms w"
  "booking_rooms (snd (delete_room i w)) = booking_rooms w" "booking_rooms (snd (delete_rate_option i w)) = booking_rooms w"
  "booking_rooms (snd (syncCharacteristics e t is w)) = booking_rooms w" "booking_rooms (snd (set_room_status st is w)) = booking_rooms w"
  by (simp_all add: insert_rooms_def update_room_row_def delete_hotel_def delete_room_type_def delete_room_def
      delete_rate_option_def syncCharacteristics_def set_room_status_def Let_def)

lemma and_then_stays:
  assumes "booking_rooms (snd r) = booking_rooms w"
    and "\<And>x w1. r = ok x w1 \<Longrightarrow> booking_rooms w1 = booking_rooms w \<Longrightarrow> booking_rooms (snd (k x w1)) = booking_rooms w"
  shows "booking_rooms (snd (and_then r k)) = booking_rooms w"
  using and_then_snd [of "\<lambda>v. booking_rooms v = booking_rooms w"] assms by blast

named_theorems op_defs \<open>the operations of the catalogue\<close>

lemmas [op_defs] =
  create_hotel_def findAll_hotels_def findOne_hotel_def update_hotel_def remove_hotel_def create_room_type_def
  update_room_type_def remove_room_type_def findAllByHotel_rooms_def create_room_def bulkCreate_def update_room_def
  remove_room_def create_rate_option_def update_rate_option_def remove_rate_option_def addBenefits_def removeBenefits_def

lemma assertAdmin_world [simp]: "snd (assertAdmin cu w) = w"
  by (simp add: assertAdmin_def)

lemma catalogue_stays:
  "booking_rooms (snd (create_hotel e hc cu w)) = booking_rooms w"
  "booking_rooms (snd (findAll_hotels e hf caller w)) = booking_rooms w"
  "booking_rooms (snd (findOne_hotel e i caller w)) = booking_rooms w"
  "booking_rooms (snd (update_hotel e i hu cu w)) = booking_rooms w"
  "booking_rooms (snd (remove_hotel e i cu w)) = booking_rooms w"
  "booking_rooms (snd (create_room_type e h tc w)) = booking_rooms w"
  "booking_rooms (snd (update_room_type e h i tu w)) = booking_rooms w"
  "booking_rooms (snd (remove_room_type h i w)) = booking_rooms w"
  "booking_rooms (snd (findAllByHotel_rooms e h rf w)) = booking_rooms w"
  "booking_rooms (snd (create_room e h rc w)) = booking_rooms w"
  "booking_rooms (snd (bulkCreate e h rcs w)) = booking_rooms w"
  "booking_rooms (snd (update_room e h i ru w)) = booking_rooms w"
  "booking_rooms (snd (remove_room e h i w)) = booking_rooms w"
  "booking_rooms (snd (create_rate_option e t oc w)) = booking_rooms w"
  "booking_rooms (snd (update_rate_option e t i ou w)) = booking_rooms w"
  "booking_rooms (snd (remove_rate_option t i w)) = booking_rooms w"
  "booking_rooms (snd (addBenefits e t i bs w)) = booking_rooms w"
  "booking_rooms (snd (removeBenefits t i bs w)) = booking_rooms w"
  unfolding op_defs Let_def
  by (auto intro!: and_then_stays simp: keeps_frames hotel_registerListKey_def room_registerListKey_def
      split: option.split sum.split cache_val.split prod.split field.split)

lemma booking_stays:
  "keeps_stays w (snd (create env items cu w))" "keeps_stays w (snd (patchStatus i new cu w))"
proof -
  have "keeps_stays w (snd (create_commit env ps cu w))" for ps
    by (auto simp: create_commit_def keeps_stays_def split: sum.split option.split)
  then show "keeps_stays w (snd (create env items cu w))"
    unfolding create_def by (auto intro!: and_then_keeps split: sum.split)
  show "keeps_stays w (snd (patchStatus i new cu w))"
    unfolding patchStatus_def Let_def
    by (auto intro!: keeps_eq and_then_stays simp: keeps_frames split: option.split)
qed

lemma shop_step_keeps: "shop_step w w' \<Longrightarrow> keeps_stays w w'"
  by (induction rule: shop_step.induct) (simp_all add: catalogue_stays booking_stays keeps_eq)

lemma shop_steps_keep: "shop_step\<^sup>*\<^sup>* w w' \<Longrightarrow> keeps_stays w w'"
proof (induction rule: rtranclp_induct)
  case base
  show ?case by simp
next
  case (step v u)
  then show ?case using shop_step_keeps [of v u] unfolding keeps_stays_def by blast
qed

section \<open>Properties\<close>

text \<open>C7: The catalogue is well formed in every world the services can reach: keys are unique, what a row refers to exists,
  no two rooms of a hotel share a number, and the type of a room belongs to the hotel of the room - the last of these
  without any help of the database.\<close>

theorem catalogue_consistent:
  assumes "catalogue_ok w" and "shop_step\<^sup>*\<^sup>* w w'"
  shows "catalogue_ok w'"
  using shop_steps_ok assms by blast

text \<open>C8: A booked stay is never lost and never loses its room: whatever is created, changed and removed afterwards, the
  room, its type, the hotel and the rate of the stay are still there.\<close>

theorem stays_keep_their_room:
  assumes "catalogue_ok w" and "shop_step\<^sup>*\<^sup>* w w'" and "s \<in> set (booking_rooms w)"
  shows "s \<in> set (booking_rooms w') \<and>
     (\<exists>r \<in> set (rooms w'). \<exists>t \<in> set (room_types w'). \<exists>h \<in> set (hotels w'). \<exists>q \<in> set (rate_options w').
        entId r = br_roomId s \<and> entId t = rm_roomTypeId r \<and> entId h = ty_hotelId t \<and> rm_hotelId r = entId h \<and> entId q = br_rateOptionId s)"
proof -
  have s: "s \<in> set (booking_rooms w')" using shop_steps_keep [OF assms(2)] assms(3) by (auto simp: keeps_stays_def)
  have ok: "catalogue_ok w'" using assms shop_steps_ok by blast
  from s ok have "br_roomId s \<in> set (ids (rooms w'))" "br_rateOptionId s \<in> set (ids (rate_options w'))"
    unfolding catalogue_ok_def stays_ok_def by blast+
  then obtain r q where r: "r \<in> set (rooms w')" "entId r = br_roomId s" and q: "q \<in> set (rate_options w')" "entId q = br_rateOptionId s"
    unfolding in_ids by blast
  from r(1) ok obtain t where t: "t \<in> set (room_types w')" "entId t = rm_roomTypeId r" "ty_hotelId t = rm_hotelId r"
    unfolding catalogue_ok_def rooms_ok_def by blast
  from t(1) ok have "ty_hotelId t \<in> set (ids (hotels w'))" unfolding catalogue_ok_def types_ok_def by blast
  then obtain h where "h \<in> set (hotels w')" "entId h = ty_hotelId t" unfolding in_ids by blast
  with s r q t show ?thesis by metis
qed

section \<open>Examples\<close>

definition booked_world :: world where
  "booked_world = sample_world\<lparr>booking_rooms := [sample_stay ''s1'' ''b1'' ''rm1'' 20000 20002]\<rparr>"

lemma booked_world_ok: "catalogue_ok booked_world"
  by (simp add: booked_world_def ok_defs sample_defs)

theorem catalogue_consistent_witness:
  "let w' = snd (create_room (shop 5 ''rm3'') ''h1'' \<lparr>crm_roomTypeId = ''ty1'', crm_roomNumber = ''103'', crm_floorNumber = 1, crm_status = AVAILABLE\<rparr> sample_world)
   in length (rooms w') = 3 \<and> catalogue_ok w'"
proof -
  let ?w = "snd (create_room (shop 5 ''rm3'') ''h1'' \<lparr>crm_roomTypeId = ''ty1'', crm_roomNumber = ''103'', crm_floorNumber = 1, crm_status = AVAILABLE\<rparr> sample_world)"
  have "shop_step\<^sup>*\<^sup>* sample_world ?w" by (rule r_into_rtranclp) (rule shop_step.intros)
  from catalogue_consistent [OF sample_world_ok this] have "catalogue_ok ?w" .
  moreover have "length (rooms ?w) = 3" by code_simp
  ultimately show ?thesis unfolding Let_def by blast
qed

theorem stays_keep_their_room_witness:
  "let w' = snd (remove_room (shop 5 '''') ''h1'' ''rm1'' booked_world)
   in \<exists>r \<in> set (rooms w'). entId r = ''rm1''"
proof -
  let ?w = "snd (remove_room (shop 5 '''') ''h1'' ''rm1'' booked_world)"
  have "shop_step\<^sup>*\<^sup>* booked_world ?w" by (rule r_into_rtranclp) (rule shop_step.intros)
  from stays_keep_their_room [OF booked_world_ok this, of "sample_stay ''s1'' ''b1'' ''rm1'' 20000 20002"]
  show ?thesis unfolding Let_def by (auto simp: booked_world_def sample_stay_def)
qed

end
