(* ===== verification/Rate_Facts.thy ===== *)
theory Rate_Facts
  imports Catalogue_Facts Hotel_Facts Booking_Facts
begin

text \<open>
  The benefits of the rates as a function from rates to sets: \<open>addBenefits\<close> and \<open>removeBenefits\<close> refine union and
  difference.  The rest of the theory is about what a change of a rate does not do: the cached details of the hotel keep
  the old price, and a partial body need not keep the rules of a full one.
\<close>

section \<open>The abstract links\<close>

definition abs_links :: "world \<Rightarrow> uuid \<Rightarrow> uuid set" where
  "abs_links w i = rob_benefitId ` {l \<in> set (rate_option_benefits w). rob_rateOptionId l = i}"

definition live_benefits :: "world \<Rightarrow> uuid set" where
  "live_benefits w = {b. by_id b (benefits w) \<noteq> None}"

definition link :: "uuid \<Rightarrow> uuid list \<Rightarrow> uuid set \<Rightarrow> (uuid \<Rightarrow> uuid set) \<Rightarrow> (uuid \<Rightarrow> uuid set) option" where
  "link i bs known m =
     (if distinct bs \<and> set bs \<subseteq> known \<and> set bs \<inter> m i = {} then Some (m(i := m i \<union> set bs)) else None)"

definition unlink :: "uuid \<Rightarrow> uuid list \<Rightarrow> (uuid \<Rightarrow> uuid set) \<Rightarrow> (uuid \<Rightarrow> uuid set) option" where
  "unlink i bs m = (if distinct bs \<and> set bs \<subseteq> m i then Some (m(i := m i - set bs)) else None)"

text \<open>What a call leaves behind, seen through the abstraction; nothing when it throws.\<close>

definition observed :: "('a, world) result \<Rightarrow> (uuid \<Rightarrow> uuid set) option" where
  "observed r = (if succeeds r then Some (abs_links (snd r)) else None)"

lemma linked_Nil: "linked i bs w = [] \<longleftrightarrow> set bs \<inter> abs_links w i = {}"
  by (auto simp: linked_def find_all_def filter_empty_conv abs_links_def)

lemma linked_count:
  assumes "benefit_links_ok w"
  shows "length (linked i bs w) = length bs \<longleftrightarrow> distinct bs \<and> set bs \<subseteq> abs_links w i"
proof -
  let ?rs = "filter (\<lambda>l. rob_rateOptionId l = i) (rate_option_benefits w)"
  have "distinct (map (\<lambda>l. (rob_rateOptionId l, rob_benefitId l)) ?rs)"
    using assms by (simp add: benefit_links_ok_def distinct_map_filter)
  then have "distinct (map rob_benefitId ?rs)"
    by (auto simp: distinct_map inj_on_def)
  from count_by_key_iff [OF this, of bs]
  have "length (filter (\<lambda>l. rob_benefitId l \<in> set bs) ?rs) = length bs \<longleftrightarrow> distinct bs \<and> set bs \<subseteq> rob_benefitId ` set ?rs" .
  moreover have "filter (\<lambda>l. rob_benefitId l \<in> set bs) ?rs = linked i bs w"
    by (simp add: linked_def find_all_def conj_commute)
  moreover have "rob_benefitId ` set ?rs = abs_links w i" by (auto simp: abs_links_def)
  ultimately show ?thesis by simp
qed

lemma abs_links_added:
  "abs_links (w\<lparr>rate_option_benefits := rate_option_benefits w @ benefit_links e i bs\<rparr>) = (abs_links w)(i := abs_links w i \<union> set bs)"
proof
  fix j
  have "rob_benefitId ` {l \<in> set (benefit_links e i bs). rob_rateOptionId l = j} = (if j = i then set bs else {})"
  proof -
    have "{l \<in> set (benefit_links e i bs). rob_rateOptionId l = j} = (if j = i then set (benefit_links e i bs) else {})"
      using links_simps(4) [of _ e i bs] by auto
    then show ?thesis using arg_cong [OF links_simps(3) [of e i bs], of set] by simp
  qed
  then have "abs_links (w\<lparr>rate_option_benefits := rate_option_benefits w @ benefit_links e i bs\<rparr>) j
      = abs_links w j \<union> (if j = i then set bs else {})"
    by (auto simp: abs_links_def image_Un conj_disj_distribR Collect_disj_eq)
  then show "abs_links (w\<lparr>rate_option_benefits := rate_option_benefits w @ benefit_links e i bs\<rparr>) j
      = ((abs_links w)(i := abs_links w i \<union> set bs)) j" by simp
qed

lemma delete_linked:
  assumes "distinct (ids (rate_option_benefits w))"
  shows "delete_where (\<lambda>l. entId l \<in> set (ids (linked i bs w))) (rate_option_benefits w)
     = delete_where (\<lambda>l. rob_rateOptionId l = i \<and> rob_benefitId l \<in> set bs) (rate_option_benefits w)"
proof -
  have "entId l \<in> set (ids (linked i bs w)) \<longleftrightarrow> rob_rateOptionId l = i \<and> rob_benefitId l \<in> set bs"
    if "l \<in> set (rate_option_benefits w)" for l
  proof -
    have "x = l" if "x \<in> set (rate_option_benefits w)" "entId x = entId l" for x
      using distinct_ids_unique [OF assms that(1) \<open>l \<in> set (rate_option_benefits w)\<close> that(2)] .
    then show ?thesis using that unfolding linked_def in_ids set_find_all by blast
  qed
  then show ?thesis unfolding delete_where_def by (intro filter_cong) auto
qed

lemma abs_links_removed:
  "abs_links (w\<lparr>rate_option_benefits := delete_where (\<lambda>l. rob_rateOptionId l = i \<and> rob_benefitId l \<in> set bs) (rate_option_benefits w)\<rparr>)
   = (abs_links w)(i := abs_links w i - set bs)"
  by (rule ext) (auto simp: abs_links_def)

lemma rate_in_by_id: "rate_in t i w = Some r \<Longrightarrow> by_id i (rate_options w) \<noteq> None"
  by (auto simp: by_id_def find_one_None dest!: rate_in_Some)

lemma belongs:
  "rate_in t i w \<noteq> None \<Longrightarrow> assertRateOptionBelongsToRoomType i t w = ok () w"
  by (auto simp: assertRateOptionBelongsToRoomType_def rate_in_def find_one_None)

lemma addBenefits_observed:
  assumes "catalogue_ok w" and "rate_in t i w \<noteq> None" and "distinct (ids (rate_option_benefits w @ benefit_links e i bs))"
  shows "observed (addBenefits e t i bs w) = link i bs (live_benefits w) (abs_links w)"
proof -
  have d: "distinct (ids (benefits w))" using assms(1) by (simp add: ok_defs)
  have c: "length (find_all (\<lambda>b. live b \<and> entId b \<in> set bs) (benefits w)) = length bs
      \<longleftrightarrow> distinct bs \<and> set bs \<subseteq> live_benefits w"
    using count_live_iff [OF d, of bs] by (auto simp: live_benefits_def)
  obtain r where "by_id i (rate_options w) = Some r" using assms(2) rate_in_by_id by blast
  then have v: "findOneOrFail_rate i (w\<lparr>rate_option_benefits := ls\<rparr>)
      = ok (rate_view_of (w\<lparr>rate_option_benefits := ls\<rparr>) r) (w\<lparr>rate_option_benefits := ls\<rparr>)" for ls
    by (simp add: findOneOrFail_rate_def)
  show ?thesis
    using assms(3)
    by (simp add: addBenefits_def belongs [OF assms(2)] c linked_Nil Let_def v observed_def link_def abs_links_added)
qed

lemma removeBenefits_observed:
  assumes "catalogue_ok w" and "rate_in t i w \<noteq> None"
  shows "observed (removeBenefits t i bs w) = unlink i bs (abs_links w)"
proof -
  have b: "benefit_links_ok w" "distinct (ids (rate_option_benefits w))" using assms(1) by (simp_all add: ok_defs)
  obtain r where "by_id i (rate_options w) = Some r" using assms(2) rate_in_by_id by blast
  then have v: "findOneOrFail_rate i (w\<lparr>rate_option_benefits := ls\<rparr>)
      = ok (rate_view_of (w\<lparr>rate_option_benefits := ls\<rparr>) r) (w\<lparr>rate_option_benefits := ls\<rparr>)" for ls
    by (simp add: findOneOrFail_rate_def)
  show ?thesis
    by (simp add: removeBenefits_def belongs [OF assms(2)] linked_count [OF b(1)] v observed_def unlink_def
        delete_linked [OF b(2)] abs_links_removed)
qed

text \<open>C21: The link table implements a set of benefits for each rate: adding is union, refused unless the benefits exist, are
  named once and are all new; removing is difference, refused unless all are there.  The other rates are untouched.\<close>

theorem benefits_refine_sets:
  assumes "catalogue_ok w" and "rate_in t i w \<noteq> None" and "distinct (ids (rate_option_benefits w @ benefit_links e i bs))"
  shows "observed (addBenefits e t i bs w) = link i bs (live_benefits w) (abs_links w)
    \<and> observed (removeBenefits t i bs w) = unlink i bs (abs_links w)"
  using addBenefits_observed [OF assms] removeBenefits_observed [OF assms(1,2)] by blast

text \<open>Benefits that were added can be removed again, and then the table of links is what it was, row by row.\<close>

theorem add_remove_benefits:
  assumes "catalogue_ok w" and "addBenefits e t i bs w = ok v w1"
  shows "\<exists>v' w2. removeBenefits t i bs w1 = ok v' w2 \<and> rate_option_benefits w2 = rate_option_benefits w"
proof -
  have b: "assertRateOptionBelongsToRoomType i t w = ok () w"
    using assms(2) by (cases "assertRateOptionBelongsToRoomType i t w" rule: result_cases) (auto simp: addBenefits_def assertBelongs_ok)
  let ?w = "w\<lparr>rate_option_benefits := rate_option_benefits w @ benefit_links e i bs\<rparr>"
  have g: "linked i bs w = []" "distinct (ids (rate_option_benefits w @ benefit_links e i bs))" "distinct bs"
    "findOneOrFail_rate i ?w = ok v w1"
    using assms(2) by (auto simp: addBenefits_def b Let_def split: if_splits)
  have w1: "w1 = ?w" using g(4) findOneOrFail_worlds(2) [of i ?w] by simp
  have ok1: "catalogue_ok w1" using ok_addBenefits [OF assms(1), of e t i bs] assms(2) by simp
  have b1: "assertRateOptionBelongsToRoomType i t w1 = ok () w1"
    using b unfolding assertBelongs_ok w1 by simp
  have "set bs \<subseteq> abs_links w1 i" by (simp add: w1 abs_links_added)
  then have n: "length (linked i bs w1) = length bs"
    using linked_count [of w1 i bs] ok1 g(3) by (simp add: catalogue_ok_def)
  have keep: "delete_where (\<lambda>l. rob_rateOptionId l = i \<and> rob_benefitId l \<in> set bs) (rate_option_benefits w) = rate_option_benefits w"
    using g(1) by (auto simp: delete_where_def linked_def find_all_def filter_empty_conv filter_id_conv)
  have gone: "delete_where (\<lambda>l. rob_rateOptionId l = i \<and> rob_benefitId l \<in> set bs) (benefit_links e i bs) = []"
    using links_simps(4) [of _ e i bs] arg_cong [OF links_simps(3) [of e i bs], of set]
    by (auto simp: delete_where_def filter_empty_conv)
  have del: "delete_where (\<lambda>l. entId l \<in> set (ids (linked i bs w1))) (rate_option_benefits w1) = rate_option_benefits w"
    using delete_linked [of w1 i bs] g(2) keep gone by (simp add: w1 delete_where_def)
  obtain r where "by_id i (rate_options w1) = Some r"
    using g(4) by (auto simp: findOneOrFail_rate_def w1 split: option.splits)
  then show ?thesis
    using b1 n del by (simp add: removeBenefits_def findOneOrFail_rate_def)
qed

section \<open>What a change of a rate does not do\<close>

lemma update_rate_ok:
  assumes "update_rate_option e t i dto w = ok v w'"
  obtains r r' where "rate_in t i w = Some r" "patched_rate e dto r = Inr r'"
    "w' = w\<lparr>rate_options := save_row r' (rate_options w)\<rparr>" "by_id i (rate_options w') = Some (rtv_rate v)"
proof -
  have a: "assertRoomTypeExists t w = ok () w"
    using assms by (cases "assertRoomTypeExists t w" rule: result_cases) (auto simp: update_rate_option_def assert_simps)
  obtain r r' where r: "rate_in t i w = Some r" "patched_rate e dto r = Inr r'"
    and f: "findOneOrFail_rate i (w\<lparr>rate_options := save_row r' (rate_options w)\<rparr>) = ok v w'"
    using assms by (auto simp: update_rate_option_def a split: option.splits sum.splits)
  from f have "w' = w\<lparr>rate_options := save_row r' (rate_options w)\<rparr>" "by_id i (rate_options w') = Some (rtv_rate v)"
    by (auto simp: findOneOrFail_rate_def rate_view_of_def split: option.splits)
  with r that show thesis by blast
qed

lemma prepare_room_rate:
  assumes "prepare_room w x = Inr p"
  shows "\<exists>r. r \<in> set (rate_options w) \<and> entId r = i_rateOptionId x \<and> pr_pricePerNight p = ro_pricePerNight r"
proof (rule prepare_room_Inr [OF assms])
  fix rm ro
  assume f: "find_one (\<lambda>r. live r \<and> entId r = i_rateOptionId x \<and> ro_roomTypeId r = rm_roomTypeId rm) (rate_options w) = Some ro"
    and p: "p = \<lparr>pr_roomId = i_roomId x, pr_rateOptionId = i_rateOptionId x, pr_checkInDate = i_checkInDate x,
      pr_checkOutDate = i_checkOutDate x, pr_guestCount = i_guestCount x, pr_pricePerNight = ro_pricePerNight ro\<rparr>"
  show ?thesis using find_one_Some [OF f] by (intro exI [of _ ro]) (simp add: p)
qed

text \<open>A guest who has looked at a hotel is shown its old price after the rate was changed, as long as the detail is
  cached, while a booking of that rate is charged at the new one.\<close>

theorem stale_price:
  assumes "catalogue_ok w" and "cache_get (sh_now e) (HotelDetailKey False h) w = None"
    and "findOne_hotel e h None w = ok v w1" and "update_rate_option a t i dto w1 = ok r w2"
    and "sh_now e' < sh_now e + sh_ttl e"
  shows "findOne_hotel e' h None w2 = ok v w2
    \<and> (i_rateOptionId item = i \<longrightarrow> prepare_room w2 item = Inr p \<longrightarrow> pr_pricePerNight p = ro_pricePerNight (rtv_rate r))"
proof -
  have w1: "w1 = cache_set (HotelDetailKey False h) (VHotel v) (sh_ttl e) (sh_now e) w"
    using assms(2,3) by (auto simp: findOne_hotel_def Let_def caller_is_admin_def split: option.splits)
  obtain r0 r' where w2: "w2 = w1\<lparr>rate_options := save_row r' (rate_options w1)\<rparr>" "by_id i (rate_options w2) = Some (rtv_rate r)"
    using update_rate_ok [OF assms(4)] by metis
  have "cache_get (sh_now e') (HotelDetailKey False h) w2 = Some (VHotel v)"
    using assms(5) by (simp add: w2 w1 cache_get_def cache_set_def)
  then have shown: "findOne_hotel e' h None w2 = ok v w2"
    by (simp add: findOne_hotel_def Let_def caller_is_admin_def)
  have "catalogue_ok w2" using ok_update_rate [of w1 a t i dto] assms(1,4) w1 by simp
  then have d: "distinct (ids (rate_options w2))" by (simp add: ok_defs)
  have "pr_pricePerNight p = ro_pricePerNight (rtv_rate r)" if "i_rateOptionId item = i" "prepare_room w2 item = Inr p"
  proof -
    from prepare_room_rate [OF that(2)] that(1)
    obtain ro where ro: "ro \<in> set (rate_options w2)" "entId ro = i" and p: "pr_pricePerNight p = ro_pricePerNight ro" by blast
    have "rtv_rate r \<in> set (rate_options w2)" "entId (rtv_rate r) = i" using by_id_Some [OF w2(2)] by blast+
    then have "ro = rtv_rate r" using distinct_ids_unique [OF d ro(1)] ro(2) by simp
    then show ?thesis using p by simp
  qed
  then show ?thesis using shown by blast
qed

definition deadline_given :: "rate_option \<Rightarrow> bool" where
  "deadline_given r \<longleftrightarrow>
     (if List.member DEADLINE_REQUIRED_POLICIES (ro_cancellationPolicy r)
      then (case ro_deadlineHours r of None \<Rightarrow> False | Some n \<Rightarrow> 1 \<le> n) else True)"

definition only_policy :: "cancellation_policy \<Rightarrow> update_rate_option_dto" where
  "only_policy p =
     \<lparr>uo_name = Undef, uo_description = Undef, uo_pricePerNight = Undef, uo_currency = Undef, uo_isRefundable = Undef,
      uo_cancellationPolicy = Val p, uo_deadlineHours = Undef\<rparr>"

text \<open>A rate that is created has a deadline when its policy needs one.  A change of the policy alone passes the validation
  and leaves the rate with a policy that needs a deadline and without one.\<close>

theorem partial_body_loses_deadline:
  assumes "catalogue_ok w" and "rate_in t i w = Some r" and "ro_deadlineHours r = None" and "by_id t (room_types w) \<noteq> None"
  shows "(valid_create_rate_option c \<longrightarrow> create_rate_option e t c w = ok v w' \<longrightarrow> deadline_given (rtv_rate v))
    \<and> valid_update_rate_option (only_policy FREE_CANCELLATION_UNTIL_DEADLINE)
    \<and> (\<exists>u w2. update_rate_option e t i (only_policy FREE_CANCELLATION_UNTIL_DEADLINE) w = ok u w2 \<and> \<not> deadline_given (rtv_rate u))"
proof -
  have a: "assertRoomTypeExists t w = ok () w" using assms(4) by (simp add: assert_simps)
  have "deadline_given (rtv_rate v)" if "valid_create_rate_option c" "create_rate_option e t c w = ok v w'"
    using that
    by (auto simp: create_rate_option_def a Let_def findOneOrFail_rate_def rate_view_of_def deadline_given_def
        valid_create_rate_option_def to_int4_option_def to_int4_def by_id_def find_one_append live_def in_ids
        split: sum.splits option.splits if_splits dest: find_one_Some)
  moreover have "valid_update_rate_option (only_policy FREE_CANCELLATION_UNTIL_DEADLINE)"
    by (simp add: valid_update_rate_option_def only_policy_def)
  moreover have "\<exists>u w2. update_rate_option e t i (only_policy FREE_CANCELLATION_UNTIL_DEADLINE) w = ok u w2 \<and> \<not> deadline_given (rtv_rate u)"
  proof -
    let ?r = "r\<lparr>ro_cancellationPolicy := FREE_CANCELLATION_UNTIL_DEADLINE\<rparr>"
    let ?w = "w\<lparr>rate_options := save_row ?r (rate_options w)\<rparr>"
    have p: "patched_rate e (only_policy FREE_CANCELLATION_UNTIL_DEADLINE) r = Inr ?r"
      using assms(3) by (simp add: patched_rate_def only_policy_def to_int4_option_def)
    note r = rate_in_Some [OF assms(2)]
    have d: "distinct (ids (rate_options w))" using assms(1) by (simp add: ok_defs)
    have "by_id i (rate_options w) = Some r" using by_id_eq [OF d, of r] r by auto
    then have "by_id i (rate_options ?w) = Some ?r" using r by (simp add: by_id_save_row live_def)
    then show ?thesis
      using assms(2,3) p
      by (simp add: update_rate_option_def a findOneOrFail_rate_def rate_view_of_def deadline_given_def DEADLINE_REQUIRED_POLICIES_def)
  qed
  ultimately show ?thesis by blast
qed

section \<open>Examples\<close>

definition sample_benefit :: "uuid \<Rightarrow> string \<Rightarrow> benefit" where
  "sample_benefit i n = \<lparr>entId = i, createdAt = 0, deletedAt = None, be_name = n, be_description = None\<rparr>"

definition perks_world :: world where
  "perks_world = sample_world\<lparr>benefits := [sample_benefit ''be1'' ''Breakfast'', sample_benefit ''be2'' ''Spa'']\<rparr>"

lemma perks_world_ok: "catalogue_ok perks_world"
  by (simp add: ok_defs perks_world_def sample_benefit_def sample_defs)

lemma perks_rate: "rate_in ''ty1'' ''ro1'' perks_world = Some sample_rate"
  by (simp add: rate_in_def perks_world_def sample_defs live_def)

theorem benefits_refine_sets_witness:
  "observed (addBenefits (shop 5 ''l'') ''ty1'' ''ro1'' [''be1'', ''be2''] perks_world)
     = link ''ro1'' [''be1'', ''be2''] (live_benefits perks_world) (abs_links perks_world)
   \<and> abs_links (snd (addBenefits (shop 5 ''l'') ''ty1'' ''ro1'' [''be1'', ''be2''] perks_world)) ''ro1'' = {''be1'', ''be2''}"
proof -
  have r: "rate_in ''ty1'' ''ro1'' perks_world \<noteq> None" by (simp add: perks_rate)
  have d: "distinct (ids (rate_option_benefits perks_world @ benefit_links (shop 5 ''l'') ''ro1'' [''be1'', ''be2'']))" by code_simp
  have "observed (addBenefits (shop 5 ''l'') ''ty1'' ''ro1'' [''be1'', ''be2''] perks_world)
     = link ''ro1'' [''be1'', ''be2''] (live_benefits perks_world) (abs_links perks_world)"
    using benefits_refine_sets [OF perks_world_ok r d] by blast
  moreover have "rob_benefitId ` {l \<in> set (rate_option_benefits (snd (addBenefits (shop 5 ''l'') ''ty1'' ''ro1'' [''be1'', ''be2''] perks_world))).
      rob_rateOptionId l = ''ro1''} = {''be1'', ''be2''}" by code_simp
  ultimately show ?thesis by (simp add: abs_links_def)
qed

theorem add_remove_benefits_witness:
  "let w1 = snd (addBenefits (shop 5 ''l'') ''ty1'' ''ro1'' [''be1'', ''be2''] perks_world)
   in length (rate_option_benefits w1) = 2 \<and> (\<exists>v' w2. removeBenefits ''ty1'' ''ro1'' [''be1'', ''be2''] w1 = ok v' w2 \<and> rate_option_benefits w2 = [])"
proof -
  let ?r = "addBenefits (shop 5 ''l'') ''ty1'' ''ro1'' [''be1'', ''be2''] perks_world"
  have "succeeds ?r" by code_simp
  then have "?r = ok (result_of ?r) (snd ?r)" by (rule succeeds_ok)
  from add_remove_benefits [OF perks_world_ok this]
  obtain v' w2 where "removeBenefits ''ty1'' ''ro1'' [''be1'', ''be2''] (snd ?r) = ok v' w2" "rate_option_benefits w2 = []"
    by (auto simp: perks_world_def sample_defs)
  moreover have "length (rate_option_benefits (snd ?r)) = 2" by code_simp
  ultimately show ?thesis by (auto simp: Let_def)
qed

definition raise_price :: update_rate_option_dto where
  "raise_price = (only_policy FREE_CANCELLATION)\<lparr>uo_pricePerNight := Val 150\<rparr>"

theorem stale_price_witness:
  "let w1 = snd (findOne_hotel (shop 5 '''') ''h1'' None sample_world);
       r = update_rate_option (shop 6 '''') ''ty1'' ''ro1'' raise_price w1
   in ro_pricePerNight (rtv_rate (result_of r)) = 15000
      \<and> fst (findOne_hotel (shop 7 '''') ''h1'' None (snd r)) = fst (findOne_hotel (shop 5 '''') ''h1'' None sample_world)"
proof -
  let ?f = "findOne_hotel (shop 5 '''') ''h1'' None sample_world"
  let ?u = "update_rate_option (shop 6 '''') ''ty1'' ''ro1'' raise_price (snd ?f)"
  have "succeeds ?f" by code_simp
  then have f: "?f = ok (result_of ?f) (snd ?f)" by (rule succeeds_ok)
  have "succeeds ?u" by code_simp
  then have u: "?u = ok (result_of ?u) (snd ?u)" by (rule succeeds_ok)
  have c: "cache_get (sh_now (shop 5 '''')) (HotelDetailKey False ''h1'') sample_world = None" by (simp add: cache_get_def sample_defs)
  have t: "sh_now (shop 7 '''') < sh_now (shop 5 '''') + sh_ttl (shop 5 '''')" by (simp add: shop_def)
  have "findOne_hotel (shop 7 '''') ''h1'' None (snd ?u) = ok (result_of ?f) (snd ?u)"
    using stale_price [OF sample_world_ok c f u t] by blast
  moreover have "ro_pricePerNight (rtv_rate (result_of ?u)) = 15000" by code_simp
  ultimately show ?thesis unfolding Let_def using arg_cong [OF f, of fst] by simp
qed

theorem partial_body_loses_deadline_witness:
  "\<exists>u w2. update_rate_option (shop 5 '''') ''ty1'' ''ro1'' (only_policy FREE_CANCELLATION_UNTIL_DEADLINE) perks_world = ok u w2
     \<and> \<not> deadline_given (rtv_rate u)"
proof -
  have n: "ro_deadlineHours sample_rate = None" by (simp add: sample_rate_def)
  have t: "by_id ''ty1'' (room_types perks_world) \<noteq> None" by (simp add: perks_world_def sample_defs by_id_def live_def)
  show ?thesis using partial_body_loses_deadline [OF perks_world_ok perks_rate n t] by blast
qed

end
