(* ===== verification/Room_Facts.thy ===== *)
theory Room_Facts
  imports Catalogue_Facts
begin

text \<open>
  Rooms and room types: creating several rooms at once is creating them one by one; and three places where an operation
  does something else than its caller asked for.
\<close>

section \<open>Several rooms at once\<close>

text \<open>One call of \<open>create\<close> per room, each with its own identifier.\<close>

fun creates :: "shop_env \<Rightarrow> uuid \<Rightarrow> nat \<Rightarrow> create_room_dto list \<Rightarrow> world \<Rightarrow> (unit, world) result" where
  "creates e h n [] w = ok () w"
| "creates e h n (d # ds) w =
     and_then (create_room (e\<lparr>sh_newId := \<lambda>_. sh_newId e n\<rparr>) h d w) (\<lambda>_. creates e h (Suc n) ds)"

definition room_rows :: "shop_env \<Rightarrow> uuid \<Rightarrow> nat \<Rightarrow> create_room_dto list \<Rightarrow> room list" where
  "room_rows e h n dtos = map (\<lambda>(k, dto). room_row e h k dto) (enumerate n dtos)"

lemma room_rows_Cons [simp]:
  "room_rows e h n [] = []" "room_rows e h n (d # ds) = room_row e h n d # room_rows e h (Suc n) ds"
  by (simp_all add: room_rows_def)

lemma room_row_fields [simp]:
  "rm_hotelId (room_row e h n d) = h" "rm_roomNumber (room_row e h n d) = crm_roomNumber d"
  "rm_roomTypeId (room_row e h n d) = crm_roomTypeId d" "entId (room_row e h n d) = sh_newId e n" "live (room_row e h n d)"
  by (simp_all add: room_row_def live_def)

definition insertable :: "uuid \<Rightarrow> room list \<Rightarrow> world \<Rightarrow> bool" where
  "insertable h rs w \<longleftrightarrow>
     by_id h (hotels w) \<noteq> None
     \<and> (\<forall>r \<in> set rs. \<exists>t \<in> set (room_types w). live t \<and> entId t = rm_roomTypeId r \<and> ty_hotelId t = h)
     \<and> distinct (ids (rooms w @ rs)) \<and> distinct (map (\<lambda>r. (rm_hotelId r, rm_roomNumber r)) (rooms w @ rs))"

lemma invalidateRoomLists_tables [simp]:
  "rooms (invalidateRoomLists h now w) = rooms w" "room_types (invalidateRoomLists h now w) = room_types w"
  "hotels (invalidateRoomLists h now w) = hotels w"
  by (simp_all add: invalidateRoomLists_def)

lemma create_room_insertable:
  assumes "insertable h (room_row e h n d # rs) w"
  shows "\<exists>w1. create_room (e\<lparr>sh_newId := \<lambda>_. sh_newId e n\<rparr>) h d w = ok (room_row e h n d) w1
     \<and> rooms w1 = rooms w @ [room_row e h n d] \<and> hotels w1 = hotels w \<and> room_types w1 = room_types w"
proof -
  let ?r = "room_row e h n d"
  have r: "room_row (e\<lparr>sh_newId := \<lambda>_. sh_newId e n\<rparr>) h 0 d = ?r" by (simp add: room_row_def)
  have a: "assertHotelExists h w = ok () w" using assms by (simp add: assert_simps insertable_def)
  have t: "assertRoomTypeBelongsToHotel (crm_roomTypeId d) h w = ok () w"
    using assms unfolding assert_simps insertable_def by simp
  have u: "assertRoomNumberUnique h (crm_roomNumber d) None w = ok () w"
  proof -
    have "(h, crm_roomNumber d) \<notin> (\<lambda>r. (rm_hotelId r, rm_roomNumber r)) ` set (rooms w)"
      using assms by (simp add: insertable_def)
    then show ?thesis by (auto simp: assertRoomNumberUnique_def image_iff)
  qed
  have f: "references h (hotels w)" "references (crm_roomTypeId d) (room_types w)"
    using assms by_id_in_ids [of h "hotels w"] by (auto simp: insertable_def in_ids)
  have "insert_rooms [?r] w = ok () (w\<lparr>rooms := rooms w @ [?r]\<rparr>)"
    using assms f by (auto simp: insert_rooms_def insertable_def)
  then show ?thesis by (simp add: create_room_def a t u Let_def r)
qed

lemma creates_rows:
  "insertable h (room_rows e h n dtos) w \<Longrightarrow>
     \<exists>w'. creates e h n dtos w = ok () w' \<and> rooms w' = rooms w @ room_rows e h n dtos"
proof (induction dtos arbitrary: n w)
  case Nil
  then show ?case by simp
next
  case (Cons d ds)
  then obtain w1 where w1: "create_room (e\<lparr>sh_newId := \<lambda>_. sh_newId e n\<rparr>) h d w = ok (room_row e h n d) w1"
      "rooms w1 = rooms w @ [room_row e h n d]" "hotels w1 = hotels w" "room_types w1 = room_types w"
    using create_room_insertable by fastforce
  have "insertable h (room_rows e h (Suc n) ds) w1"
    using Cons.prems by (simp add: insertable_def w1)
  from Cons.IH [OF this] show ?case by (auto simp: w1)
qed


section \<open>Three surprises\<close>

text \<open>The filter on prices of the room listing always fails: its column does not exist.\<close>

theorem room_price_filter_fails:
  assumes "by_id h (hotels w) \<noteq> None" and "fr_minPrice f \<noteq> None \<or> fr_maxPrice f \<noteq> None"
    and "cache_get (sh_now e) (RoomListKey h f) w = None"
  shows "findAllByHotel_rooms e h f w = throw (QueryFailedError ''42P01'') w"
proof -
  have "assertHotelExists h w = ok () w" using assms(1) by (simp add: assert_simps)
  then show ?thesis using assms(2,3) by (simp add: findAllByHotel_rooms_def Let_def)
qed

lemma update_room_patched:
  assumes "update_room e h i dto w = ok r w'"
  shows "\<exists>r0. room_in h i w = Some r0 \<and> patched_room dto r0 = Inr r"
proof (cases "room_in h i w")
  case None
  then show ?thesis using assms by (auto simp: update_room_def and_then_eq_ok assert_simps)
next
  case (Some r0)
  then show ?thesis
    using assms by (cases "patched_room dto r0") (auto simp: update_room_def and_then_eq_ok assert_simps)
qed

text \<open>A change of a room that does not mention the status makes the room available, whatever its status was.\<close>

theorem room_patch_resets_status:
  assumes "urm_status b = Undef" and "update_room e h i (room_dto_of_body b) w = ok r w'"
  shows "rm_status r = AVAILABLE"
  using assms(1) update_room_patched [OF assms(2)]
  by (auto simp: room_dto_of_body_def patched_room_def also_needs_Inr)

text \<open>Creating a room type with an unknown characteristic is refused, and the room type is there all the same.\<close>

theorem room_type_survives_error:
  assumes "by_id h (hotels w) \<noteq> None" and "to_numeric_10_2 (sh_to_dec e) (ct_areaInSquareFeet dto) = Inr area"
    and "sh_newId e 0 \<notin> set (ids (room_types w))" and "ct_roomCharacteristicIds dto = Some cs" and "c \<in> set cs"
    and "by_id c (room_characteristics w) = None" and "distinct (ids (room_characteristics w))"
  shows "\<exists>w'. create_room_type e h dto w = throw (NotFoundException ''Room characteristic(s) not found'') w'
     \<and> (\<exists>t. room_types w' = room_types w @ [t] \<and> ty_hotelId t = h \<and> ty_name t = ct_name dto)"
proof -
  have "assertHotelExists h w = ok () w" using assms(1) by (simp add: assert_simps)
  moreover have "length (find_all (\<lambda>c. live c \<and> entId c \<in> set cs) (room_characteristics w)) \<noteq> length cs"
    using count_live_iff [OF assms(7), of cs] assms(5,6) by blast
  moreover have "cs \<noteq> []" using assms(5) by auto
  ultimately show ?thesis
    using assms(2-4) by (simp add: create_room_type_def Let_def syncCharacteristics_def)
qed

section \<open>Examples\<close>

definition two_rooms :: "create_room_dto list" where
  "two_rooms =
     [\<lparr>crm_roomTypeId = ''ty1'', crm_roomNumber = ''103'', crm_floorNumber = 1, crm_status = AVAILABLE\<rparr>,
      \<lparr>crm_roomTypeId = ''ty1'', crm_roomNumber = ''104'', crm_floorNumber = 1, crm_status = MAINTENANCE\<rparr>]"


theorem room_price_filter_fails_witness:
  "findAllByHotel_rooms (shop 5 '''') ''h1''
     \<lparr>page = 1, limit = 10, getAll = False, fr_roomTypeId = None, fr_status = None, fr_minPrice = Some 50, fr_maxPrice = None\<rparr> sample_world
   = throw (QueryFailedError ''42P01'') sample_world"
  by (rule room_price_filter_fails) (simp_all add: by_id_def live_def sample_defs cache_get_def)

definition occupied_world :: world where
  "occupied_world = sample_world\<lparr>rooms := [sample_room ''rm1'' ''101'' OCCUPIED]\<rparr>"

definition move_upstairs :: update_room_dto where
  "move_upstairs = \<lparr>urm_roomTypeId = Undef, urm_roomNumber = Undef, urm_floorNumber = Val 2, urm_status = Undef\<rparr>"

theorem room_patch_resets_status_witness:
  "map rm_status (rooms occupied_world) = [OCCUPIED]
   \<and> rm_status (result_of (update_room (shop 5 '''') ''h1'' ''rm1'' (room_dto_of_body move_upstairs) occupied_world)) = AVAILABLE"
proof -
  let ?r = "update_room (shop 5 '''') ''h1'' ''rm1'' (room_dto_of_body move_upstairs) occupied_world"
  have "succeeds ?r" by code_simp
  then have "?r = ok (result_of ?r) (snd ?r)" by (rule succeeds_ok)
  then have "rm_status (result_of ?r) = AVAILABLE"
    using room_patch_resets_status by (metis move_upstairs_def update_room_dto.select_convs(4))
  then show ?thesis by (simp add: occupied_world_def sample_room_def)
qed

theorem room_type_survives_error_witness:
  "\<exists>w'. create_room_type (shop 5 ''ty2'') ''h1''
       \<lparr>ct_name = ''Suite'', ct_description = None, ct_maxOccupancy = 4, ct_bedType = ''KING'', ct_areaInSquareFeet = 500,
        ct_roomCharacteristicIds = Some [''pool'']\<rparr> sample_world
     = throw (NotFoundException ''Room characteristic(s) not found'') w'
     \<and> (\<exists>t. room_types w' = room_types sample_world @ [t] \<and> ty_hotelId t = ''h1'' \<and> ty_name t = ''Suite'')"
proof -
  let ?dto = "\<lparr>ct_name = ''Suite'', ct_description = None, ct_maxOccupancy = 4, ct_bedType = ''KING'', ct_areaInSquareFeet = 500,
        ct_roomCharacteristicIds = Some [''pool'']\<rparr> :: create_room_type_dto"
  have "to_numeric_10_2 (sh_to_dec (shop 5 ''ty2'')) 500 = Inr 50000" by code_simp
  then have "\<exists>w'. create_room_type (shop 5 ''ty2'') ''h1'' ?dto sample_world
       = throw (NotFoundException ''Room characteristic(s) not found'') w'
     \<and> (\<exists>t. room_types w' = room_types sample_world @ [t] \<and> ty_hotelId t = ''h1'' \<and> ty_name t = ct_name ?dto)"
    by (intro room_type_survives_error [where cs = "[''pool'']" and c = "''pool''"])
       (simp_all add: shop_def sample_defs by_id_def live_def)
  then show ?thesis by simp
qed

end
