(* ===== verification/Queries.thy ===== *)
theory Queries
  imports Catalogue_Bodies Accounts Logs Request
begin

text \<open>
  The queries of the list routes: what Express makes of the text behind the question mark, the classes \<open>Filter*Dto\<close> with
  their common \<open>src/src/common/dto/pagination-filter.dto.ts\<close>, and the filter a list service gets from an accepted query.

  Express 5 reads a query with Node's \<open>querystring\<close>: a value is a text, or the list of its texts when its key is repeated.
\<close>

section \<open>A query as a value\<close>

definition query_values :: "string \<Rightarrow> (string \<times> string) list \<Rightarrow> string list" where
  "query_values k kvs = map snd (filter (\<lambda>kv. fst kv = k) kvs)"

definition query_value :: "string list \<Rightarrow> json" where
  "query_value ss = (case ss of [s] \<Rightarrow> JStr s | _ \<Rightarrow> JArr (map JStr ss))"

definition query_json :: "(string \<times> string) list \<Rightarrow> json" where
  "query_json kvs = JObj (map (\<lambda>k. (k, query_value (query_values k kvs))) (rev (remdups (rev (map fst kvs)))))"

section \<open>The classes\<close>

definition by_default :: "json \<Rightarrow> dto_field \<Rightarrow> dto_field" where
  "by_default v f = f\<lparr>dv_default := Some v\<rparr>"

definition PaginationFilterDto :: dto where
  "PaginationFilterDto =
     [by_default (JNum 1) ((may_have ''page'' [IsNumber, Min_Is 1])\<lparr>dv_transform := To_Number\<rparr>),
      by_default (JNum 10) ((may_have ''limit'' [IsNumber, Min_Is 1])\<lparr>dv_transform := To_Number\<rparr>),
      by_default (JBool False) ((may_have ''getAll'' [IsBoolean])\<lparr>dv_transform := Flag\<rparr>)]"

definition flag_filter :: "string \<Rightarrow> dto_field" where
  "flag_filter k = (may_have k [IsBoolean])\<lparr>dv_transform := Flag\<rparr>"

definition ids_filter :: "string \<Rightarrow> dto_field" where
  "ids_filter k = (may_have k [Is_Array, Each_IsUUIDv4])\<lparr>dv_transform := To_Strings\<rparr>"

definition price_filter :: "string \<Rightarrow> decorator list \<Rightarrow> dto_field" where
  "price_filter k ds = (may_have k ([IsNumber, Min_Is 0] @ ds))\<lparr>dv_transform := To_Number\<rparr>"

definition sort_orders :: "(sort_order \<times> string) list" where
  "sort_orders = [(ASC, ''ASC''), (DESC, ''DESC'')]"

definition sort_fields :: "string \<Rightarrow> dto" where
  "sort_fields k =
     [by_default (JStr k) (may_have ''sortBy'' [IsString]),
      by_default (JStr ''DESC'') (may_have ''sortOrder'' [IsIn (map snd sort_orders)])]"

definition FilterHotelDto :: dto where
  "FilterHotelDto = PaginationFilterDto
     @ [may_have ''search'' [IsString], flag_filter ''isActive'', ids_filter ''roomTypeIds'', ids_filter ''roomCharacteristicIds'',
        ids_filter ''rateOptionIds'', ids_filter ''rateOptionBenefitIds'', price_filter ''minPrice'' [], price_filter ''maxPrice'' []]
     @ sort_fields ''createdAt''"

definition FilterRoomDto :: dto where
  "FilterRoomDto = PaginationFilterDto
     @ [may_have ''roomTypeId'' [IsUUIDv4], may_have ''status'' [IsIn (map snd room_statuses)], price_filter ''minPrice'' [],
        price_filter ''maxPrice'' [Max_Is 1000000]]"

definition booking_statuses :: "(booking_status \<times> string) list" where
  "booking_statuses =
     [(B_PENDING, ''PENDING''), (B_CONFIRMED, ''CONFIRMED''), (B_CHECKED_IN, ''CHECKED_IN''), (B_CHECKED_OUT, ''CHECKED_OUT''),
      (B_CANCELLED, ''CANCELLED'')]"

definition FilterBookingDto :: dto where
  "FilterBookingDto =
     PaginationFilterDto @ [may_have ''status'' [IsIn (map snd booking_statuses)]] @ sort_fields ''bookedAt''"

definition payment_statuses :: "(payment_status \<times> string) list" where
  "payment_statuses =
     [(P_PENDING, ''PENDING''), (P_COMPLETED, ''COMPLETED''), (P_FAILED, ''FAILED''), (P_REFUNDED, ''REFUNDED''),
      (P_REFUND_PENDING, ''REFUND_PENDING''), (P_REFUND_FAILED, ''REFUND_FAILED'')]"

definition FilterPaymentDto :: dto where
  "FilterPaymentDto = PaginationFilterDto
     @ [may_have ''status'' [IsIn (map snd payment_statuses)], may_have ''userId'' [IsUUIDv4], may_have ''bookingId'' [IsUUIDv4]]
     @ sort_fields ''createdAt''"

definition FilterRoleDto :: dto where
  "FilterRoleDto = PaginationFilterDto @ [may_have ''search'' [IsString]]"

definition FilterUserDto :: dto where
  "FilterUserDto = PaginationFilterDto
     @ [may_have ''search'' [IsString], flag_filter ''isBanned'', may_have ''startDate'' [IsString], may_have ''endDate'' [IsString]]"

definition FilterAdminDto :: dto where
  "FilterAdminDto = PaginationFilterDto
     @ [may_have ''search'' [IsString], flag_filter ''isBanned'',
        (may_have ''roleId'' [IsString, IsUUIDv4])\<lparr>dv_transform := Trimmed\<rparr>, may_have ''startDate'' [IsString],
        may_have ''endDate'' [IsString]]"

definition log_actions :: "(log_action \<times> string) list" where
  "log_actions =
     [(LOGIN, ''LOGIN''), (LOGOUT, ''LOGOUT''), (REGISTER, ''REGISTER''), (UPDATE_PROFILE, ''UPDATE_PROFILE''),
      (CHANGE_PASSWORD, ''CHANGE_PASSWORD''), (FORGOT_PASSWORD_OTP, ''FORGOT_PASSWORD_OTP''), (L_RESET_PASSWORD, ''RESET_PASSWORD''),
      (ENABLE_TWO_FACTOR, ''ENABLE_TWO_FACTOR''), (DISABLE_TWO_FACTOR, ''DISABLE_TWO_FACTOR''),
      (VERIFY_TWO_FACTOR, ''VERIFY_TWO_FACTOR''), (DELETE_ACCOUNT, ''DELETE_ACCOUNT''), (L_CREATE, ''CREATE''),
      (L_UPDATE, ''UPDATE''), (L_DELETE, ''DELETE'')]"

definition log_statuses :: "(log_status \<times> string) list" where
  "log_statuses = [(SUCCESS, ''SUCCESS''), (FAILURE, ''FAILURE'')]"

definition FilterActivityLogDto :: dto where
  "FilterActivityLogDto = PaginationFilterDto
     @ [may_have ''userId'' [IsString], may_have ''action'' [IsIn (map snd log_actions)], may_have ''resourceType'' [IsString],
        may_have ''resourceId'' [IsString], may_have ''ipAddress'' [IsString], may_have ''device'' [IsString],
        may_have ''location'' [IsString], may_have ''status'' [IsIn (map snd log_statuses)],
        may_have ''startDate'' [IsDateString], may_have ''endDate'' [IsDateString]]
     @ sort_fields ''createdAt''"

definition FilterAuditLogDto :: dto where
  "FilterAuditLogDto = PaginationFilterDto
     @ [may_have ''adminId'' [IsString], may_have ''action'' [IsIn (map snd log_actions)], may_have ''entityName'' [IsString],
        may_have ''entityId'' [IsString], may_have ''ipAddress'' [IsString], may_have ''device'' [IsString],
        may_have ''location'' [IsString], may_have ''status'' [IsIn (map snd log_statuses)],
        may_have ''startDate'' [IsDateString], may_have ''endDate'' [IsDateString]]
     @ sort_fields ''createdAt''"

definition list_classes :: "dto list" where
  "list_classes =
     [FilterHotelDto, FilterRoomDto, FilterBookingDto, FilterPaymentDto, FilterRoleDto, FilterUserDto, FilterAdminDto,
      FilterActivityLogDto, FilterAuditLogDto]"

text \<open>The pipe on a query.  The transformation of \<open>roleId\<close> throws on a list before anything is validated.\<close>

definition query_pipe :: "validators \<Rightarrow> dto \<Rightarrow> (string \<times> string) list \<Rightarrow> exn + (string list + json)" where
  "query_pipe cv d q =
     (if list_ex (\<lambda>f. dv_transform f = Trimmed \<and> trim_throws (field_of (dv_key f) (query_json q))) d
      then Inl (JsError ''value?.trim is not a function'')
      else Inr (ValidationPipe cv d (query_json q)))"

section \<open>The filters\<close>

definition opt_text :: "json \<Rightarrow> string option" where
  "opt_text v = (case v of JStr s \<Rightarrow> Some s | _ \<Rightarrow> None)"

definition opt_number :: "json \<Rightarrow> rat option" where
  "opt_number v = (case v of JNum q \<Rightarrow> Some q | _ \<Rightarrow> None)"

definition opt_flag :: "json \<Rightarrow> bool option" where
  "opt_flag v = (case v of JBool x \<Rightarrow> Some x | _ \<Rightarrow> None)"

definition opt_texts :: "json \<Rightarrow> string list option" where
  "opt_texts v = (case v of JArr xs \<Rightarrow> Some (map text_of_json xs) | _ \<Rightarrow> None)"

definition opt_member :: "('a \<times> string) list \<Rightarrow> json \<Rightarrow> 'a option" where
  "opt_member ms v = Option.bind (opt_text v) (text_member ms)"

text \<open>
  The listings count pages and rows in naturals; a query with a fraction of a page or a row is accepted too, but what the
  database makes of the fraction is not modelled: there is no filter for it.
\<close>

definition whole_number :: "json \<Rightarrow> nat option" where
  "whole_number v =
     (case v of JNum q \<Rightarrow> if 0 \<le> q \<and> of_int \<lfloor>q\<rfloor> = q then Some (nat \<lfloor>q\<rfloor>) else None | _ \<Rightarrow> None)"

definition pagination_of :: "json \<Rightarrow> pagination option" where
  "pagination_of b =
     (case (whole_number (field_of ''page'' b), whole_number (field_of ''limit'' b)) of
        (Some p, Some l) \<Rightarrow> Some \<lparr>page = p, limit = l, getAll = (field_of ''getAll'' b = JBool True)\<rparr>
      | _ \<Rightarrow> None)"

definition hotel_filter :: "json \<Rightarrow> filter_hotel option" where
  "hotel_filter b =
     map_option (\<lambda>p. \<lparr>page = page p, limit = limit p, getAll = getAll p,
        fh_search = opt_text (field_of ''search'' b), fh_isActive = opt_flag (field_of ''isActive'' b),
        fh_roomTypeIds = opt_texts (field_of ''roomTypeIds'' b),
        fh_roomCharacteristicIds = opt_texts (field_of ''roomCharacteristicIds'' b),
        fh_rateOptionIds = opt_texts (field_of ''rateOptionIds'' b),
        fh_rateOptionBenefitIds = opt_texts (field_of ''rateOptionBenefitIds'' b),
        fh_minPrice = opt_number (field_of ''minPrice'' b), fh_maxPrice = opt_number (field_of ''maxPrice'' b),
        fh_sortBy = opt_text (field_of ''sortBy'' b), fh_sortOrder = opt_member sort_orders (field_of ''sortOrder'' b)\<rparr>)
       (pagination_of b)"

definition room_filter :: "json \<Rightarrow> filter_room option" where
  "room_filter b =
     map_option (\<lambda>p. \<lparr>page = page p, limit = limit p, getAll = getAll p,
        fr_roomTypeId = opt_text (field_of ''roomTypeId'' b), fr_status = opt_member room_statuses (field_of ''status'' b),
        fr_minPrice = opt_number (field_of ''minPrice'' b), fr_maxPrice = opt_number (field_of ''maxPrice'' b)\<rparr>)
       (pagination_of b)"

definition booking_filter :: "json \<Rightarrow> filter_booking option" where
  "booking_filter b =
     map_option (\<lambda>p. \<lparr>page = page p, limit = limit p, getAll = getAll p,
        fb_status = opt_member booking_statuses (field_of ''status'' b), fb_sortBy = opt_text (field_of ''sortBy'' b),
        fb_sortOrder = opt_member sort_orders (field_of ''sortOrder'' b)\<rparr>)
       (pagination_of b)"

definition payment_filter :: "json \<Rightarrow> filter_payment option" where
  "payment_filter b =
     map_option (\<lambda>p. \<lparr>page = page p, limit = limit p, getAll = getAll p,
        fp_status = opt_member payment_statuses (field_of ''status'' b), fp_userId = opt_text (field_of ''userId'' b),
        fp_bookingId = opt_text (field_of ''bookingId'' b), fp_sortBy = opt_text (field_of ''sortBy'' b),
        fp_sortOrder = opt_member sort_orders (field_of ''sortOrder'' b)\<rparr>)
       (pagination_of b)"

text \<open>
  The filters of the accounts have two dates, texts that \<open>dayjs\<close> reads: how it reads one is an argument, and there is no
  filter for a text that is no date.  An empty text is no condition.
\<close>

definition date_bound :: "(string \<Rightarrow> range_date option) \<Rightarrow> json \<Rightarrow> range_date option option" where
  "date_bound read v =
     (case v of JStr s \<Rightarrow> if s = '''' then Some None else map_option Some (read s) | _ \<Rightarrow> Some None)"

definition account_query :: "(string \<Rightarrow> range_date option) \<Rightarrow> json \<Rightarrow> account_filter option" where
  "account_query read b =
     (case (pagination_of b, date_bound read (field_of ''startDate'' b), date_bound read (field_of ''endDate'' b)) of
        (Some p, Some from, Some until) \<Rightarrow>
          Some \<lparr>page = page p, limit = limit p, getAll = getAll p, af_search = opt_text (field_of ''search'' b),
                af_isBanned = opt_flag (field_of ''isBanned'' b), af_roleId = opt_text (field_of ''roleId'' b),
                af_startDate = from, af_endDate = until\<rparr>
      | _ \<Rightarrow> None)"

end
