(* ===== verification/Query_Facts.thy ===== *)
theory Query_Facts
  imports Queries Serving
begin

text \<open>
  What an accepted query guarantees to a list service, how the queries a client writes are read, and the list of the users
  from the query to the envelope.
\<close>

section \<open>Fields of a query\<close>

lemma query_value_cases: "(\<exists>s. query_value ss = JStr s) \<or> query_value ss = JArr (map JStr ss)"
  by (auto simp: query_value_def split: list.split)

lemma map_of_keys: "map_of (map (\<lambda>k. (k, g k)) ks) k = (if k \<in> set ks then Some (g k) else None)"
  by (induction ks) auto

lemma query_fields:
  "has_field k (query_json q) \<longleftrightarrow> k \<in> fst ` set q"
  "field_of k (query_json q) = (if k \<in> fst ` set q then query_value (query_values k q) else JUndef)"
  by (auto simp: query_json_def has_field_def field_of_def map_of_keys image_image)

definition initial_value :: "dto \<Rightarrow> string \<Rightarrow> json option" where
  "initial_value d k = Option.bind (find_one (\<lambda>f. dv_key f = k \<and> dv_default f \<noteq> None) d) dv_default"

lemma map_of_defaults: "map_of (defaults d j) k = (if has_field k j then None else initial_value d k)"
  by (induction d) (auto simp: defaults_def initial_value_def split: option.splits)

text \<open>A field after the transformation: the value of the body or the initialiser of the class.\<close>

lemma field_after:
  "field_of k (transformed d j) =
     (if has_field k j then transform_value (transform_of d k) (field_of k j)
      else nullish (initial_value d k) JUndef)"
proof (cases "has_field k j")
  case True
  then obtain v where "map_of (entries j) k = Some v" by (auto simp: has_field_def image_iff dest: weak_map_of_SomeI)
  then show ?thesis
    using True by (simp add: transformed_def field_of_def map_add_Some_iff map_of_defaults map_of_transformed map_add_def)
next
  case False
  then have "map_of (entries j) k = None" by (simp add: has_field_def map_of_eq_None_iff)
  then show ?thesis
    using False
    by (simp add: transformed_def field_of_def map_of_defaults map_of_transformed map_add_def nullish_def split: option.split)
qed

section \<open>Pages\<close>

text \<open>Every class of a list begins with the fields of the pages.\<close>

lemma list_class_pages: "d \<in> set list_classes \<Longrightarrow> \<exists>fs. d = PaginationFilterDto @ fs"
  by (auto simp: list_classes_def FilterHotelDto_def FilterRoomDto_def FilterBookingDto_def FilterPaymentDto_def
      FilterRoleDto_def FilterUserDto_def FilterAdminDto_def FilterActivityLogDto_def FilterAuditLogDto_def)

lemmas query_class_defs =
  PaginationFilterDto_def by_default_def flag_filter_def ids_filter_def price_filter_def sort_fields_def needs_def may_have_def

lemma page_fields:
  "transform_of (PaginationFilterDto @ fs) ''page'' = To_Number" "transform_of (PaginationFilterDto @ fs) ''limit'' = To_Number"
  "transform_of (PaginationFilterDto @ fs) ''getAll'' = Flag"
  "initial_value (PaginationFilterDto @ fs) ''page'' = Some (JNum 1)"
  "initial_value (PaginationFilterDto @ fs) ''limit'' = Some (JNum 10)"
  "initial_value (PaginationFilterDto @ fs) ''getAll'' = Some (JBool False)"
  by (simp_all add: transform_of_def initial_value_def query_class_defs)

lemma number_value_query: "number_value (query_value ss) \<noteq> JUndef" "number_value (query_value ss) \<noteq> JNull"
  using query_value_cases [of ss] by (auto simp: number_value_def number_of_json_def split: option.splits)

text \<open>Whatever the query of a list says, a page and a limit that get through are at least one.\<close>

theorem pages_positive:
  assumes "documented cv" and "d \<in> set list_classes" and "ValidationPipe cv d (query_json q) = Inr b"
  shows "\<exists>p l. field_of ''page'' b = JNum p \<and> 1 \<le> p \<and> field_of ''limit'' b = JNum l \<and> 1 \<le> l
    \<and> field_of ''getAll'' b \<in> {JUndef, JBool True, JBool False}"
proof -
  obtain fs where d: "d = PaginationFilterDto @ fs" using list_class_pages [OF assms(2)] by blast
  have b: "b = transformed d (query_json q)" and ok: "\<And>f. f \<in> set d \<Longrightarrow> field_accepts cv b f"
    using assms(3) by (auto simp: pipe_accepts)
  have nums: "field_of k b \<noteq> JUndef \<and> field_of k b \<noteq> JNull" if "k \<in> {''page'', ''limit''}" for k
    using that number_value_query by (auto simp: b d field_after page_fields query_fields transform_value_def nullish_def)
  have "field_accepts cv b (PaginationFilterDto ! 0)" "field_accepts cv b (PaginationFilterDto ! 1)"
    by (rule ok, simp add: d PaginationFilterDto_def)+
  then obtain p l where "field_of ''page'' b = JNum p" "1 \<le> p" "field_of ''limit'' b = JNum l" "1 \<le> l"
    using nums [of "''page''"] nums [of "''limit''"]
    by (auto simp: field_accepts_def Let_def query_class_defs documented_simps [OF assms(1)])
  moreover have "field_of ''getAll'' b \<in> {JUndef, JBool True, JBool False}"
    by (auto simp: b d field_after page_fields transform_value_def flag_value_def nullish_def)
  ultimately show ?thesis by blast
qed

lemma whole_number_pos: "whole_number (JNum q) = Some n \<Longrightarrow> 1 \<le> q \<Longrightarrow> 1 \<le> n"
  by (auto simp: whole_number_def le_nat_iff le_floor_iff split: if_splits)

lemma filter_pages_positive:
  assumes "documented cv" and "d \<in> set list_classes" and "ValidationPipe cv d (query_json q) = Inr b"
    and "pagination_of b = Some p"
  shows "1 \<le> page p \<and> 1 \<le> limit p"
  using pages_positive [OF assms(1-3)] assms(4)
  by (auto simp: pagination_of_def dest: whole_number_pos split: option.splits)

section \<open>Odd queries\<close>

text \<open>A role given twice is a list, which has no \<open>trim\<close>: the request ends as an error of the server, not of the client.\<close>

theorem repeated_role_throws:
  "query_pipe cv FilterAdminDto [(''roleId'', r), (''roleId'', s)] = Inl (JsError ''value?.trim is not a function'')
   \<and> er_statusCode (error_reply (thrown_of (JsError ''value?.trim is not a function'') None None)) = 500"
  by (simp add: query_pipe_def query_json_def query_values_def query_value_def field_of_def trim_throws_def FilterAdminDto_def
      query_class_defs reply_status all_filter_def)

text \<open>A fraction of a page is accepted, and so is a wish for everything that is neither yes nor no; it counts as none.\<close>

lemma one_and_a_half: "js_Number ''1.5'' = Some (3 / 2)"
  by code_simp

theorem odd_pages_accepted:
  assumes "documented cv"
  shows "\<exists>b. ValidationPipe cv FilterRoleDto (query_json [(''page'', ''1.5''), (''getAll'', ''perhaps'')]) = Inr b
    \<and> field_of ''page'' b = JNum (3 / 2) \<and> field_of ''limit'' b = JNum 10 \<and> \<not> js_truthy (field_of ''getAll'' b)"
proof -
  let ?j = "query_json [(''page'', ''1.5''), (''getAll'', ''perhaps'')]"
  let ?b = "JObj [(''limit'', JNum 10), (''page'', JNum (3 / 2)), (''getAll'', JUndef)]"
  have j: "?j = JObj [(''page'', JStr ''1.5''), (''getAll'', JStr ''perhaps'')]"
    by (simp add: query_json_def query_values_def query_value_def)
  have b: "transformed FilterRoleDto ?j = ?b"
    by (simp add: j transformed_def defaults_def has_field_def FilterRoleDto_def query_class_defs transform_of_def
        transform_value_def number_value_def number_of_json_def flag_value_def one_and_a_half)
  have "\<exists>q. q * 2 = (3 :: rat) \<and> 1 \<le> q" by (rule exI [of _ "3 / 2"]) simp
  then have "\<forall>f \<in> set FilterRoleDto. field_accepts cv ?b f"
    by (auto simp add: FilterRoleDto_def query_class_defs field_accepts_def Let_def field_of_def documented_simps [OF assms])
  moreover have "fst ` set (entries ?j) \<subseteq> dv_key ` set FilterRoleDto"
    by (simp add: j FilterRoleDto_def query_class_defs)
  ultimately have "ValidationPipe cv FilterRoleDto ?j = Inr ?b" by (simp add: pipe_accepts b)
  then show ?thesis by (intro exI [of _ ?b]) (simp add: field_of_def)
qed

text \<open>Identifiers in one text are separated at the commas, without the blanks around them.\<close>

lemma separated_ids:
  assumes "xs \<noteq> []" and "\<forall>i \<in> set xs. CHR '','' \<notin> set i \<and> js_trim i = i \<and> i \<noteq> ''''"
  shows "toStringArray (JStr (js_join (CHR '','') xs)) = JArr (map JStr xs)"
proof -
  have "js_split (CHR '','') (js_join (CHR '','') xs) = xs" by (rule js_split_join) (use assms in auto)
  moreover have "map js_trim xs = xs" "filter (\<lambda>s. s \<noteq> '''') xs = xs" using assms(2) by (auto intro: map_idI simp: filter_id_conv)
  moreover have "js_join (CHR '','') xs \<noteq> ''''"
    using assms by (cases xs) (simp_all add: js_join_def)
  ultimately show ?thesis by (simp add: toStringArray_def trimmed_texts_def)
qed

section \<open>The list of the users\<close>

text \<open>
  The route from its query to its answer.  A \<open>GET\<close> has no body that anything reads: the query takes its place before the
  pipe.  \<open>beyond\<close> is what the database answers to a fraction of a row or to a date that is none.
\<close>

definition list_users_route :: route where
  "list_users_route = user_routes ! 1"

definition users_handler ::
  "(string \<Rightarrow> range_date option) \<Rightarrow> (json \<Rightarrow> world \<Rightarrow> (json, world) result) \<Rightarrow> authenticated_user option \<Rightarrow> json \<Rightarrow> world
   \<Rightarrow> (json, world) result" where
  "users_handler read beyond caller b w =
     (case account_query read b of None \<Rightarrow> beyond b w | Some f \<Rightarrow> ok (paged_json shown_user (findAll_users f w)) w)"

definition serve_users ::
  "validators \<Rightarrow> ext \<Rightarrow> (string \<Rightarrow> string option) \<Rightarrow> string \<Rightarrow> (string \<Rightarrow> range_date option)
   \<Rightarrow> (json \<Rightarrow> world \<Rightarrow> (json, world) result) \<Rightarrow> string option \<Rightarrow> http_request \<Rightarrow> world \<Rightarrow> reply \<times> world" where
  "serve_users cv e sign t read beyond token rq w =
     serve cv e sign t False 0 list_users_route (Some FilterUserDto) (users_handler read beyond) token
       (rq\<lparr>rq_body := query_json (rq_query rq)\<rparr>) w"

definition search_request :: "string \<Rightarrow> nat \<Rightarrow> nat \<Rightarrow> http_request" where
  "search_request needle number per =
     sample_request\<lparr>rq_method := ''GET'',
       rq_query := [(''page'', show_nat number), (''limit'', show_nat per), (''search'', needle)]\<rparr>"

definition users_with :: "string \<Rightarrow> account_filter" where
  "users_with needle =
     \<lparr>page = 1, limit = 10, getAll = False, af_search = Some needle, af_isBanned = None, af_roleId = None, af_startDate = None,
      af_endDate = None\<rparr>"

lemma list_users_fields [simp]:
  "rt_presigned list_users_route = [''profileImageUrl'']" "rt_status list_users_route = 200" "rt_timeout list_users_route = 10000"
  by (simp_all add: list_users_route_def user_routes_def guarded_route_def plain_route_def)

text \<open>The query is read back.\<close>

lemma search_query_accepted:
  assumes "documented cv" and "0 < number" and "0 < per" and "number \<le> 2 ^ 53" and "per \<le> 2 ^ 53"
  shows "\<exists>b. ValidationPipe cv FilterUserDto (query_json (rq_query (search_request needle number per))) = Inr b
    \<and> account_query read b = Some ((users_with needle)\<lparr>page := number, limit := per\<rparr>)"
proof -
  let ?j = "query_json (rq_query (search_request needle number per))"
  let ?b = "JObj [(''getAll'', JBool False), (''page'', JNum (of_nat number)), (''limit'', JNum (of_nat per)), (''search'', JStr needle)]"
  have j: "?j = JObj [(''page'', JStr (show_nat number)), (''limit'', JStr (show_nat per)), (''search'', JStr needle)]"
    by (simp add: search_request_def query_json_def query_values_def query_value_def)
  have b: "transformed FilterUserDto ?j = ?b"
    using js_Number_show_nat [OF assms(4)] js_Number_show_nat [OF assms(5)]
    by (simp add: j transformed_def defaults_def has_field_def FilterUserDto_def query_class_defs transform_of_def
        transform_value_def number_value_def number_of_json_def)
  have "\<forall>f \<in> set FilterUserDto. field_accepts cv ?b f"
    using assms(2,3)
    by (simp add: FilterUserDto_def query_class_defs field_accepts_def Let_def field_of_def documented_simps [OF assms(1)]) blast
  moreover have "fst ` set (entries ?j) \<subseteq> dv_key ` set FilterUserDto"
    by (simp add: j FilterUserDto_def query_class_defs)
  ultimately have "ValidationPipe cv FilterUserDto ?j = Inr ?b" by (simp add: pipe_accepts b)
  moreover have "account_query read ?b = Some ((users_with needle)\<lparr>page := number, limit := per\<rparr>)"
    by (simp add: account_query_def pagination_of_def field_of_def whole_number_def date_bound_def opt_text_def opt_flag_def
        users_with_def)
  ultimately show ?thesis by blast
qed

lemma users_listing_pages: "users_listing (f\<lparr>page := number, limit := per\<rparr>) w = users_listing f w"
proof -
  have "fits_user (f\<lparr>page := number, limit := per\<rparr>) = fits_user f" by (simp add: fun_eq_iff fits_user_def)
  then show ?thesis by (simp add: users_listing_def)
qed

lemma search_request_page:
  "map_of (rq_query (search_request needle number per)) ''page'' = Some (show_nat number)"
  "map_of (rq_query (search_request needle number per)) ''limit'' = Some (show_nat per)"
  by (simp_all add: search_request_def)

lemma users_served:
  assumes "documented cv" and "authorize e False list_users_route token w = Inr caller"
    and "0 < number" and "0 < per" and "number \<le> 2 ^ 53" and "per \<le> 2 ^ 53"
  shows "\<exists>envelope. serve_users cv e sign t read beyond token (search_request needle number per) w = (Sent 200 envelope, w)
    \<and> field_of ''data'' envelope = JArr (map (\<lambda>u. transformFields sign [''profileImageUrl''] (shown_user u))
        (take_page number per (users_listing (users_with needle) w)))
    \<and> field_of ''totalPages'' (field_of ''meta'' envelope) = JNum (of_nat (total_pages (length (users_listing (users_with needle) w)) per))"
proof -
  let ?rq = "search_request needle number per" and ?f = "(users_with needle)\<lparr>page := number, limit := per\<rparr>"
  obtain b where b: "ValidationPipe cv FilterUserDto (query_json (rq_query ?rq)) = Inr b"
      "account_query read b = Some ?f"
    using search_query_accepted [OF assms(1,3-6)] by blast
  have same: "users_listing ?f w = users_listing (users_with needle) w" by (simp add: users_listing_pages)
  have found: "findAll_users ?f w = (take_page number per (users_listing (users_with needle) w), length (users_listing (users_with needle) w))"
    by (simp add: findAll_users_def get_many_and_count_def same) (simp add: users_with_def)
  let ?rows = "map shown_user (take_page number per (users_listing (users_with needle) w))"
  let ?paged = "paginated t ?rows (length (users_listing (users_with needle) w)) number per"
  have "serve_users cv e sign t read beyond token ?rq w
      = (Sent 200 (answer sign (Some [''profileImageUrl'']) t (?rq\<lparr>rq_body := query_json (rq_query ?rq)\<rparr>) 200
          (paged_json shown_user (findAll_users ?f w))), w)"
    unfolding serve_users_def
    by (subst sent_envelope [OF assms(2), where body = b])
      (simp_all add: piped_def b users_handler_def)
  moreover have "intercept_response t (?rq\<lparr>rq_body := query_json (rq_query ?rq)\<rparr>) 200 (paged_json shown_user (findAll_users ?f w)) = ?paged"
    unfolding found by (rule paged_answer) (use assms(3,4) search_request_page in simp_all)
  moreover have "field_of ''meta'' (intercept_presigned sign (Some [''profileImageUrl'']) ?paged) = field_of ''meta'' ?paged"
    by (simp add: intercept_presigned_def paginated_def api_success_def field_of_def)
  ultimately show ?thesis by (simp add: answer_def signed_rows o_def)
qed

definition envelope_of :: "reply \<Rightarrow> json" where
  "envelope_of r = (case r of Sent _ j \<Rightarrow> j | Refused _ \<Rightarrow> JUndef)"

definition contains_text :: "string \<Rightarrow> string option \<Rightarrow> bool" where
  "contains_text needle column \<longleftrightarrow> (\<exists>s. column = Some s \<and> sublist (map to_lower needle) (map to_lower s))"

lemma searched_users:
  assumes "needle \<noteq> ''''" and "set needle \<inter> wildcards = {}"
  shows "u \<in> set (users_listing (users_with needle) w) \<longleftrightarrow>
    u \<in> set (users w) \<and> live u \<and> (contains_text needle (u_fullName u) \<or> contains_text needle (u_email u))"
proof -
  have "fits_search needle column \<longleftrightarrow> contains_text needle column" for column
    by (cases column) (simp_all add: fits_search_def contains_text_def literal_search [OF assms(2)])
  then show ?thesis
    using assms(1) by (auto simp: users_listing_def fits_user_def users_with_def in_range_def truthy_def)
qed


text \<open>The witness: an administrator who may read the users looks for ''Guest'' on pages of one.\<close>

definition reception :: world where
  "reception = sample_world
     \<lparr>roles := [\<lparr>entId = ''superadmin'', createdAt = 0, deletedAt = None, r_name = ''Super'', r_description = None, r_rank = 1\<rparr>],
      modules := [bookings_module\<lparr>m_code := M_APPLICATION_USER\<rparr>], permissions := [sample_permission ''p1'' READ],
      role_permissions := [\<lparr>rp_roleId = ''superadmin'', rp_permissionId = ''p1''\<rparr>]\<rparr>"

lemma reception_facts:
  "length (users reception) < 2 ^ 53" "set ''gUE'' \<inter> wildcards = {}"
  "\<exists>caller. authorize (plain_ext 5) False list_users_route (Some ''Aa1'') reception = Inr caller"
proof -
  have "case_sum (\<lambda>_. False) (\<lambda>_. True) (authorize (plain_ext 5) False list_users_route (Some ''Aa1'') reception)" by code_simp
  then show "\<exists>caller. authorize (plain_ext 5) False list_users_route (Some ''Aa1'') reception = Inr caller"
    by (auto split: sum.splits)
qed (simp_all add: reception_def sample_world_def wildcards_def)

lemma guest_found: "contains_text ''gUE'' (u_fullName (sample_user i p))"
proof -
  have "sublist (map to_lower ''gUE'') (map to_lower ''Guest'')" by code_simp
  then show ?thesis by (simp add: contains_text_def sample_user_def)
qed


end
