(* ===== verification/Reset.thy ===== *)
theory Reset
  imports Seeding_Runs Entity_Schema Hotels Sample
begin

text \<open>
  \<open>npm run db:reset\<close>: the script \<open>src/src/seeders/clear.ts\<close>, which truncates every table but the one of the migrations,
  followed by the seeders.  The catalogue of PostgreSQL lists the tables in no order that is promised, so their list is an
  argument.  The sequences that \<open>RESTART IDENTITY\<close> resets belong to columns the model leaves out.
\<close>

section \<open>Truncation\<close>

text \<open>The rows of a table when the tables of a set have been emptied.\<close>

definition rows_after :: "string set \<Rightarrow> string \<Rightarrow> 'r list \<Rightarrow> 'r list" where
  "rows_after T t rs = (if t \<in> T then [] else rs)"

definition emptied :: "string set \<Rightarrow> world \<Rightarrow> world" where
  "emptied T w = w
     \<lparr>users := rows_after T ''users'' (users w), admins := rows_after T ''admins'' (admins w),
      modules := rows_after T ''modules'' (modules w),
      permissions := rows_after T ''permissions'' (permissions w), roles := rows_after T ''roles'' (roles w),
      role_permissions := rows_after T ''role_permissions'' (role_permissions w),
      refresh_tokens := rows_after T ''refresh_tokens'' (refresh_tokens w),
      otp_records := rows_after T ''otp_records'' (otp_records w), hotels := rows_after T ''hotels'' (hotels w),
      room_types := rows_after T ''room_types'' (room_types w), rooms := rows_after T ''rooms'' (rooms w),
      room_characteristics := rows_after T ''room_characteristics'' (room_characteristics w),
      room_type_characteristics := rows_after T ''room_type_characteristics'' (room_type_characteristics w),
      rate_options := rows_after T ''rate_options'' (rate_options w),
      benefits := rows_after T ''benefits'' (benefits w),
      rate_option_benefits := rows_after T ''rate_option_benefits'' (rate_option_benefits w),
      bookings := rows_after T ''bookings'' (bookings w),
      booking_rooms := rows_after T ''booking_rooms'' (booking_rooms w),
      payments := rows_after T ''payments'' (payments w), settings := rows_after T ''settings'' (settings w),
      activity_logs := rows_after T ''activity_logs'' (activity_logs w),
      audit_logs := rows_after T ''audit_logs'' (audit_logs w)\<rparr>"

text \<open>\<open>CASCADE\<close>: the tables with a foreign key to one of these, and so on; a chain has no more links than there are
  tables.\<close>

definition referring :: "entity list \<Rightarrow> string list \<Rightarrow> string list" where
  "referring ens ts = map en_table (filter (\<lambda>en. list_ex (\<lambda>(c, t, d). t \<in> set ts) (en_relations en)) ens)"

fun cascade :: "nat \<Rightarrow> entity list \<Rightarrow> string list \<Rightarrow> string list" where
  "cascade 0 ens ts = ts"
| "cascade (Suc n) ens ts = cascade n ens (remdups (ts @ referring ens ts))"

definition truncate_cascade :: "entity list \<Rightarrow> string \<Rightarrow> world \<Rightarrow> world" where
  "truncate_cascade ens t w = emptied (set (cascade (length ens) ens [t])) w"

definition clearDatabase :: "entity list \<Rightarrow> string list \<Rightarrow> world \<Rightarrow> world" where
  "clearDatabase ens tables w = fold (truncate_cascade ens) (filter (\<lambda>t. t \<noteq> ''migrations'') tables) w"

definition no_rows :: "world \<Rightarrow> world" where
  "no_rows w = empty_world\<lparr>the_cache := the_cache w, effects := effects w\<rparr>"

section \<open>Facts\<close>

text \<open>A table that was emptied stays empty.\<close>

lemma rows_after_simps [simp]:
  "rows_after {} t rs = rs" "rows_after T t (rows_after U t rs) = rows_after (U \<union> T) t rs"
  by (simp_all add: rows_after_def)

lemma emptied_none: "emptied {} w = w"
  by (simp add: emptied_def)

lemma truncate_emptied: "truncate_cascade ens t (emptied T w) = emptied (T \<union> set (cascade (length ens) ens [t])) w"
  by (simp add: truncate_cascade_def emptied_def)

lemma clear_emptied:
  "clearDatabase ens ts w
     = emptied (\<Union>t \<in> set ts - {''migrations''}. set (cascade (length ens) ens [t])) w"
proof -
  have "fold (truncate_cascade ens) us (emptied T w) = emptied (T \<union> (\<Union>t \<in> set us. set (cascade (length ens) ens [t]))) w" for us T
    by (induction us arbitrary: T) (simp_all add: truncate_emptied Un_assoc)
  from this [of "filter (\<lambda>t. t \<noteq> ''migrations'') ts" "{}"]
  show ?thesis by (simp add: clearDatabase_def emptied_none set_diff_eq)
qed

lemma cascade_extends: "set ts \<subseteq> set (cascade n ens ts)"
proof (induction n arbitrary: ts)
  case (Suc n)
  then show ?case using Suc.IH [of "remdups (ts @ referring ens ts)"] by auto
qed simp

lemma entity_tables:
  "map en_table entities =
     [''modules'', ''permissions'', ''role_permissions'', ''roles'', ''admins'', ''refresh_tokens'', ''otp_records'', ''users'',
      ''settings'', ''audit_logs'', ''activity_logs'', ''hotels'', ''room_characteristics'', ''room_type_characteristics'',
      ''room_types'', ''rooms'', ''benefits'', ''rate_option_benefits'', ''rate_options'', ''bookings'', ''booking_rooms'',
      ''payments'']"
  by code_simp

lemma all_emptied:
  assumes "set (map en_table entities) \<subseteq> T"
  shows "emptied T w = no_rows w"
proof -
  have "\<forall>t \<in> set (map en_table entities). t \<in> T" using assms by blast
  then have "''users'' \<in> T" "''admins'' \<in> T" "''modules'' \<in> T" "''permissions'' \<in> T" "''roles'' \<in> T" "''role_permissions'' \<in> T"
      "''refresh_tokens'' \<in> T" "''otp_records'' \<in> T" "''hotels'' \<in> T" "''room_types'' \<in> T" "''rooms'' \<in> T"
      "''room_characteristics'' \<in> T" "''room_type_characteristics'' \<in> T" "''rate_options'' \<in> T" "''benefits'' \<in> T"
      "''rate_option_benefits'' \<in> T" "''bookings'' \<in> T" "''booking_rooms'' \<in> T" "''payments'' \<in> T" "''settings'' \<in> T"
      "''activity_logs'' \<in> T" "''audit_logs'' \<in> T"
    unfolding entity_tables by simp_all
  then show ?thesis by (simp add: emptied_def rows_after_def no_rows_def empty_world_def)
qed

lemma database_cleared:
  assumes "set (map en_table entities) \<subseteq> set ts"
  shows "clearDatabase entities ts w = no_rows w"
  unfolding clear_emptied
proof (rule all_emptied, rule subsetI)
  fix t assume t: "t \<in> set (map en_table entities)"
  then have "t \<noteq> ''migrations''" unfolding entity_tables by auto
  moreover have "t \<in> set (cascade (length entities) entities [t])" using cascade_extends [of "[t]"] by auto
  ultimately show "t \<in> (\<Union>t \<in> set ts - {''migrations''}. set (cascade (length entities) entities [t]))"
    using t assms by blast
qed

text \<open>One truncation reaches further than its table: without the users there are no bookings, stays and payments.\<close>

lemma users_cascade:
  "set [''refresh_tokens'', ''bookings'', ''booking_rooms'', ''payments''] \<subseteq> set (cascade (length entities) entities [''users''])"
  by code_simp

section \<open>The reset\<close>

text \<open>C35: the database can be reset from any state: whatever its rows are and in whatever order its catalogue lists the
  tables, clearing leaves every table empty, and on the cleared database every seeder returns.\<close>

theorem reset_succeeds:
  assumes "fresh_ids en" and "set ts = insert ''migrations'' (set (map en_table entities))"
  shows "clearDatabase entities ts w = no_rows w
    \<and> (\<exists>v. runSeeders en account secret from_name (clearDatabase entities ts w) = ok () v)"
proof -
  have c: "clearDatabase entities ts w = no_rows w" by (rule database_cleared) (use assms(2) in auto)
  have "tidy (no_rows w)" by (simp add: tidy_def rooted_def no_rows_def empty_world_def)
  then show ?thesis using runs_runSeeders [OF assms(1)] c unfolding runs_def by fastforce
qed

text \<open>The script has no hand on Redis: until they expire, the cached lists show what is no longer there.\<close>

theorem reset_keeps_lists:
  assumes "cache_get (sh_now e) (HotelListKey False f) w = Some (VHotels items tot)"
    and "set (map en_table entities) \<subseteq> set ts"
  shows "hotels (clearDatabase entities ts w) = []
    \<and> findAll_hotels e f None (clearDatabase entities ts w) = ok (items, tot) (clearDatabase entities ts w)"
proof -
  have "cache_get (sh_now e) (HotelListKey False f) (no_rows w) = Some (VHotels items tot)"
    using assms(1) by (simp add: cache_get_def no_rows_def)
  then show ?thesis
    unfolding database_cleared [OF assms(2)]
    by (simp add: findAll_hotels_def caller_is_admin_def Let_def) (simp add: no_rows_def empty_world_def)
qed

theorem reset_succeeds_witness:
  "\<exists>v. runSeeders seed_env ''mail'' ''key'' None (clearDatabase entities (''migrations'' # map en_table entities) sample_world) = ok () v"
  using reset_succeeds [OF seed_env_fresh, of "''migrations'' # map en_table entities"] by fastforce

end
